(* ===== verification/Prelude.thy ===== *)
theory Prelude
  imports Complex_Main "HOL-Library.Char_ord" "HOL-Library.AList"
begin

text \<open>
  Shared vocabulary of the development.
  \<^item> A Python computation over a world \<open>'w\<close> (Redis, the database, the job queue, ...) is a
    function \<open>'w \<Rightarrow> (exn + 'a) \<times> 'w\<close>: it returns a value (\<open>Inr\<close>) or raises (\<open>Inl\<close>), and the
    effects made before the exception stay.
  \<^item> \<open>ret\<close>, \<open>raise\<close>, \<open>bnd\<close>, \<open>try_except\<close> are \<open>return\<close>, \<open>raise\<close>, sequencing and
    \<open>try ... except Exception\<close>.
  \<^item> Python strings are \<open>string\<close>; a character stands for a code point below 256.
  \<^item> \<open>str(int)\<close> and \<open>int(str)\<close> are \<open>py_str_int\<close> and \<open>py_int_str\<close>, with their round trip.
\<close>

named_theorems py_run \<open>evaluation rules of the computation combinators\<close>
named_theorems py_str \<open>facts about strings shared by the components\<close>

section \<open>Exceptions and computations\<close>

text \<open>Python objects, for the values a program passes around.\<close>

datatype pyval =
    PNone
  | PBool bool
  | PInt int
  | PFloat rat
  | PStr string
  | PList "pyval list"
  | PDict "(string \<times> pyval) list"
  | PObj "(string \<times> pyval) list"
    \<comment> \<open>an object of another class: the attributes \<open>getattr\<close> finds\<close>

datatype exn =
    HTTPException int string
  | IntegrityError
  | ValueError string
  | TypeError
  | TimeoutError
  | RuntimeError string
  | IndexError
  | HTTPStatusError int
  | HttpxTimeout string
  | EmailProviderNotConfiguredError
  | ResendEmailTransportError string string
  | RHEONICValidationError string
  | RHEONICBlockedError string string string "string option" "int option" "(string \<times> pyval) list option"
    \<comment> \<open>reason, trace id, request id, blocked until, retry after, snapshot\<close>
  | BackendError string
    \<comment> \<open>any other exception of a third-party client (Redis, database, HTTP)\<close>

type_synonym ('w, 'a) py = "'w \<Rightarrow> (exn + 'a) \<times> 'w"

definition ret :: "'a \<Rightarrow> ('w, 'a) py" where
  "ret a = (\<lambda>w. (Inr a, w))"

definition raise :: "exn \<Rightarrow> ('w, 'a) py" where
  "raise e = (\<lambda>w. (Inl e, w))"

definition bnd :: "('w, 'a) py \<Rightarrow> ('a \<Rightarrow> ('w, 'b) py) \<Rightarrow> ('w, 'b) py" where
  "bnd m f = (\<lambda>w. case m w of (Inl e, w') \<Rightarrow> (Inl e, w') | (Inr a, w') \<Rightarrow> f a w')"

definition try_except :: "('w, 'a) py \<Rightarrow> (exn \<Rightarrow> ('w, 'a) py) \<Rightarrow> ('w, 'a) py" where
  "try_except m h = (\<lambda>w. case m w of (Inl e, w') \<Rightarrow> h e w' | (Inr a, w') \<Rightarrow> (Inr a, w'))"

text \<open>A statement list run for its effects.\<close>

fun seq_all :: "('w, unit) py list \<Rightarrow> ('w, unit) py" where
  "seq_all [] = ret ()"
| "seq_all (m # ms) = bnd m (\<lambda>_. seq_all ms)"

text \<open>\<open>for x in xs: out.append(f(x))\<close>.\<close>

fun map_py :: "('a \<Rightarrow> ('w, 'b) py) \<Rightarrow> 'a list \<Rightarrow> ('w, 'b list) py" where
  "map_py f [] = ret []"
| "map_py f (x # xs) = bnd (f x) (\<lambda>y. bnd (map_py f xs) (\<lambda>ys. ret (y # ys)))"

definition when_py :: "bool \<Rightarrow> ('w, unit) py \<Rightarrow> ('w, unit) py" where
  "when_py b m = (if b then m else ret ())"

definition py_raise_sum :: "exn + 'a \<Rightarrow> ('w, 'a) py" where
  "py_raise_sum r = (\<lambda>w. (r, w))"

lemma ret_run [simp, py_run]: "ret a w = (Inr a, w)"
  by (simp add: ret_def)

lemma raise_run [simp, py_run]: "raise e w = (Inl e, w)"
  by (simp add: raise_def)

lemma when_py_simps [simp, py_run]: "when_py True m = m" "when_py False m = ret ()"
  by (simp_all add: when_py_def)

lemma bnd_Inr [simp, py_run]: "m w = (Inr a, w') \<Longrightarrow> bnd m f w = f a w'"
  by (simp add: bnd_def)

lemma bnd_Inl [simp, py_run]: "m w = (Inl e, w') \<Longrightarrow> bnd m f w = (Inl e, w')"
  by (simp add: bnd_def)

lemma try_Inr [simp, py_run]: "m w = (Inr a, w') \<Longrightarrow> try_except m h w = (Inr a, w')"
  by (simp add: try_except_def)

lemma try_Inl [simp, py_run]: "m w = (Inl e, w') \<Longrightarrow> try_except m h w = h e w'"
  by (simp add: try_except_def)

lemma ret_bnd [simp, py_run]: "bnd (ret a) f = f a"
  by (rule ext) simp

lemma raise_bnd [simp, py_run]: "bnd (raise e) f = raise e"
  by (rule ext) simp

lemma bnd_assoc: "bnd (bnd m f) g = bnd m (\<lambda>x. bnd (f x) g)"
  by (rule ext) (simp add: bnd_def split: prod.splits sum.splits)

lemma bnd_InrE:
  assumes "bnd m f w = (Inr b, w'')"
  obtains a w' where "m w = (Inr a, w')" "f a w' = (Inr b, w'')"
  using assms by (auto simp: bnd_def split: prod.splits sum.splits)

lemma bnd_split:
  "P (bnd m f w) \<longleftrightarrow>
     (\<forall>e w'. m w = (Inl e, w') \<longrightarrow> P (Inl e, w')) \<and>
     (\<forall>a w'. m w = (Inr a, w') \<longrightarrow> P (f a w'))"
  by (cases "m w"; cases "fst (m w)") (auto simp: bnd_def)

lemma try_split:
  "P (try_except m h w) \<longleftrightarrow>
     (\<forall>e w'. m w = (Inl e, w') \<longrightarrow> P (h e w')) \<and>
     (\<forall>a w'. m w = (Inr a, w') \<longrightarrow> P (Inr a, w'))"
  by (cases "m w"; cases "fst (m w)") (auto simp: try_except_def)

text \<open>\<open>try: ... except Exception: logger.exception(...); raise\<close>.\<close>

definition logged :: "('w, 'a) py \<Rightarrow> ('w, 'a) py" where
  "logged m = try_except m (\<lambda>e. raise e)"

lemma logged_id [simp]: "logged m = m"
  by (rule ext) (auto simp: logged_def try_except_def split: prod.splits sum.splits)

text \<open>The endpoints' \<open>except HTTPException: raise\<close> and \<open>except Exception: raise HTTPException(500, ...)\<close>.\<close>

definition http_guard :: "string \<Rightarrow> ('w, 'a) py \<Rightarrow> ('w, 'a) py" where
  "http_guard detail m = try_except m (\<lambda>e. case e of
     HTTPException _ _ \<Rightarrow> raise e | _ \<Rightarrow> raise (HTTPException 500 detail))"

lemma http_guard_Inr [simp, py_run]: "m w = (Inr a, w') \<Longrightarrow> http_guard d m w = (Inr a, w')"
  by (simp add: http_guard_def)

lemma http_guard_http [simp, py_run]:
  "m w = (Inl (HTTPException c e), w') \<Longrightarrow> http_guard d m w = (Inl (HTTPException c e), w')"
  by (simp add: http_guard_def)

lemma http_guard_only_http:
  "http_guard d m w = (Inl e, w') \<Longrightarrow> \<exists>c t. e = HTTPException c t"
  by (auto simp: http_guard_def try_except_def split: prod.splits sum.splits exn.splits)

text \<open>A computation whose handler never raises never raises.\<close>

definition never_raises :: "('w, 'a) py \<Rightarrow> bool" where
  "never_raises m \<longleftrightarrow> (\<forall>w. \<exists>a w'. m w = (Inr a, w'))"

lemma never_raises_ret [intro, simp]: "never_raises (ret a)"
  by (simp add: never_raises_def)

lemma never_raises_try:
  "(\<And>e. never_raises (h e)) \<Longrightarrow> never_raises (try_except m h)"
  unfolding never_raises_def
  by (metis (no_types, lifting) old.prod.exhaust sumE try_Inl try_Inr)

lemma never_raises_bnd:
  "never_raises m \<Longrightarrow> (\<And>a. never_raises (f a)) \<Longrightarrow> never_raises (bnd m f)"
  unfolding never_raises_def by (metis bnd_Inr)

lemma never_raises_when [intro]: "never_raises m \<Longrightarrow> never_raises (when_py b m)"
  by (cases b) auto

text \<open>A computation that leaves a view \<open>v\<close> of the world as it is, whether it raises or not.\<close>

definition frame :: "('w \<Rightarrow> 'v) \<Rightarrow> ('w, 'a) py \<Rightarrow> bool" where
  "frame v m \<longleftrightarrow> (\<forall>w. v (snd (m w)) = v w)"

lemma frameD: "frame v m \<Longrightarrow> m w = (r, w') \<Longrightarrow> v w' = v w"
  unfolding frame_def by (metis snd_conv)

lemma frame_ret [intro, simp]: "frame v (ret a)"
  by (simp add: frame_def)

lemma frame_raise [intro, simp]: "frame v (raise e)"
  by (simp add: frame_def)

lemma frame_bnd: "frame v m \<Longrightarrow> (\<And>a. frame v (f a)) \<Longrightarrow> frame v (bnd m f)"
  unfolding frame_def bnd_def by (auto split: prod.splits sum.splits) (metis snd_conv)+

lemma frame_try: "frame v m \<Longrightarrow> (\<And>e. frame v (h e)) \<Longrightarrow> frame v (try_except m h)"
  unfolding frame_def try_except_def by (auto split: prod.splits sum.splits) (metis snd_conv)+

lemma frame_if [intro]: "frame v a \<Longrightarrow> frame v b \<Longrightarrow> frame v (if c then a else b)"
  by simp

lemma never_raises_if [intro]: "never_raises a \<Longrightarrow> never_raises b \<Longrightarrow> never_raises (if c then a else b)"
  by simp

lemma never_raisesE:
  assumes "never_raises m"
  obtains a w' where "m w = (Inr a, w')"
  using assms unfolding never_raises_def by blast

lemma never_raises_option:
  "never_raises a \<Longrightarrow> (\<And>x. never_raises (g x)) \<Longrightarrow> never_raises (case y of None \<Rightarrow> a | Some x \<Rightarrow> g x)"
  by (cases y) simp_all

lemma frame_option:
  "frame v a \<Longrightarrow> (\<And>x. frame v (f x)) \<Longrightarrow> frame v (case y of None \<Rightarrow> a | Some x \<Rightarrow> f x)"
  by (cases y) simp_all

lemma frame_prod: "(\<And>a b. frame v (f a b)) \<Longrightarrow> frame v (case y of (a, b) \<Rightarrow> f a b)"
  by (cases y) simp

lemma frame_when: "frame v m \<Longrightarrow> frame v (when_py b m)"
  by (cases b) simp_all

text \<open>\<open>try: ... finally: ...\<close>.\<close>

definition finally_py :: "('w, 'a) py \<Rightarrow> ('w, unit) py \<Rightarrow> ('w, 'a) py" where
  "finally_py m f = (\<lambda>w. case m w of (r, w') \<Rightarrow>
     (case f w' of (Inr _, w'') \<Rightarrow> (r, w'') | (Inl e, w'') \<Rightarrow> (Inl e, w'')))"

lemma never_raises_finally:
  "never_raises m \<Longrightarrow> never_raises f \<Longrightarrow> never_raises (finally_py m f)"
  unfolding never_raises_def
proof (intro allI)
  fix w
  assume "\<forall>w. \<exists>a w'. m w = (Inr a, w')" "\<forall>w. \<exists>a w'. f w = (Inr a, w')"
  then obtain a w' b w'' where "m w = (Inr a, w')" "f w' = (Inr b, w'')" by meson
  then show "\<exists>a w'. finally_py m f w = (Inr a, w')" by (simp add: finally_py_def)
qed

lemma frame_finally: "frame v m \<Longrightarrow> frame v f \<Longrightarrow> frame v (finally_py m f)"
  unfolding frame_def finally_py_def by (auto split: prod.splits sum.splits) (metis snd_conv)+

lemma seq_all_frame: "(\<And>m. m \<in> set ms \<Longrightarrow> frame v m) \<Longrightarrow> frame v (seq_all ms)"
  by (induction ms) (auto intro: frame_bnd)

lemma http_guard_snd: "snd (http_guard d m w) = snd (m w)"
  by (auto simp: http_guard_def try_except_def split: prod.splits sum.splits exn.splits)

section \<open>Strings\<close>

text \<open>\<open>str.isspace\<close> on the code points below 256.\<close>

definition is_space :: "char \<Rightarrow> bool" where
  "is_space c \<longleftrightarrow> (let n = of_char c :: int in
     (9 \<le> n \<and> n \<le> 13) \<or> (28 \<le> n \<and> n \<le> 32) \<or> n = 133 \<or> n = 160)"

definition strip :: "string \<Rightarrow> string" where
  "strip s = rev (dropWhile is_space (rev (dropWhile is_space s)))"

text \<open>\<open>s.strip(c)\<close> and \<open>s.rstrip(c)\<close> for one character \<open>c\<close>.\<close>

definition rstrip_char :: "char \<Rightarrow> string \<Rightarrow> string" where
  "rstrip_char c s = rev (dropWhile (\<lambda>x. x = c) (rev s))"

definition strip_char :: "char \<Rightarrow> string \<Rightarrow> string" where
  "strip_char c s = rstrip_char c (dropWhile (\<lambda>x. x = c) s)"

definition lower_char :: "char \<Rightarrow> char" where
  "lower_char c = (let n = of_char c :: int in
     if (65 \<le> n \<and> n \<le> 90) \<or> (192 \<le> n \<and> n \<le> 222 \<and> n \<noteq> 215) then char_of (n + 32) else c)"

definition lower :: "string \<Rightarrow> string" where
  "lower s = map lower_char s"

text \<open>\<open>x or y\<close> on strings, and on optional strings.\<close>

definition or_str :: "string \<Rightarrow> string \<Rightarrow> string" where
  "or_str x y = (if x = [] then y else x)"

definition opt_or :: "string option \<Rightarrow> string \<Rightarrow> string" where
  "opt_or x y = (case x of None \<Rightarrow> y | Some s \<Rightarrow> or_str s y)"

text \<open>Truth value of an optional string.\<close>

definition truthy :: "string option \<Rightarrow> bool" where
  "truthy x \<longleftrightarrow> (case x of None \<Rightarrow> False | Some s \<Rightarrow> s \<noteq> [])"

fun startswith :: "string \<Rightarrow> string \<Rightarrow> bool" where
  "startswith s [] = True"
| "startswith [] (p # ps) = False"
| "startswith (c # cs) (p # ps) = (c = p \<and> startswith cs ps)"

definition endswith :: "string \<Rightarrow> string \<Rightarrow> bool" where
  "endswith s suf = startswith (rev s) (rev suf)"

text \<open>\<open>sub in s\<close>.\<close>

fun contains :: "string \<Rightarrow> string \<Rightarrow> bool" where
  "contains [] sub = (sub = [])"
| "contains (c # cs) sub = (startswith (c # cs) sub \<or> contains cs sub)"

text \<open>\<open>s.split(d)\<close> for one character \<open>d\<close>; \<open>part\<close> is what was read since the last \<open>d\<close>.\<close>

fun split_at :: "char \<Rightarrow> string \<Rightarrow> string \<Rightarrow> string list" where
  "split_at d part [] = [part]"
| "split_at d part (c # cs) = (if c = d then part # split_at d [] cs else split_at d (part @ [c]) cs)"

text \<open>\<open>re.sub("[^...]+", r, s)\<close>: every run of characters outside \<open>P\<close> becomes one \<open>r\<close>; \<open>b\<close> tells that a run goes on.\<close>

fun sub_runs :: "(char \<Rightarrow> bool) \<Rightarrow> char \<Rightarrow> bool \<Rightarrow> string \<Rightarrow> string" where
  "sub_runs P r b [] = []"
| "sub_runs P r b (c # cs) =
     (if P c then c # sub_runs P r False cs else if b then sub_runs P r True cs else r # sub_runs P r True cs)"

lemma set_sub_runs: "c \<in> set (sub_runs P r b s) \<Longrightarrow> P c \<or> c = r"
  by (induction P r b s rule: sub_runs.induct) (auto split: if_splits)

text \<open>\<open>s.rsplit(c, 1)\<close>: the part before the last \<open>c\<close>, if there is one, and the rest.\<close>

definition rsplit1 :: "char \<Rightarrow> string \<Rightarrow> string list" where
  "rsplit1 c s =
     (if c \<in> set s
      then [rev (tl (dropWhile (\<lambda>x. x \<noteq> c) (rev s))), rev (takeWhile (\<lambda>x. x \<noteq> c) (rev s))]
      else [s])"

text \<open>\<open>s.split(c)[-1]\<close>: the part after the last \<open>c\<close>.\<close>

definition after_last :: "char \<Rightarrow> string \<Rightarrow> string" where
  "after_last c s = rev (takeWhile (\<lambda>x. x \<noteq> c) (rev s))"

lemma startswith_append [simp, py_str]: "startswith (p @ s) p"
  by (induction p) auto

lemma startswith_iff: "startswith s p \<longleftrightarrow> (\<exists>t. s = p @ t)"
  by (induction s p rule: startswith.induct) auto

lemma or_str_nonempty [simp, py_str]: "y \<noteq> [] \<Longrightarrow> or_str x y \<noteq> []"
  by (simp add: or_str_def)

lemma or_str_idem [simp, py_str]: "or_str (or_str x y) y = or_str x y"
  by (simp add: or_str_def)

lemma takeWhile_rev_sep: "c \<notin> set t \<Longrightarrow> takeWhile (\<lambda>x. x \<noteq> c) (rev t @ c # u) = rev t"
  by (subst takeWhile_append2) auto

lemma dropWhile_rev_sep: "c \<notin> set t \<Longrightarrow> dropWhile (\<lambda>x. x \<noteq> c) (rev t @ c # u) = c # u"
  by (subst dropWhile_append2) auto

lemma after_last_snoc [py_str]:
  "c \<notin> set t \<Longrightarrow> after_last c (s @ c # t) = t"
  by (simp add: after_last_def takeWhile_rev_sep)

lemma rsplit1_snoc [py_str]:
  "c \<notin> set t \<Longrightarrow> rsplit1 c (s @ c # t) = [s, t]"
  by (simp add: rsplit1_def takeWhile_rev_sep dropWhile_rev_sep)

lemma append_sep_first:
  "c \<notin> set a \<Longrightarrow> c \<notin> set b \<Longrightarrow> a @ c # x = b @ c # y \<longleftrightarrow> a = b \<and> x = y"
proof (induction a arbitrary: b)
  case Nil
  then show ?case by (cases b) auto
next
  case (Cons d a)
  then show ?case by (cases b) auto
qed

lemma append_sep_last:
  assumes "c \<notin> set x" "c \<notin> set y"
  shows "a @ c # x = b @ c # y \<longleftrightarrow> a = b \<and> x = y"
proof -
  have "a @ c # x = b @ c # y \<longleftrightarrow> rev x @ c # rev a = rev y @ c # rev b"
    by (metis append_assoc append_Cons append_Nil rev.simps(2) rev_append rev_rev_ident)
  also have "\<dots> \<longleftrightarrow> a = b \<and> x = y" using assms append_sep_first [of c "rev x" "rev y"] by auto
  finally show ?thesis .
qed

lemma dropWhile_idem_hd:
  "xs = [] \<or> \<not> P (hd xs) \<Longrightarrow> dropWhile P xs = xs"
  by (cases xs) auto

lemma strip_no_space:
  "s = [] \<or> (\<not> is_space (hd s) \<and> \<not> is_space (last s)) \<Longrightarrow> strip s = s"
  unfolding strip_def
  by (subst dropWhile_idem_hd [of s], force, subst dropWhile_idem_hd) (auto simp: hd_rev)

lemma hd_dropWhile_not: "dropWhile P xs \<noteq> [] \<Longrightarrow> \<not> P (hd (dropWhile P xs))"
  using hd_dropWhile[of P xs] by simp

lemma strip_idem [simp, py_str]: "strip (strip s) = strip s"
proof -
  define a where "a = dropWhile is_space s"
  define b where "b = dropWhile is_space (rev a)"
  have st: "strip s = rev b" by (simp add: strip_def a_def b_def)
  show ?thesis
  proof (cases "b = []")
    case True
    then have "strip s = []" by (simp add: st)
    then show ?thesis by (simp add: strip_no_space)
  next
    case False
    have l: "\<not> is_space (last (rev b))"
      using False hd_dropWhile_not [of is_space "rev a"] by (simp add: b_def last_rev)
    obtain pre where pre: "rev a = pre @ b"
      by (metis b_def takeWhile_dropWhile_id)
    then have "a = rev b @ rev pre" by (metis rev_append rev_rev_ident)
    then have "hd a = hd (rev b)" "a \<noteq> []" using False by auto
    then have "\<not> is_space (hd (rev b))"
      using hd_dropWhile_not [of is_space s] by (metis a_def)
    with l show ?thesis by (simp add: st strip_no_space)
  qed
qed

lemma longer_than_all: "CHR ''x'' # concat xs \<notin> set xs"
proof
  assume "CHR ''x'' # concat xs \<in> set xs"
  moreover have "length x \<le> length (concat xs)" if "x \<in> set xs" for x :: string and xs
    using that by (induction xs) auto
  ultimately show False by (metis Suc_n_not_le_n length_Cons)
qed

lemma longer_than_all_map: "CHR ''x'' # concat (map f xs) \<notin> f ` set xs"
  using longer_than_all [of "map f xs"] by simp

text \<open>The order of strings by code points.\<close>

fun str_le :: "string \<Rightarrow> string \<Rightarrow> bool" where
  "str_le [] t = True"
| "str_le (c # cs) [] = False"
| "str_le (c # cs) (d # ds) =
     ((of_char c :: int) < of_char d \<or> (c = d \<and> str_le cs ds))"

section \<open>Decimal integers\<close>

definition digit_char :: "int \<Rightarrow> char" where
  "digit_char d = char_of (48 + d)"

definition is_digit :: "char \<Rightarrow> bool" where
  "is_digit c \<longleftrightarrow> 48 \<le> (of_char c :: int) \<and> (of_char c :: int) \<le> 57"

text \<open>The decimal digits of a number that is not negative.\<close>

function digits :: "int \<Rightarrow> string" where
  "digits n = (if n < 10 then [digit_char n] else digits (n div 10) @ [digit_char (n mod 10)])"
  by pat_completeness auto
termination
  by (relation "measure nat") auto

declare digits.simps [simp del]

text \<open>\<open>str(i)\<close>.\<close>

definition py_str_int :: "int \<Rightarrow> string" where
  "py_str_int i = (if i < 0 then CHR ''-'' # digits (- i) else digits i)"

text \<open>The digits of \<open>int(s)\<close>; single underscores are allowed between digits.\<close>

fun int_digits :: "int \<Rightarrow> bool \<Rightarrow> string \<Rightarrow> int option" where
  "int_digits acc p [] = (if p then Some acc else None)"
| "int_digits acc p (c # cs) =
     (if is_digit c then int_digits (10 * acc + (of_char c - 48)) True cs
      else if c = CHR ''_'' \<and> p then int_digits acc False cs
      else None)"

text \<open>\<open>int(s)\<close>: \<open>None\<close> is the \<open>ValueError\<close>.\<close>

definition py_int_str :: "string \<Rightarrow> int option" where
  "py_int_str s = (case strip s of
     [] \<Rightarrow> None
   | c # cs \<Rightarrow>
       if c = CHR ''-'' then map_option uminus (int_digits 0 False cs)
       else if c = CHR ''+'' then int_digits 0 False cs
       else int_digits 0 False (c # cs))"

lemma of_char_digit_char [simp]:
  "0 \<le> d \<Longrightarrow> d < 10 \<Longrightarrow> (of_char (digit_char d) :: int) = 48 + d"
  by (simp add: digit_char_def)

lemma is_digit_digit_char [simp]: "0 \<le> d \<Longrightarrow> d < 10 \<Longrightarrow> is_digit (digit_char d)"
  by (simp add: is_digit_def)

lemma digits_digits: "0 \<le> n \<Longrightarrow> \<forall>c \<in> set (digits n). is_digit c"
proof (induction n rule: digits.induct)
  case (1 n)
  then show ?case by (subst digits.simps) auto
qed

lemma digits_nonempty [simp]: "digits n \<noteq> []"
  by (subst digits.simps) simp

lemma int_digits_digits:
  "0 \<le> n \<Longrightarrow> \<exists>k. \<forall>acc p. int_digits acc p (digits n @ cs) = int_digits (acc * k + n) True cs"
proof (induction n arbitrary: cs rule: digits.induct)
  case (1 n)
  show ?case
  proof (cases "n < 10")
    case True
    then have "\<forall>acc p. int_digits acc p (digits n @ cs) = int_digits (acc * 10 + n) True cs"
      using "1.prems" by (subst digits.simps) (simp add: mult.commute)
    then show ?thesis by blast
  next
    case False
    then have "0 \<le> n div 10" by simp
    then obtain k where k: "\<forall>acc p. int_digits acc p (digits (n div 10) @ digit_char (n mod 10) # cs)
        = int_digits (acc * k + n div 10) True (digit_char (n mod 10) # cs)"
      using "1.IH" [OF False] by blast
    have "int_digits acc p (digits n @ cs) = int_digits (acc * (10 * k) + n) True cs" for acc p
    proof -
      have "int_digits acc p (digits n @ cs)
          = int_digits (acc * k + n div 10) True (digit_char (n mod 10) # cs)"
        using False k by (subst digits.simps) simp
      also have "\<dots> = int_digits (10 * (acc * k + n div 10) + n mod 10) True cs"
        by simp
      also have "10 * (acc * k + n div 10) + n mod 10 = acc * (10 * k) + n"
        by (simp add: algebra_simps)
      finally show ?thesis .
    qed
    then show ?thesis by blast
  qed
qed

lemma int_digits_show [simp]: "0 \<le> n \<Longrightarrow> int_digits 0 p (digits n) = Some n"
  using int_digits_digits [of n "[]"] by auto

lemma digit_not_space: "is_digit c \<Longrightarrow> \<not> is_space c"
  by (simp add: is_digit_def is_space_def Let_def)

lemma digit_not_sign: "is_digit c \<Longrightarrow> c \<noteq> CHR ''-'' \<and> c \<noteq> CHR ''+'' \<and> c \<noteq> CHR '':''"
  by (auto simp: is_digit_def)

lemma digits_last: "0 \<le> n \<Longrightarrow> is_digit (last (digits n))"
  using digits_digits last_in_set digits_nonempty by blast

lemma digits_hd: "0 \<le> n \<Longrightarrow> is_digit (hd (digits n))"
  using digits_digits hd_in_set digits_nonempty by blast

lemma strip_py_str_int: "strip (py_str_int i) = py_str_int i"
  by (rule strip_no_space)
    (auto simp: py_str_int_def digits_last digits_hd digit_not_space,
      simp add: is_space_def Let_def)

lemma py_int_str_int [simp, py_str]: "py_int_str (py_str_int i) = Some i"
proof (cases "i < 0")
  case True
  then show ?thesis by (simp add: py_int_str_def strip_py_str_int) (simp add: py_str_int_def)
next
  case False
  obtain c cs where c: "digits i = c # cs" by (cases "digits i") auto
  have "is_digit c" using digits_hd [of i] c False by simp
  then have "c \<noteq> CHR ''-''" "c \<noteq> CHR ''+''" by (auto dest: digit_not_sign)
  moreover have "int_digits 0 False (c # cs) = Some i"
    using int_digits_show [of i False] c False by simp
  moreover have "py_str_int i = c # cs" using False c by (simp add: py_str_int_def)
  ultimately show ?thesis
    using strip_py_str_int [of i] by (simp add: py_int_str_def del: int_digits.simps)
qed

lemma py_str_int_inj [simp]: "py_str_int i = py_str_int j \<longleftrightarrow> i = j"
  by (metis option.inject py_int_str_int)

lemma py_str_int_nonempty [simp]: "py_str_int i \<noteq> []"
  by (simp add: py_str_int_def)

lemma colon_not_in_py_str_int [simp, py_str]: "CHR '':'' \<notin> set (py_str_int i)"
proof -
  have "CHR '':'' \<notin> set (digits n)" if "0 \<le> n" for n
    using digits_digits [OF that] digit_not_sign by blast
  from this [of i] this [of "- i"] show ?thesis by (simp add: py_str_int_def)
qed

end
