(* ===== verification/Float64.thy ===== *)
theory Float64
  imports Complex_Main Prelude "HOL-Library.Log_Nat"
begin

text \<open>
  Python's \<open>float\<close>: an IEEE 754 double, here the rational number it denotes. Every
  arithmetic operation computes the exact result and rounds it once, to 53 significant bits,
  ties to even (\<open>fl\<close>). Overflow, underflow, infinities and NaN are outside the model: the
  code only computes with token counts, seconds and milliseconds.
  The lemmas give what the components use: \<open>fl\<close> is monotone, keeps integers up to \<open>2^53\<close>,
  and moves a number by at most half a unit in the last place.
\<close>

section \<open>Rounding to an integer, ties to even\<close>

definition rnd_even :: "rat \<Rightarrow> int" where
  "rnd_even x = (let f = \<lfloor>x\<rfloor>; d = x - of_int f in
     if d < 1/2 then f else if d > 1/2 then f + 1 else if even f then f else f + 1)"

lemma rnd_even_of_int [simp]: "rnd_even (of_int n) = n"
  by (simp add: rnd_even_def)

lemma rnd_even_cases: "rnd_even x = \<lfloor>x\<rfloor> \<or> rnd_even x = \<lfloor>x\<rfloor> + 1"
  by (simp add: rnd_even_def Let_def)

lemma rnd_even_err: "\<bar>of_int (rnd_even x) - x\<bar> \<le> 1/2"
proof -
  have "of_int \<lfloor>x\<rfloor> \<le> x" "x < of_int \<lfloor>x\<rfloor> + 1" by linarith+
  then show ?thesis by (auto simp: rnd_even_def Let_def)
qed

lemma rnd_even_mono: "x \<le> y \<Longrightarrow> rnd_even x \<le> rnd_even y"
proof -
  assume xy: "x \<le> y"
  then have f: "\<lfloor>x\<rfloor> \<le> \<lfloor>y\<rfloor>" by (rule floor_mono)
  show ?thesis
  proof (cases "\<lfloor>x\<rfloor> = \<lfloor>y\<rfloor>")
    case True
    then show ?thesis using xy by (auto simp: rnd_even_def Let_def)
  next
    case False
    then have "\<lfloor>x\<rfloor> + 1 \<le> \<lfloor>y\<rfloor>" using f by simp
    then show ?thesis using rnd_even_cases [of x] rnd_even_cases [of y] by auto
  qed
qed

lemma rnd_even_unique: "\<bar>x - of_int n\<bar> < 1/2 \<Longrightarrow> rnd_even x = n"
proof -
  assume a: "\<bar>x - of_int n\<bar> < 1/2"
  have "\<bar>of_int (rnd_even x) - x\<bar> \<le> 1/2" by (rule rnd_even_err)
  with a have "\<bar>of_int (rnd_even x) - (of_int n :: rat)\<bar> < 1" by linarith
  then have "\<bar>rnd_even x - n\<bar> < 1" by (metis of_int_abs of_int_diff of_int_less_1_iff)
  then show ?thesis by simp
qed

lemma rnd_even_add_even: "even k \<Longrightarrow> rnd_even (x + of_int k) = rnd_even x + k"
  by (auto simp: rnd_even_def Let_def)

section \<open>The exponent of a positive rational\<close>

definition expo :: "rat \<Rightarrow> int" where
  "expo x = (case quotient_of x of (p, q) \<Rightarrow>
     let e = bitlen p - bitlen q in if 2 powi e \<le> x then e else e - 1)"

lemma bitlen_powi:
  assumes "0 < n"
  shows "2 powi (bitlen n - 1) \<le> (of_int n :: rat)" and "(of_int n :: rat) < 2 powi (bitlen n)"
proof -
  have b: "2 ^ nat (bitlen n - 1) \<le> n" "n < 2 ^ nat (bitlen n)"
    using bitlen_bounds [OF assms] by auto
  have p: "0 < bitlen n" using assms bitlen_nonneg [of n] bitlen_eq_zero_iff [of n] by linarith
  have "(of_int (2 ^ nat (bitlen n - 1)) :: rat) \<le> of_int n" using b(1) by (simp only: of_int_le_iff)
  then show "2 powi (bitlen n - 1) \<le> (of_int n :: rat)" using p by (simp add: power_int_def)
  have "(of_int n :: rat) < of_int (2 ^ nat (bitlen n))" using b(2) by (simp only: of_int_less_iff)
  then show "(of_int n :: rat) < 2 powi (bitlen n)" using p by (simp add: power_int_def)
qed

lemma expo_bounds:
  assumes "0 < x"
  shows "2 powi (expo x) \<le> x" and "x < 2 powi (expo x + 1)"
proof -
  obtain p q where pq: "quotient_of x = (p, q)" by (cases "quotient_of x") auto
  have q: "0 < q" using quotient_of_denom_pos [OF pq] .
  have x: "x = of_int p / of_int q" using quotient_of_div [OF pq] .
  have p: "0 < p" using assms q by (simp add: x zero_less_divide_iff)
  let ?e = "bitlen p - bitlen q"
  note bp = bitlen_powi [OF p] and bq = bitlen_powi [OF q]
  have two: "(2::rat) powi (bitlen q) > 0" "(2::rat) powi (bitlen q - 1) > 0" by simp_all
  have "x < 2 powi (bitlen p) / 2 powi (bitlen q - 1)"
    unfolding x using bp(2) bq(1) two p q by (intro frac_less) auto
  also have "\<dots> = 2 powi (?e + 1)"
    by (simp add: power_int_diff [symmetric] algebra_simps)
  finally have up: "x < 2 powi (?e + 1)" .
  have "2 powi (bitlen p - 1) / 2 powi (bitlen q) < x"
    unfolding x using bp(1) bq(2) two p q by (intro frac_less2) auto
  then have lo: "2 powi (?e - 1) < x"
    by (simp add: power_int_diff [symmetric] algebra_simps)
  show "2 powi (expo x) \<le> x" "x < 2 powi (expo x + 1)"
    using up lo by (auto simp: expo_def pq Let_def)
qed

lemma powi_less_imp: "(2::rat) powi a < 2 powi b \<Longrightarrow> a < b"
  by (metis linorder_not_less one_le_numeral power_int_increasing)

lemma expo_unique:
  assumes "2 powi e \<le> x" "x < 2 powi (e + 1)"
  shows "expo x = e"
proof -
  have "0 < x" using assms(1) less_le_trans [of 0 "2 powi e" x] by simp
  then have "2 powi (expo x) \<le> x" "x < 2 powi (expo x + 1)" by (rule expo_bounds)+
  then have "(2::rat) powi (expo x) < 2 powi (e + 1)" "(2::rat) powi e < 2 powi (expo x + 1)"
    using assms by linarith+
  then show ?thesis by (auto dest!: powi_less_imp)
qed

lemma expo_mono: "0 < x \<Longrightarrow> x \<le> y \<Longrightarrow> expo x \<le> expo y"
  using expo_bounds [of x] expo_bounds [of y] powi_less_imp [of "expo x" "expo y + 1"] by force

section \<open>Rounding to a double\<close>

definition ulp :: "rat \<Rightarrow> rat" where
  "ulp x = 2 powi (expo x - 52)"

definition fl_pos :: "rat \<Rightarrow> rat" where
  "fl_pos x = of_int (rnd_even (x / ulp x)) * ulp x"

definition fl :: "rat \<Rightarrow> rat" where
  "fl x = (if x = 0 then 0 else if x < 0 then - fl_pos (- x) else fl_pos x)"

lemma ulp_pos [simp]: "0 < ulp x" "0 \<le> ulp x" "ulp x \<noteq> 0" "\<bar>ulp x\<bar> = ulp x"
  by (simp_all add: ulp_def)

lemma fl_0 [simp]: "fl 0 = 0"
  by (simp add: fl_def)

lemma fl_uminus: "fl (- x) = - fl x"
  by (auto simp: fl_def)

lemma powi_as_ulp: "2 powi (expo x + k) = 2 ^ nat (52 + k) * ulp x" if "- 52 \<le> k"
proof -
  have "(2::rat) ^ nat (52 + k) = 2 powi (52 + k)" using that by (simp add: power_int_def)
  then have "2 ^ nat (52 + k) * ulp x = 2 powi (52 + k) * 2 powi (expo x - 52)"
    by (simp only: ulp_def)
  also have "\<dots> = 2 powi ((52 + k) + (expo x - 52))"
    by (rule power_int_add [symmetric]) simp
  finally show ?thesis by (simp add: add.commute)
qed

lemma fl_pos_bounds:
  assumes "0 < x"
  shows "2 powi (expo x) \<le> fl_pos x" and "fl_pos x \<le> 2 powi (expo x + 1)"
proof -
  have "2 powi (expo x) = 2 ^ 52 * ulp x" using powi_as_ulp [of 0 x] by simp
  then have "of_int (2 ^ 52) \<le> x / ulp x"
    using expo_bounds(1) [OF assms] by (simp add: pos_le_divide_eq)
  then have "2 ^ 52 \<le> rnd_even (x / ulp x)" using rnd_even_mono rnd_even_of_int by metis
  then have "(of_int (2 ^ 52) :: rat) \<le> of_int (rnd_even (x / ulp x))" by (simp only: of_int_le_iff)
  then have "2 ^ 52 * ulp x \<le> fl_pos x" unfolding fl_pos_def by (intro mult_right_mono) auto
  then show "2 powi (expo x) \<le> fl_pos x" using powi_as_ulp [of 0 x] by simp
  have "2 powi (expo x + 1) = 2 ^ 53 * ulp x" using powi_as_ulp [of 1 x] by simp
  then have "x / ulp x \<le> of_int (2 ^ 53)"
    using expo_bounds(2) [OF assms] by (simp add: pos_divide_le_eq)
  then have "rnd_even (x / ulp x) \<le> 2 ^ 53" using rnd_even_mono rnd_even_of_int by metis
  then have "(of_int (rnd_even (x / ulp x)) :: rat) \<le> of_int (2 ^ 53)" by (simp only: of_int_le_iff)
  then have "fl_pos x \<le> 2 ^ 53 * ulp x" unfolding fl_pos_def by (intro mult_right_mono) auto
  then show "fl_pos x \<le> 2 powi (expo x + 1)" using powi_as_ulp [of 1 x] by simp
qed

lemma fl_pos_mono:
  assumes "0 < x" "x \<le> y"
  shows "fl_pos x \<le> fl_pos y"
proof (cases "expo x = expo y")
  case True
  then have "ulp x = ulp y" by (simp add: ulp_def)
  then have "x / ulp x \<le> y / ulp y" using assms by (auto intro: divide_right_mono)
  then have "rnd_even (x / ulp x) \<le> rnd_even (y / ulp y)" by (rule rnd_even_mono)
  then show ?thesis using \<open>ulp x = ulp y\<close> by (simp add: fl_pos_def)
next
  case False
  then have "expo x + 1 \<le> expo y" using expo_mono [OF assms] by simp
  then have "(2::rat) powi (expo x + 1) \<le> 2 powi (expo y)" by (simp add: power_int_increasing)
  moreover have "fl_pos x \<le> 2 powi (expo x + 1)" using assms by (simp add: fl_pos_bounds)
  moreover have "2 powi (expo y) \<le> fl_pos y" using assms by (simp add: fl_pos_bounds)
  ultimately show ?thesis by linarith
qed

lemma fl_pos_gt0: "0 < x \<Longrightarrow> 0 < fl_pos x"
  by (rule less_le_trans [of 0 "2 powi (expo x)"]) (simp_all add: fl_pos_bounds)

lemma fl_mono: "x \<le> y \<Longrightarrow> fl x \<le> fl y"
  using fl_pos_mono [of x y] fl_pos_mono [of "- y" "- x"] fl_pos_gt0 [of y] fl_pos_gt0 [of "- x"]
  by (force simp: fl_def not_less)

lemma fl_nonneg: "0 \<le> x \<Longrightarrow> 0 \<le> fl x"
  using fl_mono [of 0 x] by simp

lemma fl_pos_err: "\<bar>fl_pos x - x\<bar> \<le> ulp x / 2"
proof -
  have "fl_pos x - x = (of_int (rnd_even (x / ulp x)) - x / ulp x) * ulp x"
    by (simp add: fl_pos_def left_diff_distrib)
  then have "\<bar>fl_pos x - x\<bar> = \<bar>of_int (rnd_even (x / ulp x)) - x / ulp x\<bar> * ulp x"
    by (simp add: abs_mult)
  also have "\<dots> \<le> 1/2 * ulp x" by (intro mult_right_mono rnd_even_err) simp
  finally show ?thesis by simp
qed

lemma fl_err: "0 < x \<Longrightarrow> x < 2 powi k \<Longrightarrow> \<bar>fl x - x\<bar> \<le> 2 powi (k - 54)"
proof -
  assume x: "0 < x" "x < 2 powi k"
  then have "(2::rat) powi (expo x) < 2 powi k" using expo_bounds(1) [of x] by linarith
  then have "expo x \<le> k - 1" using powi_less_imp by fastforce
  then have "ulp x / 2 \<le> 2 powi (k - 53) / 2"
    unfolding ulp_def by (intro divide_right_mono power_int_increasing) auto
  also have "\<dots> = 2 powi (k - 54)"
    using power_int_diff [of "2::rat" "k - 53" 1] by simp
  finally show ?thesis using fl_pos_err [of x] x by (simp add: fl_def)
qed

lemma fl_on_grid:
  assumes "0 < x" "x = of_int m * ulp x" shows "fl x = x"
proof -
  have "x / ulp x = of_int m" using assms(2) ulp_pos [of x]
    by (metis less_irrefl nonzero_mult_div_cancel_right)
  then show ?thesis using assms by (simp add: fl_def fl_pos_def)
qed

lemma fl_of_int_pos:
  assumes "0 < n" "n \<le> 2 ^ 53" shows "fl (of_int n) = of_int n"
proof (cases "n = 2 ^ 53")
  case True
  have e: "expo (of_int n) = 53" unfolding True by (rule expo_unique) (simp_all add: power_int_def)
  then have "ulp (of_int n) = 2" by (simp add: ulp_def power_int_def)
  then show ?thesis
    by (intro fl_on_grid [of _ "2 ^ 52"]) (simp_all add: True)
next
  case False
  then have n: "n < 2 ^ 53" using assms by simp
  let ?x = "of_int n :: rat"
  have x: "0 < ?x" using assms by simp
  have "?x < of_int (2 ^ 53)" using n by (simp only: of_int_less_iff)
  then have "?x < 2 powi 53" by (simp add: power_int_def)
  then have "(2::rat) powi (expo ?x) < 2 powi 53" using expo_bounds(1) [OF x] by linarith
  then have e: "expo ?x \<le> 52" using powi_less_imp by fastforce
  have "(2::rat) ^ nat (52 - expo ?x) * ulp ?x = 2 powi (52 - expo ?x) * 2 powi (expo ?x - 52)"
    using e by (simp add: ulp_def power_int_def [of 2 "52 - expo ?x"])
  also have "\<dots> = 1" by (simp flip: power_int_add)
  finally have u: "(2::rat) ^ nat (52 - expo ?x) * ulp ?x = 1" .
  show ?thesis
    by (rule fl_on_grid [of _ "n * 2 ^ nat (52 - expo ?x)"]) (use x u in \<open>simp_all add: mult.assoc\<close>)
qed

lemma fl_of_int [simp]: "\<bar>n\<bar> \<le> 2 ^ 53 \<Longrightarrow> fl (of_int n) = of_int n"
  using fl_of_int_pos [of n] fl_of_int_pos [of "- n"] fl_uminus [of "of_int n"]
  by (cases "n = 0"; cases "n > 0") auto

section \<open>Python's operations\<close>

text \<open>A float literal is the double nearest to the decimal; \<open>float(n)\<close> rounds an integer.\<close>

definition py_float :: "int \<Rightarrow> rat" where
  "py_float n = fl (of_int n)"

definition py_mul :: "rat \<Rightarrow> rat \<Rightarrow> rat" where
  "py_mul x y = fl (x * y)"

definition py_sub :: "rat \<Rightarrow> rat \<Rightarrow> rat" where
  "py_sub x y = fl (x - y)"

text \<open>\<open>a / b\<close> of two integers is the correctly rounded quotient; of two floats likewise.\<close>

definition py_div :: "rat \<Rightarrow> rat \<Rightarrow> rat" where
  "py_div x y = fl (x / y)"

text \<open>\<open>int(x)\<close> truncates; \<open>math.ceil(x)\<close>.\<close>

definition py_trunc :: "rat \<Rightarrow> int" where
  "py_trunc x = (if 0 \<le> x then \<lfloor>x\<rfloor> else \<lceil>x\<rceil>)"

lemma fl_numeral [simp]: "(numeral n :: int) \<le> 2 ^ 53 \<Longrightarrow> fl (numeral n) = numeral n"
  using fl_of_int [of "numeral n"] by simp

lemma fl_one [simp]: "fl 1 = 1"
  using fl_of_int [of 1] by simp

lemma py_trunc_mono: "x \<le> y \<Longrightarrow> py_trunc x \<le> py_trunc y"
  unfolding py_trunc_def
  by (auto intro: floor_mono ceiling_mono)
    (metis ceiling_le_zero dual_order.trans linorder_linear zero_le_floor)

lemma py_trunc_of_int [simp]: "py_trunc (of_int n) = n"
  by (simp add: py_trunc_def)

lemma py_float_int [simp]: "\<bar>n\<bar> \<le> 2 ^ 53 \<Longrightarrow> py_float n = of_int n"
  by (simp add: py_float_def)

lemma py_trunc_numeral [simp]: "py_trunc (numeral n) = numeral n" "py_trunc 0 = 0" "py_trunc 1 = 1"
  using py_trunc_of_int [of "numeral n"] py_trunc_of_int [of 0] py_trunc_of_int [of 1] by simp_all

lemma py_mul_mono: "0 \<le> x \<Longrightarrow> y \<le> z \<Longrightarrow> py_mul x y \<le> py_mul x z"
  unfolding py_mul_def by (intro fl_mono mult_left_mono)

lemma py_float_mono: "m \<le> n \<Longrightarrow> py_float m \<le> py_float n"
  unfolding py_float_def by (intro fl_mono) simp

lemma py_float_nonneg: "0 \<le> n \<Longrightarrow> 0 \<le> py_float n"
  unfolding py_float_def by (intro fl_nonneg) simp

end
