(* ===== verification/Py_Time.thy ===== *)
theory Py_Time
  imports Float64
begin

text \<open>
  \<open>datetime\<close> as the code uses it: an aware UTC instant is the number of microseconds since
  1970-01-01 (\<open>int\<close>, exact, as in Python), a \<open>timedelta\<close> a difference of such numbers.
  \<^item> \<open>timestamp\<close>, \<open>now_ms\<close> and \<open>fromtimestamp\<close> go through doubles, as the code does;
    \<open>epoch_ms_roundtrip\<close> shows that no millisecond is lost between 2004 and 2038.
  \<^item> \<open>isoformat\<close> and \<open>fromisoformat\<close> write and read the proleptic Gregorian calendar
    (instants from 1970 on); \<open>fromisoformat_isoformat\<close> is their round trip.
\<close>

type_synonym datetime = int

definition seconds :: "int \<Rightarrow> int" where
  "seconds s = s * 1000000"

section \<open>Epoch seconds and milliseconds\<close>

text \<open>\<open>d.timestamp()\<close> and \<open>int(d.timestamp() * 1000)\<close>.\<close>

definition timestamp :: "datetime \<Rightarrow> rat" where
  "timestamp us = py_div (of_int us) (of_int 1000000)"

definition epoch_ms :: "datetime \<Rightarrow> int" where
  "epoch_ms us = py_trunc (py_mul (timestamp us) 1000)"

text \<open>\<open>datetime.fromtimestamp(t, tz=utc)\<close>: the fraction is rounded to microseconds, half to even.\<close>

definition fromtimestamp :: "rat \<Rightarrow> datetime" where
  "fromtimestamp t = py_trunc t * 1000000 + rnd_even (py_mul (t - of_int (py_trunc t)) 1000000)"

lemma timestamp_mono: "a \<le> b \<Longrightarrow> timestamp a \<le> timestamp b"
  unfolding timestamp_def py_div_def by (intro fl_mono divide_right_mono) auto

lemma timestamp_nonneg: "0 \<le> a \<Longrightarrow> 0 \<le> timestamp a"
  unfolding timestamp_def py_div_def by (intro fl_nonneg) simp

lemma epoch_ms_mono: "0 \<le> a \<Longrightarrow> a \<le> b \<Longrightarrow> epoch_ms a \<le> epoch_ms b"
  unfolding epoch_ms_def py_mul_def
  by (intro py_trunc_mono fl_mono mult_right_mono timestamp_mono) auto

lemma epoch_ms_bound:
  assumes "0 \<le> t" "t < 253234080000000000"
  shows "\<bar>epoch_ms t\<bar> \<le> 2 ^ 53"
proof -
  have "py_div (of_int t) (of_int 1000000) \<le> fl (of_int 253234080000)"
    unfolding py_div_def using assms by (intro fl_mono) simp
  then have a: "timestamp t \<le> 253234080000" unfolding timestamp_def
    by (subst (asm) fl_of_int) simp_all
  have "py_mul (timestamp t) 1000 \<le> fl (of_int 253234080000000)"
    unfolding py_mul_def using a by (intro fl_mono) simp
  then have "py_mul (timestamp t) 1000 \<le> of_int 253234080000000"
    by (subst (asm) fl_of_int) simp_all
  then have "epoch_ms t \<le> 253234080000000"
    unfolding epoch_ms_def using py_trunc_mono py_trunc_of_int by metis
  moreover have "epoch_ms 0 = 0" by (simp add: epoch_ms_def timestamp_def py_div_def py_mul_def py_trunc_def)
  then have "0 \<le> epoch_ms t" using epoch_ms_mono [of 0 t] assms(1) by simp
  ultimately show ?thesis by simp
qed

lemma floor_of_near:
  fixes t :: rat
  assumes "\<bar>t - (of_int a + of_int r / 1000)\<bar> < 1 / 1000" "0 < r" "r < 1000"
  shows "\<lfloor>t\<rfloor> = a"
proof -
  have "(1::rat) \<le> of_int r" "of_int r \<le> (999::rat)" using assms(2,3) by linarith+
  then have "of_int a \<le> t" "t < of_int a + 1" using assms(1) by linarith+
  then show ?thesis by (simp add: floor_eq_iff)
qed

lemma of_int_rat_bounds:
  "a < n \<Longrightarrow> (of_int a + 1 :: rat) \<le> of_int n"
  "n < b \<Longrightarrow> (of_int n :: rat) < of_int b"
  by (metis of_int_1 of_int_add of_int_le_iff zless_imp_add1_zle, simp)

lemma abs_scale: "0 < c \<Longrightarrow> \<bar>x * c - y * c\<bar> = \<bar>x - y\<bar> * (c :: rat)"
  by (metis abs_mult abs_of_pos left_diff_distrib)

lemma rnd_even_0 [simp]: "rnd_even 0 = 0"
  using rnd_even_of_int [of 0] by simp

lemma fl_small_err: "\<bar>x\<bar> < 2 ^ 20 \<Longrightarrow> \<bar>fl x - x\<bar> \<le> 1 / 2 ^ 34"
proof -
  assume x: "\<bar>x\<bar> < 2 ^ 20"
  have e: "\<bar>fl y - y\<bar> \<le> 1 / 2 ^ 34" if "0 < y" "y < 2 ^ 20" for y
    using fl_err [of y 20] that by (simp add: power_int_def power_divide)
  show ?thesis
    using e [of x] e [of "- x"] x fl_uminus [of x]
    by (cases "x = 0"; cases "x > 0") (auto simp: abs_minus_commute)
qed

lemma timestamp_ms_err:
  assumes "0 < ms" "ms < 2 ^ 31 * 1000"
  shows "\<bar>timestamp (ms * 1000) - of_int ms / 1000\<bar> \<le> 1 / 2 ^ 23"
proof -
  have eq: "timestamp (ms * 1000) = fl (of_int ms / 1000)"
    by (simp add: timestamp_def py_div_def)
  have "(of_int ms :: rat) < of_int (2 ^ 31 * 1000)" using assms(2) by (simp only: of_int_less_iff)
  then have "of_int ms / 1000 < (2::rat) powi 31" by (simp add: power_int_def)
  then show ?thesis
    using fl_err [of "of_int ms / 1000" 31] assms(1) by (simp add: eq power_int_def power_divide)
qed

lemma fromtimestamp_ms:
  assumes "0 < ms" "ms < 2 ^ 31 * 1000"
  shows "fromtimestamp (py_div (of_int ms) 1000) = ms * 1000"
proof -
  define t where "t = py_div (of_int ms) 1000"
  have t: "t = timestamp (ms * 1000)" by (simp add: t_def timestamp_def py_div_def)
  have err: "\<bar>t - of_int ms / 1000\<bar> \<le> 1 / 2 ^ 23"
    using timestamp_ms_err [OF assms] t by simp
  define a r where "a = ms div 1000" and "r = ms mod 1000"
  have ar: "ms = a * 1000 + r" "0 \<le> r" "r < 1000" by (simp_all add: a_def r_def)
  have q: "(of_int ms :: rat) / 1000 = of_int a + of_int r / 1000" by (simp add: ar(1) field_simps)
  have t0: "0 \<le> t" unfolding t using assms by (intro timestamp_nonneg) simp
  show ?thesis
  proof (cases "r = 0")
    case True
    have "\<bar>a\<bar> \<le> 2 ^ 53" using assms ar by simp
    then have "t = of_int a" using True by (simp add: t_def py_div_def q)
    then show ?thesis using True ar t_def by (simp add: fromtimestamp_def py_mul_def)
  next
    case False
    have fl: "\<lfloor>t\<rfloor> = a"
      by (rule floor_of_near [of _ _ r]) (use err q False ar in \<open>auto simp: divide_simps\<close>)
    have tr: "py_trunc t = a" using t0 fl by (simp add: py_trunc_def)
    define f where "f = t - of_int a"
    have f: "\<bar>f - of_int r / 1000\<bar> \<le> 1 / 2 ^ 23"
      using err unfolding q f_def by (simp add: algebra_simps)
    have "\<bar>f * 1000000 - of_int (r * 1000)\<bar> = \<bar>f - of_int r / 1000\<bar> * 1000000"
      using abs_scale [of 1000000 f "of_int r / 1000"] by simp
    also have "\<dots> \<le> 1 / 2 ^ 23 * 1000000" using f by (rule mult_right_mono) simp
    finally have fx: "\<bar>f * 1000000 - of_int (r * 1000)\<bar> \<le> 1000000 / 2 ^ 23" by simp
    have r: "(0::rat) \<le> of_int r" "(of_int r :: rat) \<le> 999" using ar by linarith+
    have c: "1000000 / 2 ^ 23 < (1/8 :: rat)" "1 / 2 ^ 34 < (1/8 :: rat)" "(2 :: rat) ^ 20 = 1048576" by simp_all
    have "f * 1000000 \<le> of_int r * 1000 + 1000000 / 2 ^ 23" "of_int r * 1000 - 1000000 / 2 ^ 23 \<le> f * 1000000"
      using abs_le_D1 [OF fx] abs_le_D2 [OF fx] unfolding of_int_mult of_int_numeral by linarith+
    then have "f * 1000000 < 2 ^ 20" "- (f * 1000000) < 2 ^ 20" using r c by linarith+
    then have "\<bar>f * 1000000\<bar> < 2 ^ 20" by (simp only: abs_less_iff)
    then have "\<bar>fl (f * 1000000) - f * 1000000\<bar> \<le> 1 / 2 ^ 34" by (rule fl_small_err)
    then have "\<bar>fl (f * 1000000) - of_int (r * 1000)\<bar> < 1 / 2" using fx c by linarith
    then have "rnd_even (fl (f * 1000000)) = r * 1000" by (rule rnd_even_unique)
    then have "fromtimestamp t = ms * 1000" using ar(1) by (simp add: fromtimestamp_def tr py_mul_def f_def)
    then show ?thesis by (simp only: t_def)
  qed
qed

text \<open>
  The cooldown deadline goes milliseconds \<open>\<rightarrow>\<close> datetime \<open>\<rightarrow>\<close> milliseconds through doubles.
\<close>

lemma epoch_ms_ms:
  assumes "2 ^ 40 < ms" "ms < 2 ^ 31 * 1000"
  shows "epoch_ms (ms * 1000) = ms"
proof -
  define t where "t = timestamp (ms * 1000)"
  have err: "\<bar>t - of_int ms / 1000\<bar> \<le> 1 / 2 ^ 23"
    using timestamp_ms_err [of ms] assms by (simp add: t_def)
  define x where "x = t * 1000"
  have "\<bar>x - of_int ms\<bar> = \<bar>t - of_int ms / 1000\<bar> * 1000"
    using abs_scale [of 1000 t "of_int ms / 1000"] by (simp add: x_def)
  also have "\<dots> \<le> 1 / 2 ^ 23 * 1000" using err by (rule mult_right_mono) simp
  finally have x: "\<bar>x - of_int ms\<bar> \<le> 1000 / 2 ^ 23" by simp
  have "(2 ^ 40 + 1 :: rat) \<le> of_int ms" "of_int ms < (2 ^ 31 * 1000 :: rat)"
    using of_int_rat_bounds(1) [OF assms(1)] of_int_rat_bounds(2) [OF assms(2)] by simp_all
  moreover have "1000 / 2 ^ 23 < (1 :: rat)" "(2 ^ 31 * 1000 + 1 :: rat) < 2 ^ 41" by simp_all
  moreover have "x \<le> of_int ms + 1000 / 2 ^ 23" "of_int ms - 1000 / 2 ^ 23 \<le> x"
    using abs_le_D1 [OF x] abs_le_D2 [OF x] by linarith+
  ultimately have "2 ^ 40 \<le> x" "x < 2 ^ 41" by linarith+
  then have "2 ^ 40 \<le> x" "x < 2 ^ 41" "0 < x" by simp_all
  then have e: "expo x = 40" by (intro expo_unique) (simp_all add: power_int_def)
  have u: "ulp x = 1 / 2 ^ 12" by (simp add: ulp_def e power_int_def power_divide)
  have "\<bar>x / ulp x - of_int (ms * 2 ^ 12)\<bar> = \<bar>x - of_int ms\<bar> * 2 ^ 12"
    using abs_scale [of "2 ^ 12" x "of_int ms"] by (simp add: u)
  also have "\<dots> \<le> 1000 / 2 ^ 23 * 2 ^ 12" using x by (rule mult_right_mono) simp
  also have "\<dots> < 1 / 2" by simp
  finally have "rnd_even (x / ulp x) = ms * 2 ^ 12" by (rule rnd_even_unique)
  then have "fl x = of_int ms" using \<open>0 < x\<close> by (simp add: fl_def fl_pos_def u)
  then show ?thesis by (simp add: epoch_ms_def py_mul_def flip: x_def t_def)
qed

lemma epoch_ms_roundtrip:
  assumes "2 ^ 40 < ms" "ms < 2 ^ 31 * 1000"
  shows "epoch_ms (fromtimestamp (py_div (of_int ms) 1000)) = ms"
  using assms by (simp add: fromtimestamp_ms epoch_ms_ms)

text \<open>\<open>ceil((a - b) / 1000)\<close> of a difference of milliseconds, computed in doubles.\<close>

definition ceil_div_1000 :: "int \<Rightarrow> int" where
  "ceil_div_1000 d = \<lceil>py_div (of_int d) 1000\<rceil>"

lemma ceil_div_1000_exact:
  assumes "0 \<le> d" "d \<le> 2 ^ 40"
  shows "ceil_div_1000 d = (d + 999) div 1000"
proof -
  define a r where "a = (d + 999) div 1000" and "r = a * 1000 - d"
  have "r = 999 - (d + 999) mod 1000" unfolding a_def r_def by (simp add: minus_mult_div_eq_mod [symmetric])
  then have ar: "d = a * 1000 - r" "0 \<le> r" "r < 1000"
    using pos_mod_bound [of 1000 "d + 999"] pos_mod_sign [of 1000 "d + 999"] by (simp_all add: r_def)
  have a: "0 \<le> a" "a \<le> 2 ^ 40" using assms ar by linarith+
  have up: "fl (of_int d / 1000) \<le> of_int a"
  proof -
    have "fl (of_int d / 1000) \<le> fl (of_int a)" using ar by (intro fl_mono) simp
    also have "\<dots> = of_int a" using a by (intro fl_of_int) simp
    finally show ?thesis .
  qed
  have lo: "of_int (a - 1) < fl (of_int d / 1000)"
  proof (cases "d = 0")
    case True
    then show ?thesis by (simp add: a_def)
  next
    case False
    have "(of_int d :: rat) \<le> of_int (2 ^ 40)" using assms(2) by (simp only: of_int_le_iff)
    then have "of_int d / 1000 < (2::rat) powi 31" by (simp add: power_int_def)
    then have "\<bar>fl (of_int d / 1000) - of_int d / 1000\<bar> \<le> 1 / 2 ^ 23"
      using fl_err [of "of_int d / 1000" 31] assms False by (simp add: power_int_def power_divide)
    moreover have "(of_int r :: rat) \<le> 999" using ar by linarith
    moreover have "(of_int d :: rat) / 1000 = of_int a - of_int r / 1000" by (simp add: ar(1) field_simps)
    moreover have "(1 / 2 ^ 23 :: rat) < 1 / 1000" by simp
    ultimately have "of_int a - 1 < fl (of_int d / 1000)" by (simp only: abs_le_iff) linarith
    then show ?thesis by simp
  qed
  show ?thesis using up lo by (simp add: ceil_div_1000_def py_div_def a_def [symmetric] ceiling_eq_iff)
qed

section \<open>Windows on doubles\<close>

text \<open>
  Between 2004 and 2038 the doubles of \<open>timestamp\<close> are a quarter of a microsecond apart: they tell
  microseconds apart, and whole seconds are subtracted without error.
\<close>

definition exact_from :: int where "exact_from = 2 ^ 30 * 1000000"
definition exact_until :: int where "exact_until = 2 ^ 31 * 1000000"

lemma expo_seconds:
  fixes y :: rat
  assumes "2 ^ 30 \<le> y" "y < 2 ^ 31"
  shows "expo y = 30" "ulp y = 1 / 2 ^ 22"
proof -
  show "expo y = 30" using assms by (intro expo_unique) (simp_all add: power_int_def)
  then show "ulp y = 1 / 2 ^ 22" by (simp add: ulp_def power_int_def power_divide)
qed

lemma fl_seconds:
  assumes "2 ^ 30 \<le> y" "y < 2 ^ 31"
  shows "fl y = of_int (rnd_even (y * 2 ^ 22)) / 2 ^ 22"
proof -
  have "0 < y" using assms(1) by (rule less_le_trans [rotated]) simp
  then show ?thesis by (simp add: fl_def fl_pos_def expo_seconds(2) [OF assms])
qed

lemma fl_fl_seconds:
  assumes "2 ^ 30 \<le> y" "y < 2 ^ 31"
  shows "fl (fl y) = fl y"
proof -
  have "fl (of_int (2 ^ 30)) \<le> fl y" "fl y \<le> fl (of_int (2 ^ 31))"
    by (rule fl_mono, use assms in simp)+
  moreover have e: "fl (of_int (2 ^ 30)) = 2 ^ 30" "fl (of_int (2 ^ 31)) = 2 ^ 31"
    by (subst fl_of_int; simp)+
  ultimately have b: "2 ^ 30 \<le> fl y" "fl y \<le> 2 ^ 31" by simp_all
  show ?thesis
  proof (cases "fl y = 2 ^ 31")
    case True
    then show ?thesis using e(2) by simp
  next
    case False
    then have "fl y < 2 ^ 31" using b(2) by simp
    then have "fl (fl y) = of_int (rnd_even (fl y * 2 ^ 22)) / 2 ^ 22" by (intro fl_seconds b(1))
    moreover have "fl y * 2 ^ 22 = of_int (rnd_even (y * 2 ^ 22))" by (simp add: fl_seconds [OF assms])
    ultimately show ?thesis by (simp add: fl_seconds [OF assms])
  qed
qed

lemma timestamp_minus:
  assumes "exact_from \<le> n - seconds W" "n < exact_until" "0 \<le> W"
  shows "py_sub (timestamp n) (py_float W) = timestamp (n - seconds W)"
proof -
  define x where "x = (of_int n :: rat) / 1000000"
  define y where "y = (of_int (n - seconds W) :: rat) / 1000000"
  have xy: "y = x - of_int W" by (simp add: x_def y_def seconds_def field_simps)
  have "(of_int exact_from :: rat) \<le> of_int (n - seconds W)" "(of_int n :: rat) < of_int exact_until"
    using assms by (simp_all only: of_int_le_iff of_int_less_iff)
  then have "2 ^ 30 \<le> y" "x < 2 ^ 31" by (simp_all add: x_def y_def exact_from_def exact_until_def)
  moreover have "(0 :: rat) \<le> of_int W" using assms(3) by simp
  ultimately have b: "2 ^ 30 \<le> y" "y < 2 ^ 31" "2 ^ 30 \<le> x" "x < 2 ^ 31" using xy by linarith+
  have "(2 :: rat) ^ 31 - 2 ^ 30 \<le> 2 ^ 31" by simp
  then have "(of_int W :: rat) \<le> 2 ^ 31" using b xy by linarith
  then have "W \<le> 2 ^ 31" by (metis of_int_le_iff of_int_numeral of_int_power)
  then have w: "py_float W = of_int W" using assms(3) by simp
  have "rnd_even (y * 2 ^ 22) = rnd_even (x * 2 ^ 22 + of_int (- (W * 2 ^ 22)))"
    by (simp add: xy algebra_simps)
  also have "\<dots> = rnd_even (x * 2 ^ 22) + - (W * 2 ^ 22)" by (rule rnd_even_add_even) simp
  finally have "fl y = fl x - of_int W"
    unfolding fl_seconds [OF b(1,2)] fl_seconds [OF b(3,4)] by (simp add: field_simps)
  then have "py_sub (timestamp n) (py_float W) = fl (fl y)"
    by (simp add: w py_sub_def timestamp_def py_div_def x_def)
  also have "\<dots> = timestamp (n - seconds W)" unfolding fl_fl_seconds [OF b(1,2)] by (simp add: y_def timestamp_def py_div_def)
  finally show ?thesis .
qed

lemma timestamp_strict:
  assumes "0 < a" "a < b" "b < exact_until"
  shows "timestamp a < timestamp b"
proof -
  have "(of_int b :: rat) < of_int exact_until" "(of_int a :: rat) + 1 \<le> of_int b" "(0 :: rat) < of_int a"
    using assms of_int_rat_bounds(1) [of a b] by simp_all
  then have r: "of_int b / 1000000 < (2::rat) powi 31" "of_int a / 1000000 < (2::rat) powi 31"
     "(0 :: rat) < of_int a / 1000000" "(0 :: rat) < of_int b / 1000000"
     and gap: "(of_int a :: rat) / 1000000 + 1 / 1000000 \<le> of_int b / 1000000"
    by (simp_all add: power_int_def exact_until_def field_simps)
  have "\<bar>timestamp a - of_int a / 1000000\<bar> \<le> 1 / 2 ^ 23" "\<bar>timestamp b - of_int b / 1000000\<bar> \<le> 1 / 2 ^ 23"
    using fl_err [OF r(3,2)] fl_err [OF r(4,1)]
    by (simp_all add: timestamp_def py_div_def power_int_def power_divide)
  moreover have "(2 / 2 ^ 23 :: rat) < 1 / 1000000" by simp
  ultimately show ?thesis using gap by (simp only: abs_le_iff) linarith
qed

lemma timestamp_le_iff:
  assumes "0 < a" "0 < b" "a < exact_until" "b < exact_until"
  shows "timestamp a \<le> timestamp b \<longleftrightarrow> a \<le> b"
  using timestamp_mono [of a b] timestamp_strict [of b a] assms by (meson linorder_not_less)

lemma timestamp_eq_iff:
  assumes "0 < a" "0 < b" "a < exact_until" "b < exact_until"
  shows "timestamp a = timestamp b \<longleftrightarrow> a = b"
  using timestamp_le_iff [of a b] timestamp_le_iff [of b a] assms by (auto intro: antisym)

section \<open>Calendar\<close>

definition leap :: "int \<Rightarrow> bool" where
  "leap y \<longleftrightarrow> y mod 4 = 0 \<and> (y mod 100 \<noteq> 0 \<or> y mod 400 = 0)"

definition year_len :: "int \<Rightarrow> int" where
  "year_len y = (if leap y then 366 else 365)"

definition month_lens :: "int \<Rightarrow> int list" where
  "month_lens y = [31, if leap y then 29 else 28, 31, 30, 31, 30, 31, 31, 30, 31, 30, 31]"

function split_year :: "int \<Rightarrow> int \<Rightarrow> int \<times> int" where
  "split_year y d = (if d < year_len y then (y, d) else split_year (y + 1) (d - year_len y))"
  by pat_completeness auto
termination
  by (relation "measure (\<lambda>(y, d). nat d)") (auto simp: year_len_def split: if_splits)

declare split_year.simps [simp del]

fun split_month :: "int list \<Rightarrow> int \<Rightarrow> int \<Rightarrow> int \<times> int" where
  "split_month [] m d = (m, d)"
| "split_month (l # ls) m d = (if d < l then (m, d) else split_month ls (m + 1) (d - l))"

function days_between :: "int \<Rightarrow> int \<Rightarrow> int" where
  "days_between y y' = (if y < y' then year_len y + days_between (y + 1) y' else 0)"
  by pat_completeness auto
termination
  by (relation "measure (\<lambda>(y, y'). nat (y' - y))") auto

declare days_between.simps [simp del]

lemma split_year_correct:
  "split_year y d = (y', r) \<Longrightarrow> 0 \<le> d \<Longrightarrow>
     y \<le> y' \<and> 0 \<le> r \<and> r < year_len y' \<and> days_between y y' + r = d \<and> (y' - y) * 365 \<le> d"
proof (induction y d rule: split_year.induct)
  case (1 y d)
  show ?case
  proof (cases "d < year_len y")
    case True
    with "1.prems" show ?thesis by (auto simp: split_year.simps [of y d] days_between.simps [of y' y'])
  next
    case False
    then have "split_year (y + 1) (d - year_len y) = (y', r)"
      using "1.prems" by (simp add: split_year.simps [of y d])
    moreover have "0 \<le> d - year_len y" using False by simp
    ultimately have ih: "y + 1 \<le> y'" "0 \<le> r" "r < year_len y'"
      "days_between (y + 1) y' + r = d - year_len y" "(y' - (y + 1)) * 365 \<le> d - year_len y"
      using "1.IH" [OF False] by auto
    have "days_between y y' = year_len y + days_between (y + 1) y'"
      using ih(1) by (simp add: days_between.simps [of y y'])
    moreover have "365 \<le> year_len y" by (simp add: year_len_def)
    ultimately show ?thesis using ih by simp
  qed
qed

lemma split_month_correct:
  "split_month ls m d = (m', r) \<Longrightarrow> 0 \<le> d \<Longrightarrow> d < sum_list ls \<Longrightarrow>
     m \<le> m' \<and> nat (m' - m) < length ls \<and> 0 \<le> r \<and> r < ls ! nat (m' - m)
     \<and> sum_list (take (nat (m' - m)) ls) + r = d"
proof (induction ls m d rule: split_month.induct)
  case (1 m d)
  then show ?case by simp
next
  case (2 l ls m d)
  show ?case
  proof (cases "d < l")
    case True
    with "2.prems" show ?thesis by auto
  next
    case False
    with "2.prems" "2.IH" have "m + 1 \<le> m'" "nat (m' - (m + 1)) < length ls" "0 \<le> r"
      "r < ls ! nat (m' - (m + 1))" "sum_list (take (nat (m' - (m + 1))) ls) + r = d - l" by auto
    moreover have "nat (m' - m) = Suc (nat (m' - (m + 1)))" using \<open>m + 1 \<le> m'\<close> by simp
    ultimately show ?thesis using False by simp
  qed
qed

lemma sum_month_lens [simp]: "sum_list (month_lens y) = year_len y"
  by (simp add: month_lens_def year_len_def)

lemma length_month_lens [simp]: "length (month_lens y) = 12"
  by (simp add: month_lens_def)

section \<open>ISO 8601\<close>

definition pad :: "nat \<Rightarrow> int \<Rightarrow> string" where
  "pad w n = replicate (w - length (digits n)) (CHR ''0'') @ digits n"

definition read_nat :: "string \<Rightarrow> int option" where
  "read_nat s = (if list_all is_digit s then int_digits 0 False s else None)"

text \<open>\<open>d.isoformat()\<close> of an instant from 1970 on.\<close>

definition isoformat :: "datetime \<Rightarrow> string" where
  "isoformat us = (let days = us div 86400000000; t = us mod 86400000000;
       (y, yd) = split_year 1970 days; (m, d) = split_month (month_lens y) 1 yd;
       s = t div 1000000; micro = t mod 1000000
     in pad 4 y @ ''-'' @ pad 2 m @ ''-'' @ pad 2 (d + 1) @ ''T''
        @ pad 2 (s div 3600) @ '':'' @ pad 2 (s div 60 mod 60) @ '':'' @ pad 2 (s mod 60)
        @ (if micro = 0 then [] else ''.'' @ pad 6 micro) @ ''+00:00'')"

text \<open>
  \<open>datetime.fromisoformat(s)\<close> on the form \<open>YYYY-MM-DDTHH:MM:SS[.ffffff][+00:00]\<close>;
  \<open>None\<close> is the \<open>ValueError\<close>. A naive value is read as UTC, which is what the code makes of it.
  The other ISO 8601 forms that Python accepts do not reach this code.
\<close>

definition read_fields :: "string \<Rightarrow> (int \<times> int \<times> int \<times> int \<times> int \<times> int) option" where
  "read_fields s = (case (read_nat (take 4 s), read_nat (take 2 (drop 5 s)), read_nat (take 2 (drop 8 s)),
      read_nat (take 2 (drop 11 s)), read_nat (take 2 (drop 14 s)), read_nat (take 2 (drop 17 s))) of
     (Some y, Some m, Some d, Some hh, Some mm, Some ss) \<Rightarrow>
       if length s = 19 \<and> s ! 4 = CHR ''-'' \<and> s ! 7 = CHR ''-'' \<and> s ! 10 = CHR ''T''
          \<and> s ! 13 = CHR '':'' \<and> s ! 16 = CHR '':''
          \<and> 1 \<le> m \<and> m \<le> 12 \<and> 1 \<le> d \<and> d \<le> month_lens y ! nat (m - 1) \<and> hh < 24 \<and> mm < 60 \<and> ss < 60
       then Some (y, m, d, hh, mm, ss) else None
   | _ \<Rightarrow> None)"

definition read_micro :: "string \<Rightarrow> int option" where
  "read_micro s = (if s = [] \<or> s = ''+00:00'' then Some 0
     else if hd s = CHR ''.'' \<and> (drop 7 s = [] \<or> drop 7 s = ''+00:00'') \<and> 7 \<le> length s
     then read_nat (take 6 (tl s)) else None)"

definition instant :: "int \<times> int \<times> int \<times> int \<times> int \<times> int \<Rightarrow> int \<Rightarrow> datetime" where
  "instant = (\<lambda>(y, m, d, hh, mm, ss) micro.
     ((days_between 1970 y + sum_list (take (nat (m - 1)) (month_lens y)) + (d - 1)) * 86400
           + hh * 3600 + mm * 60 + ss) * 1000000 + micro)"

definition fromisoformat :: "string \<Rightarrow> datetime option" where
  "fromisoformat s = (case (read_fields (take 19 s), read_micro (drop 19 s)) of
     (Some f, Some micro) \<Rightarrow> Some (instant f micro) | _ \<Rightarrow> None)"

lemma length_digits: "0 < w \<Longrightarrow> n < 10 ^ w \<Longrightarrow> length (digits n) \<le> w"
proof (induction w arbitrary: n)
  case (Suc w)
  show ?case
  proof (cases "n < 10")
    case True
    then show ?thesis by (subst digits.simps) simp
  next
    case False
    then have "n div 10 < 10 ^ w" "0 < w"
      using Suc.prems by (auto simp: div_less_iff_less_mult mult.commute intro: gr0I)
    then have "length (digits (n div 10)) \<le> w" using Suc.IH by simp
    then show ?thesis using False by (subst digits.simps) simp
  qed
qed simp

lemma length_pad [simp]: "0 < w \<Longrightarrow> n < 10 ^ w \<Longrightarrow> length (pad w n) = w"
  using length_digits [of w n] by (simp add: pad_def)

lemma int_digits_zeros: "0 \<le> n \<Longrightarrow> int_digits 0 p (replicate k (CHR ''0'') @ digits n) = Some n"
  by (induction k arbitrary: p) (auto simp: is_digit_def)

lemma read_pad [simp]: "0 \<le> n \<Longrightarrow> read_nat (pad w n) = Some n"
  using digits_digits [of n]
  by (auto simp: read_nat_def pad_def int_digits_zeros list_all_iff is_digit_def)

lemma read_fields_pads:
  assumes "0 \<le> y" "y < 10000" "1 \<le> m" "m \<le> 12" "1 \<le> d" "d \<le> month_lens y ! nat (m - 1)" "d < 100"
    "0 \<le> hh" "hh < 24" "0 \<le> mm" "mm < 60" "0 \<le> ss" "ss < 60"
  shows "read_fields (pad 4 y @ ''-'' @ pad 2 m @ ''-'' @ pad 2 d @ ''T''
     @ pad 2 hh @ '':'' @ pad 2 mm @ '':'' @ pad 2 ss) = Some (y, m, d, hh, mm, ss)"
proof -
  have l: "length (pad 4 y) = 4" "length (pad 2 m) = 2" "length (pad 2 d) = 2" "length (pad 2 hh) = 2"
    "length (pad 2 mm) = 2" "length (pad 2 ss) = 2" using assms by simp_all
  show ?thesis using assms by (simp add: read_fields_def l nth_append)
qed

lemma fromisoformat_isoformat:
  assumes "0 \<le> us" "us < 253234080000000000"
  shows "fromisoformat (isoformat us) = Some us"
proof -
  define days t s micro where "days = us div 86400000000" and
    "t = us mod 86400000000" and "s = t div 1000000" and "micro = t mod 1000000"
  obtain y yd where y: "split_year 1970 days = (y, yd)" by force
  obtain m d where m: "split_month (month_lens y) 1 yd = (m, d)" by force
  have d0: "0 \<le> days" "days < 2930950"
    using assms by (simp_all add: days_def div_less_iff_less_mult pos_imp_zdiv_nonneg_iff)
  have yc: "0 \<le> yd" "yd < year_len y" "days_between 1970 y + yd = days" "(y - 1970) * 365 \<le> days" "1970 \<le> y"
    using split_year_correct [OF y d0(1)] by auto
  have mc: "1 \<le> m" "nat (m - 1) < 12" "0 \<le> d" "d < month_lens y ! nat (m - 1)"
    "sum_list (take (nat (m - 1)) (month_lens y)) + d = yd"
    using split_month_correct [OF m yc(1)] yc(2) by simp_all
  have "(y - 1970) * 365 < 8030 * 365" using yc(4) d0(2) by simp
  then have y4: "y < 10000" by simp
  have "month_lens y ! nat (m - 1) \<le> 31"
    using mc(2) by (auto simp: month_lens_def less_Suc_eq numeral_eq_Suc)
  then have d: "d + 1 \<le> month_lens y ! nat (m - 1)" "d + 1 < 100" using mc(4) by linarith+
  have t: "0 \<le> s" "s < 86400" "0 \<le> micro" "micro < 1000000"
    by (auto simp: t_def s_def micro_def div_less_iff_less_mult pos_imp_zdiv_nonneg_iff)
  define head where "head = pad 4 y @ ''-'' @ pad 2 m @ ''-'' @ pad 2 (d + 1) @ ''T''
     @ pad 2 (s div 3600) @ '':'' @ pad 2 (s div 60 mod 60) @ '':'' @ pad 2 (s mod 60)"
  define rest where "rest = (if micro = 0 then [] else ''.'' @ pad 6 micro) @ ''+00:00''"
  have iso: "isoformat us = head @ rest"
    by (simp add: isoformat_def Let_def days_def [symmetric] y m
        t_def [symmetric] s_def [symmetric] micro_def [symmetric] head_def rest_def)
  have hh: "0 \<le> s div 3600" "s div 3600 < 24"
    using t(1,2) by (simp_all add: div_less_iff_less_mult pos_imp_zdiv_nonneg_iff)
  have fields: "read_fields head = Some (y, m, d + 1, s div 3600, s div 60 mod 60, s mod 60)"
    unfolding head_def by (rule read_fields_pads) (use yc(5) y4 mc d hh in auto)
  have len: "length head = 19" using y4 mc d hh by (simp add: head_def)
  have mic: "read_micro rest = Some micro"
  proof (cases "micro = 0")
    case False
    have "length (pad 6 micro) = 6" using t(4) by simp
    then show ?thesis using False t(3) by (simp add: read_micro_def rest_def)
  qed (simp add: read_micro_def rest_def)
  have "s div 3600 = s div 60 div 60" by (simp add: zdiv_zmult2_eq [symmetric])
  moreover have "s div 60 div 60 * 60 + s div 60 mod 60 = s div 60" "s div 60 * 60 + s mod 60 = s"
    by (rule div_mult_mod_eq)+
  ultimately have s_eq: "s div 3600 * 3600 + s div 60 mod 60 * 60 + s mod 60 = s" by linarith
  have "instant (y, m, d + 1, s div 3600, s div 60 mod 60, s mod 60) micro
      = (days * 86400 + (s div 3600 * 3600 + s div 60 mod 60 * 60 + s mod 60)) * 1000000 + micro"
    using yc(3) mc(5) by (simp add: instant_def add.assoc)
  also have "\<dots> = (days * 86400 + s) * 1000000 + micro" by (simp only: s_eq)
  also have "\<dots> = us"
    by (simp add: s_def micro_def t_def days_def distrib_right)
  finally show ?thesis using fields mic len by (simp add: fromisoformat_def iso)
qed

lemma isoformat_inj:
  assumes "0 \<le> a" "a < 253234080000000000" "0 \<le> b" "b < 253234080000000000"
    and eq: "isoformat a = isoformat b"
  shows "a = b"
proof -
  have "Some a = Some b"
    using fromisoformat_isoformat [OF assms(1,2)] fromisoformat_isoformat [OF assms(3,4)]
    by (simp only: eq)
  then show ?thesis by (rule option.inject [THEN iffD1])
qed

lemma pad_nonempty [simp]: "pad w n \<noteq> []"
  by (simp add: pad_def)

lemma isoformat_nonempty [simp]: "isoformat us \<noteq> []"
proof -
  obtain y yd where y: "split_year 1970 (us div 86400000000) = (y, yd)" by force
  obtain m d where m: "split_month (month_lens y) 1 yd = (m, d)" by force
  show ?thesis unfolding isoformat_def Let_def y prod.case m by simp
qed

end
