(* ===== verification/Py_Value.thy ===== *)
theory Py_Value
  imports Py_Time
begin

text \<open>
  Python objects as the code's dictionaries hold them (\<open>dict[str, object]\<close>: incident evidence,
  notification payloads, SDK events, JSON bodies), with the \<open>dict\<close> operations the code uses and
  \<open>json.dumps\<close> / \<open>json.loads\<close> on flat string objects. A \<open>dict\<close> is an association list in
  insertion order, with distinct keys.
\<close>

section \<open>Objects and dictionaries\<close>

text \<open>\<open>pyval\<close> itself is declared in the prelude, because an exception of the SDK carries a \<open>dict\<close>.\<close>

type_synonym pydict = "(string \<times> pyval) list"

text \<open>\<open>d.get(k)\<close>, \<open>d[k] = v\<close>, \<open>{**d, **e}\<close>, \<open>d.pop(k, None)\<close>, \<open>d.setdefault(k, v)\<close>.\<close>

definition dget :: "pydict \<Rightarrow> string \<Rightarrow> pyval" where
  "dget d k = (case map_of d k of None \<Rightarrow> PNone | Some v \<Rightarrow> v)"

definition dset :: "string \<Rightarrow> pyval \<Rightarrow> pydict \<Rightarrow> pydict" where
  "dset k v d = AList.update k v d"

fun dmerge :: "pydict \<Rightarrow> pydict \<Rightarrow> pydict" where
  "dmerge d [] = d"
| "dmerge d ((k, v) # e) = dmerge (dset k v d) e"

definition dpop :: "string \<Rightarrow> pydict \<Rightarrow> pydict" where
  "dpop k d = filter (\<lambda>p. fst p \<noteq> k) d"

definition dsetdefault :: "string \<Rightarrow> pyval \<Rightarrow> pydict \<Rightarrow> pydict" where
  "dsetdefault k v d = (case map_of d k of None \<Rightarrow> d @ [(k, v)] | Some _ \<Rightarrow> d)"

definition has_key :: "pydict \<Rightarrow> string \<Rightarrow> bool" where
  "has_key d k \<longleftrightarrow> map_of d k \<noteq> None"

text \<open>Python values of optional fields.\<close>

definition opt_str :: "string option \<Rightarrow> pyval" where
  "opt_str x = (case x of None \<Rightarrow> PNone | Some s \<Rightarrow> PStr s)"

definition opt_int :: "int option \<Rightarrow> pyval" where
  "opt_int x = (case x of None \<Rightarrow> PNone | Some i \<Rightarrow> PInt i)"

text \<open>\<open>isinstance(v, int)\<close> holds of booleans too; \<open>as_int\<close> is the integer then.\<close>

fun as_int :: "pyval \<Rightarrow> int option" where
  "as_int (PInt i) = Some i"
| "as_int (PBool b) = Some (if b then 1 else 0)"
| "as_int _ = None"

fun as_str :: "pyval \<Rightarrow> string option" where
  "as_str (PStr s) = Some s"
| "as_str _ = None"

fun as_bool :: "pyval \<Rightarrow> bool option" where
  "as_bool (PBool b) = Some b"
| "as_bool _ = None"

fun as_dict :: "pyval \<Rightarrow> pydict option" where
  "as_dict (PDict d) = Some d"
| "as_dict _ = None"

text \<open>The truth value of an object (\<open>if v\<close>, \<open>v or ...\<close>).\<close>

fun truth :: "pyval \<Rightarrow> bool" where
  "truth PNone = False"
| "truth (PBool b) = b"
| "truth (PInt i) = (i \<noteq> 0)"
| "truth (PFloat x) = (x \<noteq> 0)"
| "truth (PStr s) = (s \<noteq> [])"
| "truth (PList xs) = (xs \<noteq> [])"
| "truth (PDict d) = (d \<noteq> [])"
| "truth (PObj d) = True"

lemma dget_Nil [simp]: "dget [] k = PNone"
  by (simp add: dget_def)

lemma dget_Cons [simp]: "dget ((k', v) # d) k = (if k' = k then v else dget d k)"
  by (simp add: dget_def)

lemma dget_dset: "dget (dset k v d) k' = (if k' = k then v else dget d k')"
  by (auto simp: dget_def dset_def update_conv)

lemma map_of_dset: "map_of (dset k v d) = (map_of d)(k \<mapsto> v)"
  by (simp add: dset_def update_conv')

lemma map_of_dmerge: "map_of (dmerge d e) = map_of d ++ map_of (rev e)"
proof (induction d e rule: dmerge.induct)
  case (2 d k v e)
  then show ?case by (simp add: map_of_dset map_add_def fun_eq_iff split: option.splits)
qed simp

lemma map_of_rev: "distinct (map fst e) \<Longrightarrow> map_of (rev e) = map_of e"
  by (metis distinct_map distinct_rev map_of_inject_set rev_map set_rev)

lemma dget_dmerge:
  "distinct (map fst e) \<Longrightarrow>
     dget (dmerge d e) k = (if has_key e k then dget e k else dget d k)"
  by (cases "map_of e k") (simp_all add: dget_def has_key_def map_of_dmerge map_of_rev map_add_def
      del: map_of_eq_None_iff)

lemma dget_dpop: "dget (dpop k d) k' = (if k' = k then PNone else dget d k')"
  by (induction d) (auto simp: dpop_def dget_def)

lemma dget_dsetdefault:
  "dget (dsetdefault k v d) k' = (if k' = k \<and> \<not> has_key d k then v else dget d k')"
  by (auto simp: dsetdefault_def dget_def has_key_def map_add_def split: option.splits)

lemma distinct_dset [simp]: "distinct (map fst d) \<Longrightarrow> distinct (map fst (dset k v d))"
  by (simp add: dset_def distinct_update)

lemma distinct_dmerge [simp]: "distinct (map fst d) \<Longrightarrow> distinct (map fst (dmerge d e))"
  by (induction d e rule: dmerge.induct) auto

lemma as_int_opt [simp]: "as_int (opt_int x) = x"
  by (cases x) (auto simp: opt_int_def)

lemma as_str_opt [simp]: "as_str (opt_str x) = x"
  by (cases x) (auto simp: opt_str_def)

section \<open>Conversions\<close>

text \<open>\<open>str(v)\<close> of the scalars; containers print through \<open>repr\<close>, which no caller reads.\<close>

fun py_str :: "pyval \<Rightarrow> string" where
  "py_str PNone = ''None''"
| "py_str (PBool b) = (if b then ''True'' else ''False'')"
| "py_str (PInt i) = py_str_int i"
| "py_str (PStr s) = s"
| "py_str (PFloat x) = ''<float>''"
| "py_str (PList xs) = ''<list>''"
| "py_str (PDict d) = ''<dict>''"
| "py_str (PObj d) = ''<object>''"

text \<open>\<open>int(v)\<close>, \<open>None\<close> for \<open>TypeError\<close> and \<open>ValueError\<close>.\<close>

fun py_int :: "pyval \<Rightarrow> int option" where
  "py_int (PInt i) = Some i"
| "py_int (PBool b) = Some (if b then 1 else 0)"
| "py_int (PFloat x) = Some (py_trunc x)"
| "py_int (PStr s) = py_int_str s"
| "py_int _ = None"

section \<open>JSON\<close>

text \<open>
  \<open>json.dumps\<close> and \<open>json.loads\<close> on what the code stores as JSON text: an object whose values are
  strings. \<open>json.dumps\<close> writes \<open>", "\<close> and \<open>": "\<close> and escapes quotes, backslashes, control
  characters and code points above 126; \<open>json.loads\<close> is modelled on objects of strings (\<open>None\<close>
  is a decoding error or a document of another shape, which the code treats alike).
\<close>

definition hex_digit :: "int \<Rightarrow> char" where
  "hex_digit d = (if d < 10 then char_of (48 + d) else char_of (87 + d))"

definition unhex :: "char \<Rightarrow> int option" where
  "unhex c = (let n = of_char c :: int in
     if 48 \<le> n \<and> n \<le> 57 then Some (n - 48)
     else if 97 \<le> n \<and> n \<le> 102 then Some (n - 87)
     else if 65 \<le> n \<and> n \<le> 70 then Some (n - 55) else None)"

definition json_plain :: "char \<Rightarrow> bool" where
  "json_plain c \<longleftrightarrow> (let n = of_char c :: int in 32 \<le> n \<and> n \<le> 126 \<and> n \<noteq> 34 \<and> n \<noteq> 92)"

definition json_escape :: "char \<Rightarrow> string" where
  "json_escape c =
     (if json_plain c then [c]
      else if c = CHR 0x22 then [CHR 0x5C, CHR 0x22]
      else if c = CHR 0x5C then [CHR 0x5C, CHR 0x5C]
      else if c = CHR 0x0A then [CHR 0x5C, CHR ''n'']
      else if c = CHR 0x0D then [CHR 0x5C, CHR ''r'']
      else if c = CHR 0x09 then [CHR 0x5C, CHR ''t'']
      else if c = CHR 0x08 then [CHR 0x5C, CHR ''b'']
      else if c = CHR 0x0C then [CHR 0x5C, CHR ''f'']
      else [CHR 0x5C, CHR ''u'', CHR ''0'', CHR ''0'',
            hex_digit (of_char c div 16), hex_digit (of_char c mod 16)])"

definition json_str :: "string \<Rightarrow> string" where
  "json_str s = CHR 0x22 # concat (map json_escape s) @ [CHR 0x22]"

fun json_members :: "(string \<times> string) list \<Rightarrow> string" where
  "json_members [] = []"
| "json_members [(k, v)] = json_str k @ '': '' @ json_str v"
| "json_members ((k, v) # ms) = json_str k @ '': '' @ json_str v @ '', '' @ json_members ms"

definition json_dumps :: "(string \<times> string) list \<Rightarrow> string" where
  "json_dumps d = ''{'' @ json_members d @ ''}''"

definition json_unescape :: "char \<Rightarrow> char option" where
  "json_unescape c = (
     if c = CHR 0x22 \<or> c = CHR 0x5C \<or> c = CHR ''/'' then Some c
     else if c = CHR ''n'' then Some (CHR 0x0A) else if c = CHR ''r'' then Some (CHR 0x0D)
     else if c = CHR ''t'' then Some (CHR 0x09) else if c = CHR ''b'' then Some (CHR 0x08)
     else if c = CHR ''f'' then Some (CHR 0x0C) else None)"

text \<open>\<open>\uXXXX\<close>, for a code point below 256.\<close>

definition unhex4 :: "char \<Rightarrow> char \<Rightarrow> char \<Rightarrow> char \<Rightarrow> char option" where
  "unhex4 a b x y =
     (case (unhex a, unhex b, unhex x, unhex y) of
        (Some i, Some j, Some k, Some l) \<Rightarrow>
          if i = 0 \<and> j = 0 then Some (char_of (16 * k + l)) else None
      | _ \<Rightarrow> None)"

text \<open>The rest of a string after its opening quote: its value and what follows.\<close>

fun json_read_str :: "string \<Rightarrow> (string \<times> string) option" where
  "json_read_str [] = None"
| "json_read_str (c # cs) =
     (if c = CHR 0x22 then Some ([], cs)
      else if c = CHR 0x5C then
        (case cs of
           [] \<Rightarrow> None
         | e # es \<Rightarrow>
             if e = CHR ''u'' then
               (case es of
                  a # b # x # y # rest \<Rightarrow>
                    (case unhex4 a b x y of
                       Some u \<Rightarrow> map_option (\<lambda>(s, r). (u # s, r)) (json_read_str rest)
                     | None \<Rightarrow> None)
                | _ \<Rightarrow> None)
             else (case json_unescape e of
                 None \<Rightarrow> None
               | Some u \<Rightarrow> map_option (\<lambda>(s, r). (u # s, r)) (json_read_str es)))
      else if (of_char c :: int) < 32 then None
      else map_option (\<lambda>(s, r). (c # s, r)) (json_read_str cs))"

definition json_space :: "char \<Rightarrow> bool" where
  "json_space c \<longleftrightarrow> (let n = of_char c :: int in n = 32 \<or> n = 9 \<or> n = 10 \<or> n = 13)"

definition json_skip :: "string \<Rightarrow> string" where
  "json_skip s = dropWhile json_space s"

definition json_quoted :: "string \<Rightarrow> (string \<times> string) option" where
  "json_quoted s = (case json_skip s of
     [] \<Rightarrow> None
   | c # cs \<Rightarrow> if c = CHR 0x22 then json_read_str cs else None)"

definition json_expect :: "char \<Rightarrow> string \<Rightarrow> string option" where
  "json_expect c s = (case json_skip s of [] \<Rightarrow> None | x # xs \<Rightarrow> if x = c then Some xs else None)"

text \<open>Members of an object, at most as many as the fuel, which the caller sets to the text's length.\<close>

fun json_read_members :: "nat \<Rightarrow> string \<Rightarrow> ((string \<times> string) list \<times> string) option" where
  "json_read_members 0 s = None"
| "json_read_members (Suc n) s =
     (case json_quoted s of None \<Rightarrow> None | Some (k, s1) \<Rightarrow>
      case json_expect (CHR '':'') s1 of None \<Rightarrow> None | Some s2 \<Rightarrow>
      case json_quoted s2 of None \<Rightarrow> None | Some (v, s3) \<Rightarrow>
      case json_expect (CHR ''}'') s3 of Some s4 \<Rightarrow> Some ([(k, v)], s4) | None \<Rightarrow>
      case json_expect (CHR '','') s3 of None \<Rightarrow> None | Some s4 \<Rightarrow>
      map_option (\<lambda>(ms, r). ((k, v) # ms, r)) (json_read_members n s4))"

definition json_loads :: "string \<Rightarrow> (string \<times> string) list option" where
  "json_loads s = (case json_expect (CHR ''{'') s of None \<Rightarrow> None | Some s1 \<Rightarrow>
     (case json_expect (CHR ''}'') s1 of
        Some r \<Rightarrow> if json_skip r = [] then Some [] else None
      | None \<Rightarrow> (case json_read_members (length s1) s1 of
            None \<Rightarrow> None
          | Some (ms, r) \<Rightarrow> if json_skip r = [] then Some ms else None)))"

lemma of_char_int_bounds: "(0::int) \<le> of_char c \<and> (of_char c :: int) < 256"
  by (metis of_char_mod_256 pos_mod_bound pos_mod_sign zero_less_numeral)

lemma unhex_hex_digit: "0 \<le> d \<Longrightarrow> d < 16 \<Longrightarrow> unhex (hex_digit d) = Some d"
  by (auto simp: unhex_def hex_digit_def Let_def)

lemma json_read_escape:
  "json_read_str (json_escape c @ rest) = map_option (\<lambda>(s, r). (c # s, r)) (json_read_str rest)"
proof -
  define n where "n = (of_char c :: int)"
  have n: "0 \<le> n" "n < 256" using of_char_int_bounds [of c] by (simp_all add: n_def)
  have c: "c = char_of n" by (simp add: n_def)
  have h: "unhex (hex_digit (n div 16)) = Some (n div 16)" "unhex (hex_digit (n mod 16)) = Some (n mod 16)"
    using n by (auto intro!: unhex_hex_digit simp: div_less_iff_less_mult pos_imp_zdiv_nonneg_iff)
  have z: "unhex (CHR ''0'') = Some 0" by (simp add: unhex_def)
  show ?thesis
  proof (cases "json_plain c")
    case True
    then have "c \<noteq> CHR 0x22" "c \<noteq> CHR 0x5C" "\<not> (of_char c :: int) < 32"
      by (auto simp: json_plain_def Let_def)
    then show ?thesis using True by (simp add: json_escape_def Let_def)
  next
    case False
    then show ?thesis
      by (simp add: json_escape_def Let_def unhex4_def h z c [symmetric] json_unescape_def n_def [symmetric])
  qed
qed

lemma json_read_str_escaped:
  "json_read_str (concat (map json_escape s) @ CHR 0x22 # rest) = Some (s, rest)"
  by (induction s) (simp_all add: json_read_escape)

lemma json_quoted_str [simp]: "json_quoted (json_str s @ rest) = Some (s, rest)"
  by (simp add: json_quoted_def json_skip_def json_str_def json_space_def json_read_str_escaped)

lemma json_quoted_space [simp]: "json_quoted (CHR '' '' # s) = json_quoted s"
  by (simp add: json_quoted_def json_skip_def json_space_def)

lemma json_expect_Cons [simp]:
  "\<not> json_space x \<Longrightarrow> json_expect c (x # xs) = (if x = c then Some xs else None)"
  by (simp add: json_expect_def json_skip_def)

lemma json_space_punct [simp]:
  "\<not> json_space (CHR '':'')" "\<not> json_space (CHR '','')" "\<not> json_space (CHR ''{'')"
  "\<not> json_space (CHR ''}'')" "\<not> json_space (CHR 0x22)"
  by (simp_all add: json_space_def)

lemma json_expect_str [simp]:
  "c \<noteq> CHR 0x22 \<Longrightarrow> json_expect c (json_str s @ rest) = None"
  by (simp add: json_str_def)

lemma json_read_members_dump:
  "d \<noteq> [] \<Longrightarrow> length d \<le> n \<Longrightarrow>
     json_read_members n (json_members d @ CHR ''}'' # rest) = Some (d, rest)"
proof (induction d arbitrary: n rule: json_members.induct)
  case (2 k v)
  then obtain m where "n = Suc m" by (cases n) auto
  then show ?case by simp
next
  case (3 k v m ms)
  from "3.prems" obtain n' where n: "n = Suc n'" "length (m # ms) \<le> n'" by (cases n) auto
  have sp: "json_read_members n' (CHR '' '' # s) = json_read_members n' s" for s
    by (cases n') simp_all
  show ?case using "3.IH" [of n'] n by (simp add: sp)
qed simp

lemma length_json_members: "length d \<le> length (json_members d)"
  by (induction d rule: json_members.induct) (auto simp: json_str_def)

theorem json_loads_dumps: "json_loads (json_dumps d) = Some d"
proof (cases d)
  case Nil
  then show ?thesis by (simp add: json_loads_def json_dumps_def json_skip_def)
next
  case (Cons p ms)
  obtain k v where p: "p = (k, v)" by (cases p)
  have start: "json_expect (CHR ''}'') (json_members d @ ''}'') = None"
    unfolding Cons p by (cases ms) (simp_all add: json_str_def)
  have "json_read_members (length (json_members d @ ''}'')) (json_members d @ CHR ''}'' # [])
      = Some (d, [])"
    using length_json_members [of d] Cons by (intro json_read_members_dump) auto
  then show ?thesis using start by (simp add: json_loads_def json_dumps_def json_skip_def)
qed

section \<open>Compact JSON\<close>

definition json_raw_escape :: "char \<Rightarrow> string" where
  "json_raw_escape c = (if 127 \<le> (of_char c :: int) then [c] else json_escape c)"

definition json_raw_str :: "string \<Rightarrow> string" where
  "json_raw_str s = CHR 0x22 # concat (map json_raw_escape s) @ [CHR 0x22]"

fun join_str :: "string \<Rightarrow> string list \<Rightarrow> string" where
  "join_str sep [] = []"
| "join_str sep [x] = x"
| "join_str sep (x # xs) = x @ sep @ join_str sep xs"

text \<open>\<open>json.dumps(body, separators=(",", ":"), ensure_ascii=False)\<close>: keys in insertion order,
  and only quotes, backslashes and control characters escaped. \<open>fr\<close> is \<open>float.__repr__\<close>. Python raises
  \<open>TypeError\<close> on an object of another class: callers ask \<open>jsonable\<close> where one can occur.
\<close>

fun json_ordered :: "(rat \<Rightarrow> string) \<Rightarrow> pyval \<Rightarrow> string" where
  "json_ordered fr PNone = ''null''"
| "json_ordered fr (PBool b) = (if b then ''true'' else ''false'')"
| "json_ordered fr (PInt i) = py_str_int i"
| "json_ordered fr (PFloat x) = fr x"
| "json_ordered fr (PStr s) = json_raw_str s"
| "json_ordered fr (PList xs) = ''['' @ join_str '','' (map (json_ordered fr) xs) @ '']''"
| "json_ordered fr (PDict d) = ''{'' @ join_str '',''
     (map (\<lambda>p. json_raw_str (fst p) @ '':'' @ json_ordered fr (snd p)) d) @ ''}''"
| "json_ordered fr (PObj d) = json_raw_str (py_str (PObj d))"

fun jsonable :: "pyval \<Rightarrow> bool" where
  "jsonable (PObj d) = False"
| "jsonable (PList xs) = list_all jsonable xs"
| "jsonable (PDict d) = list_all (\<lambda>p. jsonable (snd p)) d"
| "jsonable v = True"

end
