(* ===== verification/Log_Format.thy ===== *)
theory Log_Format
  imports Py_Value
begin

text \<open>
  Structured logging (\<open>app/logger.py\<close> of the backend, \<open>rheonic/logger.py\<close> of the SDK): a log record becomes one JSON
  line, with the values under sensitive keys replaced wherever they are nested. A record is its message,
  its level, the attributes of \<open>record.__dict__\<close> and the texts of its exception; the time and the trace
  context are arguments. Tuples, sets and datetimes, which the code turns into lists and texts first, have
  no counterpart in \<open>pyval\<close>.
\<close>

section \<open>Redaction\<close>

definition sensitive_field_markers :: "string list" where
  "sensitive_field_markers = [''api_key'', ''apikey'', ''authorization'', ''cookie'', ''password'', ''secret'', ''token'']"

definition is_sensitive_key :: "string \<Rightarrow> bool" where
  "is_sensitive_key key = (let lowered = lower (strip key) in list_ex (\<lambda>marker. contains lowered marker) sensitive_field_markers)"

definition sdk_sensitive_key :: "string \<Rightarrow> bool" where
  "sdk_sensitive_key key = list_ex (\<lambda>marker. contains (lower key) marker) sensitive_field_markers"

definition redacted_text :: pyval where
  "redacted_text = PStr ''[REDACTED]''"

fun sanitize_value :: "(string \<Rightarrow> bool) \<Rightarrow> pyval \<Rightarrow> pyval" where
  "sanitize_value sensitive (PDict d) =
     PDict (map (\<lambda>p. (fst p, if sensitive (fst p) then redacted_text else sanitize_value sensitive (snd p))) d)"
| "sanitize_value sensitive (PList xs) = PList (map (sanitize_value sensitive) xs)"
| "sanitize_value sensitive (PObj d) = PStr (py_str (PObj d))"
| "sanitize_value sensitive v = v"

text \<open>\<open>_sanitize_value(value, key=key)\<close>.\<close>

definition sanitize_entry :: "(string \<Rightarrow> bool) \<Rightarrow> string \<Rightarrow> pyval \<Rightarrow> pyval" where
  "sanitize_entry sensitive key v = (if sensitive key then redacted_text else sanitize_value sensitive v)"

section \<open>Records\<close>

record log_record =
  lr_message :: string
  lr_levelname :: string
  lr_dict :: pydict
  lr_exc_info :: "(string \<times> string) option"
  lr_stack_info :: "string option"

definition reserved_extra_fields :: "string list" where
  "reserved_extra_fields = [''args'', ''created'', ''exc_info'', ''exc_text'', ''filename'', ''funcName'', ''levelname'',
     ''levelno'', ''lineno'', ''module'', ''msecs'', ''message'', ''msg'', ''name'', ''pathname'', ''process'',
     ''processName'', ''relativeCreated'', ''stack_info'', ''thread'', ''threadName'']"

definition collect_metadata :: "(string \<Rightarrow> bool) \<Rightarrow> string list \<Rightarrow> pydict \<Rightarrow> pydict" where
  "collect_metadata sensitive skipped d =
     (let metadata = (case as_dict (dget d ''metadata'') of None \<Rightarrow> []
            | Some m \<Rightarrow> (case as_dict (sanitize_value sensitive (PDict m)) of None \<Rightarrow> [] | Some s \<Rightarrow> s))
      in fold (\<lambda>(key, v) metadata. if key \<in> set reserved_extra_fields \<or> key \<in> set skipped then metadata
                 else dset key (sanitize_entry sensitive key v) metadata) d metadata)"

definition build_metadata :: "log_record \<Rightarrow> pydict" where
  "build_metadata r = collect_metadata is_sensitive_key
     [''event'', ''metadata'', ''trace_id'', ''span_id'', ''service'', ''env''] (lr_dict r)"

definition resolve_string :: "pyval \<Rightarrow> string" where
  "resolve_string v = (if v = PNone then [] else strip (py_str v))"

text \<open>\<open>re.sub("[^a-z0-9_]+", "_", s)\<close>.\<close>

definition event_char :: "char \<Rightarrow> bool" where
  "event_char c \<longleftrightarrow> (let n = of_char c :: int in 97 \<le> n \<and> n \<le> 122 \<or> 48 \<le> n \<and> n \<le> 57) \<or> c = CHR ''_''"

definition sanitize_event_name :: "string \<Rightarrow> string" where
  "sanitize_event_name v =
     (let normalized = strip_char (CHR ''_'') (sub_runs event_char (CHR ''_'') False (lower (strip v))) in
      if normalized = [] then ''log'' else normalized)"

definition resolve_event :: "log_record \<Rightarrow> string" where
  "resolve_event r =
     (let explicit_event = resolve_string (dget (lr_dict r) ''event'') in
      if explicit_event \<noteq> [] then sanitize_event_name explicit_event
      else if lr_exc_info r \<noteq> None then ''error''
      else if lr_message r = [] then ''log''
      else sanitize_event_name (lr_message r))"

definition normalize_level :: "string \<Rightarrow> string" where
  "normalize_level level_name =
     (let normalized = lower (strip (or_str level_name ''info'')) in
      if normalized = ''warning'' then ''warn''
      else if normalized \<notin> {''debug'', ''info'', ''warn'', ''error''} then ''info'' else normalized)"

text \<open>\<open>getattr(record, name, None) or default\<close>.\<close>

definition attribute_or :: "log_record \<Rightarrow> string \<Rightarrow> string \<Rightarrow> pyval" where
  "attribute_or r name default_text =
     (if truth (dget (lr_dict r) name) then dget (lr_dict r) name else PStr default_text)"

section \<open>Lines\<close>

record log_context =
  lc_service :: string
  lc_env :: string
  lc_app_version :: string
  lc_trace_id :: string
  lc_span_id :: string

definition format_record :: "(rat \<Rightarrow> string) \<Rightarrow> log_context \<Rightarrow> datetime \<Rightarrow> log_record \<Rightarrow> string" where
  "format_record fr C now r =
     (let metadata = build_metadata r;
          metadata = (case lr_exc_info r of
              Some (error_message, stack_trace) \<Rightarrow>
                dsetdefault ''stack_trace'' (PStr stack_trace) (dsetdefault ''error_message'' (PStr error_message) metadata)
            | None \<Rightarrow> (case lr_stack_info r of
                Some s \<Rightarrow> if s = [] then metadata else dsetdefault ''stack_trace'' (PStr s) metadata
              | None \<Rightarrow> metadata))
      in json_ordered fr (PDict
           [(''timestamp'', PStr (isoformat now)), (''level'', PStr (normalize_level (lr_levelname r))),
            (''service'', attribute_or r ''service'' (lc_service C)), (''env'', attribute_or r ''env'' (lc_env C)),
            (''app_version'', attribute_or r ''app_version'' (lc_app_version C)),
            (''trace_id'', PStr (or_str (resolve_string (dget (lr_dict r) ''trace_id'')) (lc_trace_id C))),
            (''span_id'', PStr (or_str (resolve_string (dget (lr_dict r) ''span_id'')) (lc_span_id C))),
            (''event'', PStr (resolve_event r)), (''message'', PStr (lr_message r)), (''metadata'', PDict metadata)]))"

section \<open>The SDK's lines\<close>

definition sdk_build_metadata :: "log_record \<Rightarrow> pydict" where
  "sdk_build_metadata r = collect_metadata sdk_sensitive_key [''event'', ''metadata'', ''trace_id'', ''span_id''] (lr_dict r)"

definition sdk_resolve_event :: "log_record \<Rightarrow> string" where
  "sdk_resolve_event r =
     (let explicit_event = resolve_string (dget (lr_dict r) ''event'') in
      if explicit_event \<noteq> [] then sanitize_event_name explicit_event
      else if lr_exc_info r \<noteq> None then ''error'' else sanitize_event_name (lr_message r))"

definition sdk_normalize_level :: "string \<Rightarrow> string" where
  "sdk_normalize_level level_name =
     (let normalized = lower (strip (or_str level_name ''info'')) in if normalized = ''warning'' then ''warn'' else normalized)"

text \<open>\<open>fresh_trace\<close> and \<open>fresh_span\<close> are generated where the record and the context have no id.\<close>

definition sdk_format_record ::
  "(rat \<Rightarrow> string) \<Rightarrow> log_context \<Rightarrow> string \<Rightarrow> string \<Rightarrow> datetime \<Rightarrow> log_record \<Rightarrow> string" where
  "sdk_format_record fr C fresh_trace fresh_span now r =
     (let metadata = sdk_build_metadata r;
          metadata = (case lr_exc_info r of
              Some (error_message, stack_trace) \<Rightarrow>
                dsetdefault ''stack_trace'' (PStr stack_trace) (dsetdefault ''error_message'' (PStr error_message) metadata)
            | None \<Rightarrow> metadata)
      in json_ordered fr (PDict
           [(''timestamp'', PStr (isoformat now)), (''level'', PStr (sdk_normalize_level (lr_levelname r))),
            (''service'', PStr (lc_service C)), (''env'', PStr (lc_env C)),
            (''trace_id'', PStr (or_str (or_str (resolve_string (dget (lr_dict r) ''trace_id'')) (lc_trace_id C)) fresh_trace)),
            (''span_id'', PStr (or_str (or_str (resolve_string (dget (lr_dict r) ''span_id'')) (lc_span_id C)) fresh_span)),
            (''event'', PStr (sdk_resolve_event r)), (''message'', PStr (lr_message r)), (''metadata'', PDict metadata)]))"

section \<open>Secrets\<close>

text \<open>Values that differ at most under sensitive keys.\<close>

inductive agree :: "(string \<Rightarrow> bool) \<Rightarrow> pyval \<Rightarrow> pyval \<Rightarrow> bool" for sensitive where
  same: "agree sensitive v v"
| lists: "list_all2 (agree sensitive) xs ys \<Longrightarrow> agree sensitive (PList xs) (PList ys)"
| dicts: "list_all2 (\<lambda>p q. fst p = fst q \<and> (sensitive (fst p) \<or> agree sensitive (snd p) (snd q))) d e \<Longrightarrow>
    agree sensitive (PDict d) (PDict e)"

abbreviation agree_entries :: "(string \<Rightarrow> bool) \<Rightarrow> pydict \<Rightarrow> pydict \<Rightarrow> bool" where
  "agree_entries sensitive d e \<equiv>
     list_all2 (\<lambda>p q. fst p = fst q \<and> (sensitive (fst p) \<or> agree sensitive (snd p) (snd q))) d e"

lemma map_list_all2: "list_all2 (\<lambda>x y. f x = f y) xs ys \<Longrightarrow> map f xs = map f ys"
  by (induction rule: list_all2_induct) simp_all

lemma sanitize_agree: "agree sensitive v w \<Longrightarrow> sanitize_value sensitive v = sanitize_value sensitive w"
proof (induction rule: agree.induct)
  case (lists xs ys)
  then have "list_all2 (\<lambda>x y. sanitize_value sensitive x = sanitize_value sensitive y) xs ys"
    by (auto elim: list_all2_mono)
  then show ?case using map_list_all2 [of "sanitize_value sensitive" xs ys] by simp
next
  case (dicts d e)
  let ?f = "\<lambda>p. (fst p, if sensitive (fst p) then redacted_text else sanitize_value sensitive (snd p))"
  from dicts have "list_all2 (\<lambda>p q. ?f p = ?f q) d e" by (auto elim!: list_all2_mono)
  then show ?case using map_list_all2 [of ?f d e] by simp
qed simp

lemma agree_dict: "agree sensitive v w \<Longrightarrow> as_dict v = None \<longleftrightarrow> as_dict w = None"
  by (induction rule: agree.induct) simp_all

lemma agree_get:
  "agree_entries sensitive d e \<Longrightarrow> \<not> sensitive k \<Longrightarrow> agree sensitive (dget d k) (dget e k)"
  by (induction rule: list_all2_induct) (auto simp: dget_def intro: same)

lemma agree_fold:
  "agree_entries sensitive d e \<Longrightarrow>
   fold (\<lambda>(key, v) m. if P key then m else dset key (sanitize_entry sensitive key v) m) d m =
   fold (\<lambda>(key, v) m. if P key then m else dset key (sanitize_entry sensitive key v) m) e m"
proof (induction arbitrary: m rule: list_all2_induct)
  case (Cons p d q e)
  then have "sanitize_entry sensitive (fst p) (snd p) = sanitize_entry sensitive (fst q) (snd q)"
    by (auto simp: sanitize_entry_def sanitize_agree)
  then show ?case using Cons by (simp add: case_prod_unfold)
qed simp

lemma metadata_agree:
  assumes "agree_entries sensitive d e" "\<not> sensitive ''metadata''"
  shows "collect_metadata sensitive skipped d = collect_metadata sensitive skipped e"
proof -
  have a: "agree sensitive (dget d ''metadata'') (dget e ''metadata'')" using agree_get [OF assms] .
  have "(case as_dict (dget d ''metadata'') of None \<Rightarrow> [] | Some m \<Rightarrow>
          (case as_dict (sanitize_value sensitive (PDict m)) of None \<Rightarrow> [] | Some s \<Rightarrow> s)) =
        (case as_dict (dget e ''metadata'') of None \<Rightarrow> [] | Some m \<Rightarrow>
          (case as_dict (sanitize_value sensitive (PDict m)) of None \<Rightarrow> [] | Some s \<Rightarrow> s))"
    using agree_dict [OF a] sanitize_agree [OF a]
    by (cases "dget d ''metadata''"; cases "dget e ''metadata''") simp_all
  then show ?thesis
    unfolding collect_metadata_def Let_def using agree_fold [OF assms(1)] by simp
qed

text \<open>
  C37: a log line shows nothing of a value under a sensitive key. Two records with the same message, level
  and exception whose attributes differ at most in values under sensitive keys, at any depth of their
  dictionaries and lists, give the same line in the backend, and likewise in the SDK. The attributes the
  line prints outside its metadata are taken to be the same in both.
\<close>

theorem logs_hide_secrets:
  assumes "lr_message r = lr_message s" "lr_levelname r = lr_levelname s" "lr_exc_info r = lr_exc_info s"
    and "lr_stack_info r = lr_stack_info s"
    and "\<forall>k \<in> {''event'', ''trace_id'', ''span_id'', ''service'', ''env'', ''app_version''}. dget (lr_dict r) k = dget (lr_dict s) k"
  shows "(agree_entries is_sensitive_key (lr_dict r) (lr_dict s) \<longrightarrow> format_record fr C now r = format_record fr C now s) \<and>
     (agree_entries sdk_sensitive_key (lr_dict r) (lr_dict s) \<longrightarrow>
        sdk_format_record fr C t p now r = sdk_format_record fr C t p now s)"
proof -
  have k: "\<not> is_sensitive_key ''metadata''" "\<not> sdk_sensitive_key ''metadata''" by code_simp+
  have a: "attribute_or r n x = attribute_or s n x" if "n \<in> {''service'', ''env'', ''app_version''}" for n x
    using assms(5) that by (auto simp: attribute_or_def)
  have e: "resolve_event r = resolve_event s" "sdk_resolve_event r = sdk_resolve_event s"
    using assms by (simp_all add: resolve_event_def sdk_resolve_event_def Let_def)
  have f: "format_record fr C now r = format_record fr C now s" if "build_metadata r = build_metadata s"
    unfolding format_record_def Let_def assms(1-4) e that using assms(5) a by simp
  have g: "sdk_format_record fr C t p now r = sdk_format_record fr C t p now s" if "sdk_build_metadata r = sdk_build_metadata s"
    unfolding sdk_format_record_def Let_def assms(1-4) e that using assms(5) by simp
  have "agree_entries is_sensitive_key (lr_dict r) (lr_dict s) \<Longrightarrow> build_metadata r = build_metadata s"
    unfolding build_metadata_def using metadata_agree k(1) by blast
  moreover have "agree_entries sdk_sensitive_key (lr_dict r) (lr_dict s) \<Longrightarrow> sdk_build_metadata r = sdk_build_metadata s"
    unfolding sdk_build_metadata_def using metadata_agree k(2) by blast
  ultimately show ?thesis using f g by blast
qed

text \<open>The markers are broad: counts of tokens are hidden as well.\<close>

lemma token_counts_redacted:
  "sanitize_entry sdk_sensitive_key ''estimated_input_tokens'' (PInt n) = redacted_text"
  "sanitize_entry is_sensitive_key ''tokens_60s'' (PInt n) = redacted_text"
proof -
  have "sdk_sensitive_key ''estimated_input_tokens''" "is_sensitive_key ''tokens_60s''" by code_simp+
  then show "sanitize_entry sdk_sensitive_key ''estimated_input_tokens'' (PInt n) = redacted_text"
    "sanitize_entry is_sensitive_key ''tokens_60s'' (PInt n) = redacted_text" by (simp_all add: sanitize_entry_def)
qed

definition login_record :: "string \<Rightarrow> log_record" where
  "login_record password = \<lparr> lr_message = ''Login'', lr_levelname = ''INFO'',
     lr_dict = [(''metadata'', PDict [(''user'', PStr ''u1''), (''Password'', PStr password)])],
     lr_exc_info = None, lr_stack_info = None \<rparr>"

definition demo_log_context :: log_context where
  "demo_log_context = \<lparr> lc_service = ''backend'', lc_env = ''dev'', lc_app_version = ''1'', lc_trace_id = ''t'', lc_span_id = ''s'' \<rparr>"

theorem logs_hide_secrets_witness:
  "format_record (\<lambda>_. []) demo_log_context 0 (login_record ''abc'')
     = format_record (\<lambda>_. []) demo_log_context 0 (login_record ''xyz'')"
proof -
  have "is_sensitive_key ''Password''" by code_simp
  then have "agree_entries is_sensitive_key (lr_dict (login_record ''abc'')) (lr_dict (login_record ''xyz''))"
    by (auto simp: login_record_def intro!: agree.intros)
  then show ?thesis
    using logs_hide_secrets [of "login_record ''abc''" "login_record ''xyz''"] by (simp add: login_record_def dget_def)
qed

end
