(* ===== verification/Db_Table.thy ===== *)
theory Db_Table
  imports Prelude
begin

text \<open>
  A database table as the repositories use it through SQLAlchemy sessions: adding a record in its
  own transaction, selecting by a filter, committing changed records and deleting by a filter. The database is a
  parameter; \<open>db_contract\<close> states what it documents (unique constraints raise
  \<open>IntegrityError\<close> and change nothing, a commit replaces records by primary key), over the table's
  rows in scan order. \<open>list_table\<close> is an in-memory table in any world, an instance of the contract.
\<close>

record ('w, 'r) db_table =
  db_add :: "'r \<Rightarrow> ('w, unit) py"
  db_select :: "('r \<Rightarrow> bool) \<Rightarrow> ('w, 'r list) py"
  db_save :: "'r list \<Rightarrow> ('w, unit) py"
  db_delete :: "('r \<Rightarrow> bool) \<Rightarrow> ('w, int) py"

definition replace_rows :: "('r \<Rightarrow> string) \<Rightarrow> 'r list \<Rightarrow> 'r list \<Rightarrow> 'r list" where
  "replace_rows key rs xs = map (\<lambda>x. case find (\<lambda>r. key r = key x) rs of None \<Rightarrow> x | Some r \<Rightarrow> r) xs"

text \<open>\<open>query.order_by(f.desc())\<close> and \<open>.first()\<close>.\<close>

definition order_desc :: "('r \<Rightarrow> int) \<Rightarrow> 'r list \<Rightarrow> 'r list" where
  "order_desc f xs = sort_key (\<lambda>x. - f x) xs"

definition order_asc :: "('r \<Rightarrow> int) \<Rightarrow> 'r list \<Rightarrow> 'r list" where
  "order_asc f xs = sort_key f xs"

text \<open>A session that is closed by an exception before its commit leaves the database as it was.\<close>

definition transaction :: "('w, 'a) py \<Rightarrow> ('w, 'a) py" where
  "transaction m = (\<lambda>w. case m w of (Inl e, _) \<Rightarrow> (Inl e, w) | (Inr a, w') \<Rightarrow> (Inr a, w'))"

definition first_row :: "'r list \<Rightarrow> 'r option" where
  "first_row xs = (case xs of [] \<Rightarrow> None | x # _ \<Rightarrow> Some x)"

locale db_contract =
  fixes T :: "('w, 'r) db_table"
    and ok :: "'w \<Rightarrow> bool"
    and rows :: "'w \<Rightarrow> 'r list"
    and key :: "'r \<Rightarrow> string"
    and clash :: "'r \<Rightarrow> 'r \<Rightarrow> bool"
  assumes select: "ok w \<Longrightarrow> db_select T P w = (Inr (filter P (rows w)), w)"
    and add_new: "ok w \<Longrightarrow> \<forall>x \<in> set (rows w). \<not> clash r x \<Longrightarrow>
      \<exists>w'. db_add T r w = (Inr (), w') \<and> ok w' \<and> rows w' = rows w @ [r]"
    and add_clash: "ok w \<Longrightarrow> \<exists>x \<in> set (rows w). clash r x \<Longrightarrow> db_add T r w = (Inl IntegrityError, w)"
    and save: "ok w \<Longrightarrow>
      \<exists>w'. db_save T rs w = (Inr (), w') \<and> ok w' \<and> rows w' = replace_rows key rs (rows w)"
    and delete: "ok w \<Longrightarrow>
      \<exists>w'. db_delete T P w = (Inr (int (length (filter P (rows w)))), w') \<and> ok w' \<and>
        rows w' = filter (\<lambda>x. \<not> P x) (rows w)"
    and clash_key: "key r = key x \<Longrightarrow> clash r x"
    and distinct_keys: "ok w \<Longrightarrow> distinct (map key (rows w))"

text \<open>The table \<open>get w\<close> of a world that has one, with a unique constraint \<open>clash\<close>.\<close>

definition list_table ::
  "('w \<Rightarrow> 'r list) \<Rightarrow> ('r list \<Rightarrow> 'w \<Rightarrow> 'w) \<Rightarrow> ('r \<Rightarrow> string) \<Rightarrow> ('r \<Rightarrow> 'r \<Rightarrow> bool) \<Rightarrow> ('w, 'r) db_table" where
  "list_table get put key clash = \<lparr>
     db_add = (\<lambda>r w. if \<exists>x \<in> set (get w). clash r x then (Inl IntegrityError, w)
                       else (Inr (), put (get w @ [r]) w)),
     db_select = (\<lambda>P w. (Inr (filter P (get w)), w)),
     db_save = (\<lambda>rs w. (Inr (), put (replace_rows key rs (get w)) w)),
     db_delete = (\<lambda>P w. (Inr (int (length (filter P (get w)))), put (filter (\<lambda>x. \<not> P x) (get w)) w)) \<rparr>"

lemma find_key: "find (\<lambda>r. key r = k) rs = Some r \<Longrightarrow> key r = k"
  by (auto simp: find_Some_iff)

lemma keys_replace_rows [simp]: "map key (replace_rows key rs xs) = map key xs"
  by (auto simp: replace_rows_def dest: find_key split: option.splits)

lemma length_replace_rows [simp]: "length (replace_rows key rs xs) = length xs"
  by (simp add: replace_rows_def)

lemma replace_rows_Nil [simp]: "replace_rows key [] xs = xs"
  by (simp add: replace_rows_def)

text \<open>Saving one changed record, and saving every selected record changed by \<open>g\<close>.\<close>

lemma replace_one:
  "replace_rows key [r] xs = map (\<lambda>x. if key x = key r then r else x) xs"
  by (auto simp: replace_rows_def)

lemma find_map_key:
  assumes "\<And>x. key (g x) = key x" "distinct (map key xs)" "x \<in> set xs" "P x"
  shows "find (\<lambda>r. key r = key x) (map g (filter P xs)) = Some (g x)"
  using assms(2-4)
proof (induction xs)
  case (Cons y xs)
  show ?case
  proof (cases "x = y")
    case True
    then show ?thesis using Cons.prems assms(1) by simp
  next
    case False
    then have "key y \<noteq> key x" using Cons.prems by (auto simp: rev_image_eqI)
    then show ?thesis using Cons False assms(1) by auto
  qed
qed simp

lemma replace_selected:
  assumes "\<And>x. key (g x) = key x" "distinct (map key xs)"
  shows "replace_rows key (map g (filter P xs)) xs = map (\<lambda>x. if P x then g x else x) xs"
proof -
  have "(case find (\<lambda>r. key r = key x) (map g (filter P xs)) of None \<Rightarrow> x | Some r \<Rightarrow> r)
      = (if P x then g x else x)" if x: "x \<in> set xs" for x
  proof (cases "P x")
    case True
    then show ?thesis using find_map_key [OF assms x] by simp
  next
    case False
    have "\<not> (\<exists>r \<in> set (map g (filter P xs)). key r = key x)"
    proof
      assume "\<exists>r \<in> set (map g (filter P xs)). key r = key x"
      then obtain y where "y \<in> set xs" "P y" "key y = key x" using assms(1) by auto
      then show False using False x assms(2) by (auto simp: distinct_map inj_on_def)
    qed
    then have "find (\<lambda>r. key r = key x) (map g (filter P xs)) = None" by (auto simp: find_None_iff)
    then show ?thesis using False by simp
  qed
  then show ?thesis by (simp add: replace_rows_def)
qed

lemma list_table_contract:
  assumes "\<And>xs w. get (put xs w) = xs" "\<And>r x. key r = key x \<Longrightarrow> clash r x"
  shows "db_contract (list_table get put key clash) (\<lambda>w. distinct (map key (get w))) get key clash"
  using assms by unfold_locales (auto simp: list_table_def distinct_map_filter)

interpretation lt: db_contract
  "list_table (\<lambda>xs :: 'r list. xs) (\<lambda>xs _. xs) key (\<lambda>r x. key r = key x)"
  "\<lambda>xs. distinct (map key xs)" "\<lambda>xs. xs" key "\<lambda>r x. key r = key x"
  for key :: "'r \<Rightarrow> string"
  by (rule list_table_contract) simp_all

lemma filter_key:
  assumes "distinct (map key xs)" "r \<in> set xs" "P r"
  shows "filter (\<lambda>x. key x = key r \<and> P x) xs = [r]"
  using assms
proof (induction xs)
  case (Cons y xs)
  show ?case
  proof (cases "y = r")
    case True
    then have "\<forall>x \<in> set xs. key x \<noteq> key r" using Cons.prems by (auto simp: rev_image_eqI)
    then show ?thesis using Cons.prems True by (auto simp: filter_empty_conv)
  next
    case False
    then have "key y \<noteq> key r" using Cons.prems by (auto simp: rev_image_eqI)
    then show ?thesis using Cons False by auto
  qed
qed simp

lemma first_row_Some: "first_row xs = Some x \<Longrightarrow> x \<in> set xs"
  by (cases xs) (simp_all add: first_row_def)

lemma first_row_empty [simp]: "first_row [] = None"
  by (simp add: first_row_def)

lemma first_row_None [simp]: "first_row xs = None \<longleftrightarrow> xs = []"
  by (cases xs) (simp_all add: first_row_def)

lemma set_order_desc [simp]: "set (order_desc f xs) = set xs"
  by (simp add: order_desc_def)

lemma order_desc_Nil [simp]: "order_desc f xs = [] \<longleftrightarrow> xs = []"
  by (metis set_empty set_order_desc)

lemma set_order_asc [simp]: "set (order_asc f xs) = set xs"
  by (simp add: order_asc_def)

lemma transaction_Inr [simp, py_run]: "m w = (Inr a, w') \<Longrightarrow> transaction m w = (Inr a, w')"
  by (simp add: transaction_def)

lemma order_desc_empty [simp]: "order_desc f [] = []"
  by (simp add: order_desc_def)

lemma order_desc_single [simp]: "order_desc f [x] = [x]"
  by (simp add: order_desc_def)

end
