(* ===== verification/Config.thy ===== *)
theory Config
  imports Float64
begin

text \<open>
  The constants of \<open>AppConfig\<close> (\<open>backend/app/config.py\<close>) the modelled code reads. Floating
  point literals are the doubles nearest to the decimals.
\<close>

record AppConfig =
  c_default_protect_decision_timeout_ms :: int
  c_outcome_source_live :: string
  c_outcome_source_timeout_fallback :: string
  c_outcome_source_unavailable_fallback :: string
  c_rolling_window_seconds :: int
  c_rolling_window_ms :: int
  c_rolling_counter_ttl_seconds :: int
  c_incident_type_policy_gap :: string
  c_incident_type_block :: string
  c_incident_type_retry_storm :: string
  c_incident_type_loop_suspect :: string
  c_incident_type_token_explosion :: string
  c_retry_storm_window_seconds :: int
  c_retry_storm_count :: int
  c_loop_window_seconds :: int
  c_loop_count :: int
  c_loop_max_gap_seconds :: rat
  c_loop_concurrency_threshold :: int
  c_token_explosion_abs :: int
  c_token_explosion_growth_ratio :: rat
  c_token_explosion_growth_count :: int
  c_token_explosion_growth_min_tokens :: int
  c_token_explosion_concurrency_threshold :: int
  c_clamp_pressure_thresholds :: "rat list"
  c_clamp_output_ratios :: "rat list"
  c_action_counter_ttl_seconds :: int
  c_webhook_retry_max_attempts :: int
  c_webhook_retry_intervals_seconds :: "int list"
  c_webhook_max_error_chars :: int
  c_email_retry_max_attempts :: int
  c_email_retry_intervals_seconds :: "int list"
  c_name_max_length :: int
  c_email_max_length :: int
  c_control_chars :: "char list"

definition app_config :: AppConfig where
  "app_config = \<lparr>
     c_default_protect_decision_timeout_ms = 300,
     c_outcome_source_live = ''live'',
     c_outcome_source_timeout_fallback = ''timeout_fallback'',
     c_outcome_source_unavailable_fallback = ''unavailable_fallback'',
     c_rolling_window_seconds = 60,
     c_rolling_window_ms = 60 * 1000,
     c_rolling_counter_ttl_seconds = 600,
     c_incident_type_policy_gap = ''policy_gap'',
     c_incident_type_block = ''block'',
     c_incident_type_retry_storm = ''retry_storm'',
     c_incident_type_loop_suspect = ''loop_suspect'',
     c_incident_type_token_explosion = ''token_explosion'',
     c_retry_storm_window_seconds = 60,
     c_retry_storm_count = 5,
     c_loop_window_seconds = 30,
     c_loop_count = 6,
     c_loop_max_gap_seconds = 2,
     c_loop_concurrency_threshold = 30,
     c_token_explosion_abs = 10000,
     c_token_explosion_growth_ratio = fl (17 / 10),
     c_token_explosion_growth_count = 2,
     c_token_explosion_growth_min_tokens = 1800,
     c_token_explosion_concurrency_threshold = 8,
     c_clamp_pressure_thresholds = map (\<lambda>p. fl (p / 100)) [70, 75, 80, 85, 90, 95],
     c_clamp_output_ratios = map (\<lambda>p. fl (p / 100)) [90, 80, 70, 55, 40, 25],
     c_action_counter_ttl_seconds = 3600,
     c_webhook_retry_max_attempts = 3,
     c_webhook_retry_intervals_seconds = [5, 20, 60],
     c_webhook_max_error_chars = 240,
     c_email_retry_max_attempts = 1,
     c_email_retry_intervals_seconds = [],
     c_name_max_length = 80,
     c_email_max_length = 320,
     c_control_chars = [CHR 0x0D, CHR 0x0A, CHR 0x09] \<rparr>"

lemma app_config_simps [simp]:
  "c_default_protect_decision_timeout_ms app_config = 300"
  "c_outcome_source_live app_config = ''live''"
  "c_outcome_source_timeout_fallback app_config = ''timeout_fallback''"
  "c_outcome_source_unavailable_fallback app_config = ''unavailable_fallback''"
  "c_rolling_window_seconds app_config = 60"
  "c_rolling_window_ms app_config = 60000"
  "c_rolling_counter_ttl_seconds app_config = 600"
  "c_incident_type_policy_gap app_config = ''policy_gap''"
  "c_incident_type_block app_config = ''block''"
  "c_incident_type_retry_storm app_config = ''retry_storm''"
  "c_incident_type_loop_suspect app_config = ''loop_suspect''"
  "c_incident_type_token_explosion app_config = ''token_explosion''"
  "c_retry_storm_window_seconds app_config = 60"
  "c_retry_storm_count app_config = 5"
  "c_loop_window_seconds app_config = 30"
  "c_loop_count app_config = 6"
  "c_loop_max_gap_seconds app_config = 2"
  "c_loop_concurrency_threshold app_config = 30"
  "c_token_explosion_abs app_config = 10000"
  "c_token_explosion_growth_ratio app_config = fl (17 / 10)"
  "c_token_explosion_growth_count app_config = 2"
  "c_token_explosion_growth_min_tokens app_config = 1800"
  "c_token_explosion_concurrency_threshold app_config = 8"
  "c_action_counter_ttl_seconds app_config = 3600"
  "c_webhook_retry_max_attempts app_config = 3"
  "c_webhook_retry_intervals_seconds app_config = [5, 20, 60]"
  "c_webhook_max_error_chars app_config = 240"
  "c_email_retry_max_attempts app_config = 1"
  "c_email_retry_intervals_seconds app_config = []"
  "c_name_max_length app_config = 80"
  "c_email_max_length app_config = 320"
  "c_control_chars app_config = [CHR 0x0D, CHR 0x0A, CHR 0x09]"
  by (simp_all add: app_config_def)

end
