(* ===== verification/Domain.thy ===== *)
theory Domain
  imports Py_Time Py_Value
begin

text \<open>
  The domain models (\<open>app/domain/models\<close>) as records, field for field, and the provider scope
  of \<open>app/application/provider_scope.py\<close> that keys every per-project counter.
\<close>

record project =
  pr_id :: string
  pr_name :: string
  pr_user_id :: "string option"
  pr_created_at :: datetime
  pr_protect_enabled :: bool
  pr_protect_fail_mode :: string
  pr_apply_clamp :: bool
  pr_max_req_per_min :: "int option"
  pr_max_tok_per_min :: "int option"
  pr_webhook_enabled :: bool
  pr_email_enabled :: bool
  pr_webhook_url :: "string option"

record ingest_key =
  ik_id :: string
  ik_project_id :: string
  ik_name :: string
  ik_key_hash :: string
  ik_last4 :: "string option"
  ik_status :: string
  ik_created_at :: datetime
  ik_revoked_at :: "datetime option"

record user =
  us_id :: string
  us_email :: string
  us_password_hash :: string
  us_created_at :: datetime

record event =
  ev_id :: string
  ev_ts :: datetime
  ev_project_id :: string
  ev_provider :: string
  ev_requested_model :: "string option"
  ev_resolved_model :: "string option"
  ev_environment :: "string option"
  ev_input_tokens :: int
  ev_output_tokens :: int
  ev_total_tokens :: int
  ev_latency_ms :: "int option"
  ev_status :: "string option"
  ev_error_type :: "string option"
  ev_error_message :: "string option"
  ev_http_status :: "int option"
  ev_created_at :: datetime
  ev_token_explosion_tokens :: "int option"
  ev_request_endpoint :: "string option"
  ev_request_feature :: "string option"
  ev_request_fingerprint :: "string option"

record incident =
  in_id :: string
  in_project_id :: string
  in_provider :: string
  in_type :: string
  in_status :: string
  in_created_at :: datetime
  in_resolved_at :: "datetime option"
  in_evidence :: pydict
  in_fingerprint :: "string option"
  in_last_seen_at :: "datetime option"

record transport_outbox =
  ob_id :: string
  ob_project_id :: string
  ob_kind :: string
  ob_event_type :: string
  ob_destination :: "string option"
  ob_subject :: "string option"
  ob_template :: "string option"
  ob_payload :: pydict
  ob_dedupe_key :: string
  ob_status :: string
  ob_attempts :: int
  ob_max_attempts :: int
  ob_next_attempt_at :: datetime
  ob_last_error_code :: "string option"
  ob_last_error_message :: "string option"
  ob_created_at :: datetime
  ob_updated_at :: datetime
  ob_sent_at :: "datetime option"
  ob_delivered_at :: "datetime option"

text \<open>Detector output consumed by the incident manager (\<open>app/domain/detectors/contracts.py\<close>).\<close>

record signal =
  sg_detector :: string
  sg_scope_provider :: string
  sg_fingerprint :: string
  sg_evidence :: pydict
  sg_episode_window_seconds :: "int option"
  sg_tags :: "(string \<times> string) list"

section \<open>Provider scope\<close>

definition normalized_provider :: "string option \<Rightarrow> string" where
  "normalized_provider provider = or_str (strip (opt_or provider [])) ''unknown''"

definition scoped_project_provider_id :: "string \<Rightarrow> string option \<Rightarrow> string" where
  "scoped_project_provider_id project_id provider =
     project_id @ '':'' @ normalized_provider provider"

lemma unknown_stripped: "strip ''unknown'' = ''unknown''"
  by code_simp

lemma normalized_provider_idem [simp]:
  "normalized_provider (Some (normalized_provider p)) = normalized_provider p"
proof (cases "strip (opt_or p []) = []")
  case True
  then show ?thesis
    by (simp add: normalized_provider_def opt_or_def or_str_def unknown_stripped)
next
  case False
  then show ?thesis by (simp add: normalized_provider_def opt_or_def or_str_def)
qed

text \<open>
  Two projects never share a scope, and within a project two scopes are equal exactly when the
  providers are equal up to surrounding blanks (none, blank and \<open>unknown\<close> being one provider): the
  ids of projects are uuids, which have no colon.
\<close>

theorem scope_separates:
  assumes "CHR '':'' \<notin> set p" "CHR '':'' \<notin> set q"
  shows "scoped_project_provider_id p a = scoped_project_provider_id q b \<longleftrightarrow>
     p = q \<and> normalized_provider a = normalized_provider b"
  using append_sep_first [OF assms] by (simp add: scoped_project_provider_id_def)

theorem scope_separates_witness:
  "scoped_project_provider_id ''p1'' (Some '' openai '') = scoped_project_provider_id ''p1'' (Some ''openai'') \<and>
   scoped_project_provider_id ''p1'' (Some ''a:b'') \<noteq> scoped_project_provider_id ''p2'' (Some ''a:b'')"
proof -
  have "normalized_provider (Some '' openai '') = normalized_provider (Some ''openai'')" by code_simp
  then show ?thesis
    using scope_separates [of "''p1''" "''p1''" "Some '' openai ''" "Some ''openai''"]
      scope_separates [of "''p1''" "''p2''" "Some ''a:b''" "Some ''a:b''"] by simp
qed

end
