(* ===== verification/Transport_Service.thy ===== *)
theory Transport_Service
  imports Config Domain
begin

text \<open>
  Notification transport (\<open>app/application/services/transport_service.py\<close> and
  \<open>app/infrastructure/alerts/rq_webhook_dispatcher.py\<close>): a notification becomes an outbox row,
  deduplicated by a key, and a worker job is queued for a new row. SHA-256, the tracing context
  and the job queue are parameters.
\<close>

section \<open>Canonical JSON\<close>

text \<open>
  \<open>json.dumps(v, sort_keys=True, separators=(",", ":"), ensure_ascii=False)\<close>: only quotes,
  backslashes and control characters are escaped. \<open>fr\<close> is \<open>float.__repr__\<close>.
\<close>

fun str_lt :: "string \<Rightarrow> string \<Rightarrow> bool" where
  "str_lt s [] = False"
| "str_lt [] (d # ds) = True"
| "str_lt (c # cs) (d # ds) = ((of_char c :: int) < of_char d \<or> (c = d \<and> str_lt cs ds))"

fun insert_key :: "string \<times> string \<Rightarrow> (string \<times> string) list \<Rightarrow> (string \<times> string) list" where
  "insert_key x [] = [x]"
| "insert_key x (y # ys) = (if str_lt (fst y) (fst x) then y # insert_key x ys else x # y # ys)"

definition sort_keys :: "(string \<times> string) list \<Rightarrow> (string \<times> string) list" where
  "sort_keys xs = foldr insert_key xs []"

fun json_compact :: "(rat \<Rightarrow> string) \<Rightarrow> pyval \<Rightarrow> string" where
  "json_compact fr PNone = ''null''"
| "json_compact fr (PBool b) = (if b then ''true'' else ''false'')"
| "json_compact fr (PInt i) = py_str_int i"
| "json_compact fr (PFloat x) = fr x"
| "json_compact fr (PStr s) = json_raw_str s"
| "json_compact fr (PList xs) = ''['' @ join_str '','' (map (json_compact fr) xs) @ '']''"
| "json_compact fr (PDict d) = ''{'' @ join_str '',''
     (map (\<lambda>(k, v). json_raw_str k @ '':'' @ v)
        (sort_keys (map (\<lambda>p. (fst p, json_compact fr (snd p))) d))) @ ''}''"
| "json_compact fr (PObj d) = json_raw_str (py_str (PObj d))"

section \<open>The service\<close>

record new_outbox =
  nb_project_id :: string
  nb_kind :: string
  nb_event_type :: string
  nb_destination :: "string option"
  nb_subject :: "string option"
  nb_template :: "string option"
  nb_payload :: pydict
  nb_dedupe_key :: string
  nb_max_attempts :: int
  nb_now :: datetime

text \<open>
  What the service uses: the repository's \<open>create_or_get_deduped\<close>, the queue (with or without
  trace and span id), the clock, the trace id of the current context and fresh ids, SHA-256 of a
  text in hex and the printing of floats.
\<close>

record 'w transport_service =
  ts_create_or_get_deduped :: "new_outbox \<Rightarrow> ('w, transport_outbox \<times> bool) py"
  ts_enqueue_job :: "string \<Rightarrow> (string \<times> string) option \<Rightarrow> ('w, unit) py"
  ts_now :: "('w, datetime) py"
  ts_get_trace_id :: "string option"
  ts_generate_trace_id :: string
  ts_generate_span_id :: string
  ts_sha256 :: "string \<Rightarrow> string"
  ts_float_repr :: "rat \<Rightarrow> string"

definition max_attempts_of :: "string \<Rightarrow> int" where
  "max_attempts_of kind =
     (if kind = ''webhook'' then max (c_webhook_retry_max_attempts app_config) 1
      else max (c_email_retry_max_attempts app_config) 1)"

definition dedupe_safe_payload :: "pydict \<Rightarrow> pydict" where
  "dedupe_safe_payload payload =
     (case as_dict (dget payload ''__transport_meta'') of
        None \<Rightarrow> payload
      | Some meta \<Rightarrow>
          let transport_meta = dpop ''trace_id'' meta
          in if transport_meta \<noteq> [] then dset ''__transport_meta'' (PDict transport_meta) payload
             else dpop ''__transport_meta'' payload)"

definition build_transport_dedupe_key ::
  "(string \<Rightarrow> string) \<Rightarrow> (rat \<Rightarrow> string) \<Rightarrow> string \<Rightarrow> string \<Rightarrow> string \<Rightarrow> pydict \<Rightarrow> string option \<Rightarrow>
   string option \<Rightarrow> string" where
  "build_transport_dedupe_key sha fr project_id kind event_type payload destination seed =
     sha (json_compact fr (PDict
       [(''project_id'', PStr project_id), (''kind'', PStr kind), (''event_type'', PStr event_type),
        (''destination'', opt_str destination), (''payload'', PDict (dedupe_safe_payload payload)),
        (''seed'', opt_str seed)]))"

text \<open>The keyword arguments of \<open>enqueue\<close> that have a default.\<close>

record enqueue_opts =
  eo_trace_id :: "string option"
  eo_span_id :: "string option"
  eo_destination :: "string option"
  eo_subject :: "string option"
  eo_template :: "string option"
  eo_severity :: "string option"
  eo_provider :: "string option"
  eo_environment :: "string option"

definition no_opts :: enqueue_opts where
  "no_opts = \<lparr> eo_trace_id = None, eo_span_id = None, eo_destination = None, eo_subject = None,
     eo_template = None, eo_severity = None, eo_provider = None, eo_environment = None \<rparr>"

definition setdefault_some :: "string \<Rightarrow> string option \<Rightarrow> pydict \<Rightarrow> pydict" where
  "setdefault_some k v d = (case v of None \<Rightarrow> d | Some s \<Rightarrow> dsetdefault k (PStr s) d)"

definition normalize_payload :: "string option \<Rightarrow> enqueue_opts \<Rightarrow> pydict \<Rightarrow> pydict" where
  "normalize_payload trace opts payload =
     (let meta0 = (case as_dict (dget payload ''__transport_meta'') of None \<Rightarrow> [] | Some m \<Rightarrow> m);
          canonical_trace_id = strip (opt_or trace []);
          transport_meta = (if canonical_trace_id \<noteq> []
                            then dsetdefault ''trace_id'' (PStr canonical_trace_id) meta0 else meta0);
          p0 = (if transport_meta \<noteq> [] then dset ''__transport_meta'' (PDict transport_meta) payload
                else payload);
          p1 = setdefault_some ''severity'' (eo_severity opts) p0;
          p2 = setdefault_some ''provider'' (eo_provider opts) p1
      in setdefault_some ''environment'' (eo_environment opts) p2)"

text \<open>\<open>except TypeError\<close>: other exceptions propagate.\<close>

definition transport_enqueue ::
  "'w transport_service \<Rightarrow> string \<Rightarrow> string \<Rightarrow> string \<Rightarrow> pydict \<Rightarrow> string \<Rightarrow> enqueue_opts \<Rightarrow>
   ('w, string) py" where
  "transport_enqueue T project_id kind event_type payload dedupe_key opts =
     (if strip dedupe_key = [] then raise (ValueError ''dedupe_key is required'')
      else bnd (ts_now T) (\<lambda>now.
        let normalized_payload = normalize_payload (ts_get_trace_id T) opts payload
        in bnd (ts_create_or_get_deduped T
             \<lparr> nb_project_id = project_id, nb_kind = kind, nb_event_type = event_type,
               nb_destination = eo_destination opts, nb_subject = eo_subject opts,
               nb_template = eo_template opts, nb_payload = normalized_payload,
               nb_dedupe_key = strip dedupe_key, nb_max_attempts = max_attempts_of kind,
               nb_now = now \<rparr>) (\<lambda>(outbox, created).
           if created then
             (let trace = strip (opt_or (eo_trace_id opts)
                    (opt_or (ts_get_trace_id T) (ts_generate_trace_id T)));
                  span = strip (opt_or (eo_span_id opts) (ts_generate_span_id T))
              in bnd (try_except (ts_enqueue_job T (ob_id outbox) (Some (trace, span)))
                   (\<lambda>e. if e = TypeError then ts_enqueue_job T (ob_id outbox) None else raise e))
                   (\<lambda>_. ret (ob_id outbox)))
           else ret (ob_id outbox))))"

section \<open>The webhook dispatcher\<close>

definition dispatcher_enqueue ::
  "'w transport_service \<Rightarrow> string \<Rightarrow> pydict \<Rightarrow> string \<Rightarrow> string option \<Rightarrow> bool \<Rightarrow> ('w, unit) py" where
  "dispatcher_enqueue T project_id payload event_type override_url force_send =
     (let transport_payload = [(''body'', PDict payload),
            (''__transport_meta'', PDict [(''force_send'', PBool force_send)])];
          dedupe_key = build_transport_dedupe_key (ts_sha256 T) (ts_float_repr T) project_id ''webhook''
            event_type transport_payload override_url None
      in bnd (transport_enqueue T project_id ''webhook'' event_type transport_payload dedupe_key
               (no_opts\<lparr> eo_destination := override_url \<rparr>)) (\<lambda>_. ret ()))"

section \<open>What enqueueing leaves alone\<close>

text \<open>A transport service whose repository, queue and clock do not touch a view of the world.\<close>

definition transport_frame :: "('w \<Rightarrow> 'v) \<Rightarrow> 'w transport_service \<Rightarrow> bool" where
  "transport_frame v T \<longleftrightarrow> (\<forall>n. frame v (ts_create_or_get_deduped T n)) \<and>
     (\<forall>i x. frame v (ts_enqueue_job T i x)) \<and> frame v (ts_now T)"

lemma transport_enqueue_frame:
  assumes "transport_frame v T"
  shows "frame v (transport_enqueue T p k e pl dk opts)"
proof -
  have a: "frame v (ts_create_or_get_deduped T n)" "frame v (ts_enqueue_job T i x)" "frame v (ts_now T)" for n i x
    using assms by (auto simp: transport_frame_def)
  show ?thesis unfolding transport_enqueue_def Let_def
    by (auto intro!: frame_bnd frame_try a split: prod.splits)
qed

lemma dispatcher_enqueue_frame:
  "transport_frame v T \<Longrightarrow> frame v (dispatcher_enqueue T p pl e u f)"
  unfolding dispatcher_enqueue_def Let_def by (intro frame_bnd transport_enqueue_frame frame_ret)

section \<open>Dedupe keys\<close>

lemma dset_same [simp]: "dset k v (dset k u d) = dset k v d"
  by (induction d) (auto simp: dset_def)

lemma dpop_dset: "dpop k (dset k v d) = dpop k d"
  by (induction d) (auto simp: dpop_def dset_def)

lemma dget_dset_same: "dget (dset k v d) k = v"
  by (simp add: dget_def dset_def update_conv)

text \<open>
  The deduplication key of a notification does not depend on the trace it belongs to: whatever trace
  id the transport metadata carries, the key is that of the payload without it.
\<close>

theorem dedupe_key_ignores_trace:
  assumes "dget payload ''__transport_meta'' = PDict meta"
  shows "build_transport_dedupe_key sha fr p kind e
      (dset ''__transport_meta'' (PDict (dset ''trace_id'' (PStr t) meta)) payload) d seed =
    build_transport_dedupe_key sha fr p kind e payload d seed"
  using assms
  by (simp add: build_transport_dedupe_key_def dedupe_safe_payload_def dget_dset_same dpop_dset Let_def)

theorem dedupe_key_ignores_trace_witness:
  "build_transport_dedupe_key (\<lambda>s. s) (\<lambda>_. []) ''p1'' ''webhook'' ''x''
     [(''__transport_meta'', PDict [(''force_send'', PBool True), (''trace_id'', PStr ''t2'')])] None None =
   build_transport_dedupe_key (\<lambda>s. s) (\<lambda>_. []) ''p1'' ''webhook'' ''x''
     [(''__transport_meta'', PDict [(''force_send'', PBool True), (''trace_id'', PStr ''t1'')])] None None"
  using dedupe_key_ignores_trace [of "[(''__transport_meta'', PDict [(''force_send'', PBool True), (''trace_id'', PStr ''t1'')])]"
      "[(''force_send'', PBool True), (''trace_id'', PStr ''t1'')]" "\<lambda>s. s" "\<lambda>_. []" "''p1''" "''webhook''" "''x''" "''t2''" None None]
  by (simp add: dget_def dset_def)

end
