(* ===== verification/Outbox_Repository.thy ===== *)
theory Outbox_Repository
  imports Db_Table Transport_Service
begin

text \<open>
  Persistence of the transport outbox
  (\<open>app/infrastructure/db/repositories/transport_outbox_repository_impl.py\<close>): one row per
  notification, unique per project, kind and dedupe key, that moves from \<open>pending\<close> through \<open>sending\<close>
  to \<open>delivered\<close>, \<open>failed\<close> or \<open>dead\<close>. The contract \<open>outbox_store\<close> says what each operation does to
  the list of rows; the implementation on any table that keeps its own contract is an instance.
\<close>

section \<open>The operations\<close>

record 'w outbox_repo =
  obr_create_or_get_deduped :: "new_outbox \<Rightarrow> ('w, transport_outbox \<times> bool) py"
  obr_claim_for_send :: "string \<Rightarrow> datetime \<Rightarrow> ('w, transport_outbox option) py"
  obr_mark_delivered :: "string \<Rightarrow> datetime \<Rightarrow> ('w, transport_outbox option) py"
  obr_mark_failed ::
    "string \<Rightarrow> datetime \<Rightarrow> string \<Rightarrow> string \<Rightarrow> datetime option \<Rightarrow> bool \<Rightarrow> ('w, transport_outbox option) py"
  obr_get_by_id :: "string \<Rightarrow> ('w, transport_outbox option) py"
  obr_get_latest_terminal ::
    "string \<Rightarrow> string \<Rightarrow> string list \<Rightarrow> datetime option \<Rightarrow> ('w, transport_outbox option) py"
  obr_count_failed_or_dead :: "string \<Rightarrow> string \<Rightarrow> string list \<Rightarrow> datetime option \<Rightarrow> ('w, int) py"

definition new_row :: "new_outbox \<Rightarrow> string \<Rightarrow> transport_outbox" where
  "new_row n i = \<lparr> ob_id = i, ob_project_id = nb_project_id n, ob_kind = nb_kind n,
     ob_event_type = nb_event_type n, ob_destination = nb_destination n, ob_subject = nb_subject n,
     ob_template = nb_template n, ob_payload = nb_payload n, ob_dedupe_key = nb_dedupe_key n,
     ob_status = ''pending'', ob_attempts = 0, ob_max_attempts = nb_max_attempts n,
     ob_next_attempt_at = nb_now n, ob_last_error_code = None, ob_last_error_message = None,
     ob_created_at = nb_now n, ob_updated_at = nb_now n, ob_sent_at = None, ob_delivered_at = None \<rparr>"

definition deduped :: "new_outbox \<Rightarrow> transport_outbox \<Rightarrow> bool" where
  "deduped n r \<longleftrightarrow> ob_project_id r = nb_project_id n \<and> ob_kind r = nb_kind n \<and> ob_dedupe_key r = nb_dedupe_key n"

text \<open>\<open>new_id\<close> is \<open>str(uuid4())\<close>; a violated constraint falls back to the existing row.\<close>

definition create_or_get_deduped ::
  "('w, transport_outbox) db_table \<Rightarrow> ('w, string) py \<Rightarrow> new_outbox \<Rightarrow> ('w, transport_outbox \<times> bool) py" where
  "create_or_get_deduped T new_id n =
     try_except
       (bnd new_id (\<lambda>i. bnd (db_add T (new_row n i)) (\<lambda>_. ret (new_row n i, True))))
       (\<lambda>e. if e = IntegrityError then
              bnd (db_select T (deduped n)) (\<lambda>records. case first_row records of
                None \<Rightarrow> raise e
              | Some existing \<Rightarrow> ret (existing, False))
            else raise e)"

definition claimable :: "datetime \<Rightarrow> transport_outbox \<Rightarrow> bool" where
  "claimable now r \<longleftrightarrow> ob_status r \<in> {''pending'', ''failed''} \<and> ob_next_attempt_at r \<le> now"

definition claimed :: "datetime \<Rightarrow> transport_outbox \<Rightarrow> transport_outbox" where
  "claimed now r = r\<lparr> ob_status := ''sending'', ob_attempts := ob_attempts r + 1, ob_updated_at := now,
     ob_sent_at := Some now \<rparr>"

text \<open>Change the first record of a selection, commit it and return it.\<close>

definition change_first ::
  "('w, transport_outbox) db_table \<Rightarrow> (transport_outbox \<Rightarrow> bool) \<Rightarrow> (transport_outbox \<Rightarrow> transport_outbox) \<Rightarrow>
   ('w, transport_outbox option) py" where
  "change_first T P g = logged (bnd (db_select T P) (\<lambda>records. case first_row records of
     None \<Rightarrow> ret None
   | Some record \<Rightarrow> bnd (db_save T [g record]) (\<lambda>_. ret (Some (g record)))))"

definition claim_for_send ::
  "('w, transport_outbox) db_table \<Rightarrow> string \<Rightarrow> datetime \<Rightarrow> ('w, transport_outbox option) py" where
  "claim_for_send T outbox_id now =
     change_first T (\<lambda>r. ob_id r = outbox_id \<and> claimable now r) (claimed now)"

definition delivered :: "datetime \<Rightarrow> transport_outbox \<Rightarrow> transport_outbox" where
  "delivered now r = r\<lparr> ob_status := ''delivered'', ob_updated_at := now, ob_delivered_at := Some now,
     ob_last_error_code := None, ob_last_error_message := None \<rparr>"

definition mark_delivered ::
  "('w, transport_outbox) db_table \<Rightarrow> string \<Rightarrow> datetime \<Rightarrow> ('w, transport_outbox option) py" where
  "mark_delivered T outbox_id now = change_first T (\<lambda>r. ob_id r = outbox_id) (delivered now)"

definition failed ::
  "datetime \<Rightarrow> string \<Rightarrow> string \<Rightarrow> datetime option \<Rightarrow> bool \<Rightarrow> transport_outbox \<Rightarrow> transport_outbox" where
  "failed now error_code error_message next_attempt_at dead r =
     r\<lparr> ob_status := (if dead then ''dead'' else ''failed''), ob_updated_at := now,
        ob_next_attempt_at := (case next_attempt_at of None \<Rightarrow> now | Some t \<Rightarrow> t),
        ob_last_error_code := Some error_code, ob_last_error_message := Some (take 512 error_message) \<rparr>"

definition mark_failed ::
  "('w, transport_outbox) db_table \<Rightarrow> string \<Rightarrow> datetime \<Rightarrow> string \<Rightarrow> string \<Rightarrow> datetime option \<Rightarrow> bool \<Rightarrow>
   ('w, transport_outbox option) py" where
  "mark_failed T outbox_id now error_code error_message next_attempt_at dead =
     change_first T (\<lambda>r. ob_id r = outbox_id) (failed now error_code error_message next_attempt_at dead)"

definition get_outbox_by_id ::
  "('w, transport_outbox) db_table \<Rightarrow> string \<Rightarrow> ('w, transport_outbox option) py" where
  "get_outbox_by_id T outbox_id =
     logged (bnd (db_select T (\<lambda>r. ob_id r = outbox_id)) (\<lambda>records. ret (first_row records)))"

definition in_report :: "string \<Rightarrow> string \<Rightarrow> string list \<Rightarrow> datetime option \<Rightarrow> transport_outbox \<Rightarrow> bool" where
  "in_report project_id kind exclude_event_types since r \<longleftrightarrow>
     ob_project_id r = project_id \<and> ob_kind r = kind \<and> ob_event_type r \<notin> set exclude_event_types \<and>
     (case since of None \<Rightarrow> True | Some t \<Rightarrow> ob_updated_at r \<ge> t)"

definition get_latest_terminal_by_project_kind ::
  "('w, transport_outbox) db_table \<Rightarrow> string \<Rightarrow> string \<Rightarrow> string list \<Rightarrow> datetime option \<Rightarrow>
   ('w, transport_outbox option) py" where
  "get_latest_terminal_by_project_kind T project_id kind exclude_event_types since =
     logged (bnd (db_select T (\<lambda>r. in_report project_id kind exclude_event_types since r \<and>
         ob_status r \<in> {''delivered'', ''failed'', ''dead''})) (\<lambda>records.
     ret (first_row (order_desc ob_updated_at records))))"

definition count_failed_or_dead_by_project_kind ::
  "('w, transport_outbox) db_table \<Rightarrow> string \<Rightarrow> string \<Rightarrow> string list \<Rightarrow> datetime option \<Rightarrow> ('w, int) py" where
  "count_failed_or_dead_by_project_kind T project_id kind exclude_event_types since =
     logged (bnd (db_select T (\<lambda>r. in_report project_id kind exclude_event_types since r \<and>
         ob_status r \<in> {''failed'', ''dead''})) (\<lambda>records. ret (int (length records))))"

definition TransportOutboxRepositoryImpl ::
  "('w, transport_outbox) db_table \<Rightarrow> ('w, string) py \<Rightarrow> 'w outbox_repo" where
  "TransportOutboxRepositoryImpl T new_id = \<lparr>
     obr_create_or_get_deduped = create_or_get_deduped T new_id,
     obr_claim_for_send = claim_for_send T, obr_mark_delivered = mark_delivered T,
     obr_mark_failed = mark_failed T, obr_get_by_id = get_outbox_by_id T,
     obr_get_latest_terminal = get_latest_terminal_by_project_kind T,
     obr_count_failed_or_dead = count_failed_or_dead_by_project_kind T \<rparr>"

section \<open>The contract\<close>

definition change_id :: "string \<Rightarrow> (transport_outbox \<Rightarrow> transport_outbox) \<Rightarrow> transport_outbox list \<Rightarrow> transport_outbox list" where
  "change_id i g rs = map (\<lambda>r. if ob_id r = i then g r else r) rs"

definition row_of :: "string \<Rightarrow> transport_outbox list \<Rightarrow> transport_outbox option" where
  "row_of i rs = find (\<lambda>r. ob_id r = i) rs"

locale outbox_store =
  fixes R :: "'w outbox_repo"
    and ok :: "'w \<Rightarrow> bool"
    and rows :: "'w \<Rightarrow> transport_outbox list"
  assumes create_old: "ok w \<Longrightarrow> \<exists>r \<in> set (rows w). deduped n r \<Longrightarrow>
      \<exists>r w'. obr_create_or_get_deduped R n w = (Inr (r, False), w') \<and> ok w' \<and> rows w' = rows w \<and>
        r \<in> set (rows w) \<and> deduped n r"
    and create_new: "ok w \<Longrightarrow> \<forall>r \<in> set (rows w). \<not> deduped n r \<Longrightarrow>
      \<exists>i w'. obr_create_or_get_deduped R n w = (Inr (new_row n i, True), w') \<and> ok w' \<and>
        rows w' = rows w @ [new_row n i]"
    and claim: "ok w \<Longrightarrow>
      case row_of i (rows w) of
        Some r \<Rightarrow> if claimable t r
          then \<exists>w'. obr_claim_for_send R i t w = (Inr (Some (claimed t r)), w') \<and> ok w' \<and>
            rows w' = change_id i (claimed t) (rows w)
          else obr_claim_for_send R i t w = (Inr None, w)
      | None \<Rightarrow> obr_claim_for_send R i t w = (Inr None, w)"
    and mark_delivered: "ok w \<Longrightarrow>
      \<exists>x w'. obr_mark_delivered R i t w = (Inr x, w') \<and> ok w' \<and> rows w' = change_id i (delivered t) (rows w)"
    and mark_failed: "ok w \<Longrightarrow>
      \<exists>x w'. obr_mark_failed R i t c m nx d w = (Inr x, w') \<and> ok w' \<and>
        rows w' = change_id i (failed t c m nx d) (rows w)"
    and get: "ok w \<Longrightarrow> obr_get_by_id R i w = (Inr (row_of i (rows w)), w)"
    and distinct_ids: "ok w \<Longrightarrow> distinct (map ob_id (rows w))"
    and unique_keys: "ok w \<Longrightarrow> r \<in> set (rows w) \<Longrightarrow> s \<in> set (rows w) \<Longrightarrow>
      ob_project_id r = ob_project_id s \<Longrightarrow> ob_kind r = ob_kind s \<Longrightarrow> ob_dedupe_key r = ob_dedupe_key s \<Longrightarrow> r = s"

section \<open>The implementation keeps the contract\<close>

text \<open>The unique constraints of the table: the primary key, and project, kind and dedupe key.\<close>

definition outbox_clash :: "transport_outbox \<Rightarrow> transport_outbox \<Rightarrow> bool" where
  "outbox_clash r x \<longleftrightarrow> ob_id r = ob_id x \<or>
     (ob_project_id r = ob_project_id x \<and> ob_kind r = ob_kind x \<and> ob_dedupe_key r = ob_dedupe_key x)"

lemma row_of_Some: "row_of i rs = Some r \<Longrightarrow> r \<in> set rs \<and> ob_id r = i"
  by (auto simp: row_of_def find_Some_iff)

lemma row_of_mem: "distinct (map ob_id rs) \<Longrightarrow> r \<in> set rs \<Longrightarrow> row_of (ob_id r) rs = Some r"
  by (induction rs) (auto simp: row_of_def rev_image_eqI)

lemma row_of_None: "row_of i rs = None \<longleftrightarrow> i \<notin> ob_id ` set rs"
  by (auto simp: row_of_def find_None_iff)

lemma change_id_ids [simp]: "(\<And>r. ob_id (g r) = ob_id r) \<Longrightarrow> map ob_id (change_id i g rs) = map ob_id rs"
  by (simp add: change_id_def)

lemma change_id_None: "row_of i rs = None \<Longrightarrow> change_id i g rs = rs"
  unfolding row_of_None change_id_def by (rule map_idI) auto

lemma row_of_change:
  "(\<And>r. ob_id (g r) = ob_id r) \<Longrightarrow>
     row_of j (change_id i g rs) = (if i = j then map_option g (row_of i rs) else row_of j rs)"
  by (induction rs) (auto simp: row_of_def change_id_def)

lemma row_of_append: "row_of i (rs @ ss) = (case row_of i rs of None \<Rightarrow> row_of i ss | Some r \<Rightarrow> Some r)"
  by (induction rs) (auto simp: row_of_def)

lemma step_ids [simp]: "ob_id (claimed t r) = ob_id r" "ob_id (delivered t r) = ob_id r"
  "ob_id (failed t c m nx d r) = ob_id r"
  by (simp_all add: claimed_def delivered_def failed_def)

lemma step_keys:
  "deduped n (claimed t r) = deduped n r" "deduped n (delivered t r) = deduped n r"
  "deduped n (failed t c m nx d r) = deduped n r"
  by (simp_all add: deduped_def claimed_def delivered_def failed_def)

definition unique_rows :: "transport_outbox list \<Rightarrow> bool" where
  "unique_rows rs \<longleftrightarrow> (\<forall>r \<in> set rs. \<forall>s \<in> set rs. ob_project_id r = ob_project_id s \<longrightarrow>
     ob_kind r = ob_kind s \<longrightarrow> ob_dedupe_key r = ob_dedupe_key s \<longrightarrow> r = s)"

text \<open>Changes that keep the id and the constrained columns.\<close>

definition keeps_keys :: "(transport_outbox \<Rightarrow> transport_outbox) \<Rightarrow> bool" where
  "keeps_keys g \<longleftrightarrow> (\<forall>r. ob_id (g r) = ob_id r \<and> ob_project_id (g r) = ob_project_id r \<and>
     ob_kind (g r) = ob_kind r \<and> ob_dedupe_key (g r) = ob_dedupe_key r)"

lemma steps_keep_keys [intro, simp]:
  "keeps_keys (claimed t)" "keeps_keys (delivered t)" "keeps_keys (failed t c m nx d)"
  by (simp_all add: keeps_keys_def claimed_def delivered_def failed_def)

lemma keeps_keysD: "keeps_keys g \<Longrightarrow> ob_id (g r) = ob_id r"
  by (simp add: keeps_keys_def)

lemma unique_change: "keeps_keys g \<Longrightarrow> unique_rows rs \<Longrightarrow> unique_rows (change_id i g rs)"
proof -
  assume g: "keeps_keys g" and u: "unique_rows rs"
  define h where "h r = (if ob_id r = i then g r else r)" for r
  have k: "ob_project_id (h r) = ob_project_id r" "ob_kind (h r) = ob_kind r" "ob_dedupe_key (h r) = ob_dedupe_key r" for r
    using g by (simp_all add: h_def keeps_keys_def)
  have "change_id i g rs = map h rs" by (simp add: change_id_def h_def)
  then show ?thesis using u unfolding unique_rows_def by (simp add: k) blast
qed

locale outbox_db = db_contract T ok rows ob_id outbox_clash
  for T :: "('w, transport_outbox) db_table" and ok rows +
  fixes new_id :: "('w, string) py"
  assumes fresh_id: "ok w \<Longrightarrow>
    \<exists>i w'. new_id w = (Inr i, w') \<and> ok w' \<and> rows w' = rows w \<and> i \<notin> ob_id ` set (rows w)"
begin

definition outbox_ok :: "'w \<Rightarrow> bool" where
  "outbox_ok w \<longleftrightarrow> ok w \<and> unique_rows (rows w)"

lemma select_row: "ok w \<Longrightarrow> filter (\<lambda>r. ob_id r = i) (rows w) = (case row_of i (rows w) of None \<Rightarrow> [] | Some r \<Rightarrow> [r])"
proof (cases "row_of i (rows w)")
  case None
  then have "\<forall>r \<in> set (rows w). ob_id r \<noteq> i" by (auto simp: row_of_None)
  then show ?thesis using None by (simp add: filter_empty_conv)
next
  case (Some r)
  moreover assume "ok w"
  ultimately show ?thesis
    using filter_key [OF distinct_keys, of w r "\<lambda>_. True"] row_of_Some [OF Some] by auto
qed

lemma select_row_if:
  "ok w \<Longrightarrow> filter (\<lambda>r. ob_id r = i \<and> P r) (rows w) =
     (case row_of i (rows w) of None \<Rightarrow> [] | Some r \<Rightarrow> if P r then [r] else [])"
proof -
  assume "ok w"
  have "filter (\<lambda>r. ob_id r = i \<and> P r) (rows w) = filter P (filter (\<lambda>r. ob_id r = i) (rows w))"
    by (simp add: conj_commute)
  then show ?thesis by (simp add: select_row [OF \<open>ok w\<close>] split: option.splits)
qed

lemma change_first_run:
  assumes "outbox_ok w" "keeps_keys g"
  shows "case row_of i (rows w) of
      Some r \<Rightarrow> if P r
        then \<exists>w'. change_first T (\<lambda>r. ob_id r = i \<and> P r) g w = (Inr (Some (g r)), w') \<and> outbox_ok w' \<and>
          rows w' = change_id i g (rows w)
        else change_first T (\<lambda>r. ob_id r = i \<and> P r) g w = (Inr None, w)
    | None \<Rightarrow> change_first T (\<lambda>r. ob_id r = i \<and> P r) g w = (Inr None, w)"
proof -
  have ok: "ok w" using assms(1) by (simp add: outbox_ok_def)
  note run = change_first_def select [OF ok] select_row_if [OF ok] bnd_def first_row_def
  show ?thesis
  proof (cases "row_of i (rows w)")
    case None
    then show ?thesis by (simp add: run)
  next
    case (Some r)
    have i: "r \<in> set (rows w)" "ob_id r = i" using row_of_Some [OF Some] by simp_all
    obtain w' where w': "db_save T [g r] w = (Inr (), w')" "ok w'" "rows w' = replace_rows ob_id [g r] (rows w)"
      using save [OF ok, of "[g r]"] by blast
    have "replace_rows ob_id [g r] (rows w) = change_id i g (rows w)"
      using distinct_keys [OF ok] i keeps_keysD [OF assms(2)]
      by (auto simp: replace_one change_id_def distinct_map inj_on_def)
    then have "outbox_ok w'" using w' unique_change [OF assms(2)] assms(1) by (simp add: outbox_ok_def)
    then show ?thesis using Some w' \<open>replace_rows _ _ _ = _\<close> by (simp add: run)
  qed
qed

lemma mark_run:
  assumes "outbox_ok w" "keeps_keys g"
  shows "\<exists>x w'. change_first T (\<lambda>r. ob_id r = i) g w = (Inr x, w') \<and> outbox_ok w' \<and> rows w' = change_id i g (rows w)"
  using change_first_run [OF assms, of i "\<lambda>_. True"] assms(1) change_id_None
  by (auto split: option.splits)

lemma create_run_old:
  assumes "outbox_ok w" "\<exists>r \<in> set (rows w). deduped n r"
  shows "\<exists>r w'. create_or_get_deduped T new_id n w = (Inr (r, False), w') \<and> outbox_ok w' \<and>
    rows w' = rows w \<and> r \<in> set (rows w) \<and> deduped n r"
proof -
  have ok: "ok w" using assms(1) by (simp add: outbox_ok_def)
  obtain i w1 where w1: "new_id w = (Inr i, w1)" "ok w1" "rows w1 = rows w" using fresh_id [OF ok] by blast
  have "\<exists>x \<in> set (rows w1). outbox_clash (new_row n i) x"
    using assms(2) w1(3) by (auto simp: outbox_clash_def deduped_def new_row_def intro: bexI [rotated])
  note clash = add_clash [OF w1(2) this]
  obtain r rs where r: "filter (deduped n) (rows w) = r # rs"
    using assms(2) by (metis filter_empty_conv list.exhaust)
  then have "r \<in> set (filter (deduped n) (rows w))" by simp
  then have "r \<in> set (rows w) \<and> deduped n r" by simp
  then show ?thesis
    using w1 clash r assms(1) select [OF w1(2), of "deduped n"]
    by (simp add: create_or_get_deduped_def bnd_def try_except_def first_row_def outbox_ok_def)
qed

lemma create_run_new:
  assumes "outbox_ok w" "\<forall>r \<in> set (rows w). \<not> deduped n r"
  shows "\<exists>i w'. create_or_get_deduped T new_id n w = (Inr (new_row n i, True), w') \<and> outbox_ok w' \<and>
    rows w' = rows w @ [new_row n i]"
proof -
  have ok: "ok w" using assms(1) by (simp add: outbox_ok_def)
  obtain i w1 where w1: "new_id w = (Inr i, w1)" "ok w1" "rows w1 = rows w" "i \<notin> ob_id ` set (rows w)"
    using fresh_id [OF ok] by blast
  have "\<forall>x \<in> set (rows w1). \<not> outbox_clash (new_row n i) x"
    using assms(2) w1(3,4) by (auto simp: outbox_clash_def deduped_def new_row_def)
  from add_new [OF w1(2) this] obtain w2 where w2: "db_add T (new_row n i) w1 = (Inr (), w2)" "ok w2"
    "rows w2 = rows w @ [new_row n i]" using w1(3) by auto
  have "unique_rows (rows w2)"
    using assms by (auto simp: w2(3) unique_rows_def outbox_ok_def deduped_def new_row_def)
  then show ?thesis using w1 w2
    by (auto simp: create_or_get_deduped_def bnd_def try_except_def outbox_ok_def)
qed

end

sublocale outbox_db \<subseteq> outbox: outbox_store "TransportOutboxRepositoryImpl T new_id" outbox_ok rows
proof (unfold_locales, unfold TransportOutboxRepositoryImpl_def outbox_repo.simps, goal_cases)
  case 1 then show ?case by (rule create_run_old)
next
  case 2 then show ?case by (rule create_run_new)
next
  case (3 w i t)
  then show ?case unfolding claim_for_send_def by (rule change_first_run) simp
next
  case 4 then show ?case unfolding mark_delivered_def by (rule mark_run) simp
next
  case 5 then show ?case unfolding mark_failed_def by (rule mark_run) simp
next
  case (6 w i)
  then have ok: "ok w" by (simp add: outbox_ok_def)
  then show ?case
    by (simp add: get_outbox_by_id_def bnd_def select select_row first_row_def split: option.splits)
next
  case 7 then show ?case using distinct_keys by (simp add: outbox_ok_def)
next
  case 8 then show ?case unfolding outbox_ok_def unique_rows_def by blast
qed

end
