(* ===== verification/Settings.thy ===== *)
theory Settings
  imports Config
begin

text \<open>
  The settings (\<open>Settings\<close> of \<open>backend/app/config.py\<close>) the delivery of emails reads, with the derived
  provider and the validator that a process runs at start-up.
\<close>

record settings =
  st_email_provider_enabled :: bool
  st_email_provider :: string
  st_resend_api_key :: string
  st_email_from_alerts :: string
  st_email_from_system :: string
  st_email_reply_to :: string
  st_feedback_report_email :: string

definition resolved_email_provider :: "settings \<Rightarrow> string" where
  "resolved_email_provider st =
     (let provider = lower (strip (st_email_provider st)) in
      if provider \<noteq> [] then provider
      else if strip (st_resend_api_key st) \<noteq> [] then ''resend'' else [])"

definition resolved_email_provider_enabled :: "settings \<Rightarrow> bool" where
  "resolved_email_provider_enabled st \<longleftrightarrow> st_email_provider_enabled st \<or>
     (resolved_email_provider st = ''resend'' \<and> strip (st_resend_api_key st) \<noteq> [])"

definition validate_email_configuration :: "settings \<Rightarrow> exn + settings" where
  "validate_email_configuration st =
     (let provider = resolved_email_provider st in
      if provider \<noteq> [] \<and> provider \<noteq> ''resend'' then Inl (ValueError ''EMAIL_PROVIDER must be 'resend' when configured'')
      else if \<not> resolved_email_provider_enabled st then Inr st
      else if provider \<noteq> ''resend'' then Inl (ValueError ''RESEND_API_KEY is required when email delivery is enabled'')
      else if strip (st_resend_api_key st) = [] then Inl (ValueError ''RESEND_API_KEY is required when email delivery is enabled'')
      else if strip (st_email_from_alerts st) = [] then Inl (ValueError ''EMAIL_FROM_ALERTS is required when email delivery is enabled'')
      else if strip (st_email_from_system st) = [] then Inl (ValueError ''EMAIL_FROM_SYSTEM is required when email delivery is enabled'')
      else if strip (st_email_reply_to st) = [] then Inl (ValueError ''EMAIL_REPLY_TO is required when email delivery is enabled'')
      else Inr st)"

end
