(* ===== verification/Transport_Job.thy ===== *)
theory Transport_Job
  imports Outbox_Repository Settings
begin

text \<open>
  The delivery job (\<open>app/infrastructure/jobs/transport_job.py\<close>): it claims an outbox row, sends the
  webhook or email, and marks the row delivered, or failed with a retry, or dead. HTTP, the mail
  provider, the URL guard's name resolution, the templates and the queue are parameters.
\<close>

section \<open>The environment of a job\<close>

record rendered_email =
  re_subject :: "string option"
  re_html :: "string option"
  re_text :: "string option"

record email_message =
  em_to :: string
  em_subject :: string
  em_html :: string
  em_text :: "string option"
  em_from :: string
  em_reply_to :: "string option"
  em_attachments :: "pydict list option"

text \<open>
  \<open>tj_post\<close> is \<open>client.post\<close> with \<open>raise_for_status\<close> and gives the status code, \<open>tj_check_url\<close> is
  \<open>ensure_webhook_url_is_safe\<close>, \<open>tj_exn_text\<close> is \<open>str(exc)\<close>, and \<open>tj_enqueue_in\<close> is \<open>Queue.enqueue_in\<close>
  with the delay in seconds, the row and the trace id.
\<close>

record 'w transport_job =
  tj_outbox :: "'w outbox_repo"
  tj_get_project :: "string \<Rightarrow> ('w, project option) py"
  tj_get_user :: "string \<Rightarrow> ('w, user option) py"
  tj_clock :: "('w, datetime) py"
  tj_settings :: settings
  tj_check_url :: "string \<Rightarrow> ('w, unit) py"
  tj_post :: "string \<Rightarrow> string \<Rightarrow> (string \<times> string) list \<Rightarrow> ('w, int) py"
  tj_render :: "string \<Rightarrow> pydict \<Rightarrow> ('w, rendered_email) py"
  tj_resend :: "email_message \<Rightarrow> ('w, unit) py"
  tj_enqueue_in :: "int \<Rightarrow> string \<Rightarrow> string \<Rightarrow> ('w, unit) py"
  tj_transport :: "'w transport_service"
  tj_exn_text :: "exn \<Rightarrow> string"
  tj_trace_id :: string
  tj_span_id :: string

section \<open>Helpers\<close>

definition resolve_transport_trace_id :: "'w transport_job \<Rightarrow> transport_outbox option \<Rightarrow> string option \<Rightarrow> string" where
  "resolve_transport_trace_id J outbox fallback_trace_id =
     (let stored = (case outbox of None \<Rightarrow> None | Some o' \<Rightarrow>
            (case as_dict (dget (ob_payload o') ''__transport_meta'') of None \<Rightarrow> None
             | Some meta \<Rightarrow> as_str (dget meta ''trace_id'')))
      in if strip (opt_or stored []) \<noteq> [] then strip (opt_or stored [])
         else if strip (opt_or fallback_trace_id []) \<noteq> [] then strip (opt_or fallback_trace_id [])
         else tj_trace_id J)"

text \<open>
  \<open>str(exc).splitlines()[0]\<close>: the text up to the first line boundary. An empty text has no line and the
  index raises.
\<close>

definition line_break :: "char \<Rightarrow> bool" where
  "line_break c \<longleftrightarrow> (let n = of_char c :: int in n \<in> {10, 11, 12, 13, 28, 29, 30, 133})"

definition first_line :: "string \<Rightarrow> exn + string" where
  "first_line s = (if s = [] then Inl IndexError else Inr (takeWhile (\<lambda>c. \<not> line_break c) s))"

definition error_details :: "'w transport_job \<Rightarrow> exn \<Rightarrow> exn + string \<times> string" where
  "error_details J exc =
     (let chars = nat (c_webhook_max_error_chars app_config) in
      case exc of
        EmailProviderNotConfiguredError \<Rightarrow>
          Inr (''email_provider_not_configured'', ''email provider not configured'')
      | ResendEmailTransportError code message \<Rightarrow> Inr (code, take chars (tj_exn_text J exc))
      | HTTPStatusError status \<Rightarrow> Inr (''webhook_http_error'', take chars (''HTTP '' @ py_str_int status))
      | _ \<Rightarrow> (case first_line (tj_exn_text J exc) of
               Inl e \<Rightarrow> Inl e
             | Inr line \<Rightarrow> Inr (case exc of HttpxTimeout _ \<Rightarrow> ''timeout'' | _ \<Rightarrow> ''delivery_failed'', take chars line)))"

definition retry_delay_seconds :: "string \<Rightarrow> int \<Rightarrow> int option" where
  "retry_delay_seconds kind attempt_number =
     (let intervals = (if kind = ''webhook'' then c_webhook_retry_intervals_seconds app_config
                       else c_email_retry_intervals_seconds app_config)
      in if intervals = [] then None
         else Some (intervals ! nat (min (max (attempt_number - 1) 0) (int (length intervals) - 1))))"

section \<open>Webhooks\<close>

definition deliver_webhook :: "'w transport_job \<Rightarrow> string \<Rightarrow> string \<Rightarrow> ('w, pydict) py" where
  "deliver_webhook J trace outbox_id =
     bnd (tj_clock J) (\<lambda>_.
     bnd (obr_get_by_id (tj_outbox J) outbox_id) (\<lambda>found. case found of
       None \<Rightarrow> ret [(''skipped'', PBool True), (''skip_reason'', PStr ''outbox_missing'')]
     | Some outbox \<Rightarrow> bnd (tj_get_project J (ob_project_id outbox)) (\<lambda>resolved. case resolved of
       None \<Rightarrow> ret [(''skipped'', PBool True), (''skip_reason'', PStr ''project_missing'')]
     | Some project \<Rightarrow>
         let payload = ob_payload outbox;
             transport_meta = (case as_dict (dget payload ''__transport_meta'') of None \<Rightarrow> [] | Some d \<Rightarrow> d);
             body_payload = (case as_dict (dget payload ''body'') of None \<Rightarrow> payload | Some d \<Rightarrow> d);
             force_send = truth (dget transport_meta ''force_send'')
         in if \<not> force_send \<and> (\<not> pr_webhook_enabled project \<or> \<not> truthy (pr_webhook_url project)) then
              ret [(''skipped'', PBool True), (''skip_reason'', PStr ''webhook_disabled_or_missing_url'')]
            else let target_url = (if truthy (ob_destination outbox) then ob_destination outbox
                                   else pr_webhook_url project)
              in if \<not> truthy target_url then
                   ret [(''skipped'', PBool True), (''skip_reason'', PStr ''webhook_destination_missing'')]
                 else let url = the target_url;
                          body = json_ordered (ts_float_repr (tj_transport J)) (PDict body_payload);
                          headers = [(''Content-Type'', ''application/json''),
                            (''X-RHEONIC-Event-Type'', ob_event_type outbox),
                            (''X-Trace-ID'', or_str trace (tj_trace_id J)), (''X-Span-ID'', tj_span_id J)]
                   in bnd (tj_check_url J url) (\<lambda>_.
                      bnd (tj_post J url body headers) (\<lambda>status.
                      ret [(''destination'', PStr url), (''status_code'', PInt status)])))))"

section \<open>Emails\<close>

definition resolve_email_destination ::
  "'w transport_job \<Rightarrow> transport_outbox \<Rightarrow> project option \<Rightarrow> ('w, string option) py" where
  "resolve_email_destination J outbox project =
     (let explicit = strip (opt_or (ob_destination outbox) []) in
      if explicit \<noteq> [] then ret (Some explicit)
      else if ob_event_type outbox = ''feedback.submitted'' then
        ret (Some (strip (or_str (st_feedback_report_email (tj_settings J)) ''feedback@rheonic.dev'')))
      else case project of
        None \<Rightarrow> ret None
      | Some p \<Rightarrow>
          if \<not> pr_protect_enabled p \<or> \<not> pr_email_enabled p then ret None
          else if \<not> truthy (pr_user_id p) then
            raise (ValueError ''project owner is missing for alert email delivery'')
          else bnd (tj_get_user J (the (pr_user_id p))) (\<lambda>user. case user of
              None \<Rightarrow> raise (ValueError ''project owner email is missing for alert email delivery'')
            | Some u \<Rightarrow> if strip (us_email u) = []
                then raise (ValueError ''project owner email is missing for alert email delivery'')
                else ret (Some (strip (us_email u)))))"

definition system_email_events :: "string list" where
  "system_email_events = [''feedback.submitted'']"

definition alert_email_events :: "string list" where
  "alert_email_events = [''protection.clamp_started'', ''protection.block'', ''incident.warn'',
     ''incident.resolved'', ''webhook.delivery_failed'']"

definition resolve_email_sender :: "settings \<Rightarrow> string \<Rightarrow> exn + string" where
  "resolve_email_sender st event_type =
     (if event_type \<notin> set system_email_events \<and> event_type \<notin> set alert_email_events then
        Inl (ValueError (''unsupported email event type: '' @ event_type))
      else let sender = strip (if event_type \<in> set system_email_events then st_email_from_system st
                               else st_email_from_alerts st)
        in if sender = [] then Inl (ValueError (''sender is missing for email event type: '' @ event_type))
           else Inr sender)"

text \<open>\<open>_build_email_transport\<close> and the transport's \<open>send\<close>.\<close>

definition send_email :: "'w transport_job \<Rightarrow> ('w, email_message \<Rightarrow> ('w, unit) py) py" where
  "send_email J = (let provider = resolved_email_provider (tj_settings J) in
     if provider = ''resend'' then
       (if strip (st_resend_api_key (tj_settings J)) = []
        then raise (ResendEmailTransportError ''email_provider_not_configured'' ''Resend API key is missing'')
        else ret (tj_resend J))
     else if provider \<noteq> [] then raise (ValueError (''unsupported email provider: '' @ provider))
     else ret (\<lambda>_. raise EmailProviderNotConfiguredError))"

text \<open>\<open>str(payload.get(k) or "").strip()\<close>.\<close>

definition text_of :: "pydict \<Rightarrow> string \<Rightarrow> string" where
  "text_of d k = strip (if truth (dget d k) then py_str (dget d k) else [])"

definition extract_email_attachments :: "pydict \<Rightarrow> pydict list option" where
  "extract_email_attachments payload =
     (let name = text_of payload ''screenshot_name'';
          content_type = text_of payload ''screenshot_content_type'';
          content = text_of payload ''screenshot_base64''
      in if name = [] \<or> content_type = [] \<or> content = [] then None
         else Some [[(''filename'', PStr name), (''content'', PStr content), (''content_type'', PStr content_type)]])"

definition deliver_email :: "'w transport_job \<Rightarrow> string \<Rightarrow> ('w, pydict) py" where
  "deliver_email J outbox_id =
     bnd (obr_get_by_id (tj_outbox J) outbox_id) (\<lambda>found. case found of
       None \<Rightarrow> ret [(''skipped'', PBool True), (''skip_reason'', PStr ''outbox_missing'')]
     | Some outbox \<Rightarrow>
       bnd (tj_get_project J (ob_project_id outbox)) (\<lambda>project.
       bnd (resolve_email_destination J outbox project) (\<lambda>destination. case destination of
         None \<Rightarrow> ret [(''skipped'', PBool True), (''skip_reason'', PStr ''email_disabled_or_missing_project''),
                     (''destination'', PNone)]
       | Some to_addr \<Rightarrow>
           if to_addr = [] then raise (ValueError ''email destination is missing'')
           else if \<not> truthy (ob_template outbox) then raise (ValueError ''email template is required'')
           else bnd (tj_render J (the (ob_template outbox)) (ob_payload outbox)) (\<lambda>rendered.
             let subject = strip (opt_or (ob_subject outbox) (opt_or (re_subject rendered) [])) in
             if subject = [] then raise (ValueError ''email subject is required'')
             else if \<not> resolved_email_provider_enabled (tj_settings J) then raise EmailProviderNotConfiguredError
             else bnd (py_raise_sum (resolve_email_sender (tj_settings J) (ob_event_type outbox))) (\<lambda>sender.
               let reply = strip (st_email_reply_to (tj_settings J)) in
               bnd (send_email J) (\<lambda>send.
               bnd (send \<lparr> em_to = to_addr, em_subject = subject, em_html = opt_or (re_html rendered) [],
                   em_text = re_text rendered, em_from = sender,
                   em_reply_to = (if reply = [] then None else Some reply),
                   em_attachments = extract_email_attachments (ob_payload outbox) \<rparr>) (\<lambda>_.
               ret [(''destination'', PStr to_addr)])))))))"

section \<open>The job\<close>

text \<open>The alert to the project's owner when a webhook is given up.\<close>

definition enqueue_webhook_failure_email :: "'w transport_job \<Rightarrow> transport_outbox \<Rightarrow> ('w, unit) py" where
  "enqueue_webhook_failure_email J outbox =
     (if ob_event_type outbox = ''webhook.test'' then ret ()
      else bnd (tj_get_project J (ob_project_id outbox)) (\<lambda>found. case found of
        None \<Rightarrow> ret ()
      | Some project \<Rightarrow>
          if \<not> pr_protect_enabled project \<or> \<not> pr_webhook_enabled project \<or> \<not> pr_email_enabled project then ret ()
          else let T = tj_transport J;
                   payload = [
                     (''project_id'', PStr (ob_project_id outbox)), (''event_type'', PStr (ob_event_type outbox)),
                     (''destination'', opt_str (if truthy (ob_destination outbox) then ob_destination outbox
                                              else pr_webhook_url project)),
                     (''status'', PStr (ob_status outbox)), (''attempts'', PInt (ob_attempts outbox)),
                     (''max_attempts'', PInt (ob_max_attempts outbox)),
                     (''last_error_code'', opt_str (ob_last_error_code outbox)),
                     (''last_error_message'', opt_str (ob_last_error_message outbox)),
                     (''updated_at'', PStr (isoformat (ob_updated_at outbox)))];
                   dedupe_key = build_transport_dedupe_key (ts_sha256 T) (ts_float_repr T) (ob_project_id outbox)
                     ''email'' ''webhook.delivery_failed'' payload None (Some (ob_id outbox))
               in bnd (transport_enqueue T (ob_project_id outbox) ''email'' ''webhook.delivery_failed'' payload
                    dedupe_key (no_opts\<lparr> eo_template := Some ''webhook_delivery_failed'' \<rparr>)) (\<lambda>_. ret ())))"

definition is_dead :: "transport_outbox \<Rightarrow> bool" where
  "is_dead outbox \<longleftrightarrow> (let attempts = max (ob_attempts outbox) 1 in
     attempts \<ge> ob_max_attempts outbox \<or> retry_delay_seconds (ob_kind outbox) attempts = None)"

text \<open>The \<open>except\<close> branch of the job.\<close>

definition delivery_failed :: "'w transport_job \<Rightarrow> string \<Rightarrow> transport_outbox \<Rightarrow> exn \<Rightarrow> ('w, unit) py" where
  "delivery_failed J trace outbox exc =
     (let delay = retry_delay_seconds (ob_kind outbox) (max (ob_attempts outbox) 1);
          dead = is_dead outbox
      in bnd (if dead then ret None else bnd (tj_clock J) (\<lambda>t. ret (Some (t + seconds (the delay))))) (\<lambda>next_attempt_at.
         bnd (py_raise_sum (error_details J exc)) (\<lambda>(code, message).
         bnd (tj_clock J) (\<lambda>now.
         bnd (obr_mark_failed (tj_outbox J) (ob_id outbox) now code message next_attempt_at dead) (\<lambda>_.
         bnd (when_py (ob_kind outbox = ''webhook'' \<and> dead)
           (try_except (bnd (obr_get_by_id (tj_outbox J) (ob_id outbox)) (\<lambda>f. case f of
                None \<Rightarrow> ret () | Some failed_outbox \<Rightarrow> enqueue_webhook_failure_email J failed_outbox))
              (\<lambda>_. ret ()))) (\<lambda>_.
         when_py (\<not> dead) (tj_enqueue_in J (the delay) (ob_id outbox) trace)))))))"

definition deliver :: "'w transport_job \<Rightarrow> string \<Rightarrow> transport_outbox \<Rightarrow> ('w, pydict) py" where
  "deliver J trace outbox =
     (if ob_kind outbox = ''webhook'' then deliver_webhook J trace (ob_id outbox)
      else if ob_kind outbox = ''email'' then deliver_email J (ob_id outbox)
      else raise (RuntimeError (''unsupported transport kind: '' @ ob_kind outbox)))"

definition process_outbox_delivery :: "'w transport_job \<Rightarrow> string \<Rightarrow> string option \<Rightarrow> ('w, unit) py" where
  "process_outbox_delivery J outbox_id trace_id =
     bnd (obr_get_by_id (tj_outbox J) outbox_id) (\<lambda>initial_outbox.
     let trace = resolve_transport_trace_id J initial_outbox trace_id in
     bnd (tj_clock J) (\<lambda>now.
     bnd (obr_claim_for_send (tj_outbox J) outbox_id now) (\<lambda>claimed. case claimed of
       None \<Rightarrow> ret ()
     | Some outbox \<Rightarrow>
         try_except
           (bnd (deliver J trace outbox) (\<lambda>_.
            bnd (tj_clock J) (\<lambda>t.
            bnd (obr_mark_delivered (tj_outbox J) (ob_id outbox) t) (\<lambda>_. ret ()))))
           (delivery_failed J trace outbox))))"

end
