(* ===== verification/Email_Templates.thy ===== *)
theory Email_Templates
  imports Transport_Job
begin

text \<open>
  The alert emails (\<open>app/application/email_templates/\<close>): every template collects titled fields from the
  payload of its notification and renders them in one layout, as HTML and as text. \<open>et_fromisoformat\<close> is
  \<open>datetime.fromisoformat\<close> with a naive time read as UTC, \<open>et_float_repr\<close> is \<open>float.__repr__\<close> and \<open>et_base_url\<close> the
  public address of the application. Capitals are those of Latin-1: the three letters whose capitals lie
  outside it stay as they are.
\<close>

section \<open>Texts\<close>

record email_env =
  et_fromisoformat :: "string \<Rightarrow> datetime option"
  et_float_repr :: "rat \<Rightarrow> string"
  et_base_url :: string

text \<open>\<open>str(v)\<close>, and \<open>str(v or d)\<close>.\<close>

definition shown :: "email_env \<Rightarrow> pyval \<Rightarrow> string" where
  "shown E v = (case v of PFloat x \<Rightarrow> et_float_repr E x | _ \<Rightarrow> py_str v)"

definition shown_or :: "email_env \<Rightarrow> pyval \<Rightarrow> string \<Rightarrow> string" where
  "shown_or E v d = (if truth v then shown E v else d)"

definition upper_char :: "char \<Rightarrow> char" where
  "upper_char c = (let n = of_char c :: int in
     if (97 \<le> n \<and> n \<le> 122) \<or> (224 \<le> n \<and> n \<le> 254 \<and> n \<noteq> 247) then char_of (n - 32) else c)"

definition is_letter :: "char \<Rightarrow> bool" where
  "is_letter c \<longleftrightarrow> (let n = of_char c :: int in
     (65 \<le> n \<and> n \<le> 90) \<or> (97 \<le> n \<and> n \<le> 122) \<or> n \<in> {170, 181, 186} \<or> (192 \<le> n \<and> n \<noteq> 215 \<and> n \<noteq> 247))"

definition is_capital :: "char \<Rightarrow> bool" where
  "is_capital c \<longleftrightarrow> (let n = of_char c :: int in (65 \<le> n \<and> n \<le> 90) \<or> (192 \<le> n \<and> n \<le> 222 \<and> n \<noteq> 215))"

text \<open>\<open>s.title()\<close>; the flag tells that a letter comes before.\<close>

fun title_case :: "bool \<Rightarrow> string \<Rightarrow> string" where
  "title_case after_letter [] = []"
| "title_case after_letter (c # cs) = (if after_letter then lower_char c else upper_char c) # title_case (is_letter c) cs"

definition capitalize :: "string \<Rightarrow> string" where
  "capitalize s = (case s of [] \<Rightarrow> [] | c # cs \<Rightarrow> upper_char c # lower cs)"

text \<open>\<open>s.isupper()\<close>, \<open>s.isalpha()\<close> and \<open>s.split()\<close>.\<close>

definition is_upper_word :: "string \<Rightarrow> bool" where
  "is_upper_word s \<longleftrightarrow> list_ex is_capital s \<and> list_all (\<lambda>c. is_letter c \<longrightarrow> is_capital c) s"

definition is_alpha :: "string \<Rightarrow> bool" where
  "is_alpha s \<longleftrightarrow> s \<noteq> [] \<and> list_all is_letter s"

fun split_words :: "string \<Rightarrow> string \<Rightarrow> string list" where
  "split_words word [] = (if word = [] then [] else [word])"
| "split_words word (c # cs) =
     (if is_space c then (if word = [] then [] else [word]) @ split_words [] cs else split_words (word @ [c]) cs)"

text \<open>\<open>s.replace(c, r)\<close> for one character \<open>c\<close>.\<close>

definition replace_char :: "char \<Rightarrow> string \<Rightarrow> string \<Rightarrow> string" where
  "replace_char c r s = concat (map (\<lambda>x. if x = c then r else [x]) s)"

definition month_names :: "string list" where
  "month_names = [''Jan'', ''Feb'', ''Mar'', ''Apr'', ''May'', ''Jun'', ''Jul'', ''Aug'', ''Sep'', ''Oct'', ''Nov'', ''Dec'']"

text \<open>\<open>t.strftime("%b %d, %Y %H:%M UTC")\<close> of an instant from 1970 on.\<close>

definition strftime_utc :: "datetime \<Rightarrow> string" where
  "strftime_utc us = (let days = us div 86400000000; s = us mod 86400000000 div 1000000;
       (y, yd) = split_year 1970 days; (m, d) = split_month (month_lens y) 1 yd
     in month_names ! nat (m - 1) @ '' '' @ pad 2 (d + 1) @ '', '' @ pad 4 y @ '' '' @ pad 2 (s div 3600) @ '':'' @
        pad 2 (s div 60 mod 60) @ '' UTC'')"

definition format_timestamp :: "email_env \<Rightarrow> pyval \<Rightarrow> string" where
  "format_timestamp E v =
     (let raw = strip (shown_or E v []) in
      if raw = [] then ''-''
      else (case et_fromisoformat E (replace_char (CHR ''Z'') ''+00:00'' raw) of
          None \<Rightarrow> raw | Some parsed \<Rightarrow> strftime_utc parsed))"

definition underscores_out :: "string \<Rightarrow> string" where
  "underscores_out s = replace_char (CHR ''_'') '' '' s"

definition dashes_out :: "string \<Rightarrow> string" where
  "dashes_out s = replace_char (CHR ''-'') '' '' s"

text \<open>\<open>mapping.get(normalized, normalized.replace("_", " ").replace("-", " ").title())\<close>.\<close>

definition lookup_or_title :: "(string \<times> string) list \<Rightarrow> string \<Rightarrow> string" where
  "lookup_or_title names s = (case map_of names s of Some t \<Rightarrow> t | None \<Rightarrow> title_case False (dashes_out (underscores_out s)))"

definition humanize_incident_type :: "email_env \<Rightarrow> pyval \<Rightarrow> string" where
  "humanize_incident_type E v =
     (let normalized = lower (strip (shown_or E v [])) in
      if normalized = [] then ''-''
      else lookup_or_title [(''block'', ''Block''), (''retry_storm'', ''Retry storm''), (''loop_suspect'', ''Loop suspect''),
        (''token_explosion'', ''Token explosion'')] normalized)"

section \<open>Evidence\<close>

text \<open>\<open>json.dumps(raw, sort_keys=True)\<close>; evidence comes from JSON, so every object has a text.\<close>

fun json_spaced :: "(rat \<Rightarrow> string) \<Rightarrow> pyval \<Rightarrow> string" where
  "json_spaced fr PNone = ''null''"
| "json_spaced fr (PBool b) = (if b then ''true'' else ''false'')"
| "json_spaced fr (PInt i) = py_str_int i"
| "json_spaced fr (PFloat x) = fr x"
| "json_spaced fr (PStr s) = json_str s"
| "json_spaced fr (PList xs) = ''['' @ join_str '', '' (map (json_spaced fr) xs) @ '']''"
| "json_spaced fr (PDict d) = ''{'' @ join_str '', ''
     (map (\<lambda>(k, v). json_str k @ '': '' @ v)
        (sort_keys (map (\<lambda>p. (fst p, json_spaced fr (snd p))) d))) @ ''}''"
| "json_spaced fr (PObj d) = json_str (py_str (PObj d))"

definition preferred_order :: "string list" where
  "preferred_order = [''reason'', ''count'', ''failure_count'', ''sequence_count'', ''threshold_count'', ''window_seconds'',
     ''max_gap_seconds'', ''requests_60s'', ''tokens_60s'', ''estimated_next_tokens'', ''token_explosion_tokens'',
     ''previous_estimated_tokens'', ''previous_token_explosion_tokens'', ''req_cap'', ''tok_cap'', ''growth_ratio'',
     ''growth_threshold'', ''growth_hit'', ''provider'', ''requested_model'', ''resolved_model'', ''environment'',
     ''last_seen_at'']"

definition evidence_text :: "email_env \<Rightarrow> string \<Rightarrow> pyval \<Rightarrow> string" where
  "evidence_text E key raw =
     (if endswith key ''_at'' then format_timestamp E raw
      else (case raw of PBool b \<Rightarrow> if b then ''Yes'' else ''No''
        | PDict d \<Rightarrow> json_spaced (et_float_repr E) raw
        | PList xs \<Rightarrow> json_spaced (et_float_repr E) raw
        | _ \<Rightarrow> shown E raw))"

fun evidence_lines :: "email_env \<Rightarrow> pydict \<Rightarrow> string list \<Rightarrow> string list \<Rightarrow> string list" where
  "evidence_lines E d seen [] = []"
| "evidence_lines E d seen (key # ks) =
     (if key \<in> set seen \<or> \<not> has_key d key then evidence_lines E d seen ks
      else if dget d key = PNone then evidence_lines E d (key # seen) ks
      else (title_case False (underscores_out key) @ '': '' @ evidence_text E key (dget d key)) #
           evidence_lines E d (key # seen) ks)"

definition format_evidence :: "email_env \<Rightarrow> pyval \<Rightarrow> string" where
  "format_evidence E v = (case as_dict v of
     None \<Rightarrow> ''-''
   | Some d \<Rightarrow>
       if d = [] then ''-''
       else let ls = evidence_lines E d [] (preferred_order @ map fst (sort_keys (map (\<lambda>p. (fst p, [])) d))) in
         if ls = [] then ''-'' else join_str [CHR 10] ls)"

section \<open>Labels\<close>

definition label_words :: "(string \<times> string) list" where
  "label_words = [(''id'', ''ID''), (''ids'', ''IDs''), (''url'', ''URL''), (''urls'', ''URLs''), (''api'', ''API''), (''sdk'', ''SDK'')]"

definition humanize_field_label :: "string \<Rightarrow> string" where
  "humanize_field_label label =
     (let normalized = strip label in
      if normalized = [] then ''-''
      else if CHR ''_'' \<notin> set normalized \<and> is_alpha (filter (\<lambda>c. c \<noteq> CHR '' '') normalized)
      then join_str '' '' (map (\<lambda>word. case map_of label_words (lower word) of Some r \<Rightarrow> r
             | None \<Rightarrow> if is_upper_word word then word else capitalize word) (split_words [] normalized))
      else join_str '' '' (map (\<lambda>word. case map_of label_words (lower word) of Some r \<Rightarrow> r | None \<Rightarrow> capitalize word)
             (split_words [] (underscores_out (replace_char (CHR ''/'') '' / '' normalized)))))"

definition humanize_segment :: "string \<Rightarrow> string" where
  "humanize_segment v = humanize_field_label (dashes_out v)"

definition path_segments :: "string \<Rightarrow> string" where
  "path_segments s = join_str '' / '' (map humanize_segment (filter (\<lambda>part. part \<noteq> []) (split_at (CHR ''/'') [] s)))"

definition format_page_location :: "email_env \<Rightarrow> pyval \<Rightarrow> string" where
  "format_page_location E v =
     (let raw = strip (shown_or E v []) in
      if raw = [] \<or> raw = ''-'' then ''-''
      else let path = strip (takeWhile (\<lambda>c. c \<noteq> CHR ''#'') (takeWhile (\<lambda>c. c \<noteq> CHR ''?'') raw)) in
        if path = [] then raw
        else if startswith path ''/app/'' then
          (let section = strip_char (CHR ''/'') (drop 5 path) in
           if section = [] then ''Dashboard'' else ''Dashboard / '' @ path_segments section)
        else if path = ''/app'' then ''Dashboard''
        else if startswith path ''/'' then or_str (path_segments (strip_char (CHR ''/'') path)) raw
        else raw)"

section \<open>The layout\<close>

text \<open>\<open>html.escape(s)\<close>.\<close>

definition escape_char :: "char \<Rightarrow> string" where
  "escape_char c =
     (if c = CHR ''&'' then ''&amp;'' else if c = CHR ''<'' then ''&lt;'' else if c = CHR ''>'' then ''&gt;''
      else if c = CHR 34 then ''&quot;'' else if c = CHR 39 then ''&#x27;'' else [c])"

definition html_escape :: "string \<Rightarrow> string" where
  "html_escape s = concat (map escape_char s)"

text \<open>The fixed parts of \<open>render_base_email\<close>.\<close>

definition page_open :: string where
  \<open>page_open =
     ''<!doctype html>'' @
     ''<html><body style="margin:0;padding:0;background:#f4f4f5;">'' @
     ''<div style="margin:0;padding:32px 16px;">'' @
     ''<div style="max-width:680px;margin:0 auto;background:#ffffff;border:1px solid #e4e7ec;border-radius:18px;overflow:hidden;box-shadow:0 8px 30px rgba(16,24,40,0.08);">'' @
     ''<div style="padding:24px 28px 18px;background:linear-gradient(135deg,#101828 0%,#1d2939 100%);">'' @
     ''<table role="presentation" cellpadding="0" cellspacing="0" border="0" style="border-collapse:collapse;">'' @
     ''<tr>'' @
     ''<td style="width:28px;height:28px;vertical-align:middle;"><img src="''\<close>

definition logo_close :: string where
  \<open>logo_close =
     ''" width="28" height="28" alt="Rheonic" style="display:block;width:28px;height:28px;border:0;outline:none;text-decoration:none;" /></td>'' @
     ''<td style="width:10px;font-size:0;line-height:0;">&nbsp;</td>'' @
     ''<td style="font:700 12px/1.2 -apple-system,BlinkMacSystemFont,'Segoe UI',sans-serif;letter-spacing:0.08em;text-transform:uppercase;color:#7a7dff;">RHEONIC</td>'' @
     ''</tr>'' @
     ''</table>''\<close>

definition eyebrow_open :: string where
  \<open>eyebrow_open =
     ''<div style="margin-top:10px;font:600 12px/1.2 -apple-system,BlinkMacSystemFont,'Segoe UI',sans-serif;letter-spacing:0.06em;text-transform:uppercase;color:#f59e0b;">''\<close>

definition eyebrow_close :: string where
  \<open>eyebrow_close =
     ''</div>''\<close>

definition title_open :: string where
  \<open>title_open =
     ''<h1 style="margin:10px 0 0;font:700 28px/1.15 -apple-system,BlinkMacSystemFont,'Segoe UI',sans-serif;color:#ffffff;">''\<close>

definition subtitle_open :: string where
  \<open>subtitle_open =
     ''</h1><p style="margin:14px 0 0;font:400 15px/1.7 -apple-system,BlinkMacSystemFont,'Segoe UI',sans-serif;color:#d0d5dd;">''\<close>

definition fields_open :: string where
  \<open>fields_open =
     ''</p>'' @
     ''</div>'' @
     ''<div style="padding:20px 28px 28px;">'' @
     ''<table style="width:100%;border-collapse:collapse;border-spacing:0;background:#fcfcfd;border:1px solid #eaecf0;border-radius:14px;overflow:hidden;">''\<close>

definition row_open :: string where
  \<open>row_open =
     ''<tr><td style="padding:10px 14px;vertical-align:top;font:600 12px/1.4 -apple-system,BlinkMacSystemFont,'Segoe UI',sans-serif;color:#667085;text-transform:uppercase;letter-spacing:0.04em;border-top:1px solid #eaecf0;white-space:nowrap;">''\<close>

definition row_middle :: string where
  \<open>row_middle =
     ''</td><td style="padding:10px 14px;vertical-align:top;font:400 14px/1.6 -apple-system,BlinkMacSystemFont,'Segoe UI',sans-serif;color:#101828;border-top:1px solid #eaecf0;white-space:pre-wrap;">''\<close>

definition row_close :: string where
  \<open>row_close =
     ''</td></tr>''\<close>

definition fields_close :: string where
  \<open>fields_close =
     ''</table>''\<close>

definition footer_open :: string where
  \<open>footer_open =
     ''<p style="margin:20px 0 0;font:400 13px/1.6 -apple-system,BlinkMacSystemFont,'Segoe UI',sans-serif;color:#667085;">''\<close>

definition footer_close :: string where
  \<open>footer_close =
     ''</p>''\<close>

definition page_close :: string where
  \<open>page_close =
     ''</div></div></div></body></html>''\<close>

definition public_logo_url :: "email_env \<Rightarrow> string" where
  "public_logo_url E = et_base_url E @ ''/assets/logo/logo-48.png''"

definition value_html :: "string \<Rightarrow> string" where
  "value_html v = replace_char (CHR 10) ''<br/>'' (html_escape v)"

definition row_html :: "string \<times> string \<Rightarrow> string" where
  "row_html f = row_open @ html_escape (fst f) @ row_middle @ value_html (snd f) @ row_close"

text \<open>An optional line in its frame.\<close>

definition framed :: "string \<Rightarrow> string \<Rightarrow> string \<Rightarrow> string" where
  "framed opening s closing = (if s = [] then [] else opening @ s @ closing)"

definition email_html :: "string \<Rightarrow> string \<Rightarrow> string \<Rightarrow> string \<Rightarrow> (string \<times> string) list \<Rightarrow> string \<Rightarrow> string" where
  "email_html logo_url eyebrow title subtitle rows footer =
     page_open @ html_escape logo_url @ logo_close @ framed eyebrow_open (html_escape eyebrow) eyebrow_close @
     title_open @ html_escape title @ subtitle_open @ html_escape subtitle @ fields_open @
     concat (map row_html rows) @ fields_close @ framed footer_open (html_escape footer) footer_close @ page_close"

definition email_text :: "string option \<Rightarrow> string \<Rightarrow> string \<Rightarrow> (string \<times> string) list \<Rightarrow> string \<Rightarrow> string" where
  "email_text eyebrow title subtitle rows footer =
     join_str [CHR 10]
       ([''Rheonic''] @ (if strip (opt_or eyebrow []) \<noteq> [] then [the eyebrow] else []) @ [title, subtitle, []] @
        map (\<lambda>(label, v). label @ '': '' @ v) rows @ (if footer \<noteq> [] then [[], footer] else []))"

text \<open>The HTML and the text.\<close>

definition render_base_email ::
  "email_env \<Rightarrow> string option \<Rightarrow> string \<Rightarrow> string \<Rightarrow> (string \<times> string) list \<Rightarrow> string option \<Rightarrow> string \<times> string" where
  "render_base_email E eyebrow title subtitle rows footer =
     (let normalized_fields = map (\<lambda>(label, v). (humanize_field_label label, v)) rows;
          footer_copy = strip (opt_or footer [])
      in (email_html (public_logo_url E) (strip (opt_or eyebrow [])) title subtitle normalized_fields footer_copy,
          email_text eyebrow title subtitle normalized_fields footer_copy))"

section \<open>The templates\<close>

definition email_of :: "string \<Rightarrow> string \<times> string \<Rightarrow> rendered_email" where
  "email_of subject rendered = \<lparr> re_subject = Some subject, re_html = Some (fst rendered), re_text = Some (snd rendered) \<rparr>"

definition render_feedback_submitted :: "email_env \<Rightarrow> pydict \<Rightarrow> rendered_email" where
  "render_feedback_submitted E payload =
     (let get = (\<lambda>k d. or_str (strip (shown_or E (dget payload k) [])) d);
          report_label = (if get ''report_type'' ''feedback'' = ''bug'' then ''Bug report'' else ''Product feedback'');
          headline = ''Rheonic beta '' @ lower report_label
      in email_of headline (render_base_email E None headline ''New product report received.''
           [(''report_type'', report_label), (''message'', get ''message'' []), (''email'', get ''email'' ''-''),
            (''user_id'', get ''user_id'' ''-''), (''user_email'', get ''user_email'' ''-''),
            (''project_id'', get ''project_id'' ''-''), (''page'', format_page_location E (dget payload ''page'')),
            (''mode'', get ''mode'' ''-''), (''timestamp'', format_timestamp E (dget payload ''timestamp'')),
            (''app_version'', get ''app_version'' ''-''),
            (''screenshot'', if get ''screenshot_name'' [] \<noteq> [] then ''Attached'' else ''-'')] None))"

definition render_incident_warn :: "email_env \<Rightarrow> pydict \<Rightarrow> rendered_email" where
  "render_incident_warn E payload =
     (let get = (\<lambda>k. shown_or E (dget payload k) ''-''); time = (\<lambda>k. format_timestamp E (dget payload k));
          incident_type = humanize_incident_type E (dget payload ''incident_type'')
      in email_of (''[Rheonic] Incident opened: '' @ incident_type @ '' ('' @ get ''project_id'' @ '')'')
           (render_base_email E None ''Incident opened''
             ''Rheonic observed a behavioral anomaly and opened a new incident episode.''
             [(''Project ID'', get ''project_id''), (''Incident ID'', get ''incident_id''), (''Incident type'', incident_type),
              (''Provider'', get ''provider''), (''Model'', get ''requested_model''), (''Environment'', get ''environment''),
              (''Created at'', time ''created_at''), (''Last seen at'', time ''last_seen_at''),
              (''Evidence'', format_evidence E (dget payload ''evidence''))] None))"

definition render_incident_resolved :: "email_env \<Rightarrow> pydict \<Rightarrow> rendered_email" where
  "render_incident_resolved E payload =
     (let get = (\<lambda>k. shown_or E (dget payload k) ''-''); time = (\<lambda>k. format_timestamp E (dget payload k));
          incident_type = humanize_incident_type E (dget payload ''incident_type'')
      in email_of (''[Rheonic] Protect alert: Resolved - '' @ incident_type @ '' ('' @ get ''project_id'' @ '')'')
           (render_base_email E None ''Incident resolved'' ''A previously open protect incident has been resolved.''
             [(''Project ID'', get ''project_id''), (''Incident ID'', get ''incident_id''), (''Incident type'', incident_type),
              (''Resolved by'', get ''resolved_by''), (''Resolved at'', time ''resolved_at''),
              (''Created at'', time ''created_at''), (''Last seen at'', time ''last_seen_at''), (''Provider'', get ''provider''),
              (''Model'', get ''requested_model''), (''Environment'', get ''environment''), (''Sent at'', time ''sent_at'')] None))"

text \<open>\<open>isinstance(v, int)\<close>: the text of an integer or a boolean.\<close>

definition int_text :: "pyval \<Rightarrow> string option" where
  "int_text v = (if as_int v = None then None else Some (py_str v))"

definition render_protection_clamp_started :: "email_env \<Rightarrow> pydict \<Rightarrow> rendered_email" where
  "render_protection_clamp_started E payload =
     (let get = (\<lambda>k. shown_or E (dget payload k) ''-'');
          reason = humanize_incident_type E (dget payload ''reason'');
          clamp = (case as_dict (dget payload ''clamp'') of Some d \<Rightarrow> d | None \<Rightarrow> []);
          recommended_copy = (case int_text (dget clamp ''recommended_max_output_tokens'') of Some s \<Rightarrow> s | None \<Rightarrow> ''-'')
      in email_of (''[Rheonic] Protect alert: Clamp started - '' @ reason @ '' ('' @ get ''project_id'' @ '')'')
           (render_base_email E None ''Clamp started''
             ''Protect is actively reducing output to keep traffic within the configured budget.''
             [(''Project ID'', get ''project_id''), (''Provider'', get ''provider''), (''Model'', get ''requested_model''),
              (''Environment'', get ''environment''), (''Action'', ''Clamp''), (''Reason'', reason),
              (''Recommended max output tokens'', recommended_copy), (''Requests / 60s'', get ''requests_60s''),
              (''Tokens / 60s'', get ''tokens_60s''), (''Request cap'', get ''req_cap''), (''Token cap'', get ''tok_cap''),
              (''Estimated next tokens'', get ''estimated_next_tokens''),
              (''Sent at'', format_timestamp E (dget payload ''sent_at''))] None))"

definition humanize_value :: "string \<Rightarrow> string" where
  "humanize_value v =
     (let normalized = lower (strip v) in
      if normalized = [] then ''-''
      else lookup_or_title [(''decision_timeout'', ''Decision timeout''), (''decision_unavailable'', ''Decision unavailable''),
        (''timeout_fallback'', ''Timeout fallback''), (''unavailable_fallback'', ''Unavailable fallback''),
        (''live'', ''Live'')] normalized)"

definition reason_copy :: "string \<Rightarrow> string \<times> string" where
  "reason_copy reason =
     (let normalized = lower (strip reason) in
      if normalized = ''tok_cap_breach'' then (''Token cap exceeded'',
        ''Protect blocked traffic because the project crossed its configured token cap.'')
      else if normalized = ''req_cap_breach'' then (''Request cap exceeded'',
        ''Protect blocked traffic because the project crossed its configured request cap.'')
      else if normalized = ''cooldown_active'' then (''Cooldown active'',
        ''Protect blocked traffic because the project is still inside a cooldown window.'')
      else if normalized = ''fail_closed'' then (''Fail-closed fallback'',
        ''Protect blocked traffic because fail-closed fallback was exercised.'')
      else (or_str normalized ''-'', ''Protect blocked traffic.''))"

definition render_protection_block :: "email_env \<Rightarrow> pydict \<Rightarrow> rendered_email" where
  "render_protection_block E payload =
     (let get = (\<lambda>k. shown_or E (dget payload k) ''-''); present = (\<lambda>k. strip (shown_or E (dget payload k) []));
          number = (\<lambda>label k. case int_text (dget payload k) of Some s \<Rightarrow> [(label, s)] | None \<Rightarrow> []);
          optional = (\<lambda>label s. if s = [] then [] else [(label, s)]);
          time = (\<lambda>label k. let t = format_timestamp E (dget payload k) in if t \<noteq> ''-'' then [(label, t)] else []);
          (reason_title, reason_subtitle) = reason_copy (get ''reason'');
          retry_after_copy = (case as_int (dget payload ''retry_after_seconds'') of
            Some i \<Rightarrow> if i > 0 then py_str (dget payload ''retry_after_seconds'') @ '' seconds'' else [] | None \<Rightarrow> []);
          source = present ''source'';
          entries = [(''Project ID'', get ''project_id''), (''Action'', ''Blocked''), (''Reason'', reason_title),
              (''Detail reason'', humanize_value (get ''detail_reason''))] @
            optional ''Provider'' (present ''provider'') @ optional ''Model'' (present ''requested_model'') @
            optional ''Environment'' (present ''environment'') @
            number ''Requests / 60s'' ''requests_60s'' @ number ''Tokens / 60s'' ''tokens_60s'' @
            number ''Request cap'' ''req_cap'' @ number ''Token cap'' ''tok_cap'' @
            time ''Blocked until'' ''blocked_until'' @ optional ''Retry after'' retry_after_copy @
            (if source = [] then [] else [(''Source'', humanize_value source)]) @ time ''Sent at'' ''sent_at''
      in email_of (''[Rheonic] Protect alert: '' @ reason_title @ '' ('' @ get ''project_id'' @ '')'')
           (render_base_email E None ''Blocked traffic'' reason_subtitle entries None))"

definition render_webhook_delivery_failed :: "email_env \<Rightarrow> pydict \<Rightarrow> rendered_email" where
  "render_webhook_delivery_failed E payload =
     (let get = (\<lambda>k. shown_or E (dget payload k) ''-'')
      in email_of (''[Rheonic] Protect alert: Webhook delivery failed ('' @ get ''project_id'' @ '')'')
           (render_base_email E None ''Webhook delivery failed''
             ''A configured webhook endpoint entered a failed or dead delivery state.''
             [(''Project ID'', get ''project_id''), (''Event type'', get ''event_type''), (''Destination'', get ''destination''),
              (''Status'', shown_or E (dget payload ''status'') ''failed''), (''Attempts'', get ''attempts''),
              (''Max attempts'', get ''max_attempts''), (''Error code'', get ''last_error_code''),
              (''Error message'', get ''last_error_message''),
              (''Updated at'', format_timestamp E (dget payload ''updated_at''))] None))"

definition template_registry :: "email_env \<Rightarrow> (string \<times> (pydict \<Rightarrow> rendered_email)) list" where
  "template_registry E = [(''feedback_submitted'', render_feedback_submitted E), (''incident_warn'', render_incident_warn E),
     (''protection_clamp_started'', render_protection_clamp_started E), (''protection_block'', render_protection_block E),
     (''incident_resolved'', render_incident_resolved E), (''webhook_delivery_failed'', render_webhook_delivery_failed E)]"

definition render_template :: "email_env \<Rightarrow> string \<Rightarrow> pydict \<Rightarrow> exn + rendered_email" where
  "render_template E template payload = (case map_of (template_registry E) template of
     None \<Rightarrow> Inl (ValueError (''unknown email template: '' @ template))
   | Some renderer \<Rightarrow> Inr (renderer payload))"

section \<open>Markup\<close>

text \<open>The tags of a document: what stands between angle brackets. The flag tells that a tag is open.\<close>

fun tag_run :: "bool \<Rightarrow> string \<Rightarrow> string \<times> bool" where
  "tag_run inside [] = ([], inside)"
| "tag_run inside (c # cs) =
     (if inside then (case tag_run (c \<noteq> CHR ''>'') cs of (t, b) \<Rightarrow> (c # t, b))
      else if c = CHR ''<'' then (case tag_run True cs of (t, b) \<Rightarrow> (c # t, b))
      else tag_run False cs)"

definition tags :: "string \<Rightarrow> string" where
  "tags s = fst (tag_run False s)"

lemma tag_run_append:
  "tag_run b (xs @ ys) = (fst (tag_run b xs) @ fst (tag_run (snd (tag_run b xs)) ys), snd (tag_run (snd (tag_run b xs)) ys))"
  by (induction b xs rule: tag_run.induct) (auto split: prod.splits)

lemma tag_run_text: "CHR ''<'' \<notin> set s \<Longrightarrow> tag_run False s = ([], False)"
  by (induction s) auto

lemma tag_run_attribute: "CHR ''>'' \<notin> set s \<Longrightarrow> tag_run True s = (s, True)"
  by (induction s) auto

lemma set_escape_char: "set (escape_char c) \<inter> {CHR ''<'', CHR ''>'', CHR 34, CHR 39} = {}"
  by (auto simp: escape_char_def split: if_splits)

lemma escaped: "c \<in> set (html_escape s) \<Longrightarrow> c \<notin> {CHR ''<'', CHR ''>'', CHR 34, CHR 39}"
  using set_escape_char by (fastforce simp: html_escape_def)

lemma escape_runs [simp]: "tag_run False (html_escape s) = ([], False)" "tag_run True (html_escape s) = (html_escape s, True)"
  using escaped [of _ s] by (auto intro!: tag_run_text tag_run_attribute)

lemma html_escape_simps: "html_escape [] = []" "html_escape (c # cs) = escape_char c @ html_escape cs"
  by (simp_all add: html_escape_def)

lemma html_escape_Nil [simp]: "html_escape s = [] \<longleftrightarrow> s = []"
  by (cases s) (auto simp: html_escape_simps escape_char_def)

text \<open>A value has a tag for every line break, and no other.\<close>

lemma replace_char_simps: "replace_char c r [] = []" "replace_char c r (x # xs) = (if x = c then r else [x]) @ replace_char c r xs"
  by (simp_all add: replace_char_def)

lemma replace_char_append: "replace_char c r (xs @ ys) = replace_char c r xs @ replace_char c r ys"
  by (simp add: replace_char_def)

lemma replace_char_id: "c \<notin> set xs \<Longrightarrow> replace_char c r xs = xs"
  by (induction xs) (auto simp: replace_char_simps)

lemma break_tag: "tag_run False ''<br/>'' = (''<br/>'', False)"
  by simp

lemma tag_run_value: "tag_run False (value_html v) = (concat (replicate (length (filter (\<lambda>c. c = CHR 10) v)) ''<br/>''), False)"
proof (induction v)
  case Nil
  then show ?case by (simp add: value_html_def html_escape_simps replace_char_simps)
next
  case (Cons c v)
  show ?case
  proof (cases "c = CHR 10")
    case True
    then have "value_html (c # v) = ''<br/>'' @ value_html v"
      by (simp add: value_html_def html_escape_simps escape_char_def replace_char_simps)
    then show ?thesis using Cons True by (simp only: tag_run_append break_tag) simp
  next
    case False
    have n: "CHR 10 \<notin> set (escape_char c)" using False by (auto simp: escape_char_def split: if_splits)
    then have "value_html (c # v) = escape_char c @ value_html v"
      by (simp add: value_html_def html_escape_simps replace_char_append replace_char_id)
    moreover have "tag_run False (escape_char c) = ([], False)"
      using set_escape_char [of c] by (intro tag_run_text) auto
    ultimately show ?thesis using Cons False by (simp add: tag_run_append)
  qed
qed

text \<open>The fixed parts close the tags they open, but for the one around the address of the logo.\<close>

lemma fixed_parts [simp]:
  "snd (tag_run False page_open)" "\<not> snd (tag_run True logo_close)" "\<not> snd (tag_run False eyebrow_open)"
  "\<not> snd (tag_run False eyebrow_close)" "\<not> snd (tag_run False title_open)" "\<not> snd (tag_run False subtitle_open)"
  "\<not> snd (tag_run False fields_open)" "\<not> snd (tag_run False row_open)" "\<not> snd (tag_run False row_middle)"
  "\<not> snd (tag_run False row_close)" "\<not> snd (tag_run False fields_close)" "\<not> snd (tag_run False footer_open)"
  "\<not> snd (tag_run False footer_close)"
  by (simp_all add: page_open_def logo_close_def eyebrow_open_def eyebrow_close_def title_open_def subtitle_open_def
      fields_open_def row_open_def row_middle_def row_close_def fields_close_def footer_open_def footer_close_def)

text \<open>The same content without its texts: only the line breaks of the values stay.\<close>

definition bare :: "string \<times> string \<Rightarrow> string \<times> string" where
  "bare r = ([], filter (\<lambda>c. c = CHR 10) (snd r))"

definition mark :: "string \<Rightarrow> string" where
  "mark s = (if s = [] then [] else ''-'')"

lemma tag_run_row: "tag_run False (row_html r) = tag_run False (row_html (bare r))" "\<not> snd (tag_run False (row_html r))"
  by (simp_all add: row_html_def tag_run_append tag_run_value bare_def)

lemma tag_run_rows: "tag_run False (concat (map row_html rs)) = tag_run False (concat (map row_html (map bare rs)))"
  "\<not> snd (tag_run False (concat (map row_html rs)))"
proof (induction rs)
  case (Cons r rs)
  {
    case 1
    show ?case using Cons tag_run_row [of r] tag_run_row(2) [of "bare r"] by (simp add: tag_run_append)
  next
    case 2
    show ?case using Cons tag_run_row [of r] by (simp add: tag_run_append)
  }
qed simp_all

lemma tag_run_framed:
  assumes "\<not> snd (tag_run False a)" "\<not> snd (tag_run False b)"
  shows "tag_run False (framed a (html_escape s) b) = tag_run False (framed a (html_escape (mark s)) b)"
    "\<not> snd (tag_run False (framed a (html_escape s) b))"
  using assms by (simp_all add: framed_def mark_def tag_run_append)

lemma email_tags:
  "tags (email_html u e t s rs f) = tags (email_html u (mark e) [] [] (map bare rs) (mark f))"
proof -
  note frames = tag_run_framed [of eyebrow_open eyebrow_close e] tag_run_framed [of footer_open footer_close f]
    tag_run_framed(2) [of eyebrow_open eyebrow_close "mark e"] tag_run_framed(2) [of footer_open footer_close "mark f"]
  show ?thesis
    using frames tag_run_rows [of rs] tag_run_rows(2) [of "map bare rs"]
    by (simp add: tags_def email_html_def tag_run_append html_escape_simps)
qed

definition laid_out :: "email_env \<Rightarrow> rendered_email \<Rightarrow> (string \<times> string) list \<Rightarrow> bool" where
  "laid_out E r rs \<longleftrightarrow> (\<exists>title subtitle. re_html r = Some (email_html (public_logo_url E) [] title subtitle rs []))"

lemma laid_out_base: "\<exists>rs. laid_out E (email_of subject (render_base_email E None title subtitle fs None)) rs"
proof -
  have "strip [] = []" by (simp add: strip_def)
  then show ?thesis
    by (auto simp: laid_out_def email_of_def render_base_email_def Let_def opt_or_def)
qed

lemma renderers_laid_out:
  "\<exists>rs. laid_out E (render_feedback_submitted E p) rs" "\<exists>rs. laid_out E (render_incident_warn E p) rs"
  "\<exists>rs. laid_out E (render_incident_resolved E p) rs" "\<exists>rs. laid_out E (render_protection_clamp_started E p) rs"
  "\<exists>rs. laid_out E (render_protection_block E p) rs" "\<exists>rs. laid_out E (render_webhook_delivery_failed E p) rs"
  unfolding render_feedback_submitted_def render_incident_warn_def render_incident_resolved_def
    render_protection_clamp_started_def render_protection_block_def render_webhook_delivery_failed_def Let_def case_prod_unfold
  by (rule laid_out_base)+

text \<open>
  C38: no text of an event can change the markup of an email. Whatever the payload, the tags of the rendered
  HTML, attributes included, are those of the layout with as many empty rows: every project name, model,
  error text or message of a user ends up as text, and a line break in a value as a break.
\<close>

theorem email_markup_fixed:
  assumes "render_template E template payload = Inr r"
  shows "\<exists>html rs. re_html r = Some html \<and> tags html = tags (email_html (public_logo_url E) [] [] [] (map bare rs) [])"
proof -
  obtain rs where "laid_out E r rs"
    using assms renderers_laid_out [of E payload]
    by (auto simp: render_template_def template_registry_def split: if_splits)
  then obtain title subtitle where "re_html r = Some (email_html (public_logo_url E) [] title subtitle rs [])"
    unfolding laid_out_def by blast
  then show ?thesis using email_tags [of "public_logo_url E" "[]" title subtitle rs "[]"] by (auto simp: mark_def)
qed

theorem email_markup_fixed_witness:
  "\<exists>r html rs. render_template \<lparr> et_fromisoformat = fromisoformat, et_float_repr = (\<lambda>_. ''0.5''), et_base_url = ''https://r.io'' \<rparr>
       ''webhook_delivery_failed'' [(''last_error_message'', PStr ''<script>'')] = Inr r \<and>
     re_html r = Some html \<and> tags html = tags (email_html ''https://r.io/assets/logo/logo-48.png'' [] [] [] (map bare rs) [])"
proof -
  let ?E = "\<lparr> et_fromisoformat = fromisoformat, et_float_repr = (\<lambda>_. ''0.5''), et_base_url = ''https://r.io'' \<rparr>"
  have "render_template ?E ''webhook_delivery_failed'' [(''last_error_message'', PStr ''<script>'')] =
      Inr (render_webhook_delivery_failed ?E [(''last_error_message'', PStr ''<script>'')])"
    by (simp add: render_template_def template_registry_def)
  from email_markup_fixed [OF this] this show ?thesis by (auto simp: public_logo_url_def)
qed

end
