(* ===== verification/Recurring_Jobs.thy ===== *)
theory Recurring_Jobs
  imports Py_Value
begin

text \<open>
  The recurring jobs (\<open>app/workers/scheduler_bootstrap.py\<close>): each process start makes sure that the clean-up
  of incidents and the purge of events are scheduled. The scheduler of RQ is a parameter with a contract.
\<close>

record recurring_job =
  rj_job_id :: string
  rj_func_path :: string
  rj_interval_seconds :: int

text \<open>
  \<open>sc_schedule\<close> takes the job, its first run, the result's time to live and, where the version knows it, that
  of a failure.
\<close>

record 'w scheduler =
  sc_get_jobs :: "('w, string list) py"
  sc_get_jobs_with_times :: "('w, string list) py"
  sc_knows_failure_ttl :: bool
  sc_schedule :: "recurring_job \<Rightarrow> datetime \<Rightarrow> int \<Rightarrow> int option \<Rightarrow> ('w, unit) py"

fun schedule_missing ::
  "'w scheduler \<Rightarrow> string list \<Rightarrow> datetime \<Rightarrow> int \<Rightarrow> int \<Rightarrow> recurring_job list \<Rightarrow> ('w, int) py" where
  "schedule_missing S existing_ids t result_ttl failure_ttl [] = ret 0"
| "schedule_missing S existing_ids t result_ttl failure_ttl (job # jobs) =
     (if rj_job_id job \<in> set existing_ids then schedule_missing S existing_ids t result_ttl failure_ttl jobs
      else bnd (sc_schedule S job t result_ttl (if sc_knows_failure_ttl S then Some failure_ttl else None)) (\<lambda>_.
           bnd (schedule_missing S existing_ids t result_ttl failure_ttl jobs) (\<lambda>n. ret (1 + n))))"

definition ensure_recurring_jobs ::
  "'w scheduler \<Rightarrow> ('w, datetime) py \<Rightarrow> recurring_job list \<Rightarrow> int \<Rightarrow> int \<Rightarrow> ('w, int) py" where
  "ensure_recurring_jobs S clock jobs result_ttl failure_ttl =
     bnd (try_except (sc_get_jobs S) (\<lambda>e. if e = TypeError then sc_get_jobs_with_times S else raise e)) (\<lambda>existing_ids.
     bnd clock (\<lambda>t. schedule_missing S existing_ids t result_ttl failure_ttl jobs))"

definition backend_jobs :: "int \<Rightarrow> recurring_job list" where
  "backend_jobs auto_close_run_interval_seconds =
     [\<lparr> rj_job_id = ''rheonic_auto_close_incidents'',
        rj_func_path = ''app.infrastructure.jobs.auto_close_incidents_job.auto_close_incidents'',
        rj_interval_seconds = max auto_close_run_interval_seconds 1 \<rparr>,
      \<lparr> rj_job_id = ''rheonic_purge_old_events'',
        rj_func_path = ''app.infrastructure.jobs.purge_events_job.purge_old_events'',
        rj_interval_seconds = 24 * 60 * 60 \<rparr>]"

section \<open>Each job once\<close>

locale job_scheduler =
  fixes S :: "'w scheduler" and ok :: "'w \<Rightarrow> bool" and ids :: "'w \<Rightarrow> string list"
  assumes get: "ok w \<Longrightarrow> sc_get_jobs S w = (Inr (ids w), w)"
    and schedule: "ok w \<Longrightarrow> rj_job_id job \<notin> set (ids w) \<Longrightarrow>
      \<exists>w'. sc_schedule S job t r f w = (Inr (), w') \<and> ok w' \<and> ids w' = ids w @ [rj_job_id job]"
begin

lemma missing_run:
  assumes "ok w" "distinct (map rj_job_id jobs)" "set (ids w) \<inter> rj_job_id ` set jobs = E \<inter> rj_job_id ` set jobs"
    "set existing = E"
  shows "\<exists>w'. schedule_missing S existing t r f jobs w =
      (Inr (int (length (filter (\<lambda>j. rj_job_id j \<notin> E) jobs))), w') \<and> ok w' \<and>
      ids w' = ids w @ map rj_job_id (filter (\<lambda>j. rj_job_id j \<notin> E) jobs)"
  using assms
proof (induction jobs arbitrary: w)
  case (Cons j jobs)
  show ?case
  proof (cases "rj_job_id j \<in> E")
    case True
    have "set (ids w) \<inter> rj_job_id ` set jobs = E \<inter> rj_job_id ` set jobs" using Cons.prems(2,3) by auto
    then show ?thesis using Cons.IH [OF Cons.prems(1)] Cons.prems(2,4) True by auto
  next
    case False
    then have "rj_job_id j \<notin> set (ids w)" using Cons.prems(3) by auto
    then obtain w1 where 1: "sc_schedule S j t r (if sc_knows_failure_ttl S then Some f else None) w = (Inr (), w1)" "ok w1"
      "ids w1 = ids w @ [rj_job_id j]" using schedule [OF Cons.prems(1)] by blast
    have "set (ids w1) \<inter> rj_job_id ` set jobs = E \<inter> rj_job_id ` set jobs"
      using Cons.prems(2,3) 1(3) False by auto
    from Cons.IH [OF 1(2) _ this Cons.prems(4)] Cons.prems(2) obtain w2 where
      "schedule_missing S existing t r f jobs w1 = (Inr (int (length (filter (\<lambda>j. rj_job_id j \<notin> E) jobs))), w2)" "ok w2"
      "ids w2 = ids w1 @ map rj_job_id (filter (\<lambda>j. rj_job_id j \<notin> E) jobs)" by auto
    then show ?thesis using 1 False Cons.prems(4) by (intro exI [of _ w2]) (simp add: bnd_def)
  qed
qed simp

lemma ensure_run:
  assumes "ok w" "distinct (map rj_job_id jobs)" "\<And>x. \<exists>t. clock x = (Inr t, x)"
  shows "\<exists>w'. ensure_recurring_jobs S clock jobs r f w =
      (Inr (int (length (filter (\<lambda>j. rj_job_id j \<notin> set (ids w)) jobs))), w') \<and> ok w' \<and>
      ids w' = ids w @ map rj_job_id (filter (\<lambda>j. rj_job_id j \<notin> set (ids w)) jobs)"
proof -
  obtain t where t: "clock w = (Inr t, w)" using assms(3) by blast
  show ?thesis
    using missing_run [OF assms(1,2), of "set (ids w)" "ids w" t r f] get [OF assms(1)] t
    by (simp add: ensure_recurring_jobs_def bnd_def)
qed

lemma ensure_idempotent:
  assumes "ok w" "distinct (map rj_job_id jobs)" "\<And>x. \<exists>t. clock x = (Inr t, x)"
  shows "\<exists>n w1 w2. ensure_recurring_jobs S clock jobs r f w = (Inr n, w1) \<and> rj_job_id ` set jobs \<subseteq> set (ids w1) \<and>
     (distinct (ids w) \<longrightarrow> distinct (ids w1)) \<and>
     ensure_recurring_jobs S clock jobs r f w1 = (Inr 0, w2) \<and> ids w2 = ids w1"
proof -
  obtain w1 where 1: "ensure_recurring_jobs S clock jobs r f w =
      (Inr (int (length (filter (\<lambda>j. rj_job_id j \<notin> set (ids w)) jobs))), w1)" "ok w1"
      "ids w1 = ids w @ map rj_job_id (filter (\<lambda>j. rj_job_id j \<notin> set (ids w)) jobs)"
    using ensure_run [OF assms] by blast
  have all: "rj_job_id ` set jobs \<subseteq> set (ids w1)" by (auto simp: 1(3))
  then have "filter (\<lambda>j. rj_job_id j \<notin> set (ids w1)) jobs = []" by (auto simp: filter_empty_conv)
  then obtain w2 where 2: "ensure_recurring_jobs S clock jobs r f w1 = (Inr 0, w2)" "ids w2 = ids w1"
    using ensure_run [OF 1(2) assms(2,3), of r f] by auto
  have "distinct (ids w) \<longrightarrow> distinct (ids w1)"
    using assms(2) by (auto simp: 1(3) distinct_map_filter)
  then show ?thesis using 1(1) all 2 by blast
qed

end

definition list_scheduler :: "string list scheduler" where
  "list_scheduler = \<lparr> sc_get_jobs = (\<lambda>w. (Inr w, w)), sc_get_jobs_with_times = (\<lambda>w. (Inr w, w)),
     sc_knows_failure_ttl = True, sc_schedule = (\<lambda>j _ _ _ w. (Inr (), w @ [rj_job_id j])) \<rparr>"

interpretation ls: job_scheduler list_scheduler "\<lambda>_. True" "\<lambda>w. w"
  by unfold_locales (simp_all add: list_scheduler_def)

text \<open>However often the backend starts, each of its two jobs is scheduled once.\<close>

theorem backend_jobs_once:
  assumes "job_scheduler S ok ids" "ok w" "\<And>x. \<exists>t. clock x = (Inr t, x)" "distinct (ids w)"
  shows "\<exists>n w1 w2. ensure_recurring_jobs S clock (backend_jobs i) r f w = (Inr n, w1) \<and>
     rj_job_id ` set (backend_jobs i) \<subseteq> set (ids w1) \<and> distinct (ids w1) \<and>
     ensure_recurring_jobs S clock (backend_jobs i) r f w1 = (Inr 0, w2) \<and> ids w2 = ids w1"
  using job_scheduler.ensure_idempotent [OF assms(1,2) _ assms(3), of "backend_jobs i" r f] assms(4)
  by (simp add: backend_jobs_def)

end
