(* ===== verification/Deploy_Settings.thy ===== *)
theory Deploy_Settings
  imports Py_Value
begin

text \<open>
  The settings of a deployment (\<open>Settings\<close> of \<open>app/config.py\<close>): the connection URLs, the origins, the cookie
  attributes, and the checks a staging or production process must pass before it starts. \<open>urlsplit\<close> is a
  parameter.
\<close>

record deploy_settings =
  dp_app_env :: string
  dp_jwt_secret :: string
  dp_cors_origins :: string
  dp_public_app_base_url :: string
  dp_auth_cookie_samesite_value :: string
  dp_postgres_db :: string
  dp_postgres_user :: string
  dp_postgres_password :: string
  dp_postgres_host :: string
  dp_postgres_port :: int
  dp_redis_host :: string
  dp_redis_port :: int
  dp_redis_db :: int
  dp_redis_password :: string
  dp_database_url :: string
  dp_redis_url :: string
  dp_app_version :: string
  dp_public_contact_email :: string

section \<open>Derived settings\<close>

definition app_env_normalized :: "deploy_settings \<Rightarrow> string" where
  "app_env_normalized st = lower (strip (or_str (dp_app_env st) ''dev''))"

definition is_production_like :: "deploy_settings \<Rightarrow> bool" where
  "is_production_like st \<longleftrightarrow> app_env_normalized st \<in> {''prod'', ''production'', ''staging''}"

definition auth_cookie_secure :: "deploy_settings \<Rightarrow> bool" where
  "auth_cookie_secure st = is_production_like st"

definition auth_cookie_samesite :: "deploy_settings \<Rightarrow> string" where
  "auth_cookie_samesite st =
     (let normalized = lower (strip (or_str (dp_auth_cookie_samesite_value st) ''lax'')) in
      if normalized \<in> {''lax'', ''strict'', ''none''} then normalized else ''lax'')"

definition cors_origin_list :: "deploy_settings \<Rightarrow> string list" where
  "cors_origin_list st = filter (\<lambda>origin. origin \<noteq> []) (map strip (split_at (CHR '','') [] (dp_cors_origins st)))"

definition resolved_public_app_base_url :: "deploy_settings \<Rightarrow> string" where
  "resolved_public_app_base_url st =
     (let explicit = rstrip_char (CHR ''/'') (strip (dp_public_app_base_url st)) in
      if explicit \<noteq> [] then explicit
      else (case cors_origin_list st of
          [] \<Rightarrow> ''http://localhost:5173'' | origin # _ \<Rightarrow> rstrip_char (CHR ''/'') origin))"

definition auth_access_cookie_name :: "deploy_settings \<Rightarrow> string" where
  "auth_access_cookie_name st = (if auth_cookie_secure st then ''__Host-rheonic_access'' else ''rheonic_access'')"

definition auth_refresh_cookie_name :: "deploy_settings \<Rightarrow> string" where
  "auth_refresh_cookie_name st = (if auth_cookie_secure st then ''__Secure-rheonic_refresh'' else ''rheonic_refresh'')"

section \<open>Connection URLs\<close>

text \<open>The parts of \<open>urlsplit\<close> the code reads; \<open>sp_rebuild\<close> is \<open>urlunsplit\<close> with another \<open>netloc\<close>.\<close>

record split_url =
  sp_scheme :: string
  sp_hostname :: "string option"
  sp_password :: "string option"
  sp_port :: "int option"
  sp_rebuild :: "string \<Rightarrow> string"

definition apply_url_defaults :: "(string \<Rightarrow> split_url) \<Rightarrow> deploy_settings \<Rightarrow> deploy_settings" where
  "apply_url_defaults urlsplit st =
     (let st = (if strip (dp_database_url st) = []
            then st\<lparr> dp_database_url := ''postgresql+psycopg://'' @ dp_postgres_user st @ '':'' @ dp_postgres_password st @ ''@'' @
                   dp_postgres_host st @ '':'' @ py_str_int (dp_postgres_port st) @ ''/'' @ dp_postgres_db st \<rparr>
            else st)
      in if strip (dp_redis_url st) = [] then
           (let redis_auth = (if dp_redis_password st \<noteq> [] then '':'' @ dp_redis_password st @ ''@'' else [])
            in st\<lparr> dp_redis_url := ''redis://'' @ redis_auth @ dp_redis_host st @ '':'' @ py_str_int (dp_redis_port st) @ ''/'' @
                 py_str_int (dp_redis_db st) \<rparr>)
         else if dp_redis_password st \<noteq> [] then
           (let parsed = urlsplit (dp_redis_url st) in
            if startswith (sp_scheme parsed) ''redis'' \<and> truthy (sp_hostname parsed) \<and> sp_password parsed = None
            then (let redis_netloc = the (sp_hostname parsed) @
                        (case sp_port parsed of None \<Rightarrow> [] | Some port \<Rightarrow> '':'' @ py_str_int port)
                  in st\<lparr> dp_redis_url := sp_rebuild parsed ('':'' @ dp_redis_password st @ ''@'' @ redis_netloc) \<rparr>)
            else st)
         else st)"

section \<open>Checks at start-up\<close>

definition names_this_host :: "string \<Rightarrow> bool" where
  "names_this_host s \<longleftrightarrow> contains s ''localhost'' \<or> contains s ''127.0.0.1''"

definition validate_deploy_safety :: "deploy_settings \<Rightarrow> exn + deploy_settings" where
  "validate_deploy_safety st =
     (if app_env_normalized st \<notin> {''dev'', ''test'', ''staging'', ''prod'', ''production''}
        then Inl (ValueError ''APP_ENV must be one of ['dev', 'prod', 'production', 'staging', 'test']'')
      else if \<not> is_production_like st then Inr st
      else if length (strip (dp_jwt_secret st)) < 32
        then Inl (ValueError ''JWT_SECRET must be at least 32 characters in staging/production'')
      else if cors_origin_list st = [] then Inl (ValueError ''CORS_ORIGINS is required in staging/production'')
      else if names_this_host (lower (join_str '','' (cors_origin_list st)))
        then Inl (ValueError ''CORS_ORIGINS must not contain localhost in staging/production'')
      else let public_base = lower (resolved_public_app_base_url st) in
        if names_this_host public_base \<or> \<not> startswith public_base ''https://''
          then Inl (ValueError ''PUBLIC_APP_BASE_URL must be https and non-localhost in staging/production'')
        else Inr st)"

section \<open>What a checked production process has\<close>

lemma startswith_longer: "startswith s p \<Longrightarrow> startswith (s @ t) p"
  by (auto simp: startswith_iff)

lemma contains_empty [simp]: "contains s []"
  by (cases s) simp_all

lemma contains_append1: "contains s p \<Longrightarrow> contains (s @ t) p"
proof (induction s)
  case Nil
  then show ?case by simp
next
  case (Cons c s)
  then show ?case using startswith_longer [of "c # s" p t] by auto
qed

lemma contains_append2: "contains t p \<Longrightarrow> contains (s @ t) p"
  by (induction s) simp_all

lemma contains_append: "contains s p \<or> contains t p \<Longrightarrow> contains (s @ t) p"
  using contains_append1 contains_append2 by blast

lemma contains_join: "o' \<in> set os \<Longrightarrow> contains o' p \<Longrightarrow> contains (join_str sep os) p"
  by (induction sep os rule: join_str.induct) (auto simp: contains_append)

lemma lower_join: "lower (join_str sep os) = join_str (lower sep) (map lower os)"
  by (induction sep os rule: join_str.induct) (simp_all add: lower_def)

text \<open>
  A production or staging process that starts has a secret of at least 32 characters, at least one origin
  and none on the local host, an HTTPS address that is not local, and cookies that are secure and carry the
  prefixes browsers enforce.
\<close>

theorem deploy_checked:
  assumes "validate_deploy_safety st = Inr st'" "is_production_like st"
  shows "st' = st \<and> 32 \<le> length (strip (dp_jwt_secret st)) \<and> cors_origin_list st \<noteq> [] \<and>
     (\<forall>origin \<in> set (cors_origin_list st). \<not> names_this_host (lower origin)) \<and>
     startswith (lower (resolved_public_app_base_url st)) ''https://'' \<and>
     \<not> names_this_host (lower (resolved_public_app_base_url st)) \<and>
     auth_cookie_secure st \<and> startswith (auth_access_cookie_name st) ''__Host-'' \<and>
     startswith (auth_refresh_cookie_name st) ''__Secure-''"
proof -
  have "\<not> names_this_host (lower (join_str '','' (cors_origin_list st)))" and rest: "st' = st"
    "32 \<le> length (strip (dp_jwt_secret st))" "cors_origin_list st \<noteq> []"
    "startswith (lower (resolved_public_app_base_url st)) ''https://''"
    "\<not> names_this_host (lower (resolved_public_app_base_url st))"
    using assms by (auto simp: validate_deploy_safety_def Let_def split: if_splits)
  then have "\<not> names_this_host (lower origin)" if "origin \<in> set (cors_origin_list st)" for origin
    using contains_join [of "lower origin" "map lower (cors_origin_list st)"] that
    unfolding names_this_host_def lower_join by auto
  then show ?thesis
    using rest assms(2) by (simp add: auth_cookie_secure_def auth_access_cookie_name_def auth_refresh_cookie_name_def)
qed

end
