(* ===== verification/Http_Layer.thy ===== *)
theory Http_Layer
  imports Deploy_Settings Db_Table
begin

text \<open>
  What surrounds every endpoint (\<open>app/main.py\<close>, \<open>app/api/error_responses.py\<close>, the trace context of
  \<open>app/logger.py\<close>) and the endpoints about the process itself (\<open>app/health_checks.py\<close>,
  \<open>app/api/v1/system.py\<close>, \<open>app/api/v1/public_config.py\<close>). The endpoints, FastAPI's validation of a
  request and \<open>uuid4\<close> are parameters; log output is in \<open>Log_Format\<close>, and the CORS middleware is the
  framework's.
\<close>

section \<open>Requests and responses\<close>

type_synonym http_headers = "(string \<times> string) list"

record http_request =
  hq_method :: string
  hq_path :: string
  hq_headers :: http_headers

record http_response =
  hs_status :: int
  hs_headers :: http_headers
  hs_body :: pyval

text \<open>Header names are compared without case; \<open>setdefault\<close> keeps a header that is there.\<close>

fun header_get :: "http_headers \<Rightarrow> string \<Rightarrow> string option" where
  "header_get [] name = None"
| "header_get ((k, v) # hs) name = (if lower k = lower name then Some v else header_get hs name)"

definition header_setdefault :: "string \<Rightarrow> string \<Rightarrow> http_response \<Rightarrow> http_response" where
  "header_setdefault name value r =
     (if header_get (hs_headers r) name = None then r\<lparr>hs_headers := hs_headers r @ [(name, value)]\<rparr> else r)"

text \<open>The context variables of the logger, and the outside world.\<close>

record 'x http_world =
  hw_trace_id :: string
  hw_span_id :: string
  hw_x :: 'x

section \<open>Trace context\<close>

text \<open>\<open>new_uuid\<close> gives the 32 hexadecimal digits of a fresh UUID.\<close>

definition fresh_trace_id :: "('x \<Rightarrow> string \<times> 'x) \<Rightarrow> ('x http_world, string) py" where
  "fresh_trace_id new_uuid = (\<lambda>w. case new_uuid (hw_x w) of (h, x) \<Rightarrow>
     (Inr (take 8 h @ ''-'' @ take 4 (drop 8 h) @ ''-'' @ take 4 (drop 12 h) @ ''-''
        @ take 4 (drop 16 h) @ ''-'' @ drop 20 h), w\<lparr>hw_x := x\<rparr>))"

definition fresh_span_id :: "('x \<Rightarrow> string \<times> 'x) \<Rightarrow> ('x http_world, string) py" where
  "fresh_span_id new_uuid = (\<lambda>w. case new_uuid (hw_x w) of (h, x) \<Rightarrow> (Inr (take 16 h), w\<lparr>hw_x := x\<rparr>))"

definition or_fresh :: "string \<Rightarrow> ('w, string) py \<Rightarrow> ('w, string) py" where
  "or_fresh s m = (if s = [] then m else ret s)"

definition bind_request_context ::
  "('x \<Rightarrow> string \<times> 'x) \<Rightarrow> string \<Rightarrow> string \<Rightarrow> ('x http_world, string \<times> string) py" where
  "bind_request_context new_uuid trace_id span_id =
     bnd (or_fresh (strip trace_id) (fresh_trace_id new_uuid)) (\<lambda>resolved_trace_id.
     bnd (or_fresh (strip span_id) (fresh_span_id new_uuid)) (\<lambda>resolved_span_id.
     \<lambda>w. (Inr (hw_trace_id w, hw_span_id w), w\<lparr>hw_trace_id := resolved_trace_id, hw_span_id := resolved_span_id\<rparr>)))"

definition reset_request_context :: "string \<times> string \<Rightarrow> ('x http_world, unit) py" where
  "reset_request_context tokens = (\<lambda>w. (Inr (), w\<lparr>hw_trace_id := fst tokens, hw_span_id := snd tokens\<rparr>))"

section \<open>Error responses\<close>

definition default_code_for_status :: "int \<Rightarrow> string" where
  "default_code_for_status status_code =
     (case map_of [(400, ''bad_request''), (401, ''unauthorized''), (403, ''forbidden''), (404, ''not_found''),
        (429, ''too_many_requests''), (409, ''conflict''), (500, ''internal_error'')] status_code of
        Some code \<Rightarrow> code | None \<Rightarrow> ''request_error'')"

definition build_error_response :: "int \<Rightarrow> string \<Rightarrow> string \<Rightarrow> http_response" where
  "build_error_response status_code code message = \<lparr>
     hs_status = status_code, hs_headers = [],
     hs_body = PDict [(''error'', PDict [(''code'', PStr code), (''message'', PStr message)])] \<rparr>"

text \<open>\<open>str(v or d)\<close>, with \<open>text\<close> for \<open>str\<close>.\<close>

definition text_or :: "(pyval \<Rightarrow> string) \<Rightarrow> pyval \<Rightarrow> string \<Rightarrow> string" where
  "text_or text v d = (if truth v then text v else d)"

text \<open>An \<open>"error"\<close> that is no \<open>dict\<close> has no \<open>get\<close>: the handler itself raises.\<close>

definition http_exception_handler :: "(pyval \<Rightarrow> string) \<Rightarrow> int \<Rightarrow> pyval \<Rightarrow> exn + http_response" where
  "http_exception_handler text status_code detail =
     (let plain = Inr (build_error_response status_code (default_code_for_status status_code)
            (if truth detail then text detail else ''request failed''))
      in case detail of
           PDict d \<Rightarrow>
             if has_key d ''error''
             then (case dget d ''error'' of
                 PDict payload \<Rightarrow> Inr (build_error_response status_code
                   (text_or text (dget payload ''code'') (default_code_for_status status_code))
                   (text_or text (dget payload ''message'') ''request failed''))
               | _ \<Rightarrow> Inl TypeError)
             else plain
         | _ \<Rightarrow> plain)"

definition request_validation_exception_handler ::
  "(pyval \<Rightarrow> string) \<Rightarrow> string \<Rightarrow> pydict list \<Rightarrow> http_response" where
  "request_validation_exception_handler text path details =
     (let message = (case details of [] \<Rightarrow> ''invalid request payload'' | d # _ \<Rightarrow> text (dget d ''msg''));
          status_code = (if startswith path ''/api/v1/events'' \<or> startswith path ''/api/v1/protect'' then 400 else 422)
      in build_error_response status_code (default_code_for_status status_code) message)"

definition unhandled_exception_handler :: "exn \<Rightarrow> http_response" where
  "unhandled_exception_handler exc = build_error_response 500 ''internal_error'' ''Internal server error''"

section \<open>Middleware\<close>

definition or_header :: "http_headers \<Rightarrow> string \<Rightarrow> string \<Rightarrow> string" where
  "or_header hs a b = or_str (opt_or (header_get hs a) []) (opt_or (header_get hs b) [])"

text \<open>\<open>try: ... except Exception: reset; raise\<close>.\<close>

definition reset_on_error :: "string \<times> string \<Rightarrow> ('x http_world, 'a) py \<Rightarrow> ('x http_world, 'a) py" where
  "reset_on_error tokens m = try_except m (\<lambda>e. bnd (reset_request_context tokens) (\<lambda>_. raise e))"

definition request_context_middleware ::
  "('x \<Rightarrow> string \<times> 'x) \<Rightarrow> deploy_settings \<Rightarrow> (http_request \<Rightarrow> ('x http_world, http_response) py)
     \<Rightarrow> http_request \<Rightarrow> ('x http_world, http_response) py" where
  "request_context_middleware new_uuid st call_next req =
     (let hs = hq_headers req;
          request_id = or_header hs ''X-Request-ID'' ''X-Rheonic-Protect-Request-Id''
      in bnd (or_fresh (or_header hs ''X-Trace-ID'' ''X-Request-ID'') (fresh_trace_id new_uuid)) (\<lambda>trace_id.
         bnd (or_fresh (opt_or (header_get hs ''X-Span-ID'') []) (fresh_span_id new_uuid)) (\<lambda>span_id.
         bnd (bind_request_context new_uuid trace_id span_id) (\<lambda>context_tokens.
         bnd (reset_on_error context_tokens (call_next req)) (\<lambda>response.
         let r1 = header_setdefault ''X-Span-ID'' span_id (header_setdefault ''X-Trace-ID'' trace_id response);
             r2 = (if request_id \<noteq> [] then header_setdefault ''X-Request-ID'' request_id r1 else r1);
             r3 = header_setdefault ''X-App-Version'' (dp_app_version st) r2
         in bnd (reset_request_context context_tokens) (\<lambda>_. ret r3))))))"

definition quoted :: "string \<Rightarrow> string" where
  "quoted s = CHR 0x27 # s @ [CHR 0x27]"

definition hardening :: "(string \<times> string) list" where
  "hardening = [(''X-Content-Type-Options'', ''nosniff''), (''X-Frame-Options'', ''DENY''),
     (''Referrer-Policy'', ''same-origin''),
     (''Permissions-Policy'', ''geolocation=(), microphone=(), camera=()''),
     (''Content-Security-Policy'',
        ''default-src '' @ quoted ''self'' @ ''; frame-ancestors '' @ quoted ''none'' @ ''; base-uri '' @
        quoted ''self'' @ ''; form-action '' @ quoted ''self'')]"

definition security_headers_middleware ::
  "(http_request \<Rightarrow> ('w, http_response) py) \<Rightarrow> http_request \<Rightarrow> ('w, http_response) py" where
  "security_headers_middleware call_next req =
     bnd (call_next req) (\<lambda>response. ret (fold (\<lambda>(k, v). header_setdefault k v) hardening response))"

section \<open>The application\<close>

text \<open>
  A parsed request either fails FastAPI's validation (\<open>details\<close>) or reaches its endpoint. The framework
  runs the handlers of \<open>HTTPException\<close> and \<open>RequestValidationError\<close> inside the middleware, in the order
  the middleware was added (the last one is outermost), and the handler of \<open>Exception\<close> outside of it.
\<close>

record 'x http_app =
  ha_uuid :: "'x \<Rightarrow> string \<times> 'x"
  ha_settings :: deploy_settings
  ha_text :: "pyval \<Rightarrow> string"
  ha_validate :: "http_request \<Rightarrow> pydict list option"
  ha_route :: "http_request \<Rightarrow> ('x http_world, http_response) py"

definition handled :: "'x http_app \<Rightarrow> http_request \<Rightarrow> ('x http_world, http_response) py" where
  "handled A req =
     (case ha_validate A req of
        Some details \<Rightarrow> ret (request_validation_exception_handler (ha_text A) (hq_path req) details)
      | None \<Rightarrow> try_except (ha_route A req) (\<lambda>e. case e of
            HTTPException status_code detail \<Rightarrow>
              py_raise_sum (http_exception_handler (ha_text A) status_code (PStr detail))
          | _ \<Rightarrow> raise e))"

definition respond :: "'x http_app \<Rightarrow> http_request \<Rightarrow> ('x http_world, http_response) py" where
  "respond A req =
     try_except
       (security_headers_middleware (request_context_middleware (ha_uuid A) (ha_settings A) (handled A)) req)
       (\<lambda>e. ret (unhandled_exception_handler e))"

section \<open>The process's own endpoints\<close>

text \<open>\<open>select_one\<close> runs \<open>SELECT 1\<close> in a session of its own, \<open>ping\<close> is the Redis client's.\<close>

definition assert_critical_dependencies_ready :: "('w, unit) py \<Rightarrow> ('w, bool) py \<Rightarrow> ('w, unit) py" where
  "assert_critical_dependencies_ready select_one ping =
     bnd select_one (\<lambda>_. bnd ping (\<lambda>ok. if ok then ret () else raise (RuntimeError ''redis ping failed'')))"

definition not_ready :: "(exn \<Rightarrow> string) \<Rightarrow> ('w, 'a) py \<Rightarrow> ('w, 'a) py" where
  "not_ready exn_text m = try_except m (\<lambda>e. raise (HTTPException 503 (''not ready: '' @ exn_text e)))"

definition app_health :: "('w, pydict) py" where
  "app_health = ret [(''status'', PStr ''ok'')]"

definition ready :: "(exn \<Rightarrow> string) \<Rightarrow> ('w, unit) py \<Rightarrow> ('w, bool) py \<Rightarrow> ('w, pydict) py" where
  "ready exn_text select_one ping =
     not_ready exn_text (bnd (assert_critical_dependencies_ready select_one ping) (\<lambda>_. ret [(''status'', PStr ''ready'')]))"

definition api_health :: "(exn \<Rightarrow> string) \<Rightarrow> ('w, unit) py \<Rightarrow> ('w, bool) py \<Rightarrow> ('w, pydict) py" where
  "api_health exn_text select_one ping =
     bnd (not_ready exn_text (assert_critical_dependencies_ready select_one ping)) (\<lambda>_. ret [(''status'', PStr ''ok'')])"

definition api_version :: "deploy_settings \<Rightarrow> pydict" where
  "api_version st = [(''version'', PStr (dp_app_version st)), (''environment'', PStr (app_env_normalized st))]"

definition get_public_config :: "deploy_settings \<Rightarrow> pydict" where
  "get_public_config st = [(''public_contact_email'', PStr (strip (dp_public_contact_email st)))]"

section \<open>Headers\<close>

lemma header_get_append: "header_get (hs @ [(k, v)]) n =
    (case header_get hs n of Some x \<Rightarrow> Some x | None \<Rightarrow> if lower k = lower n then Some v else None)"
  by (induction hs n rule: header_get.induct) auto

lemma header_get_lower: "lower k = lower n \<Longrightarrow> header_get hs k = header_get hs n"
  by (induction hs n rule: header_get.induct) auto

definition has_header :: "http_response \<Rightarrow> string \<Rightarrow> bool" where
  "has_header r name \<longleftrightarrow> header_get (hs_headers r) name \<noteq> None"

lemma has_header_setdefault [simp]:
  "has_header (header_setdefault k v r) n \<longleftrightarrow> has_header r n \<or> lower k = lower n"
  using header_get_lower [of k n "hs_headers r"]
  by (auto simp: header_setdefault_def has_header_def header_get_append split: option.splits)

lemma has_header_fold:
  "has_header (fold (\<lambda>(k, v). header_setdefault k v) hs r) n \<longleftrightarrow> has_header r n \<or> (\<exists>k \<in> fst ` set hs. lower k = lower n)"
  by (induction hs arbitrary: r) auto

lemma setdefault_other [simp]:
  "hs_status (header_setdefault k v r) = hs_status r" "hs_body (header_setdefault k v r) = hs_body r"
  by (simp_all add: header_setdefault_def)

lemma fold_setdefault_other [simp]:
  "hs_status (fold (\<lambda>(k, v). header_setdefault k v) hs r) = hs_status r"
  "hs_body (fold (\<lambda>(k, v). header_setdefault k v) hs r) = hs_body r"
  by (induction hs arbitrary: r) auto

section \<open>What every response has\<close>

abbreviation request_trace :: "'x http_world \<Rightarrow> string \<times> string" where
  "request_trace w \<equiv> (hw_trace_id w, hw_span_id w)"

definition wrapped_headers :: "string list" where
  "wrapped_headers = map fst hardening @ [''X-Trace-ID'', ''X-Span-ID'', ''X-App-Version'']"

lemma or_fresh_run:
  "\<exists>t w'. or_fresh s (fresh_trace_id u) w = (Inr t, w') \<and> request_trace w' = request_trace w"
  "\<exists>t w'. or_fresh s (fresh_span_id u) w = (Inr t, w') \<and> request_trace w' = request_trace w"
  by (auto simp: or_fresh_def fresh_trace_id_def fresh_span_id_def split: prod.split)

lemma bind_context_run:
  "\<exists>w'. bind_request_context u t s w = (Inr (request_trace w), w')"
proof -
  obtain t' w1 where 1: "or_fresh (strip t) (fresh_trace_id u) w = (Inr t', w1)" "request_trace w1 = request_trace w"
    using or_fresh_run(1) by blast
  obtain s' w2 where 2: "or_fresh (strip s) (fresh_span_id u) w1 = (Inr s', w2)" "request_trace w2 = request_trace w1"
    using or_fresh_run(2) by blast
  show ?thesis using 1 2 by (simp add: bind_request_context_def)
qed

text \<open>The middleware restores the context of the caller, whether the endpoint returns or raises.\<close>

lemma request_context_run:
  obtains (answer) r w' w1 w2 r0 where "request_context_middleware u st f req w = (Inr r, w')"
      "request_trace w' = request_trace w" "has_header r ''X-Trace-ID''" "has_header r ''X-Span-ID''"
      "has_header r ''X-App-Version''" "f req w1 = (Inr r0, w2)" "hs_status r = hs_status r0" "hs_body r = hs_body r0"
    | (error) e w' w1 w2 where "request_context_middleware u st f req w = (Inl e, w')"
      "request_trace w' = request_trace w" "f req w1 = (Inl e, w2)"
proof -
  let ?hs = "hq_headers req"
  obtain t w1 where 1: "or_fresh (or_header ?hs ''X-Trace-ID'' ''X-Request-ID'') (fresh_trace_id u) w = (Inr t, w1)"
    "request_trace w1 = request_trace w" using or_fresh_run(1) by blast
  obtain s w2 where 2: "or_fresh (opt_or (header_get ?hs ''X-Span-ID'') []) (fresh_span_id u) w1 = (Inr s, w2)"
    "request_trace w2 = request_trace w1" using or_fresh_run(2) by blast
  obtain w3 where 3: "bind_request_context u t s w2 = (Inr (request_trace w), w3)"
    using bind_context_run [of u t s w2] 1(2) 2(2) by auto
  obtain x w4 where 4: "f req w3 = (x, w4)" by (cases "f req w3")
  let ?last = "w4\<lparr>hw_trace_id := hw_trace_id w, hw_span_id := hw_span_id w\<rparr>"
  show ?thesis
  proof (cases x)
    case (Inl e)
    then have "request_context_middleware u st f req w = (Inl e, ?last)"
      using 1(1) 2(1) 3 4
      by (simp add: request_context_middleware_def Let_def bnd_def reset_on_error_def try_except_def
          reset_request_context_def raise_def)
    then show ?thesis using 4 Inl by (intro error [where e = e and w' = "?last" and ?w1.0 = w3 and ?w2.0 = w4]) auto
  next
    case (Inr r0)
    let ?r1 = "header_setdefault ''X-Span-ID'' s (header_setdefault ''X-Trace-ID'' t r0)"
    let ?q = "or_header ?hs ''X-Request-ID'' ''X-Rheonic-Protect-Request-Id''"
    let ?r = "header_setdefault ''X-App-Version'' (dp_app_version st)
      (if ?q \<noteq> [] then header_setdefault ''X-Request-ID'' ?q ?r1 else ?r1)"
    have "request_context_middleware u st f req w = (Inr ?r, ?last)"
      using 1(1) 2(1) 3 4 Inr
      by (simp add: request_context_middleware_def Let_def bnd_def reset_on_error_def try_except_def
          reset_request_context_def ret_def)
    then show ?thesis using 4 Inr by (intro answer [where r = "?r" and w' = "?last" and ?w1.0 = w3 and ?w2.0 = w4 and ?r0.0 = r0]) auto
  qed
qed

text \<open>An exception no handler inside the middleware is registered for.\<close>

fun unexpected :: "exn \<Rightarrow> bool" where
  "unexpected (HTTPException status_code detail) = False"
| "unexpected _ = True"

lemma handled_error:
  "handled A req w = (Inl e, w') \<Longrightarrow> ha_validate A req = None \<and> ha_route A req w = (Inl e, w') \<and> unexpected e"
  by (auto simp: handled_def try_except_def http_exception_handler_def py_raise_sum_def Let_def
      split: option.splits prod.splits sum.splits exn.splits)


text \<open>A readiness check answers \<open>503\<close> for a database or Redis that fails, and a status otherwise.\<close>

lemma ready_exactly:
  assumes "select_one w = (a, w1)" "ping w1 = (b, w2)"
  shows "(\<exists>d. ready exn_text select_one ping w = (Inr d, w2)) \<longleftrightarrow> a = Inr () \<and> b = Inr True"
  using assms by (cases a; cases b)
    (auto simp: ready_def not_ready_def assert_critical_dependencies_ready_def try_except_def bnd_def ret_def raise_def)

end
