(* ===== verification/Mail_Transport.thy ===== *)
theory Mail_Transport
  imports Transport_Job
begin

text \<open>
  The mail transports (\<open>app/infrastructure/email/\<close>): delivery through the Resend API and the transport
  that stands in when none is configured. \<open>client.post\<close> is a parameter; \<open>raise_for_status\<close> raises for
  every status outside 200 to 299.
\<close>

section \<open>Responses\<close>

text \<open>\<open>response.json()\<close> gives a value, or raises \<open>ValueError\<close> with a text.\<close>

record mail_response =
  mr_status_code :: int
  mr_json :: "string + pyval"
  mr_text :: string

text \<open>\<open>body.get(a) or body.get(b) or body.get(c)\<close>.\<close>

definition or_val :: "pyval \<Rightarrow> pyval \<Rightarrow> pyval" where
  "or_val a b = (if truth a then a else b)"

definition provider_error_message :: "mail_response option \<Rightarrow> string" where
  "provider_error_message response =
     (case response of
        None \<Rightarrow> ''Resend request failed''
      | Some r \<Rightarrow>
          let http = ''HTTP '' @ py_str_int (mr_status_code r);
              detail = (case mr_json r of
                  Inr (PDict body) \<Rightarrow> as_str (or_val (or_val (dget body ''message'') (dget body ''name'')) (dget body ''error''))
                | _ \<Rightarrow> None);
              stripped = strip (mr_text r);
              from_text = (if stripped \<noteq> [] then http @ '': '' @ take 240 stripped else http)
          in case detail of
               Some s \<Rightarrow> if strip s \<noteq> [] then http @ '': '' @ strip s else from_text
             | None \<Rightarrow> from_text)"

section \<open>Resend\<close>

record resend_email_transport =
  re_api_key :: string
  re_base_url :: string

definition resend_init :: "string \<Rightarrow> string \<Rightarrow> exn + resend_email_transport" where
  "resend_init api_key base_url =
     (if strip api_key = []
      then Inl (ResendEmailTransportError ''email_provider_not_configured'' ''Resend API key is missing'')
      else Inr \<lparr> re_api_key = strip api_key, re_base_url = rstrip_char (CHR ''/'') base_url \<rparr>)"

definition resend_payload :: "email_message \<Rightarrow> pydict" where
  "resend_payload m =
     [(''from'', PStr (em_from m)), (''to'', PList [PStr (em_to m)]), (''subject'', PStr (em_subject m)),
      (''html'', PStr (em_html m))]
     @ (case em_text m of Some t \<Rightarrow> if t \<noteq> [] then [(''text'', PStr t)] else [] | None \<Rightarrow> [])
     @ (case em_reply_to m of Some t \<Rightarrow> if t \<noteq> [] then [(''reply_to'', PList [PStr t])] else [] | None \<Rightarrow> [])
     @ (case em_attachments m of
          Some as \<Rightarrow> if as \<noteq> [] then [(''attachments'', PList (map PDict as))] else []
        | None \<Rightarrow> [])"

text \<open>
  An exception of \<open>client.post\<close> is an \<open>httpx.HTTPError\<close> when it is a timeout or another error of the
  client; the statuses are raised by \<open>raise_for_status\<close>. Reading \<open>get\<close> off a body that is no object
  raises after the \<open>try\<close>.
\<close>

definition is_httpx_error :: "exn \<Rightarrow> bool" where
  "is_httpx_error e = (case e of HttpxTimeout _ \<Rightarrow> True | BackendError _ \<Rightarrow> True | _ \<Rightarrow> False)"

type_synonym 'w mail_post = "string \<Rightarrow> pydict \<Rightarrow> (string \<times> string) list \<Rightarrow> ('w, mail_response) py"

definition resend_send ::
  "'w mail_post \<Rightarrow> (exn \<Rightarrow> string) \<Rightarrow> resend_email_transport \<Rightarrow> email_message \<Rightarrow> ('w, unit) py" where
  "resend_send post exn_text self m =
     bnd (try_except (post (re_base_url self @ ''/emails'') (resend_payload m)
            [(''Authorization'', ''Bearer '' @ re_api_key self), (''Content-Type'', ''application/json'')])
          (\<lambda>e. if is_httpx_error e
               then raise (ResendEmailTransportError ''email_provider_request_error'' (exn_text e))
               else case e of
                   ValueError _ \<Rightarrow> raise (ResendEmailTransportError ''email_provider_response_error'' (exn_text e))
                 | _ \<Rightarrow> raise e)) (\<lambda>response.
     if mr_status_code response < 200 \<or> mr_status_code response \<ge> 300
     then raise (ResendEmailTransportError ''email_provider_http_error'' (provider_error_message (Some response)))
     else (case mr_json response of
         Inl message \<Rightarrow> raise (ResendEmailTransportError ''email_provider_response_error'' message)
       | Inr (PDict response_body) \<Rightarrow> ret ()
       | Inr _ \<Rightarrow> raise TypeError))"

definition null_send :: "email_message \<Rightarrow> ('w, unit) py" where
  "null_send m = raise EmailProviderNotConfiguredError"

section \<open>Outcomes\<close>

text \<open>
  A send succeeds exactly when the provider accepts the message with a JSON object; a refusal carries the
  status and, where there is one, the provider's own text.
\<close>

theorem resend_outcome:
  assumes "post (re_base_url self @ ''/emails'') (resend_payload m)
      [(''Authorization'', ''Bearer '' @ re_api_key self), (''Content-Type'', ''application/json'')] w = (Inr response, w')"
  shows "resend_send post exn_text self m w =
    (if mr_status_code response < 200 \<or> 300 \<le> mr_status_code response
     then Inl (ResendEmailTransportError ''email_provider_http_error'' (provider_error_message (Some response)))
     else case mr_json response of
         Inl message \<Rightarrow> Inl (ResendEmailTransportError ''email_provider_response_error'' message)
       | Inr v \<Rightarrow> (case as_dict v of Some _ \<Rightarrow> Inr () | None \<Rightarrow> Inl TypeError), w')"
  using assms by (auto simp: resend_send_def try_except_def bnd_def ret_def raise_def split: sum.split pyval.split)

lemma refusal_names_status:
  "take (length (''HTTP '' @ py_str_int (mr_status_code r))) (provider_error_message (Some r))
     = ''HTTP '' @ py_str_int (mr_status_code r)"
  by (auto simp: provider_error_message_def Let_def split: option.split)

text \<open>
  What the job records of a refused delivery: the code \<open>email_provider_http_error\<close> and a text of at most
  240 characters. Delivered mail whose answer is not an object is recorded as failed and sent again.
\<close>

lemma refusal_recorded:
  "error_details J (ResendEmailTransportError code message) =
     Inr (code, take 240 (tj_exn_text J (ResendEmailTransportError code message)))"
  by (simp add: error_details_def app_config_def)

lemma unread_answer_resends:
  assumes "post (re_base_url self @ ''/emails'') (resend_payload m)
      [(''Authorization'', ''Bearer '' @ re_api_key self), (''Content-Type'', ''application/json'')] w = (Inr response, w')"
    and "mr_status_code response = 200" "mr_json response = Inr (PList xs)"
  shows "resend_send post exn_text self m w = (Inl TypeError, w')"
  using assms by (simp add: resend_outcome)

end
