(* ===== verification/Db_Session.thy ===== *)
theory Db_Session
  imports Py_Value
begin

text \<open>
  Sessions of the database (\<open>app/infrastructure/db/base.py\<close>): the factory's configuration, the managed scope
  that commits or rolls back, and what the engine's listeners read off a statement. The engine and its
  sessions are parameters; the times of the slow-query log are not modelled.
\<close>

section \<open>The factory\<close>

definition resolve_database_url :: "string option \<Rightarrow> string \<Rightarrow> exn + string" where
  "resolve_database_url database_url configured =
     (let url = opt_or database_url configured in
      if url = [] then Inl (ValueError ''DATABASE_URL is not set'') else Inr url)"

section \<open>The session scope\<close>

record 'w session =
  ss_commit :: "('w, unit) py"
  ss_rollback :: "('w, unit) py"
  ss_close :: "('w, unit) py"

text \<open>
  The generator's \<open>yield\<close> is the body of the caller's \<open>with\<close>: its exception surfaces there. An exception
  of \<open>rollback\<close> or \<open>close\<close> takes the place of the first.
\<close>

definition session_scope :: "('w, 'w session) py \<Rightarrow> ('w session \<Rightarrow> ('w, 'a) py) \<Rightarrow> ('w, 'a) py" where
  "session_scope create_session body =
     bnd create_session (\<lambda>session.
     finally_py
       (try_except (bnd (body session) (\<lambda>a. bnd (ss_commit session) (\<lambda>_. ret a)))
          (\<lambda>e. bnd (ss_rollback session) (\<lambda>_. raise e)))
       (ss_close session))"

text \<open>
  A view of the database that closing leaves alone and that a rollback restores, whatever the body and a
  failed commit did, is unchanged by a scope that raises.
\<close>

lemma scope_all_or_nothing:
  assumes "create_session w0 = (Inr session, w)" "v w = v w0"
    and "session_scope create_session body w0 = (Inl e, w')"
    and "\<And>u. \<exists>u'. ss_rollback session u = (Inr (), u') \<and> v u' = v w"
    and "\<And>u. \<exists>u'. ss_close session u = (Inr (), u') \<and> v u' = v u"
  shows "v w' = v w0"
proof -
  let ?m = "bnd (body session) (\<lambda>a. bnd (ss_commit session) (\<lambda>_. ret a))"
  obtain r u where m: "?m w = (r, u)" by (cases "?m w")
  obtain u1 where 1: "ss_rollback session u = (Inr (), u1)" "v u1 = v w" using assms(4) by blast
  obtain u2 where 2: "ss_close session u1 = (Inr (), u2)" "v u2 = v u1" using assms(5) by blast
  obtain u3 where 3: "ss_close session u = (Inr (), u3)" using assms(5) by blast
  show ?thesis
  proof (cases r)
    case (Inl d)
    then show ?thesis using m 1 2 assms(1-3)
      by (simp add: session_scope_def finally_py_def try_except_def bnd_def raise_def)
  next
    case (Inr a)
    then show ?thesis using m 3 assms(1,3)
      by (simp add: session_scope_def finally_py_def try_except_def bnd_def [of create_session])
  qed
qed

text \<open>A scope that returns has committed the body's work and closed the session.\<close>

lemma scope_commits:
  assumes "create_session w0 = (Inr session, w)" "body session w = (Inr a, w1)"
    and "ss_commit session w1 = (Inr (), w2)" "ss_close session w2 = (Inr (), w3)"
  shows "session_scope create_session body w0 = (Inr a, w3)"
  using assms by (simp add: session_scope_def finally_py_def)

section \<open>What the listeners read\<close>

text \<open>
  The first word of the statement in lower case. A statement of blanks has none, and the index raises.
\<close>

definition extract_sql_operation :: "string option \<Rightarrow> exn + string" where
  "extract_sql_operation statement =
     (case statement of
        None \<Rightarrow> Inr ''unknown''
      | Some s \<Rightarrow>
          if s = [] then Inr ''unknown''
          else if strip s = [] then Inl IndexError
          else Inr (lower (takeWhile (\<lambda>c. \<not> is_space c) (strip s))))"

definition is_expected_project_model_duplicate :: "bool \<Rightarrow> string option \<Rightarrow> string \<Rightarrow> bool" where
  "is_expected_project_model_duplicate is_integrity_error statement message \<longleftrightarrow>
     is_integrity_error \<and> contains (opt_or statement []) ''project_models'' \<and>
     contains message ''uq_project_models_project_provider_requested_model''"

lemma operation_of_select: "extract_sql_operation (Some ('' SELECT 1'')) = Inr ''select''"
  by code_simp

end
