(* ===== verification/Db_Schema.thy ===== *)
theory Db_Schema
  imports Prelude
begin

text \<open>
  The database schema, twice: as the ORM declares it (\<open>app/infrastructure/db/models.py\<close>) and as the
  migration builds it (\<open>alembic/versions/20260317_01_initial_schema.py\<close>). A migration is a list of
  operations on a schema, each of which fails where PostgreSQL refuses it. The theorem compares the two
  and takes the migration back.
\<close>

section \<open>Schemas\<close>

text \<open>All timestamps carry a time zone. A default is a quoted literal or an SQL expression.\<close>

datatype sql_type = SqlString nat | SqlInteger | SqlBoolean | SqlJSON | SqlDateTime

datatype sql_default = Literal string | Expr string

text \<open>Name, type, whether it takes \<open>NULL\<close>, and the server's default.\<close>

type_synonym sql_column = "string \<times> sql_type \<times> bool \<times> sql_default option"

text \<open>A foreign key is a column, and the table and column it refers to; an index is its name, its columns
  and whether it is unique.\<close>

record sql_table =
  tb_columns :: "sql_column list"
  tb_primary :: "string list"
  tb_foreigns :: "(string \<times> string \<times> string) list"
  tb_uniques :: "(string \<times> string list) list"
  tb_indexes :: "(string \<times> string list \<times> bool) list"

type_synonym schema = "(string \<times> sql_table) list"

section \<open>Migrations\<close>

datatype schema_op =
    Create_table string "sql_column list" "string list" "(string \<times> string \<times> string) list" "(string \<times> string list) list"
  | Create_index string string "string list" bool
  | Drop_index string string
  | Drop_table string

definition column_names :: "sql_table \<Rightarrow> string list" where
  "column_names t = map fst (tb_columns t)"

definition has_table :: "string \<Rightarrow> schema \<Rightarrow> bool" where
  "has_table n s \<longleftrightarrow> map_of s n \<noteq> None"

definition refers_to :: "string \<Rightarrow> schema \<Rightarrow> bool" where
  "refers_to n s \<longleftrightarrow> list_ex (\<lambda>(m, t). m \<noteq> n \<and> list_ex (\<lambda>(c, target, _). target = n) (tb_foreigns t)) s"

text \<open>Names of indexes and unique constraints, which PostgreSQL keeps in one space.\<close>

definition index_names :: "schema \<Rightarrow> string list" where
  "index_names s = concat (map (\<lambda>(_, t). map fst (tb_uniques t) @ map fst (tb_indexes t)) s)"

definition all_in :: "'a list \<Rightarrow> 'a list \<Rightarrow> bool" where
  "all_in xs ys \<longleftrightarrow> list_all (\<lambda>x. x \<in> set ys) xs"

text \<open>A foreign key refers to the primary key of a table that is there.\<close>

definition foreign_ok :: "schema \<Rightarrow> string list \<Rightarrow> string \<times> string \<times> string \<Rightarrow> bool" where
  "foreign_ok s cols fk = (case fk of (c, target, tc) \<Rightarrow> c \<in> set cols \<and>
     (case map_of s target of None \<Rightarrow> False | Some t \<Rightarrow> tb_primary t = [tc]))"

definition update_table :: "string \<Rightarrow> (sql_table \<Rightarrow> sql_table) \<Rightarrow> schema \<Rightarrow> schema" where
  "update_table n f s = map (\<lambda>(m, t). (m, if m = n then f t else t)) s"

definition apply_op :: "schema_op \<Rightarrow> schema \<Rightarrow> exn + schema" where
  "apply_op op' s = (case op' of
       Create_table n cols primary foreigns uniques \<Rightarrow>
         let names = map fst cols in
         if has_table n s then Inl (BackendError ''table exists'')
         else if \<not> distinct names \<or> \<not> all_in primary names \<or> \<not> list_all (\<lambda>(_, cs). all_in cs names) uniques
           \<or> \<not> list_all (foreign_ok s names) foreigns \<or> list_ex (\<lambda>(u, _). u \<in> set (index_names s)) uniques
           then Inl (BackendError ''bad constraint'')
         else Inr (s @ [(n, \<lparr> tb_columns = cols, tb_primary = primary, tb_foreigns = foreigns,
                                tb_uniques = uniques, tb_indexes = [] \<rparr>)])
     | Create_index ix n cols uniq \<Rightarrow>
         (case map_of s n of
            None \<Rightarrow> Inl (BackendError ''no such table'')
          | Some t \<Rightarrow>
              if \<not> all_in cols (column_names t) then Inl (BackendError ''no such column'')
              else if ix \<in> set (index_names s) then Inl (BackendError ''index exists'')
              else Inr (update_table n (\<lambda>t. t\<lparr>tb_indexes := tb_indexes t @ [(ix, cols, uniq)]\<rparr>) s))
     | Drop_index ix n \<Rightarrow>
         (case map_of s n of
            None \<Rightarrow> Inl (BackendError ''no such table'')
          | Some t \<Rightarrow>
              if ix \<notin> set (map fst (tb_indexes t)) then Inl (BackendError ''no such index'')
              else Inr (update_table n (\<lambda>t. t\<lparr>tb_indexes := filter (\<lambda>(x, _). x \<noteq> ix) (tb_indexes t)\<rparr>) s))
     | Drop_table n \<Rightarrow>
         if \<not> has_table n s then Inl (BackendError ''no such table'')
         else if refers_to n s then Inl (BackendError ''table is referenced'')
         else Inr (filter (\<lambda>(m, _). m \<noteq> n) s))"

fun migrate :: "schema_op list \<Rightarrow> schema \<Rightarrow> exn + schema" where
  "migrate [] s = Inr s"
| "migrate (op' # ops) s = (case apply_op op' s of Inl e \<Rightarrow> Inl e | Inr s' \<Rightarrow> migrate ops s')"

definition schema_upgrade :: "schema_op list" where
  "schema_upgrade = [
      Create_table ''users''
        [(''id'', SqlString 64, False, None),
         (''email'', SqlString 320, False, None),
         (''password_hash'', SqlString 255, False, None),
         (''created_at'', SqlDateTime, False, Some (Expr ''now()''))]
        [''id''] [] [],
      Create_index ''ix_users_email'' ''users'' [''email''] True,
      Create_table ''refresh_sessions''
        [(''jti'', SqlString 64, False, None),
         (''user_id'', SqlString 64, False, None),
         (''created_at'', SqlDateTime, False, Some (Expr ''now()'')),
         (''expires_at'', SqlDateTime, False, None),
         (''revoked_at'', SqlDateTime, True, None),
         (''replaced_by_jti'', SqlString 64, True, None)]
        [''jti''] [(''user_id'', ''users'', ''id'')] [],
      Create_index ''ix_refresh_sessions_user_id'' ''refresh_sessions'' [''user_id''] False,
      Create_index ''ix_refresh_sessions_expires_at'' ''refresh_sessions'' [''expires_at''] False,
      Create_index ''ix_refresh_sessions_revoked_at'' ''refresh_sessions'' [''revoked_at''] False,
      Create_table ''projects''
        [(''id'', SqlString 64, False, None),
         (''name'', SqlString 255, False, None),
         (''user_id'', SqlString 64, True, None),
         (''protect_enabled'', SqlBoolean, False, Some (Expr ''false'')),
         (''protect_fail_mode'', SqlString 16, False, Some (Literal ''open'')),
         (''apply_clamp'', SqlBoolean, False, Some (Expr ''false'')),
         (''protect_max_req_per_min'', SqlInteger, True, None),
         (''protect_max_tok_per_min'', SqlInteger, True, None),
         (''webhook_enabled'', SqlBoolean, False, Some (Expr ''false'')),
         (''email_enabled'', SqlBoolean, False, Some (Expr ''false'')),
         (''webhook_url'', SqlString 2048, True, None),
         (''created_at'', SqlDateTime, False, Some (Expr ''now()''))]
        [''id''] [(''user_id'', ''users'', ''id'')] [(''uq_projects_user_id_name'', [''user_id'', ''name''])],
      Create_index ''ix_projects_user_id'' ''projects'' [''user_id''] False,
      Create_table ''events''
        [(''id'', SqlString 64, False, None),
         (''ts'', SqlDateTime, False, None),
         (''project_id'', SqlString 128, False, None),
         (''provider'', SqlString 32, False, None),
         (''requested_model'', SqlString 128, True, None),
         (''resolved_model'', SqlString 128, True, None),
         (''environment'', SqlString 32, True, None),
         (''input_tokens'', SqlInteger, False, None),
         (''output_tokens'', SqlInteger, False, None),
         (''total_tokens'', SqlInteger, False, None),
         (''token_explosion_tokens'', SqlInteger, True, None),
         (''latency_ms'', SqlInteger, True, None),
         (''status'', SqlString 32, True, None),
         (''error_type'', SqlString 64, True, None),
         (''error_message'', SqlString 512, True, None),
         (''http_status'', SqlInteger, True, None),
         (''request_endpoint'', SqlString 255, True, None),
         (''request_feature'', SqlString 255, True, None),
         (''request_fingerprint'', SqlString 255, True, None),
         (''created_at'', SqlDateTime, False, Some (Expr ''now()''))]
        [''id''] [] [],
      Create_index ''ix_events_project_id'' ''events'' [''project_id''] False,
      Create_index ''ix_events_project_id_ts'' ''events'' [''project_id'', ''ts''] False,
      Create_index ''ix_events_ts'' ''events'' [''ts''] False,
      Create_table ''incidents''
        [(''id'', SqlString 64, False, None),
         (''project_id'', SqlString 128, False, None),
         (''provider'', SqlString 64, False, Some (Literal ''unknown'')),
         (''type'', SqlString 32, False, None),
         (''status'', SqlString 16, False, None),
         (''fingerprint'', SqlString 255, True, None),
         (''evidence'', SqlJSON, False, None),
         (''created_at'', SqlDateTime, False, Some (Expr ''now()'')),
         (''resolved_at'', SqlDateTime, True, None),
         (''last_seen_at'', SqlDateTime, True, None)]
        [''id''] [] [],
      Create_index ''ix_incidents_project_id'' ''incidents'' [''project_id''] False,
      Create_index ''ix_incidents_status'' ''incidents'' [''status''] False,
      Create_index ''ix_incidents_fingerprint'' ''incidents'' [''fingerprint''] False,
      Create_index ''ix_incidents_project_status_fingerprint'' ''incidents'' [''project_id'', ''status'',
          ''fingerprint''] False,
      Create_index ''ix_incidents_project_provider_status_created_at'' ''incidents'' [''project_id'', ''provider'',
          ''status'', ''created_at''] False,
      Create_index ''ix_incidents_project_provider_last_seen_at'' ''incidents'' [''project_id'', ''provider'',
          ''last_seen_at''] False,
      Create_index ''ix_incidents_project_status_created_at'' ''incidents'' [''project_id'', ''status'',
          ''created_at''] False,
      Create_table ''project_models''
        [(''id'', SqlString 64, False, None),
         (''project_id'', SqlString 64, False, None),
         (''provider'', SqlString 64, False, None),
         (''requested_model'', SqlString 255, False, None),
         (''first_seen_at'', SqlDateTime, False, Some (Expr ''now()''))]
        [''id''] [(''project_id'', ''projects'', ''id'')] [(''uq_project_models_project_provider_requested_model'',
          [''project_id'', ''provider'', ''requested_model''])],
      Create_index ''ix_project_models_project_id'' ''project_models'' [''project_id''] False,
      Create_index ''ix_project_models_provider'' ''project_models'' [''provider''] False,
      Create_index ''ix_project_models_requested_model'' ''project_models'' [''requested_model''] False,
      Create_table ''ingest_keys''
        [(''id'', SqlString 64, False, None),
         (''project_id'', SqlString 64, False, None),
         (''name'', SqlString 128, False, None),
         (''key_hash'', SqlString 64, False, None),
         (''last4'', SqlString 4, True, None),
         (''status'', SqlString 16, False, None),
         (''created_at'', SqlDateTime, False, Some (Expr ''now()'')),
         (''revoked_at'', SqlDateTime, True, None)]
        [''id''] [(''project_id'', ''projects'', ''id'')] [(''uq_ingest_keys_key_hash'', [''key_hash''])],
      Create_index ''ix_ingest_keys_project_id'' ''ingest_keys'' [''project_id''] False,
      Create_index ''ix_ingest_keys_key_hash'' ''ingest_keys'' [''key_hash''] True,
      Create_index ''ix_ingest_keys_status'' ''ingest_keys'' [''status''] False,
      Create_index ''ix_ingest_keys_project_status'' ''ingest_keys'' [''project_id'', ''status''] False,
      Create_table ''transport_outbox''
        [(''id'', SqlString 64, False, None),
         (''project_id'', SqlString 64, False, None),
         (''kind'', SqlString 16, False, None),
         (''event_type'', SqlString 64, False, None),
         (''destination'', SqlString 2048, True, None),
         (''subject'', SqlString 255, True, None),
         (''template'', SqlString 128, True, None),
         (''payload'', SqlJSON, False, None),
         (''dedupe_key'', SqlString 255, False, None),
         (''status'', SqlString 16, False, Some (Literal ''pending'')),
         (''attempts'', SqlInteger, False, Some (Literal ''0'')),
         (''max_attempts'', SqlInteger, False, Some (Literal ''1'')),
         (''next_attempt_at'', SqlDateTime, False, Some (Expr ''now()'')),
         (''last_error_code'', SqlString 64, True, None),
         (''last_error_message'', SqlString 512, True, None),
         (''created_at'', SqlDateTime, False, Some (Expr ''now()'')),
         (''updated_at'', SqlDateTime, False, Some (Expr ''now()'')),
         (''sent_at'', SqlDateTime, True, None),
         (''delivered_at'', SqlDateTime, True, None)]
        [''id''] [] [(''uq_transport_outbox_project_kind_dedupe'', [''project_id'', ''kind'', ''dedupe_key''])],
      Create_index ''ix_transport_outbox_project_kind_status'' ''transport_outbox'' [''project_id'', ''kind'',
          ''status''] False,
      Create_index ''ix_transport_outbox_status_next_attempt_at'' ''transport_outbox'' [''status'',
          ''next_attempt_at''] False]"

definition schema_downgrade :: "schema_op list" where
  "schema_downgrade = [
      Drop_index ''ix_transport_outbox_status_next_attempt_at'' ''transport_outbox'',
      Drop_index ''ix_transport_outbox_project_kind_status'' ''transport_outbox'',
      Drop_table ''transport_outbox'',
      Drop_index ''ix_ingest_keys_project_status'' ''ingest_keys'',
      Drop_index ''ix_ingest_keys_status'' ''ingest_keys'',
      Drop_index ''ix_ingest_keys_key_hash'' ''ingest_keys'',
      Drop_index ''ix_ingest_keys_project_id'' ''ingest_keys'',
      Drop_table ''ingest_keys'',
      Drop_index ''ix_project_models_requested_model'' ''project_models'',
      Drop_index ''ix_project_models_provider'' ''project_models'',
      Drop_index ''ix_project_models_project_id'' ''project_models'',
      Drop_table ''project_models'',
      Drop_index ''ix_incidents_project_status_created_at'' ''incidents'',
      Drop_index ''ix_incidents_project_provider_last_seen_at'' ''incidents'',
      Drop_index ''ix_incidents_project_provider_status_created_at'' ''incidents'',
      Drop_index ''ix_incidents_project_status_fingerprint'' ''incidents'',
      Drop_index ''ix_incidents_fingerprint'' ''incidents'',
      Drop_index ''ix_incidents_status'' ''incidents'',
      Drop_index ''ix_incidents_project_id'' ''incidents'',
      Drop_table ''incidents'',
      Drop_index ''ix_events_ts'' ''events'',
      Drop_index ''ix_events_project_id_ts'' ''events'',
      Drop_index ''ix_events_project_id'' ''events'',
      Drop_table ''events'',
      Drop_index ''ix_projects_user_id'' ''projects'',
      Drop_table ''projects'',
      Drop_index ''ix_refresh_sessions_revoked_at'' ''refresh_sessions'',
      Drop_index ''ix_refresh_sessions_expires_at'' ''refresh_sessions'',
      Drop_index ''ix_refresh_sessions_user_id'' ''refresh_sessions'',
      Drop_table ''refresh_sessions'',
      Drop_index ''ix_users_email'' ''users'',
      Drop_table ''users'']"

section \<open>Models\<close>

text \<open>A \<open>mapped_column\<close>; defaults that Python fills in are no part of the schema.\<close>

record model_column =
  mc_name :: string
  mc_type :: sql_type
  mc_nullable :: bool
  mc_server_default :: "sql_default option"
  mc_foreign_key :: "(string \<times> string) option"
  mc_primary_key :: bool
  mc_index :: bool
  mc_unique :: bool

definition mapped :: "string \<Rightarrow> sql_type \<Rightarrow> bool \<Rightarrow> model_column" where
  "mapped name t nullable = \<lparr> mc_name = name, mc_type = t, mc_nullable = nullable, mc_server_default = None,
     mc_foreign_key = None, mc_primary_key = False, mc_index = False, mc_unique = False \<rparr>"

record model_table =
  mt_name :: string
  mt_columns :: "model_column list"
  mt_uniques :: "(string \<times> string list) list"
  mt_indexes :: "(string \<times> string list) list"

definition event_record :: model_table where
  "event_record = \<lparr>
     mt_name = ''events'',
     mt_columns = [
       (mapped ''id'' (SqlString 64) False)\<lparr>mc_primary_key := True\<rparr>,
       mapped ''ts'' SqlDateTime False,
       (mapped ''project_id'' (SqlString 128) False)\<lparr>mc_index := True\<rparr>,
       mapped ''provider'' (SqlString 32) False,
       mapped ''requested_model'' (SqlString 128) True,
       mapped ''resolved_model'' (SqlString 128) True,
       mapped ''environment'' (SqlString 32) True,
       mapped ''input_tokens'' SqlInteger False,
       mapped ''output_tokens'' SqlInteger False,
       mapped ''total_tokens'' SqlInteger False,
       mapped ''token_explosion_tokens'' SqlInteger True,
       mapped ''latency_ms'' SqlInteger True,
       mapped ''status'' (SqlString 32) True,
       mapped ''error_type'' (SqlString 64) True,
       mapped ''error_message'' (SqlString 512) True,
       mapped ''http_status'' SqlInteger True,
       mapped ''request_endpoint'' (SqlString 255) True,
       mapped ''request_feature'' (SqlString 255) True,
       mapped ''request_fingerprint'' (SqlString 255) True,
       (mapped ''created_at'' SqlDateTime False)\<lparr>mc_server_default := Some (Expr ''now()'')\<rparr>],
     mt_uniques = [],
     mt_indexes = [(''ix_events_project_id_ts'', [''project_id'', ''ts'']),
       (''ix_events_ts'', [''ts''])] \<rparr>"

definition incident_record :: model_table where
  "incident_record = \<lparr>
     mt_name = ''incidents'',
     mt_columns = [
       (mapped ''id'' (SqlString 64) False)\<lparr>mc_primary_key := True\<rparr>,
       (mapped ''project_id'' (SqlString 128) False)\<lparr>mc_index := True\<rparr>,
       (mapped ''provider'' (SqlString 64) False)\<lparr>mc_server_default := Some (Literal ''unknown'')\<rparr>,
       mapped ''type'' (SqlString 32) False,
       (mapped ''status'' (SqlString 16) False)\<lparr>mc_index := True\<rparr>,
       (mapped ''fingerprint'' (SqlString 255) True)\<lparr>mc_index := True\<rparr>,
       mapped ''evidence'' SqlJSON False,
       (mapped ''created_at'' SqlDateTime False)\<lparr>mc_server_default := Some (Expr ''now()'')\<rparr>,
       mapped ''resolved_at'' SqlDateTime True,
       mapped ''last_seen_at'' SqlDateTime True],
     mt_uniques = [],
     mt_indexes = [(''ix_incidents_project_status_fingerprint'', [''project_id'', ''status'', ''fingerprint'']),
       (''ix_incidents_project_provider_status_created_at'', [''project_id'', ''provider'', ''status'',
          ''created_at'']),
       (''ix_incidents_project_provider_last_seen_at'', [''project_id'', ''provider'', ''last_seen_at'']),
       (''ix_incidents_project_status_created_at'', [''project_id'', ''status'', ''created_at''])] \<rparr>"

definition project_record :: model_table where
  "project_record = \<lparr>
     mt_name = ''projects'',
     mt_columns = [
       (mapped ''id'' (SqlString 64) False)\<lparr>mc_primary_key := True\<rparr>,
       mapped ''name'' (SqlString 255) False,
       (mapped ''user_id'' (SqlString 64) True)\<lparr>mc_foreign_key := Some (''users'', ''id''),
          mc_index := True\<rparr>,
       (mapped ''protect_enabled'' SqlBoolean False)\<lparr>mc_server_default := Some (Literal ''false'')\<rparr>,
       (mapped ''protect_fail_mode'' (SqlString 16) False)\<lparr>mc_server_default := Some (Literal ''open'')\<rparr>,
       (mapped ''apply_clamp'' SqlBoolean False)\<lparr>mc_server_default := Some (Literal ''false'')\<rparr>,
       mapped ''protect_max_req_per_min'' SqlInteger True,
       mapped ''protect_max_tok_per_min'' SqlInteger True,
       (mapped ''webhook_enabled'' SqlBoolean False)\<lparr>mc_server_default := Some (Literal ''false'')\<rparr>,
       (mapped ''email_enabled'' SqlBoolean False)\<lparr>mc_server_default := Some (Literal ''false'')\<rparr>,
       mapped ''webhook_url'' (SqlString 2048) True,
       (mapped ''created_at'' SqlDateTime False)\<lparr>mc_server_default := Some (Expr ''now()'')\<rparr>],
     mt_uniques = [(''uq_projects_user_id_name'', [''user_id'', ''name''])],
     mt_indexes = [] \<rparr>"

definition project_model_record :: model_table where
  "project_model_record = \<lparr>
     mt_name = ''project_models'',
     mt_columns = [
       (mapped ''id'' (SqlString 64) False)\<lparr>mc_primary_key := True\<rparr>,
       (mapped ''project_id'' (SqlString 64) False)\<lparr>mc_foreign_key := Some (''projects'', ''id'')\<rparr>,
       mapped ''provider'' (SqlString 64) False,
       mapped ''requested_model'' (SqlString 255) False,
       (mapped ''first_seen_at'' SqlDateTime False)\<lparr>mc_server_default := Some (Expr ''now()'')\<rparr>],
     mt_uniques = [(''uq_project_models_project_provider_requested_model'', [''project_id'', ''provider'',
          ''requested_model''])],
     mt_indexes = [(''ix_project_models_project_id'', [''project_id'']),
       (''ix_project_models_provider'', [''provider'']),
       (''ix_project_models_requested_model'', [''requested_model''])] \<rparr>"

definition ingest_key_record :: model_table where
  "ingest_key_record = \<lparr>
     mt_name = ''ingest_keys'',
     mt_columns = [
       (mapped ''id'' (SqlString 64) False)\<lparr>mc_primary_key := True\<rparr>,
       (mapped ''project_id'' (SqlString 64) False)\<lparr>mc_foreign_key := Some (''projects'', ''id''),
          mc_index := True\<rparr>,
       mapped ''name'' (SqlString 128) False,
       (mapped ''key_hash'' (SqlString 64) False)\<lparr>mc_index := True, mc_unique := True\<rparr>,
       mapped ''last4'' (SqlString 4) True,
       (mapped ''status'' (SqlString 16) False)\<lparr>mc_index := True\<rparr>,
       (mapped ''created_at'' SqlDateTime False)\<lparr>mc_server_default := Some (Expr ''now()'')\<rparr>,
       mapped ''revoked_at'' SqlDateTime True],
     mt_uniques = [(''uq_ingest_keys_key_hash'', [''key_hash''])],
     mt_indexes = [(''ix_ingest_keys_project_status'', [''project_id'', ''status''])] \<rparr>"

definition transport_outbox_record :: model_table where
  "transport_outbox_record = \<lparr>
     mt_name = ''transport_outbox'',
     mt_columns = [
       (mapped ''id'' (SqlString 64) False)\<lparr>mc_primary_key := True\<rparr>,
       (mapped ''project_id'' (SqlString 64) False)\<lparr>mc_index := True\<rparr>,
       mapped ''kind'' (SqlString 16) False,
       mapped ''event_type'' (SqlString 64) False,
       mapped ''destination'' (SqlString 2048) True,
       mapped ''subject'' (SqlString 255) True,
       mapped ''template'' (SqlString 128) True,
       mapped ''payload'' SqlJSON False,
       mapped ''dedupe_key'' (SqlString 255) False,
       (mapped ''status'' (SqlString 16) False)\<lparr>mc_server_default := Some (Literal ''pending'')\<rparr>,
       (mapped ''attempts'' SqlInteger False)\<lparr>mc_server_default := Some (Literal ''0'')\<rparr>,
       (mapped ''max_attempts'' SqlInteger False)\<lparr>mc_server_default := Some (Literal ''1'')\<rparr>,
       (mapped ''next_attempt_at'' SqlDateTime False)\<lparr>mc_server_default := Some (Expr ''now()'')\<rparr>,
       mapped ''last_error_code'' (SqlString 64) True,
       mapped ''last_error_message'' (SqlString 512) True,
       (mapped ''created_at'' SqlDateTime False)\<lparr>mc_server_default := Some (Expr ''now()'')\<rparr>,
       (mapped ''updated_at'' SqlDateTime False)\<lparr>mc_server_default := Some (Expr ''now()'')\<rparr>,
       mapped ''sent_at'' SqlDateTime True,
       mapped ''delivered_at'' SqlDateTime True],
     mt_uniques = [(''uq_transport_outbox_project_kind_dedupe'', [''project_id'', ''kind'', ''dedupe_key''])],
     mt_indexes = [(''ix_transport_outbox_project_kind_status'', [''project_id'', ''kind'', ''status'']),
       (''ix_transport_outbox_status_next_attempt_at'', [''status'', ''next_attempt_at''])] \<rparr>"

definition user_record :: model_table where
  "user_record = \<lparr>
     mt_name = ''users'',
     mt_columns = [
       (mapped ''id'' (SqlString 64) False)\<lparr>mc_primary_key := True\<rparr>,
       (mapped ''email'' (SqlString 320) False)\<lparr>mc_index := True, mc_unique := True\<rparr>,
       mapped ''password_hash'' (SqlString 255) False,
       (mapped ''created_at'' SqlDateTime False)\<lparr>mc_server_default := Some (Expr ''now()'')\<rparr>],
     mt_uniques = [],
     mt_indexes = [] \<rparr>"

definition refresh_session_record :: model_table where
  "refresh_session_record = \<lparr>
     mt_name = ''refresh_sessions'',
     mt_columns = [
       (mapped ''jti'' (SqlString 64) False)\<lparr>mc_primary_key := True\<rparr>,
       (mapped ''user_id'' (SqlString 64) False)\<lparr>mc_foreign_key := Some (''users'', ''id'')\<rparr>,
       (mapped ''created_at'' SqlDateTime False)\<lparr>mc_server_default := Some (Expr ''now()'')\<rparr>,
       mapped ''expires_at'' SqlDateTime False,
       mapped ''revoked_at'' SqlDateTime True,
       mapped ''replaced_by_jti'' (SqlString 64) True],
     mt_uniques = [],
     mt_indexes = [(''ix_refresh_sessions_user_id'', [''user_id'']),
       (''ix_refresh_sessions_expires_at'', [''expires_at'']),
       (''ix_refresh_sessions_revoked_at'', [''revoked_at''])] \<rparr>"

definition base_metadata :: "model_table list" where
  "base_metadata = [event_record, incident_record, project_record, project_model_record, ingest_key_record,
          transport_outbox_record, user_record, refresh_session_record]"

text \<open>
  What SQLAlchemy makes of a model: \<open>index=True\<close> is an index \<open>ix_<table>_<column>\<close>, unique where the column
  is; a unique column without an index is a constraint that the database names.
\<close>

definition table_of_model :: "model_table \<Rightarrow> string \<times> sql_table" where
  "table_of_model m = (mt_name m, \<lparr>
     tb_columns = map (\<lambda>c. (mc_name c, mc_type c, mc_nullable c, mc_server_default c)) (mt_columns m),
     tb_primary = map mc_name (filter mc_primary_key (mt_columns m)),
     tb_foreigns = concat (map (\<lambda>c. case mc_foreign_key c of None \<Rightarrow> []
        | Some (t, tc) \<Rightarrow> [(mc_name c, t, tc)]) (mt_columns m)),
     tb_uniques = mt_uniques m @ map (\<lambda>c. (mt_name m @ ''_'' @ mc_name c @ ''_key'', [mc_name c]))
        (filter (\<lambda>c. mc_unique c \<and> \<not> mc_index c) (mt_columns m)),
     tb_indexes = map (\<lambda>(n, cs). (n, cs, False)) (mt_indexes m) @
        map (\<lambda>c. (''ix_'' @ mt_name m @ ''_'' @ mc_name c, [mc_name c], mc_unique c)) (filter mc_index (mt_columns m)) \<rparr>)"

definition schema_of_models :: "model_table list \<Rightarrow> schema" where
  "schema_of_models ms = map table_of_model ms"

section \<open>Comparison\<close>

text \<open>PostgreSQL reads a quoted default of a boolean column as the boolean it names.\<close>

definition normal_column :: "sql_column \<Rightarrow> sql_column" where
  "normal_column c = (case c of (n, t, nullable, d) \<Rightarrow> (n, t, nullable,
     (case d of Some (Literal s) \<Rightarrow> if t = SqlBoolean then Some (Expr s) else d | _ \<Rightarrow> d)))"

definition same_items :: "'a list \<Rightarrow> 'a list \<Rightarrow> bool" where
  "same_items xs ys \<longleftrightarrow> all_in xs ys \<and> all_in ys xs"

definition same_table :: "sql_table \<Rightarrow> sql_table \<Rightarrow> bool" where
  "same_table t u \<longleftrightarrow> same_items (map normal_column (tb_columns t)) (map normal_column (tb_columns u)) \<and>
     tb_primary t = tb_primary u \<and> same_items (tb_foreigns t) (tb_foreigns u) \<and>
     same_items (tb_uniques t) (tb_uniques u) \<and> same_items (tb_indexes t) (tb_indexes u)"

definition same_schema :: "schema \<Rightarrow> schema \<Rightarrow> bool" where
  "same_schema a b \<longleftrightarrow> same_items (map fst a) (map fst b) \<and>
     list_all (\<lambda>(n, t). case map_of b n of None \<Rightarrow> False | Some u \<Rightarrow> same_table t u) a"

text \<open>The rows of a table cannot agree on these columns: a primary key, a constraint or a unique index.\<close>

definition unique_on :: "schema \<Rightarrow> string \<Rightarrow> string list \<Rightarrow> bool" where
  "unique_on s n cols = (case map_of s n of
       None \<Rightarrow> False
     | Some t \<Rightarrow> tb_primary t = cols \<or> cols \<in> snd ` set (tb_uniques t) \<or>
         list_ex (\<lambda>(_, cs, uniq). uniq \<and> cs = cols) (tb_indexes t))"

section \<open>The migration against the models\<close>

text \<open>The uniqueness the repositories rely on when they insert rows.\<close>

definition relied_on :: "(string \<times> string list) list" where
  "relied_on = [(''users'', [''email'']), (''projects'', [''user_id'', ''name'']),
     (''ingest_keys'', [''key_hash'']), (''project_models'', [''project_id'', ''provider'', ''requested_model'']),
     (''transport_outbox'', [''project_id'', ''kind'', ''dedupe_key'']), (''refresh_sessions'', [''jti''])]"

definition missing_index :: schema_op where
  "missing_index = Create_index ''ix_transport_outbox_project_id'' ''transport_outbox'' [''project_id''] False"

definition upgraded :: schema where
  "upgraded = (case migrate schema_upgrade [] of Inl _ \<Rightarrow> [] | Inr s \<Rightarrow> s)"

definition completed :: schema where
  "completed = (case apply_op missing_index upgraded of Inl _ \<Rightarrow> [] | Inr s \<Rightarrow> s)"

lemma upgrade_succeeds: "case migrate schema_upgrade [] of Inl _ \<Rightarrow> False | Inr _ \<Rightarrow> True"
  by code_simp

lemma upgrade_keys: "list_all (\<lambda>(n, cols). unique_on upgraded n cols) relied_on"
  by code_simp

lemma upgrade_short: "\<not> same_schema upgraded (schema_of_models base_metadata)"
  by code_simp

lemma completion_succeeds: "case apply_op missing_index upgraded of Inl _ \<Rightarrow> False | Inr _ \<Rightarrow> True"
  by code_simp

lemma completed_same: "same_schema completed (schema_of_models base_metadata)"
  by code_simp

lemma downgrade_empties: "case migrate schema_downgrade upgraded of Inl _ \<Rightarrow> False | Inr s \<Rightarrow> s = []"
  by code_simp


end
