(* ===== verification/Sdk_World.thy ===== *)
theory Sdk_World
  imports Py_Value
begin

text \<open>
  The Python SDK's surroundings (\<open>sdk-python/src/rheonic/config.py\<close>, \<open>logger.py\<close>): its constants,
  the services it calls, the state of one client with its protect engine, and the trace context.
  \<^item> \<open>services\<close> are the parameters of the model: clocks, \<open>uuid4\<close>, the random sleep, the tokenizer
    and the HTTP client, each a function of an outside world \<open>'x\<close>. Clocks and \<open>uuid4\<close> do not
    raise; the HTTP client may raise anything.
  \<^item> \<open>'x sdk\<close> is the state: the fields of \<open>ProtectEngine\<close> and \<open>Client\<close> that their methods read or
    write, the context variables of the logger, the cache of encoders, and the outside world.
  \<^item> Log output and the latencies it shows are not modelled.
\<close>

named_theorems sdk_run \<open>evaluation rules of the SDK's primitive steps\<close>

section \<open>Constants\<close>

record SDKConfig =
  sc_default_base_url :: string
  sc_default_environment :: string
  sc_default_flush_timeout_s :: rat
  sc_default_protect_fail_mode :: string
  sc_internal_protect_decision_timeout_ms :: int
  sc_default_protect_report_timeout_min_s :: rat
  sc_retry_delay_min_s :: rat
  sc_retry_delay_max_s :: rat
  sc_default_tokenizer_encoding :: string
  sc_max_input_token_estimate :: int
  sc_token_estimate_chars_per_token :: int
  sc_supported_providers :: "string list"

definition sdk_config :: SDKConfig where
  "sdk_config = \<lparr>
     sc_default_base_url = ''http://localhost:8000'',
     sc_default_environment = ''unknown'',
     sc_default_flush_timeout_s = fl (1 / 2),
     sc_default_protect_fail_mode = ''open'',
     sc_internal_protect_decision_timeout_ms = 300,
     sc_default_protect_report_timeout_min_s = fl (1 / 10),
     sc_retry_delay_min_s = fl (2 / 10),
     sc_retry_delay_max_s = fl (4 / 10),
     sc_default_tokenizer_encoding = ''cl100k_base'',
     sc_max_input_token_estimate = 50000,
     sc_token_estimate_chars_per_token = 4,
     sc_supported_providers = [''openai'', ''anthropic'', ''google''] \<rparr>"

lemma sdk_config_simps [simp]:
  "sc_default_base_url sdk_config = ''http://localhost:8000''"
  "sc_default_environment sdk_config = ''unknown''"
  "sc_default_protect_fail_mode sdk_config = ''open''"
  "sc_internal_protect_decision_timeout_ms sdk_config = 300"
  "sc_default_tokenizer_encoding sdk_config = ''cl100k_base''"
  "sc_max_input_token_estimate sdk_config = 50000"
  "sc_token_estimate_chars_per_token sdk_config = 4"
  "sc_supported_providers sdk_config = [''openai'', ''anthropic'', ''google'']"
  by (simp_all add: sdk_config_def)

section \<open>Services\<close>

text \<open>The keyword under which a timeout is passed to the HTTP client, if at all.\<close>

datatype timeout_kw = Timeout rat | Timeout_s rat | No_timeout

text \<open>
  A response object: its \<open>status_code\<close> attribute, and its \<open>json\<close> method (\<open>None\<close>: there is none),
  which returns a value or raises.
\<close>

record response =
  rs_status_code :: "pyval option"
  rs_json :: "(exn + pyval) option"

type_synonym headers = "(string \<times> string) list"

record 'x http_client =
  hc_post :: "string \<Rightarrow> pydict \<Rightarrow> headers \<Rightarrow> timeout_kw \<Rightarrow> ('x, response) py"
  hc_get :: "string \<Rightarrow> headers \<Rightarrow> timeout_kw \<Rightarrow> ('x, response) py"
  hc_close :: "('x, unit) py"

text \<open>
  \<open>tiktoken\<close>: an encoder gives the number of tokens of a text, or raises; so do the two ways to get
  one, by model name and by encoding name.
\<close>

type_synonym encoder = "string \<Rightarrow> exn + nat"

record tiktoken =
  tk_encoding_for_model :: "string \<Rightarrow> exn + encoder"
  tk_get_encoding :: "string \<Rightarrow> exn + encoder"

text \<open>
  \<open>sv_tiktoken\<close> is \<open>None\<close> where \<open>tiktoken\<close> is not installed; \<open>sv_float_repr\<close> is \<open>float.__repr__\<close>;
  \<open>sv_exc_class\<close>, \<open>sv_exc_str\<close> and \<open>sv_exc_attr\<close> are \<open>exc.__class__.__name__\<close>, \<open>str(exc)\<close> and
  \<open>getattr(exc, name, None)\<close> of an exception of a provider's client; \<open>sv_environ\<close> is \<open>os.getenv\<close>;
  \<open>sv_setattr\<close> sets an attribute of a copy of an object, which its class may refuse.
\<close>

record 'x services =
  sv_time :: "'x \<Rightarrow> rat \<times> 'x"
  sv_monotonic :: "'x \<Rightarrow> rat \<times> 'x"
  sv_perf_counter :: "'x \<Rightarrow> rat \<times> 'x"
  sv_now :: "'x \<Rightarrow> datetime \<times> 'x"
  sv_uuid4_hex :: "'x \<Rightarrow> string \<times> 'x"
  sv_uniform :: "rat \<Rightarrow> rat \<Rightarrow> 'x \<Rightarrow> rat \<times> 'x"
  sv_sleep :: "rat \<Rightarrow> 'x \<Rightarrow> unit \<times> 'x"
  sv_http :: "'x http_client option"
  sv_tiktoken :: "tiktoken option"
  sv_float_repr :: "rat \<Rightarrow> string"
  sv_exc_class :: "exn \<Rightarrow> string"
  sv_exc_str :: "exn \<Rightarrow> string"
  sv_exc_attr :: "exn \<Rightarrow> string \<Rightarrow> pyval"
  sv_environ :: "string \<Rightarrow> string option"
  sv_setattr :: "pyval \<Rightarrow> string \<Rightarrow> pyval \<Rightarrow> exn + pyval"

section \<open>State\<close>

record ProtectEngine =
  pe_base_url :: string
  pe_ingest_key :: string
  pe_environment :: string
  pe_request_timeout_s :: rat
  pe_fail_mode :: string
  pe_decision_timeout_ms :: int
  pe_cooldown_until_ms :: "int option"
  pe_cooldown_reason :: "string option"

record Client =
  cn_ingest_key :: string
  cn_base_url :: string
  cn_environment :: string
  cn_max_queue_size :: int
  cn_overflow_policy :: string
  cn_request_timeout_s :: rat
  cn_protect_fail_mode :: string
  cn_queue :: "pydict list"
  cn_dropped :: int
  cn_sent :: int
  cn_failed :: int
  cn_stopped :: bool
  cn_is_closed :: bool

record 'x sdk =
  sdk_trace_id :: string
  sdk_span_id :: string
  sdk_engine :: ProtectEngine
  sdk_client :: Client
  sdk_encoder_cache :: "(string \<times> encoder) list"
  sdk_x :: 'x

text \<open>A service that does not raise, one that may, and reading or changing the state.\<close>

definition ext :: "('x \<Rightarrow> 'a \<times> 'x) \<Rightarrow> ('x sdk, 'a) py" where
  "ext f = (\<lambda>w. case f (sdk_x w) of (a, x) \<Rightarrow> (Inr a, w\<lparr>sdk_x := x\<rparr>))"

definition call :: "('x, 'a) py \<Rightarrow> ('x sdk, 'a) py" where
  "call m = (\<lambda>w. case m (sdk_x w) of (r, x) \<Rightarrow> (r, w\<lparr>sdk_x := x\<rparr>))"

definition gets :: "('w \<Rightarrow> 'a) \<Rightarrow> ('w, 'a) py" where
  "gets f = (\<lambda>w. (Inr (f w), w))"

definition modify :: "('w \<Rightarrow> 'w) \<Rightarrow> ('w, unit) py" where
  "modify f = (\<lambda>w. (Inr (), f w))"

lemma ext_run: "ext f w = (Inr (fst (f (sdk_x w))), w\<lparr>sdk_x := snd (f (sdk_x w))\<rparr>)"
  by (simp add: ext_def split: prod.split)

lemma call_run: "call m w = (fst (m (sdk_x w)), w\<lparr>sdk_x := snd (m (sdk_x w))\<rparr>)"
  by (simp add: call_def split: prod.split)

lemma gets_run [simp, sdk_run]: "gets f w = (Inr (f w), w)"
  by (simp add: gets_def)

lemma modify_run [simp, sdk_run]: "modify f w = (Inr (), f w)"
  by (simp add: modify_def)

lemma gets_bnd [simp, sdk_run]: "bnd (gets f) g w = g (f w) w"
  by simp

lemma modify_bnd [simp, sdk_run]: "bnd (modify f) g w = g () (f w)"
  by simp

lemma never_raises_ext [intro, simp]: "never_raises (ext f)"
  by (simp add: never_raises_def ext_run)

lemma never_raises_gets [intro, simp]: "never_raises (gets f)"
  by (simp add: never_raises_def)

lemma never_raises_modify [intro, simp]: "never_raises (modify f)"
  by (simp add: never_raises_def)

text \<open>A computation that leaves a part of the state outside \<open>sdk_x\<close> alone.\<close>

lemma frame_ext: "(\<And>w x. v (w\<lparr>sdk_x := x\<rparr>) = v w) \<Longrightarrow> frame v (ext f)"
  by (simp add: frame_def ext_run)

lemma frame_call: "(\<And>w x. v (w\<lparr>sdk_x := x\<rparr>) = v w) \<Longrightarrow> frame v (call m)"
  by (simp add: frame_def call_run)

lemma frame_gets [simp]: "frame v (gets f)"
  by (simp add: frame_def)

lemma frame_modify: "(\<And>w. v (f w) = v w) \<Longrightarrow> frame v (modify f)"
  by (simp add: frame_def)

section \<open>Trace context\<close>

text \<open>\<open>str(uuid)\<close> writes the 32 hexadecimal digits in groups of 8, 4, 4, 4 and 12.\<close>

definition uuid_str :: "string \<Rightarrow> string" where
  "uuid_str h = take 8 h @ ''-'' @ take 4 (drop 8 h) @ ''-'' @ take 4 (drop 12 h) @ ''-''
     @ take 4 (drop 16 h) @ ''-'' @ drop 20 h"

definition uuid4_hex :: "'x services \<Rightarrow> ('x sdk, string) py" where
  "uuid4_hex S = ext (sv_uuid4_hex S)"

definition generate_trace_id :: "'x services \<Rightarrow> ('x sdk, string) py" where
  "generate_trace_id S = bnd (uuid4_hex S) (\<lambda>h. ret (uuid_str h))"

definition generate_span_id :: "'x services \<Rightarrow> ('x sdk, string) py" where
  "generate_span_id S = bnd (uuid4_hex S) (\<lambda>h. ret (take 16 h))"

definition get_trace_id :: "('x sdk, string) py" where
  "get_trace_id = gets (\<lambda>w. strip (sdk_trace_id w))"

definition get_span_id :: "('x sdk, string) py" where
  "get_span_id = gets (\<lambda>w. strip (sdk_span_id w))"

text \<open>\<open>a or b()\<close> on strings.\<close>

definition or_gen :: "string \<Rightarrow> ('w, string) py \<Rightarrow> ('w, string) py" where
  "or_gen s m = (if s = [] then m else ret s)"

text \<open>The tokens that \<open>ContextVar.set\<close> returns are the values to restore.\<close>

definition bind_trace_context :: "'x services \<Rightarrow> string \<Rightarrow> string \<Rightarrow> ('x sdk, string \<times> string) py" where
  "bind_trace_context S trace_id span_id =
     bnd (or_gen (strip trace_id) (generate_trace_id S)) (\<lambda>resolved_trace_id.
     bnd (or_gen (strip span_id) (generate_span_id S)) (\<lambda>resolved_span_id.
     bnd (gets (\<lambda>w. (sdk_trace_id w, sdk_span_id w))) (\<lambda>tokens.
     bnd (modify (\<lambda>w. w\<lparr>sdk_trace_id := resolved_trace_id, sdk_span_id := resolved_span_id\<rparr>)) (\<lambda>_.
     ret tokens))))"

definition reset_trace_context :: "string \<times> string \<Rightarrow> ('x sdk, unit) py" where
  "reset_trace_context tokens =
     modify (\<lambda>w. w\<lparr>sdk_trace_id := fst tokens, sdk_span_id := snd tokens\<rparr>)"

text \<open>The wrappers' \<open>bind_trace_context(get_trace_id() or generate_trace_id(), ...)\<close>.\<close>

definition bind_current_context :: "'x services \<Rightarrow> ('x sdk, string \<times> string) py" where
  "bind_current_context S =
     bnd get_trace_id (\<lambda>t0. bnd (or_gen t0 (generate_trace_id S)) (\<lambda>t.
     bnd get_span_id (\<lambda>s0. bnd (or_gen s0 (generate_span_id S)) (\<lambda>s.
     bind_trace_context S t s))))"

lemma never_raises_or_gen [intro]: "never_raises m \<Longrightarrow> never_raises (or_gen s m)"
  by (simp add: or_gen_def)

lemma never_raises_ids [intro, simp]:
  "never_raises (uuid4_hex S)" "never_raises (generate_trace_id S)" "never_raises (generate_span_id S)"
  "never_raises get_trace_id" "never_raises get_span_id"
  by (auto simp: uuid4_hex_def generate_trace_id_def generate_span_id_def get_trace_id_def
      get_span_id_def intro!: never_raises_bnd)

lemma never_raises_context [intro, simp]:
  "never_raises (bind_trace_context S t s)" "never_raises (bind_current_context S)"
  "never_raises (reset_trace_context c)"
  by (auto simp: bind_trace_context_def bind_current_context_def reset_trace_context_def
      intro!: never_raises_bnd never_raises_or_gen)

lemma frame_ids:
  assumes "\<And>w x. v (w\<lparr>sdk_x := x\<rparr>) = v w"
  shows "frame v (uuid4_hex S)" "frame v (generate_trace_id S)" "frame v (generate_span_id S)"
    "frame v get_trace_id" "frame v get_span_id"
  by (auto simp: uuid4_hex_def generate_trace_id_def generate_span_id_def get_trace_id_def
      get_span_id_def intro!: frame_bnd frame_ext assms)

lemma frame_or_gen: "frame v m \<Longrightarrow> frame v (or_gen s m)"
  by (simp add: or_gen_def)

lemma frame_bind_trace_context:
  assumes "\<And>w x. v (w\<lparr>sdk_x := x\<rparr>) = v w" "\<And>w t s. v (w\<lparr>sdk_trace_id := t, sdk_span_id := s\<rparr>) = v w"
  shows "frame v (bind_trace_context S t s)" "frame v (bind_current_context S)"
    "frame v (reset_trace_context c)"
  unfolding bind_current_context_def bind_trace_context_def reset_trace_context_def
  by (intro frame_bnd frame_or_gen frame_ids frame_gets frame_modify frame_ret assms)+

text \<open>Binding returns the old values, so a reset restores them.\<close>

lemma bind_tokens:
  assumes "bind_trace_context S t s w = (Inr c, w')"
  shows "c = (sdk_trace_id w, sdk_span_id w)"
proof -
  have fr: "frame (\<lambda>w. (sdk_trace_id w, sdk_span_id w)) (or_gen x (generate_trace_id S))"
    "frame (\<lambda>w. (sdk_trace_id w, sdk_span_id w)) (or_gen x (generate_span_id S))" for x
    by (intro frame_or_gen frame_ids, simp)+
  show ?thesis
    using assms unfolding bind_trace_context_def
    by (elim bnd_InrE) (use frameD [OF fr(1)] frameD [OF fr(2)] in \<open>fastforce\<close>)
qed

end
