(* ===== verification/Sdk_Engine.thy ===== *)
theory Sdk_Engine
  imports Sdk_World
begin

text \<open>
  The SDK's preflight engine (\<open>sdk-python/src/rheonic/protect_engine.py\<close>,
  \<open>provider_model_validation.py\<close>): one definition per method and module function. \<open>evaluate\<close> asks
  the backend for a decision, caches the cooldown it announces, and falls back on the fail mode
  when the call fails.
\<close>

section \<open>Timestamps and the request body\<close>

definition parse_blocked_until_ms :: "pyval \<Rightarrow> int option" where
  "parse_blocked_until_ms value =
     (case as_str value of
        None \<Rightarrow> None
      | Some s \<Rightarrow>
          if s = [] then None
          else map_option epoch_ms
            (fromisoformat (concat (map (\<lambda>c. if c = CHR ''Z'' then ''+00:00'' else [c]) s))))"

definition format_blocked_until_ms :: "int option \<Rightarrow> string option" where
  "format_blocked_until_ms value =
     (case value of
        None \<Rightarrow> None
      | Some v \<Rightarrow> if v \<le> 0 then None else Some (isoformat (fromtimestamp (py_div (of_int v) 1000))))"

definition to_retry_after_seconds :: "int option \<Rightarrow> int \<Rightarrow> int option" where
  "to_retry_after_seconds blocked_until_ms now_ms =
     (case blocked_until_ms of
        None \<Rightarrow> None
      | Some b \<Rightarrow> if b \<le> now_ms then None
                  else Some (max 0 (py_trunc (py_div (of_int (b - now_ms + 999)) 1000))))"

definition context_keys :: "string list" where
  "context_keys = [''requested_model'', ''environment'', ''feature'', ''max_output_tokens'',
     ''input_tokens_estimate'']"

definition sanitize_protect_context :: "pydict \<Rightarrow> pydict" where
  "sanitize_protect_context context =
     foldl (\<lambda>payload key. if dget context key \<noteq> PNone then dset key (dget context key) payload else payload)
       [(''provider'', dget context ''provider'')] context_keys"

section \<open>Construction\<close>

definition protect_engine_init ::
  "string \<Rightarrow> string \<Rightarrow> string \<Rightarrow> rat \<Rightarrow> string \<Rightarrow> int \<Rightarrow> ProtectEngine" where
  "protect_engine_init base_url ingest_key environment request_timeout_s fail_mode decision_timeout_ms = \<lparr>
     pe_base_url = rstrip_char (CHR ''/'') base_url,
     pe_ingest_key = ingest_key,
     pe_environment = environment,
     pe_request_timeout_s = request_timeout_s,
     pe_fail_mode = (if fail_mode \<in> {''open'', ''closed''} then fail_mode else ''open''),
     pe_decision_timeout_ms =
       (if decision_timeout_ms > 0 then decision_timeout_ms
        else sc_internal_protect_decision_timeout_ms sdk_config),
     pe_cooldown_until_ms = None,
     pe_cooldown_reason = None \<rparr>"

text \<open>\<open>self.<field>\<close> and \<open>self.<field> = ...\<close>.\<close>

definition engine :: "(ProtectEngine \<Rightarrow> 'a) \<Rightarrow> ('x sdk, 'a) py" where
  "engine f = gets (\<lambda>w. f (sdk_engine w))"

definition set_engine :: "(ProtectEngine \<Rightarrow> ProtectEngine) \<Rightarrow> ('x sdk, unit) py" where
  "set_engine f = modify (\<lambda>w. w\<lparr>sdk_engine := f (sdk_engine w)\<rparr>)"

section \<open>Transport\<close>

definition except_type_error :: "('w, 'a) py \<Rightarrow> ('w, 'a) py \<Rightarrow> ('w, 'a) py" where
  "except_type_error m k = try_except m (\<lambda>e. if e = TypeError then k else raise e)"

definition post_with_timeout ::
  "'x services \<Rightarrow> string \<Rightarrow> pydict \<Rightarrow> headers \<Rightarrow> rat \<Rightarrow> ('x sdk, response) py" where
  "post_with_timeout S url json headers timeout_s =
     (case sv_http S of
        None \<Rightarrow> raise (RuntimeError ''protect engine missing HTTP client'')
      | Some h \<Rightarrow>
          except_type_error (call (hc_post h url json headers (Timeout timeout_s)))
            (except_type_error (call (hc_post h url json headers (Timeout_s timeout_s)))
              (call (hc_post h url json headers No_timeout))))"

definition get_with_timeout ::
  "'x services \<Rightarrow> string \<Rightarrow> headers \<Rightarrow> rat \<Rightarrow> ('x sdk, response) py" where
  "get_with_timeout S url headers timeout_s =
     (case sv_http S of
        None \<Rightarrow> raise (RuntimeError ''protect engine missing HTTP client'')
      | Some h \<Rightarrow>
          except_type_error (call (hc_get h url headers (Timeout timeout_s)))
            (except_type_error (call (hc_get h url headers (Timeout_s timeout_s)))
              (call (hc_get h url headers No_timeout))))"

text \<open>\<open>int(getattr(response, "status_code", 0))\<close>.\<close>

definition status_code_of :: "response \<Rightarrow> ('w, int) py" where
  "status_code_of r =
     (case rs_status_code r of
        None \<Rightarrow> ret 0
      | Some v \<Rightarrow> (case py_int v of Some i \<Rightarrow> ret i | None \<Rightarrow> raise TypeError))"

definition parse_json_payload :: "response \<Rightarrow> ('w, pydict) py" where
  "parse_json_payload r =
     (case rs_json r of
        None \<Rightarrow> ret []
      | Some (Inl e) \<Rightarrow> raise e
      | Some (Inr v) \<Rightarrow> ret (case as_dict v of Some d \<Rightarrow> d | None \<Rightarrow> []))"

definition fallback_decision :: "string \<Rightarrow> string \<Rightarrow> ('x sdk, pydict) py" where
  "fallback_decision trace_id request_id =
     bnd (engine pe_fail_mode) (\<lambda>fail_mode.
     ret (if fail_mode = ''closed''
          then [(''decision'', PStr ''block''), (''reason'', PStr ''fail_closed''),
                (''trace_id'', PStr trace_id), (''request_id'', PStr request_id)]
          else [(''decision'', PStr ''allow''), (''reason'', PStr ''decision_unavailable''),
                (''trace_id'', PStr trace_id), (''request_id'', PStr request_id)]))"

definition is_timeout_error :: "exn \<Rightarrow> bool" where
  "is_timeout_error e = (case e of TimeoutError \<Rightarrow> True | HttpxTimeout _ \<Rightarrow> True | _ \<Rightarrow> False)"

text \<open>The two reports post the same body to different endpoints and swallow every exception.\<close>

definition report_decision ::
  "string \<Rightarrow> 'x services \<Rightarrow> string option \<Rightarrow> string option \<Rightarrow> string \<Rightarrow> string \<Rightarrow> ('x sdk, unit) py" where
  "report_decision path S provider requested_model request_id trace_id =
     try_except
       (bnd (engine id) (\<lambda>self.
        bnd (or_gen trace_id (generate_trace_id S)) (\<lambda>tid.
        bnd get_span_id (\<lambda>s0. bnd (or_gen s0 (generate_span_id S)) (\<lambda>sid.
        bnd (post_with_timeout S (pe_base_url self @ path)
               [(''environment'', PStr (pe_environment self)), (''provider'', opt_str provider),
                (''requested_model'', opt_str requested_model), (''request_id'', PStr request_id)]
               [(''Content-Type'', ''application/json''), (''X-Project-Ingest-Key'', pe_ingest_key self),
                (''X-Trace-ID'', tid), (''X-Span-ID'', sid),
                (''X-Rheonic-Protect-Request-Id'', request_id)]
               (max (pe_request_timeout_s self) (sc_default_protect_report_timeout_min_s sdk_config)))
          (\<lambda>_. ret ()))))))
       (\<lambda>_. ret ())"

definition report_decision_timeout_fire_and_forget ::
  "'x services \<Rightarrow> string option \<Rightarrow> string option \<Rightarrow> string \<Rightarrow> string \<Rightarrow> ('x sdk, unit) py" where
  "report_decision_timeout_fire_and_forget = report_decision ''/api/v1/protect/decision-timeout''"

definition report_decision_unavailable_fire_and_forget ::
  "'x services \<Rightarrow> string option \<Rightarrow> string option \<Rightarrow> string \<Rightarrow> string \<Rightarrow> ('x sdk, unit) py" where
  "report_decision_unavailable_fire_and_forget = report_decision ''/api/v1/protect/decision-unavailable''"

section \<open>Decisions\<close>

text \<open>\<open>int(time.time() * 1000)\<close>.\<close>

definition now_ms :: "'x services \<Rightarrow> ('x sdk, int) py" where
  "now_ms S = bnd (ext (sv_time S)) (\<lambda>t. ret (py_trunc (py_mul t 1000)))"

text \<open>\<open>str(v or d)\<close>.\<close>

definition str_or :: "pyval \<Rightarrow> string \<Rightarrow> string" where
  "str_or v d = (if truth v then py_str v else d)"

text \<open>\<open>if fail_mode in {...}: ...\<close> and \<open>if isinstance(decision_timeout, int) and ...\<close>, as \<open>evaluate\<close> and
  \<open>bootstrap\<close> do with an answer's configuration.\<close>

definition adopt_fail_mode :: "string \<Rightarrow> ('x sdk, unit) py" where
  "adopt_fail_mode fail_mode =
     when_py (fail_mode \<in> {''open'', ''closed''}) (set_engine (\<lambda>e. e\<lparr>pe_fail_mode := fail_mode\<rparr>))"

definition adopt_decision_timeout :: "pyval \<Rightarrow> ('x sdk, unit) py" where
  "adopt_decision_timeout v =
     (case as_int v of
        None \<Rightarrow> ret ()
      | Some t \<Rightarrow> when_py (t > 0) (set_engine (\<lambda>e. e\<lparr>pe_decision_timeout_ms := t\<rparr>)))"

text \<open>The cached cooldown follows \<open>blocked_until\<close>: it is set when it lies ahead, and dropped once past.\<close>

definition update_cooldown :: "'x services \<Rightarrow> int option \<Rightarrow> ('x sdk, unit) py" where
  "update_cooldown S blocked_until_ms =
     bnd (case blocked_until_ms of None \<Rightarrow> ret False
            | Some b \<Rightarrow> bnd (now_ms S) (\<lambda>n. ret (b > n))) (\<lambda>ahead.
     if ahead
     then set_engine (\<lambda>e. e\<lparr>pe_cooldown_until_ms := blocked_until_ms,
                             pe_cooldown_reason := Some ''cooldown_active''\<rparr>)
     else bnd (engine pe_cooldown_until_ms) (\<lambda>cached.
       bnd (case cached of None \<Rightarrow> ret False | Some c \<Rightarrow> bnd (now_ms S) (\<lambda>n. ret (n \<ge> c))) (\<lambda>past.
       when_py past (set_engine (\<lambda>e. e\<lparr>pe_cooldown_until_ms := None, pe_cooldown_reason := None\<rparr>)))))"

text \<open>The result: the decision and what else of the payload has the expected type.\<close>

definition result_clamp :: "pydict \<Rightarrow> pydict \<Rightarrow> pydict" where
  "result_clamp payload result =
     (case as_dict (dget payload ''clamp'') of
        None \<Rightarrow> result
      | Some clamp_payload \<Rightarrow>
          (case as_int (dget clamp_payload ''recommended_max_output_tokens'') of
             None \<Rightarrow> result
           | Some recommended \<Rightarrow>
               if recommended > 0
               then dset ''clamp'' (PDict
                 [(''recommended_max_output_tokens'', dget clamp_payload ''recommended_max_output_tokens''),
                  (''applied'', PBool (case as_bool (dget clamp_payload ''applied'') of
                                         Some b \<Rightarrow> b | None \<Rightarrow> False))]) result
               else result))"

definition dset_if :: "bool \<Rightarrow> string \<Rightarrow> pyval \<Rightarrow> pydict \<Rightarrow> pydict" where
  "dset_if b k v d = (if b then dset k v d else d)"

definition decision_result :: "pydict \<Rightarrow> string \<Rightarrow> string \<Rightarrow> string \<Rightarrow> string \<Rightarrow> pydict" where
  "decision_result payload decision reason trace_id request_id =
     (let r0 = [(''decision'', PStr decision), (''reason'', PStr reason),
                (''trace_id'', PStr trace_id), (''request_id'', PStr request_id)];
          blocked_until_value = dget payload ''blocked_until'';
          r1 = dset_if (case as_str blocked_until_value of Some s \<Rightarrow> strip s \<noteq> [] | None \<Rightarrow> False)
                 ''blocked_until'' blocked_until_value r0;
          retry_after_seconds = dget payload ''retry_after_seconds'';
          r2 = dset_if (case as_int retry_after_seconds of Some i \<Rightarrow> i \<ge> 0 | None \<Rightarrow> False)
                 ''retry_after_seconds'' retry_after_seconds r1;
          apply_clamp_enabled = dget payload ''apply_clamp_enabled'';
          r3 = dset_if (as_bool apply_clamp_enabled \<noteq> None) ''apply_clamp_enabled'' apply_clamp_enabled r2;
          snapshot_payload = dget payload ''snapshot'';
          r4 = dset_if (as_dict snapshot_payload \<noteq> None) ''snapshot'' snapshot_payload r3
      in result_clamp payload r4)"

definition handle_payload :: "'x services \<Rightarrow> pydict \<Rightarrow> string \<Rightarrow> string \<Rightarrow> ('x sdk, pydict) py" where
  "handle_payload S payload trace_id request_id =
     (let decision = str_or (dget payload ''decision'') ''allow'';
          reason = str_or (dget payload ''reason'') ''ok''
      in bnd (engine pe_fail_mode) (\<lambda>fm.
         bnd (adopt_fail_mode (str_or (dget payload ''fail_mode'') fm)) (\<lambda>_.
         bnd (adopt_decision_timeout (dget payload ''protect_decision_timeout_ms'')) (\<lambda>_.
         bnd (update_cooldown S (parse_blocked_until_ms (dget payload ''blocked_until''))) (\<lambda>_.
         ret (decision_result payload
                (if decision \<in> {''allow'', ''clamp'', ''block''} then decision else ''allow'')
                reason trace_id request_id))))))"

text \<open>The body of the second \<open>try\<close>, and its handler.\<close>

definition ask_backend :: "'x services \<Rightarrow> pydict \<Rightarrow> string \<Rightarrow> string \<Rightarrow> rat \<Rightarrow> ('x sdk, pydict) py" where
  "ask_backend S context trace_id request_id timeout_s =
     bnd (engine id) (\<lambda>self.
     bnd get_trace_id (\<lambda>tid. bnd get_span_id (\<lambda>sid.
     bnd (post_with_timeout S (pe_base_url self @ ''/api/v1/protect/decision'')
            (sanitize_protect_context context)
            [(''Content-Type'', ''application/json''), (''X-Project-Ingest-Key'', pe_ingest_key self),
             (''X-Trace-ID'', tid), (''X-Span-ID'', sid), (''X-Rheonic-Protect-Request-Id'', request_id)]
            timeout_s) (\<lambda>response.
     bnd (status_code_of response) (\<lambda>status_code.
     if status_code < 200 \<or> status_code \<ge> 300
     then bnd get_trace_id (\<lambda>tid.
          bnd (report_decision_unavailable_fire_and_forget S (as_str (dget context ''provider''))
                 (as_str (dget context ''requested_model'')) request_id tid) (\<lambda>_.
          fallback_decision trace_id request_id))
     else bnd (parse_json_payload response) (\<lambda>payload.
          handle_payload S payload trace_id request_id))))))"

definition preflight_failed :: "'x services \<Rightarrow> pydict \<Rightarrow> string \<Rightarrow> string \<Rightarrow> exn \<Rightarrow> ('x sdk, pydict) py" where
  "preflight_failed S context trace_id request_id e =
     bnd get_trace_id (\<lambda>tid.
     bnd ((if is_timeout_error e then report_decision_timeout_fire_and_forget
           else report_decision_unavailable_fire_and_forget)
            S (as_str (dget context ''provider'')) (as_str (dget context ''requested_model''))
            request_id tid) (\<lambda>_.
     fallback_decision trace_id request_id))"

definition local_block :: "int \<Rightarrow> string option \<Rightarrow> int \<Rightarrow> string \<Rightarrow> string \<Rightarrow> pydict" where
  "local_block until_ms reason now trace_id request_id =
     [(''decision'', PStr ''block''), (''reason'', PStr (opt_or reason ''cooldown_active'')),
      (''trace_id'', PStr trace_id), (''request_id'', PStr request_id),
      (''blocked_until'', opt_str (format_blocked_until_ms (Some until_ms))),
      (''retry_after_seconds'', opt_int (to_retry_after_seconds (Some until_ms) now))]"

definition str_of :: "pyval \<Rightarrow> string" where
  "str_of v = (case as_str v of Some s \<Rightarrow> strip s | None \<Rightarrow> [])"

text \<open>The ids of the call and the instant at which the cached cooldown is looked up.\<close>

definition preflight_start :: "'x services \<Rightarrow> pydict \<Rightarrow> ('x sdk, string \<times> string \<times> string \<times> int) py" where
  "preflight_start S context =
     bnd (uuid4_hex S) (\<lambda>request_id.
     bnd (or_gen (str_of (dget context ''trace_id'')) (generate_trace_id S)) (\<lambda>trace_id.
     bnd (or_gen (str_of (dget context ''span_id'')) (generate_span_id S)) (\<lambda>span_id.
     bnd (now_ms S) (\<lambda>now. ret (request_id, trace_id, span_id, now)))))"

definition evaluate_local ::
  "'x services \<Rightarrow> int \<Rightarrow> string option \<Rightarrow> int \<Rightarrow> string \<Rightarrow> string \<Rightarrow> string \<Rightarrow> ('x sdk, pydict) py" where
  "evaluate_local S until_ms reason now trace_id span_id request_id =
     bnd (bind_trace_context S trace_id span_id) (\<lambda>context_tokens.
     finally_py (ret (local_block until_ms reason now trace_id request_id))
       (reset_trace_context context_tokens))"

definition evaluate_remote ::
  "'x services \<Rightarrow> pydict \<Rightarrow> string \<Rightarrow> string \<Rightarrow> string \<Rightarrow> ('x sdk, pydict) py" where
  "evaluate_remote S context trace_id span_id request_id =
     bnd (engine pe_decision_timeout_ms) (\<lambda>t.
     bnd (bind_trace_context S trace_id span_id) (\<lambda>context_tokens.
     finally_py
       (try_except (ask_backend S context trace_id request_id (py_div (of_int (max t 1)) 1000))
          (preflight_failed S context trace_id request_id))
       (reset_trace_context context_tokens)))"

definition evaluate :: "'x services \<Rightarrow> pydict \<Rightarrow> ('x sdk, pydict) py" where
  "evaluate S context =
     bnd (preflight_start S context) (\<lambda>(request_id, trace_id, span_id, now).
     bnd (engine pe_cooldown_until_ms) (\<lambda>cached.
     bnd (engine pe_cooldown_reason) (\<lambda>reason.
     case cached of
       None \<Rightarrow> evaluate_remote S context trace_id span_id request_id
     | Some until_ms \<Rightarrow>
         if now < until_ms then evaluate_local S until_ms reason now trace_id span_id request_id
         else evaluate_remote S context trace_id span_id request_id)))"

definition bootstrap :: "'x services \<Rightarrow> ('x sdk, unit) py" where
  "bootstrap S =
     try_except
       (bnd (engine id) (\<lambda>self.
        bnd get_trace_id (\<lambda>t0. bnd (or_gen t0 (generate_trace_id S)) (\<lambda>tid.
        bnd get_span_id (\<lambda>s0. bnd (or_gen s0 (generate_span_id S)) (\<lambda>sid.
        bnd (get_with_timeout S (pe_base_url self @ ''/api/v1/protect/config'')
               [(''X-Project-Ingest-Key'', pe_ingest_key self), (''X-Trace-ID'', tid), (''X-Span-ID'', sid)]
               (max (pe_request_timeout_s self) (fl (1 / 10)))) (\<lambda>response.
        bnd (status_code_of response) (\<lambda>status_code.
        if status_code < 200 \<or> status_code \<ge> 300 then ret ()
        else bnd (parse_json_payload response) (\<lambda>payload.
          bnd (engine pe_fail_mode) (\<lambda>fm.
          bnd (adopt_fail_mode (str_or (dget payload ''protect_fail_mode'') fm)) (\<lambda>_.
          adopt_decision_timeout (dget payload ''protect_decision_timeout_ms''))))))))))))
       (\<lambda>_. ret ())"

section \<open>Provider and model\<close>

definition validate_provider_model :: "string \<Rightarrow> string option \<Rightarrow> ('w, unit) py" where
  "validate_provider_model provider model =
     (let normalized_provider = lower (strip provider) in
      if normalized_provider = [] then
        raise (RHEONICValidationError ''RHEONIC: provider must be explicitly provided.'')
      else if normalized_provider \<notin> set (sc_supported_providers sdk_config) then
        raise (RHEONICValidationError (''RHEONIC: unsupported provider: '' @ provider))
      else if strip (opt_or model []) = [] then
        raise (RHEONICValidationError
          (''RHEONIC: model must be explicitly provided for provider '' @ normalized_provider @ ''.''))
      else ret ())"

section \<open>An instance\<close>

text \<open>Services whose clock stands at \<open>t\<close> seconds and whose HTTP client is \<open>h\<close>, for the examples.\<close>

definition demo_services :: "rat \<Rightarrow> unit http_client option \<Rightarrow> unit services" where
  "demo_services t h = \<lparr>
     sv_time = \<lambda>x. (t, x), sv_monotonic = \<lambda>x. (t, x), sv_perf_counter = \<lambda>x. (t, x), sv_now = \<lambda>x. (0, x),
     sv_uuid4_hex = \<lambda>x. (replicate 32 (CHR ''a''), x), sv_uniform = \<lambda>a b x. (a, x),
     sv_sleep = \<lambda>_ x. ((), x), sv_http = h, sv_tiktoken = None, sv_float_repr = \<lambda>_. ''0.0'',
     sv_exc_class = \<lambda>_. ''Error'', sv_exc_str = \<lambda>_. [], sv_exc_attr = \<lambda>_ _. PNone, sv_environ = \<lambda>_. None,
     sv_setattr = \<lambda>v k x. (case v of PObj d \<Rightarrow> Inr (PObj (dset k x d)) | _ \<Rightarrow> Inl TypeError) \<rparr>"

definition demo_client :: Client where
  "demo_client = \<lparr> cn_ingest_key = ''k'', cn_base_url = ''u'', cn_environment = ''dev'', cn_max_queue_size = 2,
     cn_overflow_policy = ''drop_oldest'', cn_request_timeout_s = 1, cn_protect_fail_mode = ''open'',
     cn_queue = [], cn_dropped = 0, cn_sent = 0, cn_failed = 0, cn_stopped = False, cn_is_closed = False \<rparr>"

definition demo_sdk :: "string \<Rightarrow> unit sdk" where
  "demo_sdk fail_mode = \<lparr> sdk_trace_id = [], sdk_span_id = [],
     sdk_engine = protect_engine_init ''u'' ''k'' ''dev'' 1 fail_mode 300,
     sdk_client = demo_client, sdk_encoder_cache = [], sdk_x = () \<rparr>"

lemma demo_start:
  "preflight_start (demo_services t h) [] w =
     (Inr (replicate 32 (CHR ''a''), uuid_str (replicate 32 (CHR ''a'')), replicate 16 (CHR ''a''),
           py_trunc (py_mul t 1000)), w)"
  by (simp add: preflight_start_def bnd_def uuid4_hex_def ext_run or_gen_def str_of_def generate_trace_id_def
      generate_span_id_def now_ms_def demo_services_def uuid_str_def)

end
