(* ===== verification/Sdk_Events.thy ===== *)
theory Sdk_Events
  imports Sdk_Engine
begin

text \<open>
  Usage events (\<open>sdk-python/src/rheonic/event_builder.py\<close>): building an event from arguments,
  validating the payload of a caller, and the result that an event the SDK built passes its own
  validation unchanged. Arguments that Python does not check are \<open>pyval\<close>.
\<close>

section \<open>Validation\<close>

definition public_event_keys :: "string list" where
  "public_event_keys = [''provider'', ''model'', ''environment'', ''ts'', ''status'', ''request'', ''response'']"

definition internal_event_keys :: "string list" where
  "internal_event_keys = [''ts'', ''provider'', ''requested_model'', ''resolved_model'', ''environment'',
     ''status'', ''request'', ''response'']"

definition request_keys :: "string list" where
  "request_keys = [''endpoint'', ''feature'', ''request_fingerprint'', ''input_tokens'',
     ''input_tokens_estimate'', ''token_explosion_tokens'', ''max_output_tokens'', ''protect_decision'',
     ''protect_reason'']"

definition response_keys :: "string list" where
  "response_keys = [''http_status'', ''latency_ms'', ''total_tokens'', ''output_tokens'', ''error_type'',
     ''error_message'']"

definition fail_validation :: "string \<Rightarrow> ('w, 'a) py" where
  "fail_validation message = raise (RHEONICValidationError message)"

text \<open>\<open>sorted(keys)[0]\<close>.\<close>

fun first_sorted :: "string list \<Rightarrow> string" where
  "first_sorted [] = []"
| "first_sorted [k] = k"
| "first_sorted (k # ks) = (if str_le k (first_sorted ks) then k else first_sorted ks)"

definition extra_keys :: "pydict \<Rightarrow> string list \<Rightarrow> string list" where
  "extra_keys d allowed = filter (\<lambda>k. k \<notin> set allowed) (map fst d)"

definition validate_mapping :: "pyval \<Rightarrow> string list \<Rightarrow> string \<Rightarrow> ('w, pydict) py" where
  "validate_mapping value allowed label =
     (if value = PNone then ret []
      else case as_dict value of
          None \<Rightarrow> fail_validation (''RHEONIC: '' @ label @ '' must be an object.'')
        | Some d \<Rightarrow>
            if extra_keys d allowed \<noteq> []
            then fail_validation (''RHEONIC: unexpected '' @ label @ '' property: ''
                   @ first_sorted (extra_keys d allowed))
            else ret d)"

definition validate_optional_string :: "pyval \<Rightarrow> string \<Rightarrow> ('w, unit) py" where
  "validate_optional_string value label =
     (if value \<noteq> PNone \<and> as_str value = None
      then fail_validation (''RHEONIC: '' @ label @ '' must be a string.'') else ret ())"

definition validate_optional_number :: "pyval \<Rightarrow> string \<Rightarrow> ('w, unit) py" where
  "validate_optional_number value label =
     (if value \<noteq> PNone \<and> as_int value = None
      then fail_validation (''RHEONIC: '' @ label @ '' must be a number.'') else ret ())"

text \<open>The checks of the fields of a mapping, in the order of the code.\<close>

definition string_field :: "string \<Rightarrow> pydict \<Rightarrow> string \<Rightarrow> ('w, unit) py" where
  "string_field label d k = validate_optional_string (dget d k) (label @ ''.'' @ k)"

definition number_field :: "string \<Rightarrow> pydict \<Rightarrow> string \<Rightarrow> ('w, unit) py" where
  "number_field label d k = validate_optional_number (dget d k) (label @ ''.'' @ k)"

definition request_checks :: "pydict \<Rightarrow> ('w, unit) py" where
  "request_checks d = seq_all
     [string_field ''event.request'' d ''endpoint'', string_field ''event.request'' d ''feature'',
      string_field ''event.request'' d ''request_fingerprint'', number_field ''event.request'' d ''input_tokens'',
      number_field ''event.request'' d ''input_tokens_estimate'',
      number_field ''event.request'' d ''token_explosion_tokens'',
      number_field ''event.request'' d ''max_output_tokens'',
      string_field ''event.request'' d ''protect_decision'', string_field ''event.request'' d ''protect_reason'']"

definition response_checks :: "pydict \<Rightarrow> ('w, unit) py" where
  "response_checks d = seq_all
     [number_field ''event.response'' d ''http_status'', number_field ''event.response'' d ''latency_ms'',
      number_field ''event.response'' d ''total_tokens'', number_field ''event.response'' d ''output_tokens'',
      string_field ''event.response'' d ''error_type'', string_field ''event.response'' d ''error_message'']"

definition validate_request :: "pyval \<Rightarrow> ('w, pydict) py" where
  "validate_request request =
     bnd (validate_mapping request request_keys ''event.request'') (\<lambda>request_map.
     bnd (request_checks request_map) (\<lambda>_. ret request_map))"

definition validate_response :: "pyval \<Rightarrow> ('w, pydict) py" where
  "validate_response response =
     bnd (validate_mapping response response_keys ''event.response'') (\<lambda>response_map.
     bnd (response_checks response_map) (\<lambda>_. ret response_map))"

section \<open>Building\<close>

text \<open>\<open>not isinstance(value, str) or not value.strip()\<close>.\<close>

definition blank :: "pyval \<Rightarrow> bool" where
  "blank value = (case as_str value of None \<Rightarrow> True | Some s \<Rightarrow> strip s = [])"

definition require_text :: "pyval \<Rightarrow> string \<Rightarrow> ('w, unit) py" where
  "require_text value label =
     (if blank value then fail_validation (''RHEONIC: '' @ label @ '' must be a non-empty string.'') else ret ())"

text \<open>\<open>ts or datetime.now(timezone.utc).isoformat()\<close>.\<close>

definition ts_or_now :: "'x services \<Rightarrow> pyval \<Rightarrow> ('x sdk, pyval) py" where
  "ts_or_now S ts = (if truth ts then ret ts else bnd (ext (sv_now S)) (\<lambda>n. ret (PStr (isoformat n))))"

text \<open>The dictionary both builders return.\<close>

definition event_dict ::
  "'x services \<Rightarrow> pyval \<Rightarrow> pyval \<Rightarrow> pyval \<Rightarrow> pyval \<Rightarrow> pyval \<Rightarrow> pyval \<Rightarrow> pyval \<Rightarrow> pyval \<Rightarrow> ('x sdk, pydict) py" where
  "event_dict S ts provider requested_model resolved_model environment status request response =
     bnd (ts_or_now S ts) (\<lambda>ts_value.
     bnd (validate_request request) (\<lambda>request_map.
     bnd (validate_response response) (\<lambda>response_map.
     ret ([(''ts'', ts_value), (''provider'', provider), (''requested_model'', requested_model),
           (''resolved_model'', resolved_model), (''environment'', environment)]
          @ (if status \<noteq> PNone then [(''status'', status)] else [])
          @ [(''request'', PDict request_map), (''response'', PDict response_map)]))))"

definition build_event ::
  "'x services \<Rightarrow> pyval \<Rightarrow> pyval \<Rightarrow> pyval \<Rightarrow> pyval \<Rightarrow> pyval \<Rightarrow> pyval \<Rightarrow> pyval \<Rightarrow> ('x sdk, pydict) py" where
  "build_event S provider model environment status request response ts =
     bnd (require_text provider ''event.provider'') (\<lambda>_.
     bnd (validate_optional_string model ''event.model'') (\<lambda>_.
     bnd (validate_optional_string environment ''event.environment'') (\<lambda>_.
     bnd (validate_optional_string status ''event.status'') (\<lambda>_.
     bnd (validate_optional_string ts ''event.ts'') (\<lambda>_.
     event_dict S ts provider model PNone environment status request response)))))"

definition build_internal_event ::
  "'x services \<Rightarrow> pyval \<Rightarrow> pyval \<Rightarrow> pyval \<Rightarrow> pyval \<Rightarrow> pyval \<Rightarrow> pyval \<Rightarrow> pyval \<Rightarrow> pyval \<Rightarrow> ('x sdk, pydict) py" where
  "build_internal_event S provider requested_model resolved_model environment status request response ts =
     bnd (require_text provider ''event.provider'') (\<lambda>_.
     bnd (validate_optional_string requested_model ''event.requested_model'') (\<lambda>_.
     bnd (validate_optional_string resolved_model ''event.resolved_model'') (\<lambda>_.
     bnd (validate_optional_string environment ''event.environment'') (\<lambda>_.
     bnd (validate_optional_string status ''event.status'') (\<lambda>_.
     bnd (validate_optional_string ts ''event.ts'') (\<lambda>_.
     event_dict S ts provider requested_model resolved_model environment status request response))))))"

text \<open>\<open>v if isinstance(v, str) else None\<close>, and the same for \<open>dict\<close>.\<close>

definition if_str :: "pyval \<Rightarrow> pyval" where
  "if_str v = (if as_str v = None then PNone else v)"

definition if_dict :: "pyval \<Rightarrow> pyval" where
  "if_dict v = (if as_dict v = None then PNone else v)"

definition required_keys :: "string list" where
  "required_keys = [''ts'', ''provider'', ''requested_model'', ''resolved_model'', ''environment'',
     ''request'', ''response'']"

definition normalize_internal :: "'x services \<Rightarrow> pydict \<Rightarrow> ('x sdk, pydict) py" where
  "normalize_internal S payload =
     (if extra_keys payload internal_event_keys \<noteq> []
      then fail_validation (''RHEONIC: unexpected event property: ''
             @ first_sorted (extra_keys payload internal_event_keys))
      else case filter (\<lambda>k. \<not> has_key payload k) required_keys of
        k # _ \<Rightarrow> fail_validation (''RHEONIC: event.'' @ k @ '' is required.'')
      | [] \<Rightarrow>
        bnd (require_text (dget payload ''ts'') ''event.ts'') (\<lambda>_.
        bnd (require_text (dget payload ''provider'') ''event.provider'') (\<lambda>_.
        bnd (require_text (dget payload ''environment'') ''event.environment'') (\<lambda>_.
        bnd (validate_optional_string (dget payload ''status'') ''event.status'') (\<lambda>_.
        build_internal_event S (dget payload ''provider'') (if_str (dget payload ''requested_model''))
          (if_str (dget payload ''resolved_model'')) (dget payload ''environment'')
          (if_str (dget payload ''status'')) (if_dict (dget payload ''request''))
          (if_dict (dget payload ''response'')) (dget payload ''ts''))))))"

definition normalize_public :: "'x services \<Rightarrow> pydict \<Rightarrow> ('x sdk, pydict) py" where
  "normalize_public S payload =
     (if extra_keys payload public_event_keys \<noteq> []
      then fail_validation (''RHEONIC: unexpected event property: ''
             @ first_sorted (extra_keys payload public_event_keys))
      else let environment_value =
               (if has_key payload ''environment'' then dget payload ''environment'' else PStr ''dev'')
      in bnd (require_text (dget payload ''provider'') ''event.provider'') (\<lambda>_.
         bnd (require_text environment_value ''event.environment'') (\<lambda>_.
         bnd (validate_optional_string (dget payload ''status'') ''event.status'') (\<lambda>_.
         build_event S (dget payload ''provider'') (dget payload ''model'') environment_value
           (if_str (dget payload ''status'')) (if_dict (dget payload ''request''))
           (if_dict (dget payload ''response'')) (if_str (dget payload ''ts''))))))"

definition normalize_event_payload :: "'x services \<Rightarrow> pydict \<Rightarrow> ('x sdk, pydict) py" where
  "normalize_event_payload S payload =
     (if has_key payload ''requested_model'' \<or> has_key payload ''resolved_model''
      then normalize_internal S payload else normalize_public S payload)"

text \<open>\<open>EventBuilder.build\<close>.\<close>

definition event_builder_build :: "'x services \<Rightarrow> pydict \<Rightarrow> ('x sdk, pydict) py" where
  "event_builder_build S payload =
     logged (build_event S
       (PStr (if has_key payload ''provider'' then py_str (dget payload ''provider'') else ''unknown''))
       (if_str (dget payload ''model''))
       (PStr (if has_key payload ''environment'' then py_str (dget payload ''environment'') else ''dev''))
       (if_str (dget payload ''status'')) (if_dict (dget payload ''request''))
       (if_dict (dget payload ''response'')) (if_str (dget payload ''ts'')))"

section \<open>A built event passes validation unchanged\<close>

definition opt_text :: "pyval \<Rightarrow> bool" where
  "opt_text v \<longleftrightarrow> v = PNone \<or> as_str v \<noteq> None"

definition opt_number :: "pyval \<Rightarrow> bool" where
  "opt_number v \<longleftrightarrow> v = PNone \<or> as_int v \<noteq> None"

lemma bnd_Inr_iff: "bnd m f w = (Inr b, w') \<longleftrightarrow> (\<exists>a w1. m w = (Inr a, w1) \<and> f a w1 = (Inr b, w'))"
  by (auto elim: bnd_InrE)

lemma require_text_Inr [simp]: "(require_text v l w = (Inr u, w')) = (\<not> blank v \<and> w' = w)"
  unfolding require_text_def fail_validation_def by auto

lemma optional_Inr [simp]:
  "(validate_optional_string v l w = (Inr u, w')) = (opt_text v \<and> w' = w)"
  "(validate_optional_number v l w = (Inr u, w')) = (opt_number v \<and> w' = w)"
  unfolding validate_optional_string_def validate_optional_number_def fail_validation_def opt_text_def
    opt_number_def by auto

lemma fail_Inr [simp]: "fail_validation m w \<noteq> (Inr u, w')"
  by (simp add: fail_validation_def)

definition request_ok :: "pydict \<Rightarrow> bool" where
  "request_ok d \<longleftrightarrow> extra_keys d request_keys = [] \<and>
     list_all (\<lambda>k. opt_text (dget d k)) [''endpoint'', ''feature'', ''request_fingerprint'',
       ''protect_decision'', ''protect_reason''] \<and>
     list_all (\<lambda>k. opt_number (dget d k)) [''input_tokens'', ''input_tokens_estimate'',
       ''token_explosion_tokens'', ''max_output_tokens'']"

definition response_ok :: "pydict \<Rightarrow> bool" where
  "response_ok d \<longleftrightarrow> extra_keys d response_keys = [] \<and>
     list_all (\<lambda>k. opt_text (dget d k)) [''error_type'', ''error_message''] \<and>
     list_all (\<lambda>k. opt_number (dget d k)) [''http_status'', ''latency_ms'', ''total_tokens'', ''output_tokens'']"

text \<open>The mapping an argument stands for: \<open>None\<close> is the empty one.\<close>

definition mapping_of :: "pyval \<Rightarrow> pydict option" where
  "mapping_of v = (if v = PNone then Some [] else as_dict v)"

lemma validate_mapping_Inr:
  "validate_mapping v ks l w = (Inr d, w') \<longleftrightarrow> mapping_of v = Some d \<and> extra_keys d ks = [] \<and> w' = w"
  by (cases v) (auto simp: validate_mapping_def mapping_of_def extra_keys_def)

lemma validate_request_Inr:
  "validate_request v w = (Inr d, w') \<longleftrightarrow> mapping_of v = Some d \<and> request_ok d \<and> w' = w"
  unfolding validate_request_def bnd_Inr_iff validate_mapping_Inr request_checks_def request_ok_def
  by (auto simp: bnd_Inr_iff string_field_def number_field_def)

lemma validate_response_Inr:
  "validate_response v w = (Inr d, w') \<longleftrightarrow> mapping_of v = Some d \<and> response_ok d \<and> w' = w"
  unfolding validate_response_def bnd_Inr_iff validate_mapping_Inr response_checks_def response_ok_def
  by (auto simp: bnd_Inr_iff string_field_def number_field_def)

text \<open>The events the SDK keeps in its queue.\<close>

definition event_of :: "pyval \<Rightarrow> pyval \<Rightarrow> pyval \<Rightarrow> pyval \<Rightarrow> pyval \<Rightarrow> pyval \<Rightarrow> pydict \<Rightarrow> pydict \<Rightarrow> pydict" where
  "event_of ts p rm vm env st q r =
     [(''ts'', ts), (''provider'', p), (''requested_model'', rm), (''resolved_model'', vm), (''environment'', env)]
     @ (if st \<noteq> PNone then [(''status'', st)] else [])
     @ [(''request'', PDict q), (''response'', PDict r)]"

definition event_ok :: "pydict \<Rightarrow> bool" where
  "event_ok d \<longleftrightarrow> (\<exists>ts p rm vm env st q r. d = event_of ts p rm vm env st q r \<and>
     \<not> blank ts \<and> \<not> blank p \<and> \<not> blank env \<and> opt_text rm \<and> opt_text vm \<and> opt_text st \<and>
     request_ok q \<and> response_ok r)"

lemma strip_nonblank:
  assumes "c \<in> set s" "\<not> is_space c"
  shows "strip s \<noteq> []"
proof -
  have "c \<in> set (dropWhile is_space s)"
    using assms by (metis (no_types, lifting) UnE set_append set_takeWhileD takeWhile_dropWhile_id)
  then have "c \<in> set (dropWhile is_space (rev (dropWhile is_space s)))"
    using assms(2) by (metis (no_types, lifting) UnE set_append set_rev set_takeWhileD takeWhile_dropWhile_id)
  then have "dropWhile is_space (rev (dropWhile is_space s)) \<noteq> []" by force
  then show ?thesis unfolding strip_def by simp
qed

lemma isoformat_not_blank: "\<not> blank (PStr (isoformat n))"
proof -
  obtain y yd where y: "split_year 1970 (n div 86400000000) = (y, yd)" by force
  obtain m d where m: "split_month (month_lens y) 1 yd = (m, d)" by force
  have "CHR ''T'' \<in> set (isoformat n)" unfolding isoformat_def Let_def y prod.case m by simp
  moreover have "\<not> is_space (CHR ''T'')" by (simp add: is_space_def)
  ultimately show ?thesis using strip_nonblank by (auto simp: blank_def)
qed

lemma not_blank_truth: "\<not> blank v \<Longrightarrow> truth v \<and> opt_text v"
  by (cases v) (auto simp: blank_def opt_text_def strip_def)

lemma event_dict_Inr:
  assumes "event_dict S ts p rm vm env st rq rs w = (Inr d, w')"
  shows "\<exists>tsv q r. d = event_of tsv p rm vm env st q r \<and> mapping_of rq = Some q \<and> mapping_of rs = Some r \<and>
     request_ok q \<and> response_ok r \<and> (if truth ts then tsv = ts else \<not> blank tsv)"
  using assms unfolding event_dict_def bnd_Inr_iff
  by (auto simp: ts_or_now_def validate_request_Inr validate_response_Inr event_of_def bnd_Inr_iff
      isoformat_not_blank split: if_splits)

lemma event_dict_run:
  assumes "truth ts" "mapping_of rq = Some q" "mapping_of rs = Some r" "request_ok q" "response_ok r"
  shows "event_dict S ts p rm vm env st rq rs w = (Inr (event_of ts p rm vm env st q r), w)"
  using assms unfolding event_dict_def event_of_def
  by (auto simp: ts_or_now_def bnd_Inr_iff validate_request_Inr validate_response_Inr)

text \<open>A time that is absent, empty (both mean now) or not blank.\<close>

definition ts_ok :: "pyval \<Rightarrow> bool" where
  "ts_ok ts \<longleftrightarrow> (case as_str ts of None \<Rightarrow> True | Some s \<Rightarrow> s = [] \<or> strip s \<noteq> [])"

lemma ts_ok_value: "ts_ok ts \<Longrightarrow> opt_text ts \<Longrightarrow> (if truth ts then tsv = ts else \<not> blank tsv) \<Longrightarrow> \<not> blank tsv"
  by (cases ts) (auto simp: ts_ok_def opt_text_def blank_def split: if_splits)

lemma event_dict_ok:
  assumes "event_dict S ts p rm vm env st rq rs w = (Inr d, w')"
    and "ts_ok ts" "opt_text ts" "\<not> blank p" "\<not> blank env" "opt_text rm" "opt_text vm" "opt_text st"
  shows "event_ok d"
  using event_dict_Inr [OF assms(1)] ts_ok_value [OF assms(2,3)] assms(4-) unfolding event_ok_def by blast

lemma built_event_ok:
  assumes "build_internal_event S p rm vm env st rq rs ts w = (Inr d, w')" "ts_ok ts" "\<not> blank env"
  shows "event_ok d"
  using assms(1) unfolding build_internal_event_def
  by (auto simp: bnd_Inr_iff intro: event_dict_ok [OF _ assms(2) _ _ assms(3)])

lemma built_public_event_ok:
  assumes "build_event S p rm env st rq rs ts w = (Inr d, w')" "ts_ok ts" "\<not> blank env"
  shows "event_ok d"
  using assms(1) unfolding build_event_def
  by (auto simp: bnd_Inr_iff opt_text_def intro: event_dict_ok [OF _ assms(2) _ _ assms(3)])

lemma opt_text_if [simp]: "opt_text (if_str v)" "opt_text v \<Longrightarrow> if_str v = v" "if_dict (PDict d) = PDict d"
  by (auto simp: opt_text_def if_str_def if_dict_def)

lemma event_of_fields [simp]:
  "dget (event_of ts p rm vm env st q r) ''ts'' = ts"
  "dget (event_of ts p rm vm env st q r) ''provider'' = p"
  "dget (event_of ts p rm vm env st q r) ''requested_model'' = rm"
  "dget (event_of ts p rm vm env st q r) ''resolved_model'' = vm"
  "dget (event_of ts p rm vm env st q r) ''environment'' = env"
  "dget (event_of ts p rm vm env st q r) ''status'' = st"
  "dget (event_of ts p rm vm env st q r) ''request'' = PDict q"
  "dget (event_of ts p rm vm env st q r) ''response'' = PDict r"
  by (simp_all add: event_of_def)

lemma event_of_keys [simp]:
  "extra_keys (event_of ts p rm vm env st q r) internal_event_keys = []"
  "filter (\<lambda>k. \<not> has_key (event_of ts p rm vm env st q r) k) required_keys = []"
  "has_key (event_of ts p rm vm env st q r) ''requested_model''"
  by (simp_all add: event_of_def extra_keys_def internal_event_keys_def has_key_def required_keys_def)

lemma event_ok_stable:
  assumes "event_ok d"
  shows "normalize_event_payload S d w = (Inr d, w)"
proof -
  obtain ts p rm vm env st q r where d: "d = event_of ts p rm vm env st q r"
    and ok: "\<not> blank ts" "\<not> blank p" "\<not> blank env" "opt_text rm" "opt_text vm" "opt_text st"
      "request_ok q" "response_ok r"
    using assms unfolding event_ok_def by blast
  have m: "mapping_of (PDict q) = Some q" "mapping_of (PDict r) = Some r" by (simp_all add: mapping_of_def)
  have b: "build_internal_event S p rm vm env st (PDict q) (PDict r) ts w = (Inr d, w)"
    unfolding build_internal_event_def d
    using ok not_blank_truth [OF ok(1)] not_blank_truth [OF ok(3)] event_dict_run [OF _ m ok(7,8)]
    by (auto simp: bnd_Inr_iff)
  then show ?thesis
    using ok unfolding normalize_event_payload_def normalize_internal_def d
    by (simp add: bnd_Inr_iff)
qed

text \<open>
  What the SDK makes of a caller's event it would make again: validating a normalised event
  returns it unchanged, without reading the clock, provided the caller did not give a time of blanks
  only (the public form lets one through, the internal form rejects it).
\<close>

theorem normalize_stable:
  assumes "normalize_event_payload S payload w = (Inr d, w')" "ts_ok (dget payload ''ts'')"
  shows "normalize_event_payload T d w2 = (Inr d, w2)"
proof -
  have t: "ts_ok (if_str (dget payload ''ts''))" using assms(2) by (simp add: if_str_def ts_ok_def)
  have "event_ok d"
  proof (cases "has_key payload ''requested_model'' \<or> has_key payload ''resolved_model''")
    case True
    then show ?thesis
      using assms(1) unfolding normalize_event_payload_def normalize_internal_def
      by (auto simp: bnd_Inr_iff split: if_splits list.splits intro: built_event_ok [OF _ assms(2)])
  next
    case False
    then show ?thesis
      using assms(1) unfolding normalize_event_payload_def normalize_public_def Let_def
      by (auto simp: bnd_Inr_iff split: if_splits intro: built_public_event_ok [OF _ t])
  qed
  then show ?thesis by (rule event_ok_stable)
qed

theorem normalize_stable_witness:
  "\<exists>d. normalize_event_payload (demo_services 0 None)
       [(''provider'', PStr ''openai''), (''request'', PDict [(''input_tokens'', PInt 7)])] (demo_sdk ''open'')
       = (Inr d, demo_sdk ''open'')
     \<and> normalize_event_payload (demo_services 5 None) d (demo_sdk ''open'') = (Inr d, demo_sdk ''open'')"
proof -
  let ?w = "demo_sdk ''open''"
  let ?p = "[(''provider'', PStr ''openai''), (''request'', PDict [(''input_tokens'', PInt 7)])]"
  obtain d where d: "normalize_event_payload (demo_services 0 None) ?p ?w = (Inr d, ?w)"
    by (simp add: normalize_event_payload_def normalize_public_def has_key_def extra_keys_def public_event_keys_def
        bnd_def require_text_def blank_def validate_optional_string_def if_str_def if_dict_def
        build_event_def event_dict_def ts_or_now_def ext_run demo_services_def validate_request_def
        validate_response_def validate_mapping_def request_checks_def response_checks_def string_field_def
        number_field_def request_keys_def response_keys_def validate_optional_number_def strip_def is_space_def)
  then show ?thesis using normalize_stable [OF d, of "demo_services 5 None" ?w] by (auto simp: ts_ok_def)
qed

end
