(* ===== verification/Token_Estimator.thy ===== *)
theory Token_Estimator
  imports Sdk_Engine
begin

text \<open>
  The local estimate of input tokens (\<open>sdk-python/src/rheonic/token_estimator.py\<close>). \<open>tiktoken\<close> is a
  parameter; the encoder cache is part of the state.
\<close>

section \<open>Encoders\<close>

definition get_encoder :: "'x services \<Rightarrow> string option \<Rightarrow> ('x sdk, encoder option) py" where
  "get_encoder S model =
     (case sv_tiktoken S of
        None \<Rightarrow> ret None
      | Some tk \<Rightarrow>
          let key = opt_or model (sc_default_tokenizer_encoding sdk_config);
              default_encoder = py_raise_sum (tk_get_encoding tk (sc_default_tokenizer_encoding sdk_config))
          in bnd (gets (\<lambda>w. map_of (sdk_encoder_cache w) key)) (\<lambda>cached. case cached of
               Some e \<Rightarrow> ret (Some e)
             | None \<Rightarrow>
                 bnd (case model of
                        Some m \<Rightarrow> try_except (py_raise_sum (tk_encoding_for_model tk m)) (\<lambda>_. default_encoder)
                      | None \<Rightarrow> default_encoder) (\<lambda>encoder.
                 bnd (modify (\<lambda>w. w\<lparr>sdk_encoder_cache := AList.update key encoder (sdk_encoder_cache w)\<rparr>))
                   (\<lambda>_. ret (Some encoder)))))"

definition prewarm_token_estimator :: "'x services \<Rightarrow> string option \<Rightarrow> ('x sdk, unit) py" where
  "prewarm_token_estimator S model =
     try_except (bnd (get_encoder S model) (\<lambda>_. ret ())) (\<lambda>_. ret ())"

section \<open>The text of a request\<close>

text \<open>The texts of a message's content parts; \<open>None\<close> where a part is not a \<open>dict\<close>.\<close>

fun item_texts :: "pyval list \<Rightarrow> string list option" where
  "item_texts [] = Some []"
| "item_texts (item # items) =
     (case as_dict item of
        None \<Rightarrow> None
      | Some d \<Rightarrow> map_option (\<lambda>ts. (case as_str (dget d ''text'') of Some t \<Rightarrow> t # ts | None \<Rightarrow> ts))
          (item_texts items))"

fun message_texts :: "pyval list \<Rightarrow> string list option" where
  "message_texts [] = Some []"
| "message_texts (message # messages) =
     (case as_dict message of
        None \<Rightarrow> None
      | Some d \<Rightarrow>
          (case dget d ''content'' of
             PStr s \<Rightarrow> map_option (\<lambda>ts. s # ts) (message_texts messages)
           | PList items \<Rightarrow>
               (case item_texts items of
                  None \<Rightarrow> None
                | Some ts \<Rightarrow> map_option (\<lambda>rest. ts @ rest) (message_texts messages))
           | _ \<Rightarrow> None))"

definition extract_text :: "(rat \<Rightarrow> string) \<Rightarrow> pydict \<Rightarrow> string option" where
  "extract_text fr payload =
     (case dget payload ''messages'' of
        PList messages \<Rightarrow>
          if jsonable (PList messages) then Some (json_ordered fr (PList messages))
          else map_option (join_str [CHR 0x0A]) (message_texts messages)
      | _ \<Rightarrow>
     (case dget payload ''prompt'' of
        PStr prompt \<Rightarrow> Some prompt
      | _ \<Rightarrow>
     (case dget payload ''contents'' of
        PStr contents \<Rightarrow> Some contents
      | PList contents \<Rightarrow> if jsonable (PList contents) then Some (json_ordered fr (PList contents)) else None
      | _ \<Rightarrow> None)))"

section \<open>The estimate\<close>

definition estimate_by_chars :: "string \<Rightarrow> int" where
  "estimate_by_chars text =
     (if text = [] then 0
      else let chars_per_token = max (sc_token_estimate_chars_per_token sdk_config) 1;
               n = int (length text)
           in max 1 (n div chars_per_token + (if n mod chars_per_token \<noteq> 0 then 1 else 0)))"

definition estimate_input_tokens :: "'x services \<Rightarrow> pydict \<Rightarrow> ('x sdk, int option) py" where
  "estimate_input_tokens S payload =
     (case extract_text (sv_float_repr S) payload of
        None \<Rightarrow> ret None
      | Some text \<Rightarrow>
          try_except
            (bnd (get_encoder S (as_str (dget payload ''model''))) (\<lambda>encoder. case encoder of
               None \<Rightarrow> ret (Some (min (sc_max_input_token_estimate sdk_config) (estimate_by_chars text)))
             | Some encode \<Rightarrow>
                 bnd (py_raise_sum (encode text)) (\<lambda>n.
                 ret (Some (min (sc_max_input_token_estimate sdk_config) (int n))))))
            (\<lambda>_. ret (Some (min (sc_max_input_token_estimate sdk_config) (estimate_by_chars text)))))"

section \<open>Bounds\<close>

text \<open>Without a tokenizer, an estimate is the number of characters over four, rounded up.\<close>

lemma estimate_by_chars_ceil: "estimate_by_chars text = (int (length text) + 3) div 4"
proof (cases "text = []")
  case False
  then have "1 \<le> int (length text)" by (cases "text") simp_all
  moreover have "max 1 (n div 4 + (if n mod 4 \<noteq> 0 then 1 else 0)) = (n + 3) div 4" if "1 \<le> n" for n :: int
    using that unfolding max_def by presburger
  ultimately show ?thesis using False by (simp only: estimate_by_chars_def Let_def) simp
qed (simp add: estimate_by_chars_def)

lemma never_raises_estimate: "never_raises (estimate_input_tokens S payload)"
  unfolding estimate_input_tokens_def
  by (auto intro: never_raises_try split: option.split)

definition estimate_in_range :: "int option \<Rightarrow> bool" where
  "estimate_in_range n \<longleftrightarrow> (case n of None \<Rightarrow> True | Some i \<Rightarrow> 0 \<le> i \<and> i \<le> 50000)"

lemma estimate_range:
  assumes "estimate_input_tokens S payload w = (Inr n, w')"
  shows "estimate_in_range n"
proof -
  have c: "estimate_in_range (Some (min 50000 (estimate_by_chars t)))" for t
    by (simp add: estimate_in_range_def estimate_by_chars_ceil)
  show ?thesis
    using assms c unfolding estimate_input_tokens_def
    by (auto simp: try_except_def bnd_def py_raise_sum_def estimate_in_range_def
        split: option.splits prod.splits sum.splits)
qed

text \<open>
  The token estimate of a request never raises and lies between 0 and 50000, whatever the tokenizer
  does; the estimate leaves the engine and the event queue alone.
\<close>

theorem estimate_bounded:
  "\<exists>n w'. estimate_input_tokens S payload w = (Inr n, w') \<and> estimate_in_range n \<and>
     sdk_engine w' = sdk_engine w \<and> sdk_client w' = sdk_client w"
proof -
  have g: "frame v (get_encoder S m)" if "\<And>w c. v (w\<lparr>sdk_encoder_cache := c\<rparr>) = v w"
    for v :: "'a sdk \<Rightarrow> 'c" and m
    unfolding get_encoder_def Let_def py_raise_sum_def
    by (intro frame_option frame_ret frame_bnd frame_gets frame_try frame_modify that)
      (simp_all add: frame_def)
  have f: "frame v (estimate_input_tokens S payload)" if "\<And>w c. v (w\<lparr>sdk_encoder_cache := c\<rparr>) = v w"
    for v :: "'a sdk \<Rightarrow> 'c"
    unfolding estimate_input_tokens_def py_raise_sum_def
    by (intro frame_option frame_ret frame_bnd frame_try g that) (simp_all add: frame_def)
  obtain n w' where e: "estimate_input_tokens S payload w = (Inr n, w')"
    by (rule never_raisesE [OF never_raises_estimate])
  have fe: "frame sdk_engine (estimate_input_tokens S payload)"
    and fc: "frame sdk_client (estimate_input_tokens S payload)" by (rule f, simp)+
  show ?thesis using e estimate_range [OF e] frameD [OF fe e] frameD [OF fc e] by simp
qed

end
