(* ===== verification/Sdk_Client.thy ===== *)
theory Sdk_Client
  imports Sdk_Events Token_Estimator
begin

text \<open>
  The SDK client (\<open>sdk-python/src/rheonic/client.py\<close>): construction, the bounded event queue, its
  flush loop with one retry per event, and the preflight call. The steps that the code takes under
  \<open>self._lock\<close> are definitions of their own (\<open>enqueue_locked\<close>, \<open>pop_locked\<close>, \<open>count_sent\<close>,
  \<open>count_failed\<close>), so that \<open>Sdk_Queue\<close> can interleave them.
\<close>

section \<open>Construction\<close>

definition or_opt :: "string option \<Rightarrow> string option \<Rightarrow> string option" where
  "or_opt a b = (if truthy a then a else b)"

definition resolve_environment :: "'x services \<Rightarrow> string option \<Rightarrow> string" where
  "resolve_environment S explicit_environment =
     (let env = sv_environ S;
          resolved = opt_or (or_opt explicit_environment (or_opt (env ''NODE_ENV'') (or_opt (env ''APP_ENV'')
                       (or_opt (env ''ENVIRONMENT'') (env ''ENV''))))) (sc_default_environment sdk_config)
      in or_str (strip resolved) (sc_default_environment sdk_config))"

text \<open>\<open>isinstance(v, (int, float))\<close>, and the number then.\<close>

fun as_number :: "pyval \<Rightarrow> rat option" where
  "as_number (PInt i) = Some (of_int i)"
| "as_number (PBool b) = Some (if b then 1 else 0)"
| "as_number (PFloat x) = Some x"
| "as_number _ = None"

definition not_positive :: "pyval \<Rightarrow> bool" where
  "not_positive v = (case as_number v of None \<Rightarrow> True | Some x \<Rightarrow> x \<le> 0)"

definition fail_if :: "bool \<Rightarrow> string \<Rightarrow> ('w, unit) py" where
  "fail_if b message = (if b then raise (RHEONICValidationError message) else ret ())"

text \<open>\<open>v in {...}\<close> hashes \<open>v\<close>: a list or a \<open>dict\<close> raises.\<close>

definition member_of :: "pyval \<Rightarrow> string list \<Rightarrow> ('w, bool) py" where
  "member_of v names =
     (case v of PList _ \<Rightarrow> raise TypeError | PDict _ \<Rightarrow> raise TypeError
      | PStr s \<Rightarrow> ret (s \<in> set names) | _ \<Rightarrow> ret False)"

definition validate_client_config ::
  "pyval \<Rightarrow> pyval \<Rightarrow> pyval \<Rightarrow> pyval \<Rightarrow> pyval \<Rightarrow> pyval \<Rightarrow> pyval \<Rightarrow> pyval \<Rightarrow> pyval \<Rightarrow> ('w, unit) py" where
  "validate_client_config ingest_key base_url environment flush_interval_s max_queue_size overflow_policy
     request_timeout_s protect_fail_mode debug =
     bnd (fail_if (blank ingest_key) ''RHEONIC: ingest_key must be a non-empty string.'') (\<lambda>_.
     bnd (fail_if (base_url \<noteq> PNone \<and> blank base_url) ''RHEONIC: base_url must be a non-empty string.'') (\<lambda>_.
     bnd (fail_if (blank environment) ''RHEONIC: environment must be a non-empty string.'') (\<lambda>_.
     bnd (fail_if (not_positive flush_interval_s) ''RHEONIC: flush_interval_s must be a positive number.'') (\<lambda>_.
     bnd (fail_if (case as_int max_queue_size of None \<Rightarrow> True | Some n \<Rightarrow> n < 1)
           ''RHEONIC: max_queue_size must be a positive integer.'') (\<lambda>_.
     bnd (member_of overflow_policy [''drop_oldest'', ''drop_newest'']) (\<lambda>known.
     bnd (fail_if (\<not> known) (''RHEONIC: overflow_policy must be '' @ [CHR 0x27] @ ''drop_oldest'' @ [CHR 0x27]
           @ '' or '' @ [CHR 0x27] @ ''drop_newest'' @ [CHR 0x27] @ ''.'')) (\<lambda>_.
     bnd (fail_if (not_positive request_timeout_s) ''RHEONIC: request_timeout_s must be a positive number.'') (\<lambda>_.
     bnd (member_of protect_fail_mode [''open'', ''closed'']) (\<lambda>known.
     bnd (fail_if (\<not> known) (''RHEONIC: protect_fail_mode must be '' @ [CHR 0x27] @ ''open'' @ [CHR 0x27]
           @ '' or '' @ [CHR 0x27] @ ''closed'' @ [CHR 0x27] @ ''.'')) (\<lambda>_.
     fail_if (as_bool debug = None) ''RHEONIC: debug must be a boolean.''))))))))))"

text \<open>\<open>self.<field>\<close> and \<open>self.<field> = ...\<close>.\<close>

definition client :: "(Client \<Rightarrow> 'a) \<Rightarrow> ('x sdk, 'a) py" where
  "client f = gets (\<lambda>w. f (sdk_client w))"

definition set_client :: "(Client \<Rightarrow> Client) \<Rightarrow> ('x sdk, unit) py" where
  "set_client f = modify (\<lambda>w. w\<lparr>sdk_client := f (sdk_client w)\<rparr>)"

definition warm_connections :: "'x services \<Rightarrow> ('x sdk, unit) py" where
  "warm_connections S =
     bnd (bind_current_context S) (\<lambda>context_tokens.
     bnd (try_except
            (bnd (client id) (\<lambda>self. bnd get_trace_id (\<lambda>tid. bnd get_span_id (\<lambda>sid.
             bnd (case sv_http S of None \<Rightarrow> raise TypeError
                    | Some h \<Rightarrow> call (hc_get h (cn_base_url self @ ''/health'')
                        [(''X-Trace-ID'', tid), (''X-Span-ID'', sid)] (Timeout (min (cn_request_timeout_s self) 1))))
               (\<lambda>response. bnd (status_code_of response) (\<lambda>_. ret ()))))))
            (\<lambda>_. ret ())) (\<lambda>_.
     finally_py
       (try_except
          (bnd (bind_current_context S) (\<lambda>bootstrap_tokens.
           finally_py (bootstrap S) (reset_trace_context bootstrap_tokens)))
          (\<lambda>_. ret ()))
       (reset_trace_context context_tokens)))"

text \<open>The attributes of a string and of a number, once validated.\<close>

definition sdk_text_of :: "pyval \<Rightarrow> string" where
  "sdk_text_of v = (case as_str v of Some s \<Rightarrow> s | None \<Rightarrow> [])"

definition number_of :: "pyval \<Rightarrow> rat" where
  "number_of v = (case as_number v of Some x \<Rightarrow> x | None \<Rightarrow> 0)"

definition new_client :: "'x services \<Rightarrow> pyval \<Rightarrow> pyval \<Rightarrow> pyval \<Rightarrow> pyval \<Rightarrow> pyval \<Rightarrow> pyval \<Rightarrow> pyval \<Rightarrow> Client" where
  "new_client S ingest_key base_url environment max_queue_size overflow_policy request_timeout_s
     protect_fail_mode = \<lparr>
     cn_ingest_key = sdk_text_of ingest_key,
     cn_base_url = rstrip_char (CHR ''/'') (opt_or (or_opt (as_str base_url) (sv_environ S ''RHEONIC_BASE_URL''))
                     (sc_default_base_url sdk_config)),
     cn_environment = resolve_environment S (as_str environment),
     cn_max_queue_size = (case as_int max_queue_size of Some n \<Rightarrow> n | None \<Rightarrow> 0),
     cn_overflow_policy = sdk_text_of overflow_policy,
     cn_request_timeout_s = number_of request_timeout_s,
     cn_protect_fail_mode = sdk_text_of protect_fail_mode,
     cn_queue = [], cn_dropped = 0, cn_sent = 0, cn_failed = 0, cn_stopped = False, cn_is_closed = False \<rparr>"

definition client_init ::
  "'x services \<Rightarrow> pyval \<Rightarrow> pyval \<Rightarrow> pyval \<Rightarrow> pyval \<Rightarrow> pyval \<Rightarrow> pyval \<Rightarrow> pyval \<Rightarrow> pyval \<Rightarrow> pyval \<Rightarrow> ('x sdk, unit) py" where
  "client_init S ingest_key base_url environment flush_interval_s max_queue_size overflow_policy
     request_timeout_s protect_fail_mode debug =
     logged (
       bnd (validate_client_config ingest_key base_url environment flush_interval_s max_queue_size overflow_policy
              request_timeout_s protect_fail_mode debug) (\<lambda>_.
       bnd (set_client (\<lambda>_. new_client S ingest_key base_url environment max_queue_size overflow_policy
              request_timeout_s protect_fail_mode)) (\<lambda>_.
       bnd (prewarm_token_estimator S None) (\<lambda>_.
       bnd (let m = strip (opt_or (sv_environ S ''RHEONIC_MODEL'') [])
            in when_py (m \<noteq> []) (prewarm_token_estimator S (Some m))) (\<lambda>_.
       bnd (client id) (\<lambda>self.
       bnd (set_engine (\<lambda>_. protect_engine_init (cn_base_url self) (cn_ingest_key self) (cn_environment self)
              (cn_request_timeout_s self) (cn_protect_fail_mode self)
              (sc_internal_protect_decision_timeout_ms sdk_config))) (\<lambda>_.
       warm_connections S)))))))"

section \<open>The event queue\<close>

text \<open>The body of the lock in \<open>capture_event\<close>; \<open>popleft\<close> raises on an empty queue.\<close>

definition enqueue_locked :: "pydict \<Rightarrow> Client \<Rightarrow> exn + Client" where
  "enqueue_locked event c =
     (if int (length (cn_queue c)) \<ge> cn_max_queue_size c
      then if cn_overflow_policy c = ''drop_oldest''
           then if cn_queue c = [] then Inl IndexError
                else Inr (c\<lparr>cn_queue := tl (cn_queue c) @ [event], cn_dropped := cn_dropped c + 1\<rparr>)
           else Inr (c\<lparr>cn_dropped := cn_dropped c + 1\<rparr>)
      else Inr (c\<lparr>cn_queue := cn_queue c @ [event]\<rparr>))"

definition capture_event :: "'x services \<Rightarrow> pydict \<Rightarrow> ('x sdk, unit) py" where
  "capture_event S event =
     try_except
       (bnd (normalize_event_payload S event) (\<lambda>normalized.
        bnd (client id) (\<lambda>self.
        let event = dset ''environment'' (if truth (dget normalized ''environment'')
              then dget normalized ''environment'' else PStr (cn_environment self)) normalized
        in case enqueue_locked event self of
             Inl e \<Rightarrow> raise e
           | Inr c \<Rightarrow> set_client (\<lambda>_. c))))
       (\<lambda>e. case e of
          RHEONICValidationError _ \<Rightarrow> raise e
        | _ \<Rightarrow> raise (RHEONICValidationError ''RHEONIC: invalid event payload.''))"

definition pop_locked :: "Client \<Rightarrow> (pydict \<times> Client) option" where
  "pop_locked c = (case cn_queue c of [] \<Rightarrow> None | ev # rest \<Rightarrow> Some (ev, c\<lparr>cn_queue := rest\<rparr>))"

definition count_sent :: "Client \<Rightarrow> Client" where
  "count_sent c = c\<lparr>cn_sent := cn_sent c + 1\<rparr>"

definition count_failed :: "Client \<Rightarrow> Client" where
  "count_failed c = c\<lparr>cn_failed := cn_failed c + 1\<rparr>"

definition client_stats :: "Client \<Rightarrow> pydict" where
  "client_stats c = [(''queued'', PInt (int (length (cn_queue c)))), (''dropped'', PInt (cn_dropped c)),
     (''sent'', PInt (cn_sent c)), (''failed'', PInt (cn_failed c))]"

text \<open>One attempt: whether it succeeded, and whether a failure is worth a retry.\<close>

definition send_event_once :: "'x services \<Rightarrow> pydict \<Rightarrow> ('x sdk, bool \<times> bool) py" where
  "send_event_once S event =
     bnd (bind_current_context S) (\<lambda>context_tokens.
     finally_py
       (try_except
          (bnd (client id) (\<lambda>self. bnd get_trace_id (\<lambda>tid. bnd get_span_id (\<lambda>sid.
           bnd (case sv_http S of None \<Rightarrow> raise TypeError
                  | Some h \<Rightarrow> call (hc_post h (cn_base_url self @ ''/api/v1/events'') event
                      [(''Content-Type'', ''application/json''), (''X-Project-Ingest-Key'', cn_ingest_key self),
                       (''X-Trace-ID'', tid), (''X-Span-ID'', sid)] No_timeout)) (\<lambda>response.
           bnd (status_code_of response) (\<lambda>status_code.
           ret (if 200 \<le> status_code \<and> status_code < 300 then (True, False)
                else if status_code \<ge> 500 then (False, True) else (False, False))))))))
          (\<lambda>_. ret (False, True)))
       (reset_trace_context context_tokens))"

definition send_event :: "'x services \<Rightarrow> pydict \<Rightarrow> ('x sdk, unit) py" where
  "send_event S event =
     bnd (send_event_once S event) (\<lambda>(first_attempt_ok, should_retry).
     if first_attempt_ok then set_client count_sent
     else if \<not> should_retry then set_client count_failed
     else bnd (ext (sv_uniform S (sc_retry_delay_min_s sdk_config) (sc_retry_delay_max_s sdk_config))) (\<lambda>delay.
          bnd (ext (sv_sleep S delay)) (\<lambda>_.
          bnd (send_event_once S event) (\<lambda>(second_attempt_ok, _).
          if second_attempt_ok then set_client count_sent else set_client count_failed))))"

text \<open>\<open>deadline is not None and time.monotonic() >= deadline\<close>.\<close>

definition past_deadline :: "'x services \<Rightarrow> rat option \<Rightarrow> ('x sdk, bool) py" where
  "past_deadline S deadline =
     (case deadline of None \<Rightarrow> ret False | Some d \<Rightarrow> bnd (ext (sv_monotonic S)) (\<lambda>t. ret (t \<ge> d)))"

section \<open>The flush loop ends\<close>

text \<open>Sending never raises, keeps the queue and counts the event once.\<close>

abbreviation queue_view :: "'x sdk \<Rightarrow> Client" where
  "queue_view w \<equiv> (sdk_client w)\<lparr>cn_sent := 0, cn_failed := 0\<rparr>"

lemma frame_client: "frame v (client f)"
  by (simp add: client_def)

lemma frame_status_code: "frame v (status_code_of r)"
  unfolding status_code_of_def by (intro frame_option frame_ret frame_raise)

lemma frame_send_once:
  assumes "\<And>w x. v (w\<lparr>sdk_x := x\<rparr>) = v w" "\<And>w t s. v (w\<lparr>sdk_trace_id := t, sdk_span_id := s\<rparr>) = v w"
  shows "frame v (send_event_once S event)"
  unfolding send_event_once_def
  by (intro frame_bnd frame_finally frame_try frame_option frame_call frame_raise frame_ret frame_ids
      frame_bind_trace_context frame_client frame_status_code assms)

lemma never_raises_client [intro, simp]: "never_raises (client f)" "never_raises (set_client g)"
  by (simp_all add: client_def set_client_def)

lemma never_raises_send_once: "never_raises (send_event_once S event)"
  unfolding send_event_once_def
  by (intro never_raises_bnd never_raises_finally never_raises_try never_raises_ret never_raises_context)

lemma send_event_run:
  "\<exists>w'. send_event S event w = (Inr (), w') \<and> sdk_engine w' = sdk_engine w \<and>
     (sdk_client w' = count_sent (sdk_client w) \<or> sdk_client w' = count_failed (sdk_client w))"
proof -
  have one: "\<exists>a b w'. send_event_once S event w = (Inr (a, b), w') \<and> sdk_client w' = sdk_client w
     \<and> sdk_engine w' = sdk_engine w" for w :: "'a sdk"
  proof -
    obtain r w' where r: "send_event_once S event w = (Inr r, w')"
      by (rule never_raisesE [OF never_raises_send_once])
    have c: "frame sdk_client (send_event_once S event)" and e: "frame sdk_engine (send_event_once S event)"
      by (rule frame_send_once, simp_all)+
    show ?thesis using r frameD [OF c r] frameD [OF e r] by (cases r) auto
  qed
  obtain a b w1 where 1: "send_event_once S event w = (Inr (a, b), w1)" "sdk_client w1 = sdk_client w"
    "sdk_engine w1 = sdk_engine w" using one by blast
  define w2 where "w2 = snd (bnd (ext (sv_uniform S (sc_retry_delay_min_s sdk_config) (sc_retry_delay_max_s sdk_config)))
     (\<lambda>delay. ext (sv_sleep S delay)) w1)"
  obtain a' b' w3 where 3: "send_event_once S event w2 = (Inr (a', b'), w3)" "sdk_client w3 = sdk_client w2"
    "sdk_engine w3 = sdk_engine w2" using one by blast
  show ?thesis
    using 1 3 by (cases a; cases b; cases a')
      (auto simp: send_event_def bnd_def ext_run set_client_def w2_def)
qed

lemma past_deadline_client: "past_deadline S d w = (r, w') \<Longrightarrow> sdk_client w' = sdk_client w"
  by (auto simp: past_deadline_def bnd_def ext_run split: option.splits)

lemma send_event_queue: "send_event S event w = (r, w') \<Longrightarrow> cn_queue (sdk_client w') = cn_queue (sdk_client w)"
  using send_event_run [of S event w] by (auto simp: count_sent_def count_failed_def)

text \<open>
  Every round takes one event off the queue, so its length bounds the number of rounds (other threads
  are left out here; \<open>Sdk_Queue\<close> interleaves them).
\<close>

function flush_loop :: "'x services \<Rightarrow> rat option \<Rightarrow> ('x sdk, unit) py" where
  "flush_loop S deadline w =
     (case past_deadline S deadline w of
        (Inl e, w1) \<Rightarrow> (Inl e, w1)
      | (Inr stop, w1) \<Rightarrow>
          if stop then (Inr (), w1)
          else case pop_locked (sdk_client w1) of
              None \<Rightarrow> (Inr (), w1)
            | Some (event, c) \<Rightarrow>
                (case send_event S event (w1\<lparr>sdk_client := c\<rparr>) of
                   (Inl e, w2) \<Rightarrow> (Inl e, w2)
                 | (Inr _, w2) \<Rightarrow> flush_loop S deadline w2))"
  by pat_completeness auto

termination
  by (relation "measure (\<lambda>(S, d, w). length (cn_queue (sdk_client w)))")
    (auto simp: pop_locked_def dest!: past_deadline_client [OF sym] send_event_queue [OF sym] split: list.splits)

declare flush_loop.simps [simp del]

definition flush :: "'x services \<Rightarrow> rat option \<Rightarrow> ('x sdk, unit) py" where
  "flush S timeout_s =
     bnd (case timeout_s of None \<Rightarrow> ret None
            | Some t \<Rightarrow> bnd (ext (sv_monotonic S)) (\<lambda>now. ret (Some (fl (now + t))))) (\<lambda>deadline.
     try_except (flush_loop S deadline) (\<lambda>_. ret ()))"

definition capture_event_and_flush :: "'x services \<Rightarrow> pydict \<Rightarrow> rat option \<Rightarrow> ('x sdk, unit) py" where
  "capture_event_and_flush S event timeout_s =
     bnd (capture_event S event) (\<lambda>_. flush S timeout_s)"

text \<open>One round of the worker thread: \<open>False\<close> when it has been told to stop.\<close>

definition run_flush_round :: "'x services \<Rightarrow> ('x sdk, bool) py" where
  "run_flush_round S =
     bnd (client cn_stopped) (\<lambda>stopped.
     if stopped then ret False
     else bnd (flush S (Some (sc_default_flush_timeout_s sdk_config))) (\<lambda>_. ret True))"

definition client_close :: "'x services \<Rightarrow> ('x sdk, unit) py" where
  "client_close S =
     try_except
       (bnd (client cn_is_closed) (\<lambda>closed.
        if closed then ret ()
        else bnd (set_client (\<lambda>c. c\<lparr>cn_is_closed := True, cn_stopped := True\<rparr>)) (\<lambda>_.
             bnd (flush S (Some (sc_default_flush_timeout_s sdk_config))) (\<lambda>_.
             case sv_http S of None \<Rightarrow> raise TypeError | Some h \<Rightarrow> call (hc_close h)))))
       (\<lambda>_. ret ())"

section \<open>Preflight\<close>

definition preflight_protect_decision :: "'x services \<Rightarrow> pydict \<Rightarrow> ('x sdk, pydict) py" where
  "preflight_protect_decision S context =
     try_except
       (bnd get_trace_id (\<lambda>t. bnd get_span_id (\<lambda>s.
        let or_current = (\<lambda>v current. if truth v then v else if current \<noteq> [] then PStr current else PNone)
        in evaluate S (dmerge context [(''trace_id'', or_current (dget context ''trace_id'') t),
                                       (''span_id'', or_current (dget context ''span_id'') s)]))))
       (\<lambda>_. bnd (generate_trace_id S) (\<lambda>trace_id.
        bnd (uuid4_hex S) (\<lambda>request_id.
        bnd (client cn_protect_fail_mode) (\<lambda>fail_mode.
        ret (if fail_mode = ''closed''
             then [(''decision'', PStr ''block''), (''reason'', PStr ''fail_closed''),
                   (''trace_id'', PStr trace_id), (''request_id'', PStr request_id)]
             else [(''decision'', PStr ''allow''), (''reason'', PStr ''decision_unavailable''),
                   (''trace_id'', PStr trace_id), (''request_id'', PStr request_id)])))))"

end
