(* ===== verification/Sdk_Queue.thy ===== *)
theory Sdk_Queue
  imports Sdk_Client "HOL-Library.Sublist" "HOL-Library.Multiset"
begin

text \<open>
  The event queue of the SDK client under concurrency. Threads of the application capture events while
  the worker thread, and every thread that calls \<open>flush\<close>, take events off the queue and send them.
  Each step of \<open>queue_step\<close> is one body of the code's lock; the invariant accounts for every captured
  event. The sequential operations are runs of these steps.
\<close>

section \<open>Flushing\<close>

definition same_setup :: "Client \<Rightarrow> Client \<Rightarrow> bool" where
  "same_setup c c' \<longleftrightarrow> cn_max_queue_size c' = cn_max_queue_size c \<and> cn_overflow_policy c' = cn_overflow_policy c
     \<and> cn_dropped c' = cn_dropped c \<and> cn_is_closed c' = cn_is_closed c \<and> cn_stopped c' = cn_stopped c"

lemma flush_loop_run:
  "\<exists>w' k. flush_loop S d w = (Inr (), w') \<and> k \<le> length (cn_queue (sdk_client w)) \<and>
     cn_queue (sdk_client w') = drop k (cn_queue (sdk_client w)) \<and>
     cn_sent (sdk_client w') + cn_failed (sdk_client w') = cn_sent (sdk_client w) + cn_failed (sdk_client w) + int k \<and>
     same_setup (sdk_client w) (sdk_client w') \<and> (d = None \<longrightarrow> k = length (cn_queue (sdk_client w)))"
proof (induction S d w rule: flush_loop.induct)
  case (1 S d w)
  obtain stop w1 where p: "past_deadline S d w = (Inr stop, w1)"
    by (cases d) (auto simp: past_deadline_def bnd_def ext_run)
  have c1: "sdk_client w1 = sdk_client w" by (rule past_deadline_client [OF p])
  have dn: "d = None \<Longrightarrow> \<not> stop" using p by (simp add: past_deadline_def)
  note run = flush_loop.simps [of S d w, unfolded p prod.case sum.case c1]
  show ?case
  proof (cases "stop \<or> cn_queue (sdk_client w) = []")
    case True
    then have "flush_loop S d w = (Inr (), w1)" by (auto simp: run pop_locked_def)
    then show ?thesis
      using True c1 dn by (intro exI [of _ w1] exI [of _ 0]) (auto simp: same_setup_def)
  next
    case False
    then obtain ev q where q: "cn_queue (sdk_client w) = ev # q" by (cases "cn_queue (sdk_client w)") auto
    let ?w = "w1\<lparr>sdk_client := (sdk_client w)\<lparr>cn_queue := q\<rparr>\<rparr>"
    have pop: "pop_locked (sdk_client w) = Some (ev, (sdk_client w)\<lparr>cn_queue := q\<rparr>)"
      by (simp add: pop_locked_def q)
    obtain w2 where s: "send_event S ev ?w = (Inr (), w2)"
      "sdk_client w2 = count_sent (sdk_client ?w) \<or> sdk_client w2 = count_failed (sdk_client ?w)"
      using send_event_run [of S ev ?w] by blast
    have r: "flush_loop S d w = flush_loop S d w2" using False pop s(1) by (simp add: run)
    have q2: "cn_queue (sdk_client w2) = q" "same_setup (sdk_client w) (sdk_client w2)"
      "cn_sent (sdk_client w2) + cn_failed (sdk_client w2) = cn_sent (sdk_client w) + cn_failed (sdk_client w) + 1"
      using s(2) by (auto simp: count_sent_def count_failed_def same_setup_def)
    have pop1: "pop_locked (sdk_client w1) = Some (ev, (sdk_client w)\<lparr>cn_queue := q\<rparr>)" using pop c1 by simp
    obtain w' k where ih: "flush_loop S d w2 = (Inr (), w')" "k \<le> length q"
      "cn_queue (sdk_client w') = drop k q"
      "cn_sent (sdk_client w') + cn_failed (sdk_client w') = cn_sent (sdk_client w2) + cn_failed (sdk_client w2) + int k"
      "same_setup (sdk_client w2) (sdk_client w')" "d = None \<longrightarrow> k = length q"
      using "1.IH" [OF p [symmetric] refl _ pop1 refl s(1) [symmetric] refl] False q2(1) by auto
    then show ?thesis
      using r q2 by (intro exI [of _ w'] exI [of _ "Suc k"]) (auto simp: q same_setup_def)
  qed
qed


section \<open>Interleaved steps\<close>

text \<open>
  The shared client, the events threads have taken and not yet counted, and what has happened so far:
  the events captured, in order, those the overflow policy lost, and those sent or failed.
\<close>

record queue_state =
  qs_client :: Client
  qs_in_flight :: "pydict multiset"
  qs_captured :: "pydict list"
  qs_lost :: "pydict multiset"
  qs_finished :: "pydict multiset"

text \<open>The event that the overflow policy loses when \<open>event\<close> is captured, if any.\<close>

definition lost_by :: "pydict \<Rightarrow> Client \<Rightarrow> pydict multiset" where
  "lost_by event c =
     (if int (length (cn_queue c)) \<ge> cn_max_queue_size c
      then if cn_overflow_policy c = ''drop_oldest'' then {#hd (cn_queue c)#} else {#event#}
      else {#})"

inductive queue_step :: "queue_state \<Rightarrow> queue_state \<Rightarrow> bool" where
  captured: "enqueue_locked event (qs_client s) = Inr c \<Longrightarrow>
     queue_step s (s\<lparr>qs_client := c, qs_captured := qs_captured s @ [event],
                     qs_lost := qs_lost s + lost_by event (qs_client s)\<rparr>)"
| taken: "pop_locked (qs_client s) = Some (event, c) \<Longrightarrow>
     queue_step s (s\<lparr>qs_client := c, qs_in_flight := add_mset event (qs_in_flight s)\<rparr>)"
| sent: "event \<in># qs_in_flight s \<Longrightarrow>
     queue_step s (s\<lparr>qs_client := count_sent (qs_client s), qs_in_flight := qs_in_flight s - {#event#},
                     qs_finished := add_mset event (qs_finished s)\<rparr>)"
| failed: "event \<in># qs_in_flight s \<Longrightarrow>
     queue_step s (s\<lparr>qs_client := count_failed (qs_client s), qs_in_flight := qs_in_flight s - {#event#},
                     qs_finished := add_mset event (qs_finished s)\<rparr>)"

inductive_cases queue_stepE: "queue_step s s'"

definition queue_start :: "Client \<Rightarrow> queue_state" where
  "queue_start c = \<lparr> qs_client = c, qs_in_flight = {#}, qs_captured = [], qs_lost = {#}, qs_finished = {#} \<rparr>"

definition fresh :: "Client \<Rightarrow> bool" where
  "fresh c \<longleftrightarrow> cn_queue c = [] \<and> cn_dropped c = 0 \<and> cn_sent c = 0 \<and> cn_failed c = 0 \<and> 1 \<le> cn_max_queue_size c"

definition account_inv :: "queue_state \<Rightarrow> bool" where
  "account_inv s \<longleftrightarrow> (let c = qs_client s in
     mset (qs_captured s) = mset (cn_queue c) + qs_in_flight s + qs_lost s + qs_finished s \<and>
     cn_dropped c = int (size (qs_lost s)) \<and> cn_sent c + cn_failed c = int (size (qs_finished s)) \<and>
     int (length (cn_queue c)) \<le> cn_max_queue_size c \<and> 1 \<le> cn_max_queue_size c \<and>
     (cn_overflow_policy c = ''drop_oldest'' \<longrightarrow> suffix (cn_queue c) (qs_captured s)))"

lemma account_inv_start: "fresh c \<Longrightarrow> account_inv (queue_start c)"
  by (simp add: fresh_def account_inv_def queue_start_def)

lemma suffix_tl_snoc: "suffix q xs \<Longrightarrow> suffix (tl q @ [x]) (xs @ [x])"
  by (metis suffix_order.trans suffix_snoc suffix_tl snoc_suffix_snoc)

lemma account_inv_step:
  assumes "queue_step s s'" "account_inv s"
  shows "account_inv s'"
  using assms(1)
proof (cases rule: queue_step.cases)
  case (captured event c)
  note inv = assms(2) [unfolded account_inv_def Let_def]
  show ?thesis
  proof (cases "int (length (cn_queue (qs_client s))) \<ge> cn_max_queue_size (qs_client s)")
    case False
    then have "c = (qs_client s)\<lparr>cn_queue := cn_queue (qs_client s) @ [event]\<rparr>"
      using captured(2) by (simp add: enqueue_locked_def)
    then show ?thesis using inv False captured(1) by (simp add: account_inv_def lost_by_def)
  next
    case full: True
    then obtain x q where q: "cn_queue (qs_client s) = x # q"
      using inv by (cases "cn_queue (qs_client s)") auto
    show ?thesis
    proof (cases "cn_overflow_policy (qs_client s) = ''drop_oldest''")
      case True
      then have "c = (qs_client s)\<lparr>cn_queue := q @ [event], cn_dropped := cn_dropped (qs_client s) + 1\<rparr>"
        using captured(2) full q by (simp add: enqueue_locked_def)
      then show ?thesis
        using inv full q True captured(1) suffix_tl_snoc [of "x # q" "qs_captured s" event]
        by (simp add: account_inv_def lost_by_def)
    next
      case False
      then have "c = (qs_client s)\<lparr>cn_dropped := cn_dropped (qs_client s) + 1\<rparr>"
        using captured(2) full by (simp add: enqueue_locked_def)
      then show ?thesis using inv full False captured(1) by (simp add: account_inv_def lost_by_def)
    qed
  qed
next
  case (taken event c)
  then obtain q where q: "cn_queue (qs_client s) = event # q" "c = (qs_client s)\<lparr>cn_queue := q\<rparr>"
    by (auto simp: pop_locked_def split: list.splits)
  have "suffix q xs" if "suffix (event # q) xs" for xs using that by (rule suffix_ConsD)
  then show ?thesis using assms(2) q taken(1) by (auto simp: account_inv_def Let_def)
next
  case (sent event)
  then obtain f where "qs_in_flight s = add_mset event f" by (auto dest: multi_member_split)
  then show ?thesis using assms(2) sent(1) by (auto simp: account_inv_def Let_def count_sent_def)
next
  case (failed event)
  then obtain f where "qs_in_flight s = add_mset event f" by (auto dest: multi_member_split)
  then show ?thesis using assms(2) failed(1) by (auto simp: account_inv_def Let_def count_failed_def)
qed

lemma account_inv_steps: "queue_step\<^sup>*\<^sup>* s s' \<Longrightarrow> account_inv s \<Longrightarrow> account_inv s'"
  by (induction rule: rtranclp_induct) (auto intro: account_inv_step)

lemma steps_setup:
  "queue_step\<^sup>*\<^sup>* s s' \<Longrightarrow> cn_max_queue_size (qs_client s') = cn_max_queue_size (qs_client s) \<and>
     cn_overflow_policy (qs_client s') = cn_overflow_policy (qs_client s)"
  by (induction rule: rtranclp_induct)
    (auto elim!: queue_stepE simp: enqueue_locked_def pop_locked_def count_sent_def count_failed_def
      split: if_splits list.splits)

text \<open>
  C11: however the threads interleave, no event is lost unaccounted: the captured events are exactly
  those queued, in flight, dropped, and sent or failed, and the statistics count them. The queue never
  exceeds its bound, and under \<open>drop_oldest\<close> it holds the most recent events, in order.
\<close>

theorem queue_accounts:
  assumes "queue_step\<^sup>*\<^sup>* (queue_start c) s" "fresh c"
  shows "mset (qs_captured s) = mset (cn_queue (qs_client s)) + qs_in_flight s + qs_lost s + qs_finished s \<and>
     int (length (qs_captured s)) = int (length (cn_queue (qs_client s))) + int (size (qs_in_flight s))
       + cn_dropped (qs_client s) + cn_sent (qs_client s) + cn_failed (qs_client s) \<and>
     int (length (cn_queue (qs_client s))) \<le> cn_max_queue_size c \<and>
     (cn_overflow_policy c = ''drop_oldest'' \<longrightarrow> suffix (cn_queue (qs_client s)) (qs_captured s))"
proof -
  have i: "account_inv s" using account_inv_steps [OF assms(1) account_inv_start [OF assms(2)]] .
  then have "size (mset (qs_captured s)) = size (mset (cn_queue (qs_client s)) + qs_in_flight s + qs_lost s + qs_finished s)"
    unfolding account_inv_def Let_def by metis
  then show ?thesis
    using i steps_setup [OF assms(1)] by (simp add: account_inv_def queue_start_def Let_def)
qed

text \<open>Three captures into a queue of two, one of them in flight afterwards.\<close>

definition demo_event :: "int \<Rightarrow> pydict" where
  "demo_event i = [(''ts'', PInt i)]"

definition demo_queue_end :: queue_state where
  "demo_queue_end = \<lparr> qs_client = demo_client\<lparr>cn_dropped := 1, cn_queue := [demo_event 3]\<rparr>,
     qs_in_flight = {#demo_event 2#}, qs_captured = [demo_event 1, demo_event 2, demo_event 3],
     qs_lost = {#demo_event 1#}, qs_finished = {#} \<rparr>"

lemma demo_queue_run: "queue_step\<^sup>*\<^sup>* (queue_start demo_client) demo_queue_end"
proof -
  let ?e1 = "demo_event 1" and ?e2 = "demo_event 2" and ?e3 = "demo_event 3"
  have o: "cn_overflow_policy demo_client = ''drop_oldest''" "cn_queue demo_client = []"
    "cn_max_queue_size demo_client = 2" "cn_dropped demo_client = 0" by (simp_all add: demo_client_def)
  let ?s0 = "queue_start demo_client"
  let ?s1 = "?s0\<lparr>qs_client := demo_client\<lparr>cn_queue := [?e1]\<rparr>, qs_captured := [?e1]\<rparr>"
  let ?s2 = "?s0\<lparr>qs_client := demo_client\<lparr>cn_queue := [?e1, ?e2]\<rparr>, qs_captured := [?e1, ?e2]\<rparr>"
  let ?s3 = "?s0\<lparr>qs_client := demo_client\<lparr>cn_queue := [?e2, ?e3], cn_dropped := 1\<rparr>,
     qs_captured := [?e1, ?e2, ?e3], qs_lost := {#?e1#}\<rparr>"
  have 1: "queue_step ?s0 ?s1" using queue_step.captured [of ?e1 ?s0]
    by (simp add: enqueue_locked_def queue_start_def lost_by_def o)
  have 2: "queue_step ?s1 ?s2" using queue_step.captured [of ?e2 ?s1]
    by (simp add: enqueue_locked_def queue_start_def lost_by_def o)
  have 3: "queue_step ?s2 ?s3" using queue_step.captured [of ?e3 ?s2]
    by (simp add: enqueue_locked_def queue_start_def lost_by_def o)
  have 4: "queue_step ?s3 demo_queue_end" using queue_step.taken [of ?s3 ?e2]
    by (simp add: pop_locked_def queue_start_def demo_queue_end_def)
  show ?thesis
    by (rule converse_rtranclp_into_rtranclp [of queue_step, OF 1], rule converse_rtranclp_into_rtranclp [of queue_step, OF 2],
        rule converse_rtranclp_into_rtranclp [of queue_step, OF 3], rule r_into_rtranclp [of queue_step, OF 4])
qed

theorem queue_accounts_witness:
  "mset (qs_captured demo_queue_end) = mset (cn_queue (qs_client demo_queue_end))
     + qs_in_flight demo_queue_end + qs_lost demo_queue_end + qs_finished demo_queue_end"
  using queue_accounts [OF demo_queue_run] by (simp add: fresh_def demo_client_def)

section \<open>The operations are runs of the steps\<close>

lemma capture_is_step:
  assumes "capture_event S event w = (Inr (), w')" "qs_client s = sdk_client w"
  shows "\<exists>s'. queue_step s s' \<and> qs_client s' = sdk_client w'"
proof -
  have fr: "frame sdk_client (normalize_event_payload S event)"
  proof -
    have f: "frame sdk_client (fail_validation m)" for m by (simp add: fail_validation_def)
    have o: "frame sdk_client (validate_optional_string v l)" "frame sdk_client (validate_optional_number v l)"
      "frame sdk_client (require_text v l)" for v l
      unfolding validate_optional_string_def validate_optional_number_def require_text_def
      by (intro frame_if f frame_ret)+
    have m: "frame sdk_client (validate_mapping v ks l)" for v ks l
      unfolding validate_mapping_def by (intro frame_if frame_option frame_ret f)
    have v: "frame sdk_client (validate_request r)" "frame sdk_client (validate_response r)" for r
      unfolding validate_request_def validate_response_def request_checks_def response_checks_def
        string_field_def number_field_def
      by (intro frame_bnd m seq_all_frame frame_ret; auto intro: o)+
    have e: "frame sdk_client (event_dict S a b c d e f g h)" for a b c d e f g h
      unfolding event_dict_def ts_or_now_def by (intro frame_bnd frame_if frame_ret frame_ext v) simp
    have b: "frame sdk_client (build_event S a b c d e f g)"
      "frame sdk_client (build_internal_event S a b c d e f g h)" for a b c d e f g h
      unfolding build_event_def build_internal_event_def by (intro frame_bnd o e)+
    show ?thesis
      unfolding normalize_event_payload_def normalize_internal_def normalize_public_def Let_def
      by (auto intro!: frame_if frame_bnd f o b split: list.split)
  qed
  obtain n w1 where n: "normalize_event_payload S event w = (Inr n, w1)"
    using assms(1) by (auto simp: capture_event_def try_except_def bnd_def split: prod.splits sum.splits exn.splits)
  have c1: "sdk_client w1 = sdk_client w" using frameD [OF fr n] by simp
  let ?e = "dset ''environment'' (if truth (dget n ''environment'') then dget n ''environment''
     else PStr (cn_environment (sdk_client w1))) n"
  obtain c where c: "enqueue_locked ?e (sdk_client w1) = Inr c"
    using assms(1) n by (cases "enqueue_locked ?e (sdk_client w1)")
      (auto simp: capture_event_def try_except_def bnd_def client_def Let_def split: exn.splits)
  then have "sdk_client w' = c"
    using assms(1) n by (auto simp: capture_event_def try_except_def bnd_def client_def set_client_def Let_def)
  then show ?thesis using queue_step.captured [of ?e s c] c assms(2) c1 by auto
qed

lemma flush_is_steps:
  "flush_loop S d w = (Inr (), w') \<Longrightarrow> qs_client s = sdk_client w \<Longrightarrow>
     \<exists>s'. queue_step\<^sup>*\<^sup>* s s' \<and> qs_client s' = sdk_client w' \<and> qs_in_flight s' = qs_in_flight s"
proof (induction S d w arbitrary: s rule: flush_loop.induct)
  case (1 S d w)
  obtain stop w1 where p: "past_deadline S d w = (Inr stop, w1)"
    by (cases d) (auto simp: past_deadline_def bnd_def ext_run)
  have c1: "sdk_client w1 = sdk_client w" by (rule past_deadline_client [OF p])
  note run = flush_loop.simps [of S d w, unfolded p prod.case sum.case c1]
  show ?case
  proof (cases "stop \<or> pop_locked (sdk_client w) = None")
    case True
    then have "w' = w1" using "1.prems"(1) by (auto simp: run split: option.splits)
    then show ?thesis using c1 "1.prems"(2) by (intro exI [of _ s]) simp
  next
    case False
    then obtain ev c where pop: "pop_locked (sdk_client w) = Some (ev, c)" by auto
    let ?w = "w1\<lparr>sdk_client := c\<rparr>"
    obtain w2 where s: "send_event S ev ?w = (Inr (), w2)"
      "sdk_client w2 = count_sent c \<or> sdk_client w2 = count_failed c"
      using send_event_run [of S ev ?w] by auto
    let ?s1 = "s\<lparr>qs_client := c, qs_in_flight := add_mset ev (qs_in_flight s)\<rparr>"
    have st1: "queue_step s ?s1" using queue_step.taken [of s ev c] pop "1.prems"(2) by simp
    have "\<exists>s2. queue_step ?s1 s2 \<and> qs_client s2 = sdk_client w2 \<and> qs_in_flight s2 = qs_in_flight s"
      using s(2) queue_step.sent [of ev ?s1] queue_step.failed [of ev ?s1] by fastforce
    then obtain s2 where st2: "queue_step ?s1 s2" "qs_client s2 = sdk_client w2"
      "qs_in_flight s2 = qs_in_flight s" by blast
    have r: "flush_loop S d w2 = (Inr (), w')" using "1.prems"(1) False pop s(1) by (simp add: run)
    have pop1: "pop_locked (sdk_client w1) = Some (ev, c)" using pop c1 by simp
    obtain s' where "queue_step\<^sup>*\<^sup>* s2 s'" "qs_client s' = sdk_client w'" "qs_in_flight s' = qs_in_flight s2"
      using "1.IH" [OF p [symmetric] refl _ pop1 refl s(1) [symmetric] refl r st2(2)] False by blast
    moreover have "queue_step\<^sup>*\<^sup>* s s2"
      using st1 st2(1) by (meson converse_rtranclp_into_rtranclp rtranclp.rtrancl_refl)
    ultimately show ?thesis using st2(3) by (metis rtranclp_trans)
  qed
qed

end
