(* ===== verification/Redis.thy ===== *)
theory Redis
  imports Prelude
begin

text \<open>
  The Redis client the backend's stores talk to (\<open>app/infrastructure/redis/redis_client.py\<close>).
  \<^item> \<open>redis_client\<close> is the record of the wrapper's methods over an arbitrary world \<open>'w\<close>;
    every store below takes it as an argument, so a theorem about a store holds for any server,
    failing ones included.
  \<^item> \<open>RedisClient\<close> is the wrapper itself, over the methods of the third-party connection.
  \<^item> the locale \<open>redis_contract\<close> is the documented behaviour of a server that answers
    (no key expires during an operation); \<open>redis_zset_contract\<close> adds \<open>ZREM\<close>.
  \<^item> \<open>fake_redis\<close> is the in-memory client of the backend's tests
    (\<open>app/tests/test_protect_decision.py\<close>), on which the contract is interpreted.
\<close>

section \<open>The client\<close>

text \<open>Objects a client answers with: \<open>bytes\<close>, \<open>str\<close> or, from the in-memory client, \<open>int\<close>.\<close>

datatype rval = RBytes string | RStr string | RInt int

text \<open>\<open>raw.decode("utf-8") if isinstance(raw, bytes) else str(raw)\<close>.\<close>

fun rtext :: "rval \<Rightarrow> string" where
  "rtext (RBytes s) = s"
| "rtext (RStr s) = s"
| "rtext (RInt i) = py_str_int i"

text \<open>Ranges of scores have an upper end that may be \<open>float("inf")\<close>, here \<open>None\<close>.\<close>

definition in_scores :: "int \<Rightarrow> int option \<Rightarrow> int \<Rightarrow> bool" where
  "in_scores lo hi s \<longleftrightarrow> lo \<le> s \<and> (case hi of None \<Rightarrow> True | Some h \<Rightarrow> s \<le> h)"

record 'w redis_client =
  r_get :: "string \<Rightarrow> ('w, rval option) py"
  r_set :: "string \<Rightarrow> string \<Rightarrow> int \<Rightarrow> ('w, unit) py"
  r_set_persistent :: "string \<Rightarrow> string \<Rightarrow> ('w, unit) py"
  r_set_nx_ex :: "string \<Rightarrow> string \<Rightarrow> int \<Rightarrow> ('w, bool) py"
  r_zadd :: "string \<Rightarrow> string \<Rightarrow> int \<Rightarrow> ('w, int) py"
  r_zremrangebyscore :: "string \<Rightarrow> int \<Rightarrow> int \<Rightarrow> ('w, int) py"
  r_zcard :: "string \<Rightarrow> ('w, int) py"
  r_zrangebyscore :: "string \<Rightarrow> int \<Rightarrow> int option \<Rightarrow> ('w, rval list) py"
  r_zrem :: "string \<Rightarrow> string \<Rightarrow> ('w, int) py"
  r_incr :: "string \<Rightarrow> ('w, int) py"
  r_incrby :: "string \<Rightarrow> int \<Rightarrow> ('w, int) py"
  r_expire :: "string \<Rightarrow> int \<Rightarrow> ('w, bool) py"
  r_delete :: "string \<Rightarrow> ('w, int) py"

section \<open>The wrapper\<close>

text \<open>
  The methods of the connection object (\<open>Redis.from_url\<close>). \<open>SET\<close> takes \<open>nx\<close> and \<open>ex\<close> and
  answers \<open>None\<close> when the key was not set.
\<close>

record 'w raw_redis =
  raw_get :: "string \<Rightarrow> ('w, rval option) py"
  raw_set :: "string \<Rightarrow> string \<Rightarrow> bool \<Rightarrow> int option \<Rightarrow> ('w, bool option) py"
  raw_zadd :: "string \<Rightarrow> string \<Rightarrow> int \<Rightarrow> ('w, int) py"
  raw_zremrangebyscore :: "string \<Rightarrow> int \<Rightarrow> int \<Rightarrow> ('w, int) py"
  raw_zcard :: "string \<Rightarrow> ('w, int) py"
  raw_zrangebyscore :: "string \<Rightarrow> int \<Rightarrow> int option \<Rightarrow> ('w, rval list) py"
  raw_zrem :: "string \<Rightarrow> string \<Rightarrow> ('w, int) py"
  raw_incr :: "string \<Rightarrow> ('w, int) py"
  raw_incrby :: "string \<Rightarrow> int \<Rightarrow> ('w, int) py"
  raw_expire :: "string \<Rightarrow> int \<Rightarrow> ('w, int) py"
  raw_delete :: "string \<Rightarrow> ('w, int) py"

definition RedisClient :: "'w raw_redis \<Rightarrow> 'w redis_client" where
  "RedisClient raw = \<lparr>
     r_get = (\<lambda>k. logged (raw_get raw k)),
     r_set = (\<lambda>k v ttl. logged (bnd (raw_set raw k v False (Some ttl)) (\<lambda>_. ret ()))),
     r_set_persistent = (\<lambda>k v. logged (bnd (raw_set raw k v False None) (\<lambda>_. ret ()))),
     r_set_nx_ex = (\<lambda>k v ttl. logged (bnd (raw_set raw k v True (Some ttl)) (\<lambda>r. ret (r = Some True)))),
     r_zadd = (\<lambda>k m s. logged (raw_zadd raw k m s)),
     r_zremrangebyscore = (\<lambda>k lo hi. logged (raw_zremrangebyscore raw k lo hi)),
     r_zcard = (\<lambda>k. logged (raw_zcard raw k)),
     r_zrangebyscore = (\<lambda>k lo hi. logged (raw_zrangebyscore raw k lo hi)),
     r_zrem = (\<lambda>k m. logged (raw_zrem raw k m)),
     r_incr = (\<lambda>k. logged (raw_incr raw k)),
     r_incrby = (\<lambda>k i. logged (raw_incrby raw k i)),
     r_expire = (\<lambda>k ttl. logged (bnd (raw_expire raw k ttl) (\<lambda>r. ret (r \<noteq> 0)))),
     r_delete = (\<lambda>k. logged (raw_delete raw k)) \<rparr>"

section \<open>The contract\<close>

text \<open>
  \<open>ok w\<close>: the server answers in world \<open>w\<close>; \<open>sv w k\<close>: the text of the string at \<open>k\<close>;
  \<open>zv w k\<close>: the members of the sorted set at \<open>k\<close> with their scores (empty when there is none).
  A command on a key of the other kind is outside the contract. Counters are 64-bit integers in
  decimal; scores are doubles, exact up to \<open>2 ^ 53\<close>.
\<close>

definition counter_text :: "string option \<Rightarrow> string" where
  "counter_text v = (case v of None \<Rightarrow> ''0'' | Some s \<Rightarrow> s)"

locale redis_contract =
  fixes R :: "'w redis_client"
    and ok :: "'w \<Rightarrow> bool"
    and sv :: "'w \<Rightarrow> string \<Rightarrow> string option"
    and zv :: "'w \<Rightarrow> string \<Rightarrow> string \<Rightarrow> int option"
  assumes get: "ok w \<Longrightarrow> \<exists>v. r_get R k w = (Inr v, w) \<and> map_option rtext v = sv w k"
    and set: "ok w \<Longrightarrow> zv w k = Map.empty \<Longrightarrow> 0 < ttl \<Longrightarrow>
      \<exists>w'. r_set R k v ttl w = (Inr (), w') \<and> ok w' \<and> sv w' = (sv w)(k \<mapsto> v) \<and> zv w' = zv w"
    and set_nx_ex: "ok w \<Longrightarrow> zv w k = Map.empty \<Longrightarrow> 0 < ttl \<Longrightarrow>
      \<exists>w'. r_set_nx_ex R k v ttl w = (Inr (sv w k = None), w') \<and> ok w' \<and> zv w' = zv w
        \<and> sv w' = (if sv w k = None then (sv w)(k \<mapsto> v) else sv w)"
    and zadd: "ok w \<Longrightarrow> sv w k = None \<Longrightarrow> \<bar>s\<bar> \<le> 2 ^ 53 \<Longrightarrow>
      \<exists>r w'. r_zadd R k m s w = (Inr r, w') \<and> ok w' \<and> sv w' = sv w
        \<and> zv w' = (zv w)(k := (zv w k)(m \<mapsto> s))"
    and zremrangebyscore: "ok w \<Longrightarrow> sv w k = None \<Longrightarrow>
      \<exists>r w'. r_zremrangebyscore R k lo up w = (Inr r, w') \<and> ok w' \<and> sv w' = sv w
        \<and> zv w' = (zv w)(k := (\<lambda>m. case zv w k m of None \<Rightarrow> None
             | Some s \<Rightarrow> if in_scores lo (Some up) s then None else Some s))"
    and zcard: "ok w \<Longrightarrow> sv w k = None \<Longrightarrow>
      r_zcard R k w = (Inr (int (card (dom (zv w k)))), w)"
    and zrangebyscore: "ok w \<Longrightarrow> sv w k = None \<Longrightarrow>
      \<exists>ms. r_zrangebyscore R k lo hi w = (Inr ms, w) \<and> distinct (map rtext ms)
        \<and> set (map rtext ms) = {m. \<exists>s. zv w k m = Some s \<and> in_scores lo hi s}"
    and incrby: "ok w \<Longrightarrow> zv w k = Map.empty \<Longrightarrow> counter_text (sv w k) = py_str_int n \<Longrightarrow>
      - (2 ^ 63) \<le> n + i \<Longrightarrow> n + i < 2 ^ 63 \<Longrightarrow>
      \<exists>w'. r_incrby R k i w = (Inr (n + i), w') \<and> ok w' \<and> zv w' = zv w
        \<and> sv w' = (sv w)(k \<mapsto> py_str_int (n + i))"
    and incr: "r_incr R k w = r_incrby R k 1 w"
    and expire: "ok w \<Longrightarrow> 0 < ttl \<Longrightarrow>
      \<exists>r w'. r_expire R k ttl w = (Inr r, w') \<and> ok w' \<and> sv w' = sv w \<and> zv w' = zv w"
    and delete: "ok w \<Longrightarrow> zv w k = Map.empty \<Longrightarrow>
      \<exists>r w'. r_delete R k w = (Inr r, w') \<and> ok w' \<and> sv w' = (sv w)(k := None) \<and> zv w' = zv w"
    and finite_zv: "ok w \<Longrightarrow> finite (dom (zv w k))"
begin

lemma get_text:
  assumes "ok w"
  obtains v where "r_get R k w = (Inr v, w)" "map_option rtext v = sv w k"
  using get [OF assms] by blast

end

locale redis_zset_contract = redis_contract +
  assumes zrem: "ok w \<Longrightarrow> sv w k = None \<Longrightarrow>
      \<exists>r w'. r_zrem R k m w = (Inr r, w') \<and> ok w' \<and> sv w' = sv w
        \<and> zv w' = (zv w)(k := (zv w k)(m := None))"

section \<open>The in-memory client of the tests\<close>

text \<open>
  \<open>FakeRedisClient\<close>: \<open>values\<close>, \<open>zsets\<close> (members with scores, in insertion order) and
  \<open>ttls\<close>. A \<open>zsets\<close> entry that does not exist reads as the empty one.
\<close>

record fake_redis_state =
  fvalues :: "string \<Rightarrow> rval option"
  fzsets :: "string \<Rightarrow> (string \<times> int) list"
  fttls :: "string \<Rightarrow> int option"

definition fake_empty :: fake_redis_state where
  "fake_empty = \<lparr> fvalues = (\<lambda>_. None), fzsets = (\<lambda>_. []), fttls = (\<lambda>_. None) \<rparr>"

definition fake_get :: "string \<Rightarrow> (fake_redis_state, rval option) py" where
  "fake_get k w = (Inr (fvalues w k), w)"

definition fake_set :: "string \<Rightarrow> string \<Rightarrow> int \<Rightarrow> (fake_redis_state, unit) py" where
  "fake_set k v ex w = (Inr (), w\<lparr> fvalues := (fvalues w)(k \<mapsto> RStr v), fttls := (fttls w)(k \<mapsto> ex) \<rparr>)"

definition fake_set_persistent :: "string \<Rightarrow> string \<Rightarrow> (fake_redis_state, unit) py" where
  "fake_set_persistent k v w = (Inr (), w\<lparr> fvalues := (fvalues w)(k \<mapsto> RStr v) \<rparr>)"

definition fake_set_nx_ex :: "string \<Rightarrow> string \<Rightarrow> int \<Rightarrow> (fake_redis_state, bool) py" where
  "fake_set_nx_ex k v ttl w =
     (if fvalues w k \<noteq> None then (Inr False, w)
      else (Inr True, w\<lparr> fvalues := (fvalues w)(k \<mapsto> RStr v), fttls := (fttls w)(k \<mapsto> ttl) \<rparr>))"

text \<open>\<open>int(current)\<close> of a stored object, 0 for a missing one.\<close>

definition fake_int :: "rval option \<Rightarrow> exn + int" where
  "fake_int v = (case v of
     None \<Rightarrow> Inr 0
   | Some (RInt i) \<Rightarrow> Inr i
   | Some r \<Rightarrow> (case py_int_str (rtext r) of None \<Rightarrow> Inl (ValueError ''int'') | Some i \<Rightarrow> Inr i))"

definition fake_incrby :: "string \<Rightarrow> int \<Rightarrow> (fake_redis_state, int) py" where
  "fake_incrby k amount w = (case fake_int (fvalues w k) of
     Inl e \<Rightarrow> (Inl e, w)
   | Inr i \<Rightarrow> (Inr (i + amount), w\<lparr> fvalues := (fvalues w)(k \<mapsto> RInt (i + amount)) \<rparr>))"

definition fake_incr :: "string \<Rightarrow> (fake_redis_state, int) py" where
  "fake_incr k = fake_incrby k 1"

definition fake_zadd :: "string \<Rightarrow> string \<Rightarrow> int \<Rightarrow> (fake_redis_state, int) py" where
  "fake_zadd k m s w =
     (Inr (if m \<in> set (map fst (fzsets w k)) then 0 else 1),
      w\<lparr> fzsets := (fzsets w)(k := AList.update m s (fzsets w k)) \<rparr>)"

definition fake_zremrangebyscore :: "string \<Rightarrow> int \<Rightarrow> int \<Rightarrow> (fake_redis_state, int) py" where
  "fake_zremrangebyscore k lo hi w =
     (let z = fzsets w k; keep = filter (\<lambda>(m, s). \<not> in_scores lo (Some hi) s) z
      in (Inr (int (length z) - int (length keep)), w\<lparr> fzsets := (fzsets w)(k := keep) \<rparr>))"

definition fake_zcard :: "string \<Rightarrow> (fake_redis_state, int) py" where
  "fake_zcard k w = (Inr (int (length (fzsets w k))), w)"

text \<open>Members are compared as Python compares strings.\<close>

definition member_le :: "string \<times> int \<Rightarrow> string \<times> int \<Rightarrow> bool" where
  "member_le a b \<longleftrightarrow> snd a < snd b \<or> (snd a = snd b \<and> str_le (fst a) (fst b))"

fun insert_member :: "string \<times> int \<Rightarrow> (string \<times> int) list \<Rightarrow> (string \<times> int) list" where
  "insert_member x [] = [x]"
| "insert_member x (y # ys) = (if member_le x y then x # y # ys else y # insert_member x ys)"

definition sort_members :: "(string \<times> int) list \<Rightarrow> (string \<times> int) list" where
  "sort_members xs = foldr insert_member xs []"

definition fake_zrangebyscore :: "string \<Rightarrow> int \<Rightarrow> int option \<Rightarrow> (fake_redis_state, rval list) py" where
  "fake_zrangebyscore k lo hi w =
     (Inr (map (\<lambda>(m, s). RBytes m)
        (sort_members (filter (\<lambda>(m, s). in_scores lo hi s) (fzsets w k)))), w)"

definition fake_expire :: "string \<Rightarrow> int \<Rightarrow> (fake_redis_state, bool) py" where
  "fake_expire k ttl w = (Inr True, w\<lparr> fttls := (fttls w)(k \<mapsto> ttl) \<rparr>)"

definition fake_delete :: "string \<Rightarrow> (fake_redis_state, int) py" where
  "fake_delete k w =
     (Inr (if fvalues w k \<noteq> None then 1 else 0), w\<lparr> fvalues := (fvalues w)(k := None) \<rparr>)"

text \<open>The class has no \<open>zrem\<close>: calling it is an \<open>AttributeError\<close>.\<close>

definition fake_redis :: "fake_redis_state redis_client" where
  "fake_redis = \<lparr> r_get = fake_get, r_set = fake_set, r_set_persistent = fake_set_persistent,
     r_set_nx_ex = fake_set_nx_ex, r_zadd = fake_zadd,
     r_zremrangebyscore = fake_zremrangebyscore, r_zcard = fake_zcard,
     r_zrangebyscore = fake_zrangebyscore,
     r_zrem = (\<lambda>k m. raise (BackendError ''AttributeError'')),
     r_incr = fake_incr, r_incrby = fake_incrby, r_expire = fake_expire, r_delete = fake_delete \<rparr>"

text \<open>The same client with \<open>ZREM\<close> as Redis documents it.\<close>

definition mem_zrem :: "string \<Rightarrow> string \<Rightarrow> (fake_redis_state, int) py" where
  "mem_zrem k m w =
     (Inr (if m \<in> set (map fst (fzsets w k)) then 1 else 0),
      w\<lparr> fzsets := (fzsets w)(k := filter (\<lambda>p. fst p \<noteq> m) (fzsets w k)) \<rparr>)"

definition mem_redis :: "fake_redis_state redis_client" where
  "mem_redis = fake_redis\<lparr> r_zrem := mem_zrem \<rparr>"

definition fake_ok :: "fake_redis_state \<Rightarrow> bool" where
  "fake_ok w \<longleftrightarrow> (\<forall>k. distinct (map fst (fzsets w k)))"

definition fake_sv :: "fake_redis_state \<Rightarrow> string \<Rightarrow> string option" where
  "fake_sv w k = map_option rtext (fvalues w k)"

definition fake_zv :: "fake_redis_state \<Rightarrow> string \<Rightarrow> string \<Rightarrow> int option" where
  "fake_zv w k = map_of (fzsets w k)"

lemma map_of_filter_scores:
  "distinct (map fst z) \<Longrightarrow>
     map_of (filter (\<lambda>p. \<not> P (snd p)) z) m =
       (case map_of z m of None \<Rightarrow> None | Some s \<Rightarrow> if P s then None else Some s)"
proof (induction z)
  case (Cons p z)
  obtain m' s where p: "p = (m', s)" by (cases p)
  have "map_of z m' = None" using Cons.prems by (simp add: p map_of_eq_None_iff)
  then show ?case using Cons by (auto simp: p split: option.splits)
qed simp

lemma map_of_filter_member:
  "map_of (filter (\<lambda>p. fst p \<noteq> m) z) = (map_of z)(m := None)"
  by (induction z) (auto simp: fun_eq_iff)

lemma distinct_filter_fst: "distinct (map fst z) \<Longrightarrow> distinct (map fst (filter P z))"
  by (simp add: distinct_map_filter)

lemma set_insert_member [simp]: "set (insert_member x xs) = insert x (set xs)"
  by (induction xs) auto

lemma set_sort_members [simp]: "set (sort_members xs) = set xs"
  unfolding sort_members_def by (induction xs) auto

lemma distinct_insert_member:
  "distinct (map fst xs) \<Longrightarrow> fst x \<notin> fst ` set xs \<Longrightarrow> distinct (map fst (insert_member x xs))"
  by (induction xs) auto

lemma distinct_sort_members: "distinct (map fst xs) \<Longrightarrow> distinct (map fst (sort_members xs))"
proof (induction xs)
  case (Cons x xs)
  then have "fst x \<notin> fst ` set (sort_members xs)" by simp
  then show ?case using Cons by (simp add: sort_members_def distinct_insert_member)
qed (simp add: sort_members_def)

lemma fake_int_text:
  "counter_text (map_option rtext v) = py_str_int n \<Longrightarrow> fake_int v = Inr n"
proof (cases v)
  case None
  have "py_str_int 0 = ''0''" by code_simp
  then have "py_str_int 0 = py_str_int n"
    if "counter_text (map_option rtext v) = py_str_int n"
    using that None by (simp add: counter_text_def)
  moreover assume "counter_text (map_option rtext v) = py_str_int n"
  ultimately show ?thesis using None by (simp add: fake_int_def)
next
  case (Some r)
  assume "counter_text (map_option rtext v) = py_str_int n"
  then have "rtext r = py_str_int n" using Some by (simp add: counter_text_def)
  then show ?thesis using Some by (cases r) (simp_all add: fake_int_def)
qed

lemma fake_zrange:
  assumes "distinct (map fst z)"
    and ms: "ms = map (\<lambda>(m, s). RBytes m) (sort_members (filter (\<lambda>(m, s). in_scores lo hi s) z))"
  shows "distinct (map rtext ms)"
    "set (map rtext ms) = {m. \<exists>s. map_of z m = Some s \<and> in_scores lo hi s}"
proof -
  have "map rtext ms = map fst (sort_members (filter (\<lambda>(m, s). in_scores lo hi s) z))"
    by (simp add: ms case_prod_unfold)
  then show "distinct (map rtext ms)"
    "set (map rtext ms) = {m. \<exists>s. map_of z m = Some s \<and> in_scores lo hi s}"
    using assms(1)
    by (auto simp: distinct_sort_members distinct_filter_fst image_iff dest: map_of_SomeD
        intro: map_of_is_SomeI)
qed

lemmas fake_defs =
  fake_get_def fake_set_def fake_set_nx_ex_def fake_incrby_def fake_incr_def fake_zadd_def
  fake_zremrangebyscore_def fake_zcard_def fake_zrangebyscore_def fake_expire_def fake_delete_def
  mem_zrem_def

lemmas fake_views = fake_ok_def fake_sv_def fake_zv_def

lemma fake_methods [simp]:
  "r_get fake_redis = fake_get" "r_set fake_redis = fake_set"
  "r_set_nx_ex fake_redis = fake_set_nx_ex" "r_zadd fake_redis = fake_zadd"
  "r_zremrangebyscore fake_redis = fake_zremrangebyscore" "r_zcard fake_redis = fake_zcard"
  "r_zrangebyscore fake_redis = fake_zrangebyscore" "r_incr fake_redis = fake_incr"
  "r_incrby fake_redis = fake_incrby" "r_expire fake_redis = fake_expire"
  "r_delete fake_redis = fake_delete"
  by (simp_all add: fake_redis_def)

lemma mem_methods [simp]:
  "r_get mem_redis = fake_get" "r_set mem_redis = fake_set"
  "r_set_nx_ex mem_redis = fake_set_nx_ex" "r_zadd mem_redis = fake_zadd"
  "r_zremrangebyscore mem_redis = fake_zremrangebyscore" "r_zcard mem_redis = fake_zcard"
  "r_zrangebyscore mem_redis = fake_zrangebyscore" "r_incr mem_redis = fake_incr"
  "r_incrby mem_redis = fake_incrby" "r_expire mem_redis = fake_expire"
  "r_delete mem_redis = fake_delete" "r_zrem mem_redis = mem_zrem"
  by (simp_all add: mem_redis_def)

interpretation fr: redis_contract fake_redis fake_ok fake_sv fake_zv
proof (unfold_locales, goal_cases)
  case (5 w k lo up)
  then show ?case
    by (auto simp: fake_defs fake_views Let_def fun_eq_iff map_of_filter_scores distinct_filter_fst
        case_prod_unfold)
next
  case (7 w k lo hi)
  then show ?case using fake_zrange [of "fzsets w k" _ lo hi, OF _ refl] unfolding fake_methods fake_defs fake_views by blast
next
  case (8 w k n i)
  then have "fake_int (fvalues w k) = Inr n" by (intro fake_int_text) (simp add: fake_sv_def)
  then show ?case using 8 by (auto simp: fake_defs fake_views fun_eq_iff)
next
  case (6 w k)
  then have "length (fzsets w k) = card (set (map fst (fzsets w k)))"
    by (metis distinct_card fake_ok_def length_map)
  then show ?case by (simp add: fake_defs fake_views dom_map_of_conv_image_fst)
qed (auto simp: fake_defs fake_views fun_eq_iff update_conv' distinct_update finite_dom_map_of)

lemma mem_contract: "redis_contract mem_redis fake_ok fake_sv fake_zv"
  using fr.redis_contract_axioms unfolding redis_contract_def by simp

interpretation mr: redis_zset_contract mem_redis fake_ok fake_sv fake_zv
proof (intro redis_zset_contract.intro mem_contract, unfold_locales, goal_cases)
  case (1 w k m)
  then show ?case
    by (auto simp: fake_defs fake_views fun_eq_iff map_of_filter_member distinct_filter_fst)
qed

lemma fake_empty_views [simp]:
  "fake_ok fake_empty" "fake_sv fake_empty k = None" "fake_zv fake_empty k = Map.empty"
  by (simp_all add: fake_views fake_empty_def fun_eq_iff)

end
