(* ===== verification/Protect_Action_Store.thy ===== *)
theory Protect_Action_Store
  imports Config Redis Py_Time Py_Value
begin

text \<open>
  \<open>ProtectActionStore\<close> (\<open>app/infrastructure/redis/protect_action_store.py\<close>): the canonical
  outcome of every protect request, the 60-minute counters derived from it, latency and timeout
  health, the block cooldown and the report markers. The clock readings of a call are arguments.
  JSON texts are modelled for what the store itself writes, flat objects of strings.
\<close>

section \<open>Keys\<close>

definition clamp_key :: "string \<Rightarrow> string" where
  "clamp_key project_id = ''pa:'' @ project_id @ '':clamp:60m''"

definition block_key :: "string \<Rightarrow> string" where
  "block_key project_id = ''pa:'' @ project_id @ '':block:60m''"

definition allow_key :: "string \<Rightarrow> string" where
  "allow_key project_id = ''pa:'' @ project_id @ '':allow:60m''"

definition last_key :: "string \<Rightarrow> string" where
  "last_key project_id = ''pa:'' @ project_id @ '':last''"

definition latency_key :: "string \<Rightarrow> string" where
  "latency_key project_id = ''pa:'' @ project_id @ '':latency:60m''"

definition timeout_key :: "string \<Rightarrow> string" where
  "timeout_key project_id = ''pa:'' @ project_id @ '':timeout:60m''"

definition timeout_events_key :: "string \<Rightarrow> string" where
  "timeout_events_key project_id = ''pa:'' @ project_id @ '':timeout-events:60m''"

definition outcome_key :: "string \<Rightarrow> string \<Rightarrow> string" where
  "outcome_key project_id request_id = ''pa:'' @ project_id @ '':outcome:'' @ request_id"

definition report_key :: "string \<Rightarrow> string \<Rightarrow> string \<Rightarrow> string" where
  "report_key project_id report_type marker =
     ''pa:'' @ project_id @ '':report:'' @ report_type @ '':'' @ marker"

definition cooldown_key :: "string \<Rightarrow> string" where
  "cooldown_key project_id = ''protect:cooldown:'' @ project_id"

definition cooldown_owner_key :: "string \<Rightarrow> string" where
  "cooldown_owner_key project_id = ''protect:cooldown-owner:'' @ project_id"

section \<open>Stored values\<close>

record outcome =
  o_decision :: string
  o_reason :: string
  o_source :: string
  o_ts :: string

definition outcome_json :: "outcome \<Rightarrow> string" where
  "outcome_json o' = json_dumps [(''decision'', o_decision o'), (''reason'', o_reason o'),
     (''source'', o_source o'), (''ts'', o_ts o')]"

text \<open>\<open>str(parsed.get(k) or "")\<close>; of a key that occurs twice the last value counts.\<close>

definition json_field :: "(string \<times> string) list \<Rightarrow> string \<Rightarrow> string" where
  "json_field ms k = (case map_of (rev ms) k of None \<Rightarrow> [] | Some v \<Rightarrow> v)"

definition parse_last :: "rval option \<Rightarrow> outcome option" where
  "parse_last raw = (case raw of
     None \<Rightarrow> None
   | Some v \<Rightarrow> (case json_loads (rtext v) of
       None \<Rightarrow> None
     | Some ms \<Rightarrow>
         let decision = json_field ms ''decision''; reason = json_field ms ''reason'';
             source = json_field ms ''source''; ts = json_field ms ''ts''
         in if decision = [] \<or> reason = [] \<or> source = [] \<or> ts = [] then None
            else Some \<lparr> o_decision = decision, o_reason = reason, o_source = source, o_ts = ts \<rparr>))"

definition read_int :: "'w redis_client \<Rightarrow> string \<Rightarrow> ('w, int) py" where
  "read_int R key = bnd (r_get R key) (\<lambda>raw. ret (case raw of
     None \<Rightarrow> 0
   | Some v \<Rightarrow> (case py_int_str (rtext v) of None \<Rightarrow> 0 | Some n \<Rightarrow> n)))"

section \<open>Counters\<close>

abbreviation action_ttl :: int where
  "action_ttl \<equiv> c_action_counter_ttl_seconds app_config"

definition increment_with_ttl :: "'w redis_client \<Rightarrow> string \<Rightarrow> ('w, unit) py" where
  "increment_with_ttl R key = bnd (r_incr R key) (\<lambda>value.
     when_py (value = 1) (bnd (r_expire R key action_ttl) (\<lambda>_. ret ())))"

definition counter_key_for_decision :: "string \<Rightarrow> string \<Rightarrow> string option" where
  "counter_key_for_decision project_id decision =
     (if decision = ''allow'' then Some (allow_key project_id)
      else if decision = ''clamp'' then Some (clamp_key project_id)
      else if decision = ''block'' then Some (block_key project_id)
      else None)"

definition decrement_counter_for_decision :: "'w redis_client \<Rightarrow> string \<Rightarrow> string \<Rightarrow> ('w, unit) py" where
  "decrement_counter_for_decision R project_id decision =
     (case counter_key_for_decision project_id decision of
        None \<Rightarrow> ret ()
      | Some key \<Rightarrow> bnd (read_int R key) (\<lambda>current.
          if current \<le> 0 then ret ()
          else bnd (r_incrby R key (- 1)) (\<lambda>_. ret ())))"

definition record_timeout_event :: "'w redis_client \<Rightarrow> string \<Rightarrow> string \<Rightarrow> string \<Rightarrow> ('w, unit) py" where
  "record_timeout_event R project_id request_id ts =
     (case fromisoformat ts of
        None \<Rightarrow> raise (ValueError ''isoformat'')
      | Some parsed \<Rightarrow>
          let score = epoch_ms parsed; key = timeout_events_key project_id
          in bnd (r_zadd R key request_id score) (\<lambda>_.
             bnd (r_expire R key action_ttl) (\<lambda>_. ret ())))"

text \<open>\<open>if request_id\<close>: neither \<open>None\<close> nor empty.\<close>

definition apply_outcome_counters ::
  "'w redis_client \<Rightarrow> string \<Rightarrow> outcome \<Rightarrow> string option \<Rightarrow> ('w, unit) py" where
  "apply_outcome_counters R project_id payload request_id =
     bnd (case counter_key_for_decision project_id (o_decision payload) of
            None \<Rightarrow> ret () | Some counter_key \<Rightarrow> increment_with_ttl R counter_key) (\<lambda>_.
     when_py (o_source payload = c_outcome_source_timeout_fallback app_config)
       (bnd (increment_with_ttl R (timeout_key project_id)) (\<lambda>_.
        when_py (truthy request_id)
          (record_timeout_event R project_id (the request_id) (o_ts payload)))))"

definition remove_outcome_counters ::
  "'w redis_client \<Rightarrow> string \<Rightarrow> outcome \<Rightarrow> string option \<Rightarrow> ('w, unit) py" where
  "remove_outcome_counters R project_id payload request_id =
     bnd (decrement_counter_for_decision R project_id (o_decision payload)) (\<lambda>_.
     when_py (o_source payload = c_outcome_source_timeout_fallback app_config)
       (bnd (read_int R (timeout_key project_id)) (\<lambda>current.
        bnd (when_py (current > 0)
              (bnd (r_incrby R (timeout_key project_id) (- 1)) (\<lambda>_. ret ()))) (\<lambda>_.
        when_py (truthy request_id)
          (bnd (r_zrem R (timeout_events_key project_id) (the request_id)) (\<lambda>_. ret ()))))))"

section \<open>Outcomes\<close>

definition source_rank :: "string \<Rightarrow> int" where
  "source_rank source =
     (if source = c_outcome_source_live app_config then 1
      else if source \<in> {c_outcome_source_timeout_fallback app_config,
                        c_outcome_source_unavailable_fallback app_config} then 2
      else 0)"

definition should_replace_outcome :: "outcome \<Rightarrow> outcome \<Rightarrow> bool" where
  "should_replace_outcome existing incoming =
     (let existing_rank = source_rank (o_source existing);
          incoming_rank = source_rank (o_source incoming)
      in if incoming_rank < existing_rank then False
         else if incoming_rank > existing_rank then True
         else o_decision existing \<noteq> o_decision incoming \<or> o_reason existing \<noteq> o_reason incoming)"

text \<open>
  \<open>now\<close> is the clock when \<open>ts\<close> is not given. The answer is whether the outcome was recorded and
  the outcome it met.
\<close>

definition finalize_outcome ::
  "'w redis_client \<Rightarrow> datetime \<Rightarrow> string \<Rightarrow> string \<Rightarrow> string \<Rightarrow> string \<Rightarrow> string option \<Rightarrow>
   datetime option \<Rightarrow> ('w, bool \<times> outcome option) py" where
  "finalize_outcome R now project_id decision reason source request_id ts =
     (let timestamp = isoformat (case ts of None \<Rightarrow> now | Some t \<Rightarrow> t);
          payload = \<lparr> o_decision = decision, o_reason = reason, o_source = source, o_ts = timestamp \<rparr>;
          record_last = (\<lambda>existing_payload.
            bnd (apply_outcome_counters R project_id payload request_id) (\<lambda>_.
            bnd (r_set R (last_key project_id) (outcome_json payload) action_ttl) (\<lambda>_.
            ret (True, existing_payload))));
          set_outcome = (\<lambda>existing_payload.
            bnd (r_set R (outcome_key project_id (the request_id)) (outcome_json payload) action_ttl) (\<lambda>_.
            record_last existing_payload))
      in try_except
           (if truthy request_id then
              bnd (r_get R (outcome_key project_id (the request_id))) (\<lambda>raw.
              case parse_last raw of
                None \<Rightarrow> set_outcome None
              | Some existing_payload \<Rightarrow>
                  if \<not> should_replace_outcome existing_payload payload
                  then ret (False, Some existing_payload)
                  else bnd (remove_outcome_counters R project_id existing_payload request_id) (\<lambda>_.
                       set_outcome (Some existing_payload)))
            else record_last None)
           (\<lambda>_. ret (False, None)))"

definition record_timeout_fallback ::
  "'w redis_client \<Rightarrow> datetime \<Rightarrow> string \<Rightarrow> string option \<Rightarrow> datetime option \<Rightarrow> ('w, unit) py" where
  "record_timeout_fallback R now project_id request_id ts =
     try_except
       (bnd (increment_with_ttl R (timeout_key project_id)) (\<lambda>_.
        when_py (truthy request_id)
          (record_timeout_event R project_id (the request_id)
            (isoformat (case ts of None \<Rightarrow> now | Some t \<Rightarrow> t)))))
       (\<lambda>_. ret ())"

section \<open>Cooldown and report markers\<close>

definition set_block_cooldown ::
  "'w redis_client \<Rightarrow> string \<Rightarrow> int \<Rightarrow> int \<Rightarrow> string option \<Rightarrow> ('w, unit) py" where
  "set_block_cooldown R project_id blocked_until_ms cooldown_seconds request_id =
     try_except
       (bnd (r_set R (cooldown_key project_id) (py_str_int blocked_until_ms) (max cooldown_seconds 1)) (\<lambda>_.
        when_py (truthy request_id)
          (r_set R (cooldown_owner_key project_id) (the request_id) (max cooldown_seconds 1))))
       (\<lambda>_. ret ())"

definition get_block_cooldown_until_ms :: "'w redis_client \<Rightarrow> string \<Rightarrow> ('w, int option) py" where
  "get_block_cooldown_until_ms R project_id =
     try_except
       (bnd (r_get R (cooldown_key project_id)) (\<lambda>raw.
        case raw of
          None \<Rightarrow> ret None
        | Some v \<Rightarrow> (case py_int_str (rtext v) of
            None \<Rightarrow> raise (ValueError ''int'')
          | Some parsed \<Rightarrow> ret (if parsed > 0 then Some parsed else None))))
       (\<lambda>_. ret None)"

definition clear_block_cooldown :: "'w redis_client \<Rightarrow> string \<Rightarrow> string option \<Rightarrow> ('w, bool) py" where
  "clear_block_cooldown R project_id request_id =
     (let clear = bnd (r_delete R (cooldown_key project_id)) (\<lambda>_.
                  bnd (r_delete R (cooldown_owner_key project_id)) (\<lambda>_. ret True))
      in try_except
           (case request_id of
              None \<Rightarrow> clear
            | Some rid \<Rightarrow> bnd (r_get R (cooldown_owner_key project_id)) (\<lambda>owner_raw.
                if (case owner_raw of None \<Rightarrow> [] | Some v \<Rightarrow> rtext v) \<noteq> rid then ret False else clear))
           (\<lambda>_. ret False))"

definition mark_report_sent ::
  "'w redis_client \<Rightarrow> string \<Rightarrow> string \<Rightarrow> string \<Rightarrow> int \<Rightarrow> ('w, bool) py" where
  "mark_report_sent R project_id report_type marker ttl_seconds =
     try_except (r_set_nx_ex R (report_key project_id report_type marker) ''1'' (max ttl_seconds 1))
       (\<lambda>_. ret False)"

section \<open>Health\<close>

text \<open>\<open>uuid\<close> is \<open>uuid4().hex[:8]\<close>.\<close>

definition record_health ::
  "'w redis_client \<Rightarrow> datetime \<Rightarrow> string \<Rightarrow> string \<Rightarrow> int \<Rightarrow> datetime option \<Rightarrow> ('w, unit) py" where
  "record_health R now uuid project_id latency_ms ts =
     (let now_ms = epoch_ms (case ts of None \<Rightarrow> now | Some t \<Rightarrow> t);
          cutoff_ms = now_ms - action_ttl * 1000;
          normalized_latency = max latency_ms 0;
          member = py_str_int now_ms @ '':'' @ uuid @ '':'' @ py_str_int normalized_latency;
          key = latency_key project_id
      in try_except
           (bnd (r_zadd R key member now_ms) (\<lambda>_.
            bnd (r_zremrangebyscore R key 0 cutoff_ms) (\<lambda>_.
            bnd (r_expire R key action_ttl) (\<lambda>_. ret ()))))
           (\<lambda>_. ret ()))"

text \<open>A member without \<open>":"\<close> or with a last part that is no integer is skipped.\<close>

definition latency_of_member :: "rval \<Rightarrow> int option" where
  "latency_of_member raw = (case rsplit1 (CHR '':'') (rtext raw) of
     [_, latency] \<Rightarrow> map_option (\<lambda>n. max n 0) (py_int_str latency)
   | _ \<Rightarrow> None)"

definition parse_latencies :: "rval list \<Rightarrow> int list" where
  "parse_latencies members = sort (List.map_filter latency_of_member members)"

text \<open>\<open>math.ceil((percentile / 100) * len(values)) - 1\<close>, on doubles.\<close>

definition percentile_rank :: "int \<Rightarrow> int \<Rightarrow> int" where
  "percentile_rank p n = \<lceil>py_mul (py_div (of_int p) 100) (py_float n)\<rceil> - 1"

definition percentile :: "int list \<Rightarrow> int \<Rightarrow> int option" where
  "percentile values p =
     (if values = [] then None
      else let rank = percentile_rank p (int (length values));
               index = min (max rank 0) (int (length values) - 1)
           in Some (values ! nat index))"

definition read_recent_timeout_count :: "'w redis_client \<Rightarrow> datetime \<Rightarrow> string \<Rightarrow> int \<Rightarrow> ('w, int) py" where
  "read_recent_timeout_count R now project_id window_seconds =
     (let now_ms = epoch_ms now;
          cutoff_ms = now_ms - action_ttl * 1000;
          key = timeout_events_key project_id;
          window_start_ms = now_ms - max window_seconds 1 * 1000
      in bnd (r_zremrangebyscore R key 0 cutoff_ms) (\<lambda>_.
         bnd (r_zrangebyscore R key window_start_ms None) (\<lambda>members.
         ret (int (length members)))))"

record health =
  h_p50_ms :: "int option"
  h_p95_ms :: "int option"
  h_timeouts_60m :: int
  h_timeouts_30m :: int

text \<open>The clock is read twice: by \<open>get_health\<close> and by \<open>_read_recent_timeout_count\<close>.\<close>

definition get_health :: "'w redis_client \<Rightarrow> datetime \<Rightarrow> datetime \<Rightarrow> string \<Rightarrow> ('w, health) py" where
  "get_health R now now' project_id =
     (let now_ms = epoch_ms now;
          cutoff_ms = now_ms - action_ttl * 1000;
          key = latency_key project_id
      in try_except
           (bnd (r_zremrangebyscore R key 0 cutoff_ms) (\<lambda>_.
            bnd (r_zrangebyscore R key cutoff_ms None) (\<lambda>latency_members.
            let latencies = parse_latencies latency_members
            in bnd (read_int R (timeout_key project_id)) (\<lambda>timeouts_60m.
               bnd (read_recent_timeout_count R now' project_id 1800) (\<lambda>timeouts_30m.
               ret \<lparr> h_p50_ms = percentile latencies 50, h_p95_ms = percentile latencies 95,
                     h_timeouts_60m = timeouts_60m, h_timeouts_30m = timeouts_30m \<rparr>)))))
           (\<lambda>_. ret \<lparr> h_p50_ms = None, h_p95_ms = None, h_timeouts_60m = 0, h_timeouts_30m = 0 \<rparr>))"

record protect_metrics =
  m_allowed_60m :: int
  m_clamped_60m :: int
  m_blocked_60m :: int
  m_decision_timeouts_60m :: int
  m_last :: "outcome option"
  m_latency_p50 :: "int option"
  m_latency_p95 :: "int option"

definition get_metrics :: "'w redis_client \<Rightarrow> datetime \<Rightarrow> datetime \<Rightarrow> string \<Rightarrow> ('w, protect_metrics) py" where
  "get_metrics R now now' project_id =
     try_except
       (bnd (read_int R (allow_key project_id)) (\<lambda>allowed.
        bnd (read_int R (clamp_key project_id)) (\<lambda>clamp.
        bnd (read_int R (block_key project_id)) (\<lambda>block.
        bnd (read_int R (timeout_key project_id)) (\<lambda>decision_timeouts.
        bnd (r_get R (last_key project_id)) (\<lambda>last_raw.
        bnd (get_health R now now' project_id) (\<lambda>health.
        ret \<lparr> m_allowed_60m = allowed, m_clamped_60m = clamp, m_blocked_60m = block,
              m_decision_timeouts_60m = decision_timeouts, m_last = parse_last last_raw,
              m_latency_p50 = h_p50_ms health, m_latency_p95 = h_p95_ms health \<rparr>)))))))
       (\<lambda>_. ret \<lparr> m_allowed_60m = 0, m_clamped_60m = 0, m_blocked_60m = 0,
              m_decision_timeouts_60m = 0, m_last = None,
              m_latency_p50 = None, m_latency_p95 = None \<rparr>)"

section \<open>No operation raises\<close>

text \<open>
  The decision path relies on it: whatever the Redis client does, every public operation of the
  store returns.
\<close>

lemmas never_raises_rules = never_raises_try never_raises_bnd never_raises_when never_raises_ret

lemma store_never_raises:
  "never_raises (finalize_outcome R now p d r s rid ts)"
  "never_raises (get_metrics R now now' p)"
  "never_raises (record_health R now u p lat ts)"
  "never_raises (set_block_cooldown R p ms secs rid)"
  "never_raises (get_block_cooldown_until_ms R p)"
  "never_raises (clear_block_cooldown R p rid)"
  "never_raises (mark_report_sent R p ty m ttl)"
  "never_raises (record_timeout_fallback R now p rid ts)"
  "never_raises (get_health R now now' p)"
  by (simp_all add: finalize_outcome_def get_metrics_def record_health_def set_block_cooldown_def
      get_block_cooldown_until_ms_def clear_block_cooldown_def mark_report_sent_def
      record_timeout_fallback_def get_health_def Let_def never_raises_try)

end
