(* ===== verification/Rolling_Window.thy ===== *)
theory Rolling_Window
  imports Config Redis
begin

text \<open>
  The 60-second request and token counters (\<open>app/infrastructure/redis/rolling_window.py\<close>):
  every call adds one member \<open>"{now_ms}:{id}:{tokens}"\<close> to two sorted sets and trims what is
  older than the window. The abstract store is the list of entries of the window;
  \<open>win_rep\<close> relates it to Redis, and the two operations refine \<open>win_increment\<close> and \<open>win_get\<close>.
\<close>

section \<open>The code\<close>

definition requests_60s_key :: "string \<Rightarrow> string" where
  "requests_60s_key project_id = ''rt:'' @ project_id @ '':req:z''"

definition tokens_60s_key :: "string \<Rightarrow> string" where
  "tokens_60s_key project_id = ''rt:'' @ project_id @ '':tok:z''"

definition incident_open_lock_key :: "string \<Rightarrow> string \<Rightarrow> string" where
  "incident_open_lock_key project_id incident_type =
     ''inc:'' @ project_id @ '':'' @ incident_type @ '':open''"

definition normalize_total_tokens :: "int option \<Rightarrow> int" where
  "normalize_total_tokens t = (case t of None \<Rightarrow> 0 | Some n \<Rightarrow> n)"

definition window_member :: "int \<Rightarrow> string \<Rightarrow> int \<Rightarrow> string" where
  "window_member now_ms member_id n = py_str_int now_ms @ '':'' @ member_id @ '':'' @ py_str_int n"

text \<open>\<open>now_ms\<close> and \<open>member_id\<close> are what the two providers return in this call.\<close>

definition increment_project_60s ::
  "'w redis_client \<Rightarrow> int \<Rightarrow> string \<Rightarrow> string \<Rightarrow> int option \<Rightarrow> ('w, unit) py" where
  "increment_project_60s R now_ms member_id project_id total_tokens =
     (let req_key = requests_60s_key project_id;
          tok_key = tokens_60s_key project_id;
          normalized_tokens = normalize_total_tokens total_tokens;
          cutoff_ms = now_ms - c_rolling_window_ms app_config;
          ttl = c_rolling_counter_ttl_seconds app_config
      in logged (
        bnd (r_zadd R req_key (window_member now_ms member_id 1) now_ms) (\<lambda>_.
        bnd (r_zremrangebyscore R req_key 0 cutoff_ms) (\<lambda>_.
        bnd (r_expire R req_key ttl) (\<lambda>_.
        bnd (r_zadd R tok_key (window_member now_ms member_id normalized_tokens) now_ms) (\<lambda>_.
        bnd (r_zremrangebyscore R tok_key 0 cutoff_ms) (\<lambda>_.
        bnd (r_expire R tok_key ttl) (\<lambda>_. ret ()))))))))"

text \<open>\<open>int(str(member).split(":")[-1])\<close>.\<close>

definition member_tokens :: "rval \<Rightarrow> exn + int" where
  "member_tokens m = (case py_int_str (after_last (CHR '':'') (rtext m)) of
     None \<Rightarrow> Inl (ValueError ''int'') | Some n \<Rightarrow> Inr n)"

fun sum_tokens :: "rval list \<Rightarrow> exn + int" where
  "sum_tokens [] = Inr 0"
| "sum_tokens (m # ms) = (case member_tokens m of
     Inl e \<Rightarrow> Inl e
   | Inr n \<Rightarrow> (case sum_tokens ms of Inl e \<Rightarrow> Inl e | Inr t \<Rightarrow> Inr (n + t)))"

definition get_project_60s :: "'w redis_client \<Rightarrow> int \<Rightarrow> string \<Rightarrow> ('w, int \<times> int) py" where
  "get_project_60s R now_ms project_id =
     (let req_key = requests_60s_key project_id;
          tok_key = tokens_60s_key project_id;
          cutoff_ms = now_ms - c_rolling_window_ms app_config
      in logged (
        bnd (r_zremrangebyscore R req_key 0 cutoff_ms) (\<lambda>_.
        bnd (r_zremrangebyscore R tok_key 0 cutoff_ms) (\<lambda>_.
        bnd (r_zcard R req_key) (\<lambda>requests_60s.
        bnd (r_zrangebyscore R tok_key cutoff_ms None) (\<lambda>token_members.
        bnd (py_raise_sum (sum_tokens token_members)) (\<lambda>tokens_60s.
        ret (requests_60s, tokens_60s))))))))"

definition acquire_incident_lock ::
  "'w redis_client \<Rightarrow> string \<Rightarrow> string \<Rightarrow> int \<Rightarrow> ('w, bool) py" where
  "acquire_incident_lock R project_id incident_type ttl_seconds =
     logged (r_set_nx_ex R (incident_open_lock_key project_id incident_type) ''1'' ttl_seconds)"

definition release_incident_lock :: "'w redis_client \<Rightarrow> string \<Rightarrow> string \<Rightarrow> ('w, unit) py" where
  "release_incident_lock R project_id incident_type =
     logged (bnd (r_delete R (incident_open_lock_key project_id incident_type)) (\<lambda>_. ret ()))"

section \<open>The abstract window\<close>

text \<open>An entry is the time, the member id and the tokens of one request.\<close>

type_synonym entry = "int \<times> string \<times> int"

definition win_recent :: "int \<Rightarrow> entry list \<Rightarrow> entry list" where
  "win_recent now_ms es = filter (\<lambda>(t, _, _). now_ms - 60000 < t) es"

definition win_increment :: "int \<Rightarrow> string \<Rightarrow> int \<Rightarrow> entry list \<Rightarrow> entry list" where
  "win_increment now_ms member_id n es = win_recent now_ms ((now_ms, member_id, n) # es)"

definition win_totals :: "entry list \<Rightarrow> int \<times> int" where
  "win_totals es = (int (length es), (\<Sum>(_, _, n) \<leftarrow> es. n))"

text \<open>The sorted sets of a project hold exactly the entries.\<close>

definition req_set :: "entry list \<Rightarrow> string \<Rightarrow> int option" where
  "req_set es = map_of (map (\<lambda>(t, i, n). (window_member t i 1, t)) es)"

definition tok_set :: "entry list \<Rightarrow> string \<Rightarrow> int option" where
  "tok_set es = map_of (map (\<lambda>(t, i, n). (window_member t i n, t)) es)"

definition entries_wf :: "entry list \<Rightarrow> bool" where
  "entries_wf es \<longleftrightarrow> distinct (map (\<lambda>(_, i, _). i) es) \<and> (\<forall>(t, _, _) \<in> set es. 0 \<le> t)"

definition win_rep ::
  "('w \<Rightarrow> string \<Rightarrow> string option) \<Rightarrow> ('w \<Rightarrow> string \<Rightarrow> string \<Rightarrow> int option) \<Rightarrow>
   'w \<Rightarrow> string \<Rightarrow> entry list \<Rightarrow> bool" where
  "win_rep sv zv w p es \<longleftrightarrow>
     entries_wf es \<and>
     sv w (requests_60s_key p) = None \<and> sv w (tokens_60s_key p) = None \<and>
     zv w (requests_60s_key p) = req_set es \<and> zv w (tokens_60s_key p) = tok_set es"

section \<open>Members\<close>

lemma window_member_inj [simp]:
  "window_member t i n = window_member t' i' n' \<longleftrightarrow> t = t' \<and> i = i' \<and> n = n'"
  using append_sep_first [of "CHR '':''" "py_str_int t" "py_str_int t'" "i @ '':'' @ py_str_int n"
      "i' @ '':'' @ py_str_int n'"]
    append_sep_last [of "CHR '':''" "py_str_int n" "py_str_int n'" i i']
  by (auto simp: window_member_def)

lemma member_tokens_window [simp]:
  "rtext v = window_member t i n \<Longrightarrow> member_tokens v = Inr n"
  using after_last_snoc [of "CHR '':''" "py_str_int n" "py_str_int t @ '':'' @ i"]
  by (simp add: member_tokens_def window_member_def)

lemma project_keys_inj [simp]:
  "requests_60s_key p = requests_60s_key q \<longleftrightarrow> p = q" "tokens_60s_key p = tokens_60s_key q \<longleftrightarrow> p = q"
  "requests_60s_key p \<noteq> tokens_60s_key q" "tokens_60s_key q \<noteq> requests_60s_key p"
proof -
  show "requests_60s_key p = requests_60s_key q \<longleftrightarrow> p = q" "tokens_60s_key p = tokens_60s_key q \<longleftrightarrow> p = q"
    by (simp_all add: requests_60s_key_def tokens_60s_key_def)
  have "rev (requests_60s_key p) \<noteq> rev (tokens_60s_key q)"
    by (simp add: requests_60s_key_def tokens_60s_key_def)
  then show "requests_60s_key p \<noteq> tokens_60s_key q" "tokens_60s_key q \<noteq> requests_60s_key p" by metis+
qed

section \<open>Sorted sets of entries\<close>

text \<open>\<open>req_set\<close> and \<open>tok_set\<close> are instances of one map, from a member name \<open>g e\<close> to the entry's time.\<close>

definition member_map :: "(entry \<Rightarrow> string) \<Rightarrow> entry list \<Rightarrow> string \<Rightarrow> int option" where
  "member_map g es = map_of (map (\<lambda>e. (g e, fst e)) es)"

definition req_name :: "entry \<Rightarrow> string" where
  "req_name e = (case e of (t, i, n) \<Rightarrow> window_member t i 1)"

definition tok_name :: "entry \<Rightarrow> string" where
  "tok_name e = (case e of (t, i, n) \<Rightarrow> window_member t i n)"

lemma req_set_map: "req_set es = member_map req_name es"
  by (simp add: req_set_def member_map_def req_name_def case_prod_unfold)

lemma tok_set_map: "tok_set es = member_map tok_name es"
  by (simp add: tok_set_def member_map_def tok_name_def case_prod_unfold)

lemma distinct_names:
  assumes "entries_wf es"
  shows "distinct (map req_name es)" "distinct (map tok_name es)"
proof -
  have d: "distinct (map (\<lambda>(_, i, _). i) es)" using assms by (simp add: entries_wf_def)
  have inj: "inj_on (\<lambda>(_, i, _). i) (set es)" "distinct es" using d by (auto simp: distinct_map)
  have "inj_on req_name (set es)" "inj_on tok_name (set es)"
    using inj(1) by (fastforce simp: inj_on_def req_name_def tok_name_def)+
  then show "distinct (map req_name es)" "distinct (map tok_name es)"
    using inj(2) by (simp_all add: distinct_map)
qed

lemma entries_wf_recent [simp]: "entries_wf es \<Longrightarrow> entries_wf (win_recent now es)"
  by (auto simp: entries_wf_def win_recent_def distinct_map_filter)

lemma entries_wf_Cons:
  "entries_wf ((t, i, n) # es) \<longleftrightarrow>
     0 \<le> t \<and> i \<notin> (\<lambda>(_, i, _). i) ` set es \<and> entries_wf es"
  by (auto simp: entries_wf_def)

lemma member_map_Cons: "(member_map g es)(g e \<mapsto> fst e) = member_map g (e # es)"
  by (simp add: member_map_def)

lemma member_map_trim:
  assumes "distinct (map g es)" "\<forall>e \<in> set es. 0 \<le> fst e"
  shows "(\<lambda>m. case member_map g es m of None \<Rightarrow> None
           | Some s \<Rightarrow> if in_scores 0 (Some (now - 60000)) s then None else Some s)
         = member_map g (win_recent now es)"
proof
  fix m
  let ?z = "map (\<lambda>e. (g e, fst e)) es"
  have d: "distinct (map fst ?z)" using assms(1) by (simp add: comp_def)
  have "filter (\<lambda>p. \<not> in_scores 0 (Some (now - 60000)) (snd p)) ?z
      = map (\<lambda>e. (g e, fst e)) (win_recent now es)"
    using assms(2) unfolding win_recent_def filter_map
    by (intro arg_cong [of _ _ "map (\<lambda>e. (g e, fst e))"] filter_cong)
      (auto simp: in_scores_def)
  then show "(case member_map g es m of None \<Rightarrow> None
           | Some s \<Rightarrow> if in_scores 0 (Some (now - 60000)) s then None else Some s)
         = member_map g (win_recent now es) m"
    using map_of_filter_scores [OF d, of "in_scores 0 (Some (now - 60000))" m]
    by (simp add: member_map_def)
qed

lemma dom_member_map: "dom (member_map g es) = g ` set es"
  by (force simp: member_map_def dom_map_of_conv_image_fst)

lemma entries_nonneg: "entries_wf es \<Longrightarrow> \<forall>e \<in> set es. 0 \<le> fst e"
  by (auto simp: entries_wf_def)

lemma sum_tokens_texts:
  assumes "\<And>v. v \<in> set ms \<Longrightarrow> member_tokens v = Inr (f (rtext v))"
  shows "sum_tokens ms = Inr (\<Sum>x \<leftarrow> map rtext ms. f x)"
  using assms by (induction ms) simp_all

lemma sum_tokens_entries:
  assumes wf: "entries_wf es"
    and ms: "distinct (map rtext ms)" "set (map rtext ms) = tok_name ` set es"
  shows "sum_tokens ms = Inr (snd (win_totals es))"
proof -
  let ?n = "\<lambda>e :: entry. snd (snd e)"
  have d: "distinct (map tok_name es)" by (rule distinct_names [OF wf])
  define f where "f x = ?n (the_inv_into (set es) tok_name x)" for x
  have inj: "inj_on tok_name (set es)" using d by (simp add: distinct_map)
  have f: "f (tok_name e) = ?n e" if "e \<in> set es" for e
    using the_inv_into_f_f [OF inj that] by (simp add: f_def)
  have tk: "member_tokens v = Inr (f (rtext v))" if "v \<in> set ms" for v
  proof -
    have "rtext v \<in> tok_name ` set es" using ms(2) that by (metis image_eqI set_map)
    then obtain e where e: "e \<in> set es" "rtext v = tok_name e" by blast
    obtain t i n where "e = (t, i, n)" by (cases e)
    then show ?thesis using f [OF e(1)] e(2) by (simp add: tok_name_def)
  qed
  have "sum_tokens ms = Inr (\<Sum>x \<leftarrow> map rtext ms. f x)" by (rule sum_tokens_texts [OF tk])
  also have "(\<Sum>x \<leftarrow> map rtext ms. f x) = sum f (tok_name ` set es)"
    using ms by (metis sum_list_distinct_conv_sum_set)
  also have "\<dots> = (\<Sum>e \<in> set es. ?n e)"
    using inj f by (simp add: sum.reindex)
  also have "\<dots> = (\<Sum>e \<leftarrow> es. ?n e)"
    using d by (simp add: distinct_map sum_list_distinct_conv_sum_set)
  finally show ?thesis by (simp add: win_totals_def case_prod_unfold)
qed

section \<open>Refinement\<close>

context redis_contract
begin

lemma zadd_trim:
  assumes "ok w" "sv w k = None" "zv w k = member_map g es" "\<bar>fst e\<bar> \<le> 2 ^ 53" "0 < ttl"
    and d: "distinct (map g (e # es))" "\<forall>e \<in> set (e # es). 0 \<le> fst e"
  shows "\<exists>r1 w1 r2 w2 r3 w3.
     r_zadd R k (g e) (fst e) w = (Inr r1, w1) \<and>
     r_zremrangebyscore R k 0 (now - 60000) w1 = (Inr r2, w2) \<and>
     r_expire R k ttl w2 = (Inr r3, w3) \<and>
     ok w3 \<and> sv w3 = sv w \<and> zv w3 = (zv w)(k := member_map g (win_recent now (e # es)))"
proof -
  obtain r1 w1 where 1: "r_zadd R k (g e) (fst e) w = (Inr r1, w1)" "ok w1" "sv w1 = sv w"
    "zv w1 = (zv w)(k := member_map g (e # es))"
    using zadd [OF assms(1,2,4)] assms(3) by (metis member_map_Cons)
  have "sv w1 k = None" using 1 assms(2) by simp
  from zremrangebyscore [OF 1(2) this, of 0 "now - 60000"]
  obtain r2 w2 where 2: "r_zremrangebyscore R k 0 (now - 60000) w1 = (Inr r2, w2)" "ok w2"
    "sv w2 = sv w1" "zv w2 = (zv w)(k := member_map g (win_recent now (e # es)))"
    using member_map_trim [OF d, of now] 1(4) by auto
  from expire [OF 2(2) assms(5)] obtain r3 w3 where
    "r_expire R k ttl w2 = (Inr r3, w3)" "ok w3" "sv w3 = sv w2" "zv w3 = zv w2" by blast
  then show ?thesis using 1 2 by metis
qed

lemma increment_refines:
  assumes "ok w" "win_rep sv zv w p es"
    and id: "member_id \<notin> (\<lambda>(_, i, _). i) ` set es" and now: "0 \<le> now" "now \<le> 2 ^ 53"
  shows "\<exists>w'. increment_project_60s R now member_id p tokens w = (Inr (), w') \<and> ok w' \<and>
     win_rep sv zv w' p (win_increment now member_id (normalize_total_tokens tokens) es)"
proof -
  define e where "e = (now, member_id, normalize_total_tokens tokens)"
  have wf: "entries_wf (e # es)"
    using assms by (simp add: e_def entries_wf_Cons win_rep_def)
  note names = distinct_names [OF wf] entries_nonneg [OF wf]
  have keys: "sv w (requests_60s_key p) = None" "sv w (tokens_60s_key p) = None"
    "zv w (requests_60s_key p) = member_map req_name es"
    "zv w (tokens_60s_key p) = member_map tok_name es"
    using assms(2) by (simp_all add: win_rep_def req_set_map tok_set_map)
  have bound: "\<bar>fst e\<bar> \<le> 2 ^ 53" using now by (simp add: e_def)
  obtain r1 w1 r2 w2 r3 w3 where 1:
    "r_zadd R (requests_60s_key p) (req_name e) (fst e) w = (Inr r1, w1)"
    "r_zremrangebyscore R (requests_60s_key p) 0 (now - 60000) w1 = (Inr r2, w2)"
    "r_expire R (requests_60s_key p) 600 w2 = (Inr r3, w3)" "ok w3" "sv w3 = sv w"
    "zv w3 = (zv w)(requests_60s_key p := member_map req_name (win_recent now (e # es)))"
    using zadd_trim [OF assms(1) keys(1,3) bound, of 600] names by (metis zero_less_numeral)
  have "sv w3 (tokens_60s_key p) = None" "zv w3 (tokens_60s_key p) = member_map tok_name es"
    using 1 keys by simp_all
  from zadd_trim [OF 1(4) this bound, of 600 now] obtain r4 w4 r5 w5 r6 w6 where 2:
    "r_zadd R (tokens_60s_key p) (tok_name e) (fst e) w3 = (Inr r4, w4)"
    "r_zremrangebyscore R (tokens_60s_key p) 0 (now - 60000) w4 = (Inr r5, w5)"
    "r_expire R (tokens_60s_key p) 600 w5 = (Inr r6, w6)" "ok w6" "sv w6 = sv w3"
    "zv w6 = (zv w3)(tokens_60s_key p := member_map tok_name (win_recent now (e # es)))"
    using names by (metis zero_less_numeral)
  have "increment_project_60s R now member_id p tokens w = (Inr (), w6)"
    using 1(1-3) 2(1-3) by (simp add: increment_project_60s_def Let_def e_def req_name_def tok_name_def)
  moreover have "win_rep sv zv w6 p (win_recent now (e # es))"
    using wf 1 2 keys by (simp add: win_rep_def req_set_map tok_set_map)
  ultimately show ?thesis using 2(4) by (auto simp: win_increment_def e_def)
qed

lemma get_refines:
  assumes "ok w" "win_rep sv zv w p es"
  shows "\<exists>w'. get_project_60s R now p w = (Inr (win_totals (win_recent now es)), w') \<and> ok w' \<and>
     win_rep sv zv w' p (win_recent now es) \<and> sv w' = sv w \<and>
     (\<forall>k. k \<noteq> requests_60s_key p \<and> k \<noteq> tokens_60s_key p \<longrightarrow> zv w' k = zv w k)"
proof -
  let ?es = "win_recent now es"
  have wf: "entries_wf es" using assms(2) by (simp add: win_rep_def)
  note names = distinct_names [OF wf] entries_nonneg [OF wf]
  have keys: "sv w (requests_60s_key p) = None" "sv w (tokens_60s_key p) = None"
    "zv w (requests_60s_key p) = member_map req_name es"
    "zv w (tokens_60s_key p) = member_map tok_name es"
    using assms(2) by (simp_all add: win_rep_def req_set_map tok_set_map)
  from zremrangebyscore [OF assms(1) keys(1), of 0 "now - 60000"] obtain r1 w1 where 1:
    "r_zremrangebyscore R (requests_60s_key p) 0 (now - 60000) w = (Inr r1, w1)" "ok w1"
    "sv w1 = sv w" "zv w1 = (zv w)(requests_60s_key p := member_map req_name ?es)"
    using member_map_trim [OF names(1,3), of now] keys(3) by auto
  have k1: "sv w1 (tokens_60s_key p) = None" "zv w1 (tokens_60s_key p) = member_map tok_name es"
    using 1 keys by simp_all
  from zremrangebyscore [OF 1(2) k1(1), of 0 "now - 60000"] obtain r2 w2 where 2:
    "r_zremrangebyscore R (tokens_60s_key p) 0 (now - 60000) w1 = (Inr r2, w2)" "ok w2"
    "sv w2 = sv w" "zv w2 = (zv w1)(tokens_60s_key p := member_map tok_name ?es)"
    using member_map_trim [OF names(2,3), of now] k1(2) 1(3) by auto
  have k2: "sv w2 (requests_60s_key p) = None" "sv w2 (tokens_60s_key p) = None"
    "zv w2 (requests_60s_key p) = member_map req_name ?es"
    "zv w2 (tokens_60s_key p) = member_map tok_name ?es"
    using 1 2 keys by simp_all
  note names' = distinct_names [OF entries_wf_recent [OF wf, of now]]
  have "card (dom (zv w2 (requests_60s_key p))) = length ?es"
    using k2(3) names'(1) by (metis dom_member_map distinct_card length_map set_map)
  then have card: "r_zcard R (requests_60s_key p) w2 = (Inr (fst (win_totals ?es)), w2)"
    using zcard [OF 2(2) k2(1)] by (simp add: win_totals_def)
  obtain ms where ms: "r_zrangebyscore R (tokens_60s_key p) (now - 60000) None w2 = (Inr ms, w2)"
    "distinct (map rtext ms)"
    "set (map rtext ms) = {m. \<exists>s. zv w2 (tokens_60s_key p) m = Some s \<and> in_scores (now - 60000) None s}"
    using zrangebyscore [OF 2(2) k2(2)] by blast
  have "now - 60000 \<le> s" if "member_map tok_name ?es m = Some s" for m s
    using map_of_SomeD [OF that [unfolded member_map_def]] by (auto simp: win_recent_def)
  then have "set (map rtext ms) = dom (member_map tok_name ?es)"
    using ms(3) k2(4) by (auto simp: in_scores_def dom_def)
  then have "sum_tokens ms = Inr (snd (win_totals ?es))"
    using sum_tokens_entries [OF entries_wf_recent [OF wf] ms(2)] by (simp add: dom_member_map)
  then have "get_project_60s R now p w = (Inr (win_totals ?es), w2)"
    using 1(1) 2(1) card ms(1) by (simp add: get_project_60s_def Let_def py_raise_sum_def bnd_def)
  moreover have "win_rep sv zv w2 p ?es"
    using wf k2 by (simp add: win_rep_def req_set_map tok_set_map)
  moreover have "\<forall>k. k \<noteq> requests_60s_key p \<and> k \<noteq> tokens_60s_key p \<longrightarrow> zv w2 k = zv w k"
    using 1(4) 2(4) by simp
  ultimately show ?thesis using 2(2,3) by blast
qed

end

section \<open>Histories\<close>

text \<open>A history of calls for one project, run one after the other; the answers of the reads.\<close>

datatype window_op =
    Increment int string "int option"
  | Read int

fun op_time :: "window_op \<Rightarrow> int" where
  "op_time (Increment t _ _) = t"
| "op_time (Read t) = t"

fun run_window :: "'w redis_client \<Rightarrow> string \<Rightarrow> window_op list \<Rightarrow> ('w, (int \<times> int) list) py" where
  "run_window R p [] = ret []"
| "run_window R p (Increment t i n # ops) =
     bnd (increment_project_60s R t i p n) (\<lambda>_. run_window R p ops)"
| "run_window R p (Read t # ops) =
     bnd (get_project_60s R t p) (\<lambda>r. bnd (run_window R p ops) (\<lambda>rs. ret (r # rs)))"

text \<open>What the reads ought to answer: the entries of the last 60 seconds among all earlier ones.\<close>

fun expected_reads :: "entry list \<Rightarrow> window_op list \<Rightarrow> (int \<times> int) list" where
  "expected_reads hist [] = []"
| "expected_reads hist (Increment t i n # ops) =
     expected_reads ((t, i, normalize_total_tokens n) # hist) ops"
| "expected_reads hist (Read t # ops) =
     win_totals (filter (\<lambda>(s, _, _). t - 60000 < s) hist) # expected_reads hist ops"

fun op_ids :: "window_op list \<Rightarrow> string list" where
  "op_ids [] = []"
| "op_ids (Increment _ i _ # ops) = i # op_ids ops"
| "op_ids (Read _ # ops) = op_ids ops"

lemma win_recent_twice: "t \<le> now \<Longrightarrow> win_recent now (win_recent t es) = win_recent now es"
  by (auto simp: win_recent_def intro!: filter_cong)

lemma win_increment_recent:
  "t \<le> now \<Longrightarrow> win_increment now i n (win_recent t hist) = win_recent now ((now, i, n) # hist)"
  by (simp add: win_increment_def win_recent_def) (auto intro!: filter_cong)

context redis_contract
begin

lemma run_window_expected:
  assumes "ok w" "win_rep sv zv w p (win_recent t hist)"
    and "sorted (map op_time ops)" "\<forall>x \<in> set ops. t \<le> op_time x \<and> 0 \<le> op_time x \<and> op_time x \<le> 2 ^ 53"
    and "distinct (op_ids ops)" "set (op_ids ops) \<inter> (\<lambda>(_, i, _). i) ` set hist = {}"
  shows "\<exists>w'. run_window R p ops w = (Inr (expected_reads hist ops), w')"
  using assms
proof (induction ops arbitrary: w t hist)
  case (Cons x ops)
  show ?case
  proof (cases x)
    case (Increment now i n)
    have "i \<notin> (\<lambda>(_, i, _). i) ` set (win_recent t hist)"
      using Cons.prems(6) by (force simp: Increment win_recent_def)
    moreover have b: "t \<le> now" "0 \<le> now" "now \<le> 2 ^ 53"
      using Cons.prems(4) by (auto simp: Increment)
    ultimately obtain w1 where w1: "increment_project_60s R now i p n w = (Inr (), w1)" "ok w1"
      "win_rep sv zv w1 p (win_recent now ((now, i, normalize_total_tokens n) # hist))"
      using increment_refines [OF Cons.prems(1,2)] by (metis win_increment_recent)
    have "\<exists>w'. run_window R p ops w1
        = (Inr (expected_reads ((now, i, normalize_total_tokens n) # hist) ops), w')"
      using Cons.prems b by (intro Cons.IH [OF w1(2,3)]) (auto simp: Increment)
    then show ?thesis using w1(1) by (auto simp: Increment)
  next
    case (Read now)
    have b: "t \<le> now" using Cons.prems(4) by (auto simp: Read)
    obtain w1 where w1:
      "get_project_60s R now p w = (Inr (win_totals (win_recent now hist)), w1)" "ok w1"
      "win_rep sv zv w1 p (win_recent now hist)"
      using get_refines [OF Cons.prems(1,2), of now] b by (metis win_recent_twice)
    have "\<exists>w'. run_window R p ops w1 = (Inr (expected_reads hist ops), w')"
      using Cons.prems b by (intro Cons.IH [OF w1(2,3)]) (auto simp: Read)
    then show ?thesis using w1(1) by (auto simp: Read win_recent_def)
  qed
qed simp

lemma lock_cases:
  assumes "ok w" "zv w (incident_open_lock_key p ty) = Map.empty" "0 < ttl"
  shows "\<exists>w'. acquire_incident_lock R p ty ttl w
      = (Inr (sv w (incident_open_lock_key p ty) = None), w')
    \<and> ok w' \<and> zv w' = zv w \<and> sv w' (incident_open_lock_key p ty) \<noteq> None"
  using set_nx_ex [OF assms, of "''1''"] by (auto simp: acquire_incident_lock_def split: if_splits)

lemma release_frees:
  assumes "ok w" "zv w (incident_open_lock_key p ty) = Map.empty"
  shows "\<exists>w'. release_incident_lock R p ty w = (Inr (), w')
    \<and> ok w' \<and> zv w' = zv w \<and> sv w' (incident_open_lock_key p ty) = None"
  using delete [OF assms] by (auto simp: release_incident_lock_def)

end

lemma win_rep_empty [simp]: "win_rep fake_sv fake_zv fake_empty p (win_recent t [])"
  by (simp add: win_rep_def win_recent_def entries_wf_def req_set_def tok_set_def)

text \<open>
  C7: over any history of increments and reads of one project, with a clock that does not go
  back and fresh member ids, every read answers the number of requests and the sum of tokens of
  exactly those earlier increments that are less than 60 seconds old.
\<close>

theorem window_history:
  assumes "redis_contract R ok sv zv" "ok w" "win_rep sv zv w p []"
    and "sorted (map op_time ops)" "\<forall>x \<in> set ops. 0 \<le> op_time x \<and> op_time x \<le> 2 ^ 53"
    and "distinct (op_ids ops)"
  shows "\<exists>w'. run_window R p ops w = (Inr (expected_reads [] ops), w')"
  using redis_contract.run_window_expected [OF assms(1,2), of p 0 "[]" ops] assms(3-6)
  by (simp add: win_recent_def)

theorem window_history_witness:
  "\<exists>w'. run_window fake_redis ''p:openai''
     [Increment 1000 ''a'' (Some 7), Read 61000, Increment 61000 ''b'' None, Read 61001] fake_empty
     = (Inr [(0, 0), (1, 0)], w')"
  using window_history [OF fr.redis_contract_axioms fake_empty_views(1), of "''p:openai''"
      "[Increment 1000 ''a'' (Some 7), Read 61000, Increment 61000 ''b'' None, Read 61001]"]
    win_rep_empty [of "''p:openai''" 0]
  by (simp add: win_recent_def win_totals_def normalize_total_tokens_def)

text \<open>
  The incident lock excludes: an acquisition that succeeds or fails leaves the lock held, so
  the next acquisition fails, and after a release it succeeds again.
\<close>

theorem incident_lock_excludes:
  assumes "redis_contract R ok sv zv" "ok w" "zv w (incident_open_lock_key p ty) = Map.empty" "0 < ttl"
  shows "\<exists>w'. bnd (acquire_incident_lock R p ty ttl) (\<lambda>first.
           bnd (acquire_incident_lock R p ty ttl) (\<lambda>second.
           bnd (release_incident_lock R p ty) (\<lambda>_.
           bnd (acquire_incident_lock R p ty ttl) (\<lambda>third.
           ret (first, second, third))))) w = 
           (Inr (sv w (incident_open_lock_key p ty) = None, False, True), w')"
proof -
  note a = redis_contract.lock_cases [OF assms(1)] and r = redis_contract.release_frees [OF assms(1)]
  from a [OF assms(2-4)] obtain w1 where 1:
    "acquire_incident_lock R p ty ttl w = (Inr (sv w (incident_open_lock_key p ty) = None), w1)"
    "ok w1" "zv w1 = zv w" "sv w1 (incident_open_lock_key p ty) \<noteq> None" by blast
  from a [OF 1(2) _ assms(4), of p ty] 1 assms(3) obtain w2 where 2:
    "acquire_incident_lock R p ty ttl w1 = (Inr False, w2)" "ok w2" "zv w2 = zv w" by auto
  from r [OF 2(2), of p ty] 2(3) assms(3) obtain w3 where 3:
    "release_incident_lock R p ty w2 = (Inr (), w3)" "ok w3" "zv w3 = zv w"
    "sv w3 (incident_open_lock_key p ty) = None" by auto
  from a [OF 3(2) _ assms(4), of p ty] 3 assms(3) obtain w4 where
    "acquire_incident_lock R p ty ttl w3 = (Inr True, w4)" by auto
  then show ?thesis using 1 2 3 by (simp add: bnd_def)
qed

theorem incident_lock_excludes_witness:
  "\<exists>w'. bnd (acquire_incident_lock fake_redis ''p'' ''block'' 300) (\<lambda>first.
        bnd (acquire_incident_lock fake_redis ''p'' ''block'' 300) (\<lambda>second.
        bnd (release_incident_lock fake_redis ''p'' ''block'') (\<lambda>_.
        bnd (acquire_incident_lock fake_redis ''p'' ''block'' 300) (\<lambda>third.
        ret (first, second, third))))) fake_empty = (Inr (True, False, True), w')"
  using incident_lock_excludes [OF fr.redis_contract_axioms fake_empty_views(1), of "''p''" "''block''" 300]
  by (simp add: fake_empty_views(2))

end
