(* ===== verification/Protect_Service.thy ===== *)
theory Protect_Service
  imports Protect_Action_Store Rolling_Window Transport_Service
begin

text \<open>
  The protect decision service (\<open>app/application/services/protect_service.py\<close>): from the project's
  settings, the 60-second counters, the block cooldown and the request's token estimates it decides
  allow, clamp or block, and it sends the notifications of a decision. The clocks
  (\<open>now_provider\<close>, \<open>perf_counter\<close>) are computations that may read the world.
\<close>

section \<open>Values\<close>

record predictive =
  pd_enabled :: bool
  pd_estimated_next_tokens :: "int option"
  pd_would_exceed :: bool

record snapshot =
  sn_requests_60s :: int
  sn_tokens_60s :: int
  sn_threshold_req :: "int option"
  sn_threshold_tok :: "int option"
  sn_decision_timeout_ms :: int
  sn_predictive :: predictive

record clamp =
  cl_recommended :: int
  cl_applied :: bool

record protect_decision =
  d_decision :: string
  d_reason :: string
  d_fail_mode :: string
  d_timeout_ms :: int
  d_retry_after_seconds :: "int option"
  d_blocked_until :: "string option"
  d_snapshot :: snapshot
  d_apply_clamp_enabled :: bool
  d_clamp :: "clamp option"

record decision_context =
  cx_max_output_tokens :: "int option"
  cx_input_tokens_estimate :: "int option"
  cx_environment :: "string option"
  cx_provider :: "string option"
  cx_requested_model :: "string option"
  cx_feature :: "string option"

text \<open>
  The realtime counter interface (\<open>RealtimeCounterStore\<close>) and the service's own fields. The action
  store is \<open>ProtectActionStore\<close> on the client \<open>ps_redis\<close>; the dispatcher and the transport service
  may be missing.
\<close>

record 'w counter_store =
  cs_increment :: "string \<Rightarrow> int option \<Rightarrow> ('w, unit) py"
  cs_get :: "string \<Rightarrow> ('w, int \<times> int) py"
  cs_acquire :: "string \<Rightarrow> string \<Rightarrow> int \<Rightarrow> ('w, bool) py"
  cs_release :: "string \<Rightarrow> string \<Rightarrow> ('w, unit) py"

record 'w protect_service =
  ps_resolve_project :: "string \<Rightarrow> ('w, project option) py"
  ps_counters :: "'w counter_store"
  ps_redis :: "'w redis_client"
  ps_cooldown_seconds :: int
  ps_get_project :: "(string \<Rightarrow> ('w, project option) py) option"
  ps_dedup_window_seconds :: int
  ps_dispatcher :: "'w transport_service option"
  ps_transport :: "'w transport_service option"
  ps_now :: "('w, datetime) py"
  ps_perf_counter :: "('w, rat) py"
  ps_timeout_ms :: int
  ps_pressure_thresholds :: "rat list"
  ps_output_ratios :: "rat list"

text \<open>
  The counter store of the backend: \<open>RollingWindow\<close> on a Redis client, with the reading of its
  clock and the next member id.
\<close>

definition RollingWindow :: "'w redis_client \<Rightarrow> int \<Rightarrow> string \<Rightarrow> 'w counter_store" where
  "RollingWindow R now_ms member_id = \<lparr>
     cs_increment = increment_project_60s R now_ms member_id,
     cs_get = get_project_60s R now_ms,
     cs_acquire = acquire_incident_lock R,
     cs_release = release_incident_lock R \<rparr>"

text \<open>The constructor refuses thresholds and ratios of different lengths.\<close>

definition ProtectService :: "'w protect_service \<Rightarrow> exn + 'w protect_service" where
  "ProtectService P =
     (if length (ps_pressure_thresholds P) \<noteq> length (ps_output_ratios P)
      then Inl (ValueError ''protect clamp stage thresholds and output ratios must have the same length'')
      else Inr P)"

section \<open>The clamp\<close>

text \<open>
  \<open>thresholds\<close> and \<open>ratios\<close> are the service's \<open>_protect_clamp_pressure_thresholds\<close> and
  \<open>_protect_clamp_output_ratios\<close>. The ratio of the last stage whose threshold the projected tokens reach is taken.
\<close>

definition resolve_clamp_output_ratio :: "rat list \<Rightarrow> rat list \<Rightarrow> int \<Rightarrow> int \<Rightarrow> rat option" where
  "resolve_clamp_output_ratio thresholds ratios projected_tokens max_tok =
     foldl (\<lambda>selected (pressure_threshold, output_ratio).
        if projected_tokens \<ge> py_trunc (py_mul (py_float max_tok) pressure_threshold)
        then Some output_ratio else selected)
       None (zip thresholds ratios)"

definition build_clamp ::
  "rat list \<Rightarrow> rat list \<Rightarrow> int option \<Rightarrow> int \<Rightarrow> int option \<Rightarrow> int option \<Rightarrow> clamp option" where
  "build_clamp thresholds ratios max_tok current_tokens_60s max_output_tokens estimated_next_tokens =
     (case max_tok of None \<Rightarrow> None | Some mt \<Rightarrow>
      if mt \<le> 0 then None else
      case max_output_tokens of None \<Rightarrow> None | Some mo \<Rightarrow>
      if mo \<le> 0 then None else
      case estimated_next_tokens of None \<Rightarrow> None | Some est \<Rightarrow>
      case resolve_clamp_output_ratio thresholds ratios (current_tokens_60s + est) mt of
        None \<Rightarrow> None
      | Some clamp_ratio \<Rightarrow>
          let input_estimate = (if est - mo < 0 then 0 else est - mo);
              available_for_output = mt - current_tokens_60s - input_estimate;
              stage_output_limit = max 1 (py_trunc (py_mul (py_float mo) clamp_ratio));
              recommended = max 1 (min mo (min stage_output_limit available_for_output))
          in Some \<lparr> cl_recommended = recommended, cl_applied = False \<rparr>)"

section \<open>Notifications\<close>

text \<open>\<open>elapsed_ms = int((perf_counter() - evaluation_started_at) * 1000)\<close>.\<close>

definition should_emit_live_notifications :: "'w protect_service \<Rightarrow> rat \<Rightarrow> int \<Rightarrow> ('w, bool) py" where
  "should_emit_live_notifications P evaluation_started_at decision_timeout_ms =
     bnd (ps_perf_counter P) (\<lambda>t.
       let elapsed_ms = py_trunc (py_mul (py_sub t evaluation_started_at) 1000)
       in ret (elapsed_ms \<le> max decision_timeout_ms 0))"

definition enqueue_protection_event ::
  "'w protect_service \<Rightarrow> string \<Rightarrow> string \<Rightarrow> string \<Rightarrow> string \<Rightarrow> pydict \<Rightarrow> string \<Rightarrow> ('w, unit) py" where
  "enqueue_protection_event P event_type template project_id provider payload dedupe_seed =
     bnd (case ps_dispatcher P of
            None \<Rightarrow> ret ()
          | Some D \<Rightarrow> try_except (dispatcher_enqueue D project_id payload event_type None False) (\<lambda>_. ret ()))
       (\<lambda>_. case ps_transport P of
          None \<Rightarrow> ret ()
        | Some T \<Rightarrow> try_except
            (let dedupe_key = build_transport_dedupe_key (ts_sha256 T) (ts_float_repr T) project_id ''email''
                   event_type payload None (Some dedupe_seed)
             in bnd (transport_enqueue T project_id ''email'' event_type payload dedupe_key
                  (no_opts\<lparr> eo_template := Some template, eo_provider := Some provider \<rparr>)) (\<lambda>_. ret ()))
            (\<lambda>_. ret ()))"

text \<open>The fields every protection payload starts with.\<close>

definition payload_head ::
  "string \<Rightarrow> string \<Rightarrow> string \<Rightarrow> string option \<Rightarrow> string option \<Rightarrow> string option \<Rightarrow> pydict" where
  "payload_head ev project_id provider requested_model resolved_model environment =
     [(''event'', PStr ev), (''project_id'', PStr project_id), (''provider'', PStr provider),
      (''requested_model'', opt_str requested_model), (''resolved_model'', opt_str resolved_model),
      (''environment'', opt_str environment)]"

text \<open>\<open>_enqueue_block_notifications\<close>, also reached through \<open>enqueue_live_block_notifications\<close>.\<close>

definition enqueue_block_notifications ::
  "'w protect_service \<Rightarrow> string \<Rightarrow> string \<Rightarrow> string option \<Rightarrow> string option \<Rightarrow> string option \<Rightarrow> string \<Rightarrow>
   int \<Rightarrow> int \<Rightarrow> int option \<Rightarrow> int option \<Rightarrow> string option \<Rightarrow> int option \<Rightarrow> string \<Rightarrow> ('w, unit) py" where
  "enqueue_block_notifications P project_id provider requested_model resolved_model environment
     detail_reason requests_60s tokens_60s max_req max_tok blocked_until retry_after_seconds source =
     bnd (ps_now P) (\<lambda>now.
       let payload = payload_head ''protection.block'' project_id provider requested_model resolved_model
             environment @
           [(''reason'', PStr detail_reason), (''detail_reason'', PStr detail_reason),
            (''requests_60s'', PInt requests_60s), (''tokens_60s'', PInt tokens_60s),
            (''req_cap'', opt_int max_req), (''tok_cap'', opt_int max_tok),
            (''blocked_until'', opt_str blocked_until),
            (''retry_after_seconds'', opt_int retry_after_seconds),
            (''source'', PStr source), (''sent_at'', PStr (isoformat now))]
       in enqueue_protection_event P ''protection.block'' ''protection_block'' project_id provider
            payload detail_reason)"

definition clamp_val :: "clamp option \<Rightarrow> pyval" where
  "clamp_val c = (case c of None \<Rightarrow> PNone | Some x \<Rightarrow>
     PDict [(''recommended_max_output_tokens'', PInt (cl_recommended x)), (''applied'', PBool (cl_applied x))])"

definition enqueue_clamp_started_notifications ::
  "'w protect_service \<Rightarrow> string \<Rightarrow> string \<Rightarrow> string \<Rightarrow> string option \<Rightarrow> string option \<Rightarrow> string option \<Rightarrow>
   int \<Rightarrow> int \<Rightarrow> int option \<Rightarrow> int option \<Rightarrow> int option \<Rightarrow> clamp option \<Rightarrow> ('w, unit) py" where
  "enqueue_clamp_started_notifications P project_id scoped_id provider requested_model resolved_model
     environment requests_60s tokens_60s max_req max_tok estimated_next_tokens clamp =
     bnd (ps_now P) (\<lambda>now.
     bnd (mark_report_sent (ps_redis P) scoped_id ''clamp_started'' ''token_clamp'' (ps_dedup_window_seconds P))
       (\<lambda>first. if \<not> first then ret () else
         (let payload = payload_head ''protection.clamp_started'' project_id provider requested_model
                resolved_model environment @
              [(''reason'', PStr ''token_clamp''), (''requests_60s'', PInt requests_60s),
               (''tokens_60s'', PInt tokens_60s), (''req_cap'', opt_int max_req),
               (''tok_cap'', opt_int max_tok), (''estimated_next_tokens'', opt_int estimated_next_tokens),
               (''clamp'', clamp_val clamp), (''sent_at'', PStr (isoformat now))]
          in enqueue_protection_event P ''protection.clamp_started'' ''protection_clamp_started''
               project_id provider payload ''token_clamp'')))"

definition enqueue_cooldown_block_if_needed ::
  "'w protect_service \<Rightarrow> string \<Rightarrow> string \<Rightarrow> string \<Rightarrow> string option \<Rightarrow> string option \<Rightarrow> string option \<Rightarrow>
   int \<Rightarrow> int \<Rightarrow> int option \<Rightarrow> int option \<Rightarrow> string \<Rightarrow> int \<Rightarrow> ('w, unit) py" where
  "enqueue_cooldown_block_if_needed P project_id scoped_id provider requested_model resolved_model
     environment requests_60s tokens_60s max_req max_tok blocked_until retry_after_seconds =
     bnd (mark_report_sent (ps_redis P) scoped_id ''cooldown_block'' blocked_until (max retry_after_seconds 1))
       (\<lambda>first. if \<not> first then ret () else
         bnd (ps_now P) (\<lambda>now.
         let payload = payload_head ''protection.block'' project_id provider requested_model resolved_model
               environment @
             [(''reason'', PStr ''cooldown_active''), (''detail_reason'', PStr ''cooldown_active''),
              (''requests_60s'', PInt requests_60s), (''tokens_60s'', PInt tokens_60s),
              (''req_cap'', opt_int max_req), (''tok_cap'', opt_int max_tok),
              (''blocked_until'', PStr blocked_until), (''retry_after_seconds'', PInt retry_after_seconds),
              (''source'', PStr ''live''), (''sent_at'', PStr (isoformat now))]
         in enqueue_protection_event P ''protection.block'' ''protection_block'' project_id provider
              payload (''cooldown:'' @ blocked_until)))"

definition report_fail_closed_block ::
  "'w protect_service \<Rightarrow> string \<Rightarrow> string \<Rightarrow> string option \<Rightarrow> string option \<Rightarrow> string option \<Rightarrow> string \<Rightarrow>
   string \<Rightarrow> string option \<Rightarrow> ('w, unit) py" where
  "report_fail_closed_block P project_id provider requested_model resolved_model environment
     detail_reason source request_id =
     (let scoped_id = scoped_project_provider_id project_id (Some provider);
          marker = opt_or request_id detail_reason
      in bnd (mark_report_sent (ps_redis P) scoped_id ''fail_closed'' marker (ps_dedup_window_seconds P))
         (\<lambda>first. if \<not> first then ret () else
           bnd (case ps_get_project P of None \<Rightarrow> ret None | Some g \<Rightarrow> g project_id) (\<lambda>project.
           bnd (cs_get (ps_counters P) scoped_id) (\<lambda>(requests_60s, tokens_60s).
           bnd (ps_now P) (\<lambda>now.
           let payload = payload_head ''protection.block'' project_id provider requested_model resolved_model
                 environment @
               [(''reason'', PStr ''fail_closed''), (''detail_reason'', PStr detail_reason),
                (''requests_60s'', PInt requests_60s), (''tokens_60s'', PInt tokens_60s),
                (''req_cap'', opt_int (Option.bind project pr_max_req_per_min)),
                (''tok_cap'', opt_int (Option.bind project pr_max_tok_per_min)),
                (''source'', PStr source), (''sent_at'', PStr (isoformat now))]
           in enqueue_protection_event P ''protection.block'' ''protection_block'' project_id provider
                payload (''fail_closed:'' @ marker))))))"

section \<open>The decision\<close>

text \<open>\<open>datetime.fromtimestamp(ms / 1000, tz=timezone.utc).isoformat()\<close>.\<close>

definition iso_of_ms :: "int \<Rightarrow> string" where
  "iso_of_ms ms = isoformat (fromtimestamp (py_div (of_int ms) 1000))"

definition snapshot_of :: "'w protect_service \<Rightarrow> project \<Rightarrow> int \<Rightarrow> int \<Rightarrow> predictive \<Rightarrow> snapshot" where
  "snapshot_of P project requests_60s tokens_60s pd =
     \<lparr> sn_requests_60s = requests_60s, sn_tokens_60s = tokens_60s,
       sn_threshold_req = pr_max_req_per_min project, sn_threshold_tok = pr_max_tok_per_min project,
       sn_decision_timeout_ms = ps_timeout_ms P, sn_predictive = pd \<rparr>"

definition no_prediction :: predictive where
  "no_prediction = \<lparr> pd_enabled = False, pd_estimated_next_tokens = None, pd_would_exceed = False \<rparr>"

definition prediction :: "int option \<Rightarrow> int \<Rightarrow> int option \<Rightarrow> predictive" where
  "prediction max_tok tokens_60s estimated_next_tokens =
     \<lparr> pd_enabled = (estimated_next_tokens \<noteq> None), pd_estimated_next_tokens = estimated_next_tokens,
       pd_would_exceed = (case (max_tok, estimated_next_tokens) of
          (Some mt, Some est) \<Rightarrow> tokens_60s + est \<ge> mt | _ \<Rightarrow> False) \<rparr>"

definition decision_of ::
  "'w protect_service \<Rightarrow> project \<Rightarrow> string \<Rightarrow> string \<Rightarrow> int option \<Rightarrow> string option \<Rightarrow> snapshot \<Rightarrow>
   clamp option \<Rightarrow> protect_decision" where
  "decision_of P project decision reason retry_after blocked_until sn clamp =
     \<lparr> d_decision = decision, d_reason = reason, d_fail_mode = pr_protect_fail_mode project,
       d_timeout_ms = ps_timeout_ms P, d_retry_after_seconds = retry_after,
       d_blocked_until = blocked_until, d_snapshot = sn,
       d_apply_clamp_enabled = pr_apply_clamp project, d_clamp = clamp \<rparr>"

definition build_block_decision ::
  "'w protect_service \<Rightarrow> project \<Rightarrow> string \<Rightarrow> decision_context \<Rightarrow> string \<Rightarrow> int \<Rightarrow> int \<Rightarrow> int \<Rightarrow> bool \<Rightarrow>
   ('w, protect_decision) py" where
  "build_block_decision P project provider ctx reason requests_60s tokens_60s now_ms emit_notifications =
     (let cooldown_seconds = max (ps_cooldown_seconds P) 1;
          blocked_until_ms = now_ms + cooldown_seconds * 1000;
          blocked_until = iso_of_ms blocked_until_ms;
          retry_after_seconds = max 0 (ceil_div_1000 (blocked_until_ms - now_ms))
      in bnd (when_py emit_notifications (enqueue_block_notifications P (pr_id project) provider
             (cx_requested_model ctx) None (cx_environment ctx) reason requests_60s tokens_60s
             (pr_max_req_per_min project) (pr_max_tok_per_min project) (Some blocked_until)
             (Some retry_after_seconds) ''live'')) (\<lambda>_.
         ret (decision_of P project ''block'' reason (Some retry_after_seconds) (Some blocked_until)
           (snapshot_of P project requests_60s tokens_60s no_prediction) None)))"

text \<open>An active cooldown blocks until it ends.\<close>

definition cooldown_decision ::
  "'w protect_service \<Rightarrow> project \<Rightarrow> string \<Rightarrow> decision_context \<Rightarrow> rat \<Rightarrow> int \<Rightarrow> int \<Rightarrow> int \<Rightarrow> int \<Rightarrow> bool \<Rightarrow>
   ('w, protect_decision) py" where
  "cooldown_decision P project provider ctx started requests_60s tokens_60s now_ms cooldown_until_ms
     emit_notifications =
     (let retry_after_seconds = max 0 (ceil_div_1000 (cooldown_until_ms - now_ms));
          blocked_until = iso_of_ms cooldown_until_ms
      in bnd (if emit_notifications then should_emit_live_notifications P started (ps_timeout_ms P)
              else ret False) (\<lambda>emit.
         bnd (when_py emit (enqueue_cooldown_block_if_needed P (pr_id project)
             (scoped_project_provider_id (pr_id project) (Some provider)) provider
             (cx_requested_model ctx) None (cx_environment ctx) requests_60s tokens_60s
             (pr_max_req_per_min project) (pr_max_tok_per_min project) blocked_until
             retry_after_seconds)) (\<lambda>_.
         ret (decision_of P project ''block'' ''cooldown_active'' (Some retry_after_seconds)
           (Some blocked_until) (snapshot_of P project requests_60s tokens_60s no_prediction) None))))"

text \<open>A cap at or above its limit blocks and reports the breach.\<close>

definition cap_breach_decision ::
  "'w protect_service \<Rightarrow> project \<Rightarrow> string \<Rightarrow> decision_context \<Rightarrow> rat \<Rightarrow> string \<Rightarrow> int \<Rightarrow> int \<Rightarrow> int \<Rightarrow> bool \<Rightarrow>
   ('w, protect_decision) py" where
  "cap_breach_decision P project provider ctx started reason requests_60s tokens_60s now_ms
     emit_notifications =
     bnd (if emit_notifications then should_emit_live_notifications P started (ps_timeout_ms P)
          else ret False) (\<lambda>emit.
     build_block_decision P project provider ctx reason requests_60s tokens_60s now_ms emit)"

definition estimate_next_tokens :: "decision_context \<Rightarrow> int option" where
  "estimate_next_tokens ctx = (case cx_input_tokens_estimate ctx of
     None \<Rightarrow> None
   | Some input \<Rightarrow> Some (max input 0 + (case cx_max_output_tokens ctx of None \<Rightarrow> 0 | Some m \<Rightarrow> max m 0)))"

text \<open>Below the caps: clamp if it is enabled and lowers the output limit, else allow.\<close>

definition clamp_or_allow ::
  "'w protect_service \<Rightarrow> project \<Rightarrow> string \<Rightarrow> decision_context \<Rightarrow> rat \<Rightarrow> int \<Rightarrow> int \<Rightarrow> bool \<Rightarrow>
   ('w, protect_decision) py" where
  "clamp_or_allow P project provider ctx started requests_60s tokens_60s emit_notifications =
     (let max_tok = pr_max_tok_per_min project;
          estimated = estimate_next_tokens ctx;
          clamp = build_clamp (ps_pressure_thresholds P) (ps_output_ratios P) max_tok tokens_60s (cx_max_output_tokens ctx) estimated;
          sn = snapshot_of P project requests_60s tokens_60s (prediction max_tok tokens_60s estimated)
      in if pr_apply_clamp project \<and>
            (case (clamp, cx_max_output_tokens ctx) of
               (Some c, Some mo) \<Rightarrow> cl_recommended c < mo | _ \<Rightarrow> False)
         then bnd (if emit_notifications then should_emit_live_notifications P started (ps_timeout_ms P)
                   else ret False) (\<lambda>emit.
              bnd (when_py emit (enqueue_clamp_started_notifications P (pr_id project)
                  (scoped_project_provider_id (pr_id project) (Some provider)) provider
                  (cx_requested_model ctx) None (cx_environment ctx) requests_60s tokens_60s
                  (pr_max_req_per_min project) max_tok estimated clamp)) (\<lambda>_.
              ret (decision_of P project ''clamp'' ''token_clamp'' None None sn clamp)))
         else ret (decision_of P project ''allow'' ''ok'' None None sn None))"

definition evaluate_decision ::
  "'w protect_service \<Rightarrow> string \<Rightarrow> decision_context \<Rightarrow> bool \<Rightarrow>
   ('w, (string \<times> protect_decision) option) py" where
  "evaluate_decision P ingest_key ctx emit_notifications =
     bnd (ps_perf_counter P) (\<lambda>started.
     bnd (ps_resolve_project P ingest_key) (\<lambda>resolved.
     case resolved of
       None \<Rightarrow> ret None
     | Some project \<Rightarrow>
         let provider = or_str (strip (opt_or (cx_provider ctx) [])) ''unknown'';
             scoped_id = scoped_project_provider_id (pr_id project) (Some provider);
             answer = (\<lambda>d. ret (Some (pr_id project, d)))
         in bnd (ps_now P) (\<lambda>now.
            let now_ms = epoch_ms now
            in bnd (cs_get (ps_counters P) scoped_id) (\<lambda>(requests_60s, tokens_60s).
               if \<not> pr_protect_enabled project then
                 answer (decision_of P project ''allow'' ''ok'' None None
                   (snapshot_of P project requests_60s tokens_60s no_prediction) None)
               else bnd (get_block_cooldown_until_ms (ps_redis P) scoped_id) (\<lambda>cooldown_until_ms.
                 bnd (case cooldown_until_ms of
                        Some until_ms \<Rightarrow>
                          if now_ms < until_ms
                          then bnd (cooldown_decision P project provider ctx started requests_60s tokens_60s
                                 now_ms until_ms emit_notifications) (\<lambda>d. ret (Some d))
                          else ret None
                      | None \<Rightarrow> ret None) (\<lambda>cooldown.
                 case cooldown of
                   Some d \<Rightarrow> answer d
                 | None \<Rightarrow>
                     if (case pr_max_tok_per_min project of None \<Rightarrow> False | Some mt \<Rightarrow> tokens_60s \<ge> mt)
                     then bnd (cap_breach_decision P project provider ctx started ''tok_cap_breach''
                            requests_60s tokens_60s now_ms emit_notifications) answer
                     else if (case pr_max_req_per_min project of None \<Rightarrow> False | Some mr \<Rightarrow> requests_60s \<ge> mr)
                     then bnd (cap_breach_decision P project provider ctx started ''req_cap_breach''
                            requests_60s tokens_60s now_ms emit_notifications) answer
                     else bnd (clamp_or_allow P project provider ctx started requests_60s tokens_60s
                            emit_notifications) answer))))))"

end
