(* ===== verification/Action_Store_Facts.thy ===== *)
theory Action_Store_Facts
  imports Protect_Action_Store
begin

text \<open>
  The parts of \<open>ProtectActionStore\<close> outside the outcome ledger: no operation raises, the block
  cooldown and its owner, the once-only report markers, and the latency percentiles, whose rank is
  computed on doubles.
\<close>

text \<open>
  Whatever the Redis client does (connection errors, wrong types, corrupt values), every
  public operation of the store returns normally, so the decision path never fails because of it.
\<close>

theorem action_store_never_raises:
  "never_raises (finalize_outcome R now p d r s rid ts) \<and> never_raises (get_metrics R now now' p) \<and>
   never_raises (record_health R now u p lat ts) \<and> never_raises (set_block_cooldown R p ms secs rid) \<and>
   never_raises (get_block_cooldown_until_ms R p) \<and> never_raises (clear_block_cooldown R p rid) \<and>
   never_raises (mark_report_sent R p ty m ttl) \<and> never_raises (record_timeout_fallback R now p rid ts) \<and>
   never_raises (get_health R now now' p)"
  by (intro conjI store_never_raises)

section \<open>Cooldown\<close>

lemma cooldown_keys [simp]:
  "cooldown_key p \<noteq> cooldown_owner_key q" "cooldown_owner_key q \<noteq> cooldown_key p"
  by (simp_all add: cooldown_key_def cooldown_owner_key_def)

text \<open>The cooldown keys hold no sorted set.\<close>

definition cooldown_strings :: "('w \<Rightarrow> string \<Rightarrow> string \<Rightarrow> int option) \<Rightarrow> 'w \<Rightarrow> string \<Rightarrow> bool" where
  "cooldown_strings zv w p \<longleftrightarrow> zv w (cooldown_key p) = Map.empty \<and> zv w (cooldown_owner_key p) = Map.empty"

context redis_contract
begin

lemma get_cooldown_text:
  assumes "ok w"
  shows "get_block_cooldown_until_ms R p w = (Inr (case sv w (cooldown_key p) of None \<Rightarrow> None
     | Some s \<Rightarrow> (case py_int_str s of None \<Rightarrow> None | Some n \<Rightarrow> if n > 0 then Some n else None)), w)"
proof -
  obtain v where v: "r_get R (cooldown_key p) w = (Inr v, w)" "map_option rtext v = sv w (cooldown_key p)"
    using get_text [OF assms] by blast
  show ?thesis
    by (cases v; cases "py_int_str (rtext (the v))")
      (auto simp: v(1) v(2) [symmetric] get_block_cooldown_until_ms_def try_except_def bnd_def)
qed

lemma set_cooldown_view:
  assumes "ok w" "cooldown_strings zv w p" "rid \<noteq> []"
  shows "\<exists>w'. set_block_cooldown R p ms secs (Some rid) w = (Inr (), w') \<and> ok w' \<and> zv w' = zv w
     \<and> sv w' = (sv w)(cooldown_key p \<mapsto> py_str_int ms, cooldown_owner_key p \<mapsto> rid)"
proof -
  have z: "zv w (cooldown_key p) = Map.empty" "zv w (cooldown_owner_key p) = Map.empty" "0 < max secs 1"
    using assms(2) by (simp_all add: cooldown_strings_def)
  from set [OF assms(1) z(1,3)] obtain w1 where 1:
    "r_set R (cooldown_key p) (py_str_int ms) (max secs 1) w = (Inr (), w1)" "ok w1"
    "sv w1 = (sv w)(cooldown_key p \<mapsto> py_str_int ms)" "zv w1 = zv w" by blast
  from set [OF 1(2) _ z(3), of "cooldown_owner_key p" rid] z(2) 1(4) obtain w2 where
    "r_set R (cooldown_owner_key p) rid (max secs 1) w1 = (Inr (), w2)" "ok w2"
    "sv w2 = (sv w1)(cooldown_owner_key p \<mapsto> rid)" "zv w2 = zv w" by auto
  then show ?thesis using 1 assms(3)
    by (simp add: set_block_cooldown_def truthy_def try_except_def bnd_def)
qed

lemma clear_cooldown_view:
  assumes "ok w" "cooldown_strings zv w p"
  shows "\<exists>w'. clear_block_cooldown R p (Some rid) w
      = (Inr (case sv w (cooldown_owner_key p) of None \<Rightarrow> rid = [] | Some s \<Rightarrow> s = rid), w') \<and> ok w' \<and> zv w' = zv w
     \<and> sv w' = (if (case sv w (cooldown_owner_key p) of None \<Rightarrow> rid = [] | Some s \<Rightarrow> s = rid)
                then (sv w)(cooldown_key p := None, cooldown_owner_key p := None) else sv w)"
proof -
  have z: "zv w (cooldown_key p) = Map.empty" "zv w (cooldown_owner_key p) = Map.empty"
    using assms(2) by (simp_all add: cooldown_strings_def)
  obtain v where v: "r_get R (cooldown_owner_key p) w = (Inr v, w)"
    "map_option rtext v = sv w (cooldown_owner_key p)" using get_text [OF assms(1)] by blast
  have own: "(case v of None \<Rightarrow> [] | Some x \<Rightarrow> rtext x) = rid \<longleftrightarrow>
      (case sv w (cooldown_owner_key p) of None \<Rightarrow> rid = [] | Some s \<Rightarrow> s = rid)"
    by (cases v) (auto simp: v(2) [symmetric])
  from delete [OF assms(1) z(1)] obtain r1 w1 where 1:
    "r_delete R (cooldown_key p) w = (Inr r1, w1)" "ok w1" "sv w1 = (sv w)(cooldown_key p := None)"
    "zv w1 = zv w" by blast
  from delete [OF 1(2), of "cooldown_owner_key p"] z(2) 1(4) obtain r2 w2 where
    "r_delete R (cooldown_owner_key p) w1 = (Inr r2, w2)" "ok w2"
    "sv w2 = (sv w1)(cooldown_owner_key p := None)" "zv w2 = zv w" by auto
  then show ?thesis using 1 v(1) own assms(1)
    by (auto simp: clear_block_cooldown_def try_except_def bnd_def Let_def)
qed

lemma mark_report_view:
  assumes "ok w" "zv w (report_key p ty m) = Map.empty"
  shows "\<exists>w'. mark_report_sent R p ty m ttl w = (Inr (sv w (report_key p ty m) = None), w') \<and> ok w'
     \<and> zv w' = zv w \<and> sv w' (report_key p ty m) \<noteq> None
     \<and> (\<forall>k. k \<noteq> report_key p ty m \<longrightarrow> sv w' k = sv w k)"
  using set_nx_ex [OF assms, of "max ttl 1" "''1''"] less_max_iff_disj [of 0 ttl 1]
  by (auto simp: mark_report_sent_def try_except_def split: if_splits)

end

text \<open>
  A cooldown that was set is read back with its exact expiry; only the request that owns it
  can clear it: a clear by another request id returns False and leaves it, a clear by the owner
  returns True and removes it.
\<close>

theorem cooldown_ownership:
  assumes "redis_contract R ok sv zv" "ok w" "cooldown_strings zv w p"
    and "0 < ms" "owner \<noteq> []" "other \<noteq> owner"
  shows "\<exists>w'. bnd (set_block_cooldown R p ms secs (Some owner)) (\<lambda>_.
        bnd (get_block_cooldown_until_ms R p) (\<lambda>a.
        bnd (clear_block_cooldown R p (Some other)) (\<lambda>b.
        bnd (get_block_cooldown_until_ms R p) (\<lambda>c.
        bnd (clear_block_cooldown R p (Some owner)) (\<lambda>d.
        bnd (get_block_cooldown_until_ms R p) (\<lambda>e. ret (a, b, c, d, e))))))) w
      = (Inr (Some ms, False, Some ms, True, None), w')"
proof -
  note set = redis_contract.set_cooldown_view [OF assms(1)]
    and clear = redis_contract.clear_cooldown_view [OF assms(1)]
    and get = redis_contract.get_cooldown_text [OF assms(1)]
  from set [OF assms(2,3,5)] obtain w1 where 1: "set_block_cooldown R p ms secs (Some owner) w = (Inr (), w1)"
    "ok w1" "zv w1 = zv w" "sv w1 = (sv w)(cooldown_key p \<mapsto> py_str_int ms, cooldown_owner_key p \<mapsto> owner)"
    by blast
  have "cooldown_strings zv w1 p" using 1(3) assms(3) by (simp add: cooldown_strings_def)
  from clear [OF 1(2) this, of other] 1(3,4) assms(6) obtain w2 where 2:
    "clear_block_cooldown R p (Some other) w1 = (Inr False, w2)" "ok w2" "zv w2 = zv w" "sv w2 = sv w1"
    by auto
  have "cooldown_strings zv w2 p" using 2(3) assms(3) by (simp add: cooldown_strings_def)
  from clear [OF 2(2) this, of owner] 1(4) 2(3,4) obtain w3 where 3:
    "clear_block_cooldown R p (Some owner) w2 = (Inr True, w3)" "ok w3"
    "sv w3 = (sv w2)(cooldown_key p := None, cooldown_owner_key p := None)" by auto
  show ?thesis using 1 2 3 assms(4) get [OF 1(2), of p] get [OF 2(2), of p] get [OF 3(2), of p]
    by (simp add: bnd_def)
qed

theorem cooldown_ownership_witness:
  "\<exists>w'. bnd (set_block_cooldown fake_redis ''p:openai'' 1773000000000 60 (Some ''r1'')) (\<lambda>_.
        bnd (get_block_cooldown_until_ms fake_redis ''p:openai'') (\<lambda>a.
        bnd (clear_block_cooldown fake_redis ''p:openai'' (Some ''r2'')) (\<lambda>b.
        bnd (get_block_cooldown_until_ms fake_redis ''p:openai'') (\<lambda>c.
        bnd (clear_block_cooldown fake_redis ''p:openai'' (Some ''r1'')) (\<lambda>d.
        bnd (get_block_cooldown_until_ms fake_redis ''p:openai'') (\<lambda>e. ret (a, b, c, d, e))))))) fake_empty
      = (Inr (Some 1773000000000, False, Some 1773000000000, True, None), w')"
  by (rule cooldown_ownership [OF fr.redis_contract_axioms fake_empty_views(1)])
    (simp_all add: cooldown_strings_def)

text \<open>
  A report marker is sent once: of two attempts the first says True exactly when the marker is
  new, the second says False, and a marker of another name is not affected.
\<close>

theorem report_sent_once:
  assumes "redis_contract R ok sv zv" "ok w" "zv w (report_key p ty m) = Map.empty"
    and "zv w (report_key p ty m') = Map.empty" "m' \<noteq> m"
  shows "\<exists>w'. bnd (mark_report_sent R p ty m ttl) (\<lambda>a. bnd (mark_report_sent R p ty m ttl) (\<lambda>b.
        bnd (mark_report_sent R p ty m' ttl) (\<lambda>c. ret (a, b, c)))) w
      = (Inr (sv w (report_key p ty m) = None, False, sv w (report_key p ty m') = None), w')"
proof -
  note mark = redis_contract.mark_report_view [OF assms(1)]
  have k: "report_key p ty m' \<noteq> report_key p ty m" using assms(5) by (simp add: report_key_def)
  from mark [OF assms(2,3)] obtain w1 where 1:
    "mark_report_sent R p ty m ttl w = (Inr (sv w (report_key p ty m) = None), w1)" "ok w1" "zv w1 = zv w"
    "sv w1 (report_key p ty m) \<noteq> None" "sv w1 (report_key p ty m') = sv w (report_key p ty m')"
    using k by blast
  from mark [OF 1(2), of p ty m] 1(3,4) assms(3) obtain w2 where 2:
    "mark_report_sent R p ty m ttl w1 = (Inr False, w2)" "ok w2" "zv w2 = zv w"
    "sv w2 (report_key p ty m') = sv w1 (report_key p ty m')" using k by auto
  from mark [OF 2(2), of p ty m'] 2(3) assms(4) obtain w3 where
    "mark_report_sent R p ty m' ttl w2 = (Inr (sv w2 (report_key p ty m') = None), w3)" by auto
  then show ?thesis using 1 2 by (simp add: bnd_def)
qed

theorem report_sent_once_witness:
  "\<exists>w'. bnd (mark_report_sent fake_redis ''p:openai'' ''fail_closed'' ''r1'' 300) (\<lambda>a.
        bnd (mark_report_sent fake_redis ''p:openai'' ''fail_closed'' ''r1'' 300) (\<lambda>b.
        bnd (mark_report_sent fake_redis ''p:openai'' ''fail_closed'' ''r2'' 300) (\<lambda>c. ret (a, b, c)))) fake_empty
      = (Inr (True, False, True), w')"
  using report_sent_once [OF fr.redis_contract_axioms fake_empty_views(1), of "''p:openai''" "''fail_closed''"
      "''r1''" "''r2''" 300] by simp

section \<open>Percentiles\<close>

lemma percentile_factor:
  "py_div (of_int 50) 100 = 1 / 2" "\<bar>py_div (of_int 95) 100 - 19 / 20\<bar> \<le> 1 / 2 ^ 50"
  "py_div (of_int 95) 100 \<le> 19 / 20"
  by (simp_all add: py_div_def) code_simp+

lemma ceiling_fl_mult:
  fixes c :: rat and a n :: int
  assumes "0 \<le> n" "n < 2 ^ 20" "0 \<le> c" "c \<le> of_int a / 20" "of_int a / 20 - c \<le> 1 / 2 ^ 50" "a \<le> 20"
  shows "\<lceil>fl (c * of_int n)\<rceil> = \<lceil>of_int (a * n) / (20 :: rat)\<rceil>"
proof -
  define N where "N = \<lceil>of_int (a * n) / (20 :: rat)\<rceil>"
  let ?x = "c * of_int n"
  have nr: "(0 :: rat) \<le> of_int n" "(of_int n :: rat) < 2 ^ 20"
    using assms(1,2) by (simp, metis of_int_less_iff of_int_numeral of_int_power)
  have c1: "c \<le> 1" using assms(4,6) by (metis divide_le_eq_1_pos dual_order.trans of_int_le_numeral_iff zero_less_numeral)
  have x0: "0 \<le> ?x" using assms(3) nr by simp
  have x1: "?x \<le> of_int n" using c1 nr by (metis mult_right_mono mult_1)
  have hi: "?x \<le> of_int (a * n) / 20" using mult_right_mono [OF assms(4) nr(1)] by simp
  have "(of_int a / 20 - c) * of_int n \<le> 1 / 2 ^ 50 * 2 ^ 20"
    using assms(4,5) nr by (intro mult_mono) auto
  then have lo: "of_int (a * n) / 20 - 1 / 2 ^ 30 \<le> ?x" by (simp add: left_diff_distrib)
  have "\<bar>?x\<bar> < 2 ^ 20" using x0 x1 nr by linarith
  then have err: "\<bar>fl ?x - ?x\<bar> \<le> 1 / 2 ^ 34" by (rule fl_small_err)
  have Nb: "of_int N - 1 < (of_int (a * n) / 20 :: rat)" "of_int (a * n) / (20 :: rat) \<le> of_int N"
    using ceiling_correct [of "of_int (a * n) / (20 :: rat)"] by (simp_all add: N_def)
  have "of_int (20 * (N - 1)) < (of_int (a * n) :: rat)" using Nb(1) by simp
  then have "20 * (N - 1) + 1 \<le> a * n" unfolding of_int_less_iff by simp
  then have "of_int (20 * (N - 1) + 1) \<le> (of_int (a * n) :: rat)" by (rule of_int_le_iff [THEN iffD2])
  then have gap: "of_int N - 1 + 1 / 20 \<le> (of_int (a * n) / 20 :: rat)" by simp
  have "(1 :: rat) / 2 ^ 30 \<le> 1 / 100" "(1 :: rat) / 2 ^ 34 \<le> 1 / 100" by simp_all
  then have "of_int (a * n) / 20 - 1 / 100 \<le> ?x" "\<bar>fl ?x - ?x\<bar> \<le> 1 / 100" using lo err by linarith+
  then have "of_int N - 1 < fl ?x" using gap by linarith
  moreover have "fl ?x \<le> of_int N"
  proof -
    have "\<bar>N\<bar> \<le> 2 ^ 53"
    proof -
      have "(of_int (a * n) / 20 :: rat) \<le> of_int n"
        using assms(1,6) mult_right_mono [of a 20 n] by (simp add: divide_le_eq flip: of_int_mult)
      then have "N \<le> n" by (simp add: N_def ceiling_le_iff)
      moreover have "-1 < (of_int N :: rat)"
        using Nb(2) x0 hi by linarith
      then have "-1 < N" by linarith
      ultimately show ?thesis using assms(1,2) by simp
    qed
    then have "fl (of_int N) = of_int N" by (rule fl_of_int)
    then show ?thesis using fl_mono [of ?x "of_int N"] hi Nb(2) by linarith
  qed
  ultimately show ?thesis unfolding N_def [symmetric] by (simp add: ceiling_eq_iff)
qed

lemma percentile_rank_exact:
  assumes "p \<in> {50, 95}" "0 \<le> n" "n < 2 ^ 20"
  shows "percentile_rank p n = \<lceil>of_int (p * n) / (100 :: rat)\<rceil> - 1"
proof -
  have n: "py_float n = of_int n" using assms by (intro py_float_int) simp
  have "p = 50 \<or> p = 95" using assms(1) by simp
  then show ?thesis
  proof
    assume p: "p = 50"
    have "\<lceil>fl (1 / 2 * of_int n)\<rceil> = \<lceil>of_int (10 * n) / (20 :: rat)\<rceil>"
      using assms by (intro ceiling_fl_mult) simp_all
    moreover have "of_int (10 * n) / (20 :: rat) = of_int (50 * n) / 100" by simp
    ultimately show ?thesis
      unfolding percentile_rank_def p n percentile_factor py_mul_def by simp
  next
    assume p: "p = 95"
    let ?c = "py_div (of_int 95) 100"
    have "0 \<le> ?c" unfolding py_div_def by (intro fl_nonneg) simp
    then have "\<lceil>fl (?c * of_int n)\<rceil> = \<lceil>of_int (19 * n) / (20 :: rat)\<rceil>"
      using assms percentile_factor(2,3) by (intro ceiling_fl_mult) simp_all
    moreover have "of_int (19 * n) / (20 :: rat) = of_int (95 * n) / 100" by simp
    ultimately show ?thesis unfolding percentile_rank_def p n py_mul_def by simp
  qed
qed

text \<open>
  The 50th and 95th latency percentiles are the nearest-rank percentiles, exactly: although
  the rank is computed as \<open>math.ceil((percentile / 100) * len(values)) - 1\<close> on doubles (and 0.95 is
  not a double), the value returned is the one at position \<open>ceil(p * n / 100)\<close> of the sorted
  samples, for up to a million of them.
\<close>

theorem percentile_nearest_rank:
  assumes "p \<in> {50, 95}" "members \<noteq> []" "length members < 2 ^ 20"
    and "\<And>m. m \<in> set members \<Longrightarrow> latency_of_member m \<noteq> None"
  shows "percentile (parse_latencies members) p =
     Some (sort (map (\<lambda>m. the (latency_of_member m)) members)
       ! nat (\<lceil>of_int (p * int (length members)) / (100 :: rat)\<rceil> - 1))"
proof -
  define n where "n = int (length members)"
  have "List.map_filter latency_of_member members = map (\<lambda>m. the (latency_of_member m)) members"
    using assms(4) by (induction members) (auto simp: List.map_filter_def)
  then have vs: "parse_latencies members = sort (map (\<lambda>m. the (latency_of_member m)) members)"
    by (simp add: parse_latencies_def)
  have n: "0 < n" "n < 2 ^ 20" using assms(2,3) by (auto simp: n_def)
  have r: "percentile_rank p n = \<lceil>of_int (p * n) / (100 :: rat)\<rceil> - 1"
    using assms(1) n by (intro percentile_rank_exact) simp_all
  have "0 < of_int (p * n) / (100 :: rat)" "of_int (p * n) / (100 :: rat) \<le> of_int n"
    using assms(1) n by auto
  then have "1 \<le> \<lceil>of_int (p * n) / (100 :: rat)\<rceil>" "\<lceil>of_int (p * n) / (100 :: rat)\<rceil> \<le> n"
    by (simp_all add: ceiling_le_iff less_ceiling_iff int_one_le_iff_zero_less)
  moreover have "sort (map (\<lambda>m. the (latency_of_member m)) members) \<noteq> []"
    using assms(2) by (metis length_0_conv length_map length_sort)
  ultimately show ?thesis using r n_def
    by (simp add: percentile_def vs Let_def)
qed

theorem percentile_nearest_rank_witness:
  "percentile (parse_latencies [RBytes ''17:ab:30'', RBytes ''18:cd:10'', RBytes ''19:ef:20'']) 50 = Some 20"
proof -
  let ?ms = "[RBytes ''17:ab:30'', RBytes ''18:cd:10'', RBytes ''19:ef:20'']"
  have l: "map latency_of_member ?ms = [Some 30, Some 10, Some 20]" by code_simp
  then have "\<And>m. m \<in> set ?ms \<Longrightarrow> latency_of_member m \<noteq> None" by auto
  moreover have "\<lfloor>- (3 / 2) :: rat\<rfloor> = - 2" by (simp add: floor_eq_iff)
  ultimately show ?thesis using percentile_nearest_rank [of 50 ?ms] l by (simp add: ceiling_def)
qed

end
