(* ===== verification/Decision_Table.thy ===== *)
theory Decision_Table
  imports Protect_Service Action_Store_Facts
begin

text \<open>
  What \<open>ProtectService.evaluate_decision\<close> promises: the decision is a function of the project, the
  request, the counters, the cooldown and the clock (\<open>decide\<close>), whatever happens to the
  notifications; caps block, the clamp stays within its bounds and tightens with pressure, and the
  times a block announces survive their way through doubles and ISO texts.
\<close>

section \<open>The table\<close>

definition blocked :: "'w protect_service \<Rightarrow> project \<Rightarrow> string \<Rightarrow> int \<Rightarrow> int \<Rightarrow> int \<Rightarrow> int \<Rightarrow> protect_decision" where
  "blocked P project reason until_ms now_ms requests_60s tokens_60s =
     decision_of P project ''block'' reason (Some (max 0 (ceil_div_1000 (until_ms - now_ms))))
       (Some (iso_of_ms until_ms)) (snapshot_of P project requests_60s tokens_60s no_prediction) None"

text \<open>The clamp a request gets, if it lowers the output limit.\<close>

definition effective_clamp :: "'w protect_service \<Rightarrow> project \<Rightarrow> decision_context \<Rightarrow> int \<Rightarrow> clamp option" where
  "effective_clamp P project ctx tokens_60s =
     (if \<not> pr_apply_clamp project then None
      else case (build_clamp (ps_pressure_thresholds P) (ps_output_ratios P) (pr_max_tok_per_min project) tokens_60s (cx_max_output_tokens ctx)
                   (estimate_next_tokens ctx), cx_max_output_tokens ctx) of
        (Some c, Some mo) \<Rightarrow> if cl_recommended c < mo then Some c else None
      | _ \<Rightarrow> None)"

definition at_cap :: "int option \<Rightarrow> int \<Rightarrow> bool" where
  "at_cap cap n \<longleftrightarrow> (case cap of None \<Rightarrow> False | Some c \<Rightarrow> c \<le> n)"

definition cooling :: "int option \<Rightarrow> int \<Rightarrow> bool" where
  "cooling cooldown now_ms \<longleftrightarrow> (case cooldown of None \<Rightarrow> False | Some u \<Rightarrow> now_ms < u)"

definition decide ::
  "'w protect_service \<Rightarrow> project \<Rightarrow> decision_context \<Rightarrow> int \<Rightarrow> int option \<Rightarrow> int \<Rightarrow> int \<Rightarrow> protect_decision" where
  "decide P project ctx now_ms cooldown requests_60s tokens_60s =
     (let cap_until = now_ms + max (ps_cooldown_seconds P) 1 * 1000;
          sn = snapshot_of P project requests_60s tokens_60s
      in if \<not> pr_protect_enabled project then
           decision_of P project ''allow'' ''ok'' None None (sn no_prediction) None
         else if cooling cooldown now_ms then
           blocked P project ''cooldown_active'' (the cooldown) now_ms requests_60s tokens_60s
         else if at_cap (pr_max_tok_per_min project) tokens_60s then
           blocked P project ''tok_cap_breach'' cap_until now_ms requests_60s tokens_60s
         else if at_cap (pr_max_req_per_min project) requests_60s then
           blocked P project ''req_cap_breach'' cap_until now_ms requests_60s tokens_60s
         else (let predicted = sn (prediction (pr_max_tok_per_min project) tokens_60s (estimate_next_tokens ctx))
               in case effective_clamp P project ctx tokens_60s of
                    Some c \<Rightarrow> decision_of P project ''clamp'' ''token_clamp'' None None predicted (Some c)
                  | None \<Rightarrow> decision_of P project ''allow'' ''ok'' None None predicted None))"

section \<open>Notifications do not interfere\<close>

lemma protection_event_never_raises: "never_raises (enqueue_protection_event P ev tpl pid pv pl seed)"
  unfolding enqueue_protection_event_def
  by (intro never_raises_bnd) (auto intro: never_raises_try split: option.splits)

lemma block_notifications_never_raise:
  "never_raises (ps_now P) \<Longrightarrow> never_raises (enqueue_block_notifications P a b c d e f g h i j k l m)"
  unfolding enqueue_block_notifications_def Let_def
  by (intro never_raises_bnd protection_event_never_raises)

lemma cooldown_notifications_never_raise:
  "never_raises (ps_now P) \<Longrightarrow>
     never_raises (enqueue_cooldown_block_if_needed P a b c d e f g h i j k l)"
  unfolding enqueue_cooldown_block_if_needed_def Let_def
  by (intro never_raises_bnd store_never_raises never_raises_if never_raises_ret
      protection_event_never_raises)

lemma clamp_notifications_never_raise:
  "never_raises (ps_now P) \<Longrightarrow>
     never_raises (enqueue_clamp_started_notifications P a b c d e f g h i j k l)"
  unfolding enqueue_clamp_started_notifications_def Let_def
  by (intro never_raises_bnd store_never_raises never_raises_if never_raises_ret
      protection_event_never_raises)

lemma should_emit_never_raises:
  "never_raises (ps_perf_counter P) \<Longrightarrow> never_raises (should_emit_live_notifications P t ms)"
  unfolding should_emit_live_notifications_def Let_def
  by (intro never_raises_bnd never_raises_ret)

text \<open>After a computation that does not raise, a result that does not depend on it.\<close>

lemma bnd_result:
  assumes "never_raises m" "\<And>a w. \<exists>w'. f a w = (Inr b, w')"
  shows "\<exists>w'. bnd m f w = (Inr b, w')"
proof -
  obtain a w1 where m: "m w = (Inr a, w1)" using assms(1) by (rule never_raisesE)
  from assms(2) [of a w1] show ?thesis by (simp add: bnd_def m)
qed

lemma build_block_decision_result:
  assumes "never_raises (ps_now P)"
  shows "\<exists>w'. build_block_decision P project pv ctx reason r t now_ms emit w =
     (Inr (blocked P project reason (now_ms + max (ps_cooldown_seconds P) 1 * 1000) now_ms r t), w')"
  unfolding build_block_decision_def Let_def blocked_def
  by (intro bnd_result never_raises_when block_notifications_never_raise assms) simp

lemma cap_breach_decision_result:
  assumes "never_raises (ps_now P)" "never_raises (ps_perf_counter P)"
  shows "\<exists>w'. cap_breach_decision P project pv ctx st reason r t now_ms emit w =
     (Inr (blocked P project reason (now_ms + max (ps_cooldown_seconds P) 1 * 1000) now_ms r t), w')"
  unfolding cap_breach_decision_def
  by (intro bnd_result never_raises_if should_emit_never_raises never_raises_ret
      build_block_decision_result assms)

lemma cooldown_decision_result:
  assumes "never_raises (ps_now P)" "never_raises (ps_perf_counter P)"
  shows "\<exists>w'. cooldown_decision P project pv ctx st r t now_ms u emit w =
     (Inr (blocked P project ''cooldown_active'' u now_ms r t), w')"
  unfolding cooldown_decision_def Let_def blocked_def
  by (intro bnd_result never_raises_if should_emit_never_raises never_raises_ret never_raises_when
      cooldown_notifications_never_raise assms) simp

lemma clamp_or_allow_result:
  assumes "never_raises (ps_now P)" "never_raises (ps_perf_counter P)"
  shows "\<exists>w'. clamp_or_allow P project pv ctx st r t emit w =
     (Inr (let predicted = snapshot_of P project r t
              (prediction (pr_max_tok_per_min project) t (estimate_next_tokens ctx))
           in case effective_clamp P project ctx t of
                Some c \<Rightarrow> decision_of P project ''clamp'' ''token_clamp'' None None predicted (Some c)
              | None \<Rightarrow> decision_of P project ''allow'' ''ok'' None None predicted None), w')"
proof -
  let ?clamp = "build_clamp (ps_pressure_thresholds P) (ps_output_ratios P) (pr_max_tok_per_min project) t (cx_max_output_tokens ctx) (estimate_next_tokens ctx)"
  have go: "\<exists>w'. bnd m (\<lambda>emit. bnd (when_py emit
         (enqueue_clamp_started_notifications P a b c d e f g h i j k l)) (\<lambda>_. ret v)) w = (Inr v, w')"
    if "never_raises m" for m a b c d e f g h i j k l and v :: protect_decision
    by (intro bnd_result that never_raises_when clamp_notifications_never_raise assms) simp
  show ?thesis
    by (cases ?clamp; cases "cx_max_output_tokens ctx")
      (auto simp: clamp_or_allow_def effective_clamp_def Let_def
        intro!: go should_emit_never_raises assms)
qed

text \<open>
  What one evaluation reads, in the order it reads it: the project of the key, the clock, the
  counters and the cooldown of the provider's scope. The two clocks do not raise.
\<close>

definition readings ::
  "'w protect_service \<Rightarrow> string \<Rightarrow> decision_context \<Rightarrow> 'w \<Rightarrow> project \<Rightarrow> datetime \<Rightarrow> int option \<Rightarrow> int \<Rightarrow> int \<Rightarrow> bool" where
  "readings P key ctx w project now cooldown r t \<longleftrightarrow>
     (\<exists>started w1 w2 w3 w4 w5.
       ps_perf_counter P w = (Inr started, w1) \<and> ps_resolve_project P key w1 = (Inr (Some project), w2) \<and>
       ps_now P w2 = (Inr now, w3) \<and>
       cs_get (ps_counters P) (scoped_project_provider_id (pr_id project)
         (Some (normalized_provider (cx_provider ctx)))) w3 = (Inr (r, t), w4) \<and>
       get_block_cooldown_until_ms (ps_redis P) (scoped_project_provider_id (pr_id project)
         (Some (normalized_provider (cx_provider ctx)))) w4 = (Inr cooldown, w5)) \<and>
     never_raises (ps_now P) \<and> never_raises (ps_perf_counter P)"

lemma evaluate_decides:
  assumes "readings P key ctx w project now cooldown r t"
  shows "\<exists>w'. evaluate_decision P key ctx emit w =
     (Inr (Some (pr_id project, decide P project ctx (epoch_ms now) cooldown r t)), w')"
proof -
  let ?pv = "or_str (strip (opt_or (cx_provider ctx) [])) ''unknown''"
  from assms obtain started w1 w2 w3 w4 w5 where steps:
      "ps_perf_counter P w = (Inr started, w1)" "ps_resolve_project P key w1 = (Inr (Some project), w2)"
      "ps_now P w2 = (Inr now, w3)"
      "cs_get (ps_counters P) (scoped_project_provider_id (pr_id project)
         (Some (normalized_provider (cx_provider ctx)))) w3 = (Inr (r, t), w4)"
      "get_block_cooldown_until_ms (ps_redis P) (scoped_project_provider_id (pr_id project)
         (Some (normalized_provider (cx_provider ctx)))) w4 = (Inr cooldown, w5)"
    and nr: "never_raises (ps_now P)" "never_raises (ps_perf_counter P)"
    unfolding readings_def by blast
  note cool = cooldown_decision_result [OF nr]
    and cap = cap_breach_decision_result [OF nr]
    and clamp = clamp_or_allow_result [OF nr]
  note run = evaluate_decision_def bnd_def Let_def steps(1-3) steps(4,5) [unfolded normalized_provider_def]
  show ?thesis
  proof (cases "pr_protect_enabled project")
    case False
    then show ?thesis by (simp add: run decide_def)
  next
    case en: True
    show ?thesis
    proof (cases "cooling cooldown (epoch_ms now)")
      case True
      then obtain u where u: "cooldown = Some u" "epoch_ms now < u"
        by (auto simp: cooling_def split: option.splits)
      obtain w6 where "cooldown_decision P project ?pv ctx started r t (epoch_ms now) u emit w5
          = (Inr (blocked P project ''cooldown_active'' u (epoch_ms now) r t), w6)" using cool by blast
      then show ?thesis using en True u by (simp add: run decide_def)
    next
      case False
      then have nc: "(case cooldown of None \<Rightarrow> ret None | Some until_ms \<Rightarrow>
            if epoch_ms now < until_ms then m until_ms else ret None) = ret None" for m
        by (auto simp: cooling_def split: option.splits)
      obtain w6 where tok: "cap_breach_decision P project ?pv ctx started ''tok_cap_breach'' r t (epoch_ms now) emit w5
          = (Inr (blocked P project ''tok_cap_breach'' (epoch_ms now + max (ps_cooldown_seconds P) 1 * 1000)
               (epoch_ms now) r t), w6)" using cap by blast
      obtain w7 where req: "cap_breach_decision P project ?pv ctx started ''req_cap_breach'' r t (epoch_ms now) emit w5
          = (Inr (blocked P project ''req_cap_breach'' (epoch_ms now + max (ps_cooldown_seconds P) 1 * 1000)
               (epoch_ms now) r t), w7)" using cap by blast
      obtain w8 d where below: "clamp_or_allow P project ?pv ctx started r t emit w5 = (Inr d, w8)"
        "d = (let predicted = snapshot_of P project r t
              (prediction (pr_max_tok_per_min project) t (estimate_next_tokens ctx))
           in case effective_clamp P project ctx t of
                Some c \<Rightarrow> decision_of P project ''clamp'' ''token_clamp'' None None predicted (Some c)
              | None \<Rightarrow> decision_of P project ''allow'' ''ok'' None None predicted None)"
        using clamp by blast
      have d: "decide P project ctx (epoch_ms now) cooldown r t =
          (if at_cap (pr_max_tok_per_min project) t then blocked P project ''tok_cap_breach''
             (epoch_ms now + max (ps_cooldown_seconds P) 1 * 1000) (epoch_ms now) r t
           else if at_cap (pr_max_req_per_min project) r then blocked P project ''req_cap_breach''
             (epoch_ms now + max (ps_cooldown_seconds P) 1 * 1000) (epoch_ms now) r t
           else d)"
        using en False by (simp add: decide_def below(2))
      show ?thesis using en tok req below(1) by (simp add: run nc d at_cap_def)
    qed
  qed
qed

text \<open>
  C1: the decision is exactly the decision table's. With the readings of the service (project,
  clock, counters, cooldown) fixed, \<open>evaluate_decision\<close> returns the project's id and \<open>decide\<close> of
  those readings; whether notifications are sent, suppressed because the evaluation was late, or
  fail in Redis, the outbox or the queue, never changes the decision or makes it an error.
\<close>

theorem evaluate_decision_table:
  assumes "readings P key ctx w project now cooldown r t"
  shows "\<exists>w'. evaluate_decision P key ctx emit w =
     (Inr (Some (pr_id project, decide P project ctx (epoch_ms now) cooldown r t)), w')"
  using assms by (rule evaluate_decides)

section \<open>A concrete service\<close>

text \<open>
  A service like the one of the backend's tests: in-memory Redis, two clamp stages, no dispatcher and
  no transport, and one project with a cap of 1000 tokens per minute.
\<close>

definition example_project :: project where
  "example_project = \<lparr> pr_id = ''p1'', pr_name = ''demo'', pr_user_id = Some ''u1'', pr_created_at = 0,
     pr_protect_enabled = True, pr_protect_fail_mode = ''open'', pr_apply_clamp = True,
     pr_max_req_per_min = Some 10, pr_max_tok_per_min = Some 1000, pr_webhook_enabled = False,
     pr_email_enabled = False, pr_webhook_url = None \<rparr>"

definition example_service :: "fake_redis_state protect_service" where
  "example_service = \<lparr>
     ps_resolve_project = (\<lambda>key. ret (if key = ''key'' then Some example_project else None)),
     ps_counters = RollingWindow fake_redis 1773000000000 ''m1'', ps_redis = fake_redis,
     ps_cooldown_seconds = 60, ps_get_project = None, ps_dedup_window_seconds = 300,
     ps_dispatcher = None, ps_transport = None, ps_now = ret 1773000000000000, ps_perf_counter = ret 0,
     ps_timeout_ms = 300, ps_pressure_thresholds = [1 / 2, 3 / 4], ps_output_ratios = [3 / 4, 1 / 2] \<rparr>"

definition example_context :: decision_context where
  "example_context = \<lparr> cx_max_output_tokens = Some 500, cx_input_tokens_estimate = Some 300,
     cx_environment = None, cx_provider = Some ''openai'', cx_requested_model = None, cx_feature = None \<rparr>"

lemma example_clamp:
  "build_clamp [1 / 2, 3 / 4] [3 / 4, 1 / 2] (Some 1000) 100 (Some 500) (Some 800) =
     Some \<lparr> cl_recommended = 250, cl_applied = False \<rparr>"
  by (simp add: build_clamp_def resolve_clamp_output_ratio_def py_mul_def py_float_def Let_def)

lemma example_scope: "scoped_project_provider_id ''p1'' (Some (normalized_provider (Some ''openai''))) = ''p1:openai''"
  by code_simp

lemma example_readings:
  "readings example_service ''key'' example_context fake_empty example_project 1773000000000000 None 0 0"
proof -
  obtain w1 where w1: "get_project_60s fake_redis 1773000000000 ''p1:openai'' fake_empty = (Inr (0, 0), w1)"
    "fake_ok w1" "win_rep fake_sv fake_zv w1 ''p1:openai'' []"
    using fr.get_refines [OF fake_empty_views(1), of "''p1:openai''" "[]" 1773000000000]
      win_rep_empty [of "''p1:openai''" 0] by (auto simp: win_recent_def win_totals_def)
  have "get_block_cooldown_until_ms fake_redis ''p1:openai'' w1 = (Inr None, w1)"
  proof -
    have "fvalues w1 = fvalues fake_empty"
      using w1(1) by (auto simp: get_project_60s_def Let_def bnd_def fake_defs fake_empty_def
          py_raise_sum_def split: sum.splits prod.splits)
    then have "fake_sv w1 k = None" for k by (simp add: fake_sv_def fake_empty_def)
    then show ?thesis using fr.get_cooldown_text [OF w1(2), of "''p1:openai''"] by simp
  qed
  then show ?thesis
    using w1(1) by (simp add: readings_def example_service_def example_project_def example_context_def
        example_scope RollingWindow_def)
qed

text \<open>The same service when the counters read \<open>r\<close> requests and \<open>t\<close> tokens.\<close>

definition example_service_at :: "int \<Rightarrow> int \<Rightarrow> fake_redis_state protect_service" where
  "example_service_at r t = example_service\<lparr> ps_counters := (ps_counters example_service)\<lparr> cs_get := (\<lambda>_. ret (r, t)) \<rparr> \<rparr>"

lemma example_now: "epoch_ms 1773000000000000 = 1773000000000"
  by code_simp

lemma example_readings_at:
  "readings (example_service_at r t) ''key'' example_context fake_empty example_project 1773000000000000 None r t"
proof -
  have "fake_sv fake_empty k = None" for k by (simp add: fake_sv_def fake_empty_def)
  then have "get_block_cooldown_until_ms fake_redis ''p1:openai'' fake_empty = (Inr None, fake_empty)"
    using fr.get_cooldown_text [OF fake_empty_views(1), of "''p1:openai''"] by simp
  then show ?thesis
    by (simp add: readings_def example_service_at_def example_service_def example_project_def
        example_context_def example_scope)
qed

theorem evaluate_decision_table_witness:
  "\<exists>w'. evaluate_decision example_service ''key'' example_context True fake_empty =
     (Inr (Some (''p1'', decide example_service example_project example_context 1773000000000 None 0 0)), w')"
  using evaluate_decision_table [OF example_readings, of True]
  by (simp add: example_now) (simp add: example_project_def)

section \<open>When a request is blocked\<close>

lemma decision_reason:
  "(d_decision (decide P project ctx now_ms cooldown r t) = ''block'' \<longleftrightarrow>
     pr_protect_enabled project \<and>
     (cooling cooldown now_ms \<or> at_cap (pr_max_tok_per_min project) t \<or> at_cap (pr_max_req_per_min project) r)) \<and>
   d_reason (decide P project ctx now_ms cooldown r t) =
     (if \<not> pr_protect_enabled project then ''ok''
      else if cooling cooldown now_ms then ''cooldown_active''
      else if at_cap (pr_max_tok_per_min project) t then ''tok_cap_breach''
      else if at_cap (pr_max_req_per_min project) r then ''req_cap_breach''
      else if effective_clamp P project ctx t \<noteq> None then ''token_clamp'' else ''ok'')"
  by (cases "pr_protect_enabled project"; cases "cooling cooldown now_ms";
      cases "at_cap (pr_max_tok_per_min project) t"; cases "at_cap (pr_max_req_per_min project) r";
      cases "effective_clamp P project ctx t")
    (simp_all add: decide_def blocked_def decision_of_def Let_def)

text \<open>
  C2: a request is blocked exactly when the project is protected and a cooldown is running or a cap
  is reached, the token cap taking precedence over the request cap in the reason; it is allowed
  unchanged whenever protection is off.
\<close>

theorem block_exactly_when:
  assumes "readings P key ctx w project now cooldown r t"
  shows "\<exists>d w'. evaluate_decision P key ctx emit w = (Inr (Some (pr_id project, d)), w') \<and>
     (d_decision d = ''block'' \<longleftrightarrow> pr_protect_enabled project \<and>
       (cooling cooldown (epoch_ms now) \<or> at_cap (pr_max_tok_per_min project) t \<or>
        at_cap (pr_max_req_per_min project) r)) \<and>
     d_reason d =
       (if \<not> pr_protect_enabled project then ''ok''
        else if cooling cooldown (epoch_ms now) then ''cooldown_active''
        else if at_cap (pr_max_tok_per_min project) t then ''tok_cap_breach''
        else if at_cap (pr_max_req_per_min project) r then ''req_cap_breach''
        else if effective_clamp P project ctx t \<noteq> None then ''token_clamp'' else ''ok'')"
  using evaluate_decides [OF assms, of emit] decision_reason by blast

theorem block_exactly_when_witness:
  "\<exists>d w'. evaluate_decision (example_service_at 10 1000) ''key'' example_context False fake_empty
     = (Inr (Some (''p1'', d)), w') \<and> d_decision d = ''block'' \<and> d_reason d = ''tok_cap_breach''"
proof -
  have p: "pr_id example_project = ''p1''" "pr_protect_enabled example_project" "\<not> cooling None n"
    "at_cap (pr_max_tok_per_min example_project) 1000" for n
    by (simp_all add: example_project_def at_cap_def cooling_def)
  show ?thesis
    using block_exactly_when [OF example_readings_at [of 10 1000], of False] by (auto simp: p)
qed

section \<open>The clamp\<close>

lemma recommended_bounds:
  fixes m s a :: int
  shows "max 1 (min m (min s a)) = 1 \<or> max 1 (min m (min s a)) \<le> a" "1 \<le> max 1 (min m (min s a))"
  by auto

lemma recommended_mono:
  fixes m s t :: int
  shows "s' \<le> s \<Longrightarrow> t \<le> t' \<Longrightarrow>
     max 1 (min m (min (max 1 s') (mt - t' - i))) \<le> max 1 (min m (min (max 1 s) (mt - t - i)))"
  by (auto simp: max_def min_def)

lemma build_clamp_SomeE:
  assumes "build_clamp ths ras max_tok t mo est = Some c"
  obtains mt m e ratio where "max_tok = Some mt" "mo = Some m" "est = Some e" "0 < mt" "0 < m"
    "resolve_clamp_output_ratio ths ras (t + e) mt = Some ratio"
    "cl_recommended c = max 1 (min m (min (max 1 (py_trunc (py_mul (py_float m) ratio))) (mt - t - max (e - m) 0)))"
  using assms by (auto simp: build_clamp_def Let_def max_def split: option.splits if_splits)

lemma estimate_minus_output:
  "estimate_next_tokens ctx = Some e \<Longrightarrow> cx_max_output_tokens ctx = Some m \<Longrightarrow> 0 < m \<Longrightarrow>
     cx_input_tokens_estimate ctx = Some i \<Longrightarrow> max (e - m) 0 = max i 0"
  by (auto simp: estimate_next_tokens_def)

lemma decide_clamp_bounds:
  assumes "d_decision (decide P project ctx now_ms cooldown r t) = ''clamp''"
  shows "\<exists>c mo i mt. d_clamp (decide P project ctx now_ms cooldown r t) = Some c \<and>
     cx_max_output_tokens ctx = Some mo \<and> cx_input_tokens_estimate ctx = Some i \<and>
     pr_max_tok_per_min project = Some mt \<and>
     1 \<le> cl_recommended c \<and> cl_recommended c < mo \<and>
     (cl_recommended c = 1 \<or> t + max i 0 + cl_recommended c \<le> mt)"
proof -
  obtain c where c: "effective_clamp P project ctx t = Some c"
    "d_clamp (decide P project ctx now_ms cooldown r t) = Some c"
    using assms by (cases "effective_clamp P project ctx t")
      (auto simp: decide_def blocked_def decision_of_def Let_def split: if_splits)
  obtain mo where mo: "cx_max_output_tokens ctx = Some mo" "cl_recommended c < mo"
    "build_clamp (ps_pressure_thresholds P) (ps_output_ratios P) (pr_max_tok_per_min project) t (Some mo) (estimate_next_tokens ctx) = Some c"
    using c(1) by (auto simp: effective_clamp_def split: if_splits option.splits)
  from mo(3) obtain mt m e ratio where b: "pr_max_tok_per_min project = Some mt" "Some mo = Some m"
    "estimate_next_tokens ctx = Some e" "0 < mt" "0 < m"
    "resolve_clamp_output_ratio (ps_pressure_thresholds P) (ps_output_ratios P) (t + e) mt = Some ratio"
    "cl_recommended c = max 1 (min m (min (max 1 (py_trunc (py_mul (py_float m) ratio))) (mt - t - max (e - m) 0)))"
    by (rule build_clamp_SomeE)
  obtain i where i: "cx_input_tokens_estimate ctx = Some i"
    using b(3) by (auto simp: estimate_next_tokens_def split: option.splits)
  have "max (e - m) 0 = max i 0" using estimate_minus_output [OF b(3) _ b(5) i] mo(1) b(2) by simp
  note bb = b(7) [unfolded this]
  have "cl_recommended c = 1 \<or> cl_recommended c \<le> mt - t - max i 0" "1 \<le> cl_recommended c"
    unfolding bb by (rule recommended_bounds)+
  moreover from this(1) have "cl_recommended c = 1 \<or> t + max i 0 + cl_recommended c \<le> mt" by linarith
  ultimately show ?thesis using c(2) mo(1,2) b(1) i by blast
qed

text \<open>
  C17: a clamp decision carries a recommendation of at least one token, strictly below the output
  limit the request asked for; with the input estimate and the tokens already used it fits under the
  project's token cap, unless not even one token does.
\<close>

theorem clamp_within_bounds:
  assumes "readings P key ctx w project now cooldown r t"
    and "evaluate_decision P key ctx emit w = (Inr (Some (pid, d)), w')" "d_decision d = ''clamp''"
  shows "\<exists>c mo i mt. d_clamp d = Some c \<and>
     cx_max_output_tokens ctx = Some mo \<and> cx_input_tokens_estimate ctx = Some i \<and>
     pr_max_tok_per_min project = Some mt \<and>
     1 \<le> cl_recommended c \<and> cl_recommended c < mo \<and>
     (cl_recommended c = 1 \<or> t + max i 0 + cl_recommended c \<le> mt)"
proof -
  have "d = decide P project ctx (epoch_ms now) cooldown r t"
    using evaluate_decides [OF assms(1), of emit] assms(2) by auto
  then show ?thesis using decide_clamp_bounds assms(3) by blast
qed

lemma example_clamps:
  "d_decision (decide (example_service_at 0 100) example_project example_context 1773000000000 None 0 100) = ''clamp''"
proof -
  have "estimate_next_tokens example_context = Some 800" by code_simp
  then show ?thesis
    by (simp add: decide_def effective_clamp_def example_context_def example_project_def decision_of_def
        example_service_at_def example_service_def cooling_def at_cap_def Let_def example_clamp)
qed

theorem clamp_within_bounds_witness:
  "\<exists>d w' c. evaluate_decision (example_service_at 0 100) ''key'' example_context True fake_empty =
       (Inr (Some (''p1'', d)), w') \<and>
     d_clamp d = Some c \<and> 1 \<le> cl_recommended c \<and> cl_recommended c < 500 \<and>
     (cl_recommended c = 1 \<or> 400 + cl_recommended c \<le> 1000)"
proof -
  have p: "pr_id example_project = ''p1''" by (simp add: example_project_def)
  obtain w' where e: "evaluate_decision (example_service_at 0 100) ''key'' example_context True fake_empty =
      (Inr (Some (''p1'', decide (example_service_at 0 100) example_project example_context 1773000000000 None 0 100)), w')"
    using evaluate_decides [OF example_readings_at [of 0 100], of True] unfolding p example_now by blast
  from clamp_within_bounds [OF example_readings_at e example_clamps] show ?thesis
    using e by (auto simp: example_context_def example_project_def)
qed

text \<open>With decreasing ratios a higher projection selects the same or a smaller ratio.\<close>

lemma stage_mono:
  fixes zs :: "(rat \<times> rat) list" and stage :: "rat \<Rightarrow> int"
  defines "pick \<equiv> \<lambda>proj :: int. foldl (\<lambda>sel (th, ra). if proj \<ge> stage th then Some ra else sel) None"
  assumes "sorted_wrt (\<ge>) (map snd zs)" "p \<le> q" "pick p zs = Some x"
  shows "\<exists>y. pick q zs = Some y \<and> y \<le> x"
  using assms(2,4)
proof (induction zs rule: rev_induct)
  case (snoc z zs)
  obtain th ra where z: "z = (th, ra)" by (cases z)
  have "x = ra \<or> x \<in> snd ` set zs"
  proof -
    have "pick p ys = Some x \<Longrightarrow> x \<in> snd ` set ys" for ys
      unfolding pick_def by (induction ys rule: rev_induct) (auto split: if_splits)
    then show ?thesis using snoc.prems(2) by (auto simp: pick_def z split: if_splits)
  qed
  then have "ra \<le> x" using snoc.prems(1) by (auto simp: z sorted_wrt_append)
  then show ?case
    using snoc assms(3) by (auto simp: pick_def z sorted_wrt_append split: if_splits)
qed (simp add: pick_def)

text \<open>
  More pressure never loosens the clamp: with output ratios that decrease from stage to stage
  (as the default ones do), if a request is clamped when \<open>t\<close> tokens are in the window, then with
  more tokens in the window it is clamped too, to the same limit or a smaller one.
\<close>

theorem clamp_tightens:
  assumes "sorted_wrt (\<ge>) ratios" "length thresholds = length ratios"
    and "build_clamp thresholds ratios max_tok t mo est = Some c" "t \<le> t'"
  shows "\<exists>c'. build_clamp thresholds ratios max_tok t' mo est = Some c' \<and> cl_recommended c' \<le> cl_recommended c"
proof -
  from assms(3) obtain mt m e ratio where b: "max_tok = Some mt" "mo = Some m" "est = Some e" "0 < mt" "0 < m"
    "resolve_clamp_output_ratio thresholds ratios (t + e) mt = Some ratio"
    "cl_recommended c = max 1 (min m (min (max 1 (py_trunc (py_mul (py_float m) ratio))) (mt - t - max (e - m) 0)))"
    by (rule build_clamp_SomeE)
  have "sorted_wrt (\<ge>) (map snd (zip thresholds ratios))" using assms(1,2) by simp
  from stage_mono [OF this, of "t + e" "t' + e" "\<lambda>th. py_trunc (py_mul (py_float mt) th)" ratio] obtain ratio' where
    r: "resolve_clamp_output_ratio thresholds ratios (t' + e) mt = Some ratio'" "ratio' \<le> ratio"
    using b(6) assms(4) by (auto simp: resolve_clamp_output_ratio_def)
  have "0 \<le> py_float m" using b(5) by (intro py_float_nonneg) simp
  then have stage: "py_trunc (py_mul (py_float m) ratio') \<le> py_trunc (py_mul (py_float m) ratio)"
    using r(2) by (intro py_trunc_mono py_mul_mono)
  define c' where "c' = \<lparr> cl_recommended = max 1 (min m
       (min (max 1 (py_trunc (py_mul (py_float m) ratio'))) (mt - t' - max (e - m) 0))), cl_applied = False \<rparr>"
  have "build_clamp thresholds ratios max_tok t' mo est = Some c'"
    using b r by (simp add: build_clamp_def Let_def max_def c'_def)
  moreover have "cl_recommended c' \<le> cl_recommended c"
    unfolding b(7) c'_def clamp.select_convs by (rule recommended_mono [OF stage assms(4)])
  ultimately show ?thesis by blast
qed

theorem clamp_tightens_witness:
  "\<exists>c'. build_clamp [1 / 2, 3 / 4] [3 / 4, 1 / 2] (Some 1000) 150 (Some 500) (Some 800) = Some c'
     \<and> cl_recommended c' \<le> 250"
  using clamp_tightens [OF _ _ example_clamp, of 150] by simp

section \<open>Times of a block\<close>

lemma iso_of_ms_parses:
  assumes "2 ^ 40 < ms" "ms < 2 ^ 31 * 1000"
  shows "fromisoformat (iso_of_ms ms) = Some (ms * 1000)" "epoch_ms (ms * 1000) = ms"
proof -
  have "fromtimestamp (py_div (of_int ms) 1000) = ms * 1000" using assms by (intro fromtimestamp_ms) simp_all
  then show "fromisoformat (iso_of_ms ms) = Some (ms * 1000)"
    unfolding iso_of_ms_def using assms by (simp add: fromisoformat_isoformat)
  show "epoch_ms (ms * 1000) = ms" by (rule epoch_ms_ms [OF assms])
qed

lemma decide_block_times:
  assumes "pr_protect_enabled project" "2 ^ 40 < now_ms" "1 \<le> ps_cooldown_seconds P"
    and "now_ms + ps_cooldown_seconds P * 1000 < 2 ^ 31 * 1000"
    and "d_decision (decide P project ctx now_ms cooldown r t) = ''block''"
    and "\<And>u. cooldown = Some u \<Longrightarrow> u < 2 ^ 31 * 1000"
  shows "\<exists>u secs iso. d_retry_after_seconds (decide P project ctx now_ms cooldown r t) = Some secs \<and>
     d_blocked_until (decide P project ctx now_ms cooldown r t) = Some iso \<and>
     fromisoformat iso = Some (u * 1000) \<and> epoch_ms (u * 1000) = u \<and>
     u = (if cooling cooldown now_ms then the cooldown else now_ms + ps_cooldown_seconds P * 1000) \<and>
     u \<le> now_ms + secs * 1000 \<and> now_ms + secs * 1000 < u + 1000 \<and>
     (\<not> cooling cooldown now_ms \<longrightarrow> secs = ps_cooldown_seconds P)"
proof -
  define u where "u = (if cooling cooldown now_ms then the cooldown else now_ms + ps_cooldown_seconds P * 1000)"
  have u: "now_ms < u" "u < 2 ^ 31 * 1000"
    using assms(3,4,6) by (auto simp: u_def cooling_def split: option.splits)
  have cap: "max (ps_cooldown_seconds P) 1 = ps_cooldown_seconds P" using assms(3) by simp
  have ex: "ceil_div_1000 (u - now_ms) = (u - now_ms + 999) div 1000"
    using u assms(2) by (intro ceil_div_1000_exact) simp_all
  then have secs: "max 0 (ceil_div_1000 (u - now_ms)) = (u - now_ms + 999) div 1000" using u by simp
  have d: "d_retry_after_seconds (decide P project ctx now_ms cooldown r t) = Some ((u - now_ms + 999) div 1000)"
    "d_blocked_until (decide P project ctx now_ms cooldown r t) = Some (iso_of_ms u)"
    using assms(1,5) decision_reason [of P project ctx now_ms cooldown r t] secs
    by (auto simp: decide_def blocked_def decision_of_def u_def cap Let_def)
  have "2 ^ 40 < u" using u(1) assms(2) by simp
  note iso = iso_of_ms_parses [OF this u(2)]
  have "u \<le> now_ms + (u - now_ms + 999) div 1000 * 1000" "now_ms + (u - now_ms + 999) div 1000 * 1000 < u + 1000"
    by linarith+
  moreover have "\<not> cooling cooldown now_ms \<longrightarrow> (u - now_ms + 999) div 1000 = ps_cooldown_seconds P"
    by (simp add: u_def)
  ultimately show ?thesis using d iso by (intro exI [of _ u] exI conjI) (assumption | simp add: u_def)+
qed

text \<open>
  A cap breach announces the end of its cooldown exactly: \<open>retry_after_seconds\<close> is the
  configured cooldown (at least one second), and the text of \<open>blocked_until\<close>, which the API parses
  back to set the cooldown, gives the millisecond \<open>now + cooldown\<close> although it went through
  doubles and microseconds. A running cooldown is announced with a retry time that never ends
  before the cooldown does and overshoots it by less than a second.
\<close>

theorem block_times:
  assumes "readings P key ctx w project now cooldown r t"
    and "pr_protect_enabled project" "2 ^ 40 < epoch_ms now" "1 \<le> ps_cooldown_seconds P"
    and "epoch_ms now + ps_cooldown_seconds P * 1000 < 2 ^ 31 * 1000"
    and "\<And>u. cooldown = Some u \<Longrightarrow> u < 2 ^ 31 * 1000"
    and "evaluate_decision P key ctx emit w = (Inr (Some (pid, d)), w')" "d_decision d = ''block''"
  shows "\<exists>u secs iso. d_retry_after_seconds d = Some secs \<and> d_blocked_until d = Some iso \<and>
     fromisoformat iso = Some (u * 1000) \<and> epoch_ms (u * 1000) = u \<and>
     u = (if cooling cooldown (epoch_ms now) then the cooldown else epoch_ms now + ps_cooldown_seconds P * 1000) \<and>
     u \<le> epoch_ms now + secs * 1000 \<and> epoch_ms now + secs * 1000 < u + 1000 \<and>
     (\<not> cooling cooldown (epoch_ms now) \<longrightarrow> secs = ps_cooldown_seconds P)"
proof -
  have d: "d = decide P project ctx (epoch_ms now) cooldown r t"
    using evaluate_decides [OF assms(1), of emit] assms(7) by auto
  show ?thesis
    using decide_block_times [OF assms(2-5), of ctx cooldown r t] assms(6,8) unfolding d by blast
qed

theorem block_times_witness:
  "\<exists>d w' u secs iso. evaluate_decision (example_service_at 0 1000) ''key'' example_context True fake_empty =
       (Inr (Some (''p1'', d)), w') \<and> d_retry_after_seconds d = Some secs \<and> d_blocked_until d = Some iso \<and>
     fromisoformat iso = Some (u * 1000) \<and> u = 1773000060000 \<and> secs = 60"
proof -
  let ?d = "decide (example_service_at 0 1000) example_project example_context 1773000000000 None 0 1000"
  have p: "pr_id example_project = ''p1''" "pr_protect_enabled example_project"
    by (simp_all add: example_project_def)
  obtain w' where e: "evaluate_decision (example_service_at 0 1000) ''key'' example_context True fake_empty =
      (Inr (Some (''p1'', ?d)), w')"
    using evaluate_decides [OF example_readings_at [of 0 1000], of True] unfolding p example_now by blast
  have b: "d_decision ?d = ''block''"
    by (simp add: decision_reason) (simp add: example_project_def at_cap_def cooling_def)
  have c: "ps_cooldown_seconds (example_service_at 0 1000) = 60"
    by (simp add: example_service_at_def example_service_def)
  have "\<exists>u secs iso. d_retry_after_seconds ?d = Some secs \<and> d_blocked_until ?d = Some iso \<and>
     fromisoformat iso = Some (u * 1000) \<and> u = 1773000060000 \<and> secs = 60"
    using block_times [OF example_readings_at p(2) _ _ _ _ e b] by (auto simp: c cooling_def example_now)
  then show ?thesis using e by blast
qed

end
