(* ===== verification/Sdk_Preflight.thy ===== *)
theory Sdk_Preflight
  imports Sdk_Engine Decision_Table
begin

text \<open>
  What the preflight of the SDK guarantees its caller: \<open>evaluate\<close> always returns a decision, whatever
  the backend does; a cooldown that the backend announces is enforced locally until it ends, with
  the answer the backend itself would give; without an answer the fail mode decides.
\<close>

section \<open>Every call returns a decision\<close>

lemma never_raises_engine [intro, simp]: "never_raises (engine f)" "never_raises (set_engine g)"
  by (simp_all add: engine_def set_engine_def)

lemma never_raises_now_ms [intro, simp]: "never_raises (now_ms S)"
  by (auto simp: now_ms_def intro!: never_raises_bnd)

lemma never_raises_report [intro, simp]:
  "never_raises (report_decision p S a b c d)"
  "never_raises (report_decision_timeout_fire_and_forget S a b c d)"
  "never_raises (report_decision_unavailable_fire_and_forget S a b c d)"
  by (auto simp: report_decision_def report_decision_timeout_fire_and_forget_def
      report_decision_unavailable_fire_and_forget_def intro!: never_raises_try)

lemma never_raises_preflight_failed [intro, simp]:
  "never_raises (preflight_failed S context t r e)"
  by (auto simp: preflight_failed_def fallback_decision_def intro!: never_raises_bnd)

lemma never_raises_preflight_start [intro, simp]: "never_raises (preflight_start S context)"
  by (auto simp: preflight_start_def intro!: never_raises_bnd never_raises_or_gen)

text \<open>A result that names one of the three decisions.\<close>

definition decides :: "pydict \<Rightarrow> bool" where
  "decides d \<longleftrightarrow> dget d ''decision'' \<in> {PStr ''allow'', PStr ''clamp'', PStr ''block''}"

definition returns :: "('a \<Rightarrow> bool) \<Rightarrow> ('w, 'a) py \<Rightarrow> bool" where
  "returns P m \<longleftrightarrow> (\<forall>w a w'. m w = (Inr a, w') \<longrightarrow> P a)"

lemma returns_ret [intro, simp]: "returns P (ret a) = P a"
  by (auto simp: returns_def)

lemma returns_raise [intro, simp]: "returns P (raise e)"
  by (auto simp: returns_def)

lemma returns_bnd: "(\<And>a. returns P (f a)) \<Longrightarrow> returns P (bnd m f)"
  unfolding returns_def by (blast elim: bnd_InrE)

lemma returns_if: "returns P a \<Longrightarrow> returns P b \<Longrightarrow> returns P (if c then a else b)"
  by simp

lemma returns_try: "returns P m \<Longrightarrow> (\<And>e. returns P (h e)) \<Longrightarrow> returns P (try_except m h)"
  unfolding returns_def try_except_def by (auto split: prod.splits sum.splits)

lemma returns_finally: "returns P m \<Longrightarrow> returns P (finally_py m f)"
  unfolding returns_def finally_py_def by (auto split: prod.splits sum.splits)

lemma returnsD: "returns P m \<Longrightarrow> m w = (Inr a, w') \<Longrightarrow> P a"
  by (auto simp: returns_def)

lemma dget_dset_if: "k' \<noteq> k \<Longrightarrow> dget (dset_if b k v d) k' = dget d k'"
  by (simp add: dset_if_def dget_dset)

lemma dget_result_clamp: "k \<noteq> ''clamp'' \<Longrightarrow> dget (result_clamp p r) k = dget r k"
  by (simp add: result_clamp_def dget_dset split: option.split)

lemma decision_result_decision [simp]: "dget (decision_result p d r t q) ''decision'' = PStr d"
  by (simp add: decision_result_def Let_def dget_result_clamp dget_dset_if)

lemma decides_fallback: "returns decides (fallback_decision t r)"
  by (auto simp: fallback_decision_def decides_def intro!: returns_bnd)

lemma decides_evaluate: "returns decides (evaluate S context)"
proof -
  have handle: "returns decides (handle_payload S p t r)" for p t r
    by (auto simp: handle_payload_def Let_def decides_def intro!: returns_bnd)
  have ask: "returns decides (ask_backend S context t r s)" for t r s
    unfolding ask_backend_def by (intro returns_bnd returns_if decides_fallback handle)
  have failed: "returns decides (preflight_failed S context t r e)" for t r e
    unfolding preflight_failed_def by (intro returns_bnd decides_fallback)
  have remote: "returns decides (evaluate_remote S context t s r)" for t s r
    unfolding evaluate_remote_def by (intro returns_bnd returns_finally returns_try ask failed)
  have "returns decides (evaluate_local S u q n t s r)" for u q n t s r
    unfolding evaluate_local_def
    by (intro returns_bnd returns_finally) (simp add: decides_def local_block_def)
  with remote show ?thesis
    unfolding evaluate_def by (auto intro!: returns_bnd split: prod.split option.split)
qed

lemma never_raises_remote: "never_raises (evaluate_remote S context t s r)"
  unfolding evaluate_remote_def
  by (intro never_raises_bnd never_raises_finally never_raises_try never_raises_engine
      never_raises_context never_raises_preflight_failed)

lemma never_raises_local: "never_raises (evaluate_local S u q n t s r)"
  unfolding evaluate_local_def
  by (intro never_raises_bnd never_raises_finally never_raises_ret never_raises_context)

lemma never_raises_evaluate: "never_raises (evaluate S context)"
  unfolding evaluate_def
  by (auto intro!: never_raises_bnd never_raises_remote never_raises_local never_raises_preflight_start
      split: prod.split option.split)

lemma never_raises_handle: "never_raises (handle_payload S p t r)"
proof -
  have a: "never_raises (adopt_fail_mode f)" "never_raises (adopt_decision_timeout x)" for f x
    unfolding adopt_fail_mode_def adopt_decision_timeout_def
    by (intro never_raises_when never_raises_option never_raises_ret never_raises_engine)+
  have u: "never_raises (update_cooldown S b)" for b
    unfolding update_cooldown_def
    by (intro never_raises_bnd never_raises_option never_raises_if never_raises_when never_raises_ret
        never_raises_engine never_raises_now_ms)
  show ?thesis unfolding handle_payload_def Let_def
    by (intro never_raises_bnd never_raises_ret never_raises_engine a u)
qed

section \<open>What a call leaves as it was\<close>

text \<open>The client's own fields are out of the engine's reach.\<close>

lemma frame_engine_steps:
  assumes "\<And>w x. v (w\<lparr>sdk_x := x\<rparr>) = v w"
  shows "frame v (engine f)" "frame v (now_ms S)" "frame v (post_with_timeout S u j h t)"
    "frame v (status_code_of rsp)" "frame v (parse_json_payload rsp)"
    "frame v (report_decision p S a b c d)" "frame v (fallback_decision tr rq)"
proof -
  show e: "frame v (engine f)" for f :: "ProtectEngine \<Rightarrow> 'e" by (simp add: engine_def)
  show "frame v (now_ms S)" unfolding now_ms_def by (intro frame_bnd frame_ext frame_ret assms)
  show p: "frame v (post_with_timeout S u j h t)" for u j h t
    unfolding post_with_timeout_def except_type_error_def
    by (intro frame_option frame_raise frame_try frame_call frame_if assms)
  show "frame v (status_code_of rsp)" unfolding status_code_of_def
    by (intro frame_option frame_ret frame_raise)
  show "frame v (parse_json_payload rsp)" unfolding parse_json_payload_def
    by (auto split: option.split sum.split)
  show "frame v (report_decision p S a b c d)" unfolding report_decision_def
    by (intro frame_try frame_bnd frame_ret frame_or_gen frame_ids p e assms)
  show "frame v (fallback_decision tr rq)" unfolding fallback_decision_def
    by (intro frame_bnd frame_ret e)
qed

lemma frame_handle_payload:
  assumes "\<And>w x. v (w\<lparr>sdk_x := x\<rparr>) = v w" "\<And>w e. v (w\<lparr>sdk_engine := e\<rparr>) = v w"
  shows "frame v (handle_payload S p t r)"
proof -
  have s: "frame v (set_engine f)" for f
    unfolding set_engine_def by (intro frame_modify assms)
  have a: "frame v (adopt_fail_mode f)" "frame v (adopt_decision_timeout x)" for f x
    unfolding adopt_fail_mode_def adopt_decision_timeout_def
    by (intro frame_when frame_option frame_ret s)+
  have u: "frame v (update_cooldown S b)" for b
    unfolding update_cooldown_def
    by (intro frame_bnd frame_option frame_if frame_ret frame_when frame_engine_steps s assms)
  show ?thesis unfolding handle_payload_def Let_def
    by (intro frame_bnd frame_ret frame_engine_steps a u assms)
qed

lemma frame_ask_backend:
  assumes "\<And>w x. v (w\<lparr>sdk_x := x\<rparr>) = v w" "\<And>w e. v (w\<lparr>sdk_engine := e\<rparr>) = v w"
  shows "frame v (ask_backend S context t r s)" "frame v (preflight_failed S context t r e)"
  unfolding ask_backend_def preflight_failed_def report_decision_timeout_fire_and_forget_def
    report_decision_unavailable_fire_and_forget_def
  by (auto intro!: frame_bnd frame_if frame_engine_steps frame_ids frame_handle_payload assms)

abbreviation trace :: "'x sdk \<Rightarrow> string \<times> string" where
  "trace w \<equiv> (sdk_trace_id w, sdk_span_id w)"

text \<open>Work done between binding a trace context and resetting it leaves the context as it was.\<close>

lemma frame_in_context:
  assumes "frame trace m"
  shows "frame trace (bnd (bind_trace_context S t s) (\<lambda>c. finally_py m (reset_trace_context c)))"
  unfolding frame_def
proof
  fix w :: "'a sdk"
  obtain c w1 where b: "bind_trace_context S t s w = (Inr c, w1)"
    by (rule never_raisesE [OF never_raises_context(1)])
  then have "c = trace w" by (rule bind_tokens)
  then show "trace (snd (bnd (bind_trace_context S t s) (\<lambda>c. finally_py m (reset_trace_context c)) w)) = trace w"
    using b by (simp add: finally_py_def reset_trace_context_def split: prod.split)
qed

lemma frame_evaluate_trace: "frame trace (evaluate S context)"
proof -
  have r: "frame trace (evaluate_remote S context t s q)" for t s q
    unfolding evaluate_remote_def
    by (intro frame_bnd frame_in_context frame_try frame_ask_backend frame_engine_steps) simp_all
  have l: "frame trace (evaluate_local S u c n t s q)" for u c n t s q
    unfolding evaluate_local_def by (intro frame_in_context frame_ret)
  show ?thesis unfolding evaluate_def preflight_start_def
    by (intro frame_bnd frame_prod frame_option frame_if frame_ret frame_or_gen frame_ids
        frame_engine_steps r l) simp_all
qed

lemma frame_evaluate_client: "frame sdk_client (evaluate S context)"
proof -
  have c: "frame sdk_client (bnd (bind_trace_context S t s) (\<lambda>c. finally_py m (reset_trace_context c)))"
    if "frame sdk_client m" for t s and m :: "('a sdk, 'c) py"
    by (intro frame_bnd frame_finally frame_bind_trace_context that) simp_all
  have r: "frame sdk_client (evaluate_remote S context t s q)" for t s q
    unfolding evaluate_remote_def
    by (intro frame_bnd c frame_try frame_ask_backend frame_engine_steps) simp_all
  have l: "frame sdk_client (evaluate_local S u c n t s q)" for u c n t s q
    unfolding evaluate_local_def by (intro c frame_ret)
  show ?thesis unfolding evaluate_def preflight_start_def
    by (intro frame_bnd frame_prod frame_option frame_if frame_ret frame_or_gen frame_ids
        frame_engine_steps r l) simp_all
qed


section \<open>Times of a cooldown\<close>

lemma trunc_div_1000:
  assumes "0 \<le> D" "D \<le> 2 ^ 40"
  shows "py_trunc (py_div (of_int D) 1000) = D div 1000"
proof (cases "D mod 1000 = 0")
  case True
  then have q: "(of_int D :: rat) / 1000 = of_int (D div 1000)"
    by (metis (no_types, lifting) of_int_numeral dvd_eq_mod_eq_0 of_int_div)
  have "\<bar>D div 1000\<bar> \<le> 2 ^ 53" using assms by (simp add: abs_of_nonneg pos_imp_zdiv_nonneg_iff)
  then show ?thesis by (simp add: py_div_def q)
next
  case False
  define a r where "a = D div 1000" and "r = D mod 1000"
  have ar: "D = a * 1000 + r" "0 < r" "r < 1000"
    using False pos_mod_sign [of 1000 D] pos_mod_bound [of 1000 D] by (simp_all add: a_def r_def)
  have q: "(of_int D :: rat) / 1000 = of_int a + of_int r / 1000" by (simp add: ar(1) field_simps)
  have "(of_int D :: rat) \<le> of_int (2 ^ 40)" using assms(2) by (simp only: of_int_le_iff)
  then have "of_int D / 1000 < (2::rat) powi 31" by (simp add: power_int_def)
  moreover have "(0::rat) < of_int D / 1000" using False assms(1) by (cases "D = 0") auto
  ultimately have "\<bar>fl (of_int D / 1000) - of_int D / 1000\<bar> \<le> 1 / 2 ^ 23"
    using fl_err [of "of_int D / 1000" 31] by (simp add: power_int_def power_divide)
  moreover have "(1 / 2 ^ 23 :: rat) < 1 / 1000" by simp
  ultimately have "\<bar>fl (of_int D / 1000) - (of_int a + of_int r / 1000)\<bar> < 1 / 1000"
    unfolding q by linarith
  then have "\<lfloor>fl (of_int D / 1000)\<rfloor> = a" using ar(2,3) by (rule floor_of_near)
  moreover have "0 \<le> fl (of_int D / 1000)" using assms(1) by (intro fl_nonneg) simp
  ultimately show ?thesis by (simp add: py_div_def py_trunc_def a_def)
qed

lemma retry_after_ceil:
  assumes "2 ^ 40 < now" "now < u" "u < 2 ^ 31 * 1000"
  shows "to_retry_after_seconds (Some u) now = Some (max 0 (ceil_div_1000 (u - now)))"
proof -
  have "py_trunc (py_div (of_int (u - now + 999)) 1000) = (u - now + 999) div 1000"
    using assms by (intro trunc_div_1000) simp_all
  moreover have "ceil_div_1000 (u - now) = (u - now + 999) div 1000"
    using assms by (intro ceil_div_1000_exact) simp_all
  ultimately show ?thesis using assms(2) by (simp add: to_retry_after_seconds_def)
qed

lemma set_pad: "0 \<le> n \<Longrightarrow> c \<in> set (pad w n) \<Longrightarrow> is_digit c"
  using digits_digits [of n] by (auto simp: pad_def is_digit_def split: if_splits)

lemma isoformat_no_Z:
  assumes "0 \<le> us"
  shows "CHR ''Z'' \<notin> set (isoformat us)"
proof -
  obtain y yd where y: "split_year 1970 (us div 86400000000) = (y, yd)" by force
  obtain m d where m: "split_month (month_lens y) 1 yd = (m, d)" by force
  have "0 \<le> us div 86400000000" using assms by simp
  then have yc: "0 \<le> yd" "yd < year_len y" "1970 \<le> y" using split_year_correct [OF y] by auto
  then have mc: "1 \<le> m" "0 \<le> d" using split_month_correct [OF m] by auto
  have z: "CHR ''Z'' \<notin> set (pad w n)" if "0 \<le> n" for w n
    using set_pad [OF that, of "CHR ''Z''" w] by (auto simp: is_digit_def)
  show ?thesis
    unfolding isoformat_def Let_def y prod.case m
    using yc mc by (auto simp: z pos_imp_zdiv_nonneg_iff)
qed

lemma concat_map_same: "c \<notin> set s \<Longrightarrow> concat (map (\<lambda>x. if x = c then r else [x]) s) = s"
  by (induction s) auto

lemma parse_iso_of_ms:
  assumes "2 ^ 40 < ms" "ms < 2 ^ 31 * 1000"
  shows "parse_blocked_until_ms (PStr (iso_of_ms ms)) = Some ms"
proof -
  have e: "iso_of_ms ms = isoformat (ms * 1000)"
    unfolding iso_of_ms_def using assms by (subst fromtimestamp_ms) simp_all
  then have "CHR ''Z'' \<notin> set (iso_of_ms ms)" using assms isoformat_no_Z [of "ms * 1000"] by simp
  then show ?thesis
    using iso_of_ms_parses [OF assms] e by (simp add: parse_blocked_until_ms_def concat_map_same)
qed

lemma format_iso_of_ms: "0 < ms \<Longrightarrow> format_blocked_until_ms (Some ms) = Some (iso_of_ms ms)"
  by (simp add: format_blocked_until_ms_def iso_of_ms_def)

text \<open>
  C27: the SDK writes and reads the end of a cooldown without losing a millisecond, between November
  2004 and 2038, although the text goes through doubles and microseconds.
\<close>

theorem blocked_until_round_trip:
  assumes "2 ^ 40 < ms" "ms < 2 ^ 31 * 1000"
  shows "parse_blocked_until_ms (opt_str (format_blocked_until_ms (Some ms))) = Some ms"
proof -
  have "0 < ms" using assms(1) by (rule less_trans [rotated]) simp
  then show ?thesis using parse_iso_of_ms [OF assms] by (simp add: format_iso_of_ms opt_str_def)
qed

theorem blocked_until_round_trip_witness:
  "parse_blocked_until_ms (opt_str (format_blocked_until_ms (Some 1773000060123))) = Some 1773000060123"
  by (rule blocked_until_round_trip) simp_all

section \<open>An announced cooldown is enforced locally\<close>

lemma adopt_run:
  "\<exists>fm. adopt_fail_mode f w = (Inr (), w\<lparr>sdk_engine := sdk_engine w\<lparr>pe_fail_mode := fm\<rparr>\<rparr>)"
  "\<exists>dt. adopt_decision_timeout v w =
     (Inr (), w\<lparr>sdk_engine := sdk_engine w\<lparr>pe_decision_timeout_ms := dt\<rparr>\<rparr>)"
proof -
  show "\<exists>fm. adopt_fail_mode f w = (Inr (), w\<lparr>sdk_engine := sdk_engine w\<lparr>pe_fail_mode := fm\<rparr>\<rparr>)"
    by (cases "f \<in> {''open'', ''closed''}")
      (auto simp: adopt_fail_mode_def set_engine_def intro: exI [of _ "pe_fail_mode (sdk_engine w)"])
  show "\<exists>dt. adopt_decision_timeout v w =
      (Inr (), w\<lparr>sdk_engine := sdk_engine w\<lparr>pe_decision_timeout_ms := dt\<rparr>\<rparr>)"
    by (cases "as_int v"; cases "the (as_int v) > 0")
      (auto simp: adopt_decision_timeout_def set_engine_def
        intro: exI [of _ "pe_decision_timeout_ms (sdk_engine w)"])
qed

text \<open>The clock of a state, as \<open>now_ms\<close> reads it.\<close>

definition clock_ms :: "'x services \<Rightarrow> 'x sdk \<Rightarrow> int" where
  "clock_ms S w = py_trunc (py_mul (fst (sv_time S (sdk_x w))) 1000)"

lemma now_ms_run: "now_ms S w = (Inr (clock_ms S w), w\<lparr>sdk_x := snd (sv_time S (sdk_x w))\<rparr>)"
  by (simp add: now_ms_def clock_ms_def bnd_def ext_run)

lemma handle_payload_caches:
  assumes "handle_payload S payload t r w = (Inr d, w')"
    and "dget payload ''blocked_until'' = PStr (iso_of_ms u)" "2 ^ 40 < u" "u < 2 ^ 31 * 1000"
    and "clock_ms S w < u"
  shows "pe_cooldown_until_ms (sdk_engine w') = Some u \<and>
    pe_cooldown_reason (sdk_engine w') = Some ''cooldown_active''"
proof -
  define f where "f = str_or (dget payload ''fail_mode'') (pe_fail_mode (sdk_engine w))"
  define v where "v = dget payload ''protect_decision_timeout_ms''"
  obtain fm where 1: "adopt_fail_mode f w = (Inr (), w\<lparr>sdk_engine := sdk_engine w\<lparr>pe_fail_mode := fm\<rparr>\<rparr>)"
    using adopt_run(1) by blast
  obtain dt where 2: "adopt_decision_timeout v (w\<lparr>sdk_engine := sdk_engine w\<lparr>pe_fail_mode := fm\<rparr>\<rparr>) =
     (Inr (), w\<lparr>sdk_engine := sdk_engine w\<lparr>pe_fail_mode := fm, pe_decision_timeout_ms := dt\<rparr>\<rparr>)"
    using adopt_run(2) [of v "w\<lparr>sdk_engine := sdk_engine w\<lparr>pe_fail_mode := fm\<rparr>\<rparr>"] by auto
  let ?w = "w\<lparr>sdk_engine := sdk_engine w\<lparr>pe_fail_mode := fm, pe_decision_timeout_ms := dt\<rparr>\<rparr>"
  have c: "clock_ms S ?w < u" using assms(5) by (simp add: clock_ms_def)
  have 3: "update_cooldown S (Some u) ?w = (Inr (), ?w\<lparr>sdk_x := snd (sv_time S (sdk_x w)),
     sdk_engine := sdk_engine ?w\<lparr>pe_cooldown_until_ms := Some u, pe_cooldown_reason := Some ''cooldown_active''\<rparr>\<rparr>)"
    using c by (simp add: update_cooldown_def bnd_def now_ms_run set_engine_def)
  show ?thesis
    using assms(1) parse_iso_of_ms [OF assms(3,4)]
    by (auto simp: handle_payload_def Let_def assms(2) bnd_def engine_def 1 [unfolded f_def]
        2 [unfolded v_def] 3)
qed

lemma without_http:
  "preflight_start (S\<lparr>sv_http := h\<rparr>) context = preflight_start S context"
  "evaluate_local (S\<lparr>sv_http := h\<rparr>) u c n t s r = evaluate_local S u c n t s r"
  by (simp_all add: preflight_start_def evaluate_local_def bind_trace_context_def generate_trace_id_def
      generate_span_id_def uuid4_hex_def now_ms_def)

lemma evaluate_cached:
  assumes "pe_cooldown_until_ms (sdk_engine w) = Some u"
    and "preflight_start S context w = (Inr (r, t, s, now), w')" "now < u"
  shows "\<exists>w''. evaluate S context w =
      (Inr (local_block u (pe_cooldown_reason (sdk_engine w)) now t r), w'')"
    and "evaluate (S\<lparr>sv_http := h\<rparr>) context w = evaluate S context w"
proof -
  have fr: "frame sdk_engine (preflight_start S context)"
    unfolding preflight_start_def
    by (intro frame_bnd frame_ret frame_or_gen frame_ids frame_engine_steps) simp_all
  have e: "sdk_engine w' = sdk_engine w" using frameD [OF fr assms(2)] by simp
  have l: "evaluate T context w = evaluate_local T u (pe_cooldown_reason (sdk_engine w)) now t s r w'"
    if "preflight_start T context w = (Inr (r, t, s, now), w')" for T :: "'a services"
    using that assms(1,3) by (simp add: evaluate_def bnd_def engine_def e)
  obtain c w1 where "bind_trace_context S t s w' = (Inr c, w1)"
    by (rule never_raisesE [OF never_raises_context(1)])
  then show "\<exists>w''. evaluate S context w =
      (Inr (local_block u (pe_cooldown_reason (sdk_engine w)) now t r), w'')"
    by (simp add: l [OF assms(2)] evaluate_local_def bnd_def finally_py_def reset_trace_context_def)
  have "preflight_start (S\<lparr>sv_http := h\<rparr>) context w = (Inr (r, t, s, now), w')"
    using assms(2) by (simp add: without_http)
  from l [OF this] show "evaluate (S\<lparr>sv_http := h\<rparr>) context w = evaluate S context w"
    by (simp add: without_http l [OF assms(2)])
qed

lemma local_block_fields:
  "dget (local_block u c n t r) ''decision'' = PStr ''block''"
  "dget (local_block u c n t r) ''reason'' = PStr (opt_or c ''cooldown_active'')"
  "dget (local_block u c n t r) ''blocked_until'' = opt_str (format_blocked_until_ms (Some u))"
  "dget (local_block u c n t r) ''retry_after_seconds'' = opt_int (to_retry_after_seconds (Some u) n)"
  by (simp_all add: local_block_def)

text \<open>
  C9: after an answer that announces a cooldown, every preflight until its end is blocked without a
  request (the outcome is the same with any HTTP client, or none), and the caller is told what the
  backend would say at that instant: the same decision, reason, end of the cooldown and retry time.
\<close>

theorem cooldown_enforced_locally:
  assumes "handle_payload S payload t0 r0 w = (Inr d0, w1)"
    and "dget payload ''blocked_until'' = PStr (iso_of_ms u)" "2 ^ 40 < now" "u < 2 ^ 31 * 1000"
    and "clock_ms S w < u" "sdk_engine w2 = sdk_engine w1"
    and "preflight_start S context w2 = (Inr (r, t, s, now), w3)" "now < u"
    and "pr_protect_enabled project" "b = decide P project cx now (Some u) req tok"
  shows "\<exists>d w4. (\<forall>h. evaluate (S\<lparr>sv_http := h\<rparr>) context w2 = (Inr d, w4)) \<and>
     dget d ''decision'' = PStr (d_decision b) \<and> dget d ''reason'' = PStr (d_reason b) \<and>
     dget d ''blocked_until'' = opt_str (d_blocked_until b) \<and>
     dget d ''retry_after_seconds'' = opt_int (d_retry_after_seconds b) \<and> d_decision b = ''block''"
proof -
  have "2 ^ 40 < u" using assms(3,8) by simp
  then have c: "pe_cooldown_until_ms (sdk_engine w2) = Some u"
    "pe_cooldown_reason (sdk_engine w2) = Some ''cooldown_active''"
    using handle_payload_caches [OF assms(1,2) _ assms(4,5)] assms(6) by simp_all
  obtain w4 where e: "evaluate S context w2 = (Inr (local_block u (Some ''cooldown_active'') now t r), w4)"
    using evaluate_cached(1) [OF c(1) assms(7,8)] c(2) by auto
  have h: "evaluate (S\<lparr>sv_http := h\<rparr>) context w2 = (Inr (local_block u (Some ''cooldown_active'') now t r), w4)" for h
    using evaluate_cached(2) [OF c(1) assms(7,8), of h] e by simp
  have "0 < u" using \<open>2 ^ 40 < u\<close> by (rule less_trans [rotated]) simp
  then show ?thesis
    using assms(9) h format_iso_of_ms [of u] retry_after_ceil [OF assms(3,8,4)] assms(8)
    by (intro exI [of _ "local_block u (Some ''cooldown_active'') now t r"] exI [of _ w4])
      (simp add: assms(10) local_block_fields opt_or_def or_str_def decide_def cooling_def blocked_def
        decision_of_def)
qed

theorem cooldown_enforced_locally_witness:
  "\<exists>d w4. (\<forall>h. evaluate (demo_services 1773000000 h) [] (demo_sdk ''open'' \<lparr>sdk_engine :=
       (sdk_engine (demo_sdk ''open''))\<lparr>pe_fail_mode := ''closed'', pe_cooldown_until_ms := Some 1773000060000,
         pe_cooldown_reason := Some ''cooldown_active''\<rparr>\<rparr>) = (Inr d, w4)) \<and>
     dget d ''decision'' = PStr ''block'' \<and> dget d ''retry_after_seconds'' = PInt 60"
proof -
  let ?p = "[(''fail_mode'', PStr ''closed''), (''blocked_until'', PStr (iso_of_ms 1773000060000))]"
  let ?S = "demo_services 1773000000 None" and ?T = "demo_services 1773000000 None"
  let ?w = "demo_sdk ''open''"
  let ?w1 = "?w\<lparr>sdk_engine := (sdk_engine ?w)\<lparr>pe_fail_mode := ''closed'',
     pe_cooldown_until_ms := Some 1773000060000, pe_cooldown_reason := Some ''cooldown_active''\<rparr>\<rparr>"
  have c: "clock_ms ?S w = 1773000000000" for w by (simp add: clock_ms_def demo_services_def py_mul_def)
  have u: "update_cooldown ?S (Some 1773000060000) w = (Inr (), w\<lparr>sdk_engine := (sdk_engine w)
     \<lparr>pe_cooldown_until_ms := Some 1773000060000, pe_cooldown_reason := Some ''cooldown_active''\<rparr>\<rparr>)" for w
    by (simp add: update_cooldown_def bnd_def now_ms_run c set_engine_def)
  have pb: "parse_blocked_until_ms (PStr (iso_of_ms 1773000060000)) = Some 1773000060000"
    by (rule parse_iso_of_ms) simp_all
  obtain d0 where h: "handle_payload ?S ?p [] [] ?w = (Inr d0, ?w1)"
    by (simp add: handle_payload_def Let_def bnd_def engine_def adopt_fail_mode_def adopt_decision_timeout_def
        set_engine_def str_or_def pb u)
  have n: "py_trunc (py_mul 1773000000 1000) = 1773000000000" by (simp add: py_mul_def)
  have st: "preflight_start ?T [] ?w1 = (Inr (replicate 32 (CHR ''a''), uuid_str (replicate 32 (CHR ''a'')),
      replicate 16 (CHR ''a''), 1773000000000), ?w1)"
    using demo_start [of 1773000000 None ?w1] unfolding n by simp
  have en: "pr_protect_enabled example_project" by (simp add: example_project_def)
  have hh: "?T\<lparr>sv_http := h\<rparr> = demo_services 1773000000 h" for h by (simp add: demo_services_def)
  have ce: "ceil_div_1000 60000 = 60" using ceil_div_1000_exact [of 60000] by simp
  have b: "decide example_service example_project example_context 1773000000000 (Some 1773000060000) 0 0 =
      blocked example_service example_project ''cooldown_active'' 1773000060000 1773000000000 0 0"
    by (simp add: decide_def en cooling_def)
  show ?thesis
    using cooldown_enforced_locally [OF h _ _ _ _ refl st _ en b [symmetric]]
    by (simp add: c hh blocked_def decision_of_def ce opt_int_def del: replicate.simps) blast
qed

section \<open>Without an answer the fail mode decides\<close>

definition no_success :: "exn + response \<Rightarrow> bool" where
  "no_success a = (case a of Inl e \<Rightarrow> True
     | Inr r \<Rightarrow> (case rs_status_code r of None \<Rightarrow> True
         | Some v \<Rightarrow> (case py_int v of None \<Rightarrow> True | Some i \<Rightarrow> i < 200 \<or> 300 \<le> i)))"

definition backend_down :: "'x services \<Rightarrow> bool" where
  "backend_down S \<longleftrightarrow> (case sv_http S of None \<Rightarrow> True
     | Some h \<Rightarrow> \<forall>url body hs k x. no_success (fst (hc_post h url body hs k x)))"

definition fallback_answer :: "string \<Rightarrow> string \<Rightarrow> string \<Rightarrow> pydict" where
  "fallback_answer fail_mode trace_id request_id =
     [(''decision'', PStr (if fail_mode = ''closed'' then ''block'' else ''allow'')),
      (''reason'', PStr (if fail_mode = ''closed'' then ''fail_closed'' else ''decision_unavailable'')),
      (''trace_id'', PStr trace_id), (''request_id'', PStr request_id)]"

lemma fallback_run: "fallback_decision t r w = (Inr (fallback_answer (pe_fail_mode (sdk_engine w)) t r), w)"
  by (simp add: fallback_decision_def engine_def fallback_answer_def)

lemma post_fails:
  assumes "backend_down S"
  shows "no_success (fst (post_with_timeout S url j hs t w))"
proof (cases "sv_http S")
  case None
  then show ?thesis by (simp add: post_with_timeout_def no_success_def)
next
  case (Some h)
  then have d: "no_success (fst (call (hc_post h url j hs k) w'))" for k w'
    using assms by (simp add: backend_down_def call_run)
  have e: "no_success (fst (except_type_error m n w'))"
    if m: "no_success (fst (m w'))" and n: "\<And>w''. no_success (fst (n w''))" for m n and w' :: "'a sdk"
  proof (cases "m w'")
    case (Pair q w'')
    then show ?thesis
      using m n [of w''] by (cases q) (simp_all add: except_type_error_def try_except_def no_success_def)
  qed
  show ?thesis by (simp add: post_with_timeout_def Some d e)
qed

text \<open>The state after a failed exchange differs in the outside world only.\<close>

lemma ask_fails:
  assumes "backend_down S" "ask_backend S context t r s w = (a, w')"
  shows "sdk_engine w' = sdk_engine w \<and>
    (case a of Inl e \<Rightarrow> True | Inr d \<Rightarrow> d = fallback_answer (pe_fail_mode (sdk_engine w)) t r)"
proof -
  obtain p w1 where p: "post_with_timeout S (pe_base_url (sdk_engine w) @ ''/api/v1/protect/decision'')
      (sanitize_protect_context context)
      [(''Content-Type'', ''application/json''), (''X-Project-Ingest-Key'', pe_ingest_key (sdk_engine w)),
       (''X-Trace-ID'', strip (sdk_trace_id w)), (''X-Span-ID'', strip (sdk_span_id w)),
       (''X-Rheonic-Protect-Request-Id'', r)] s w = (p, w1)" by force
  have ns: "no_success p" using post_fails [OF assms(1)] p by (metis fst_conv)
  have frp: "frame sdk_engine (post_with_timeout S u j h s)" for u j h by (intro frame_engine_steps) simp
  have e1: "sdk_engine w1 = sdk_engine w" using frameD [OF frp p] by simp
  note run = assms(2) [unfolded ask_backend_def engine_def get_trace_id_def get_span_id_def]
  show ?thesis
  proof (cases p)
    case (Inl e)
    then show ?thesis using run p e1 by (auto simp: bnd_def)
  next
    case (Inr rsp)
    show ?thesis
    proof (cases "status_code_of rsp w1")
      case (Pair st w2)
      have w2: "w2 = w1" using Pair by (auto simp: status_code_of_def split: option.splits)
      show ?thesis
      proof (cases st)
        case (Inl e)
        then show ?thesis using run p e1 Inr Pair w2 by (auto simp: bnd_def)
      next
        case c: (Inr c)
        then have out: "c < 200 \<or> 300 \<le> c"
          using ns Pair Inr by (auto simp: no_success_def status_code_of_def split: option.splits)
        obtain w3 where rep: "report_decision_unavailable_fire_and_forget S (as_str (dget context ''provider''))
            (as_str (dget context ''requested_model'')) r (strip (sdk_trace_id w1)) w1 = (Inr (), w3)"
          by (rule never_raisesE [OF never_raises_report(3)]) auto
        have frr: "frame sdk_engine (report_decision_unavailable_fire_and_forget S x y r z)" for x y z
          unfolding report_decision_unavailable_fire_and_forget_def by (intro frame_engine_steps) simp
        have "sdk_engine w3 = sdk_engine w1" using frameD [OF frr rep] by simp
        then show ?thesis
          using run p e1 Inr Pair w2 c out rep by (auto simp: bnd_def fallback_run)
      qed
    qed
  qed
qed

lemma preflight_failed_run:
  "\<exists>w'. preflight_failed S context t r e w = (Inr (fallback_answer (pe_fail_mode (sdk_engine w)) t r), w')
     \<and> sdk_engine w' = sdk_engine w"
proof -
  let ?rep = "(if is_timeout_error e then report_decision_timeout_fire_and_forget
       else report_decision_unavailable_fire_and_forget) S (as_str (dget context ''provider''))
       (as_str (dget context ''requested_model'')) r (strip (sdk_trace_id w))"
  have "never_raises ?rep" by (cases "is_timeout_error e") simp_all
  then obtain u w1 where "?rep w = (Inr u, w1)" by (rule never_raisesE)
  then have rep: "?rep w = (Inr (), w1)" by simp
  have "frame sdk_engine ?rep"
    by (cases "is_timeout_error e")
      (simp_all add: report_decision_unavailable_fire_and_forget_def
        report_decision_timeout_fire_and_forget_def frame_engine_steps)
  then have "sdk_engine w1 = sdk_engine w" using rep by (rule frameD)
  then show ?thesis
    using rep by (simp add: preflight_failed_def get_trace_id_def bnd_def fallback_run)
qed

text \<open>
  C28: when the backend cannot be asked (no HTTP client, every request raises or is answered outside
  2xx) and no cached cooldown runs, the fail mode decides: a closed engine blocks, an open one
  allows, and the engine's configuration stays as it was.
\<close>

theorem fail_mode_decides:
  assumes "backend_down S" "preflight_start S context w = (Inr (r, t, s, now), w1)"
    and "case pe_cooldown_until_ms (sdk_engine w) of None \<Rightarrow> True | Some u \<Rightarrow> u \<le> now"
  shows "\<exists>d w'. evaluate S context w = (Inr d, w') \<and> sdk_engine w' = sdk_engine w \<and>
     dget d ''decision'' = PStr (if pe_fail_mode (sdk_engine w) = ''closed'' then ''block'' else ''allow'')"
proof -
  have fr: "frame sdk_engine (preflight_start S context)"
    unfolding preflight_start_def
    by (intro frame_bnd frame_ret frame_or_gen frame_ids frame_engine_steps) simp_all
  have e1: "sdk_engine w1 = sdk_engine w" using frameD [OF fr assms(2)] by simp
  have ev: "evaluate S context w = evaluate_remote S context t s r w1"
    using assms(2,3) by (simp add: evaluate_def bnd_def engine_def e1 split: option.splits)
  obtain c w2 where b: "bind_trace_context S t s w1 = (Inr c, w2)"
    by (rule never_raisesE [OF never_raises_context(1)])
  have frb: "frame sdk_engine (bind_trace_context S t s)" by (intro frame_bind_trace_context) simp_all
  have e2: "sdk_engine w2 = sdk_engine w1" using frameD [OF frb b] by simp
  let ?t = "py_div (of_int (max (pe_decision_timeout_ms (sdk_engine w1)) 1)) 1000"
  obtain a w3 where a: "ask_backend S context t r ?t w2 = (a, w3)" by force
  note af = ask_fails [OF assms(1) a]
  have "\<exists>w5. try_except (ask_backend S context t r ?t) (preflight_failed S context t r) w2
      = (Inr (fallback_answer (pe_fail_mode (sdk_engine w)) t r), w5) \<and> sdk_engine w5 = sdk_engine w"
  proof (cases a)
    case (Inl e)
    then have "try_except (ask_backend S context t r ?t) (preflight_failed S context t r) w2
        = preflight_failed S context t r e w3" using a by (intro try_Inl) simp
    moreover have "sdk_engine w3 = sdk_engine w" using af e1 e2 by simp
    ultimately show ?thesis using preflight_failed_run [of S "context" t r e w3] by simp
  next
    case (Inr d)
    then have "try_except (ask_backend S context t r ?t) (preflight_failed S context t r) w2 = (Inr d, w3)"
      using a by (intro try_Inr) simp
    moreover have "sdk_engine w3 = sdk_engine w" "d = fallback_answer (pe_fail_mode (sdk_engine w)) t r"
      using af e1 e2 Inr by simp_all
    ultimately show ?thesis by simp
  qed
  then obtain w5 where "try_except (ask_backend S context t r ?t) (preflight_failed S context t r) w2
      = (Inr (fallback_answer (pe_fail_mode (sdk_engine w)) t r), w5)" "sdk_engine w5 = sdk_engine w"
    by blast
  note tr = this(1)
  have "evaluate S context w = (Inr (fallback_answer (pe_fail_mode (sdk_engine w)) t r),
      w5\<lparr>sdk_trace_id := fst c, sdk_span_id := snd c\<rparr>)"
    unfolding ev evaluate_remote_def engine_def gets_bnd
    by (subst bnd_Inr [of "bind_trace_context S t s", OF b]) (simp only: finally_py_def tr prod.case reset_trace_context_def modify_run sum.case)
  then show ?thesis using \<open>sdk_engine w5 = sdk_engine w\<close> by (auto simp: fallback_answer_def)
qed

theorem fail_mode_decides_witness:
  "\<exists>d w'. evaluate (demo_services 0 None) [] (demo_sdk ''closed'') = (Inr d, w') \<and>
     dget d ''decision'' = PStr ''block''"
proof -
  have "backend_down (demo_services 0 None)" by (simp add: backend_down_def demo_services_def)
  moreover have "pe_fail_mode (sdk_engine (demo_sdk ''closed'')) = ''closed''"
    "pe_cooldown_until_ms (sdk_engine (demo_sdk ''closed'')) = None"
    by (simp_all add: demo_sdk_def protect_engine_init_def)
  ultimately show ?thesis using fail_mode_decides [OF _ demo_start [of 0 None "demo_sdk ''closed''"]] by auto
qed

end
