(* ===== verification/Sdk_Module.thy ===== *)
theory Sdk_Module
  imports Sdk_Queue Sdk_Preflight
begin

text \<open>
  The rest of \<open>sdk-python/src/rheonic/client.py\<close>: the two HTTP transports a client can build
  (\<open>_UrllibTransport\<close> where \<open>httpx\<close> is not installed, \<open>_HttpxTransport\<close> otherwise) and the module's
  default client (\<open>create_client\<close>, \<open>get_default_client\<close>, \<open>capture_event\<close>). \<open>urlopen\<close> and the methods
  of \<open>httpx.Client\<close> are parameters. The theorems show what a transport without a response body costs
  and what a replaced default client leaves behind.
\<close>

section \<open>The transport over urllib\<close>

text \<open>\<open>_SimpleResponse\<close> has a status code and no \<open>json\<close> method.\<close>

definition simple_response :: "int \<Rightarrow> response" where
  "simple_response status_code = \<lparr> rs_status_code = Some (PInt status_code), rs_json = None \<rparr>"

text \<open>\<open>json.dumps\<close> of any value: \<open>", "\<close> and \<open>": "\<close>, everything outside printable ASCII escaped.\<close>

fun json_text :: "(rat \<Rightarrow> string) \<Rightarrow> pyval \<Rightarrow> string" where
  "json_text fr PNone = ''null''"
| "json_text fr (PBool b) = (if b then ''true'' else ''false'')"
| "json_text fr (PInt i) = py_str_int i"
| "json_text fr (PFloat x) = fr x"
| "json_text fr (PStr s) = json_str s"
| "json_text fr (PList xs) = ''['' @ join_str '', '' (map (json_text fr) xs) @ '']''"
| "json_text fr (PDict d) = ''{'' @ join_str '', ''
     (map (\<lambda>p. json_str (fst p) @ '': '' @ json_text fr (snd p)) d) @ ''}''"
| "json_text fr (PObj d) = json_str (py_str (PObj d))"

definition dumps :: "(rat \<Rightarrow> string) \<Rightarrow> pyval \<Rightarrow> exn + string" where
  "dumps fr v = (if jsonable v then Inr (json_text fr v) else Inl TypeError)"

text \<open>
  \<open>request.urlopen\<close>: the URL, the method, the body, the headers and the timeout give the status code
  of the response; \<open>HTTPStatusError\<close> is \<open>urllib.error.HTTPError\<close> with its \<open>code\<close>.
\<close>

type_synonym 'x urlopen = "string \<Rightarrow> string \<Rightarrow> string option \<Rightarrow> headers \<Rightarrow> rat \<Rightarrow> ('x, int) py"

text \<open>\<open>timeout or self._timeout_s\<close>; the methods have no parameter \<open>timeout_s\<close>.\<close>

definition urllib_timeout :: "rat \<Rightarrow> timeout_kw \<Rightarrow> exn + rat" where
  "urllib_timeout timeout_s kw =
     (case kw of
        Timeout t \<Rightarrow> Inr (if t = 0 then timeout_s else t)
      | No_timeout \<Rightarrow> Inr timeout_s
      | Timeout_s _ \<Rightarrow> Inl TypeError)"

definition urllib_send ::
  "'x urlopen \<Rightarrow> string \<Rightarrow> string \<Rightarrow> string option \<Rightarrow> headers \<Rightarrow> rat \<Rightarrow> ('x, response) py" where
  "urllib_send urlopen url http_method data headers timeout =
     try_except
       (bnd (urlopen url http_method data headers timeout) (\<lambda>code. ret (simple_response code)))
       (\<lambda>e. case e of HTTPStatusError code \<Rightarrow> ret (simple_response code) | _ \<Rightarrow> raise e)"

definition urllib_post ::
  "'x urlopen \<Rightarrow> (rat \<Rightarrow> string) \<Rightarrow> rat \<Rightarrow> string \<Rightarrow> pydict \<Rightarrow> headers \<Rightarrow> timeout_kw \<Rightarrow> ('x, response) py" where
  "urllib_post urlopen fr timeout_s url json headers kw =
     bnd (py_raise_sum (urllib_timeout timeout_s kw)) (\<lambda>timeout.
     bnd (py_raise_sum (dumps fr (PDict json))) (\<lambda>body.
     urllib_send urlopen url ''POST'' (Some body) headers timeout))"

definition urllib_get ::
  "'x urlopen \<Rightarrow> rat \<Rightarrow> string \<Rightarrow> headers \<Rightarrow> timeout_kw \<Rightarrow> ('x, response) py" where
  "urllib_get urlopen timeout_s url headers kw =
     bnd (py_raise_sum (urllib_timeout timeout_s kw)) (\<lambda>timeout.
     urllib_send urlopen url ''GET'' None headers timeout)"

definition urllib_transport :: "'x urlopen \<Rightarrow> (rat \<Rightarrow> string) \<Rightarrow> rat \<Rightarrow> 'x http_client" where
  "urllib_transport urlopen fr timeout_s = \<lparr>
     hc_post = urllib_post urlopen fr timeout_s, hc_get = urllib_get urlopen timeout_s,
     hc_close = ret () \<rparr>"

section \<open>The transport over httpx\<close>

text \<open>The limits of \<open>httpx.Timeout\<close> that the client is built with.\<close>

record httpx_timeout =
  hx_timeout :: rat
  hx_connect :: rat
  hx_pool :: rat
  hx_read :: rat
  hx_write :: rat

definition httpx_timeouts :: "rat \<Rightarrow> httpx_timeout" where
  "httpx_timeouts timeout_s =
     (let bounded_timeout = max timeout_s (fl (1 / 10));
          connect_timeout = min bounded_timeout 1
      in \<lparr> hx_timeout = bounded_timeout, hx_connect = connect_timeout, hx_pool = connect_timeout,
           hx_read = bounded_timeout, hx_write = bounded_timeout \<rparr>)"

text \<open>
  \<open>httpx.Client\<close> with those limits. Its methods take \<open>timeout\<close> as an option: a number is the limit of
  that request, and \<open>None\<close> means no limit at all (the client's own limits apply only when the argument
  is left out).
\<close>

record 'x httpx_client =
  hx_post :: "string \<Rightarrow> pydict \<Rightarrow> headers \<Rightarrow> rat option \<Rightarrow> ('x, response) py"
  hx_get :: "string \<Rightarrow> headers \<Rightarrow> rat option \<Rightarrow> ('x, response) py"
  hx_close :: "('x, unit) py"

definition httpx_limit :: "timeout_kw \<Rightarrow> exn + rat option" where
  "httpx_limit kw = (case kw of Timeout t \<Rightarrow> Inr (Some t) | No_timeout \<Rightarrow> Inr None | Timeout_s _ \<Rightarrow> Inl TypeError)"

definition httpx_transport :: "(httpx_timeout \<Rightarrow> 'x httpx_client) \<Rightarrow> rat \<Rightarrow> 'x http_client" where
  "httpx_transport Client timeout_s =
     (let c = Client (httpx_timeouts timeout_s) in \<lparr>
        hc_post = \<lambda>url json headers kw. bnd (py_raise_sum (httpx_limit kw)) (\<lambda>timeout. hx_post c url json headers timeout),
        hc_get = \<lambda>url headers kw. bnd (py_raise_sum (httpx_limit kw)) (\<lambda>timeout. hx_get c url headers timeout),
        hc_close = hx_close c \<rparr>)"

text \<open>\<open>http_client\<close>, else \<open>httpx\<close> where it is installed, else \<open>urllib\<close>.\<close>

definition choose_transport ::
  "'x http_client option \<Rightarrow> (httpx_timeout \<Rightarrow> 'x httpx_client) option \<Rightarrow> 'x urlopen \<Rightarrow> (rat \<Rightarrow> string) \<Rightarrow> rat
     \<Rightarrow> 'x http_client" where
  "choose_transport http_client httpx urlopen fr request_timeout_s =
     (case http_client of
        Some h \<Rightarrow> h
      | None \<Rightarrow> (case httpx of
            Some Client \<Rightarrow> httpx_transport Client request_timeout_s
          | None \<Rightarrow> urllib_transport urlopen fr request_timeout_s))"

section \<open>Decisions over urllib\<close>

lemma urllib_post_ok:
  assumes "sv_http S = Some (urllib_transport urlopen fr ts)" "jsonable (PDict json)"
    and "\<And>m b h t x. \<exists>code x'. urlopen url m b h t x = (Inr code, x') \<and> 200 \<le> code \<and> code < 300"
  shows "\<exists>code w'. post_with_timeout S url json headers t w = (Inr (simple_response code), w')
     \<and> 200 \<le> code \<and> code < 300"
proof -
  let ?t = "if t = 0 then ts else t"
  obtain code x' where "urlopen url ''POST'' (Some (json_text fr (PDict json))) headers ?t (sdk_x w) = (Inr code, x')"
    "200 \<le> code" "code < 300" using assms(3) by blast
  then show ?thesis
    using assms(1,2)
    by (auto intro!: exI [of _ code] simp: post_with_timeout_def except_type_error_def urllib_transport_def urllib_post_def
        urllib_timeout_def dumps_def py_raise_sum_def urllib_send_def call_def try_except_def bnd_def ret_def)
qed

abbreviation allows :: "pydict \<Rightarrow> bool" where
  "allows d \<equiv> dget d ''decision'' = PStr ''allow'' \<and> dget d ''reason'' = PStr ''ok''"

lemma handle_empty: "returns allows (handle_payload S [] t r)"
  unfolding handle_payload_def Let_def decision_result_def
  by (intro returns_bnd) (simp add: str_or_def dget_result_clamp dget_dset_if dget_Nil dget_Cons)

lemma ask_over_urllib:
  assumes "sv_http S = Some (urllib_transport urlopen fr ts)"
    and "jsonable (PDict (sanitize_protect_context context))"
    and "\<And>url m b h t x. \<exists>code x'. urlopen url m b h t x = (Inr code, x') \<and> 200 \<le> code \<and> code < 300"
  shows "\<exists>d w'. ask_backend S context t r s w = (Inr d, w') \<and> allows d"
proof -
  let ?h = "[(''Content-Type'', ''application/json''), (''X-Project-Ingest-Key'', pe_ingest_key (sdk_engine w)),
     (''X-Trace-ID'', strip (sdk_trace_id w)), (''X-Span-ID'', strip (sdk_span_id w)),
     (''X-Rheonic-Protect-Request-Id'', r)]"
  obtain code w1 where 1: "post_with_timeout S (pe_base_url (sdk_engine w) @ ''/api/v1/protect/decision'')
      (sanitize_protect_context context) ?h s w = (Inr (simple_response code), w1)" "200 \<le> code" "code < 300"
    using urllib_post_ok [OF assms(1,2)] assms(3) by blast
  obtain d w2 where 2: "handle_payload S [] t r w1 = (Inr d, w2)"
    by (rule never_raisesE [OF never_raises_handle])
  have "ask_backend S context t r s w = (Inr d, w2)"
    using 1 2 by (simp add: ask_backend_def engine_def get_trace_id_def get_span_id_def bnd_def
        status_code_of_def simple_response_def parse_json_payload_def)
  then show ?thesis using returnsD [OF handle_empty 2] by blast
qed

text \<open>
  C13: over the \<open>urllib\<close> transport the answer of the backend is never read, because its response has no
  \<open>json\<close> method: while the backend answers with a success, every preflight of a client without a cached
  cooldown is allowed with reason \<open>ok\<close>, whatever the backend decided and also in fail mode \<open>closed\<close>.
\<close>

theorem urllib_never_blocks:
  assumes "sv_http S = Some (urllib_transport urlopen fr ts)"
    and "jsonable (PDict (sanitize_protect_context context))"
    and "\<And>url m b h t x. \<exists>code x'. urlopen url m b h t x = (Inr code, x') \<and> 200 \<le> code \<and> code < 300"
    and "pe_cooldown_until_ms (sdk_engine w) = None"
  shows "\<exists>d w'. evaluate S context w = (Inr d, w') \<and> allows d"
proof -
  obtain r t s now w1 where 1: "preflight_start S context w = (Inr (r, t, s, now), w1)"
    by (metis never_raisesE never_raises_preflight_start prod_cases4)
  have fr: "frame sdk_engine (preflight_start S context)"
    unfolding preflight_start_def
    by (intro frame_bnd frame_ret frame_or_gen frame_ids frame_engine_steps) simp_all
  have e: "sdk_engine w1 = sdk_engine w" using frameD [OF fr 1] .
  obtain c w2 where 2: "bind_trace_context S t s w1 = (Inr c, w2)"
    by (rule never_raisesE [OF never_raises_context(1)])
  obtain d w3 where 3: "ask_backend S context t r (py_div (of_int (max (pe_decision_timeout_ms (sdk_engine w1)) 1)) 1000) w2
      = (Inr d, w3)" "allows d"
    using ask_over_urllib [OF assms(1-3)] by blast
  have "evaluate S context w = (Inr d, w3\<lparr>sdk_trace_id := fst c, sdk_span_id := snd c\<rparr>)"
    using 1 2 3 assms(4) e
    by (simp add: evaluate_def evaluate_remote_def bnd_def engine_def try_except_def finally_py_def reset_trace_context_def)
  then show ?thesis using 3(2) by blast
qed

text \<open>A backend that answers 200 to every request, and a client that fails closed.\<close>

definition up :: "unit urlopen" where
  "up url m b h t = ret 200"

theorem urllib_never_blocks_witness:
  "\<exists>d w'. evaluate (demo_services 1 (Some (urllib_transport up (\<lambda>_. ''0.0'') 5)))
     [(''provider'', PStr ''openai''), (''requested_model'', PStr ''m'')] (demo_sdk ''closed'') = (Inr d, w') \<and> allows d"
  by (rule urllib_never_blocks [where urlopen = up and fr = "\<lambda>_. ''0.0''" and ts = 5])
    (simp_all add: demo_services_def demo_sdk_def protect_engine_init_def up_def
      sanitize_protect_context_def context_keys_def dget_def dset_def)

text \<open>Without the keyword a request over \<open>httpx\<close> has no limit, whatever the client was built with.\<close>

lemma event_post_unlimited:
  "hc_post (httpx_transport Client timeout_s) url json headers No_timeout =
     hx_post (Client (httpx_timeouts timeout_s)) url json headers None"
  by (rule ext) (simp add: httpx_transport_def Let_def httpx_limit_def py_raise_sum_def bnd_def)

section \<open>The default client\<close>

text \<open>
  \<open>_default_client\<close> is the services of the registered client (its transport is one of them), whose
  state is that of \<open>mod_sdk\<close>.
\<close>

record 'x sdk_module =
  mod_default :: "'x services option"
  mod_sdk :: "'x sdk"

definition on_sdk :: "('x sdk, 'a) py \<Rightarrow> ('x sdk_module, 'a) py" where
  "on_sdk m = (\<lambda>w. case m (mod_sdk w) of (r, s) \<Rightarrow> (r, w\<lparr>mod_sdk := s\<rparr>))"

text \<open>A constructor that raises leaves the global, and with it the client registered before, as it was.\<close>

definition register_client :: "'x services \<Rightarrow> ('x sdk, unit) py \<Rightarrow> ('x sdk_module, unit) py" where
  "register_client S build = (\<lambda>w. case build (mod_sdk w) of
       (Inl e, s) \<Rightarrow> (Inl e, w\<lparr>mod_sdk := s\<lparr>sdk_client := sdk_client (mod_sdk w), sdk_engine := sdk_engine (mod_sdk w)\<rparr>\<rparr>)
     | (Inr _, s) \<Rightarrow> (Inr (), w\<lparr>mod_default := Some S, mod_sdk := s\<rparr>))"

definition create_client ::
  "'x services \<Rightarrow> pyval \<Rightarrow> pyval \<Rightarrow> pyval \<Rightarrow> pyval \<Rightarrow> pyval \<Rightarrow> pyval \<Rightarrow> pyval \<Rightarrow> pyval \<Rightarrow> pyval
     \<Rightarrow> ('x sdk_module, unit) py" where
  "create_client S ingest_key base_url environment flush_interval_s max_queue_size overflow_policy
     request_timeout_s protect_fail_mode debug =
     bnd (\<lambda>w. case mod_default w of None \<Rightarrow> ret () w | Some registered \<Rightarrow> on_sdk (client_close registered) w) (\<lambda>_.
     register_client S (client_init S ingest_key base_url environment flush_interval_s max_queue_size
       overflow_policy request_timeout_s protect_fail_mode debug))"

definition get_default_client :: "('x sdk_module, 'x services option) py" where
  "get_default_client = gets mod_default"

definition module_capture_event :: "pydict \<Rightarrow> ('x sdk_module, unit) py" where
  "module_capture_event event =
     bnd get_default_client (\<lambda>registered. case registered of
       None \<Rightarrow> ret ()
     | Some S \<Rightarrow> on_sdk (capture_event S event))"

section \<open>Replacing the default client\<close>

text \<open>A computation that reads and changes nothing.\<close>

definition stateless :: "('w, 'a) py \<Rightarrow> bool" where
  "stateless m \<longleftrightarrow> (\<exists>r. \<forall>w. m w = (r, w))"

lemma stateless_bnd: "stateless m \<Longrightarrow> (\<And>x. stateless (k x)) \<Longrightarrow> stateless (bnd m k)"
proof -
  assume m: "stateless m" and k: "\<And>x. stateless (k x)"
  obtain r where r: "\<And>w. m w = (r, w)" using m unfolding stateless_def by blast
  show ?thesis
  proof (cases r)
    case (Inl e)
    then show ?thesis using r by (simp add: stateless_def bnd_def)
  next
    case (Inr x)
    then show ?thesis using r k [of x] by (simp add: stateless_def bnd_def)
  qed
qed

lemma stateless_checks: "stateless (fail_if q t)" "stateless (member_of v names)"
  by (simp add: stateless_def fail_if_def) (cases v; simp add: stateless_def member_of_def)

lemma validate_stateless: "stateless (validate_client_config a b c d e f g h i)"
  unfolding validate_client_config_def by (intro stateless_bnd stateless_checks)

lemma client_close_run:
  assumes "\<not> cn_is_closed (sdk_client w)"
  shows "\<exists>w'. client_close S w = (Inr (), w') \<and> cn_is_closed (sdk_client w') \<and> cn_stopped (sdk_client w')"
proof -
  let ?w = "w\<lparr>sdk_client := (sdk_client w)\<lparr>cn_is_closed := True, cn_stopped := True\<rparr>\<rparr>"
  let ?d = "Some (fl (fst (sv_monotonic S (sdk_x ?w)) + sc_default_flush_timeout_s sdk_config))"
  let ?w1 = "?w\<lparr>sdk_x := snd (sv_monotonic S (sdk_x ?w))\<rparr>"
  obtain w2 k where 2: "flush_loop S ?d ?w1 = (Inr (), w2)" "same_setup (sdk_client ?w1) (sdk_client w2)"
    using flush_loop_run [of S ?d ?w1] by blast
  then have f: "flush S (Some (sc_default_flush_timeout_s sdk_config)) ?w = (Inr (), w2)"
    by (simp add: flush_def bnd_def ext_run)
  have c: "cn_is_closed (sdk_client w2)" "cn_stopped (sdk_client w2)"
    using 2(2) by (simp_all add: same_setup_def)
  have run: "client_close S w = try_except (\<lambda>w. case flush S (Some (sc_default_flush_timeout_s sdk_config)) ?w of
      (Inl e, w') \<Rightarrow> (Inl e, w') | (Inr a, w') \<Rightarrow> (case sv_http S of None \<Rightarrow> raise TypeError | Some h \<Rightarrow> call (hc_close h)) w')
      (\<lambda>_. ret ()) w"
    using assms by (simp add: client_close_def client_def set_client_def try_except_def bnd_def)
  show ?thesis
    using c by (cases "sv_http S") (auto simp: run f try_except_def call_run split: sum.split)
qed

lemma rejected_init:
  assumes "validate_client_config k b env f m pol rt fm dbg s = (Inl e, s)"
  shows "client_init S k b env f m pol rt fm dbg s = (Inl e, s)"
  using assms by (simp add: client_init_def bnd_def)

text \<open>
  A call with a rejected configuration closes the default client before it raises: the old client stays
  registered, its worker stops, and what the application captures from then on stays in its queue.
\<close>

theorem rejected_client_closes_default:
  assumes "mod_default w = Some S0" "\<not> cn_is_closed (sdk_client (mod_sdk w))"
    and "validate_client_config k b env f m pol rt fm dbg (mod_sdk w) = (Inl e, mod_sdk w)"
  shows "\<exists>w'. create_client S k b env f m pol rt fm dbg w = (Inl e, w') \<and> mod_default w' = Some S0 \<and>
     cn_is_closed (sdk_client (mod_sdk w')) \<and> run_flush_round S0 (mod_sdk w') = (Inr False, mod_sdk w') \<and>
     client_close S0 (mod_sdk w') = (Inr (), mod_sdk w')"
proof -
  obtain s where s: "client_close S0 (mod_sdk w) = (Inr (), s)" "cn_is_closed (sdk_client s)" "cn_stopped (sdk_client s)"
    using client_close_run [OF assms(2)] by blast
  obtain r where "\<And>w :: 'a sdk. validate_client_config k b env f m pol rt fm dbg w = (r, w)"
    using validate_stateless [of k b env f m pol rt fm dbg] unfolding stateless_def by blast
  then have "validate_client_config k b env f m pol rt fm dbg s = (Inl e, s)" using assms(3) by simp
  note i = rejected_init [OF this]
  have "create_client S k b env f m pol rt fm dbg w = (Inl e, w\<lparr>mod_sdk := s\<rparr>)"
    using assms(1) s(1) i by (simp add: create_client_def register_client_def on_sdk_def bnd_def)
  then show ?thesis
    using assms(1) s(2,3) by (simp add: run_flush_round_def client_close_def client_def bnd_def try_except_def)
qed

text \<open>What a constructor does after it has set the client's fields leaves them alone.\<close>

lemma frame_prewarm: "frame sdk_client (prewarm_token_estimator S m)"
  unfolding prewarm_token_estimator_def get_encoder_def Let_def py_raise_sum_def
  by (intro frame_try frame_bnd frame_option frame_ret frame_gets frame_modify) (auto simp: frame_def)

lemma frame_get_with_timeout:
  "(\<And>w x. v (w\<lparr>sdk_x := x\<rparr>) = v w) \<Longrightarrow> frame v (get_with_timeout S u h t)"
  unfolding get_with_timeout_def except_type_error_def
  by (intro frame_option frame_raise frame_try frame_call frame_if)

lemma frame_bootstrap: "frame sdk_client (bootstrap S)"
proof -
  have s: "frame sdk_client (set_engine f)" for f by (simp add: set_engine_def frame_def)
  have a: "frame sdk_client (adopt_fail_mode f)" "frame sdk_client (adopt_decision_timeout x)" for f x
    unfolding adopt_fail_mode_def adopt_decision_timeout_def
    by (intro frame_when frame_option frame_ret s)+
  show ?thesis unfolding bootstrap_def
    by (intro frame_try frame_bnd frame_if frame_ret frame_or_gen frame_ids frame_engine_steps
        frame_get_with_timeout a) simp_all
qed

lemma frame_warm: "frame sdk_client (warm_connections S)"
  unfolding warm_connections_def
  by (intro frame_bnd frame_finally frame_try frame_option frame_raise frame_call frame_ret frame_ids
      frame_bind_trace_context frame_bootstrap frame_status_code frame_client) simp_all

lemma client_init_result:
  assumes "client_init S k b env f m pol rt fm dbg w = (Inr (), w')"
  shows "sdk_client w' = new_client S k b env m pol rt fm \<and> \<not> blank env \<and> (\<exists>n. as_int m = Some n \<and> 1 \<le> n)"
proof -
  let ?c = "new_client S k b env m pol rt fm"
  obtain w0 where v: "validate_client_config k b env f m pol rt fm dbg w = (Inr (), w0)"
    using assms unfolding client_init_def logged_id by (elim bnd_InrE) simp
  then have "\<not> blank env \<and> (\<exists>n. as_int m = Some n \<and> 1 \<le> n)"
    by (auto simp: validate_client_config_def bnd_def fail_if_def split: if_splits option.splits)
  moreover have "frame sdk_client (bnd (prewarm_token_estimator S None) (\<lambda>_.
       bnd (let m = strip (opt_or (sv_environ S ''RHEONIC_MODEL'') [])
            in when_py (m \<noteq> []) (prewarm_token_estimator S (Some m))) (\<lambda>_.
       bnd (client id) (\<lambda>self.
       bnd (set_engine (\<lambda>_. protect_engine_init (cn_base_url self) (cn_ingest_key self) (cn_environment self)
              (cn_request_timeout_s self) (cn_protect_fail_mode self)
              (sc_internal_protect_decision_timeout_ms sdk_config))) (\<lambda>_.
       warm_connections S)))))" (is "frame _ ?rest")
    unfolding Let_def
    by (intro frame_bnd frame_prewarm frame_when frame_client frame_warm) (simp add: set_engine_def frame_def)
  then have "?rest (w0\<lparr>sdk_client := ?c\<rparr>) = (Inr (), w') \<Longrightarrow> sdk_client w' = ?c"
    using frameD by fastforce
  ultimately show ?thesis
    using assms v by (simp add: client_init_def bnd_def set_client_def)
qed

text \<open>
  A call that succeeds registers an open client with an empty queue and zero counters. Its environment
  is the stripped argument: as validation refuses a blank one, no variable of the process is ever read.
\<close>

theorem create_client_fresh:
  assumes "create_client S k b env f m pol rt fm dbg w = (Inr (), w')"
  shows "mod_default w' = Some S \<and> fresh (sdk_client (mod_sdk w')) \<and> \<not> cn_is_closed (sdk_client (mod_sdk w')) \<and>
     (\<exists>given. env = PStr given \<and> cn_environment (sdk_client (mod_sdk w')) = strip given)"
proof -
  obtain w1 where "register_client S (client_init S k b env f m pol rt fm dbg) w1 = (Inr (), w')"
    using assms unfolding create_client_def by (elim bnd_InrE) blast
  then obtain s where s: "client_init S k b env f m pol rt fm dbg (mod_sdk w1) = (Inr (), s)"
    and w': "w' = w1\<lparr>mod_default := Some S, mod_sdk := s\<rparr>"
    by (auto simp: register_client_def split: prod.splits sum.splits)
  note c = client_init_result [OF s]
  obtain given where t: "env = PStr given" "strip given \<noteq> []"
    using c by (cases env) (auto simp: blank_def)
  then have "given \<noteq> []" by (auto simp: strip_def)
  then show ?thesis
    using c t by (auto simp: w' new_client_def fresh_def resolve_environment_def or_opt_def opt_or_def or_str_def truthy_def)
qed

end
