(* ===== verification/Outcome_Ledger.thy ===== *)
theory Outcome_Ledger
  imports Protect_Action_Store
begin

text \<open>
  What the outcome part of \<open>ProtectActionStore\<close> promises: a ledger that holds one canonical
  outcome per request id, counters of the canonical decisions, the timeout counter with its
  events, the last recorded outcome, and the block cooldown with its owner. \<open>finalize_outcome\<close> on Redis refines
  \<open>ledger_finalize\<close>; the ledger lemmas show that the counters agree with the outcomes and that
  the order in which a live and a fallback outcome of a request arrive does not matter.
\<close>

section \<open>The ledger\<close>

record ledger =
  l_outcomes :: "string \<Rightarrow> outcome option"
  l_count :: "string \<Rightarrow> int"
  l_timeout :: int
  l_events :: "string \<Rightarrow> int option"
  l_last :: "outcome option"
  l_cooldown :: "string option"
  l_owner :: "string option"

definition empty_ledger :: ledger where
  "empty_ledger = \<lparr> l_outcomes = (\<lambda>_. None), l_count = (\<lambda>_. 0), l_timeout = 0,
     l_events = (\<lambda>_. None), l_last = None,
     l_cooldown = None, l_owner = None \<rparr>"

definition counted :: "string \<Rightarrow> bool" where
  "counted d \<longleftrightarrow> d \<in> {''allow'', ''clamp'', ''block''}"

definition is_timeout :: "outcome \<Rightarrow> bool" where
  "is_timeout x \<longleftrightarrow> o_source x = ''timeout_fallback''"

definition ledger_bump :: "string \<Rightarrow> int \<Rightarrow> ledger \<Rightarrow> ledger" where
  "ledger_bump d i L = (if counted d then L\<lparr> l_count := (l_count L)(d := l_count L d + i) \<rparr> else L)"

definition event_ms :: "outcome \<Rightarrow> int" where
  "event_ms x = epoch_ms (the (fromisoformat (o_ts x)))"

definition ledger_apply :: "outcome \<Rightarrow> string option \<Rightarrow> ledger \<Rightarrow> ledger" where
  "ledger_apply x rid L =
     (let L1 = ledger_bump (o_decision x) 1 L
      in if is_timeout x then
           (let L2 = L1\<lparr> l_timeout := l_timeout L1 + 1 \<rparr>
            in if truthy rid then L2\<lparr> l_events := (l_events L2)(the rid \<mapsto> event_ms x) \<rparr> else L2)
         else L1)"

definition ledger_remove :: "outcome \<Rightarrow> string option \<Rightarrow> ledger \<Rightarrow> ledger" where
  "ledger_remove x rid L =
     (let L1 = (if l_count L (o_decision x) \<le> 0 then L else ledger_bump (o_decision x) (- 1) L)
      in if is_timeout x then
           (let L2 = (if l_timeout L1 > 0 then L1\<lparr> l_timeout := l_timeout L1 - 1 \<rparr> else L1)
            in if truthy rid then L2\<lparr> l_events := (l_events L2)(the rid := None) \<rparr> else L2)
         else L1)"

definition ledger_record :: "outcome \<Rightarrow> string option \<Rightarrow> ledger \<Rightarrow> ledger" where
  "ledger_record x rid L = (ledger_apply x rid L)\<lparr> l_last := Some x \<rparr>"

definition ledger_finalize :: "outcome \<Rightarrow> string option \<Rightarrow> ledger \<Rightarrow> (bool \<times> outcome option) \<times> ledger" where
  "ledger_finalize x rid L =
     (if truthy rid then
        (case l_outcomes L (the rid) of
           None \<Rightarrow> ((True, None),
             ledger_record x rid (L\<lparr> l_outcomes := (l_outcomes L)(the rid \<mapsto> x) \<rparr>))
         | Some y \<Rightarrow>
             if \<not> should_replace_outcome y x then ((False, Some y), L)
             else (let L1 = ledger_remove y rid L
                   in ((True, Some y),
                       ledger_record x rid (L1\<lparr> l_outcomes := (l_outcomes L1)(the rid \<mapsto> x) \<rparr>))))
      else ((True, None), ledger_record x rid L))"

section \<open>The ledger in Redis\<close>

text \<open>An outcome as \<open>finalize_outcome\<close> builds it: no empty field, a time stamp between 1970 and 9994.\<close>

definition outcome_wf :: "outcome \<Rightarrow> bool" where
  "outcome_wf x \<longleftrightarrow> o_decision x \<noteq> [] \<and> o_reason x \<noteq> [] \<and> o_source x \<noteq> [] \<and>
     (\<exists>t. 0 \<le> t \<and> t < 253234080000000000 \<and> o_ts x = isoformat t)"

definition ledger_view ::
  "(string \<Rightarrow> string option) \<Rightarrow> (string \<Rightarrow> string \<Rightarrow> int option) \<Rightarrow> string \<Rightarrow> ledger \<Rightarrow> bool" where
  "ledger_view S Z p L \<longleftrightarrow>
     (\<forall>r. r \<noteq> [] \<longrightarrow> S (outcome_key p r) = map_option outcome_json (l_outcomes L r)) \<and>
     (\<forall>r x. l_outcomes L r = Some x \<longrightarrow> outcome_wf x) \<and>
     (\<forall>d k. counter_key_for_decision p d = Some k \<longrightarrow> counter_text (S k) = py_str_int (l_count L d)) \<and>
     counter_text (S (timeout_key p)) = py_str_int (l_timeout L) \<and>
     S (last_key p) = map_option outcome_json (l_last L) \<and>
     S (timeout_events_key p) = None \<and> Z (timeout_events_key p) = l_events L \<and>
     (\<forall>r. Z (outcome_key p r) = Map.empty) \<and> Z (allow_key p) = Map.empty \<and>
     Z (clamp_key p) = Map.empty \<and> Z (block_key p) = Map.empty \<and>
     Z (timeout_key p) = Map.empty \<and> Z (last_key p) = Map.empty \<and>
     S (cooldown_key p) = l_cooldown L \<and> S (cooldown_owner_key p) = l_owner L \<and>
     Z (cooldown_key p) = Map.empty \<and> Z (cooldown_owner_key p) = Map.empty \<and> S (latency_key p) = None"

text \<open>Counters are below the 64-bit limit.\<close>

definition ledger_room :: "ledger \<Rightarrow> bool" where
  "ledger_room L \<longleftrightarrow> (\<forall>d. \<bar>l_count L d\<bar> < 2 ^ 62) \<and> \<bar>l_timeout L\<bar> < 2 ^ 62"

lemmas key_defs = allow_key_def clamp_key_def block_key_def last_key_def timeout_key_def
  timeout_events_key_def outcome_key_def latency_key_def report_key_def
lemmas scope_key_defs = key_defs cooldown_key_def cooldown_owner_key_def

lemma outcome_key_neq [simp]:
  "outcome_key p r \<noteq> allow_key p" "outcome_key p r \<noteq> clamp_key p" "outcome_key p r \<noteq> block_key p"
  "outcome_key p r \<noteq> last_key p" "outcome_key p r \<noteq> timeout_key p"
  "outcome_key p r \<noteq> timeout_events_key p"
  "outcome_key p r = outcome_key p r' \<longleftrightarrow> r = r'"
  by (simp_all add: key_defs)

lemma store_key_neq [simp]:
  "timeout_key p \<noteq> allow_key p" "timeout_key p \<noteq> clamp_key p" "timeout_key p \<noteq> block_key p"
  "last_key p \<noteq> allow_key p" "last_key p \<noteq> clamp_key p" "last_key p \<noteq> block_key p"
  "timeout_events_key p \<noteq> allow_key p" "timeout_events_key p \<noteq> clamp_key p"
  "timeout_events_key p \<noteq> block_key p" "timeout_events_key p \<noteq> timeout_key p"
  "timeout_events_key p \<noteq> last_key p" "last_key p \<noteq> timeout_key p"
  "allow_key p \<noteq> clamp_key p" "allow_key p \<noteq> block_key p" "clamp_key p \<noteq> block_key p"
  by (simp_all add: key_defs)

lemma cooldown_key_neq [simp]:
  "cooldown_key p \<noteq> allow_key p" "cooldown_key p \<noteq> clamp_key p" "cooldown_key p \<noteq> block_key p"
  "cooldown_key p \<noteq> last_key p" "cooldown_key p \<noteq> timeout_key p" "cooldown_key p \<noteq> timeout_events_key p"
  "cooldown_key p \<noteq> outcome_key p r" "cooldown_key p \<noteq> latency_key p"
  "cooldown_owner_key p \<noteq> allow_key p" "cooldown_owner_key p \<noteq> clamp_key p" "cooldown_owner_key p \<noteq> block_key p"
  "cooldown_owner_key p \<noteq> last_key p" "cooldown_owner_key p \<noteq> timeout_key p"
  "cooldown_owner_key p \<noteq> timeout_events_key p" "cooldown_owner_key p \<noteq> outcome_key p r"
  "cooldown_owner_key p \<noteq> latency_key p"
  "latency_key p \<noteq> allow_key p" "latency_key p \<noteq> clamp_key p" "latency_key p \<noteq> block_key p"
  "latency_key p \<noteq> last_key p" "latency_key p \<noteq> timeout_key p" "latency_key p \<noteq> timeout_events_key p"
  "latency_key p \<noteq> outcome_key p r"
  by (simp_all add: scope_key_defs)

lemmas store_key_neqs [simp] = cooldown_key_neq [symmetric] outcome_key_neq(1-6) [symmetric] store_key_neq [symmetric]

lemma counter_key_cases:
  "counter_key_for_decision p d = Some k \<Longrightarrow>
     (d = ''allow'' \<and> k = allow_key p) \<or> (d = ''clamp'' \<and> k = clamp_key p) \<or> (d = ''block'' \<and> k = block_key p)"
  by (auto simp: counter_key_for_decision_def split: if_splits)

lemma counter_key_inj:
  "counter_key_for_decision p d = Some k \<Longrightarrow> counter_key_for_decision p d' = Some k \<Longrightarrow> d = d'"
  by (auto dest!: counter_key_cases)

lemma counter_key_counted: "counter_key_for_decision p d = None \<longleftrightarrow> \<not> counted d"
  by (simp add: counter_key_for_decision_def counted_def)

lemma parse_outcome_json:
  "outcome_wf x \<Longrightarrow> rtext v = outcome_json x \<Longrightarrow> parse_last (Some v) = Some x"
  by (cases x) (auto simp: parse_last_def outcome_json_def json_loads_dumps json_field_def outcome_wf_def)

section \<open>Views under the store's writes\<close>

lemma view_outcome:
  "ledger_view S Z p L \<Longrightarrow> outcome_wf x \<Longrightarrow> r \<noteq> [] \<Longrightarrow>
     ledger_view (S(outcome_key p r \<mapsto> outcome_json x)) Z p (L\<lparr> l_outcomes := (l_outcomes L)(r \<mapsto> x) \<rparr>)"
  unfolding ledger_view_def by (auto dest: counter_key_cases)

lemma view_last:
  "ledger_view S Z p L \<Longrightarrow>
     ledger_view (S(last_key p \<mapsto> outcome_json x)) Z p (L\<lparr> l_last := Some x \<rparr>)"
  unfolding ledger_view_def by (auto dest: counter_key_cases)

lemma view_timeout:
  "ledger_view S Z p L \<Longrightarrow>
     ledger_view (S(timeout_key p \<mapsto> py_str_int n)) Z p (L\<lparr> l_timeout := n \<rparr>)"
  unfolding ledger_view_def by (auto dest: counter_key_cases simp: counter_text_def)

lemma view_events:
  "ledger_view S Z p L \<Longrightarrow> ledger_view S (Z(timeout_events_key p := E)) p (L\<lparr> l_events := E \<rparr>)"
  unfolding ledger_view_def by auto

lemma view_count:
  assumes "ledger_view S Z p L" "counter_key_for_decision p d = Some k"
  shows "ledger_view (S(k \<mapsto> py_str_int n)) Z p (L\<lparr> l_count := (l_count L)(d := n) \<rparr>)"
  using assms counter_key_cases [OF assms(2)] unfolding ledger_view_def
  by (auto dest: counter_key_inj simp: counter_text_def)

lemma view_reads:
  assumes "ledger_view S Z p L"
  shows "counter_key_for_decision p d = Some k \<Longrightarrow> counter_text (S k) = py_str_int (l_count L d)"
    and "counter_key_for_decision p d = Some k \<Longrightarrow> Z k = Map.empty"
    and "counter_text (S (timeout_key p)) = py_str_int (l_timeout L)"
    and "Z (timeout_key p) = Map.empty" "Z (last_key p) = Map.empty" "Z (outcome_key p r) = Map.empty"
    and "S (timeout_events_key p) = None" "Z (timeout_events_key p) = l_events L"
    and "r \<noteq> [] \<Longrightarrow> S (outcome_key p r) = map_option outcome_json (l_outcomes L r)"
  using assms unfolding ledger_view_def by (auto dest: counter_key_cases)

section \<open>Refinement\<close>

context redis_zset_contract
begin

lemma read_int_text:
  assumes "ok w" "counter_text (sv w k) = py_str_int n"
  shows "read_int R k w = (Inr n, w)"
proof -
  obtain v where v: "r_get R k w = (Inr v, w)" "map_option rtext v = sv w k"
    using get_text [OF assms(1)] by blast
  show ?thesis
  proof (cases v)
    case None
    then have "counter_text (sv w k) = py_str_int 0"
      using v(2) by (simp add: counter_text_def) code_simp
    then show ?thesis using v None assms(2) by (simp add: read_int_def)
  next
    case (Some x)
    then have "sv w k = Some (rtext x)" using v(2) by simp
    then have "rtext x = py_str_int n" using assms(2) by (simp add: counter_text_def)
    then show ?thesis using v Some by (simp add: read_int_def)
  qed
qed

lemma incrby_view:
  assumes "ok w" "counter_text (sv w k) = py_str_int n" "zv w k = Map.empty"
    and "\<bar>n\<bar> < 2 ^ 62" "\<bar>i\<bar> \<le> 1"
  shows "\<exists>w'. r_incrby R k i w = (Inr (n + i), w') \<and> ok w' \<and> zv w' = zv w
     \<and> sv w' = (sv w)(k \<mapsto> py_str_int (n + i))"
  using assms by (intro incrby) auto

lemma increment_view:
  assumes "ok w" "counter_text (sv w k) = py_str_int n" "zv w k = Map.empty" "\<bar>n\<bar> < 2 ^ 62"
  shows "\<exists>w'. increment_with_ttl R k w = (Inr (), w') \<and> ok w' \<and> zv w' = zv w
     \<and> sv w' = (sv w)(k \<mapsto> py_str_int (n + 1))"
proof -
  from incrby_view [OF assms(1-4), of 1] obtain w1 where
    1: "r_incr R k w = (Inr (n + 1), w1)" "ok w1" "zv w1 = zv w" "sv w1 = (sv w)(k \<mapsto> py_str_int (n + 1))"
    by (auto simp: incr)
  show ?thesis
  proof (cases "n + 1 = 1")
    case True
    from expire [OF 1(2), of 3600 k] obtain r w2 where
      "r_expire R k 3600 w1 = (Inr r, w2)" "ok w2" "sv w2 = sv w1" "zv w2 = zv w1" by auto
    then show ?thesis using 1 True by (simp add: increment_with_ttl_def)
  qed (use 1 in \<open>simp add: increment_with_ttl_def\<close>)
qed

lemma apply_decision:
  assumes "ok w" "ledger_view (sv w) (zv w) p L" "ledger_room L"
  shows "\<exists>w'. (case counter_key_for_decision p d of None \<Rightarrow> ret () | Some k \<Rightarrow> increment_with_ttl R k) w
      = (Inr (), w') \<and> ok w' \<and> ledger_view (sv w') (zv w') p (ledger_bump d 1 L)"
proof (cases "counter_key_for_decision p d")
  case None
  then have "\<not> counted d" by (simp add: counter_key_counted)
  then show ?thesis using None assms by (simp add: ledger_bump_def)
next
  case (Some k)
  note r = view_reads [OF assms(2)]
  have "\<bar>l_count L d\<bar> < 2 ^ 62" using assms(3) by (simp add: ledger_room_def)
  from increment_view [OF assms(1) r(1) [OF Some] r(2) [OF Some] this]
  show ?thesis using view_count [OF assms(2) Some] Some counter_key_counted [of p d]
    by (auto simp: ledger_bump_def)
qed

lemma remove_decision:
  assumes "ok w" "ledger_view (sv w) (zv w) p L" "ledger_room L"
  shows "\<exists>w'. decrement_counter_for_decision R p d w = (Inr (), w') \<and> ok w'
      \<and> ledger_view (sv w') (zv w') p (if l_count L d \<le> 0 then L else ledger_bump d (- 1) L)"
proof (cases "counter_key_for_decision p d")
  case None
  then have "\<not> counted d" by (simp add: counter_key_counted)
  then show ?thesis using None assms by (simp add: decrement_counter_for_decision_def ledger_bump_def)
next
  case (Some k)
  note r = view_reads [OF assms(2)]
  have read: "read_int R k w = (Inr (l_count L d), w)"
    by (rule read_int_text [OF assms(1) r(1) [OF Some]])
  have "\<bar>l_count L d\<bar> < 2 ^ 62" using assms(3) by (simp add: ledger_room_def)
  from incrby_view [OF assms(1) r(1) [OF Some] r(2) [OF Some] this, of "- 1"] obtain w1 where
    "r_incrby R k (- 1) w = (Inr (l_count L d - 1), w1)" "ok w1" "zv w1 = zv w"
    "sv w1 = (sv w)(k \<mapsto> py_str_int (l_count L d - 1))" by auto
  then show ?thesis
    using read view_count [OF assms(2) Some, of "l_count L d - 1"] assms Some counter_key_counted [of p d]
    by (auto simp: decrement_counter_for_decision_def ledger_bump_def)
qed

lemma apply_timeout_event:
  assumes "ok w" "ledger_view (sv w) (zv w) p L" "outcome_wf x"
  shows "\<exists>w'. record_timeout_event R p r (o_ts x) w = (Inr (), w') \<and> ok w'
     \<and> ledger_view (sv w') (zv w') p (L\<lparr> l_events := (l_events L)(r \<mapsto> event_ms x) \<rparr>)"
proof -
  note v = view_reads [OF assms(2)]
  obtain t where t: "0 \<le> t" "t < 253234080000000000" "o_ts x = isoformat t"
    using assms(3) by (auto simp: outcome_wf_def)
  have p: "fromisoformat (o_ts x) = Some t" unfolding t(3) by (rule fromisoformat_isoformat [OF t(1,2)])
  have e: "event_ms x = epoch_ms t" by (simp add: event_ms_def p)
  have "\<bar>epoch_ms t\<bar> \<le> 2 ^ 53" using epoch_ms_bound [OF t(1,2)] .
  from zadd [OF assms(1) v(7) this] obtain n w1 where 1:
    "r_zadd R (timeout_events_key p) r (epoch_ms t) w = (Inr n, w1)" "ok w1" "sv w1 = sv w"
    "zv w1 = (zv w)(timeout_events_key p := (zv w (timeout_events_key p))(r \<mapsto> epoch_ms t))" by blast
  from expire [OF 1(2), of 3600 "timeout_events_key p"] obtain b w2 where 2:
    "r_expire R (timeout_events_key p) 3600 w1 = (Inr b, w2)" "ok w2" "sv w2 = sv w1" "zv w2 = zv w1"
    by auto
  then show ?thesis using 1 p e v(8) view_events [OF assms(2), of "(l_events L)(r \<mapsto> epoch_ms t)"]
    by (simp add: record_timeout_event_def Let_def)
qed

lemma bump_fields [simp]:
  "l_timeout (ledger_bump d i L) = l_timeout L" "l_events (ledger_bump d i L) = l_events L"
  "l_outcomes (ledger_bump d i L) = l_outcomes L" "l_last (ledger_bump d i L) = l_last L"
  by (simp_all add: ledger_bump_def)

lemma apply_refines:
  assumes "ok w" "ledger_view (sv w) (zv w) p L" "ledger_room L" "outcome_wf x"
  shows "\<exists>w'. apply_outcome_counters R p x rid w = (Inr (), w') \<and> ok w'
     \<and> ledger_view (sv w') (zv w') p (ledger_apply x rid L)"
proof -
  let ?L1 = "ledger_bump (o_decision x) 1 L"
  from apply_decision [OF assms(1-3), of "o_decision x"] obtain w1 where 1:
    "(case counter_key_for_decision p (o_decision x) of None \<Rightarrow> ret () | Some k \<Rightarrow> increment_with_ttl R k) w
      = (Inr (), w1)" "ok w1" "ledger_view (sv w1) (zv w1) p ?L1" by blast
  show ?thesis
  proof (cases "is_timeout x")
    case False
    then show ?thesis using 1 by (simp add: apply_outcome_counters_def ledger_apply_def is_timeout_def)
  next
    case True
    note r = view_reads [OF 1(3)]
    have "\<bar>l_timeout ?L1\<bar> < 2 ^ 62" using assms(3) by (simp add: ledger_room_def)
    from increment_view [OF 1(2) r(3,4) this] obtain w2 where 2:
      "increment_with_ttl R (timeout_key p) w1 = (Inr (), w2)" "ok w2"
      "ledger_view (sv w2) (zv w2) p (?L1\<lparr> l_timeout := l_timeout ?L1 + 1 \<rparr>)"
      using view_timeout [OF 1(3)] by auto
    from apply_timeout_event [OF 2(2,3) assms(4), of "the rid"] obtain w3 where
      "record_timeout_event R p (the rid) (o_ts x) w2 = (Inr (), w3)" "ok w3"
      "ledger_view (sv w3) (zv w3) p (?L1\<lparr> l_timeout := l_timeout ?L1 + 1,
          l_events := (l_events ?L1)(the rid \<mapsto> event_ms x) \<rparr>)" by auto
    then show ?thesis using 1 2 True
      by (cases "truthy rid") (simp_all add: apply_outcome_counters_def ledger_apply_def is_timeout_def Let_def)
  qed
qed

lemma remove_refines:
  assumes "ok w" "ledger_view (sv w) (zv w) p L" "ledger_room L"
  shows "\<exists>w'. remove_outcome_counters R p x rid w = (Inr (), w') \<and> ok w'
     \<and> ledger_view (sv w') (zv w') p (ledger_remove x rid L)"
proof -
  let ?L1 = "if l_count L (o_decision x) \<le> 0 then L else ledger_bump (o_decision x) (- 1) L"
  from remove_decision [OF assms, of "o_decision x"] obtain w1 where 1:
    "decrement_counter_for_decision R p (o_decision x) w = (Inr (), w1)" "ok w1"
    "ledger_view (sv w1) (zv w1) p ?L1" by blast
  show ?thesis
  proof (cases "is_timeout x")
    case False
    then show ?thesis using 1 by (simp add: remove_outcome_counters_def ledger_remove_def is_timeout_def)
  next
    case True
    have r3: "counter_text (sv w1 (timeout_key p)) = py_str_int (l_timeout L)"
      using view_reads(3) [OF 1(3)] by (simp split: if_splits)
    have room: "\<bar>l_timeout L\<bar> < 2 ^ 62" using assms(3) by (simp add: ledger_room_def)
    note r = view_reads [OF 1(3)]
    let ?L2 = "if l_timeout L > 0 then ?L1\<lparr> l_timeout := l_timeout L - 1 \<rparr> else ?L1"
    have read: "read_int R (timeout_key p) w1 = (Inr (l_timeout L), w1)"
      by (rule read_int_text [OF 1(2) r3])
    have "\<exists>w2. when_py (l_timeout L > 0) (bnd (r_incrby R (timeout_key p) (- 1)) (\<lambda>_. ret ())) w1
        = (Inr (), w2) \<and> ok w2 \<and> ledger_view (sv w2) (zv w2) p ?L2"
    proof (cases "l_timeout L > 0")
      case pos: True
      from incrby_view [OF 1(2) r3 r(4) room, of "- 1"] obtain w2 where
        "r_incrby R (timeout_key p) (- 1) w1 = (Inr (l_timeout L - 1), w2)" "ok w2" "zv w2 = zv w1"
        "sv w2 = (sv w1)(timeout_key p \<mapsto> py_str_int (l_timeout L - 1))" by auto
      then show ?thesis using pos view_timeout [OF 1(3), of "l_timeout L - 1"] by simp
    qed (use 1 in simp)
    then obtain w2 where 2:
      "when_py (l_timeout L > 0) (bnd (r_incrby R (timeout_key p) (- 1)) (\<lambda>_. ret ())) w1 = (Inr (), w2)"
      "ok w2" "ledger_view (sv w2) (zv w2) p ?L2" by blast
    note r2 = view_reads [OF 2(3)]
    from zrem [OF 2(2) r2(7), of "the rid"] obtain n w3 where 3:
      "r_zrem R (timeout_events_key p) (the rid) w2 = (Inr n, w3)" "ok w3"
      "ledger_view (sv w3) (zv w3) p (?L2\<lparr> l_events := (l_events ?L2)(the rid := None) \<rparr>)"
      using view_events [OF 2(3)] r2(8) by auto
    have src: "o_source x = ''timeout_fallback''" using True by (simp add: is_timeout_def)
    have run: "remove_outcome_counters R p x rid w = when_py (truthy rid)
        (bnd (r_zrem R (timeout_events_key p) (the rid)) (\<lambda>_. ret ())) w2"
      unfolding remove_outcome_counters_def
      by (subst bnd_Inr, rule 1(1), simp only: src app_config_simps simp_thms when_py_simps)
        (subst bnd_Inr, rule read, subst bnd_Inr, rule 2(1), rule refl)
    have "l_timeout ?L1 = l_timeout L" by simp
    then have spec: "ledger_remove x rid L
        = (if truthy rid then ?L2\<lparr> l_events := (l_events ?L2)(the rid := None) \<rparr> else ?L2)"
      by (simp only: ledger_remove_def Let_def True if_True)
    show ?thesis
      by (cases "truthy rid") (use run spec 2 3 in simp_all)
  qed
qed

lemma room_bump_down: "ledger_room L \<Longrightarrow> 0 < l_count L d \<Longrightarrow> ledger_room (ledger_bump d (- 1) L)"
proof -
  assume L: "ledger_room L" and d: "0 < l_count L d"
  have "\<bar>l_count L d - 1\<bar> < 2 ^ 62" using L d by (auto simp: ledger_room_def dest: spec [of _ d])
  then show ?thesis using L by (auto simp: ledger_room_def ledger_bump_def)
qed

lemma room_remove: "ledger_room L \<Longrightarrow> ledger_room (ledger_remove x rid L)"
  using room_bump_down [of L "o_decision x"] by (auto simp: ledger_remove_def Let_def ledger_room_def)

lemma set_view:
  assumes "ok w" "ledger_view (sv w) (zv w) p L" "zv w k = Map.empty"
  shows "\<exists>w'. r_set R k v action_ttl w = (Inr (), w') \<and> ok w' \<and> sv w' = (sv w)(k \<mapsto> v) \<and> zv w' = zv w"
  using set [OF assms(1,3), of action_ttl] by simp

lemma record_last_refines:
  assumes "ok w" "ledger_view (sv w) (zv w) p L" "ledger_room L" "outcome_wf x"
  shows "\<exists>w'. bnd (apply_outcome_counters R p x rid) (\<lambda>_.
            bnd (r_set R (last_key p) (outcome_json x) action_ttl) (\<lambda>_. ret (True, old))) w
      = (Inr (True, old), w') \<and> ok w' \<and> ledger_view (sv w') (zv w') p (ledger_record x rid L)"
proof -
  from apply_refines [OF assms] obtain w1 where 1:
    "apply_outcome_counters R p x rid w = (Inr (), w1)" "ok w1"
    "ledger_view (sv w1) (zv w1) p (ledger_apply x rid L)" by blast
  from set_view [OF 1(2,3), of "last_key p" "outcome_json x"] view_reads(5) [OF 1(3)] show ?thesis
    using 1(1) view_last [OF 1(3), of x] by (auto simp: ledger_record_def)
qed

lemma set_outcome_refines:
  assumes "ok w" "ledger_view (sv w) (zv w) p L" "ledger_room L" "outcome_wf x" "r \<noteq> []"
  shows "\<exists>w'. bnd (r_set R (outcome_key p r) (outcome_json x) action_ttl) (\<lambda>_.
            bnd (apply_outcome_counters R p x rid) (\<lambda>_.
            bnd (r_set R (last_key p) (outcome_json x) action_ttl) (\<lambda>_. ret (True, old)))) w
      = (Inr (True, old), w') \<and> ok w'
     \<and> ledger_view (sv w') (zv w') p (ledger_record x rid (L\<lparr> l_outcomes := (l_outcomes L)(r \<mapsto> x) \<rparr>))"
proof -
  from set_view [OF assms(1,2), of "outcome_key p r" "outcome_json x"] view_reads(6) [OF assms(2)] obtain w1 where 1:
    "r_set R (outcome_key p r) (outcome_json x) action_ttl w = (Inr (), w1)" "ok w1"
    "ledger_view (sv w1) (zv w1) p (L\<lparr> l_outcomes := (l_outcomes L)(r \<mapsto> x) \<rparr>)"
    using view_outcome [OF assms(2,4,5)] by auto
  have "ledger_room (L\<lparr> l_outcomes := (l_outcomes L)(r \<mapsto> x) \<rparr>)"
    using assms(3) by (simp add: ledger_room_def)
  from record_last_refines [OF 1(2,3) this assms(4), of rid old] show ?thesis using 1(1) by simp
qed

lemma read_outcome:
  assumes "ok w" "ledger_view (sv w) (zv w) p L" "r \<noteq> []"
  shows "\<exists>raw. r_get R (outcome_key p r) w = (Inr raw, w) \<and> parse_last raw = l_outcomes L r"
proof -
  obtain v where v: "r_get R (outcome_key p r) w = (Inr v, w)"
    "map_option rtext v = map_option outcome_json (l_outcomes L r)"
    using get_text [OF assms(1)] view_reads(9) [OF assms(2,3)] by metis
  show ?thesis
  proof (cases "l_outcomes L r")
    case None
    then show ?thesis using v by (simp add: parse_last_def)
  next
    case (Some x)
    then have "outcome_wf x" using assms(2) by (auto simp: ledger_view_def)
    then show ?thesis using v Some parse_outcome_json by auto
  qed
qed

lemma finalize_refines:
  assumes "ok w" "ledger_view (sv w) (zv w) p L" "ledger_room L"
    and t: "t = (case ts of None \<Rightarrow> now | Some t' \<Rightarrow> t')" "0 \<le> t" "t < 253234080000000000"
    and ne: "decision \<noteq> []" "reason \<noteq> []" "source \<noteq> []"
  defines "x \<equiv> \<lparr> o_decision = decision, o_reason = reason, o_source = source, o_ts = isoformat t \<rparr>"
  shows "\<exists>w'. finalize_outcome R now p decision reason source rid ts w
      = (Inr (fst (ledger_finalize x rid L)), w') \<and> ok w'
     \<and> ledger_view (sv w') (zv w') p (snd (ledger_finalize x rid L))"
proof -
  have x: "outcome_wf x" using t ne by (auto simp: x_def outcome_wf_def)
  note code = finalize_outcome_def t(1) [symmetric] x_def [symmetric] Let_def
  show ?thesis
  proof (cases "truthy rid")
    case False
    then show ?thesis using record_last_refines [OF assms(1-3) x, of rid "None :: outcome option"]
      by (auto simp: code ledger_finalize_def try_except_def)
  next
    case True
    define r where "r = the rid"
    have rid: "rid = Some r" "r \<noteq> []" using True by (auto simp: r_def truthy_def split: option.splits)
    obtain raw where raw: "r_get R (outcome_key p r) w = (Inr raw, w)" "parse_last raw = l_outcomes L r"
      using read_outcome [OF assms(1,2) rid(2)] by blast
    let ?set = "\<lambda>old. bnd (r_set R (outcome_key p r) (outcome_json x) action_ttl) (\<lambda>_.
            bnd (apply_outcome_counters R p x rid) (\<lambda>_.
            bnd (r_set R (last_key p) (outcome_json x) action_ttl) (\<lambda>_. ret (True, old))))"
    have run: "finalize_outcome R now p decision reason source rid ts w = try_except
        (case l_outcomes L r of
           None \<Rightarrow> ?set None
         | Some y \<Rightarrow> if \<not> should_replace_outcome y x then ret (False, Some y)
             else bnd (remove_outcome_counters R p y rid) (\<lambda>_. ?set (Some y)))
        (\<lambda>_. ret (False, None)) w"
      by (simp only: code True r_def [symmetric] if_True try_except_def
          bnd_def [of "r_get R (outcome_key p r)"] raw prod.case sum.case)
    have fin: "ledger_finalize x rid L = (case l_outcomes L r of
        None \<Rightarrow> ((True, None), ledger_record x rid (L\<lparr> l_outcomes := (l_outcomes L)(r \<mapsto> x) \<rparr>))
      | Some y \<Rightarrow> if \<not> should_replace_outcome y x then ((False, Some y), L)
          else ((True, Some y), ledger_record x rid
             ((ledger_remove y rid L)\<lparr> l_outcomes := (l_outcomes (ledger_remove y rid L))(r \<mapsto> x) \<rparr>)))"
      unfolding ledger_finalize_def r_def Let_def by (simp only: True if_True)
    show ?thesis
    proof (cases "l_outcomes L r")
      case None
      then show ?thesis using set_outcome_refines [OF assms(1-3) x rid(2), of rid "None :: outcome option"]
        by (auto simp: run fin try_except_def)
    next
      case (Some y)
      show ?thesis
      proof (cases "should_replace_outcome y x")
        case False
        then show ?thesis using Some assms(1,2) by (auto simp: run fin try_except_def)
      next
        case rep: True
        from remove_refines [OF assms(1-3), of y rid] obtain w1 where 1:
          "remove_outcome_counters R p y rid w = (Inr (), w1)" "ok w1"
          "ledger_view (sv w1) (zv w1) p (ledger_remove y rid L)" by blast
        from set_outcome_refines [OF 1(2,3) room_remove [OF assms(3)] x rid(2), of rid "Some y"]
        show ?thesis using Some rep 1(1) by (auto simp: run fin try_except_def)
      qed
    qed
  qed
qed

end

section \<open>The counters agree with the outcomes\<close>

definition requests_with :: "(outcome \<Rightarrow> bool) \<Rightarrow> (string \<Rightarrow> outcome option) \<Rightarrow> string set" where
  "requests_with P m = {r. \<exists>x. m r = Some x \<and> P x}"

definition ledger_ok :: "ledger \<Rightarrow> bool" where
  "ledger_ok L \<longleftrightarrow> finite (dom (l_outcomes L)) \<and>
     (\<forall>d. counted d \<longrightarrow> l_count L d = int (card (requests_with (\<lambda>x. o_decision x = d) (l_outcomes L)))) \<and>
     (\<forall>d. \<not> counted d \<longrightarrow> l_count L d = 0) \<and>
     l_timeout L = int (card (requests_with is_timeout (l_outcomes L)))"

lemma finite_requests_with: "finite (dom m) \<Longrightarrow> finite (requests_with P m)"
  by (rule finite_subset [of _ "dom m"]) (auto simp: requests_with_def)

lemma requests_with_set:
  "requests_with P (m(r \<mapsto> x)) = (if P x then insert r (requests_with P m) else requests_with P m - {r})"
  by (auto simp: requests_with_def)

lemma requests_with_drop: "requests_with P (m(r := None)) = requests_with P m - {r}"
  by (auto simp: requests_with_def)

lemma card_requests_set:
  assumes "finite (dom m)" "m r = None"
  shows "int (card (requests_with P (m(r \<mapsto> x)))) = int (card (requests_with P m)) + (if P x then 1 else 0)"
proof -
  have "r \<notin> requests_with P m" using assms(2) by (simp add: requests_with_def)
  then show ?thesis using finite_requests_with [OF assms(1)] by (simp add: requests_with_set)
qed

lemma card_requests_drop:
  assumes "finite (dom m)" "m r = Some y"
  shows "int (card (requests_with P (m(r := None)))) = int (card (requests_with P m)) - (if P y then 1 else 0)"
proof -
  have "r \<in> requests_with P m \<longleftrightarrow> P y" using assms(2) by (simp add: requests_with_def)
  moreover have "0 < card (requests_with P m)" if "P y"
    using that finite_requests_with [OF assms(1)] assms(2) by (auto simp: card_gt_0_iff requests_with_def)
  ultimately show ?thesis
    using finite_requests_with [OF assms(1), of P] by (auto simp: requests_with_drop card_Diff_singleton_if)
qed

lemma ledger_ok_empty [simp]: "ledger_ok empty_ledger"
  by (simp add: ledger_ok_def empty_ledger_def requests_with_def)

lemma record_fields:
  "l_outcomes (ledger_record x rid L) = l_outcomes L"
  "l_timeout (ledger_record x rid L) = l_timeout L + (if is_timeout x then 1 else 0)"
  "l_count (ledger_record x rid L) d = l_count L d + (if d = o_decision x \<and> counted d then 1 else 0)"
  by (simp_all add: ledger_record_def ledger_apply_def ledger_bump_def Let_def)

lemma remove_fields:
  "l_outcomes (ledger_remove x rid L) = l_outcomes L"
  "0 < l_timeout L \<or> \<not> is_timeout x \<Longrightarrow>
     l_timeout (ledger_remove x rid L) = l_timeout L - (if is_timeout x then 1 else 0)"
  "0 < l_count L (o_decision x) \<or> \<not> counted (o_decision x) \<Longrightarrow>
     l_count (ledger_remove x rid L) d = l_count L d - (if d = o_decision x \<and> counted d then 1 else 0)"
  by (auto simp: ledger_remove_def ledger_bump_def Let_def)

lemma ledger_ok_record:
  assumes "ledger_ok L" "l_outcomes L r = None"
  shows "ledger_ok (ledger_record x rid (L\<lparr> l_outcomes := (l_outcomes L)(r \<mapsto> x) \<rparr>))"
  using assms by (auto simp: ledger_ok_def record_fields card_requests_set)

lemma ledger_ok_remove:
  assumes "ledger_ok L" "l_outcomes L r = Some y"
  shows "ledger_ok ((ledger_remove y rid L)\<lparr> l_outcomes := (l_outcomes L)(r := None) \<rparr>)"
proof -
  have fin: "finite (dom (l_outcomes L))" using assms(1) by (simp add: ledger_ok_def)
  have pos: "0 < card (requests_with P (l_outcomes L))" if "P y" for P
    using that assms(2) finite_requests_with [OF fin] by (auto simp: card_gt_0_iff requests_with_def)
  have a: "0 < l_timeout L \<or> \<not> is_timeout y" using assms(1) pos [of is_timeout] by (auto simp: ledger_ok_def)
  have b: "0 < l_count L (o_decision y) \<or> \<not> counted (o_decision y)"
    using assms(1) pos [of "\<lambda>x. o_decision x = o_decision y"] by (auto simp: ledger_ok_def)
  show ?thesis
    using assms card_requests_drop [OF fin assms(2)] remove_fields(2) [OF a] remove_fields(3) [OF b]
    by (auto simp: ledger_ok_def)
qed

lemma ledger_ok_finalize:
  assumes "ledger_ok L" "truthy rid"
  shows "ledger_ok (snd (ledger_finalize x rid L))"
proof (cases "l_outcomes L (the rid)")
  case None
  then show ?thesis using assms by (simp add: ledger_finalize_def ledger_ok_record)
next
  case (Some y)
  from ledger_ok_record [OF ledger_ok_remove [OF assms(1) Some, of rid], of "the rid" x rid]
  show ?thesis using Some assms
    by (simp add: ledger_finalize_def Let_def remove_fields(1))
qed

section \<open>Canonical outcomes\<close>

text \<open>A report: its time, decision, reason, source and request id.\<close>

type_synonym report = "datetime \<times> string \<times> string \<times> string \<times> string"

fun report_outcome :: "report \<Rightarrow> outcome" where
  "report_outcome (t, d, r, s, rid) = \<lparr> o_decision = d, o_reason = r, o_source = s, o_ts = isoformat t \<rparr>"

fun report_id :: "report \<Rightarrow> string" where
  "report_id (t, d, r, s, rid) = rid"

fun report_ok :: "report \<Rightarrow> bool" where
  "report_ok (t, d, r, s, rid) \<longleftrightarrow>
     0 \<le> t \<and> t < 253234080000000000 \<and> d \<noteq> [] \<and> r \<noteq> [] \<and> s \<noteq> [] \<and> rid \<noteq> []"

fun keep_better :: "outcome option \<Rightarrow> outcome \<Rightarrow> outcome option" where
  "keep_better None x = Some x"
| "keep_better (Some y) x = (if should_replace_outcome y x then Some x else Some y)"

text \<open>The canonical outcome of a request: its reports, each replacing the one before if it ought to.\<close>

definition canonical :: "report list \<Rightarrow> string \<Rightarrow> outcome option" where
  "canonical reports rid =
     foldl keep_better None (map report_outcome (filter (\<lambda>x. report_id x = rid) reports))"

fun run_ledger :: "report list \<Rightarrow> ledger \<Rightarrow> ledger" where
  "run_ledger [] L = L"
| "run_ledger (x # xs) L =
     run_ledger xs (snd (ledger_finalize (report_outcome x) (Some (report_id x)) L))"

fun run_finalize :: "'w redis_client \<Rightarrow> string \<Rightarrow> report list \<Rightarrow> ('w, unit) py" where
  "run_finalize R p [] = ret ()"
| "run_finalize R p ((t, d, r, s, rid) # xs) =
     bnd (finalize_outcome R t p d r s (Some rid) None) (\<lambda>_. run_finalize R p xs)"

lemma finalize_outcomes:
  "rid \<noteq> [] \<Longrightarrow> l_outcomes (snd (ledger_finalize x (Some rid) L)) =
     (l_outcomes L)(rid := keep_better (l_outcomes L rid) x)"
  by (auto simp: ledger_finalize_def truthy_def record_fields remove_fields Let_def fun_eq_iff
      split: option.splits)

lemma run_ledger_outcomes:
  assumes "\<forall>x \<in> set xs. report_ok x"
  shows "l_outcomes (run_ledger xs L) rid =
     foldl keep_better (l_outcomes L rid) (map report_outcome (filter (\<lambda>x. report_id x = rid) xs))"
  using assms
proof (induction xs arbitrary: L)
  case (Cons x xs)
  obtain t d r s i where x: "x = (t, d, r, s, i)" by (cases x)
  have "i \<noteq> []" using Cons.prems by (simp add: x)
  then show ?case using Cons by (simp add: x finalize_outcomes)
qed simp

lemma run_ledger_canonical:
  "\<forall>x \<in> set xs. report_ok x \<Longrightarrow> l_outcomes (run_ledger xs empty_ledger) = canonical xs"
  using run_ledger_outcomes [of xs empty_ledger] by (simp add: fun_eq_iff canonical_def empty_ledger_def)

lemma ledger_ok_room:
  assumes "ledger_ok L" "card (dom (l_outcomes L)) < 2 ^ 62"
  shows "ledger_room L"
proof -
  have fin: "finite (dom (l_outcomes L))" using assms(1) by (simp add: ledger_ok_def)
  have c: "int (card (requests_with P (l_outcomes L))) < 2 ^ 62" for P
  proof -
    have "card (requests_with P (l_outcomes L)) \<le> card (dom (l_outcomes L))"
      by (rule card_mono [OF fin]) (auto simp: requests_with_def)
    then show ?thesis using assms(2) by (metis of_nat_less_numeral_power_cancel_iff order_le_less_trans)
  qed
  have "\<bar>l_count L d\<bar> < 2 ^ 62" for d
    using assms(1) c by (cases "counted d") (simp_all add: ledger_ok_def)
  moreover have "\<bar>l_timeout L\<bar> < 2 ^ 62" using assms(1) c by (simp add: ledger_ok_def)
  ultimately show ?thesis by (simp add: ledger_room_def)
qed

lemma card_outcomes_step:
  assumes "finite (dom (l_outcomes L))" "rid \<noteq> []"
  shows "card (dom (l_outcomes (snd (ledger_finalize x (Some rid) L)))) \<le> Suc (card (dom (l_outcomes L)))"
proof -
  have "dom (l_outcomes (snd (ledger_finalize x (Some rid) L))) \<subseteq> insert rid (dom (l_outcomes L))"
    using assms(2) by (auto simp: finalize_outcomes split: if_splits)
  then have "card (dom (l_outcomes (snd (ledger_finalize x (Some rid) L))))
      \<le> card (insert rid (dom (l_outcomes L)))"
    by (rule card_mono [rotated]) (simp add: assms(1))
  also have "\<dots> \<le> Suc (card (dom (l_outcomes L)))" using assms(1) by (simp add: card_insert_if)
  finally show ?thesis .
qed

context redis_zset_contract
begin

lemma run_finalize_refines:
  assumes "ok w" "ledger_view (sv w) (zv w) p L" "ledger_ok L"
    and "\<forall>x \<in> set xs. report_ok x" "card (dom (l_outcomes L)) + length xs < 2 ^ 62"
  shows "\<exists>w'. run_finalize R p xs w = (Inr (), w') \<and> ok w'
     \<and> ledger_view (sv w') (zv w') p (run_ledger xs L) \<and> ledger_ok (run_ledger xs L)"
  using assms
proof (induction xs arbitrary: w L)
  case (Cons x xs)
  obtain t d r s i where x: "x = (t, d, r, s, i)" by (cases x)
  have v: "0 \<le> t" "t < 253234080000000000" "d \<noteq> []" "r \<noteq> []" "s \<noteq> []" "i \<noteq> []"
    using Cons.prems(4) by (simp_all add: x)
  let ?L = "snd (ledger_finalize (report_outcome x) (Some i) L)"
  have "ledger_room L" using Cons.prems by (intro ledger_ok_room) simp_all
  from finalize_refines [OF Cons.prems(1,2) this, where t = t and ts = None and now = t and decision = d
      and reason = r and source = s and rid = "Some i"] v obtain w1 where 1:
    "finalize_outcome R t p d r s (Some i) None w
      = (Inr (fst (ledger_finalize (report_outcome x) (Some i) L)), w1)" "ok w1"
    "ledger_view (sv w1) (zv w1) p ?L" by (auto simp: x)
  have "ledger_ok ?L" using Cons.prems(3) v by (intro ledger_ok_finalize) (simp_all add: truthy_def)
  moreover have "card (dom (l_outcomes ?L)) + length xs < 2 ^ 62"
    using card_outcomes_step [of L i "report_outcome x"] Cons.prems(3,5) v by (simp add: ledger_ok_def)
  ultimately obtain w2 where "run_finalize R p xs w1 = (Inr (), w2)" "ok w2"
    "ledger_view (sv w2) (zv w2) p (run_ledger xs ?L)" "ledger_ok (run_ledger xs ?L)"
    using Cons.IH [OF 1(2,3)] Cons.prems(4) by auto
  then show ?case using 1(1) by (simp add: x bnd_def)
qed simp

lemma metrics_of_view:
  assumes "ok w" "ledger_view (sv w) (zv w) p L"
  shows "\<exists>m w'. get_metrics R now now' p w = (Inr m, w') \<and> m_allowed_60m m = l_count L ''allow''
     \<and> m_clamped_60m m = l_count L ''clamp'' \<and> m_blocked_60m m = l_count L ''block''
     \<and> m_decision_timeouts_60m m = l_timeout L"
proof -
  note v = view_reads [OF assms(2)]
  have c: "read_int R (allow_key p) w = (Inr (l_count L ''allow''), w)"
    "read_int R (clamp_key p) w = (Inr (l_count L ''clamp''), w)"
    "read_int R (block_key p) w = (Inr (l_count L ''block''), w)"
    "read_int R (timeout_key p) w = (Inr (l_timeout L), w)"
    using v(1) [of _ "allow_key p"] v(1) [of _ "clamp_key p"] v(1) [of _ "block_key p"] v(3)
    by (auto intro!: read_int_text [OF assms(1)] simp: counter_key_for_decision_def)
  obtain last where l: "r_get R (last_key p) w = (Inr last, w)" using get_text [OF assms(1)] by metis
  obtain h w' where h: "get_health R now now' p w = (Inr h, w')"
    using store_never_raises(9) [of R now now' p] unfolding never_raises_def by blast
  show ?thesis by (simp add: get_metrics_def try_except_def bnd_def c l h)
qed

end

lemma fake_empty_ledger [simp]: "ledger_view (fake_sv fake_empty) (fake_zv fake_empty) p empty_ledger"
proof -
  have "counter_text None = py_str_int 0" unfolding counter_text_def by code_simp
  then show ?thesis by (simp add: ledger_view_def empty_ledger_def)
qed



section \<open>Precedence of the sources\<close>

lemma ledger_swap:
  assumes "ledger_ok L" "rid \<noteq> []" "l_outcomes L rid = None"
    and "source_rank (o_source x) < source_rank (o_source y)" "\<not> is_timeout x"
  shows "snd (ledger_finalize y (Some rid) (snd (ledger_finalize x (Some rid) L)))
       = snd (ledger_finalize x (Some rid) (snd (ledger_finalize y (Some rid) L)))"
proof -
  have s: "should_replace_outcome x y" "\<not> should_replace_outcome y x"
    using assms(4) by (simp_all add: should_replace_outcome_def Let_def)
  have n: "0 \<le> l_count L d" for d using assms(1) by (cases "counted d") (simp_all add: ledger_ok_def)
  let ?m = "l_outcomes L"
  let ?Lx = "ledger_record x (Some rid) (L\<lparr> l_outcomes := ?m(rid \<mapsto> x) \<rparr>)"
  have x: "snd (ledger_finalize x (Some rid) L) = ?Lx"
    using assms(2,3) by (simp add: ledger_finalize_def truthy_def)
  have u: "ledger_remove x (Some rid) ?Lx = L\<lparr> l_outcomes := ?m(rid \<mapsto> x), l_last := Some x \<rparr>"
    using assms(5) n [of "o_decision x"]
    by (simp add: ledger_remove_def ledger_record_def ledger_apply_def ledger_bump_def Let_def fun_upd_idem)
  have "snd (ledger_finalize y (Some rid) ?Lx)
      = ledger_record y (Some rid) (L\<lparr> l_last := Some x, l_outcomes := ?m(rid \<mapsto> y) \<rparr>)"
    using assms(2) s(1) by (simp add: ledger_finalize_def truthy_def record_fields u Let_def)
  also have "\<dots> = ledger_record y (Some rid) (L\<lparr> l_outcomes := ?m(rid \<mapsto> y) \<rparr>)"
    by (simp add: ledger_record_def ledger_apply_def ledger_bump_def Let_def)
  finally show ?thesis
    using assms(2,3) s(2) by (simp add: x) (simp add: ledger_finalize_def truthy_def record_fields Let_def)
qed

text \<open>
  C16: the live decision of a request and the fallback the client reports for it may arrive in
  either order (the report can overtake the decision's bookkeeping): both orders leave the same
  ledger, with the same counters, events and last outcome.
\<close>

theorem finalize_order_irrelevant:
  assumes "redis_zset_contract R ok sv zv" "ok w" "ledger_view (sv w) (zv w) p L" "ledger_ok L"
    and "l_outcomes L rid = None" "card (dom (l_outcomes L)) + 2 < 2 ^ 62"
    and "report_ok (t, d, r, ''live'', rid)" "report_ok (t', d', r', src, rid)"
    and "src \<in> {''timeout_fallback'', ''unavailable_fallback''}"
  shows "\<exists>w1 w2 L'.
     run_finalize R p [(t, d, r, ''live'', rid), (t', d', r', src, rid)] w = (Inr (), w1) \<and>
     run_finalize R p [(t', d', r', src, rid), (t, d, r, ''live'', rid)] w = (Inr (), w2) \<and>
     ledger_view (sv w1) (zv w1) p L' \<and> ledger_view (sv w2) (zv w2) p L'"
proof -
  let ?x = "(t, d, r, ''live'', rid)" and ?y = "(t', d', r', src, rid)"
  have same: "run_ledger [?x, ?y] L = run_ledger [?y, ?x] L"
    using ledger_swap [OF assms(4) _ assms(5), of "report_outcome ?x" "report_outcome ?y"] assms(7,9)
    by (auto simp: source_rank_def is_timeout_def)
  note run = redis_zset_contract.run_finalize_refines [OF assms(1-4)]
  have "\<forall>z \<in> set [?x, ?y]. report_ok z" "\<forall>z \<in> set [?y, ?x]. report_ok z" using assms(7,8) by simp_all
  from run [OF this(1)] run [OF this(2)] show ?thesis
    using assms(6) same by (simp only: list.size) (metis add_2_eq_Suc' add_Suc_right One_nat_def Suc_eq_plus1)
qed

text \<open>
  The witness' request is blocked live while its client, having timed out, ran it: in both orders
  one allow, no block and one timeout.
\<close>

theorem finalize_order_irrelevant_witness:
  "\<exists>w1 w2 L'.
     run_finalize mem_redis ''p:openai'' [(5, ''block'', ''tok_cap_breach'', ''live'', ''r1''),
        (6, ''allow'', ''decision_timeout'', ''timeout_fallback'', ''r1'')] fake_empty = (Inr (), w1) \<and>
     run_finalize mem_redis ''p:openai'' [(6, ''allow'', ''decision_timeout'', ''timeout_fallback'', ''r1''),
        (5, ''block'', ''tok_cap_breach'', ''live'', ''r1'')] fake_empty = (Inr (), w2) \<and>
     ledger_view (fake_sv w1) (fake_zv w1) ''p:openai'' L' \<and> ledger_view (fake_sv w2) (fake_zv w2) ''p:openai'' L'"
  by (rule finalize_order_irrelevant [OF mr.redis_zset_contract_axioms fake_empty_views(1)
        fake_empty_ledger ledger_ok_empty])
    (simp_all add: empty_ledger_def)

lemma keep_better_rank:
  "foldl keep_better (Some y) xs = Some z \<Longrightarrow>
     z \<in> insert y (set xs) \<and> (\<forall>x \<in> insert y (set xs). source_rank (o_source x) \<le> source_rank (o_source z))"
proof (induction xs arbitrary: y)
  case (Cons x xs)
  show ?case
  proof (cases "should_replace_outcome y x")
    case True
    then have "source_rank (o_source y) \<le> source_rank (o_source x)"
      by (auto simp: should_replace_outcome_def Let_def split: if_splits)
    then show ?thesis using Cons.IH [of x] Cons.prems True by fastforce
  next
    case False
    then have "source_rank (o_source x) \<le> source_rank (o_source y)"
      by (auto simp: should_replace_outcome_def Let_def split: if_splits)
    then show ?thesis using Cons.IH [of y] Cons.prems False by fastforce
  qed
qed simp

text \<open>
  The canonical outcome of a request is one of its reports, and no report of the request has a
  source of higher precedence (live below the two fallbacks, anything else below live).
\<close>

theorem canonical_precedence:
  assumes "x \<in> set reports" "report_id x = rid"
  shows "\<exists>z y. canonical reports rid = Some z \<and> y \<in> set reports \<and> report_id y = rid \<and> z = report_outcome y \<and>
     source_rank (o_source (report_outcome x)) \<le> source_rank (o_source z)"
proof -
  define ys where "ys = map report_outcome (filter (\<lambda>x. report_id x = rid) reports)"
  have x: "report_outcome x \<in> set ys" using assms by (auto simp: ys_def)
  then obtain y zs where ys: "ys = y # zs" by (cases ys) auto
  have some: "\<exists>z. foldl keep_better (Some y) zs = Some z" for y
  proof (induction zs arbitrary: y)
    case (Cons a zs)
    then show ?case by (cases "should_replace_outcome y a") simp_all
  qed simp
  then obtain z where z: "foldl keep_better (Some y) zs = Some z" by blast
  have "z \<in> set ys \<and> source_rank (o_source (report_outcome x)) \<le> source_rank (o_source z)"
    using keep_better_rank [OF z] x ys by auto
  moreover have "canonical reports rid = Some z"
    using z by (simp add: canonical_def ys_def [symmetric] ys)
  ultimately show ?thesis by (auto simp: ys_def)
qed

theorem canonical_precedence_witness:
  "\<exists>z y. canonical [(1, ''allow'', ''ok'', ''live'', ''r''), (2, ''block'', ''fail_closed'', ''unavailable_fallback'', ''r'')] ''r'' = Some z
     \<and> y \<in> {(1, ''allow'', ''ok'', ''live'', ''r''), (2, ''block'', ''fail_closed'', ''unavailable_fallback'', ''r'')}
     \<and> z = report_outcome y \<and> 2 \<le> source_rank (o_source z)"
  using canonical_precedence [of "(2, ''block'', ''fail_closed'', ''unavailable_fallback'', ''r'')"
      "[(1, ''allow'', ''ok'', ''live'', ''r''), (2, ''block'', ''fail_closed'', ''unavailable_fallback'', ''r'')]" "''r''"]
  by (auto simp: source_rank_def)

end
