(* ===== verification/Incident_Repository.thy ===== *)
theory Incident_Repository
  imports Domain Db_Table
begin

text \<open>
  Persistence of incidents (\<open>app/infrastructure/db/repositories/incident_repository_impl.py\<close>) behind
  the interface of \<open>app/application/interfaces/incident_repository.py\<close>. The contract of the
  interface, \<open>incident_store\<close>, speaks of the stored incidents only; the implementation on any
  database table that keeps its own contract is an instance of it.
\<close>

section \<open>The interface\<close>

record 'w incident_repo =
  ir_create_incident :: "incident \<Rightarrow> ('w, incident) py"
  ir_get_open_incident_by_type :: "string \<Rightarrow> string \<Rightarrow> string \<Rightarrow> ('w, incident option) py"
  ir_get_open_incident_by_fingerprint :: "string \<Rightarrow> string \<Rightarrow> string \<Rightarrow> datetime \<Rightarrow> ('w, incident option) py"
  ir_update_open_incident_activity :: "string \<Rightarrow> pydict \<Rightarrow> datetime \<Rightarrow> ('w, incident option) py"
  ir_list_by_project :: "string \<Rightarrow> string \<Rightarrow> string option \<Rightarrow> ('w, incident list) py"
  ir_list_open_by_project_provider :: "string \<Rightarrow> string \<Rightarrow> ('w, incident list) py"
  ir_get_by_id :: "string \<Rightarrow> ('w, incident option) py"
  ir_resolve_incident :: "string \<Rightarrow> ('w, incident option) py"
  ir_resolve_open_incidents_by_type ::
    "string \<Rightarrow> string \<Rightarrow> string \<Rightarrow> datetime \<Rightarrow> datetime option \<Rightarrow> ('w, incident list) py"
  ir_auto_resolve_stale_open_incidents ::
    "datetime \<Rightarrow> datetime \<Rightarrow> ('w, incident list \<times> (string \<times> string) set) py"

section \<open>The implementation\<close>

definition to_domain :: "incident \<Rightarrow> incident" where
  "to_domain r = r\<lparr> in_provider := or_str (in_provider r) ''unknown'' \<rparr>"

definition create_incident :: "('w, incident) db_table \<Rightarrow> incident \<Rightarrow> ('w, incident) py" where
  "create_incident T incident = logged (bnd (db_add T incident) (\<lambda>_. ret incident))"

definition is_open :: "incident \<Rightarrow> bool" where
  "is_open r \<longleftrightarrow> in_status r = ''open''"

definition get_open_incident_by_type ::
  "('w, incident) db_table \<Rightarrow> string \<Rightarrow> string \<Rightarrow> string \<Rightarrow> ('w, incident option) py" where
  "get_open_incident_by_type T project_id provider incident_type =
     logged (bnd (db_select T (\<lambda>r. in_project_id r = project_id \<and> in_provider r = provider \<and>
         in_type r = incident_type \<and> is_open r)) (\<lambda>records.
     ret (map_option to_domain (first_row (order_desc in_created_at records)))))"

text \<open>Seen at or after \<open>t\<close>; a row without \<open>last_seen_at\<close> was seen when it was created.\<close>

definition seen_at :: "incident \<Rightarrow> datetime" where
  "seen_at r = (case in_last_seen_at r of None \<Rightarrow> in_created_at r | Some t \<Rightarrow> t)"

definition get_open_incident_by_fingerprint ::
  "('w, incident) db_table \<Rightarrow> string \<Rightarrow> string \<Rightarrow> string \<Rightarrow> datetime \<Rightarrow> ('w, incident option) py" where
  "get_open_incident_by_fingerprint T project_id provider fingerprint active_after =
     logged (bnd (db_select T (\<lambda>r. in_project_id r = project_id \<and> in_provider r = provider \<and>
         is_open r \<and> in_fingerprint r = Some fingerprint \<and>
         ((case in_last_seen_at r of None \<Rightarrow> False | Some t \<Rightarrow> t \<ge> active_after) \<or>
          (in_last_seen_at r = None \<and> in_created_at r \<ge> active_after)))) (\<lambda>records.
     ret (map_option to_domain (first_row (order_desc in_created_at records)))))"

definition update_open_incident_activity ::
  "('w, incident) db_table \<Rightarrow> string \<Rightarrow> pydict \<Rightarrow> datetime \<Rightarrow> ('w, incident option) py" where
  "update_open_incident_activity T incident_id evidence last_seen_at =
     logged (bnd (db_select T (\<lambda>r. in_id r = incident_id \<and> is_open r)) (\<lambda>records.
     case first_row records of
       None \<Rightarrow> ret None
     | Some record \<Rightarrow>
         let record' = record\<lparr> in_evidence := evidence, in_last_seen_at := Some last_seen_at \<rparr>
         in bnd (db_save T [record']) (\<lambda>_. ret (Some (to_domain record')))))"

definition list_by_project ::
  "('w, incident) db_table \<Rightarrow> string \<Rightarrow> string \<Rightarrow> string option \<Rightarrow> ('w, incident list) py" where
  "list_by_project T project_id status provider =
     logged (bnd (db_select T (\<lambda>r. in_project_id r = project_id \<and>
         (if status \<noteq> [] \<and> status \<noteq> ''all''
          then (if status = ''resolved'' then in_status r \<in> {''resolved'', ''auto_resolved''}
                else in_status r = status)
          else True) \<and>
         (truthy provider \<longrightarrow> Some (in_provider r) = provider))) (\<lambda>records.
     ret (map to_domain (order_desc in_created_at records))))"

definition list_open_by_project_provider ::
  "('w, incident) db_table \<Rightarrow> string \<Rightarrow> string \<Rightarrow> ('w, incident list) py" where
  "list_open_by_project_provider T project_id provider =
     logged (bnd (db_select T (\<lambda>r. in_project_id r = project_id \<and> in_provider r = provider \<and> is_open r))
       (\<lambda>records. ret (map to_domain (order_desc in_created_at records))))"

definition get_incident_by_id :: "('w, incident) db_table \<Rightarrow> string \<Rightarrow> ('w, incident option) py" where
  "get_incident_by_id T incident_id =
     logged (bnd (db_select T (\<lambda>r. in_id r = incident_id)) (\<lambda>records.
     ret (map_option to_domain (first_row records))))"

text \<open>\<open>clock\<close> is \<open>datetime.now(timezone.utc)\<close>.\<close>

definition resolve_incident ::
  "('w, incident) db_table \<Rightarrow> ('w, datetime) py \<Rightarrow> string \<Rightarrow> ('w, incident option) py" where
  "resolve_incident T clock incident_id =
     logged (bnd (db_select T (\<lambda>r. in_id r = incident_id)) (\<lambda>records.
     case first_row records of
       None \<Rightarrow> ret None
     | Some record \<Rightarrow> bnd clock (\<lambda>now.
         let record' = record\<lparr> in_status := ''resolved'', in_resolved_at := Some now \<rparr>
         in bnd (db_save T [record']) (\<lambda>_. ret (Some (to_domain record'))))))"

definition resolve_open_incidents_by_type ::
  "('w, incident) db_table \<Rightarrow> string \<Rightarrow> string \<Rightarrow> string \<Rightarrow> datetime \<Rightarrow> datetime option \<Rightarrow>
   ('w, incident list) py" where
  "resolve_open_incidents_by_type T project_id provider incident_type resolved_at created_after =
     logged (bnd (db_select T (\<lambda>r. in_project_id r = project_id \<and> in_provider r = provider \<and>
         in_type r = incident_type \<and> is_open r \<and>
         (case created_after of None \<Rightarrow> True | Some t \<Rightarrow> in_created_at r \<ge> t))) (\<lambda>records.
     if records = [] then ret []
     else (let resolved = map (\<lambda>r. r\<lparr> in_status := ''resolved'', in_resolved_at := Some resolved_at \<rparr>) records
           in bnd (db_save T resolved) (\<lambda>_. ret (map to_domain resolved)))))"

definition auto_resolve_stale_open_incidents ::
  "('w, incident) db_table \<Rightarrow> datetime \<Rightarrow> datetime \<Rightarrow> ('w, incident list \<times> (string \<times> string) set) py" where
  "auto_resolve_stale_open_incidents T cutoff resolved_at =
     logged (bnd (db_select T (\<lambda>r. is_open r \<and>
         ((case in_last_seen_at r of None \<Rightarrow> False | Some t \<Rightarrow> t < cutoff) \<or>
          (in_last_seen_at r = None \<and> in_created_at r < cutoff)))) (\<lambda>records.
     if records = [] then ret ([], {})
     else (let pairs = set (map (\<lambda>r. (in_project_id r, in_provider r)) records);
               resolved = map (\<lambda>r. r\<lparr> in_status := ''auto_resolved'', in_resolved_at := Some resolved_at \<rparr>) records
           in bnd (db_save T resolved) (\<lambda>_. ret (map to_domain resolved, pairs)))))"

definition IncidentRepositoryImpl ::
  "('w, incident) db_table \<Rightarrow> ('w, datetime) py \<Rightarrow> 'w incident_repo" where
  "IncidentRepositoryImpl T clock = \<lparr>
     ir_create_incident = create_incident T,
     ir_get_open_incident_by_type = get_open_incident_by_type T,
     ir_get_open_incident_by_fingerprint = get_open_incident_by_fingerprint T,
     ir_update_open_incident_activity = update_open_incident_activity T,
     ir_list_by_project = list_by_project T,
     ir_list_open_by_project_provider = list_open_by_project_provider T,
     ir_get_by_id = get_incident_by_id T,
     ir_resolve_incident = resolve_incident T clock,
     ir_resolve_open_incidents_by_type = resolve_open_incidents_by_type T,
     ir_auto_resolve_stale_open_incidents = auto_resolve_stale_open_incidents T \<rparr>"

section \<open>The contract\<close>

text \<open>
  \<open>rows w\<close> are the stored incidents. Resolving and updating change exactly the rows they name;
  the fingerprint lookup finds an active open incident if and only if there is one.
\<close>

definition active_match :: "string \<Rightarrow> string \<Rightarrow> string \<Rightarrow> datetime \<Rightarrow> incident \<Rightarrow> bool" where
  "active_match p v f t r \<longleftrightarrow> in_project_id r = p \<and> in_provider r = v \<and> is_open r \<and>
     in_fingerprint r = Some f \<and> t \<le> seen_at r"

definition map_rows :: "(incident \<Rightarrow> bool) \<Rightarrow> (incident \<Rightarrow> incident) \<Rightarrow> incident list \<Rightarrow> incident list" where
  "map_rows P g rs = map (\<lambda>r. if P r then g r else r) rs"

text \<open>A stored incident: a provider, and resolved exactly when it is not open.\<close>

definition row_ok :: "incident \<Rightarrow> bool" where
  "row_ok r \<longleftrightarrow> in_provider r \<noteq> [] \<and>
     (in_status r = ''open'' \<and> in_resolved_at r = None \<or>
      in_status r \<in> {''resolved'', ''auto_resolved''} \<and> in_resolved_at r \<noteq> None)"

locale incident_store =
  fixes I :: "'w incident_repo" and ok :: "'w \<Rightarrow> bool" and rows :: "'w \<Rightarrow> incident list"
  assumes create: "ok w \<Longrightarrow> in_id r \<notin> in_id ` set (rows w) \<Longrightarrow> row_ok r \<Longrightarrow>
      \<exists>w'. ir_create_incident I r w = (Inr r, w') \<and> ok w' \<and> rows w' = rows w @ [r]"
    and by_fingerprint: "ok w \<Longrightarrow>
      \<exists>x. ir_get_open_incident_by_fingerprint I p v f t w = (Inr x, w) \<and>
        (case x of None \<Rightarrow> \<forall>r \<in> set (rows w). \<not> active_match p v f t r
         | Some r \<Rightarrow> r \<in> set (rows w) \<and> active_match p v f t r)"
    and update: "ok w \<Longrightarrow> r \<in> set (rows w) \<Longrightarrow> is_open r \<Longrightarrow>
      \<exists>x w'. ir_update_open_incident_activity I (in_id r) e t w = (Inr x, w') \<and> ok w' \<and>
        rows w' = map_rows (\<lambda>x. in_id x = in_id r) (\<lambda>x. x\<lparr> in_evidence := e, in_last_seen_at := Some t \<rparr>) (rows w)"
    and list_open: "ok w \<Longrightarrow>
      \<exists>xs. ir_list_open_by_project_provider I p v w = (Inr xs, w) \<and>
        set xs = {r \<in> set (rows w). in_project_id r = p \<and> in_provider r = v \<and> is_open r}"
    and resolve: "ok w \<Longrightarrow> r \<in> set (rows w) \<Longrightarrow>
      \<exists>x now w'. ir_resolve_incident I (in_id r) w = (Inr (Some x), w') \<and> ok w' \<and>
        rows w' = map_rows (\<lambda>x. in_id x = in_id r)
          (\<lambda>x. x\<lparr> in_status := ''resolved'', in_resolved_at := Some now \<rparr>) (rows w) \<and>
        x = r\<lparr> in_status := ''resolved'', in_resolved_at := Some now \<rparr>"
    and resolve_unknown: "ok w \<Longrightarrow> i \<notin> in_id ` set (rows w) \<Longrightarrow> ir_resolve_incident I i w = (Inr None, w)"
    and by_id: "ok w \<Longrightarrow> ir_get_by_id I i w = (Inr (find (\<lambda>r. in_id r = i) (rows w)), w)"
    and auto_resolve: "ok w \<Longrightarrow>
      \<exists>xs ps w'. ir_auto_resolve_stale_open_incidents I c t w = (Inr (xs, ps), w') \<and> ok w' \<and>
        rows w' = map_rows (\<lambda>r. is_open r \<and> seen_at r < c)
          (\<lambda>r. r\<lparr> in_status := ''auto_resolved'', in_resolved_at := Some t \<rparr>) (rows w) \<and>
        ps = (\<lambda>r. (in_project_id r, in_provider r)) ` {r \<in> set (rows w). is_open r \<and> seen_at r < c} \<and>
        xs = map (\<lambda>r. r\<lparr> in_status := ''auto_resolved'', in_resolved_at := Some t \<rparr>)
          (filter (\<lambda>r. is_open r \<and> seen_at r < c) (rows w))"
    and rows_ok: "ok w \<Longrightarrow> distinct (map in_id (rows w)) \<and> (\<forall>r \<in> set (rows w). row_ok r)"

section \<open>The implementation keeps the contract\<close>

lemma to_domain_id [simp]: "row_ok r \<Longrightarrow> to_domain r = r"
  by (simp add: to_domain_def row_ok_def or_str_def)

lemma seen_filter:
  "((case in_last_seen_at r of None \<Rightarrow> False | Some s \<Rightarrow> t \<le> s) \<or>
    (in_last_seen_at r = None \<and> t \<le> in_created_at r)) \<longleftrightarrow> t \<le> seen_at r"
  "((case in_last_seen_at r of None \<Rightarrow> False | Some s \<Rightarrow> s < t) \<or>
    (in_last_seen_at r = None \<and> in_created_at r < t)) \<longleftrightarrow> seen_at r < t"
  by (simp_all add: seen_at_def split: option.splits)

lemma map_rows_id:
  "map_rows (\<lambda>x. in_id x = in_id r) g rs = map (\<lambda>x. if in_id x = in_id r then g x else x) rs"
  by (simp add: map_rows_def)

lemma map_rows_keys:
  "(\<And>x. in_id (g x) = in_id x) \<Longrightarrow> map in_id (map_rows P g rs) = map in_id rs"
  by (simp add: map_rows_def)

lemma map_rows_ok:
  "\<forall>r \<in> set rs. row_ok r \<Longrightarrow> (\<And>r. r \<in> set rs \<Longrightarrow> P r \<Longrightarrow> row_ok r \<Longrightarrow> row_ok (g r)) \<Longrightarrow>
     \<forall>r \<in> set (map_rows P g rs). row_ok r"
  by (auto simp: map_rows_def)

locale incident_db = db_contract T ok rows in_id "\<lambda>r x. in_id r = in_id x"
  for T :: "('w, incident) db_table" and ok rows +
  fixes clock :: "('w, datetime) py"
  assumes clock: "\<exists>t. clock w = (Inr t, w)"
begin

definition all_ok :: "'w \<Rightarrow> bool" where
  "all_ok w \<longleftrightarrow> ok w \<and> (\<forall>r \<in> set (rows w). row_ok r)"

lemma save_one:
  assumes "ok w" "r \<in> set (rows w)" "in_id r' = in_id r"
  shows "\<exists>w'. db_save T [r'] w = (Inr (), w') \<and> ok w' \<and>
     rows w' = map_rows (\<lambda>x. in_id x = in_id r) (\<lambda>_. r') (rows w)"
  using save [OF assms(1), of "[r']"] assms(3) by (auto simp: replace_one map_rows_def)

lemma same_row:
  assumes "ok w" "r \<in> set (rows w)"
  shows "map_rows (\<lambda>x. in_id x = in_id r) (\<lambda>_. g r) (rows w) = map_rows (\<lambda>x. in_id x = in_id r) g (rows w)"
  using distinct_keys [OF assms(1)] assms(2)
  by (auto simp: map_rows_def distinct_map inj_on_def)

lemma save_selected:
  assumes "ok w" "\<And>x. in_id (g x) = in_id x"
  shows "\<exists>w'. db_save T (map g (filter P (rows w))) w = (Inr (), w') \<and> ok w' \<and>
     rows w' = map_rows P g (rows w)"
  using save [OF assms(1), of "map g (filter P (rows w))"]
    replace_selected [of in_id g "rows w" P, OF assms(2) distinct_keys [OF assms(1)]]
  by (simp add: map_rows_def)

lemma select_id:
  assumes "ok w" "r \<in> set (rows w)"
  shows "filter (\<lambda>x. in_id x = in_id r) (rows w) = [r]"
    "is_open r \<Longrightarrow> filter (\<lambda>x. in_id x = in_id r \<and> is_open x) (rows w) = [r]"
  using filter_key [OF distinct_keys [OF assms(1)] assms(2), of "\<lambda>_. True"]
    filter_key [OF distinct_keys [OF assms(1)] assms(2), of is_open] by simp_all

lemma impl_create:
  assumes "all_ok w" "in_id r \<notin> in_id ` set (rows w)" "row_ok r"
  shows "\<exists>w'. create_incident T r w = (Inr r, w') \<and> all_ok w' \<and> rows w' = rows w @ [r]"
proof -
  have "ok w" "\<forall>x \<in> set (rows w). in_id r \<noteq> in_id x" using assms(1,2) by (auto simp: all_ok_def)
  from add_new [OF this] show ?thesis using assms by (auto simp: create_incident_def all_ok_def bnd_def)
qed

lemma impl_by_fingerprint:
  assumes "all_ok w"
  shows "\<exists>x. get_open_incident_by_fingerprint T p v f t w = (Inr x, w) \<and>
    (case x of None \<Rightarrow> \<forall>r \<in> set (rows w). \<not> active_match p v f t r
     | Some r \<Rightarrow> r \<in> set (rows w) \<and> active_match p v f t r)"
proof -
  let ?rs = "filter (active_match p v f t) (rows w)"
  let ?x = "first_row (order_desc in_created_at ?rs)"
  have sel: "(\<lambda>r. in_project_id r = p \<and> in_provider r = v \<and> is_open r \<and> in_fingerprint r = Some f \<and>
      ((case in_last_seen_at r of None \<Rightarrow> False | Some s \<Rightarrow> s \<ge> t) \<or>
       (in_last_seen_at r = None \<and> in_created_at r \<ge> t))) = active_match p v f t"
    unfolding seen_filter active_match_def ..
  have run: "get_open_incident_by_fingerprint T p v f t w = (Inr (map_option to_domain ?x), w)"
    using assms unfolding get_open_incident_by_fingerprint_def sel
    by (simp add: all_ok_def select bnd_def)
  show ?thesis
  proof (cases ?x)
    case None
    then show ?thesis using run by (auto simp: filter_empty_conv)
  next
    case (Some r)
    then have "r \<in> set ?rs" by (metis first_row_Some set_order_desc)
    then show ?thesis using run Some assms by (auto simp: all_ok_def)
  qed
qed

lemma impl_update:
  assumes "all_ok w" "r \<in> set (rows w)" "is_open r"
  shows "\<exists>x w'. update_open_incident_activity T (in_id r) e t w = (Inr x, w') \<and> all_ok w' \<and>
    rows w' = map_rows (\<lambda>x. in_id x = in_id r) (\<lambda>x. x\<lparr> in_evidence := e, in_last_seen_at := Some t \<rparr>) (rows w)"
proof -
  let ?g = "\<lambda>x. x\<lparr> in_evidence := e, in_last_seen_at := Some t \<rparr>"
  have ok: "ok w" using assms(1) by (simp add: all_ok_def)
  have "in_id (?g r) = in_id r" by simp
  from save_one [OF ok assms(2) this] obtain w1 where w1:
    "db_save T [?g r] w = (Inr (), w1)" "ok w1" "rows w1 = map_rows (\<lambda>x. in_id x = in_id r) ?g (rows w)"
    using same_row [OF ok assms(2), of ?g] by auto
  moreover have "\<forall>r \<in> set (rows w1). row_ok r"
    unfolding w1(3) using assms(1) by (intro map_rows_ok) (auto simp: all_ok_def row_ok_def)
  ultimately show ?thesis
    using select_id(2) [OF ok assms(2,3)]
    by (simp add: update_open_incident_activity_def bnd_def select [OF ok] first_row_def all_ok_def Let_def)
qed

lemma impl_list_open:
  assumes "all_ok w"
  shows "\<exists>xs. list_open_by_project_provider T p v w = (Inr xs, w) \<and>
    set xs = {r \<in> set (rows w). in_project_id r = p \<and> in_provider r = v \<and> is_open r}"
proof -
  have "to_domain ` {r \<in> set (rows w). in_project_id r = p \<and> in_provider r = v \<and> is_open r}
      = {r \<in> set (rows w). in_project_id r = p \<and> in_provider r = v \<and> is_open r}"
    using assms by (force simp: all_ok_def)
  then show ?thesis using assms
    by (simp add: list_open_by_project_provider_def bnd_def select all_ok_def)
qed

lemma impl_resolve:
  assumes "all_ok w" "r \<in> set (rows w)"
  shows "\<exists>x now w'. resolve_incident T clock (in_id r) w = (Inr (Some x), w') \<and> all_ok w' \<and>
    rows w' = map_rows (\<lambda>x. in_id x = in_id r)
      (\<lambda>x. x\<lparr> in_status := ''resolved'', in_resolved_at := Some now \<rparr>) (rows w) \<and>
    x = r\<lparr> in_status := ''resolved'', in_resolved_at := Some now \<rparr>"
proof -
  have ok: "ok w" using assms(1) by (simp add: all_ok_def)
  have td: "to_domain (r\<lparr> in_status := s, in_resolved_at := t \<rparr>) = r\<lparr> in_status := s, in_resolved_at := t \<rparr>" for s t
    using assms by (simp add: all_ok_def row_ok_def to_domain_def or_str_def)
  obtain now where now: "clock w = (Inr now, w)" using clock by blast
  let ?g = "\<lambda>x. x\<lparr> in_status := ''resolved'', in_resolved_at := Some now \<rparr>"
  have "in_id (?g r) = in_id r" by simp
  from save_one [OF ok assms(2) this] obtain w1 where w1:
    "db_save T [?g r] w = (Inr (), w1)" "ok w1" "rows w1 = map_rows (\<lambda>x. in_id x = in_id r) ?g (rows w)"
    using same_row [OF ok assms(2), of ?g] by auto
  moreover have "\<forall>r \<in> set (rows w1). row_ok r"
    unfolding w1(3) using assms(1) by (intro map_rows_ok) (auto simp: all_ok_def row_ok_def)
  ultimately show ?thesis
    using select_id(1) [OF ok assms(2)] now
    by (auto simp: resolve_incident_def bnd_def select [OF ok] first_row_def all_ok_def Let_def td)
qed

lemma impl_resolve_unknown:
  assumes "all_ok w" "i \<notin> in_id ` set (rows w)"
  shows "resolve_incident T clock i w = (Inr None, w)"
proof -
  have "filter (\<lambda>r. in_id r = i) (rows w) = []" using assms(2) by (auto simp: filter_empty_conv)
  then show ?thesis using assms(1) by (simp add: resolve_incident_def bnd_def select all_ok_def)
qed

lemma impl_by_id:
  assumes "all_ok w"
  shows "get_incident_by_id T i w = (Inr (find (\<lambda>r. in_id r = i) (rows w)), w)"
proof -
  have f: "first_row (filter (\<lambda>r. in_id r = i) xs) = find (\<lambda>r. in_id r = i) xs" for xs
    by (induction xs) (simp_all add: first_row_def)
  have m: "map_option to_domain (find (\<lambda>r. in_id r = i) (rows w)) = find (\<lambda>r. in_id r = i) (rows w)"
  proof (cases "find (\<lambda>r. in_id r = i) (rows w)")
    case (Some r)
    then have "r \<in> set (rows w)" by (auto simp: find_Some_iff)
    then show ?thesis using Some assms by (simp add: all_ok_def)
  qed simp
  show ?thesis using assms by (simp add: get_incident_by_id_def bnd_def select all_ok_def f m)
qed

lemma impl_auto_resolve:
  assumes "all_ok w"
  shows "\<exists>xs ps w'. auto_resolve_stale_open_incidents T c t w = (Inr (xs, ps), w') \<and> all_ok w' \<and>
    rows w' = map_rows (\<lambda>r. is_open r \<and> seen_at r < c)
      (\<lambda>r. r\<lparr> in_status := ''auto_resolved'', in_resolved_at := Some t \<rparr>) (rows w) \<and>
    ps = (\<lambda>r. (in_project_id r, in_provider r)) ` {r \<in> set (rows w). is_open r \<and> seen_at r < c} \<and>
    xs = map (\<lambda>r. r\<lparr> in_status := ''auto_resolved'', in_resolved_at := Some t \<rparr>)
      (filter (\<lambda>r. is_open r \<and> seen_at r < c) (rows w))"
proof -
  let ?P = "\<lambda>r. is_open r \<and> seen_at r < c"
  let ?g = "\<lambda>r. r\<lparr> in_status := ''auto_resolved'', in_resolved_at := Some t \<rparr>"
  have ok: "ok w" using assms by (simp add: all_ok_def)
  from save_selected [OF ok, of ?g ?P] obtain w1 where w1:
    "db_save T (map ?g (filter ?P (rows w))) w = (Inr (), w1)" "ok w1" "rows w1 = map_rows ?P ?g (rows w)" by auto
  have rok: "\<forall>r \<in> set (rows w1). row_ok r"
    unfolding w1(3) using assms by (intro map_rows_ok) (auto simp: all_ok_def row_ok_def)
  have td: "map (\<lambda>x. to_domain (?g x)) (filter ?P (rows w)) = map ?g (filter ?P (rows w))"
    using assms by (auto simp: all_ok_def row_ok_def to_domain_def or_str_def)
  show ?thesis
  proof (cases "filter ?P (rows w) = []")
    case True
    then have "map_rows ?P ?g (rows w) = rows w"
      by (auto simp: map_rows_def filter_empty_conv intro!: map_idI)
    then show ?thesis using True assms
      by (auto simp: auto_resolve_stale_open_incidents_def bnd_def select [OF ok] seen_filter filter_empty_conv)
  next
    case False
    then show ?thesis using w1 rok
      by (auto simp: auto_resolve_stale_open_incidents_def bnd_def select [OF ok] seen_filter all_ok_def Let_def td comp_def)
  qed
qed

end

lemma impl_methods [simp]:
  "ir_create_incident (IncidentRepositoryImpl T clock) = create_incident T"
  "ir_get_open_incident_by_fingerprint (IncidentRepositoryImpl T clock) = get_open_incident_by_fingerprint T"
  "ir_update_open_incident_activity (IncidentRepositoryImpl T clock) = update_open_incident_activity T"
  "ir_list_open_by_project_provider (IncidentRepositoryImpl T clock) = list_open_by_project_provider T"
  "ir_resolve_incident (IncidentRepositoryImpl T clock) = resolve_incident T clock"
  "ir_get_by_id (IncidentRepositoryImpl T clock) = get_incident_by_id T"
  "ir_auto_resolve_stale_open_incidents (IncidentRepositoryImpl T clock) = auto_resolve_stale_open_incidents T"
  by (simp_all add: IncidentRepositoryImpl_def)

sublocale incident_db \<subseteq> store: incident_store "IncidentRepositoryImpl T clock" all_ok rows
proof (unfold_locales, unfold impl_methods, goal_cases)
  case 1 then show ?case by (rule impl_create)
next
  case 2 then show ?case by (rule impl_by_fingerprint)
next
  case 3 then show ?case by (rule impl_update)
next
  case 4 then show ?case by (rule impl_list_open)
next
  case 5 then show ?case by (rule impl_resolve)
next
  case 6 then show ?case by (rule impl_resolve_unknown)
next
  case 7 then show ?case by (simp add: impl_by_id)
next
  case 8 then show ?case by (rule impl_auto_resolve)
next
  case 9 then show ?case using distinct_keys by (simp add: all_ok_def)
qed

text \<open>An in-memory incident table with a fixed clock.\<close>

definition mem_incidents :: "(incident list, incident) db_table" where
  "mem_incidents = list_table (\<lambda>xs. xs) (\<lambda>xs _. xs) in_id (\<lambda>r x. in_id r = in_id x)"

interpretation mi: incident_db mem_incidents "\<lambda>xs. distinct (map in_id xs)" "\<lambda>xs. xs" "ret t"
  for t :: datetime
proof (intro incident_db.intro incident_db_axioms.intro)
  show "db_contract mem_incidents (\<lambda>xs. distinct (map in_id xs)) (\<lambda>xs. xs) in_id (\<lambda>r x. in_id r = in_id x)"
    unfolding mem_incidents_def by (rule list_table_contract) simp_all
qed simp

lemma mem_store_ok:
  "incident_store (IncidentRepositoryImpl mem_incidents (ret t))
     (\<lambda>xs. distinct (map in_id xs) \<and> (\<forall>r \<in> set xs. row_ok r)) (\<lambda>xs. xs)"
  using mi.store.incident_store_axioms unfolding mi.all_ok_def .

end
