(* ===== verification/Incident_Manager.thy ===== *)
theory Incident_Manager
  imports Incident_Repository Transport_Service
begin

text \<open>
  The incident manager (\<open>app/application/services/incident_manager.py\<close>): detector signals and protect
  blocks become incidents, one open incident per fingerprint and episode, whose count grows with
  every repetition; a block superseded by a client-side fallback is resolved again.
\<close>

section \<open>State and values\<close>

text \<open>\<open>im_new_id\<close> is \<open>str(uuid4())\<close> and \<open>im_clock\<close> is \<open>datetime.now(timezone.utc)\<close>.\<close>

record 'w incident_manager =
  im_repository :: "'w incident_repo"
  im_dedup_window_seconds :: int
  im_dispatcher :: "'w transport_service option"
  im_transport :: "'w transport_service option"
  im_new_id :: "('w, string) py"
  im_clock :: "('w, datetime) py"

definition signal_episode_window_seconds :: "signal \<Rightarrow> int \<Rightarrow> int" where
  "signal_episode_window_seconds sg fallback_seconds =
     (case sg_episode_window_seconds sg of
        Some v \<Rightarrow> if v > 0 then v else max fallback_seconds 1
      | None \<Rightarrow> max fallback_seconds 1)"

definition int_value :: "pyval \<Rightarrow> int" where
  "int_value v = (case py_int v of None \<Rightarrow> 0 | Some i \<Rightarrow> i)"

definition string_or_none :: "pyval \<Rightarrow> string option" where
  "string_or_none v = (case as_str v of
     None \<Rightarrow> None | Some s \<Rightarrow> if strip s = [] then None else Some (strip s))"

definition build_webhook_evidence :: "pydict \<Rightarrow> pydict" where
  "build_webhook_evidence evidence =
     foldl (\<lambda>d k. dpop k d) evidence
       [''provider'', ''requested_model'', ''resolved_model'', ''environment'', ''last_seen_at'', ''reason'']"

text \<open>The evidence of a repetition: \<open>{**old, **new, "count": old count + 1}\<close>.\<close>

definition next_count :: "incident \<Rightarrow> int" where
  "next_count r = int_value (dget (in_evidence r) ''count'') + 1"

definition merge_evidence :: "incident \<Rightarrow> pydict \<Rightarrow> pydict" where
  "merge_evidence r evidence =
     dset ''count'' (PInt (next_count r)) (dmerge (in_evidence r) evidence)"

section \<open>Notifications\<close>

definition enqueue_detection_notifications :: "'w incident_manager \<Rightarrow> incident \<Rightarrow> string \<Rightarrow> ('w, unit) py" where
  "enqueue_detection_notifications M incident mode =
     (if in_type incident = c_incident_type_block app_config then ret ()
      else bnd (im_clock M) (\<lambda>now.
        let ev = in_evidence incident;
            payload = [
              (''event'', PStr ''incident.warn''), (''project_id'', PStr (in_project_id incident)),
              (''incident_id'', PStr (in_id incident)), (''incident_type'', PStr (in_type incident)),
              (''provider'', PStr (in_provider incident)),
              (''requested_model'', opt_str (string_or_none (dget ev ''requested_model''))),
              (''resolved_model'', opt_str (string_or_none (dget ev ''resolved_model''))),
              (''environment'', opt_str (string_or_none (dget ev ''environment''))),
              (''created_at'', PStr (isoformat (in_created_at incident))),
              (''last_seen_at'', opt_str (map_option isoformat (in_last_seen_at incident))),
              (''mode'', PStr mode), (''sent_at'', PStr (isoformat now)),
              (''evidence'', PDict (build_webhook_evidence ev))]
        in bnd (case im_dispatcher M of
             None \<Rightarrow> ret ()
           | Some D \<Rightarrow> try_except (dispatcher_enqueue D (in_project_id incident) payload ''incident.warn'' None False)
               (\<lambda>_. ret ())) (\<lambda>_.
           case im_transport M of
             None \<Rightarrow> ret ()
           | Some T \<Rightarrow> try_except
               (let dedupe_key = build_transport_dedupe_key (ts_sha256 T) (ts_float_repr T)
                      (in_project_id incident) ''email'' ''incident.warn'' payload None (Some (in_id incident))
                in bnd (transport_enqueue T (in_project_id incident) ''email'' ''incident.warn'' payload dedupe_key
                     (no_opts\<lparr> eo_template := Some ''incident_warn'', eo_provider := Some (in_provider incident),
                        eo_environment := string_or_none (dget ev ''environment'') \<rparr>)) (\<lambda>_. ret ()))
               (\<lambda>_. ret ()))))"

section \<open>Opening and updating\<close>

text \<open>Create the incident of an episode and announce it.\<close>

definition open_incident ::
  "'w incident_manager \<Rightarrow> string \<Rightarrow> string \<Rightarrow> string \<Rightarrow> string \<Rightarrow> pydict \<Rightarrow> datetime \<Rightarrow> string \<Rightarrow>
   ('w, unit) py" where
  "open_incident M project_id provider incident_type fingerprint evidence now mode =
     bnd (im_new_id M) (\<lambda>i.
     let incident = \<lparr> in_id = i, in_project_id = project_id, in_provider = provider,
           in_type = incident_type, in_status = ''open'', in_created_at = now, in_resolved_at = None,
           in_evidence = dset ''count'' (PInt 1) evidence, in_fingerprint = Some fingerprint,
           in_last_seen_at = Some now \<rparr>
     in bnd (ir_create_incident (im_repository M) incident) (\<lambda>_.
        enqueue_detection_notifications M incident mode))"

text \<open>Update the open incident of a fingerprint if its episode is active, else open one.\<close>

definition upsert_episode ::
  "'w incident_manager \<Rightarrow> string \<Rightarrow> string \<Rightarrow> string \<Rightarrow> string \<Rightarrow> pydict \<Rightarrow> datetime \<Rightarrow> datetime \<Rightarrow>
   string \<Rightarrow> ('w, unit) py" where
  "upsert_episode M project_id provider incident_type fingerprint evidence now dedup_after mode =
     bnd (ir_get_open_incident_by_fingerprint (im_repository M) project_id provider fingerprint dedup_after)
       (\<lambda>found. case found of
          Some r \<Rightarrow> bnd (ir_update_open_incident_activity (im_repository M) (in_id r)
              (merge_evidence r evidence) now) (\<lambda>_. ret ())
        | None \<Rightarrow> open_incident M project_id provider incident_type fingerprint evidence now mode)"

definition process_signal ::
  "'w incident_manager \<Rightarrow> string \<Rightarrow> string \<Rightarrow> string option \<Rightarrow> string option \<Rightarrow> string option \<Rightarrow>
   datetime \<Rightarrow> signal \<Rightarrow> string \<Rightarrow> ('w, unit) py" where
  "process_signal M project_id provider requested_model resolved_model environment now sg mode =
     (let evidence = dmerge (sg_evidence sg) [(''provider'', PStr provider),
            (''requested_model'', opt_str requested_model), (''resolved_model'', opt_str resolved_model),
            (''environment'', opt_str environment), (''last_seen_at'', PStr (isoformat now))];
          dedup_after = now - seconds (signal_episode_window_seconds sg (im_dedup_window_seconds M))
      in upsert_episode M project_id provider (sg_detector sg) (sg_fingerprint sg) evidence now dedup_after mode)"

definition process_signals ::
  "'w incident_manager \<Rightarrow> string \<Rightarrow> string \<Rightarrow> string option \<Rightarrow> string option \<Rightarrow> string option \<Rightarrow>
   datetime \<Rightarrow> signal list \<Rightarrow> string \<Rightarrow> ('w, unit) py" where
  "process_signals M project_id provider requested_model resolved_model environment now signals mode =
     seq_all (map (\<lambda>sg. process_signal M project_id provider requested_model resolved_model environment
       now sg mode) signals)"

section \<open>Protect blocks\<close>

record block_report =
  br_requested_model :: "string option"
  br_resolved_model :: "string option"
  br_environment :: "string option"
  br_now :: datetime
  br_reason :: string
  br_requests_60s :: "int option"
  br_tokens_60s :: "int option"
  br_req_cap :: "int option"
  br_tok_cap :: "int option"
  br_blocked_until :: "string option"
  br_retry_after_seconds :: "int option"
  br_request_id :: "string option"
  br_source :: "string option"

definition block_evidence :: "string \<Rightarrow> block_report \<Rightarrow> pydict" where
  "block_evidence provider b = [
     (''provider'', PStr provider), (''requested_model'', opt_str (br_requested_model b)),
     (''resolved_model'', opt_str (br_resolved_model b)), (''environment'', opt_str (br_environment b)),
     (''requests_60s'', opt_int (br_requests_60s b)), (''tokens_60s'', opt_int (br_tokens_60s b)),
     (''req_cap'', opt_int (br_req_cap b)), (''tok_cap'', opt_int (br_tok_cap b)),
     (''reason'', PStr (br_reason b)), (''blocked_until'', opt_str (br_blocked_until b)),
     (''retry_after_seconds'', opt_int (br_retry_after_seconds b)),
     (''request_id'', opt_str (br_request_id b)), (''source'', opt_str (br_source b)),
     (''last_seen_at'', PStr (isoformat (br_now b)))]"

definition previous_reason :: "incident \<Rightarrow> string \<Rightarrow> pydict \<Rightarrow> pydict" where
  "previous_reason r reason evidence =
     (case as_str (dget (in_evidence r) ''reason'') of
        Some existing \<Rightarrow> if existing \<noteq> [] \<and> existing \<noteq> reason
          then dset ''previous_reason'' (PStr existing) evidence else evidence
      | None \<Rightarrow> evidence)"

definition process_protect_block ::
  "'w incident_manager \<Rightarrow> string \<Rightarrow> string \<Rightarrow> block_report \<Rightarrow> ('w, unit) py" where
  "process_protect_block M project_id provider b =
     (let evidence = block_evidence provider b;
          now = br_now b;
          reason = br_reason b;
          block = c_incident_type_block app_config;
          dedup_after = now - seconds (max (im_dedup_window_seconds M) 1)
      in if reason \<in> {''req_cap_breach'', ''tok_cap_breach''} then
           (let fingerprint = project_id @ '':'' @ provider @ '':'' @ block @ '':'' @ reason
            in upsert_episode M project_id provider block fingerprint evidence now dedup_after ''protect'')
         else if reason \<notin> {''cooldown_active'', ''fail_closed''} then ret ()
         else bnd (ir_list_open_by_project_provider (im_repository M) project_id provider) (\<lambda>open_incidents.
           let active_incidents = filter (\<lambda>r. in_type r = block \<and> seen_at r \<ge> dedup_after) open_incidents
           in case first_row (order_desc seen_at active_incidents) of
                None \<Rightarrow> ret ()
              | Some r \<Rightarrow>
                  bnd (ir_update_open_incident_activity (im_repository M) (in_id r)
                    (previous_reason r reason (merge_evidence r evidence)) now) (\<lambda>_. ret ())))"

section \<open>Reconciliation\<close>

definition superseded :: "string \<Rightarrow> incident \<Rightarrow> bool" where
  "superseded request_id r \<longleftrightarrow> in_type r = c_incident_type_block app_config \<and>
     dget (in_evidence r) ''request_id'' = PStr request_id \<and>
     dget (in_evidence r) ''source'' = PStr (c_outcome_source_live app_config)"

definition reconcile_timeout_superseded_live_block ::
  "'w incident_manager \<Rightarrow> string \<Rightarrow> string \<Rightarrow> string option \<Rightarrow> ('w, unit) py" where
  "reconcile_timeout_superseded_live_block M project_id provider request_id =
     (if \<not> truthy request_id then ret ()
      else bnd (ir_list_open_by_project_provider (im_repository M) project_id provider) (\<lambda>open_incidents.
        seq_all (map (\<lambda>r. if superseded (the request_id) r
            then bnd (ir_resolve_incident (im_repository M) (in_id r)) (\<lambda>_. ret ())
            else ret ()) open_incidents)))"

end
