(* ===== verification/Detectors.thy ===== *)
theory Detectors
  imports Domain
begin

text \<open>
  The anomaly detectors (\<open>app/domain/detectors\<close>): retry storms, suspected loops and token
  explosions over the recent events of a project, and the registry that runs them in order. Times
  are compared as doubles, as the code does (\<open>timestamp\<close>).
\<close>

section \<open>Input\<close>

record detection_context =
  dc_project_id :: string
  dc_provider :: string
  dc_requested_model :: "string option"
  dc_resolved_model :: "string option"
  dc_environment :: "string option"
  dc_now :: datetime
  dc_current_requests_60s :: int
  dc_current_tokens_60s :: int
  dc_req_cap :: "int option"
  dc_tok_cap :: "int option"
  dc_protect_enabled :: bool
  dc_request_endpoint :: "string option"
  dc_request_feature :: "string option"
  dc_request_fingerprint :: "string option"
  dc_estimated_next_tokens :: "int option"
  dc_token_explosion_tokens :: "int option"
  dc_previous_estimated_tokens :: "int option"
  dc_current_event :: "event option"
  dc_recent_events :: "event list"
  dc_retry_storm_window_seconds :: int
  dc_retry_storm_count :: int
  dc_loop_window_seconds :: int
  dc_loop_count :: int
  dc_loop_max_gap_seconds :: rat
  dc_loop_concurrency_threshold :: int
  dc_token_explosion_abs :: int
  dc_token_explosion_growth_ratio :: rat
  dc_token_explosion_growth_count :: int
  dc_token_explosion_growth_min_tokens :: int
  dc_token_explosion_concurrency_threshold :: int

definition normalized_model_name :: "string option \<Rightarrow> string" where
  "normalized_model_name value = strip (opt_or value [])"

definition model_or_na :: "string option \<Rightarrow> string" where
  "model_or_na m = or_str (normalized_model_name m) ''na''"

definition detector_tags :: "detection_context \<Rightarrow> (string \<times> string) list" where
  "detector_tags ctx = (case dc_requested_model ctx of
     None \<Rightarrow> [] | Some m \<Rightarrow> if m = [] then [] else [(''requested_model'', m)])"

text \<open>The fields every detector's evidence starts with.\<close>

definition evidence_head :: "detection_context \<Rightarrow> pydict" where
  "evidence_head ctx = [
     (''provider'', PStr (dc_provider ctx)), (''requested_model'', opt_str (dc_requested_model ctx)),
     (''resolved_model'', opt_str (dc_resolved_model ctx)), (''environment'', opt_str (dc_environment ctx)),
     (''requests_60s'', PInt (dc_current_requests_60s ctx)), (''tokens_60s'', PInt (dc_current_tokens_60s ctx)),
     (''req_cap'', opt_int (dc_req_cap ctx)), (''tok_cap'', opt_int (dc_tok_cap ctx))]"

section \<open>Retry storms\<close>

text \<open>\<open>(text or "").strip().lower()\<close>.\<close>

definition folded :: "string option \<Rightarrow> string" where
  "folded s = lower (strip (opt_or s []))"

definition mentions_network :: "string \<Rightarrow> bool" where
  "mentions_network s \<longleftrightarrow>
     (\<exists>tok \<in> set [''timed out'', ''timeout'', ''connection'', ''reset'', ''refused'']. contains s tok)"

definition http_or_zero :: "event \<Rightarrow> int" where
  "http_or_zero e = (case ev_http_status e of None \<Rightarrow> 0 | Some h \<Rightarrow> h)"

definition is_failure :: "event \<Rightarrow> bool" where
  "is_failure e =
     (if http_or_zero e \<ge> 500 \<or> http_or_zero e \<in> {408, 429} then True
      else if folded (ev_status e) \<in> {''error'', ''failed'', ''fail''} then True
      else if mentions_network (folded (ev_error_type e)) then True
      else if mentions_network (folded (ev_error_message e)) then True
      else False)"

definition storm_failures :: "detection_context \<Rightarrow> event list" where
  "storm_failures ctx =
     (let cutoff = py_sub (timestamp (dc_now ctx)) (py_float (dc_retry_storm_window_seconds ctx))
      in filter (\<lambda>e. ev_provider e = dc_provider ctx \<and>
           normalized_model_name (ev_requested_model e) = normalized_model_name (dc_requested_model ctx) \<and>
           timestamp (ev_created_at e) \<ge> cutoff \<and> is_failure e) (dc_recent_events ctx))"

definition retry_storm_detect :: "detection_context \<Rightarrow> signal list" where
  "retry_storm_detect ctx =
     (if dc_recent_events ctx = [] then []
      else let failure_count = int (length (storm_failures ctx)) in
        if failure_count < dc_retry_storm_count ctx then []
        else [\<lparr> sg_detector = ''retry_storm'', sg_scope_provider = dc_provider ctx,
           sg_fingerprint = dc_project_id ctx @ '':'' @ dc_provider ctx @ '':'' @
             model_or_na (dc_requested_model ctx) @ '':retry_storm'',
           sg_evidence = evidence_head ctx @ [
             (''estimated_next_tokens'', opt_int (dc_estimated_next_tokens ctx)),
             (''failure_count'', PInt failure_count),
             (''window_seconds'', PInt (dc_retry_storm_window_seconds ctx)),
             (''threshold_count'', PInt (dc_retry_storm_count ctx)),
             (''reason'', PStr ''retry_storm'')],
           sg_episode_window_seconds = Some (dc_retry_storm_window_seconds ctx),
           sg_tags = detector_tags ctx \<rparr>])"

section \<open>Suspected loops\<close>

text \<open>\<open>(x or "na").strip()\<close> and \<open>(x or "unknown").strip() or "unknown"\<close>.\<close>

definition endpoint_part :: "string option \<Rightarrow> string" where
  "endpoint_part e = strip (opt_or e ''na'')"

definition unknown_part :: "string option \<Rightarrow> string" where
  "unknown_part f = or_str (strip (opt_or f ''unknown'')) ''unknown''"

definition loop_signature ::
  "string \<Rightarrow> string \<Rightarrow> string option \<Rightarrow> string option \<Rightarrow> string option \<Rightarrow> string option \<Rightarrow> string option \<Rightarrow> string" where
  "loop_signature project_id provider requested_model environment endpoint feature fingerprint =
     project_id @ '':'' @ provider @ '':'' @ model_or_na requested_model @ '':'' @ opt_or environment ''na'' @
     '':'' @ endpoint_part endpoint @ '':'' @ unknown_part feature @ '':'' @ unknown_part fingerprint"

text \<open>\<open>_signature\<close> of an event (the detector never passes \<open>event=None\<close>), and \<open>_context_signature\<close>.\<close>

definition signature :: "string \<Rightarrow> event \<Rightarrow> string" where
  "signature project_id e = loop_signature project_id (ev_provider e) (ev_requested_model e) (ev_environment e)
     (ev_request_endpoint e) (ev_request_feature e) (ev_request_fingerprint e)"

definition context_signature :: "detection_context \<Rightarrow> string" where
  "context_signature ctx = loop_signature (dc_project_id ctx) (dc_provider ctx) (dc_requested_model ctx)
     (dc_environment ctx) (dc_request_endpoint ctx) (dc_request_feature ctx) (dc_request_fingerprint ctx)"

text \<open>The token signal of a context: \<open>None\<close> falls through to the next source.\<close>

definition or_else :: "'a option \<Rightarrow> 'a option \<Rightarrow> 'a option" where
  "or_else x y = (case x of None \<Rightarrow> y | Some _ \<Rightarrow> x)"

definition context_tokens :: "detection_context \<Rightarrow> int option" where
  "context_tokens ctx =
     or_else (dc_token_explosion_tokens ctx)
    (or_else (Option.bind (dc_current_event ctx) ev_token_explosion_tokens)
    (or_else (dc_estimated_next_tokens ctx)
             (map_option ev_total_tokens (dc_current_event ctx))))"

definition looks_like_token_context_growth :: "detection_context \<Rightarrow> bool" where
  "looks_like_token_context_growth ctx = (case context_tokens ctx of
     None \<Rightarrow> False
   | Some tokens \<Rightarrow>
       if max tokens 0 < dc_token_explosion_growth_min_tokens ctx then False
       else (case dc_previous_estimated_tokens ctx of
               None \<Rightarrow> True | Some previous \<Rightarrow> max tokens 0 > max previous 0))"

text \<open>An event the walk passes over because it failed.\<close>

definition loop_failure :: "event \<Rightarrow> bool" where
  "loop_failure e \<longleftrightarrow> http_or_zero e \<ge> 400 \<or>
     folded (ev_status e) \<in> {''error'', ''failed'', ''fail''} \<or> truthy (ev_error_type e)"

text \<open>The walk from the newest event back, with the time of the last event counted.\<close>

fun loop_walk :: "detection_context \<Rightarrow> rat \<Rightarrow> rat option \<Rightarrow> int \<Rightarrow> event list \<Rightarrow> int" where
  "loop_walk ctx cutoff prev_ts sequence_count [] = sequence_count"
| "loop_walk ctx cutoff prev_ts sequence_count (e # es) =
     (let event_ts = timestamp (ev_created_at e) in
      if ev_provider e \<noteq> dc_provider ctx then loop_walk ctx cutoff prev_ts sequence_count es
      else if event_ts < cutoff then sequence_count
      else if signature (dc_project_id ctx) e \<noteq> context_signature ctx then sequence_count
      else if (case prev_ts of None \<Rightarrow> False
               | Some p \<Rightarrow> py_sub p event_ts > dc_loop_max_gap_seconds ctx) then sequence_count
      else if loop_failure e then loop_walk ctx cutoff prev_ts sequence_count es
      else loop_walk ctx cutoff (Some event_ts) (sequence_count + 1) es)"

definition newest_first :: "event list \<Rightarrow> event list" where
  "newest_first es = sort_key (\<lambda>e. - timestamp (ev_created_at e)) es"

definition loop_sequence_count :: "detection_context \<Rightarrow> int" where
  "loop_sequence_count ctx =
     loop_walk ctx (py_sub (timestamp (dc_now ctx)) (py_float (dc_loop_window_seconds ctx))) None 0
       (newest_first (dc_recent_events ctx))"

definition loop_suspect_detect :: "detection_context \<Rightarrow> signal list" where
  "loop_suspect_detect ctx =
     (if dc_recent_events ctx = [] then []
      else if looks_like_token_context_growth ctx then []
      else let sequence_count = loop_sequence_count ctx; sgn = context_signature ctx in
        if dc_current_requests_60s ctx \<ge> dc_loop_concurrency_threshold ctx \<and>
           sequence_count < dc_loop_count ctx * 2 then []
        else if sequence_count < dc_loop_count ctx then []
        else [\<lparr> sg_detector = ''loop_suspect'', sg_scope_provider = dc_provider ctx,
           sg_fingerprint = dc_project_id ctx @ '':'' @ dc_provider ctx @ '':loop_suspect:'' @ sgn,
           sg_evidence = evidence_head ctx @ [
             (''estimated_next_tokens'', opt_int (dc_estimated_next_tokens ctx)),
             (''signature'', PStr sgn), (''request_fingerprint'', opt_str (dc_request_fingerprint ctx)),
             (''window_seconds'', PInt (dc_loop_window_seconds ctx)),
             (''sequence_count'', PInt sequence_count),
             (''max_gap_seconds'', PFloat (dc_loop_max_gap_seconds ctx)),
             (''threshold_count'', PInt (dc_loop_count ctx)),
             (''reason'', PStr ''loop_suspect'')],
           sg_episode_window_seconds = Some (dc_loop_window_seconds ctx),
           sg_tags = detector_tags ctx \<rparr>])"

section \<open>Token explosions\<close>

text \<open>\<open>xs[i:]\<close>; a negative \<open>i\<close> counts from the end.\<close>

definition slice_from :: "int \<Rightarrow> 'a list \<Rightarrow> 'a list" where
  "slice_from i xs = (if i < 0 then drop (nat (int (length xs) + i)) xs else drop (nat i) xs)"

definition request_signature :: "string option \<Rightarrow> string option \<Rightarrow> string" where
  "request_signature endpoint feature = endpoint_part endpoint @ '':'' @ unknown_part feature"

text \<open>
  An event that belongs to the request stream: same provider, model, endpoint and feature, and not the
  current event itself.
\<close>

definition same_stream ::
  "string \<Rightarrow> string option \<Rightarrow> string option \<Rightarrow> string option \<Rightarrow> event option \<Rightarrow> event \<Rightarrow> bool" where
  "same_stream provider requested_model endpoint feature current_event e \<longleftrightarrow>
     ev_provider e = provider \<and>
     normalized_model_name (ev_requested_model e) = normalized_model_name requested_model \<and>
     Some (ev_id e) \<noteq> map_option ev_id current_event \<and>
     request_signature (ev_request_endpoint e) (ev_request_feature e) = request_signature endpoint feature"

definition event_tokens :: "event \<Rightarrow> int" where
  "event_tokens e = (case ev_token_explosion_tokens e of
     Some t \<Rightarrow> max t 0 | None \<Rightarrow> max (ev_total_tokens e) 0)"

definition resolve_previous_estimated_tokens ::
  "event list \<Rightarrow> string \<Rightarrow> string option \<Rightarrow> string option \<Rightarrow> string option \<Rightarrow> event option \<Rightarrow> int option" where
  "resolve_previous_estimated_tokens recent_events provider requested_model endpoint feature current_event =
     map_option event_tokens
       (find (same_stream provider requested_model endpoint feature current_event)
          (sort_key (\<lambda>e. - timestamp (ev_ts e)) recent_events))"

definition resolve_recent_token_explosion_sequence ::
  "event list \<Rightarrow> string \<Rightarrow> string option \<Rightarrow> string option \<Rightarrow> string option \<Rightarrow> event option \<Rightarrow> int \<Rightarrow> int \<Rightarrow> int list" where
  "resolve_recent_token_explosion_sequence recent_events provider requested_model endpoint feature
     current_event current_tokens required_count =
     (let required_points = max required_count 0 + 1 in
      if required_points \<le> 1 then [current_tokens]
      else let sequence = map event_tokens
                 (filter (same_stream provider requested_model endpoint feature current_event)
                    (sort_key (\<lambda>e. timestamp (ev_ts e)) recent_events)) @ [max current_tokens 0]
           in if int (length sequence) < required_points then [] else sequence)"

text \<open>Token sources of the explosion detector: as above, but the event's total is never negative.\<close>

definition explosion_tokens :: "detection_context \<Rightarrow> int option" where
  "explosion_tokens ctx =
     or_else (dc_token_explosion_tokens ctx)
    (or_else (Option.bind (dc_current_event ctx) ev_token_explosion_tokens)
    (or_else (dc_estimated_next_tokens ctx)
             (map_option (\<lambda>e. max (ev_total_tokens e) 0) (dc_current_event ctx))))"

definition growth_ratio :: "detection_context \<Rightarrow> int \<Rightarrow> rat option" where
  "growth_ratio ctx tokens = (case dc_previous_estimated_tokens ctx of
     Some p \<Rightarrow> if p > 0 then Some (py_div (py_float tokens) (py_float p)) else None
   | None \<Rightarrow> None)"

text \<open>The last \<open>growth_count + 1\<close> points of the stream at or above the floor, if there are so many.\<close>

definition eligible_points :: "detection_context \<Rightarrow> int list \<Rightarrow> int list" where
  "eligible_points ctx sequence =
     (let eligible = filter (\<lambda>v. v \<ge> dc_token_explosion_growth_min_tokens ctx) sequence;
          required_points = dc_token_explosion_growth_count ctx + 1
      in if int (length eligible) \<ge> required_points then slice_from (- required_points) eligible else eligible)"

definition adjacent_growth :: "int list \<Rightarrow> rat list" where
  "adjacent_growth points =
     map (\<lambda>(p, c). py_div (py_float c) (py_float p)) (filter (\<lambda>(p, c). p > 0) (zip points (tl points)))"

text \<open>\<open>(growth_sequence_count, growth_hit)\<close> before the traffic gates.\<close>

definition growth_of :: "detection_context \<Rightarrow> int \<Rightarrow> int \<times> bool" where
  "growth_of ctx tokens =
     (let sequence = resolve_recent_token_explosion_sequence (dc_recent_events ctx) (dc_provider ctx)
            (dc_requested_model ctx) (dc_request_endpoint ctx) (dc_request_feature ctx)
            (dc_current_event ctx) tokens (dc_token_explosion_growth_count ctx);
          points = eligible_points ctx sequence;
          growth = adjacent_growth points
      in if sequence = [] then (0, False)
         else (max (int (length points) - 1) 0,
               int (length growth) = dc_token_explosion_growth_count ctx \<and>
               (\<forall>ratio \<in> set growth. ratio \<ge> dc_token_explosion_growth_ratio ctx)))"

definition token_explosion_detect :: "detection_context \<Rightarrow> signal list" where
  "token_explosion_detect ctx = (case explosion_tokens ctx of
     None \<Rightarrow> []
   | Some tokens \<Rightarrow>
       let abs_hit = tokens \<ge> dc_token_explosion_abs ctx;
           large = tokens \<ge> dc_token_explosion_growth_min_tokens ctx;
           ratio = (if large then growth_ratio ctx tokens else None);
           growth = (if large then growth_of ctx tokens else (0, False));
           growth_hit = (snd growth \<and> \<not> (dc_current_requests_60s ctx \<le> 0 \<or> dc_current_tokens_60s ctx \<le> 0) \<and>
             \<not> dc_current_requests_60s ctx \<ge> dc_token_explosion_concurrency_threshold ctx)
       in if \<not> (abs_hit \<or> growth_hit) then []
          else [\<lparr> sg_detector = ''token_explosion'', sg_scope_provider = dc_provider ctx,
             sg_fingerprint = dc_project_id ctx @ '':'' @ dc_provider ctx @ '':'' @
               model_or_na (dc_requested_model ctx) @ '':token_explosion'',
             sg_evidence = evidence_head ctx @ [
               (''token_explosion_tokens'', PInt tokens),
               (''previous_token_explosion_tokens'', opt_int (dc_previous_estimated_tokens ctx)),
               (''absolute_threshold_tokens'', PInt (dc_token_explosion_abs ctx)),
               (''growth_ratio'', case ratio of None \<Rightarrow> PNone | Some x \<Rightarrow> PFloat x),
               (''growth_threshold'', PFloat (dc_token_explosion_growth_ratio ctx)),
               (''growth_sequence_count'', PInt (fst growth)),
               (''growth_required_count'', PInt (dc_token_explosion_growth_count ctx)),
               (''growth_min_tokens'', PInt (dc_token_explosion_growth_min_tokens ctx)),
               (''absolute_hit'', PBool abs_hit), (''growth_hit'', PBool growth_hit),
               (''reason'', PStr ''token_explosion'')],
             sg_episode_window_seconds = Some 60,
             sg_tags = detector_tags ctx \<rparr>])"

section \<open>The registry\<close>

definition registry_detect :: "(detection_context \<Rightarrow> signal list) list \<Rightarrow> detection_context \<Rightarrow> signal list" where
  "registry_detect detectors ctx = foldl (\<lambda>signals d. signals @ d ctx) [] detectors"

end
