(* ===== verification/Project_Repository.thy ===== *)
theory Project_Repository
  imports Domain Db_Table
begin

text \<open>
  Persistence of projects, of the provider and model pairs seen per project, and of ingest keys
  (\<open>project_repository_impl.py\<close>, \<open>ingest_key_repository_impl.py\<close> under
  \<open>app/infrastructure/db/repositories\<close>) behind the interfaces of \<open>app/application/interfaces\<close>.
\<close>

section \<open>The interfaces\<close>

record 'w project_repo =
  pp_list_projects :: "('w, project list) py"
  pp_list_projects_for_user :: "string \<Rightarrow> ('w, project list) py"
  pp_get_project :: "string \<Rightarrow> ('w, project option) py"
  pp_create_project :: "project \<Rightarrow> ('w, project) py"
  pp_get_project_by_name :: "string \<Rightarrow> ('w, project option) py"
  pp_get_project_by_name_for_user :: "string \<Rightarrow> string \<Rightarrow> ('w, project option) py"
  pp_update_protect_settings ::
    "string \<Rightarrow> bool \<Rightarrow> string \<Rightarrow> bool \<Rightarrow> int option \<Rightarrow> int option \<Rightarrow> ('w, project option) py"
  pp_update_webhook_settings :: "string \<Rightarrow> bool \<Rightarrow> bool \<Rightarrow> string option \<Rightarrow> ('w, project option) py"
  pp_record_model_first_seen :: "string \<Rightarrow> string \<Rightarrow> string \<Rightarrow> datetime \<Rightarrow> ('w, bool \<times> bool) py"
  pp_count_project_models :: "string \<Rightarrow> ('w, int) py"
  pp_list_project_providers :: "string \<Rightarrow> ('w, string list) py"
  pp_delete_project :: "string \<Rightarrow> ('w, bool) py"

record 'w ingest_key_repo =
  kr_list_by_project :: "string \<Rightarrow> ('w, ingest_key list) py"
  kr_get_by_id :: "string \<Rightarrow> ('w, ingest_key option) py"
  kr_get_active_by_hash :: "string \<Rightarrow> ('w, ingest_key option) py"
  kr_create_key :: "ingest_key \<Rightarrow> ('w, ingest_key) py"
  kr_revoke_key :: "string \<Rightarrow> datetime \<Rightarrow> ('w, ingest_key option) py"

section \<open>Projects\<close>

record project_model =
  pm_id :: string
  pm_project_id :: string
  pm_provider :: string
  pm_requested_model :: string
  pm_first_seen_at :: datetime

text \<open>The tables a project's rows live in; \<open>new_id\<close> is \<open>str(uuid4())\<close>.\<close>

record 'w project_tables =
  pt_projects :: "('w, project) db_table"
  pt_models :: "('w, project_model) db_table"
  pt_keys :: "('w, ingest_key) db_table"
  pt_events :: "('w, event) db_table"
  pt_incidents :: "('w, incident) db_table"
  pt_new_id :: "('w, string) py"

text \<open>The constraints of \<open>models.py\<close>: primary keys and unique constraints (a null never clashes).\<close>

definition project_clash :: "project \<Rightarrow> project \<Rightarrow> bool" where
  "project_clash r x \<longleftrightarrow> pr_id r = pr_id x \<or>
     (pr_user_id r \<noteq> None \<and> pr_user_id r = pr_user_id x \<and> pr_name r = pr_name x)"

definition model_clash :: "project_model \<Rightarrow> project_model \<Rightarrow> bool" where
  "model_clash r x \<longleftrightarrow> pm_id r = pm_id x \<or> (pm_project_id r = pm_project_id x \<and>
     pm_provider r = pm_provider x \<and> pm_requested_model r = pm_requested_model x)"

definition key_clash :: "ingest_key \<Rightarrow> ingest_key \<Rightarrow> bool" where
  "key_clash r x \<longleftrightarrow> ik_id r = ik_id x \<or> ik_key_hash r = ik_key_hash x"

text \<open>\<open>_to_domain\<close>: an empty fail mode reads as \<open>open\<close>.\<close>

definition project_to_domain :: "project \<Rightarrow> project" where
  "project_to_domain r = r\<lparr> pr_protect_fail_mode := or_str (pr_protect_fail_mode r) ''open'' \<rparr>"

definition list_projects :: "'w project_tables \<Rightarrow> ('w, project list) py" where
  "list_projects T = logged (bnd (db_select (pt_projects T) (\<lambda>_. True)) (\<lambda>records.
     ret (map project_to_domain (order_asc pr_created_at records))))"

definition list_projects_for_user :: "'w project_tables \<Rightarrow> string \<Rightarrow> ('w, project list) py" where
  "list_projects_for_user T user_id =
     logged (bnd (db_select (pt_projects T) (\<lambda>r. pr_user_id r = Some user_id)) (\<lambda>records.
     ret (map project_to_domain (order_asc pr_created_at records))))"

definition get_project :: "'w project_tables \<Rightarrow> string \<Rightarrow> ('w, project option) py" where
  "get_project T project_id = logged (bnd (db_select (pt_projects T) (\<lambda>r. pr_id r = project_id)) (\<lambda>records.
     ret (map_option project_to_domain (first_row records))))"

text \<open>The webhook columns are left to their defaults.\<close>

definition create_project :: "'w project_tables \<Rightarrow> project \<Rightarrow> ('w, project) py" where
  "create_project T project = logged (bnd (db_add (pt_projects T)
     (project\<lparr> pr_webhook_enabled := False, pr_email_enabled := False, pr_webhook_url := None \<rparr>)) (\<lambda>_.
     ret project))"

definition get_project_by_name :: "'w project_tables \<Rightarrow> string \<Rightarrow> ('w, project option) py" where
  "get_project_by_name T name = logged (bnd (db_select (pt_projects T) (\<lambda>r. pr_name r = name)) (\<lambda>records.
     ret (map_option project_to_domain (first_row records))))"

definition get_project_by_name_for_user :: "'w project_tables \<Rightarrow> string \<Rightarrow> string \<Rightarrow> ('w, project option) py" where
  "get_project_by_name_for_user T name user_id =
     logged (bnd (db_select (pt_projects T) (\<lambda>r. pr_name r = name \<and> pr_user_id r = Some user_id)) (\<lambda>records.
     ret (map_option project_to_domain (first_row records))))"

definition update_project_protect_settings ::
  "'w project_tables \<Rightarrow> string \<Rightarrow> bool \<Rightarrow> string \<Rightarrow> bool \<Rightarrow> int option \<Rightarrow> int option \<Rightarrow> ('w, project option) py" where
  "update_project_protect_settings T project_id enabled fail_mode apply_clamp max_req max_tok =
     logged (bnd (db_select (pt_projects T) (\<lambda>r. pr_id r = project_id)) (\<lambda>records.
     case first_row records of
       None \<Rightarrow> ret None
     | Some record \<Rightarrow>
         let record' = record\<lparr> pr_protect_enabled := enabled, pr_protect_fail_mode := fail_mode,
               pr_apply_clamp := apply_clamp, pr_max_req_per_min := max_req, pr_max_tok_per_min := max_tok \<rparr>
         in bnd (db_save (pt_projects T) [record']) (\<lambda>_. ret (Some (project_to_domain record')))))"

definition update_project_webhook_settings ::
  "'w project_tables \<Rightarrow> string \<Rightarrow> bool \<Rightarrow> bool \<Rightarrow> string option \<Rightarrow> ('w, project option) py" where
  "update_project_webhook_settings T project_id webhook_enabled email_enabled webhook_url =
     logged (bnd (db_select (pt_projects T) (\<lambda>r. pr_id r = project_id)) (\<lambda>records.
     case first_row records of
       None \<Rightarrow> ret None
     | Some record \<Rightarrow>
         let record' = record\<lparr> pr_webhook_enabled := webhook_enabled, pr_email_enabled := email_enabled,
               pr_webhook_url := webhook_url \<rparr>
         in bnd (db_save (pt_projects T) [record']) (\<lambda>_. ret (Some (project_to_domain record')))))"

text \<open>
  The first sighting of a provider and model; the unique constraint tells a repetition, which is
  answered as \<open>(False, True)\<close>.
\<close>

definition count_project_models :: "'w project_tables \<Rightarrow> string \<Rightarrow> ('w, int) py" where
  "count_project_models T project_id =
     logged (bnd (db_select (pt_models T) (\<lambda>r. pm_project_id r = project_id)) (\<lambda>records.
     ret (int (length records))))"

definition record_project_model_first_seen ::
  "'w project_tables \<Rightarrow> string \<Rightarrow> string \<Rightarrow> string \<Rightarrow> datetime \<Rightarrow> ('w, bool \<times> bool) py" where
  "record_project_model_first_seen T project_id provider requested_model first_seen_at =
     try_except
       (bnd (db_select (pt_models T) (\<lambda>r. pm_project_id r = project_id)) (\<lambda>existing.
        bnd (pt_new_id T) (\<lambda>i.
        bnd (db_add (pt_models T) \<lparr> pm_id = i, pm_project_id = project_id, pm_provider = provider,
             pm_requested_model = requested_model, pm_first_seen_at = first_seen_at \<rparr>) (\<lambda>_.
        ret (True, length existing > 0)))))
       (\<lambda>e. if e = IntegrityError then ret (False, True) else raise e)"

text \<open>\<open>DISTINCT ... ORDER BY provider\<close>; the order is the one of code points.\<close>

fun insert_str :: "string \<Rightarrow> string list \<Rightarrow> string list" where
  "insert_str x [] = [x]"
| "insert_str x (y # ys) = (if x = y then y # ys else if str_le x y then x # y # ys else y # insert_str x ys)"

definition list_project_providers :: "'w project_tables \<Rightarrow> string \<Rightarrow> ('w, string list) py" where
  "list_project_providers T project_id =
     logged (bnd (db_select (pt_models T) (\<lambda>r. pm_project_id r = project_id)) (\<lambda>records.
     ret (filter (\<lambda>p. p \<noteq> []) (foldr insert_str (map pm_provider records) []))))"

definition delete_project :: "'w project_tables \<Rightarrow> string \<Rightarrow> ('w, bool) py" where
  "delete_project T project_id =
     logged (transaction (bnd (db_select (pt_projects T) (\<lambda>r. pr_id r = project_id)) (\<lambda>records.
     if first_row records = None then ret False
     else bnd (db_delete (pt_events T) (\<lambda>r. ev_project_id r = project_id)) (\<lambda>_.
          bnd (db_delete (pt_incidents T) (\<lambda>r. in_project_id r = project_id)) (\<lambda>_.
          bnd (db_delete (pt_keys T) (\<lambda>r. ik_project_id r = project_id)) (\<lambda>_.
          bnd (db_delete (pt_models T) (\<lambda>r. pm_project_id r = project_id)) (\<lambda>_.
          bnd (db_delete (pt_projects T) (\<lambda>r. pr_id r = project_id)) (\<lambda>_.
          ret True))))))))"

definition ProjectRepositoryImpl :: "'w project_tables \<Rightarrow> 'w project_repo" where
  "ProjectRepositoryImpl T = \<lparr>
     pp_list_projects = list_projects T,
     pp_list_projects_for_user = list_projects_for_user T,
     pp_get_project = get_project T,
     pp_create_project = create_project T,
     pp_get_project_by_name = get_project_by_name T,
     pp_get_project_by_name_for_user = get_project_by_name_for_user T,
     pp_update_protect_settings = update_project_protect_settings T,
     pp_update_webhook_settings = update_project_webhook_settings T,
     pp_record_model_first_seen = record_project_model_first_seen T,
     pp_count_project_models = count_project_models T,
     pp_list_project_providers = list_project_providers T,
     pp_delete_project = delete_project T \<rparr>"

section \<open>Ingest keys\<close>

definition list_keys_by_project :: "('w, ingest_key) db_table \<Rightarrow> string \<Rightarrow> ('w, ingest_key list) py" where
  "list_keys_by_project T project_id =
     logged (bnd (db_select T (\<lambda>r. ik_project_id r = project_id)) (\<lambda>records.
     ret (order_desc ik_created_at records)))"

definition get_key_by_id :: "('w, ingest_key) db_table \<Rightarrow> string \<Rightarrow> ('w, ingest_key option) py" where
  "get_key_by_id T key_id = logged (bnd (db_select T (\<lambda>r. ik_id r = key_id)) (\<lambda>records.
     ret (first_row records)))"

definition get_active_by_hash :: "('w, ingest_key) db_table \<Rightarrow> string \<Rightarrow> ('w, ingest_key option) py" where
  "get_active_by_hash T key_hash =
     logged (bnd (db_select T (\<lambda>r. ik_key_hash r = key_hash \<and> ik_status r = ''active'')) (\<lambda>records.
     ret (first_row records)))"

definition create_key :: "('w, ingest_key) db_table \<Rightarrow> ingest_key \<Rightarrow> ('w, ingest_key) py" where
  "create_key T key = logged (bnd (db_add T key) (\<lambda>_. ret key))"

definition revoke_key :: "('w, ingest_key) db_table \<Rightarrow> string \<Rightarrow> datetime \<Rightarrow> ('w, ingest_key option) py" where
  "revoke_key T key_id revoked_at =
     logged (bnd (db_select T (\<lambda>r. ik_id r = key_id)) (\<lambda>records.
     case first_row records of
       None \<Rightarrow> ret None
     | Some record \<Rightarrow>
         let record' = record\<lparr> ik_status := ''revoked'', ik_revoked_at := Some revoked_at \<rparr>
         in bnd (db_save T [record']) (\<lambda>_. ret (Some record'))))"

definition IngestKeyRepositoryImpl :: "('w, ingest_key) db_table \<Rightarrow> 'w ingest_key_repo" where
  "IngestKeyRepositoryImpl T = \<lparr>
     kr_list_by_project = list_keys_by_project T,
     kr_get_by_id = get_key_by_id T,
     kr_get_active_by_hash = get_active_by_hash T,
     kr_create_key = create_key T,
     kr_revoke_key = revoke_key T \<rparr>"

end
