(* ===== verification/Event_Repository.thy ===== *)
theory Event_Repository
  imports Domain Db_Table
begin

text \<open>
  Persistence of events (\<open>app/infrastructure/db/repositories/event_repository_impl.py\<close>) behind the
  interface of \<open>app/application/interfaces/event_repository.py\<close>, and the retention service that purges
  old ones (\<open>app/application/services/event_retention_service.py\<close>). The contract of the interface,
  \<open>event_store\<close>, is what ingestion relies on.
\<close>

section \<open>The repository\<close>

record 'w event_repo =
  er_add :: "event \<Rightarrow> ('w, unit) py"
  er_list_recent :: "string \<Rightarrow> int \<Rightarrow> string option \<Rightarrow> ('w, event list) py"
  er_purge_older_than :: "datetime \<Rightarrow> ('w, int) py"

definition add_event :: "('w, event) db_table \<Rightarrow> event \<Rightarrow> ('w, unit) py" where
  "add_event T event = logged (db_add T event)"

text \<open>An empty provider does not filter; the limit is not negative.\<close>

definition recent_filter :: "string \<Rightarrow> string option \<Rightarrow> event \<Rightarrow> bool" where
  "recent_filter project_id provider e \<longleftrightarrow> ev_project_id e = project_id \<and>
     (if truthy provider then Some (ev_provider e) = provider else True)"

definition list_recent ::
  "('w, event) db_table \<Rightarrow> string \<Rightarrow> int \<Rightarrow> string option \<Rightarrow> ('w, event list) py" where
  "list_recent T project_id limit provider =
     logged (bnd (db_select T (recent_filter project_id provider)) (\<lambda>records.
     ret (take (nat limit) (order_desc ev_ts records))))"

definition purge_older_than :: "('w, event) db_table \<Rightarrow> datetime \<Rightarrow> ('w, int) py" where
  "purge_older_than T cutoff = logged (db_delete T (\<lambda>e. ev_ts e < cutoff))"

definition EventRepositoryImpl :: "('w, event) db_table \<Rightarrow> 'w event_repo" where
  "EventRepositoryImpl T = \<lparr> er_add = add_event T, er_list_recent = list_recent T,
     er_purge_older_than = purge_older_than T \<rparr>"

section \<open>The contract\<close>

text \<open>
  \<open>newest n P es xs\<close>: \<open>xs\<close> are the \<open>n\<close> newest events of \<open>es\<close> with \<open>P\<close>, newest first; among events
  of one timestamp any may be taken.
\<close>

definition newest :: "nat \<Rightarrow> (event \<Rightarrow> bool) \<Rightarrow> event list \<Rightarrow> event list \<Rightarrow> bool" where
  "newest n P es xs \<longleftrightarrow> distinct xs \<and> set xs \<subseteq> {e \<in> set es. P e} \<and>
     length xs = min n (length (filter P es)) \<and> sorted_wrt (\<lambda>a b. ev_ts b \<le> ev_ts a) xs \<and>
     (\<forall>e \<in> set es. P e \<longrightarrow> e \<notin> set xs \<longrightarrow> (\<forall>x \<in> set xs. ev_ts e \<le> ev_ts x))"

locale event_store =
  fixes E :: "'w event_repo" and ok :: "'w \<Rightarrow> bool" and events :: "'w \<Rightarrow> event list"
  assumes add: "ok w \<Longrightarrow> ev_id e \<notin> ev_id ` set (events w) \<Longrightarrow>
      \<exists>w'. er_add E e w = (Inr (), w') \<and> ok w' \<and> events w' = events w @ [e]"
    and add_known: "ok w \<Longrightarrow> ev_id e \<in> ev_id ` set (events w) \<Longrightarrow> er_add E e w = (Inl IntegrityError, w)"
    and recent: "ok w \<Longrightarrow> 0 \<le> n \<Longrightarrow>
      \<exists>xs. er_list_recent E p n v w = (Inr xs, w) \<and> newest (nat n) (recent_filter p v) (events w) xs"
    and purge: "ok w \<Longrightarrow>
      \<exists>w'. er_purge_older_than E t w = (Inr (int (length (filter (\<lambda>e. ev_ts e < t) (events w)))), w') \<and>
        ok w' \<and> events w' = filter (\<lambda>e. t \<le> ev_ts e) (events w)"
    and event_ids: "ok w \<Longrightarrow> distinct (map ev_id (events w))"

section \<open>The implementation keeps the contract\<close>

lemma newest_take:
  assumes "distinct es"
  shows "newest n P es (take n (order_desc ev_ts (filter P es)))"
proof -
  let ?s = "order_desc ev_ts (filter P es)"
  have s: "sorted_wrt (\<lambda>a b. ev_ts b \<le> ev_ts a) ?s"
    using sorted_sort_key [of "\<lambda>e. - ev_ts e" "filter P es"]
    by (simp add: order_desc_def sorted_map)
  have "sorted_wrt (\<lambda>a b. ev_ts b \<le> ev_ts a) (take n ?s @ drop n ?s)" using s by simp
  then have a: "sorted_wrt (\<lambda>a b. ev_ts b \<le> ev_ts a) (take n ?s)"
    "\<forall>x \<in> set (take n ?s). \<forall>e \<in> set (drop n ?s). ev_ts e \<le> ev_ts x"
    by (auto simp only: sorted_wrt_append)
  have "e \<in> set (drop n ?s)" if "e \<in> set es" "P e" "e \<notin> set (take n ?s)" for e
  proof -
    have "e \<in> set (take n ?s @ drop n ?s)" using that(1,2) by simp
    then show ?thesis using that(3) by (metis Un_iff set_append)
  qed
  then show ?thesis
    using a assms set_take_subset [of n ?s]
    by (auto simp: newest_def order_desc_def)
qed

locale event_db = db_contract T ok rows ev_id "\<lambda>r x. ev_id r = ev_id x"
  for T :: "('w, event) db_table" and ok rows

sublocale event_db \<subseteq> store: event_store "EventRepositoryImpl T" ok rows
proof (unfold_locales, unfold EventRepositoryImpl_def event_repo.simps, goal_cases)
  case (1 w e)
  then show ?case using add_new [of w e] by (force simp: add_event_def)
next
  case (2 w e)
  then show ?case using add_clash [of w e] by (force simp: add_event_def)
next
  case (3 w n p v)
  then have "distinct (rows w)" using distinct_keys [of w] by (simp add: distinct_map)
  then show ?case using 3 select [of w] newest_take
    by (auto simp: list_recent_def)
next
  case (4 w t)
  then show ?case using delete [of w "\<lambda>e. ev_ts e < t"] by (simp add: purge_older_than_def not_less)
next
  case (5 w)
  then show ?case by (rule distinct_keys)
qed

definition mem_events :: "(event list, event) db_table" where
  "mem_events = list_table (\<lambda>xs. xs) (\<lambda>xs _. xs) ev_id (\<lambda>r x. ev_id r = ev_id x)"

interpretation me: event_db mem_events "\<lambda>xs. distinct (map ev_id xs)" "\<lambda>xs. xs"
  unfolding event_db_def mem_events_def by (rule list_table_contract) simp_all

section \<open>Retention\<close>

text \<open>\<open>clock\<close> is \<open>datetime.now(timezone.utc)\<close>; \<open>now\<close> the argument of the method.\<close>

record 'w event_retention_service =
  rt_event_repository :: "'w event_repo"
  rt_retention_days :: int
  rt_clock :: "('w, datetime) py"

definition EventRetentionService :: "'w event_repo \<Rightarrow> int \<Rightarrow> ('w, datetime) py \<Rightarrow> 'w event_retention_service" where
  "EventRetentionService E retention_days clock =
     \<lparr> rt_event_repository = E, rt_retention_days = max retention_days 1, rt_clock = clock \<rparr>"

definition purge_old_events :: "'w event_retention_service \<Rightarrow> datetime option \<Rightarrow> ('w, int) py" where
  "purge_old_events S now =
     bnd (case now of Some t \<Rightarrow> ret t | None \<Rightarrow> rt_clock S) (\<lambda>reference_time.
     let cutoff = reference_time - seconds (86400 * rt_retention_days S) in
     bnd (er_purge_older_than (rt_event_repository S) cutoff) (\<lambda>deleted. ret deleted))"

text \<open>
  A purge removes exactly the events older than the retention window, at least a day, and answers how
  many they were; a second purge at the same time finds none.
\<close>

theorem retention_exact:
  assumes "event_store E ok events" "ok w"
  shows "\<exists>w'. purge_old_events (EventRetentionService E days c) (Some now) w =
       (Inr (int (length (events w)) - int (length (events w'))), w') \<and> ok w' \<and>
     events w' = filter (\<lambda>e. now - seconds (86400 * max days 1) \<le> ev_ts e) (events w) \<and>
     fst (purge_old_events (EventRetentionService E days c) (Some now) w') = Inr 0"
proof -
  let ?t = "now - seconds (86400 * max days 1)"
  have len: "length (filter (\<lambda>e. ev_ts e < ?t) es) + length (filter (\<lambda>e. ?t \<le> ev_ts e) es) = length es" for es
    using sum_length_filter_compl [of "\<lambda>e. ev_ts e < ?t" es] by (simp add: not_less)
  obtain w' where w': "er_purge_older_than E ?t w = (Inr (int (length (filter (\<lambda>e. ev_ts e < ?t) (events w)))), w')"
    "ok w'" "events w' = filter (\<lambda>e. ?t \<le> ev_ts e) (events w)"
    using event_store.purge [OF assms] by blast
  obtain w2 where "er_purge_older_than E ?t w' = (Inr (int (length (filter (\<lambda>e. ev_ts e < ?t) (events w')))), w2)"
    using event_store.purge [OF assms(1) w'(2)] by blast
  moreover have "filter (\<lambda>e. ev_ts e < ?t) (events w') = []" by (auto simp: w'(3) filter_empty_conv)
  ultimately show ?thesis using w' len [of "events w"]
    by (auto simp: purge_old_events_def EventRetentionService_def Let_def bnd_def)
qed

theorem retention_exact_witness:
  "\<exists>w'. purge_old_events (EventRetentionService (EventRepositoryImpl mem_events) 30 (ret 0)) (Some 0) [] = (Inr 0, w')"
  using retention_exact [OF me.store.event_store_axioms, of "[]" 30 "ret 0" 0] by auto

end
