(* ===== verification/Ingest_Service.thy ===== *)
theory Ingest_Service
  imports Incident_Manager Detectors Protect_Service Project_Repository Event_Repository
begin

text \<open>
  Event ingestion (\<open>app/application/services/ingest_event_service.py\<close>): an event is stored and counted,
  a model seen for the first time is announced, and the detectors run over the recent events of the
  provider; their signals become incidents, unless the project is under protection and a block of the
  provider is active. \<open>ig_now\<close> is \<open>now_provider\<close>.
\<close>

section \<open>The service\<close>

record 'w ingest_service =
  ig_events :: "'w event_repo"
  ig_counters :: "'w counter_store"
  ig_incidents :: "'w incident_repo"
  ig_projects :: "'w project_repo option"
  ig_dispatcher :: "'w transport_service option"
  ig_manager :: "'w incident_manager"
  ig_now :: "('w, datetime) py"
  ig_dedup_window_seconds :: int
  ig_retry_storm_window_seconds :: int
  ig_retry_storm_count :: int
  ig_loop_window_seconds :: int
  ig_loop_count :: int
  ig_loop_max_gap_seconds :: rat
  ig_loop_concurrency_threshold :: int
  ig_token_explosion_abs :: int
  ig_token_explosion_growth_ratio :: rat
  ig_token_explosion_growth_count :: int
  ig_token_explosion_growth_min_tokens :: int
  ig_token_explosion_concurrency_threshold :: int

text \<open>
  The constructor with the thresholds of \<open>AppConfig\<close>, its defaults; \<open>new_id\<close> and \<open>clock\<close> are
  \<open>str(uuid4())\<close> and \<open>datetime.now(timezone.utc)\<close>, which the incident manager calls.
\<close>

definition IngestEventService ::
  "'w event_repo \<Rightarrow> 'w counter_store \<Rightarrow> 'w incident_repo \<Rightarrow> int \<Rightarrow> 'w transport_service option \<Rightarrow>
   'w transport_service option \<Rightarrow> 'w project_repo option \<Rightarrow> ('w, datetime) py option \<Rightarrow>
   ('w, string) py \<Rightarrow> ('w, datetime) py \<Rightarrow> 'w ingest_service" where
  "IngestEventService E C I incident_dedup_window_seconds D T P now_provider new_id clock = \<lparr>
     ig_events = E, ig_counters = C, ig_incidents = I, ig_projects = P, ig_dispatcher = D,
     ig_manager = \<lparr> im_repository = I, im_dedup_window_seconds = incident_dedup_window_seconds,
       im_dispatcher = D, im_transport = T, im_new_id = new_id, im_clock = clock \<rparr>,
     ig_now = (case now_provider of None \<Rightarrow> clock | Some f \<Rightarrow> f),
     ig_dedup_window_seconds = incident_dedup_window_seconds,
     ig_retry_storm_window_seconds = c_retry_storm_window_seconds app_config,
     ig_retry_storm_count = c_retry_storm_count app_config,
     ig_loop_window_seconds = c_loop_window_seconds app_config,
     ig_loop_count = c_loop_count app_config,
     ig_loop_max_gap_seconds = c_loop_max_gap_seconds app_config,
     ig_loop_concurrency_threshold = c_loop_concurrency_threshold app_config,
     ig_token_explosion_abs = c_token_explosion_abs app_config,
     ig_token_explosion_growth_ratio = c_token_explosion_growth_ratio app_config,
     ig_token_explosion_growth_count = c_token_explosion_growth_count app_config,
     ig_token_explosion_growth_min_tokens = c_token_explosion_growth_min_tokens app_config,
     ig_token_explosion_concurrency_threshold = c_token_explosion_concurrency_threshold app_config \<rparr>"

text \<open>\<open>self._detector_registry\<close>.\<close>

definition ingest_detectors :: "(detection_context \<Rightarrow> signal list) list" where
  "ingest_detectors = [retry_storm_detect, loop_suspect_detect, token_explosion_detect]"

section \<open>Policy gaps\<close>

definition policy_gap_payload :: "event \<Rightarrow> string \<Rightarrow> string \<Rightarrow> datetime \<Rightarrow> pydict" where
  "policy_gap_payload e provider requested_model first_seen_at = [
     (''event'', PStr ''policy_gap.detected''), (''project_id'', PStr (ev_project_id e)),
     (''provider'', PStr provider), (''requested_model'', PStr requested_model),
     (''first_seen_at'', PStr (isoformat first_seen_at)), (''sent_at'', PStr (isoformat first_seen_at))]"

definition announce_policy_gap ::
  "'w ingest_service \<Rightarrow> 'w project_repo \<Rightarrow> event \<Rightarrow> string \<Rightarrow> string \<Rightarrow> datetime \<Rightarrow> ('w, unit) py" where
  "announce_policy_gap S P e provider requested_model first_seen_at =
     bnd (pp_get_project P (ev_project_id e)) (\<lambda>project.
     case ig_dispatcher S of
       None \<Rightarrow> ret ()
     | Some D \<Rightarrow> when_py (project \<noteq> None)
         (try_except (dispatcher_enqueue D (ev_project_id e)
              (policy_gap_payload e provider requested_model first_seen_at) ''policy_gap.detected'' None False)
            (\<lambda>_. ret ())))"

text \<open>A failure to record the pair is logged and answered as no new pair.\<close>

definition detect_policy_gap_if_needed :: "'w ingest_service \<Rightarrow> event \<Rightarrow> ('w, unit) py" where
  "detect_policy_gap_if_needed S e = (case ig_projects S of
     None \<Rightarrow> ret ()
   | Some P \<Rightarrow>
       let provider = strip (ev_provider e);
           requested_model = strip (opt_or (ev_requested_model e) [])
       in if provider = [] \<or> requested_model = [] then ret ()
          else bnd (ig_now S) (\<lambda>first_seen_at.
               bnd (try_except
                      (bnd (pp_record_model_first_seen P (ev_project_id e) provider requested_model first_seen_at)
                         (\<lambda>x. ret (Some x)))
                      (\<lambda>_. ret None)) (\<lambda>recorded.
               case recorded of
                 None \<Rightarrow> ret ()
               | Some (is_new_combination, had_existing_models) \<Rightarrow>
                   if \<not> is_new_combination then ret ()
                   else if \<not> had_existing_models then ret ()
                   else announce_policy_gap S P e provider requested_model first_seen_at)))"

section \<open>Detection\<close>

definition ingest_provider :: "event \<Rightarrow> string" where
  "ingest_provider e = or_str (strip (ev_provider e)) ''unknown''"

definition detection_context_of ::
  "'w ingest_service \<Rightarrow> event \<Rightarrow> string \<Rightarrow> project option \<Rightarrow> datetime \<Rightarrow> int \<Rightarrow> int \<Rightarrow> event list \<Rightarrow>
   detection_context" where
  "detection_context_of S e provider project now requests_60s tokens_60s recent_events = \<lparr>
     dc_project_id = ev_project_id e, dc_provider = provider,
     dc_requested_model = ev_requested_model e, dc_resolved_model = ev_resolved_model e,
     dc_environment = ev_environment e, dc_now = now,
     dc_current_requests_60s = requests_60s, dc_current_tokens_60s = tokens_60s,
     dc_req_cap = Option.bind project pr_max_req_per_min, dc_tok_cap = Option.bind project pr_max_tok_per_min,
     dc_protect_enabled = (case project of None \<Rightarrow> False | Some p \<Rightarrow> pr_protect_enabled p),
     dc_request_endpoint = ev_request_endpoint e, dc_request_feature = ev_request_feature e,
     dc_request_fingerprint = ev_request_fingerprint e,
     dc_estimated_next_tokens = Some (ev_total_tokens e),
     dc_token_explosion_tokens = ev_token_explosion_tokens e,
     dc_previous_estimated_tokens = resolve_previous_estimated_tokens recent_events provider
       (ev_requested_model e) (ev_request_endpoint e) (ev_request_feature e) (Some e),
     dc_current_event = Some e, dc_recent_events = recent_events,
     dc_retry_storm_window_seconds = ig_retry_storm_window_seconds S,
     dc_retry_storm_count = ig_retry_storm_count S,
     dc_loop_window_seconds = ig_loop_window_seconds S, dc_loop_count = ig_loop_count S,
     dc_loop_max_gap_seconds = ig_loop_max_gap_seconds S,
     dc_loop_concurrency_threshold = ig_loop_concurrency_threshold S,
     dc_token_explosion_abs = ig_token_explosion_abs S,
     dc_token_explosion_growth_ratio = ig_token_explosion_growth_ratio S,
     dc_token_explosion_growth_count = ig_token_explosion_growth_count S,
     dc_token_explosion_growth_min_tokens = ig_token_explosion_growth_min_tokens S,
     dc_token_explosion_concurrency_threshold = ig_token_explosion_concurrency_threshold S \<rparr>"

text \<open>The trigger is added to the evidence of every signal.\<close>

definition with_trigger :: "event \<Rightarrow> signal \<Rightarrow> signal" where
  "with_trigger e sg = sg\<lparr> sg_evidence :=
     dsetdefault ''trigger_request_fingerprint'' (opt_str (ev_request_fingerprint e))
    (dsetdefault ''trigger_request_feature'' (opt_str (ev_request_feature e))
    (dsetdefault ''trigger_request_endpoint'' (opt_str (ev_request_endpoint e))
    (dsetdefault ''trigger_event_ts'' (PStr (isoformat (ev_ts e)))
    (dsetdefault ''trigger_event_id'' (PStr (ev_id e)) (sg_evidence sg))))) \<rparr>"

definition active_block :: "datetime \<Rightarrow> incident \<Rightarrow> bool" where
  "active_block active_after r \<longleftrightarrow> in_type r = c_incident_type_block app_config \<and> seen_at r \<ge> active_after"

definition has_active_block_incident ::
  "'w ingest_service \<Rightarrow> string \<Rightarrow> string \<Rightarrow> datetime \<Rightarrow> ('w, bool) py" where
  "has_active_block_incident S project_id provider now =
     (let active_after = now - seconds (max (ig_dedup_window_seconds S) 1) in
      bnd (ir_list_open_by_project_provider (ig_incidents S) project_id provider) (\<lambda>incidents.
      ret (\<exists>r \<in> set incidents. active_block active_after r)))"

text \<open>The signals that are processed: under protection an active block leaves only those of blocks.\<close>

definition unblocked_signals ::
  "'w ingest_service \<Rightarrow> event \<Rightarrow> string \<Rightarrow> bool \<Rightarrow> signal list \<Rightarrow> ('w, signal list) py" where
  "unblocked_signals S e provider protect_enabled signals =
     (if \<not> protect_enabled then ret signals
      else bnd (ig_now S) (\<lambda>now.
           bnd (has_active_block_incident S (ev_project_id e) provider now) (\<lambda>blocked.
           ret (if blocked then filter (\<lambda>sg. sg_detector sg = c_incident_type_block app_config) signals
                else signals))))"

definition recent_limit :: "'w ingest_service \<Rightarrow> int" where
  "recent_limit S = max (ig_retry_storm_count S) (ig_loop_count S) + 8"

text \<open>From the counters to the signals.\<close>

definition detect_signals ::
  "'w ingest_service \<Rightarrow> event \<Rightarrow> string \<Rightarrow> project option \<Rightarrow> int \<Rightarrow> int \<Rightarrow> ('w, signal list) py" where
  "detect_signals S e provider project requests_60s tokens_60s =
     bnd (er_list_recent (ig_events S) (ev_project_id e) (recent_limit S) (Some provider)) (\<lambda>recent_events.
     bnd (ig_now S) (\<lambda>now.
     let ctx = detection_context_of S e provider project now requests_60s tokens_60s recent_events;
         signals = map (with_trigger e) (registry_detect ingest_detectors ctx)
     in unblocked_signals S e provider (dc_protect_enabled ctx) signals))"

section \<open>Ingestion\<close>

definition project_of_event :: "'w ingest_service \<Rightarrow> event \<Rightarrow> ('w, project option) py" where
  "project_of_event S e = (case ig_projects S of
     None \<Rightarrow> ret None | Some P \<Rightarrow> pp_get_project P (ev_project_id e))"

definition ingest :: "'w ingest_service \<Rightarrow> event \<Rightarrow> ('w, unit) py" where
  "ingest S e = logged
     (let provider = ingest_provider e;
          scoped_id = scoped_project_provider_id (ev_project_id e) (Some provider)
      in bnd (er_add (ig_events S) e) (\<lambda>_.
         bnd (cs_increment (ig_counters S) scoped_id (Some (ev_total_tokens e))) (\<lambda>_.
         bnd (cs_get (ig_counters S) scoped_id) (\<lambda>(requests_60s, tokens_60s).
         bnd (detect_policy_gap_if_needed S e) (\<lambda>_.
         bnd (project_of_event S e) (\<lambda>project.
         let mode = (case project of None \<Rightarrow> ''observe''
               | Some p \<Rightarrow> if pr_protect_enabled p then ''protect'' else ''observe'')
         in bnd (detect_signals S e provider project requests_60s tokens_60s) (\<lambda>signals.
            bnd (ig_now S) (\<lambda>now.
            process_signals (ig_manager S) (ev_project_id e) provider (ev_requested_model e)
              (ev_resolved_model e) (ev_environment e) now signals mode))))))))"

end
