(* ===== verification/Incident_Episodes.thy ===== *)
theory Incident_Episodes
  imports Incident_Manager
begin

text \<open>
  What the incident manager promises, over any store that keeps the incident contract: a run of
  signals of one fingerprint within an episode is one open incident, whose count is their number. The
  invariant of the whole life cycle is in \<open>Incident_Lifecycle\<close>, taking back the incident of a
  superseded block in \<open>Incident_Reconcile\<close>.
\<close>

section \<open>Preliminaries\<close>

definition store_view :: "('w \<Rightarrow> bool) \<Rightarrow> ('w \<Rightarrow> incident list) \<Rightarrow> 'w \<Rightarrow> bool \<times> incident list" where
  "store_view ok rows w = (ok w, rows w)"

text \<open>
  The manager's other collaborators: fresh ids, a clock, and notification services that do not touch
  the incidents.
\<close>

definition manager_env ::
  "('w \<Rightarrow> bool) \<Rightarrow> ('w \<Rightarrow> incident list) \<Rightarrow> 'w incident_manager \<Rightarrow> bool" where
  "manager_env ok rows M \<longleftrightarrow>
     (\<forall>w. ok w \<longrightarrow> (\<exists>i. im_new_id M w = (Inr i, w) \<and> i \<notin> in_id ` set (rows w))) \<and>
     never_raises (im_clock M) \<and> frame (store_view ok rows) (im_clock M) \<and>
     (\<forall>T. im_dispatcher M = Some T \<longrightarrow> transport_frame (store_view ok rows) T) \<and>
     (\<forall>T. im_transport M = Some T \<longrightarrow> transport_frame (store_view ok rows) T)"

lemma notifications_frame:
  assumes "manager_env ok rows M"
  shows "frame (store_view ok rows) (enqueue_detection_notifications M r mode)"
proof -
  have a: "frame (store_view ok rows) (im_clock M)"
    "\<And>T. im_dispatcher M = Some T \<Longrightarrow> transport_frame (store_view ok rows) T"
    "\<And>T. im_transport M = Some T \<Longrightarrow> transport_frame (store_view ok rows) T"
    using assms by (auto simp: manager_env_def)
  show ?thesis unfolding enqueue_detection_notifications_def Let_def
    by (auto intro!: frame_bnd frame_try a(1) dispatcher_enqueue_frame [OF a(2)] transport_enqueue_frame [OF a(3)]
        split: option.splits)
qed

lemma notifications_never_raise:
  assumes "manager_env ok rows M"
  shows "never_raises (enqueue_detection_notifications M r mode)"
  using assms unfolding enqueue_detection_notifications_def Let_def manager_env_def
  by (auto intro!: never_raises_bnd never_raises_try split: option.splits)

lemma notify:
  assumes "manager_env ok rows M" "ok w"
  obtains w' where "enqueue_detection_notifications M r mode w = (Inr (), w')" "ok w'" "rows w' = rows w"
proof -
  obtain w' where w': "enqueue_detection_notifications M r mode w = (Inr (), w')"
    using notifications_never_raise [OF assms(1), of r mode] by (metis never_raisesE old.unit.exhaust)
  then show thesis
    using that frameD [OF notifications_frame [OF assms(1)] w'] assms(2) by (simp add: store_view_def)
qed

lemma active_match_mono: "t \<le> t' \<Longrightarrow> active_match p v f t' r \<Longrightarrow> active_match p v f t r"
  by (auto simp: active_match_def)

lemma count_merge [simp]: "int_value (dget (merge_evidence r e) ''count'') = int_value (dget (in_evidence r) ''count'') + 1"
  by (simp add: merge_evidence_def next_count_def dget_dset int_value_def)

text \<open>The incident opened for a fingerprint.\<close>

definition fresh_incident ::
  "string \<Rightarrow> string \<Rightarrow> string \<Rightarrow> string \<Rightarrow> string \<Rightarrow> pydict \<Rightarrow> datetime \<Rightarrow> incident" where
  "fresh_incident i p v ty f e now = \<lparr> in_id = i, in_project_id = p, in_provider = v,
     in_type = ty, in_status = ''open'', in_created_at = now, in_resolved_at = None,
     in_evidence = dset ''count'' (PInt 1) e, in_fingerprint = Some f, in_last_seen_at = Some now \<rparr>"

definition touch :: "pydict \<Rightarrow> datetime \<Rightarrow> incident \<Rightarrow> incident" where
  "touch e t r = r\<lparr> in_evidence := e, in_last_seen_at := Some t \<rparr>"

context incident_store
begin

lemma upsert_new:
  assumes "manager_env ok rows M" "im_repository M = I" "ok w" "v \<noteq> []"
    and "\<forall>r \<in> set (rows w). \<not> active_match p v f after r"
  shows "\<exists>i w'. upsert_episode M p v ty f e now after mode w = (Inr (), w') \<and> ok w' \<and>
     i \<notin> in_id ` set (rows w) \<and> rows w' = rows w @ [fresh_incident i p v ty f e now]"
proof -
  obtain x where x: "ir_get_open_incident_by_fingerprint I p v f after w = (Inr x, w)"
    "case x of None \<Rightarrow> \<forall>r \<in> set (rows w). \<not> active_match p v f after r
       | Some r \<Rightarrow> r \<in> set (rows w) \<and> active_match p v f after r"
    using by_fingerprint [OF assms(3)] by blast
  then have none: "x = None" using assms(5) by (cases x) auto
  obtain i where i: "im_new_id M w = (Inr i, w)" "i \<notin> in_id ` set (rows w)"
    using assms(1,3) by (auto simp: manager_env_def)
  let ?r = "fresh_incident i p v ty f e now"
  have "in_id ?r \<notin> in_id ` set (rows w)" "row_ok ?r"
    using i(2) assms(4) by (simp_all add: fresh_incident_def row_ok_def)
  from create [OF assms(3) this] obtain w1 where w1:
    "ir_create_incident I ?r w = (Inr ?r, w1)" "ok w1" "rows w1 = rows w @ [?r]" by blast
  obtain w2 where w2: "enqueue_detection_notifications M ?r mode w1 = (Inr (), w2)" "ok w2" "rows w2 = rows w1"
    using notify [OF assms(1) w1(2)] .
  show ?thesis
    using x(1) none i w1 w2 assms(2)
    by (intro exI [of _ i] exI [of _ w2])
      (simp add: upsert_episode_def open_incident_def bnd_def Let_def flip: fresh_incident_def)
qed

lemma upsert_repeat:
  assumes "im_repository M = I" "ok w" "r0 \<in> set (rows w)" "active_match p v f after r0"
  shows "\<exists>r w'. upsert_episode M p v ty f e now after mode w = (Inr (), w') \<and> ok w' \<and>
     r \<in> set (rows w) \<and> active_match p v f after r \<and>
     rows w' = map_rows (\<lambda>x. in_id x = in_id r) (touch (merge_evidence r e) now) (rows w)"
proof -
  obtain x where x: "ir_get_open_incident_by_fingerprint I p v f after w = (Inr x, w)"
    "case x of None \<Rightarrow> \<forall>r \<in> set (rows w). \<not> active_match p v f after r
       | Some r \<Rightarrow> r \<in> set (rows w) \<and> active_match p v f after r"
    using by_fingerprint [OF assms(2)] by blast
  then obtain r where r: "x = Some r" "r \<in> set (rows w)" "active_match p v f after r"
    using assms(3,4) by (cases x) auto
  then have "is_open r" by (simp add: active_match_def)
  from update [OF assms(2) r(2) this, of "merge_evidence r e" now] obtain y w1 where
    "ir_update_open_incident_activity I (in_id r) (merge_evidence r e) now w = (Inr y, w1)" "ok w1"
    "rows w1 = map_rows (\<lambda>x. in_id x = in_id r) (touch (merge_evidence r e) now) (rows w)"
    unfolding touch_def by blast
  then show ?thesis using x(1) r assms(1) by (auto simp: upsert_episode_def bnd_def)
qed

end

section \<open>Episodes\<close>

text \<open>Signals with their times, processed one after the other.\<close>

definition run_signals ::
  "'w incident_manager \<Rightarrow> string \<Rightarrow> string \<Rightarrow> string \<Rightarrow> (datetime \<times> signal) list \<Rightarrow> ('w, unit) py" where
  "run_signals M p v mode xs =
     seq_all (map (\<lambda>(t, sg). process_signal M p v None None None t sg mode) xs)"

text \<open>Each signal comes within the episode window of the one before.\<close>

fun spaced :: "int \<Rightarrow> datetime \<Rightarrow> (datetime \<times> signal) list \<Rightarrow> bool" where
  "spaced W t [] = True"
| "spaced W t ((t', sg) # xs) = (t \<le> t' \<and> t' \<le> t + seconds W \<and> spaced W t' xs)"

definition same_episode ::
  "'w incident_manager \<Rightarrow> string \<Rightarrow> string \<Rightarrow> int \<Rightarrow> (datetime \<times> signal) list \<Rightarrow> bool" where
  "same_episode M ty f W xs \<longleftrightarrow> (\<forall>(t, sg) \<in> set xs. sg_detector sg = ty \<and> sg_fingerprint sg = f \<and>
     signal_episode_window_seconds sg (im_dedup_window_seconds M) = W)"

lemma run_signals_Cons:
  "run_signals M p v mode ((t, sg) # xs) =
     bnd (process_signal M p v None None None t sg mode) (\<lambda>_. run_signals M p v mode xs)"
  by (simp add: run_signals_def)

text \<open>The incident of an episode: \<open>n\<close> signals, the first at \<open>t0\<close>, the last at \<open>t\<close>.\<close>

definition episode_row ::
  "string \<Rightarrow> string \<Rightarrow> string \<Rightarrow> datetime \<Rightarrow> datetime \<Rightarrow> int \<Rightarrow> incident \<Rightarrow> bool" where
  "episode_row p v f t0 t n r \<longleftrightarrow> in_project_id r = p \<and> in_provider r = v \<and> is_open r \<and>
     in_fingerprint r = Some f \<and> in_created_at r = t0 \<and> in_last_seen_at r = Some t \<and>
     int_value (dget (in_evidence r) ''count'') = n"

lemma seconds_mono: "t \<le> t' \<Longrightarrow> t - seconds W \<le> t' - seconds W"
  by simp

context incident_store
begin

lemma episode_step:
  assumes "im_repository M = I" "ok w" "rows w = rs @ [r]" "episode_row p v f t0 t n r"
    and "\<forall>x \<in> set rs. \<not> active_match p v f (t - seconds W) x" "t \<le> t'" "t' \<le> t + seconds W"
  shows "\<exists>r' w'. upsert_episode M p v ty f e t' (t' - seconds W) mode w = (Inr (), w') \<and> ok w' \<and>
     rows w' = rs @ [r'] \<and> episode_row p v f t0 t' (n + 1) r'"
proof -
  have act: "active_match p v f (t' - seconds W) r"
    using assms(4,7) by (simp add: active_match_def episode_row_def seen_at_def)
  have mem: "r \<in> set (rows w)" using assms(3) by simp
  from upsert_repeat [OF assms(1,2) mem act] obtain x w1 where 1:
    "upsert_episode M p v ty f e t' (t' - seconds W) mode w = (Inr (), w1)" "ok w1" "x \<in> set (rows w)"
    "active_match p v f (t' - seconds W) x"
    "rows w1 = map_rows (\<lambda>y. in_id y = in_id x) (touch (merge_evidence x e) t') (rows w)" by blast
  have "x \<notin> set rs" using 1(4) assms(5,6) active_match_mono seconds_mono by blast
  then have x: "x = r" using 1(3) assms(3) by simp
  have "distinct (map in_id (rows w))" using rows_ok [OF assms(2)] by blast
  then have "\<forall>y \<in> set rs. in_id y \<noteq> in_id r" using assms(3) by (auto simp: rev_image_eqI)
  then have "rows w1 = rs @ [touch (merge_evidence r e) t' r]"
    using 1(5) assms(3) by (simp add: x map_rows_def cong: map_cong)
  moreover have "episode_row p v f t0 t' (n + 1) (touch (merge_evidence r e) t' r)"
    using assms(4) by (simp add: episode_row_def touch_def is_open_def)
  ultimately show ?thesis using 1(1,2) by blast
qed

lemma episode_tail:
  assumes "im_repository M = I" "ok w" "rows w = rs @ [r]" "episode_row p v f t0 t n r"
    and "\<forall>x \<in> set rs. \<not> active_match p v f (t - seconds W) x" "spaced W t xs" "same_episode M ty f W xs"
  shows "\<exists>r' w'. run_signals M p v mode xs w = (Inr (), w') \<and> ok w' \<and> rows w' = rs @ [r'] \<and>
     episode_row p v f t0 (last (t # map fst xs)) (n + int (length xs)) r'"
  using assms(2-7)
proof (induction xs arbitrary: w r t n)
  case (Cons x xs)
  obtain t' sg where x: "x = (t', sg)" by (cases x)
  have sp: "t \<le> t'" "t' \<le> t + seconds W" "spaced W t' xs" using Cons.prems(5) by (simp_all add: x)
  have sg: "sg_detector sg = ty" "sg_fingerprint sg = f"
    "signal_episode_window_seconds sg (im_dedup_window_seconds M) = W"
    using Cons.prems(6) by (simp_all add: same_episode_def x)
  from episode_step [OF assms(1) Cons.prems(1-4) sp(1,2)] obtain r1 w1 where 1:
    "process_signal M p v None None None t' sg mode w = (Inr (), w1)" "ok w1" "rows w1 = rs @ [r1]"
    "episode_row p v f t0 t' (n + 1) r1"
    unfolding process_signal_def Let_def sg by blast
  have "\<forall>x \<in> set rs. \<not> active_match p v f (t' - seconds W) x"
    using Cons.prems(4) sp(1) active_match_mono seconds_mono by blast
  moreover have "same_episode M ty f W xs" using Cons.prems(6) by (simp add: same_episode_def)
  ultimately obtain r2 w2 where "run_signals M p v mode xs w1 = (Inr (), w2)" "ok w2" "rows w2 = rs @ [r2]"
    "episode_row p v f t0 (last (t' # map fst xs)) (n + 1 + int (length xs)) r2"
    using Cons.IH [OF 1(2-4) _ sp(3)] by blast
  then show ?case using 1(1) by (auto simp: x run_signals_Cons bnd_def add.assoc)
qed (auto simp: run_signals_def)

end

text \<open>
  C10: an episode is one incident. When signals of one fingerprint arrive, each within the episode
  window of the one before, and none was active before, processing them stores exactly one new
  incident, whose count is the number of signals, created at the first and last seen at the last;
  all other incidents stay as they are. Fresh ids, and notification services that do not touch the
  incidents, are what this relies on; failures of the notifications do not matter.
\<close>

theorem episode_is_one_incident:
  assumes "incident_store I ok rows" "manager_env ok rows M" "im_repository M = I" "ok w" "v \<noteq> []"
    and "\<forall>x \<in> set (rows w). \<not> active_match p v f (t - seconds W) x"
    and "same_episode M ty f W ((t, sg) # xs)" "spaced W t xs"
  shows "\<exists>r w'. run_signals M p v mode ((t, sg) # xs) w = (Inr (), w') \<and> rows w' = rows w @ [r] \<and>
     episode_row p v f t (last (t # map fst xs)) (1 + int (length xs)) r"
proof -
  have sg: "sg_detector sg = ty" "sg_fingerprint sg = f"
    "signal_episode_window_seconds sg (im_dedup_window_seconds M) = W" "same_episode M ty f W xs"
    using assms(7) by (simp_all add: same_episode_def)
  from incident_store.upsert_new [OF assms(1-6)] obtain i e w1 where 1:
    "process_signal M p v None None None t sg mode w = (Inr (), w1)" "ok w1"
    "rows w1 = rows w @ [fresh_incident i p v ty f e t]"
    unfolding process_signal_def Let_def sg by blast
  have "episode_row p v f t t 1 (fresh_incident i p v ty f e t)"
    by (simp add: episode_row_def fresh_incident_def is_open_def dget_dset int_value_def)
  from incident_store.episode_tail [OF assms(1,3) 1(2,3) this assms(6,8) sg(4), of mode] 1(1)
  show ?thesis unfolding run_signals_Cons bnd_def by auto
qed

text \<open>A manager on the in-memory table without notification services.\<close>

definition example_manager :: "incident list incident_manager" where
  "example_manager = \<lparr> im_repository = IncidentRepositoryImpl mem_incidents (ret 0),
     im_dedup_window_seconds = 300, im_dispatcher = None, im_transport = None,
     im_new_id = (\<lambda>xs. (Inr (concat (map in_id xs) @ ''i''), xs)), im_clock = ret 0 \<rparr>"

abbreviation mem_ok :: "incident list \<Rightarrow> bool" where
  "mem_ok xs \<equiv> distinct (map in_id xs) \<and> (\<forall>r \<in> set xs. row_ok r)"

lemma concat_longer: "x \<in> set xs \<Longrightarrow> length x \<le> length (concat xs)"
  by (induction xs) auto

lemma example_env: "manager_env mem_ok (\<lambda>xs. xs) example_manager"
proof -
  have "concat (map in_id xs) @ ''i'' \<notin> in_id ` set xs" for xs :: "incident list"
  proof
    assume "concat (map in_id xs) @ ''i'' \<in> in_id ` set xs"
    then have "length (concat (map in_id xs) @ ''i'') \<le> length (concat (map in_id xs))"
      by (metis concat_longer list.set_map)
    then show False by simp
  qed
  then show ?thesis by (simp add: manager_env_def example_manager_def)
qed

definition example_signal :: signal where
  "example_signal = \<lparr> sg_detector = ''retry_storm'', sg_scope_provider = ''openai'', sg_fingerprint = ''fp'',
     sg_evidence = [(''reason'', PStr ''retry_storm'')], sg_episode_window_seconds = Some 60, sg_tags = [] \<rparr>"

theorem episode_is_one_incident_witness:
  "\<exists>r w'. run_signals example_manager ''p'' ''openai'' ''observe''
       [(100000000, example_signal), (150000000, example_signal), (200000000, example_signal)] [] = (Inr (), w') \<and>
     w' = [r] \<and> episode_row ''p'' ''openai'' ''fp'' 100000000 200000000 3 r"
  using episode_is_one_incident [OF mem_store_ok [of 0] example_env, of "[]" "''openai''" "''p''" "''fp''" 100000000 60
      "''retry_storm''" example_signal "[(150000000, example_signal), (200000000, example_signal)]" "''observe''"]
  by (simp add: example_manager_def same_episode_def example_signal_def signal_episode_window_seconds_def seconds_def)

end
