(* ===== verification/Input_Validation.thy ===== *)
theory Input_Validation
  imports Config
begin

text \<open>
  Sanitizing of what users type (\<open>app/application/input_validation.py\<close>) and the text handling of
  ingest keys (\<open>app/security/ingest_keys.py\<close>). SHA-256 and the key generator are parameters of the
  services. A regular expression is written out as the condition it stands for: the text is stripped
  before the match, so it has no final newline that \<open>$\<close> would overlook.
\<close>

section \<open>Names and e-mail addresses\<close>

definition name_char :: "char \<Rightarrow> bool" where
  "name_char c \<longleftrightarrow> (let n = of_char c :: int in
     65 \<le> n \<and> n \<le> 90 \<or> 97 \<le> n \<and> n \<le> 122 \<or> 48 \<le> n \<and> n \<le> 57) \<or> c \<in> set '' _.-''"

definition sanitize_name :: "string \<Rightarrow> string \<Rightarrow> exn + string" where
  "sanitize_name value field_name =
     (let normalized = strip value in
      if normalized = [] then Inl (HTTPException 400 (field_name @ '' is required''))
      else if int (length normalized) > c_name_max_length app_config
        then Inl (HTTPException 400 (field_name @ '' must be <= '' @ py_str_int (c_name_max_length app_config) @ '' chars''))
      else if \<exists>c \<in> set (c_control_chars app_config). c \<in> set normalized
        then Inl (HTTPException 400 (field_name @ '' contains invalid characters''))
      else if \<not> list_all name_char normalized
        then Inl (HTTPException 400 (field_name @ '' has invalid format''))
      else Inr normalized)"

definition sanitize_project_name :: "string \<Rightarrow> exn + string" where
  "sanitize_project_name value = sanitize_name value ''project name''"

definition sanitize_key_label :: "string \<Rightarrow> exn + string" where
  "sanitize_key_label value = sanitize_name value ''key label''"

text \<open>\<open>^[^@\s]+@[^@\s]+\.[^@\s]+$\<close>: a part, one \<open>@\<close>, and a part with an inner dot.\<close>

definition email_format :: "string \<Rightarrow> bool" where
  "email_format s \<longleftrightarrow>
     (let local = takeWhile (\<lambda>c. c \<noteq> CHR ''@'') s; domain = drop (length local + 1) s in
      CHR ''@'' \<in> set s \<and> local \<noteq> [] \<and> CHR ''@'' \<notin> set domain \<and> \<not> list_ex is_space s \<and>
      (\<exists>i \<in> set [1..<length domain - 1]. domain ! i = CHR ''.''))"

definition sanitize_email :: "string \<Rightarrow> exn + string" where
  "sanitize_email value =
     (let normalized = lower (strip value) in
      if normalized = [] then Inl (HTTPException 400 ''email is required'')
      else if int (length normalized) > c_email_max_length app_config then Inl (HTTPException 400 ''email is too long'')
      else if \<exists>c \<in> set (c_control_chars app_config). c \<in> set normalized
        then Inl (HTTPException 400 ''email contains invalid characters'')
      else if \<not> email_format normalized then Inl (HTTPException 400 ''invalid email format'')
      else Inr normalized)"

section \<open>Ingest keys\<close>

definition normalize_ingest_key :: "string \<Rightarrow> string" where
  "normalize_ingest_key plaintext =
     (let value = strip_char (CHR 39) (strip_char (CHR 34) (strip plaintext));
          value = (if startswith value ''RHEONIC_INGEST_KEY=''
            then strip_char (CHR 39) (strip_char (CHR 34) (strip (drop (length ''RHEONIC_INGEST_KEY='') value)))
            else value)
      in strip value)"

text \<open>\<open>plaintext[-4:]\<close>.\<close>

definition last4 :: "string \<Rightarrow> string" where
  "last4 plaintext = drop (length plaintext - 4) plaintext"

section \<open>What is accepted\<close>

lemma control_not_name: "\<not> name_char (CHR 0x0D)" "\<not> name_char (CHR 0x0A)" "\<not> name_char (CHR 0x09)"
  by code_simp+

lemma refused_controls:
  "list_all name_char s \<Longrightarrow> c \<in> set (c_control_chars app_config) \<Longrightarrow> c \<notin> set s"
  using control_not_name by (auto simp: list_all_iff)

lemma list_all_not_ex: "list_all P xs \<longleftrightarrow> \<not> list_ex (\<lambda>x. \<not> P x) xs"
  by (simp add: list_all_iff list_ex_iff)

text \<open>
  An accepted name is one to eighty letters, digits, blanks, underscores, dots and hyphens without
  surrounding blanks, and accepting it again changes nothing; everything else is refused with a 400.
\<close>

theorem accepted_names:
  "case sanitize_name value field of
     Inr s \<Rightarrow> s = strip value \<and> 1 \<le> length s \<and> length s \<le> 80 \<and> list_all name_char s \<and> sanitize_name s field = Inr s
   | Inl e \<Rightarrow> (\<exists>d. e = HTTPException 400 d) \<and>
       (strip value = [] \<or> 80 < length (strip value) \<or> list_ex (\<lambda>c. \<not> name_char c) (strip value))"
proof (cases "sanitize_name value field")
  case (Inl e)
  then show ?thesis using refused_controls [of "strip value"]
    by (auto simp: sanitize_name_def Let_def list_all_not_ex split: if_splits)
next
  case (Inr s)
  then show ?thesis by (auto simp: sanitize_name_def Let_def Suc_le_eq split: if_splits)
qed

end
