(* ===== verification/Project_Service.thy ===== *)
theory Project_Service
  imports Project_Repository Input_Validation
begin

text \<open>
  The services for projects and ingest keys (\<open>app/application/services/project_service.py\<close>,
  \<open>ingest_key_service.py\<close>): every operation of a user is confined to the user's own projects, and a
  key works from its creation until it is revoked, rotated or its project is deleted.
\<close>

section \<open>Projects\<close>

text \<open>\<open>new_id\<close> is \<open>str(uuid4())\<close>, \<open>clock\<close> is \<open>datetime.now(timezone.utc)\<close>.\<close>

record 'w project_service =
  pv_repository :: "'w project_repo"
  pv_new_id :: "('w, string) py"
  pv_clock :: "('w, datetime) py"

definition service_list_projects :: "'w project_service \<Rightarrow> string \<Rightarrow> ('w, project list) py" where
  "service_list_projects S user_id = logged (pp_list_projects_for_user (pv_repository S) user_id)"

definition ensure_project_owned_by_user :: "'w project_repo \<Rightarrow> string \<Rightarrow> string \<Rightarrow> ('w, project) py" where
  "ensure_project_owned_by_user R project_id user_id =
     bnd (pp_get_project R project_id) (\<lambda>project. case project of
       None \<Rightarrow> raise (HTTPException 404 ''project not found'')
     | Some p \<Rightarrow> if pr_user_id p \<noteq> Some user_id then raise (HTTPException 404 ''project not found'') else ret p)"

definition service_list_providers :: "'w project_service \<Rightarrow> string \<Rightarrow> string \<Rightarrow> ('w, string list) py" where
  "service_list_providers S project_id user_id =
     bnd (ensure_project_owned_by_user (pv_repository S) project_id user_id) (\<lambda>_.
     pp_list_project_providers (pv_repository S) project_id)"

text \<open>A new project: the defaults of the domain model, protection off.\<close>

definition service_create_project :: "'w project_service \<Rightarrow> string \<Rightarrow> string \<Rightarrow> ('w, project) py" where
  "service_create_project S name user_id =
     logged (bnd (py_raise_sum (sanitize_project_name name)) (\<lambda>normalized_name.
     bnd (pp_get_project_by_name_for_user (pv_repository S) normalized_name user_id) (\<lambda>existing.
     if existing \<noteq> None then raise (HTTPException 409 ''project name already exists'')
     else bnd (pv_new_id S) (\<lambda>i. bnd (pv_clock S) (\<lambda>now.
       pp_create_project (pv_repository S)
         \<lparr> pr_id = i, pr_name = normalized_name, pr_user_id = Some user_id, pr_created_at = now,
           pr_protect_enabled = False, pr_protect_fail_mode = ''open'', pr_apply_clamp = False,
           pr_max_req_per_min = None, pr_max_tok_per_min = None, pr_webhook_enabled = False,
           pr_email_enabled = False, pr_webhook_url = None \<rparr>)))))"

definition service_get_settings :: "'w project_service \<Rightarrow> string \<Rightarrow> string \<Rightarrow> ('w, project) py" where
  "service_get_settings S project_id user_id =
     ensure_project_owned_by_user (pv_repository S) project_id user_id"

definition found_or_404 :: "string \<Rightarrow> 'a option \<Rightarrow> ('w, 'a) py" where
  "found_or_404 what x = (case x of None \<Rightarrow> raise (HTTPException 404 (what @ '' not found'')) | Some a \<Rightarrow> ret a)"

definition service_update_protect_settings ::
  "'w project_service \<Rightarrow> string \<Rightarrow> string \<Rightarrow> bool \<Rightarrow> string \<Rightarrow> bool \<Rightarrow> int option \<Rightarrow> int option \<Rightarrow>
   ('w, project) py" where
  "service_update_protect_settings S project_id user_id enabled fail_mode apply_clamp max_req max_tok =
     bnd (ensure_project_owned_by_user (pv_repository S) project_id user_id) (\<lambda>_.
     bnd (pp_update_protect_settings (pv_repository S) project_id enabled fail_mode apply_clamp max_req max_tok)
       (found_or_404 ''project''))"

definition service_update_webhook_settings ::
  "'w project_service \<Rightarrow> string \<Rightarrow> string \<Rightarrow> bool \<Rightarrow> bool \<Rightarrow> string option \<Rightarrow> ('w, project) py" where
  "service_update_webhook_settings S project_id user_id webhook_enabled email_enabled webhook_url =
     bnd (service_get_settings S project_id user_id) (\<lambda>_.
     bnd (pp_update_webhook_settings (pv_repository S) project_id webhook_enabled email_enabled webhook_url)
       (found_or_404 ''project''))"

definition service_delete_project :: "'w project_service \<Rightarrow> string \<Rightarrow> string \<Rightarrow> ('w, unit) py" where
  "service_delete_project S project_id user_id =
     bnd (ensure_project_owned_by_user (pv_repository S) project_id user_id) (\<lambda>_.
     bnd (pp_delete_project (pv_repository S) project_id) (\<lambda>deleted.
     if \<not> deleted then raise (HTTPException 404 ''project not found'') else ret ()))"

section \<open>Ingest keys\<close>

text \<open>\<open>generate\<close> is \<open>secrets.token_urlsafe(32)\<close>, \<open>hash\<close> is the hexadecimal SHA-256 of the key.\<close>

record 'w ingest_key_service =
  kv_keys :: "'w ingest_key_repo"
  kv_projects :: "'w project_repo"
  kv_hash :: "string \<Rightarrow> string"
  kv_generate :: "('w, string) py"
  kv_new_id :: "('w, string) py"
  kv_clock :: "('w, datetime) py"

definition resolve_project :: "'w ingest_key_service \<Rightarrow> string \<Rightarrow> ('w, project option) py" where
  "resolve_project S plaintext_key =
     bnd (kr_get_active_by_hash (kv_keys S) (kv_hash S plaintext_key)) (\<lambda>key. case key of
       None \<Rightarrow> ret None
     | Some k \<Rightarrow> bnd (pp_get_project (kv_projects S) (ik_project_id k)) (\<lambda>project. case project of
         None \<Rightarrow> ret None
       | Some p \<Rightarrow> ret (if pr_user_id p = None then None else Some p)))"

definition resolve_project_id :: "'w ingest_key_service \<Rightarrow> string \<Rightarrow> ('w, string option) py" where
  "resolve_project_id S plaintext_key =
     bnd (resolve_project S plaintext_key) (\<lambda>project. ret (map_option pr_id project))"

definition key_project_owned :: "'w ingest_key_service \<Rightarrow> string \<Rightarrow> string \<Rightarrow> ('w, unit) py" where
  "key_project_owned S project_id user_id =
     bnd (pp_get_project (kv_projects S) project_id) (\<lambda>project.
     if Option.bind project pr_user_id \<noteq> Some user_id
     then raise (HTTPException 404 ''project not found'') else ret ())"

definition service_list_keys :: "'w ingest_key_service \<Rightarrow> string \<Rightarrow> string \<Rightarrow> ('w, ingest_key list) py" where
  "service_list_keys S project_id user_id =
     bnd (key_project_owned S project_id user_id) (\<lambda>_. kr_list_by_project (kv_keys S) project_id)"

definition service_create_key ::
  "'w ingest_key_service \<Rightarrow> string \<Rightarrow> string \<Rightarrow> string \<Rightarrow> ('w, ingest_key \<times> string) py" where
  "service_create_key S project_id name user_id =
     bnd (key_project_owned S project_id user_id) (\<lambda>_.
     bnd (py_raise_sum (sanitize_key_label name)) (\<lambda>normalized_name.
     bnd (kv_generate S) (\<lambda>plaintext.
     bnd (kv_clock S) (\<lambda>now.
     bnd (kv_new_id S) (\<lambda>i.
     bnd (kr_create_key (kv_keys S)
         \<lparr> ik_id = i, ik_project_id = project_id, ik_name = normalized_name,
           ik_key_hash = kv_hash S plaintext, ik_last4 = Some (last4 plaintext), ik_status = ''active'',
           ik_created_at = now, ik_revoked_at = None \<rparr>) (\<lambda>created.
     ret (created, plaintext)))))))"

definition service_revoke_key :: "'w ingest_key_service \<Rightarrow> string \<Rightarrow> string \<Rightarrow> ('w, ingest_key) py" where
  "service_revoke_key S key_id user_id =
     bnd (kr_get_by_id (kv_keys S) key_id) (\<lambda>found. case found of
       None \<Rightarrow> raise (HTTPException 404 ''key not found'')
     | Some existing \<Rightarrow>
         bnd (key_project_owned S (ik_project_id existing) user_id) (\<lambda>_.
         if ik_status existing = ''revoked'' then ret existing
         else bnd (kv_clock S) (\<lambda>now. bnd (kr_revoke_key (kv_keys S) key_id now) (found_or_404 ''key''))))"

definition service_rotate_key ::
  "'w ingest_key_service \<Rightarrow> string \<Rightarrow> string \<Rightarrow> ('w, ingest_key \<times> string) py" where
  "service_rotate_key S key_id user_id =
     bnd (kr_get_by_id (kv_keys S) key_id) (\<lambda>found. case found of
       None \<Rightarrow> raise (HTTPException 404 ''key not found'')
     | Some existing \<Rightarrow>
         bnd (key_project_owned S (ik_project_id existing) user_id) (\<lambda>_.
         bnd (service_revoke_key S key_id user_id) (\<lambda>_.
         service_create_key S (ik_project_id existing) (ik_name existing) user_id)))"

end
