(* ===== verification/Key_Lifecycle.thy ===== *)
theory Key_Lifecycle
  imports Project_Service
begin

text \<open>
  What the project and ingest key services promise over the database: a key resolves to its project
  until it is revoked, rotated or the project is deleted, and nobody touches a project of another user.
  The contract \<open>project_db\<close> is the one of the five tables, which do not interfere.
\<close>

section \<open>The contract\<close>

locale project_db =
    P: db_contract "pt_projects T" ok projects pr_id project_clash +
    M: db_contract "pt_models T" ok models pm_id model_clash +
    K: db_contract "pt_keys T" ok keys ik_id key_clash +
    E: db_contract "pt_events T" ok events ev_id "\<lambda>r x. ev_id r = ev_id x" +
    I: db_contract "pt_incidents T" ok incidents in_id "\<lambda>r x. in_id r = in_id x"
  for T :: "'w project_tables" and ok projects models keys events incidents +
  assumes projects_frame: "frame (\<lambda>w. (models w, keys w, events w, incidents w)) (db_delete (pt_projects T) A)"
    and models_frame: "frame (\<lambda>w. (projects w, keys w, events w, incidents w)) (db_delete (pt_models T) B)"
    and keys_frame: "frame (\<lambda>w. (projects w, models w, events w, incidents w)) (db_delete (pt_keys T) C)"
      "frame projects (db_add (pt_keys T) k)" "frame projects (db_save (pt_keys T) ks)"
    and events_frame: "frame (\<lambda>w. (projects w, models w, keys w, incidents w)) (db_delete (pt_events T) D)"
    and incidents_frame: "frame (\<lambda>w. (projects w, models w, keys w, events w)) (db_delete (pt_incidents T) F)"

text \<open>
  The services on these tables; drawing an id, a key or the time leaves the tables as they are, ids are
  fresh, and a generated key's hash is not stored yet.
\<close>

definition key_env ::
  "'w project_tables \<Rightarrow> ('w \<Rightarrow> bool) \<Rightarrow> ('w \<Rightarrow> project list) \<Rightarrow> ('w \<Rightarrow> ingest_key list) \<Rightarrow> 'w ingest_key_service \<Rightarrow> bool" where
  "key_env T ok projects keys S \<longleftrightarrow>
     kv_keys S = IngestKeyRepositoryImpl (pt_keys T) \<and> kv_projects S = ProjectRepositoryImpl T \<and>
     (\<forall>w. ok w \<longrightarrow>
       (\<exists>p w'. kv_generate S w = (Inr p, w') \<and> ok w' \<and> projects w' = projects w \<and> keys w' = keys w \<and>
          kv_hash S p \<notin> ik_key_hash ` set (keys w)) \<and>
       (\<exists>i w'. kv_new_id S w = (Inr i, w') \<and> ok w' \<and> projects w' = projects w \<and> keys w' = keys w \<and>
          i \<notin> ik_id ` set (keys w)) \<and>
       (\<exists>t w'. kv_clock S w = (Inr t, w') \<and> ok w' \<and> projects w' = projects w \<and> keys w' = keys w))"

text \<open>The project a key hash stands for.\<close>

definition active_key :: "string \<Rightarrow> ingest_key \<Rightarrow> bool" where
  "active_key h k \<longleftrightarrow> ik_key_hash k = h \<and> ik_status k = ''active''"

definition key_project :: "project list \<Rightarrow> ingest_key list \<Rightarrow> string \<Rightarrow> project option" where
  "key_project ps ks h = (case first_row (filter (active_key h) ks) of
     None \<Rightarrow> None
   | Some k \<Rightarrow> (case first_row (filter (\<lambda>p. pr_id p = ik_project_id k) ps) of
       None \<Rightarrow> None
     | Some p \<Rightarrow> if pr_user_id p = None then None else Some (project_to_domain p)))"

lemma project_to_domain_simps [simp]:
  "pr_id (project_to_domain p) = pr_id p" "pr_user_id (project_to_domain p) = pr_user_id p"
  by (simp_all add: project_to_domain_def)

lemma first_row_unique:
  assumes "distinct (map key xs)" "x \<in> set xs" "\<And>y. y \<in> set xs \<Longrightarrow> P y \<longleftrightarrow> key y = key x"
  shows "first_row (filter P xs) = Some x"
proof -
  have "filter P xs = filter (\<lambda>y. key y = key x) xs" using assms(3) by (intro filter_cong) simp_all
  then show ?thesis using filter_key [OF assms(1,2), of "\<lambda>_. True"] by (simp add: first_row_def)
qed

lemma active_key_unique:
  assumes "distinct (map ik_key_hash ks)" "k \<in> set ks" "active_key h k"
  shows "first_row (filter (active_key h) ks) = Some k"
proof -
  have "filter (active_key h) ks = filter (\<lambda>y. ik_key_hash y = ik_key_hash k \<and> ik_status y = ''active'') ks"
    using assms(3) by (intro filter_cong) (auto simp: active_key_def)
  then show ?thesis
    using filter_key [OF assms(1,2), of "\<lambda>y. ik_status y = ''active''"] assms(3)
    by (simp add: first_row_def active_key_def)
qed

definition unique_hashes :: "ingest_key list \<Rightarrow> bool" where
  "unique_hashes ks \<longleftrightarrow> distinct (map ik_key_hash ks)"

definition owned :: "project list \<Rightarrow> string \<Rightarrow> string \<Rightarrow> bool" where
  "owned ps pid u \<longleftrightarrow> Option.bind (first_row (filter (\<lambda>p. pr_id p = pid) ps)) pr_user_id = Some u"

definition revoked_at :: "datetime \<Rightarrow> ingest_key \<Rightarrow> ingest_key" where
  "revoked_at t k = k\<lparr> ik_status := ''revoked'', ik_revoked_at := Some t \<rparr>"

definition replace_key :: "ingest_key \<Rightarrow> ingest_key list \<Rightarrow> ingest_key list" where
  "replace_key k' ks = map (\<lambda>x. if ik_id x = ik_id k' then k' else x) ks"

lemma revoked_at_simps [simp]:
  "ik_id (revoked_at t k) = ik_id k" "ik_key_hash (revoked_at t k) = ik_key_hash k"
  "\<not> active_key h (revoked_at t k)"
  by (simp_all add: revoked_at_def active_key_def)

lemma hashes_replace_key:
  assumes "k \<in> set ks" "ik_id k = ik_id k'" "ik_key_hash k = ik_key_hash k'" "distinct (map ik_id ks)"
  shows "map ik_key_hash (replace_key k' ks) = map ik_key_hash ks"
  using assms by (auto simp: replace_key_def distinct_map inj_on_def)

context project_db
begin

lemma get_project_row:
  "ok w \<Longrightarrow> get_project T pid w =
     (Inr (map_option project_to_domain (first_row (filter (\<lambda>r. pr_id r = pid) (projects w)))), w)"
  by (simp add: get_project_def P.select)

lemma resolve_project_row:
  assumes "ok w" "key_env T ok projects keys S"
  shows "resolve_project S plain w = (Inr (key_project (projects w) (keys w) (kv_hash S plain)), w)"
proof -
  have "get_active_by_hash (pt_keys T) h w = (Inr (first_row (filter (active_key h) (keys w))), w)" for h
    using assms(1) by (simp add: get_active_by_hash_def K.select active_key_def cong: filter_cong)
  then show ?thesis using assms get_project_row [OF assms(1)]
    by (auto simp: resolve_project_def key_env_def IngestKeyRepositoryImpl_def ProjectRepositoryImpl_def bnd_def
        key_project_def split: option.splits)
qed

lemma key_project_owned_row:
  assumes "ok w" "key_env T ok projects keys S"
  shows "key_project_owned S pid u w =
     (if owned (projects w) pid u then Inr () else Inl (HTTPException 404 ''project not found''), w)"
  using assms get_project_row [OF assms(1), of pid]
  by (cases "first_row (filter (\<lambda>r. pr_id r = pid) (projects w))")
    (auto simp: key_project_owned_def key_env_def ProjectRepositoryImpl_def bnd_def owned_def)

lemma create_key_row:
  assumes "ok w" "key_env T ok projects keys S" "owned (projects w) pid u" "sanitize_key_label name = Inr n"
  shows "\<exists>i p t w'. service_create_key S pid name u w =
      (Inr (\<lparr> ik_id = i, ik_project_id = pid, ik_name = n, ik_key_hash = kv_hash S p, ik_last4 = Some (last4 p),
             ik_status = ''active'', ik_created_at = t, ik_revoked_at = None \<rparr>, p), w') \<and>
     ok w' \<and> projects w' = projects w \<and> i \<notin> ik_id ` set (keys w) \<and> kv_hash S p \<notin> ik_key_hash ` set (keys w) \<and>
     keys w' = keys w @ [\<lparr> ik_id = i, ik_project_id = pid, ik_name = n, ik_key_hash = kv_hash S p,
       ik_last4 = Some (last4 p), ik_status = ''active'', ik_created_at = t, ik_revoked_at = None \<rparr>]"
proof -
  note env = assms(2) [unfolded key_env_def]
  obtain p w1 where p: "kv_generate S w = (Inr p, w1)" "ok w1" "projects w1 = projects w" "keys w1 = keys w"
    "kv_hash S p \<notin> ik_key_hash ` set (keys w)" using env assms(1) by blast
  obtain t w2 where t: "kv_clock S w1 = (Inr t, w2)" "ok w2" "projects w2 = projects w" "keys w2 = keys w"
    using env p(2-4) by metis
  obtain i w3 where i: "kv_new_id S w2 = (Inr i, w3)" "ok w3" "projects w3 = projects w" "keys w3 = keys w"
    "i \<notin> ik_id ` set (keys w)" using env t(2-4) by metis
  define k where "k = \<lparr> ik_id = i, ik_project_id = pid, ik_name = n, ik_key_hash = kv_hash S p,
       ik_last4 = Some (last4 p), ik_status = ''active'', ik_created_at = t, ik_revoked_at = None \<rparr>"
  have "\<forall>x \<in> set (keys w3). \<not> key_clash k x" using i(4,5) p(5) by (auto simp: key_clash_def k_def)
  from K.add_new [OF i(2) this] obtain w4 where w4: "db_add (pt_keys T) k w3 = (Inr (), w4)" "ok w4"
    "keys w4 = keys w @ [k]" using i(4) by auto
  have "projects w4 = projects w" using frameD [OF keys_frame(2) w4(1)] i(3) by simp
  moreover have "service_create_key S pid name u w = (Inr (k, p), w4)"
    using key_project_owned_row [OF assms(1,2), of pid u] assms(3,4) p(1) t(1) i(1) w4(1) env
    by (simp add: service_create_key_def bnd_def py_raise_sum_def IngestKeyRepositoryImpl_def create_key_def
        flip: k_def)
  ultimately show ?thesis using w4 i(5) p(5) unfolding k_def by blast
qed

lemma revoke_key_row:
  assumes "ok w" "key_env T ok projects keys S" "k \<in> set (keys w)" "owned (projects w) (ik_project_id k) u"
    and "ik_status k \<noteq> ''revoked''"
  shows "\<exists>t w'. service_revoke_key S (ik_id k) u w =
      (Inr (revoked_at t k), w') \<and> ok w' \<and> projects w' = projects w \<and>
     keys w' = replace_key (revoked_at t k) (keys w)"
proof -
  note env = assms(2) [unfolded key_env_def]
  obtain t w1 where t: "kv_clock S w = (Inr t, w1)" "ok w1" "projects w1 = projects w" "keys w1 = keys w"
    using env assms(1) by metis
  have row: "first_row (filter (\<lambda>r. ik_id r = ik_id k) (keys w)) = Some k"
    by (rule first_row_unique [of ik_id, OF K.distinct_keys [OF assms(1)] assms(3)]) simp
  let ?k = "k\<lparr> ik_status := ''revoked'', ik_revoked_at := Some t \<rparr>"
  from K.save [OF t(2), of "[?k]"] obtain w2 where w2: "db_save (pt_keys T) [?k] w1 = (Inr (), w2)" "ok w2"
    "keys w2 = map (\<lambda>x. if ik_id x = ik_id k then ?k else x) (keys w)"
    using t(4) by (auto simp: replace_one)
  have pw: "projects w2 = projects w" using frameD [OF keys_frame(3) w2(1)] t(3) by simp
  have "service_revoke_key S (ik_id k) u w = (Inr ?k, w2)"
    using key_project_owned_row [OF assms(1,2), of "ik_project_id k" u] assms(4,5) row t(1) w2(1) env
      K.select [OF assms(1)] K.select [OF t(2)] t(4)
    by (simp add: service_revoke_key_def bnd_def IngestKeyRepositoryImpl_def get_key_by_id_def revoke_key_def
        found_or_404_def Let_def)
  then show ?thesis using w2 pw by (auto simp: revoked_at_def replace_key_def)
qed

lemma rotate_key_row:
  assumes "ok w" "key_env T ok projects keys S" "k \<in> set (keys w)" "owned (projects w) (ik_project_id k) u"
    and "ik_status k = ''active''" "sanitize_key_label (ik_name k) = Inr n"
  shows "\<exists>t k' new w'. service_rotate_key S (ik_id k) u w = (Inr (k', new), w') \<and>
     ok w' \<and> projects w' = projects w \<and> keys w' = replace_key (revoked_at t k) (keys w) @ [k'] \<and>
     active_key (kv_hash S new) k' \<and> ik_project_id k' = ik_project_id k \<and>
     kv_hash S new \<notin> ik_key_hash ` set (replace_key (revoked_at t k) (keys w))"
proof -
  have row: "first_row (filter (\<lambda>r. ik_id r = ik_id k) (keys w)) = Some k"
    by (rule first_row_unique [of ik_id, OF K.distinct_keys [OF assms(1)] assms(3)]) simp
  obtain t w1 where 1: "service_revoke_key S (ik_id k) u w = (Inr (revoked_at t k), w1)" "ok w1"
    "projects w1 = projects w" "keys w1 = replace_key (revoked_at t k) (keys w)"
    using revoke_key_row [OF assms(1-4)] assms(5) by auto
  have "owned (projects w1) (ik_project_id k) u" using 1(3) assms(4) by simp
  from create_key_row [OF 1(2) assms(2) this assms(6)] obtain i p t' w2 where 2:
    "service_create_key S (ik_project_id k) (ik_name k) u w1 =
      (Inr (\<lparr> ik_id = i, ik_project_id = ik_project_id k, ik_name = n, ik_key_hash = kv_hash S p,
         ik_last4 = Some (last4 p), ik_status = ''active'', ik_created_at = t', ik_revoked_at = None \<rparr>, p), w2)"
    "ok w2" "projects w2 = projects w1" "kv_hash S p \<notin> ik_key_hash ` set (keys w1)"
    "keys w2 = keys w1 @ [\<lparr> ik_id = i, ik_project_id = ik_project_id k, ik_name = n, ik_key_hash = kv_hash S p,
         ik_last4 = Some (last4 p), ik_status = ''active'', ik_created_at = t', ik_revoked_at = None \<rparr>]" by blast
  have "service_rotate_key S (ik_id k) u w = service_create_key S (ik_project_id k) (ik_name k) u w1"
    using row 1(1) assms(2,4) key_project_owned_row [OF assms(1,2)] K.select [OF assms(1)]
    by (simp add: service_rotate_key_def bnd_def key_env_def IngestKeyRepositoryImpl_def get_key_by_id_def)
  then show ?thesis using 1(3,4) 2
    by (intro exI [of _ t] exI [of _ p] exI [of _ w2] exI) (auto simp: active_key_def)
qed

end

section \<open>An in-memory database\<close>

record mem_db =
  md_projects :: "project list"
  md_models :: "project_model list"
  md_keys :: "ingest_key list"
  md_events :: "event list"
  md_incidents :: "incident list"

definition mem_tables :: "mem_db project_tables" where
  "mem_tables = \<lparr>
     pt_projects = list_table md_projects (\<lambda>xs w. w\<lparr> md_projects := xs \<rparr>) pr_id project_clash,
     pt_models = list_table md_models (\<lambda>xs w. w\<lparr> md_models := xs \<rparr>) pm_id model_clash,
     pt_keys = list_table md_keys (\<lambda>xs w. w\<lparr> md_keys := xs \<rparr>) ik_id key_clash,
     pt_events = list_table md_events (\<lambda>xs w. w\<lparr> md_events := xs \<rparr>) ev_id (\<lambda>r x. ev_id r = ev_id x),
     pt_incidents = list_table md_incidents (\<lambda>xs w. w\<lparr> md_incidents := xs \<rparr>) in_id (\<lambda>r x. in_id r = in_id x),
     pt_new_id = (\<lambda>w. (Inr (CHR ''x'' # concat (map pm_id (md_models w))), w)) \<rparr>"

definition mem_db_ok :: "mem_db \<Rightarrow> bool" where
  "mem_db_ok w \<longleftrightarrow> distinct (map pr_id (md_projects w)) \<and> distinct (map pm_id (md_models w)) \<and>
     distinct (map ik_id (md_keys w)) \<and> distinct (map ev_id (md_events w)) \<and> distinct (map in_id (md_incidents w))"

interpretation md: project_db mem_tables mem_db_ok md_projects md_models md_keys md_events md_incidents
  by unfold_locales
    (auto simp: mem_tables_def list_table_def mem_db_ok_def frame_def project_clash_def model_clash_def
      key_clash_def distinct_map_filter rev_image_eqI)

definition mem_keys :: "mem_db ingest_key_service" where
  "mem_keys = \<lparr> kv_keys = IngestKeyRepositoryImpl (pt_keys mem_tables), kv_projects = ProjectRepositoryImpl mem_tables,
     kv_hash = (\<lambda>s. s), kv_generate = (\<lambda>w. (Inr (CHR ''x'' # concat (map ik_key_hash (md_keys w))), w)),
     kv_new_id = (\<lambda>w. (Inr (CHR ''x'' # concat (map ik_id (md_keys w))), w)), kv_clock = ret 0 \<rparr>"

lemma mem_key_env: "key_env mem_tables mem_db_ok md_projects md_keys mem_keys"
  by (simp add: key_env_def mem_keys_def longer_than_all_map)

section \<open>The life of a key\<close>

lemma key_project_new:
  assumes "distinct (map ik_key_hash ks)" "k \<in> set ks" "active_key h k" "owned ps (ik_project_id k) u"
    "first_row (filter (\<lambda>p. pr_id p = ik_project_id k) ps) = Some p"
  shows "key_project ps ks h = Some (project_to_domain p)"
  using assms(4,5) active_key_unique [OF assms(1-3)] by (simp add: key_project_def owned_def)

lemma key_project_none: "\<forall>k \<in> set ks. \<not> active_key h k \<Longrightarrow> key_project ps ks h = None"
  by (simp add: key_project_def filter_False)

lemma key_project_append:
  "\<not> active_key h k \<Longrightarrow> key_project ps (ks @ [k]) h = key_project ps ks h"
  by (simp add: key_project_def)

lemma filter_map_same:
  "(\<And>x. x \<in> set xs \<Longrightarrow> f x = x \<or> \<not> P x \<and> \<not> P (f x)) \<Longrightarrow> filter P (map f xs) = filter P xs"
  by (induction xs) fastforce+

text \<open>Revoking a key affects no other hash.\<close>

lemma key_project_revoke:
  assumes "ik_key_hash k \<noteq> h" "k \<in> set ks" "distinct (map ik_id ks)" "ik_key_hash k' = ik_key_hash k"
    "ik_id k' = ik_id k"
  shows "key_project ps (replace_key k' ks) h = key_project ps ks h"
proof -
  have "filter (active_key h) (replace_key k' ks) = filter (active_key h) ks"
    unfolding replace_key_def using assms
    by (intro filter_map_same) (auto simp: active_key_def distinct_map inj_on_def)
  then show ?thesis by (simp add: key_project_def)
qed

text \<open>Deleting a project: its keys resolve to nothing, the others as before.\<close>

lemma first_row_filter_unique:
  assumes "\<And>x y. x \<in> set xs \<Longrightarrow> y \<in> set xs \<Longrightarrow> P x \<Longrightarrow> P y \<Longrightarrow> Q x = Q y"
  shows "first_row (filter P (filter Q xs)) = (case first_row (filter P xs) of
     Some x \<Rightarrow> if Q x then Some x else None | None \<Rightarrow> None)"
proof (cases "filter P xs")
  case Nil
  then have "filter P (filter Q xs) = []" by (auto simp: filter_empty_conv)
  then show ?thesis using Nil by simp
next
  case (Cons x rest)
  then have x: "x \<in> set xs" "P x" by (metis Cons_eq_filterD in_set_conv_decomp, metis Cons_eq_filterD)
  have "filter P (filter Q xs) = filter (\<lambda>y. P y \<and> Q x) xs"
    unfolding filter_filter
  proof (rule filter_cong [OF refl])
    fix y assume "y \<in> set xs"
    then show "(Q y \<and> P y) = (P y \<and> Q x)" using assms [of x y] x by blast
  qed
  then show ?thesis using Cons by (simp add: first_row_def)
qed

lemma key_project_delete:
  assumes "unique_hashes ks"
  shows "key_project (filter (\<lambda>r. pr_id r \<noteq> pid) ps) (filter (\<lambda>r. ik_project_id r \<noteq> pid) ks) h =
     (case key_project ps ks h of Some p \<Rightarrow> if pr_id p = pid then None else Some p | None \<Rightarrow> None)"
proof -
  have k: "first_row (filter (active_key h) (filter (\<lambda>r. ik_project_id r \<noteq> pid) ks)) =
      (case first_row (filter (active_key h) ks) of
         Some x \<Rightarrow> if ik_project_id x \<noteq> pid then Some x else None | None \<Rightarrow> None)"
  proof (rule first_row_filter_unique)
    fix x y
    assume "x \<in> set ks" "y \<in> set ks" "active_key h x" "active_key h y"
    then have "x = y" using assms by (metis active_key_def distinct_map inj_onD unique_hashes_def)
    then show "(ik_project_id x \<noteq> pid) = (ik_project_id y \<noteq> pid)" by simp
  qed
  have p: "first_row (filter (\<lambda>p. pr_id p = i) (filter (\<lambda>r. pr_id r \<noteq> pid) ps)) =
      (case first_row (filter (\<lambda>p. pr_id p = i) ps) of
         Some x \<Rightarrow> if pr_id x \<noteq> pid then Some x else None | None \<Rightarrow> None)" for i
    by (intro first_row_filter_unique) auto
  have i: "first_row (filter (\<lambda>p. pr_id p = i) ps) = Some x \<Longrightarrow> pr_id x = i" for i x
    using first_row_Some by fastforce
  show ?thesis
  proof (cases "first_row (filter (active_key h) ks)")
    case (Some x)
    then show ?thesis using i [of "ik_project_id x"] unfolding key_project_def k p
      by (cases "first_row (filter (\<lambda>p. pr_id p = ik_project_id x) ps)") auto
  qed (simp add: key_project_def k del: filter_filter)
qed

text \<open>
  C24: rotating a key replaces it: the owner gets a new key that resolves to the same project, the old
  key resolves to no project any more, and every other key resolves as before.
\<close>

theorem rotation_replaces_key:
  assumes "project_db T ok projects models keys events incidents" "key_env T ok projects keys S" "ok w"
    and "unique_hashes (keys w)" "k \<in> set (keys w)" "active_key (kv_hash S old) k"
    and "first_row (filter (\<lambda>p. pr_id p = ik_project_id k) (projects w)) = Some p" "pr_user_id p = Some u"
    and "sanitize_key_label (ik_name k) = Inr n"
  shows "\<exists>k' new w'. service_rotate_key S (ik_id k) u w = (Inr (k', new), w') \<and>
     resolve_project S old w = (Inr (Some (project_to_domain p)), w) \<and>
     resolve_project S old w' = (Inr None, w') \<and>
     resolve_project S new w' = (Inr (Some (project_to_domain p)), w') \<and>
     (\<forall>other. if kv_hash S other \<in> {kv_hash S old, kv_hash S new} then True
        else fst (resolve_project S other w') = fst (resolve_project S other w))"
proof -
  have row: "kv_hash S old = ik_key_hash k" "ik_status k = ''active''"
    using assms(6) by (simp_all add: active_key_def)
  have own: "owned (projects w) (ik_project_id k) u" using assms(7,8) by (simp add: owned_def)
  note resolve = project_db.resolve_project_row [OF assms(1) _ assms(2)]
  note ids = db_contract.distinct_keys [OF project_db.axioms(3) [OF assms(1)] assms(3)]
  obtain t k' new w' where r: "service_rotate_key S (ik_id k) u w = (Inr (k', new), w')" "ok w'"
    "projects w' = projects w" "keys w' = replace_key (revoked_at t k) (keys w) @ [k']"
    "active_key (kv_hash S new) k'" "ik_project_id k' = ik_project_id k"
    "kv_hash S new \<notin> ik_key_hash ` set (replace_key (revoked_at t k) (keys w))"
    using project_db.rotate_key_row [OF assms(1,3,2,5) own row(2) assms(9)] by blast
  have hs: "map ik_key_hash (replace_key (revoked_at t k) (keys w)) = map ik_key_hash (keys w)"
    using assms(5) ids by (intro hashes_replace_key) simp_all
  have d: "distinct (map ik_key_hash (keys w'))"
    using r(4,5,7) assms(4) hs by (simp add: unique_hashes_def active_key_def flip: set_map)
  have neq: "kv_hash S new \<noteq> kv_hash S old"
    using r(7) hs row(1) assms(5) by (metis image_eqI list.set_map)
  have "key_project (projects w) (keys w) (kv_hash S old) = Some (project_to_domain p)"
    using key_project_new [OF _ assms(5,6) own assms(7)] assms(4) by (simp add: unique_hashes_def)
  moreover have "key_project (projects w') (keys w') (kv_hash S new) = Some (project_to_domain p)"
    using key_project_new [OF d _ r(5)] own assms(7) r(3,4,6) by simp
  moreover have "key_project (projects w') (keys w') (kv_hash S old) = None"
  proof (rule key_project_none, rule ballI)
    fix x assume x: "x \<in> set (keys w')"
    show "\<not> active_key (kv_hash S old) x"
    proof
      assume a: "active_key (kv_hash S old) x"
      then have "x \<noteq> k'" using neq r(5) by (auto simp: active_key_def)
      then obtain y where y: "y \<in> set (keys w)" "x = (if ik_id y = ik_id k then revoked_at t k else y)"
        using x r(4) by (auto simp: replace_key_def)
      then have "x = y" using a by (auto split: if_splits)
      moreover from this have "ik_key_hash y = ik_key_hash k" using a row(1) by (simp add: active_key_def)
      then have "y = k" using assms(4,5) y(1) by (auto simp: unique_hashes_def distinct_map inj_on_def)
      ultimately show False using y(2) a revoked_at_simps(3) [of "kv_hash S old" t k] by simp
    qed
  qed
  moreover have "key_project (projects w') (keys w') h = key_project (projects w) (keys w) h"
    if "h \<noteq> kv_hash S old" "h \<noteq> kv_hash S new" for h
    using that r(3-5) row(1) key_project_revoke [of k h "keys w" "revoked_at t k"] assms(5) ids
    by (simp add: key_project_append active_key_def)
  ultimately show ?thesis using r(1,2) resolve [OF assms(3)] resolve [OF r(2)]
    by (intro exI [of _ k'] exI [of _ new] exI [of _ w']) simp
qed

definition demo_project :: project where
  "demo_project = \<lparr> pr_id = ''p1'', pr_name = ''demo'', pr_user_id = Some ''u1'', pr_created_at = 0,
     pr_protect_enabled = True, pr_protect_fail_mode = ''open'', pr_apply_clamp = True,
     pr_max_req_per_min = Some 10, pr_max_tok_per_min = Some 1000, pr_webhook_enabled = False,
     pr_email_enabled = False, pr_webhook_url = None \<rparr>"

definition demo_key :: ingest_key where
  "demo_key = \<lparr> ik_id = ''k1'', ik_project_id = ''p1'', ik_name = ''prod'', ik_key_hash = ''secret'',
     ik_last4 = Some ''cret'', ik_status = ''active'', ik_created_at = 0, ik_revoked_at = None \<rparr>"

definition demo_db :: mem_db where
  "demo_db = \<lparr> md_projects = [demo_project], md_models = [], md_keys = [demo_key], md_events = [], md_incidents = [] \<rparr>"

lemma demo_key_name: "sanitize_key_label ''prod'' = Inr ''prod''"
  by code_simp

theorem rotation_replaces_key_witness:
  "\<exists>k' new w'. service_rotate_key mem_keys ''k1'' ''u1'' demo_db = (Inr (k', new), w') \<and>
     resolve_project mem_keys ''secret'' demo_db = (Inr (Some demo_project), demo_db) \<and>
     resolve_project mem_keys ''secret'' w' = (Inr None, w') \<and>
     resolve_project mem_keys new w' = (Inr (Some demo_project), w')"
proof -
  have d: "project_to_domain demo_project = demo_project" "ik_id demo_key = ''k1''" "mem_db_ok demo_db"
    "unique_hashes (md_keys demo_db)" "demo_key \<in> set (md_keys demo_db)"
    "active_key (kv_hash mem_keys ''secret'') demo_key" "pr_user_id demo_project = Some ''u1''"
    "first_row (filter (\<lambda>p. pr_id p = ik_project_id demo_key) (md_projects demo_db)) = Some demo_project"
    "sanitize_key_label (ik_name demo_key) = Inr ''prod''"
    by (simp_all add: demo_project_def demo_key_def demo_db_def project_to_domain_def mem_db_ok_def
        unique_hashes_def active_key_def mem_keys_def first_row_def or_str_def demo_key_name)
  show ?thesis
    using rotation_replaces_key [OF md.project_db_axioms mem_key_env d(3-6,8,7,9)] unfolding d(1,2) by blast
qed

section \<open>Tenancy\<close>

context project_db
begin

lemma not_owned_404:
  assumes "ok w" "\<not> owned (projects w) pid u"
  shows "ensure_project_owned_by_user (ProjectRepositoryImpl T) pid u w =
     (Inl (HTTPException 404 ''project not found''), w)"
  using assms(2) get_project_row [OF assms(1), of pid]
  by (cases "first_row (filter (\<lambda>r. pr_id r = pid) (projects w))")
    (auto simp: ensure_project_owned_by_user_def ProjectRepositoryImpl_def bnd_def owned_def)

lemma key_row: "ok w \<Longrightarrow> k \<in> set (keys w) \<Longrightarrow> get_key_by_id (pt_keys T) (ik_id k) w = (Inr (Some k), w)"
  using first_row_unique [of ik_id, OF K.distinct_keys] by (simp add: get_key_by_id_def K.select)

end


definition mem_projects :: "mem_db project_service" where
  "mem_projects = \<lparr> pv_repository = ProjectRepositoryImpl mem_tables, pv_new_id = ret ''p2'', pv_clock = ret 0 \<rparr>"


section \<open>Deletion\<close>

context project_db
begin

lemma delete_project_rows:
  assumes "ok w" "p \<in> set (projects w)" "pr_id p = pid"
  shows "\<exists>w'. delete_project T pid w = (Inr True, w') \<and> ok w' \<and>
     events w' = filter (\<lambda>r. ev_project_id r \<noteq> pid) (events w) \<and>
     incidents w' = filter (\<lambda>r. in_project_id r \<noteq> pid) (incidents w) \<and>
     keys w' = filter (\<lambda>r. ik_project_id r \<noteq> pid) (keys w) \<and>
     models w' = filter (\<lambda>r. pm_project_id r \<noteq> pid) (models w) \<and>
     projects w' = filter (\<lambda>r. pr_id r \<noteq> pid) (projects w)"
proof -
  have found: "filter (\<lambda>r. pr_id r = pid) (projects w) \<noteq> []" using assms(2,3) by (auto simp: filter_empty_conv)
  obtain n1 w1 where 1: "db_delete (pt_events T) (\<lambda>r. ev_project_id r = pid) w = (Inr n1, w1)" "ok w1"
    "events w1 = filter (\<lambda>r. ev_project_id r \<noteq> pid) (events w)" using E.delete [OF assms(1)] by blast
  obtain n2 w2 where 2: "db_delete (pt_incidents T) (\<lambda>r. in_project_id r = pid) w1 = (Inr n2, w2)" "ok w2"
    "incidents w2 = filter (\<lambda>r. in_project_id r \<noteq> pid) (incidents w1)" using I.delete [OF 1(2)] by blast
  obtain n3 w3 where 3: "db_delete (pt_keys T) (\<lambda>r. ik_project_id r = pid) w2 = (Inr n3, w3)" "ok w3"
    "keys w3 = filter (\<lambda>r. ik_project_id r \<noteq> pid) (keys w2)" using K.delete [OF 2(2)] by blast
  obtain n4 w4 where 4: "db_delete (pt_models T) (\<lambda>r. pm_project_id r = pid) w3 = (Inr n4, w4)" "ok w4"
    "models w4 = filter (\<lambda>r. pm_project_id r \<noteq> pid) (models w3)" using M.delete [OF 3(2)] by blast
  obtain n5 w5 where 5: "db_delete (pt_projects T) (\<lambda>r. pr_id r = pid) w4 = (Inr n5, w5)" "ok w5"
    "projects w5 = filter (\<lambda>r. pr_id r \<noteq> pid) (projects w4)" using P.delete [OF 4(2)] by blast
  have f: "models w1 = models w" "keys w1 = keys w" "projects w1 = projects w" "incidents w1 = incidents w"
    "models w2 = models w1" "keys w2 = keys w1" "projects w2 = projects w1" "events w2 = events w1"
    "models w3 = models w2" "events w3 = events w2" "projects w3 = projects w2" "incidents w3 = incidents w2"
    "keys w4 = keys w3" "events w4 = events w3" "projects w4 = projects w3" "incidents w4 = incidents w3"
    "models w5 = models w4" "keys w5 = keys w4" "events w5 = events w4" "incidents w5 = incidents w4"
    using frameD [OF events_frame 1(1)] frameD [OF incidents_frame 2(1)] frameD [OF keys_frame(1) 3(1)]
      frameD [OF models_frame 4(1)] frameD [OF projects_frame 5(1)] by simp_all
  show ?thesis
    using found 1 2 3 4 5 f P.select [OF assms(1)]
    by (intro exI [of _ w5]) (simp add: delete_project_def transaction_def bnd_def)
qed

end

text \<open>
  Deleting a project removes exactly its own rows, in all five tables, and its keys stop working;
  the rows of other projects stay, and so do their keys.
\<close>

theorem deletion_is_scoped:
  assumes "project_db T ok projects models keys events incidents" "key_env T ok projects keys K" "ok w"
    and "pv_repository S = ProjectRepositoryImpl T" "owned (projects w) pid u" "unique_hashes (keys w)"
  shows "\<exists>w'. service_delete_project S pid u w = (Inr (), w') \<and>
     events w' = filter (\<lambda>r. ev_project_id r \<noteq> pid) (events w) \<and>
     incidents w' = filter (\<lambda>r. in_project_id r \<noteq> pid) (incidents w) \<and>
     keys w' = filter (\<lambda>r. ik_project_id r \<noteq> pid) (keys w) \<and>
     models w' = filter (\<lambda>r. pm_project_id r \<noteq> pid) (models w) \<and>
     projects w' = filter (\<lambda>r. pr_id r \<noteq> pid) (projects w) \<and>
     (\<forall>plain. fst (resolve_project K plain w') = (case fst (resolve_project K plain w) of
        Inr (Some p) \<Rightarrow> if pr_id p = pid then Inr None else Inr (Some p) | r \<Rightarrow> r))"
proof -
  obtain p where row: "first_row (filter (\<lambda>p. pr_id p = pid) (projects w)) = Some p" "pr_user_id p = Some u"
    using assms(5) by (auto simp: owned_def bind_eq_Some_conv)
  then have p: "p \<in> set (projects w)" "pr_id p = pid" using first_row_Some [OF row(1)] by simp_all
  obtain w' where w': "delete_project T pid w = (Inr True, w')" "ok w'"
    "events w' = filter (\<lambda>r. ev_project_id r \<noteq> pid) (events w)"
    "incidents w' = filter (\<lambda>r. in_project_id r \<noteq> pid) (incidents w)"
    "keys w' = filter (\<lambda>r. ik_project_id r \<noteq> pid) (keys w)"
    "models w' = filter (\<lambda>r. pm_project_id r \<noteq> pid) (models w)"
    "projects w' = filter (\<lambda>r. pr_id r \<noteq> pid) (projects w)"
    using project_db.delete_project_rows [OF assms(1,3) p(1,2)] by blast
  note resolve = project_db.resolve_project_row [OF assms(1) _ assms(2)]
  have res: "key_project (projects w') (keys w') h = (case key_project (projects w) (keys w) h of
      Some p \<Rightarrow> if pr_id p = pid then None else Some p | None \<Rightarrow> None)" for h
    using key_project_delete [OF assms(6), of pid "projects w" h] w'(5,7) by simp
  have "service_delete_project S pid u w = (Inr (), w')"
    using row w'(1) assms(4) project_db.get_project_row [OF assms(1,3), of pid]
    by (simp add: service_delete_project_def ensure_project_owned_by_user_def ProjectRepositoryImpl_def bnd_def)
  then show ?thesis using w' resolve [OF assms(3)] resolve [OF w'(2)] res
    by (intro exI [of _ w']) (auto split: option.splits)
qed

theorem deletion_is_scoped_witness:
  "\<exists>w'. service_delete_project mem_projects ''p1'' ''u1'' demo_db = (Inr (), w') \<and> md_keys w' = [] \<and>
     md_projects w' = [] \<and> fst (resolve_project mem_keys ''secret'' w') = Inr None"
proof -
  have d: "mem_db_ok demo_db" "pv_repository mem_projects = ProjectRepositoryImpl mem_tables"
    "owned (md_projects demo_db) ''p1'' ''u1''" "unique_hashes (md_keys demo_db)"
    by (simp_all add: demo_project_def demo_key_def demo_db_def mem_db_ok_def owned_def first_row_def mem_projects_def
        unique_hashes_def)
  have r: "fst (resolve_project mem_keys ''secret'' demo_db) = Inr (Some demo_project)"
    using md.resolve_project_row [OF d(1) mem_key_env, of "''secret''"]
    by (simp add: key_project_def mem_keys_def demo_db_def active_key_def demo_key_def demo_project_def
        first_row_def project_to_domain_def or_str_def)
  obtain w' where "service_delete_project mem_projects ''p1'' ''u1'' demo_db = (Inr (), w')"
    "md_keys w' = filter (\<lambda>r. ik_project_id r \<noteq> ''p1'') (md_keys demo_db)"
    "md_projects w' = filter (\<lambda>r. pr_id r \<noteq> ''p1'') (md_projects demo_db)"
    "fst (resolve_project mem_keys ''secret'' w') = (case fst (resolve_project mem_keys ''secret'' demo_db) of
        Inr (Some p) \<Rightarrow> if pr_id p = ''p1'' then Inr None else Inr (Some p) | r \<Rightarrow> r)"
    using deletion_is_scoped [OF md.project_db_axioms mem_key_env d] by blast
  then show ?thesis by (simp add: r) (simp add: demo_db_def demo_key_def demo_project_def)
qed

end
