(* ===== verification/Ingest_Facts.thy ===== *)
theory Ingest_Facts
  imports Ingest_Service Incident_Episodes Key_Lifecycle
begin

text \<open>
  What ingestion promises, over any event store and incident store that keep their contracts: every
  signal of the detectors becomes or refreshes an incident and nothing else changes, an active block
  of a protected project silences them, and which events detection can see.
\<close>

section \<open>Collaborators that leave a view of the world alone\<close>

definition manager_frame :: "('w \<Rightarrow> 'v) \<Rightarrow> 'w incident_manager \<Rightarrow> bool" where
  "manager_frame v M \<longleftrightarrow> frame v (im_new_id M) \<and> frame v (im_clock M) \<and>
     (\<forall>p pr f t. frame v (ir_get_open_incident_by_fingerprint (im_repository M) p pr f t)) \<and>
     (\<forall>i e t. frame v (ir_update_open_incident_activity (im_repository M) i e t)) \<and>
     (\<forall>r. frame v (ir_create_incident (im_repository M) r)) \<and>
     (\<forall>T. im_dispatcher M = Some T \<longrightarrow> transport_frame v T) \<and>
     (\<forall>T. im_transport M = Some T \<longrightarrow> transport_frame v T)"

definition inputs_frame :: "('w \<Rightarrow> 'v) \<Rightarrow> 'w ingest_service \<Rightarrow> bool" where
  "inputs_frame v S \<longleftrightarrow> frame v (ig_now S) \<and>
     (\<forall>s n. frame v (cs_increment (ig_counters S) s n)) \<and> (\<forall>s. frame v (cs_get (ig_counters S) s)) \<and>
     (\<forall>P. ig_projects S = Some P \<longrightarrow> (\<forall>p. frame v (pp_get_project P p)) \<and>
        (\<forall>a b c d. frame v (pp_record_model_first_seen P a b c d))) \<and>
     (\<forall>D. ig_dispatcher S = Some D \<longrightarrow> transport_frame v D)"

definition inputs_answer :: "'w ingest_service \<Rightarrow> bool" where
  "inputs_answer S \<longleftrightarrow> never_raises (ig_now S) \<and>
     (\<forall>s n. never_raises (cs_increment (ig_counters S) s n)) \<and> (\<forall>s. never_raises (cs_get (ig_counters S) s)) \<and>
     (\<forall>P. ig_projects S = Some P \<longrightarrow> (\<forall>p. never_raises (pp_get_project P p)))"

lemma process_signals_frame:
  assumes "manager_frame v M"
  shows "frame v (process_signals M p pr rm sm env now sgs mode)"
proof -
  have a: "frame v (im_new_id M)" "frame v (im_clock M)"
    "\<And>p pr f t. frame v (ir_get_open_incident_by_fingerprint (im_repository M) p pr f t)"
    "\<And>i e t. frame v (ir_update_open_incident_activity (im_repository M) i e t)"
    "\<And>r. frame v (ir_create_incident (im_repository M) r)"
    "\<And>T. im_dispatcher M = Some T \<Longrightarrow> transport_frame v T"
    "\<And>T. im_transport M = Some T \<Longrightarrow> transport_frame v T"
    using assms by (auto simp: manager_frame_def)
  have n: "frame v (enqueue_detection_notifications M r mode)" for r
    unfolding enqueue_detection_notifications_def Let_def
    by (auto intro!: frame_bnd frame_try a(2) dispatcher_enqueue_frame [OF a(6)] transport_enqueue_frame [OF a(7)]
        split: option.splits)
  have "frame v (process_signal M p pr rm sm env now sg mode)" for sg
    unfolding process_signal_def upsert_episode_def open_incident_def Let_def
    by (intro frame_bnd frame_option frame_ret a n)
  then show ?thesis unfolding process_signals_def by (intro seq_all_frame) auto
qed

lemma policy_gap_frame:
  assumes "inputs_frame v S"
  shows "frame v (detect_policy_gap_if_needed S e)"
proof (cases "ig_projects S")
  case None
  then show ?thesis by (simp add: detect_policy_gap_if_needed_def)
next
  case (Some P)
  have a: "frame v (ig_now S)" "\<And>p. frame v (pp_get_project P p)"
    "\<And>a b c d. frame v (pp_record_model_first_seen P a b c d)"
    "\<And>D. ig_dispatcher S = Some D \<Longrightarrow> transport_frame v D"
    using assms Some by (auto simp: inputs_frame_def)
  have g: "frame v (announce_policy_gap S P e pr m t)" for pr m t
    unfolding announce_policy_gap_def
    by (cases "ig_dispatcher S") (auto intro!: frame_bnd frame_when frame_try a dispatcher_enqueue_frame)
  show ?thesis unfolding detect_policy_gap_if_needed_def Let_def Some option.case
    by (intro frame_if frame_bnd frame_try frame_option frame_prod frame_ret a g)
qed

lemma policy_gap_answers:
  assumes "inputs_answer S"
  shows "never_raises (detect_policy_gap_if_needed S e)"
proof (cases "ig_projects S")
  case None
  then show ?thesis by (simp add: detect_policy_gap_if_needed_def)
next
  case (Some P)
  have a: "never_raises (ig_now S)" "\<And>p. never_raises (pp_get_project P p)"
    using assms Some by (auto simp: inputs_answer_def)
  have g: "never_raises (announce_policy_gap S P e pr m t)" for pr m t
    unfolding announce_policy_gap_def
    by (cases "ig_dispatcher S") (auto intro!: never_raises_bnd never_raises_when never_raises_try a)
  show ?thesis unfolding detect_policy_gap_if_needed_def Let_def Some option.case
    by (auto intro!: never_raises_bnd never_raises_try a g split: option.split prod.split)
qed

lemma project_frame: "inputs_frame v S \<Longrightarrow> frame v (project_of_event S e)"
  by (auto simp: project_of_event_def inputs_frame_def split: option.split)

lemma project_answers: "inputs_answer S \<Longrightarrow> never_raises (project_of_event S e)"
  by (auto simp: project_of_event_def inputs_answer_def split: option.split)

section \<open>Signals and incidents\<close>

lemma provider_nonempty [simp]: "ingest_provider e \<noteq> []"
  by (simp add: ingest_provider_def)

lemma detector_types:
  "sg \<in> set (registry_detect ingest_detectors ctx) \<Longrightarrow>
     sg_detector sg \<in> {''retry_storm'', ''loop_suspect'', ''token_explosion''}"
  by (auto simp: registry_detect_def ingest_detectors_def retry_storm_detect_def loop_suspect_detect_def
      token_explosion_detect_def Let_def split: if_splits option.splits)

lemma with_trigger_fields [simp]:
  "sg_fingerprint (with_trigger e sg) = sg_fingerprint sg" "sg_detector (with_trigger e sg) = sg_detector sg"
  "sg_episode_window_seconds (with_trigger e sg) = sg_episode_window_seconds sg"
  by (simp_all add: with_trigger_def)

text \<open>
  What processing signals of fingerprints \<open>fs\<close> may do to the stored incidents: each has an incident
  seen now, incidents of other fingerprints stay, and whatever is new or changed is one of theirs.
\<close>

definition raised :: "string \<Rightarrow> string \<Rightarrow> datetime \<Rightarrow> string set \<Rightarrow> incident list \<Rightarrow> incident list \<Rightarrow> bool" where
  "raised p v now fs rs rs' \<longleftrightarrow>
     (\<forall>f \<in> fs. \<exists>r \<in> set rs'. active_match p v f now r) \<and>
     (\<forall>r \<in> set rs. in_fingerprint r \<notin> Some ` fs \<longrightarrow> r \<in> set rs') \<and>
     (\<forall>r \<in> set rs'. r \<in> set rs \<or> (\<exists>f \<in> fs. active_match p v f now r)) \<and>
     (\<forall>f. (\<exists>r \<in> set rs. active_match p v f now r) \<longrightarrow> (\<exists>r \<in> set rs'. active_match p v f now r))"

lemma raised_refl: "raised p v now {} rs rs"
  by (auto simp: raised_def)

lemma raised_trans:
  "raised p v now F rs rs' \<Longrightarrow> raised p v now G rs' rs'' \<Longrightarrow> raised p v now (F \<union> G) rs rs''"
  unfolding raised_def by blast

context incident_store
begin

lemma upsert_raises:
  assumes "manager_env ok rows M" "im_repository M = I" "ok w" "v \<noteq> []"
  shows "\<exists>w'. upsert_episode M p v ty f e now after mode w = (Inr (), w') \<and> ok w' \<and>
     raised p v now {f} (rows w) (rows w')"
proof (cases "\<forall>r \<in> set (rows w). \<not> active_match p v f after r")
  case True
  from upsert_new [OF assms True, of ty e now mode] obtain i w' where
    "upsert_episode M p v ty f e now after mode w = (Inr (), w')" "ok w'"
    "rows w' = rows w @ [fresh_incident i p v ty f e now]" by blast
  then show ?thesis
    by (intro exI [of _ w']) (auto simp: raised_def active_match_def fresh_incident_def is_open_def seen_at_def)
next
  case False
  then obtain r0 where "r0 \<in> set (rows w)" "active_match p v f after r0" by blast
  from upsert_repeat [OF assms(2,3) this, of ty e now mode] obtain r w' where
    1: "upsert_episode M p v ty f e now after mode w = (Inr (), w')" "ok w'"
      "r \<in> set (rows w)" "active_match p v f after r"
      "rows w' = map_rows (\<lambda>x. in_id x = in_id r) (touch (merge_evidence r e) now) (rows w)" by blast
  have u: "x = r" if "x \<in> set (rows w)" "in_id x = in_id r" for x
    using that 1(3) rows_ok [OF assms(3)] by (auto simp: distinct_map inj_on_def)
  have t: "active_match p v g now (touch y now x)" if "active_match p v g after' x" for g y x after'
    using that by (simp add: active_match_def touch_def is_open_def seen_at_def)
  have "r \<in> set (rows w) \<Longrightarrow> touch (merge_evidence r e) now r \<in> set (rows w')"
    by (force simp: 1(5) map_rows_def)
  then have "\<exists>x \<in> set (rows w'). active_match p v f now x" using t 1(3,4) by blast
  moreover have "x \<in> set (rows w')" if "x \<in> set (rows w)" "in_fingerprint x \<noteq> Some f" for x
  proof -
    have "x \<noteq> r" using that 1(4) by (auto simp: active_match_def)
    then have "in_id x \<noteq> in_id r" using u that(1) by blast
    then show ?thesis using that(1) by (force simp: 1(5) map_rows_def)
  qed
  moreover have "x \<in> set (rows w) \<or> active_match p v f now x" if "x \<in> set (rows w')" for x
    using that u t [OF 1(4)] by (auto simp: 1(5) map_rows_def split: if_splits)
  moreover have "\<exists>x \<in> set (rows w'). active_match p v g now x"
    if "x \<in> set (rows w)" "active_match p v g now x" for x g
  proof (cases "in_id x = in_id r")
    case True
    then show ?thesis using that t [OF that(2)] by (force simp: 1(5) map_rows_def)
  next
    case False
    then have "x \<in> set (rows w')" using that(1) by (force simp: 1(5) map_rows_def)
    then show ?thesis using that(2) by blast
  qed
  ultimately show ?thesis using 1(1,2) unfolding raised_def by auto
qed

lemma signals_raise:
  assumes "manager_env ok rows M" "im_repository M = I" "v \<noteq> []"
  shows "ok w \<Longrightarrow> \<exists>w'. process_signals M p v rm sm env now sgs mode w = (Inr (), w') \<and> ok w' \<and>
     raised p v now (sg_fingerprint ` set sgs) (rows w) (rows w')"
proof (induction sgs arbitrary: w)
  case Nil
  then show ?case by (simp add: process_signals_def raised_refl)
next
  case (Cons sg sgs)
  obtain w1 where 1: "process_signal M p v rm sm env now sg mode w = (Inr (), w1)" "ok w1"
    "raised p v now {sg_fingerprint sg} (rows w) (rows w1)"
    using upsert_raises [OF assms(1,2) Cons.prems assms(3)] unfolding process_signal_def Let_def by blast
  from Cons.IH [OF 1(2)] obtain w2 where 2: "process_signals M p v rm sm env now sgs mode w1 = (Inr (), w2)"
    "ok w2" "raised p v now (sg_fingerprint ` set sgs) (rows w1) (rows w2)" by blast
  show ?case using 1(1) 2(1,2) raised_trans [OF 1(3) 2(3)]
    by (intro exI [of _ w2]) (simp add: process_signals_def)
qed

end

section \<open>Ingestion\<close>

definition event_view :: "('w \<Rightarrow> bool) \<Rightarrow> ('w \<Rightarrow> event list) \<Rightarrow> 'w \<Rightarrow> bool \<times> event list" where
  "event_view ok events w = (ok w, events w)"

definition ingest_view ::
  "('w \<Rightarrow> bool) \<Rightarrow> ('w \<Rightarrow> event list) \<Rightarrow> ('w \<Rightarrow> bool) \<Rightarrow> ('w \<Rightarrow> incident list) \<Rightarrow> 'w \<Rightarrow>
   bool \<times> event list \<times> bool \<times> incident list" where
  "ingest_view okE events ok rows w = (okE w, events w, ok w, rows w)"

text \<open>
  Events and incidents are kept by stores with their contracts, neither of which touches the other, and
  the service's other inputs answer and touch neither.
\<close>

definition ingest_env ::
  "('w \<Rightarrow> bool) \<Rightarrow> ('w \<Rightarrow> event list) \<Rightarrow> ('w \<Rightarrow> bool) \<Rightarrow> ('w \<Rightarrow> incident list) \<Rightarrow> 'w ingest_service \<Rightarrow> bool" where
  "ingest_env okE events ok rows S \<longleftrightarrow>
     event_store (ig_events S) okE events \<and> incident_store (ig_incidents S) ok rows \<and>
     im_repository (ig_manager S) = ig_incidents S \<and> manager_env ok rows (ig_manager S) \<and>
     manager_frame (event_view okE events) (ig_manager S) \<and>
     (\<forall>e. frame (store_view ok rows) (er_add (ig_events S) e)) \<and>
     inputs_frame (ingest_view okE events ok rows) S \<and> inputs_answer S"

definition reads :: "('w, 'a) py \<Rightarrow> 'a \<Rightarrow> bool" where
  "reads m a \<longleftrightarrow> (\<exists>w w'. m w = (Inr a, w'))"

lemma readsI: "m w = (Inr a, w') \<Longrightarrow> reads m a"
  by (auto simp: reads_def)

lemma view_step:
  assumes "never_raises m" "frame v m"
  obtains a w' where "m w = (Inr a, w')" "v w' = v w" "reads m a"
  using assms by (metis frameD never_raisesE readsI)

text \<open>Whether the signals of an event are dropped because of an active block.\<close>

definition silenced :: "'w ingest_service \<Rightarrow> event \<Rightarrow> project option \<Rightarrow> datetime \<Rightarrow> incident list \<Rightarrow> bool" where
  "silenced S e project t rs \<longleftrightarrow>
     (case project of None \<Rightarrow> False | Some p \<Rightarrow> pr_protect_enabled p) \<and>
     (\<exists>r \<in> set rs. in_project_id r = ev_project_id e \<and> in_provider r = ingest_provider e \<and> is_open r \<and>
        active_block (t - seconds (max (ig_dedup_window_seconds S) 1)) r)"

lemma block_filter_none:
  "filter (\<lambda>sg. sg_detector sg = ''block'') (map (with_trigger e) (registry_detect ingest_detectors ctx)) = []"
  using detector_types [of _ ctx] by (fastforce simp: filter_empty_conv)

lemma unblocked_run:
  assumes "ingest_env okE events ok rows S" "ok w"
    and "sgs = map (with_trigger e) (registry_detect ingest_detectors ctx)"
    and "b = (case project of None \<Rightarrow> False | Some p \<Rightarrow> pr_protect_enabled p)"
  shows "\<exists>w' t. unblocked_signals S e (ingest_provider e) b sgs w
       = (Inr (if silenced S e project t (rows w) then [] else sgs), w') \<and>
     ingest_view okE events ok rows w' = ingest_view okE events ok rows w \<and> reads (ig_now S) t"
proof -
  note env = assms(1) [unfolded ingest_env_def]
  have now: "never_raises (ig_now S)" "frame (ingest_view okE events ok rows) (ig_now S)"
    using env by (auto simp: inputs_answer_def inputs_frame_def)
  obtain t w1 where 1: "ig_now S w = (Inr t, w1)" "ingest_view okE events ok rows w1 = ingest_view okE events ok rows w"
    "reads (ig_now S) t" using view_step [OF now] .
  then have ok: "ok w1" "rows w1 = rows w" using assms(2) by (simp_all add: ingest_view_def)
  show ?thesis
  proof (cases b)
    case False
    then show ?thesis using 1(3) assms(4) by (auto simp: unblocked_signals_def silenced_def)
  next
    case True
    obtain xs where xs: "ir_list_open_by_project_provider (ig_incidents S) (ev_project_id e) (ingest_provider e) w1 = (Inr xs, w1)"
      "set xs = {r \<in> set (rows w1). in_project_id r = ev_project_id e \<and> in_provider r = ingest_provider e \<and> is_open r}"
      using incident_store.list_open [of "ig_incidents S" ok rows, OF _ ok(1)] env by blast
    have "silenced S e project t (rows w) =
        (\<exists>r \<in> set xs. active_block (t - seconds (max (ig_dedup_window_seconds S) 1)) r)"
      using True assms(4) xs(2) ok(2) by (auto simp: silenced_def)
    then show ?thesis
      using True 1 xs(1) block_filter_none [of e ctx] assms(3)
      by (intro exI [of _ w1] exI [of _ t])
        (simp add: unblocked_signals_def has_active_block_incident_def bnd_def Let_def)
  qed
qed

text \<open>Storing, counting, announcing and looking up the project; then what remains of the handler.\<close>

abbreviation counted ::
  "'w ingest_service \<Rightarrow> event \<Rightarrow> ('w, int \<times> int) py" where
  "counted S e \<equiv> bnd (cs_increment (ig_counters S) (scoped_project_provider_id (ev_project_id e) (Some (ingest_provider e)))
      (Some (ev_total_tokens e))) (\<lambda>_. cs_get (ig_counters S)
      (scoped_project_provider_id (ev_project_id e) (Some (ingest_provider e))))"

lemma ingest_prefix:
  assumes "ingest_env okE events ok rows S" "okE w" "ok w" "ev_id e \<notin> ev_id ` set (events w)"
  shows "\<exists>w' project requests tokens mode.
     ingest S e w = bnd (detect_signals S e (ingest_provider e) project requests tokens) (\<lambda>signals.
       bnd (ig_now S) (\<lambda>now. process_signals (ig_manager S) (ev_project_id e) (ingest_provider e)
         (ev_requested_model e) (ev_resolved_model e) (ev_environment e) now signals mode)) w' \<and>
     ingest_view okE events ok rows w' = (True, events w @ [e], True, rows w) \<and>
     reads (project_of_event S e) project \<and> reads (counted S e) (requests, tokens)"
proof -
  let ?p = "ingest_provider e" and ?v = "ingest_view okE events ok rows"
  let ?s = "scoped_project_provider_id (ev_project_id e) (Some ?p)"
  note env = assms(1) [unfolded ingest_env_def]
  have fr: "\<And>s n. frame ?v (cs_increment (ig_counters S) s n)" "\<And>s. frame ?v (cs_get (ig_counters S) s)"
    "frame ?v (detect_policy_gap_if_needed S e)" "frame ?v (project_of_event S e)"
    using env by (auto simp: inputs_frame_def policy_gap_frame project_frame)
  have nr: "\<And>s n. never_raises (cs_increment (ig_counters S) s n)" "\<And>s. never_raises (cs_get (ig_counters S) s)"
    "never_raises (detect_policy_gap_if_needed S e)" "never_raises (project_of_event S e)"
    using env by (auto simp: inputs_answer_def policy_gap_answers project_answers)
  obtain w1 where 1: "er_add (ig_events S) e w = (Inr (), w1)" "okE w1" "events w1 = events w @ [e]"
    using event_store.add [of "ig_events S" okE events, OF _ assms(2,4)] env by blast
  have "frame (store_view ok rows) (er_add (ig_events S) e)" using env by blast
  from frameD [OF this 1(1)] have v1: "?v w1 = (True, events w @ [e], True, rows w)"
    using 1(2,3) assms(3) by (simp add: ingest_view_def store_view_def)
  obtain w2 where 2: "cs_increment (ig_counters S) ?s (Some (ev_total_tokens e)) w1 = (Inr (), w2)" "?v w2 = ?v w1"
    using view_step [OF nr(1) fr(1)] by (metis old.unit.exhaust)
  obtain c w3 where 3: "cs_get (ig_counters S) ?s w2 = (Inr c, w3)" "?v w3 = ?v w2"
    using view_step [OF nr(2) fr(2)] .
  obtain reqs toks where c: "c = (reqs, toks)" by (cases c)
  obtain w4 where 4: "detect_policy_gap_if_needed S e w3 = (Inr (), w4)" "?v w4 = ?v w3"
    using view_step [OF nr(3) fr(3)] by (metis old.unit.exhaust)
  obtain project w5 where 5: "project_of_event S e w4 = (Inr project, w5)" "?v w5 = ?v w4"
    "reads (project_of_event S e) project" using view_step [OF nr(4) fr(4)] .
  have "reads (counted S e) c"
    using 2(1) 3(1) by (intro readsI [where w = w1 and w' = w3]) (simp add: bnd_def)
  moreover define mode where
    "mode = (case project of None \<Rightarrow> ''observe'' | Some p \<Rightarrow> if pr_protect_enabled p then ''protect'' else ''observe'')"
  have "ingest S e w = bnd (detect_signals S e ?p project (fst c) (snd c)) (\<lambda>signals.
       bnd (ig_now S) (\<lambda>now. process_signals (ig_manager S) (ev_project_id e) ?p
         (ev_requested_model e) (ev_resolved_model e) (ev_environment e) now signals mode)) w5"
    by (simp add: ingest_def Let_def bnd_Inr [where m = "er_add (ig_events S) e", OF 1(1)]
        bnd_Inr [where m = "cs_increment (ig_counters S) ?s (Some (ev_total_tokens e))", OF 2(1)]
        bnd_Inr [where m = "cs_get (ig_counters S) ?s", OF 3(1)]
        bnd_Inr [where m = "detect_policy_gap_if_needed S e", OF 4(1)]
        bnd_Inr [where m = "project_of_event S e", OF 5(1)] c mode_def)
  moreover have "?v w5 = (True, events w @ [e], True, rows w)" using 2(2) 3(2) 4(2) 5(2) v1 by simp
  ultimately show ?thesis using 5(3) by (metis prod.collapse)
qed

lemma detect_run:
  assumes "ingest_env okE events ok rows S" "ingest_view okE events ok rows w = (True, es, True, rs)" "0 \<le> recent_limit S"
  shows "\<exists>w' recent now t.
     detect_signals S e (ingest_provider e) project requests tokens w =
       (Inr (if silenced S e project t rs then [] else map (with_trigger e) (registry_detect ingest_detectors
          (detection_context_of S e (ingest_provider e) project now requests tokens recent))), w') \<and>
     ingest_view okE events ok rows w' = (True, es, True, rs) \<and> reads (ig_now S) now \<and> reads (ig_now S) t \<and>
     newest (nat (recent_limit S)) (recent_filter (ev_project_id e) (Some (ingest_provider e))) es recent"
proof -
  let ?p = "ingest_provider e" and ?v = "ingest_view okE events ok rows"
  note env = assms(1) [unfolded ingest_env_def]
  have now: "never_raises (ig_now S)" "frame ?v (ig_now S)" using env by (auto simp: inputs_answer_def inputs_frame_def)
  have es: "okE w" "events w = es" using assms(2) by (simp_all add: ingest_view_def)
  obtain xs where 1: "er_list_recent (ig_events S) (ev_project_id e) (recent_limit S) (Some ?p) w = (Inr xs, w)"
    "newest (nat (recent_limit S)) (recent_filter (ev_project_id e) (Some ?p)) es xs"
    using event_store.recent [of "ig_events S" okE events, OF _ es(1) assms(3)] env es(2) by metis
  obtain now w1 where 2: "ig_now S w = (Inr now, w1)" "?v w1 = ?v w" "reads (ig_now S) now"
    using view_step [OF now] .
  let ?ctx = "detection_context_of S e ?p project now requests tokens xs"
  let ?sgs = "map (with_trigger e) (registry_detect ingest_detectors ?ctx)"
  have "ok w1" "rows w1 = rs" using 2(2) assms(2) by (simp_all add: ingest_view_def)
  from unblocked_run [OF assms(1) this(1), of ?sgs e ?ctx "dc_protect_enabled ?ctx" project] this(2) obtain w2 t where
    "unblocked_signals S e ?p (dc_protect_enabled ?ctx) ?sgs w1 = (Inr (if silenced S e project t rs then [] else ?sgs), w2)"
    "?v w2 = ?v w1" "reads (ig_now S) t" by (auto simp: detection_context_of_def)
  then show ?thesis using 1 2 assms(2)
    by (intro exI [of _ w2] exI [of _ xs] exI [of _ now] exI [of _ t]) (simp add: detect_signals_def Let_def bnd_def)
qed

lemma ingest_process_run:
  assumes "ingest_env okE events ok rows S" "ingest_view okE events ok rows w = (True, es, True, rs)"
  shows "\<exists>w' t. bnd (ig_now S) (\<lambda>now. process_signals (ig_manager S) (ev_project_id e) (ingest_provider e)
         (ev_requested_model e) (ev_resolved_model e) (ev_environment e) now sgs mode) w = (Inr (), w') \<and>
     okE w' \<and> events w' = es \<and> ok w' \<and> reads (ig_now S) t \<and> (sgs = [] \<longrightarrow> rows w' = rs) \<and>
     raised (ev_project_id e) (ingest_provider e) t (sg_fingerprint ` set sgs) rs (rows w')"
proof -
  let ?p = "ingest_provider e" and ?v = "ingest_view okE events ok rows"
  note env = assms(1) [unfolded ingest_env_def]
  have now: "never_raises (ig_now S)" "frame ?v (ig_now S)" using env by (auto simp: inputs_answer_def inputs_frame_def)
  obtain t w1 where 1: "ig_now S w = (Inr t, w1)" "?v w1 = ?v w" "reads (ig_now S) t" using view_step [OF now] .
  let ?m = "process_signals (ig_manager S) (ev_project_id e) ?p (ev_requested_model e)
      (ev_resolved_model e) (ev_environment e) t sgs mode"
  have "ok w1" "rows w1 = rs" using 1(2) assms(2) by (simp_all add: ingest_view_def)
  have store: "incident_store (ig_incidents S) ok rows" "manager_env ok rows (ig_manager S)"
    "im_repository (ig_manager S) = ig_incidents S" using env by blast+
  obtain w' where 2: "?m w1 = (Inr (), w')" "ok w'"
    "raised (ev_project_id e) ?p t (sg_fingerprint ` set sgs) rs (rows w')"
    using incident_store.signals_raise [OF store provider_nonempty \<open>ok w1\<close>, of "ev_project_id e" e "ev_requested_model e"
      "ev_resolved_model e" "ev_environment e" t sgs mode] \<open>rows w1 = rs\<close> by blast
  have "frame (event_view okE events) ?m" using env process_signals_frame by blast
  from frameD [OF this 2(1)] have "okE w'" "events w' = es"
    using 1(2) assms(2) by (simp_all add: ingest_view_def event_view_def)
  moreover have "sgs = [] \<Longrightarrow> rows w' = rs"
    using 2(1) \<open>rows w1 = rs\<close> by (simp add: process_signals_def)
  ultimately show ?thesis using 1 2 by (intro exI [of _ w'] exI [of _ t]) (simp add: bnd_def)
qed

text \<open>
  C29: what ingesting an event does. A new event is stored, the detectors read the newest events of its
  provider and the counters after counting it, and every signal they emit is an open incident last seen
  now, while incidents of other fingerprints stay and nothing else is stored; but when the project is
  protected and a block of the provider is active, the incidents stay exactly as they are. Stores that
  keep their contracts and collaborators that answer are what this relies on; policy-gap and incident
  notifications may fail.
\<close>

theorem ingest_raises_incidents:
  assumes "ingest_env okE events ok rows S" "okE w" "ok w" "0 \<le> recent_limit S"
    and "ev_id e \<notin> ev_id ` set (events w)"
  shows "\<exists>w' project requests tokens recent now t0 t.
     ingest S e w = (Inr (), w') \<and> events w' = events w @ [e] \<and> okE w' \<and> ok w' \<and>
     reads (project_of_event S e) project \<and> reads (ig_now S) now \<and> reads (ig_now S) t0 \<and> reads (ig_now S) t \<and>
     reads (counted S e) (requests, tokens) \<and>
     newest (nat (recent_limit S)) (recent_filter (ev_project_id e) (Some (ingest_provider e)))
       (events w @ [e]) recent \<and>
     (if silenced S e project t0 (rows w) then rows w' = rows w
      else raised (ev_project_id e) (ingest_provider e) t
        (sg_fingerprint ` set (registry_detect ingest_detectors
           (detection_context_of S e (ingest_provider e) project now requests tokens recent)))
        (rows w) (rows w'))"
proof -
  let ?p = "ingest_provider e" and ?v = "ingest_view okE events ok rows"
  obtain w5 project reqs toks mode where 1:
    "ingest S e w = bnd (detect_signals S e ?p project reqs toks) (\<lambda>signals.
       bnd (ig_now S) (\<lambda>now. process_signals (ig_manager S) (ev_project_id e) ?p
         (ev_requested_model e) (ev_resolved_model e) (ev_environment e) now signals mode)) w5"
    "?v w5 = (True, events w @ [e], True, rows w)" "reads (project_of_event S e) project" "reads (counted S e) (reqs, toks)"
    using ingest_prefix [OF assms(1-3,5)] by blast
  obtain w8 xs now t0 where 2: "detect_signals S e ?p project reqs toks w5 =
       (Inr (if silenced S e project t0 (rows w) then [] else map (with_trigger e) (registry_detect ingest_detectors
          (detection_context_of S e ?p project now reqs toks xs))), w8)"
    "?v w8 = (True, events w @ [e], True, rows w)" "reads (ig_now S) now" "reads (ig_now S) t0"
    "newest (nat (recent_limit S)) (recent_filter (ev_project_id e) (Some ?p)) (events w @ [e]) xs"
    using detect_run [OF assms(1) 1(2) assms(4)] by blast
  let ?sgs = "if silenced S e project t0 (rows w) then [] else map (with_trigger e) (registry_detect ingest_detectors
          (detection_context_of S e ?p project now reqs toks xs))"
  obtain w' t where 3: "bnd (ig_now S) (\<lambda>now. process_signals (ig_manager S) (ev_project_id e) ?p
         (ev_requested_model e) (ev_resolved_model e) (ev_environment e) now ?sgs mode) w8 = (Inr (), w')"
    "okE w'" "events w' = events w @ [e]" "ok w'" "reads (ig_now S) t" "?sgs = [] \<longrightarrow> rows w' = rows w"
    "raised (ev_project_id e) ?p t (sg_fingerprint ` set ?sgs) (rows w) (rows w')"
    using ingest_process_run [OF assms(1) 2(2), of e ?sgs mode] by blast
  have run: "ingest S e w = (Inr (), w')"
    unfolding 1(1) by (subst bnd_def) (simp only: 2(1) prod.case sum.case 3(1))
  have "if silenced S e project t0 (rows w) then rows w' = rows w
     else raised (ev_project_id e) ?p t (sg_fingerprint ` set (registry_detect ingest_detectors
            (detection_context_of S e ?p project now reqs toks xs))) (rows w) (rows w')"
  proof (cases "silenced S e project t0 (rows w)")
    case True
    then show ?thesis using 3(6) by simp
  next
    case False
    then show ?thesis using 3(7) by (simp only: if_False set_map image_image with_trigger_fields)
  qed
  with run 1(3,4) 2(3-5) 3(2-5) show ?thesis by blast
qed

text \<open>A service on two in-memory tables, with constant counters and no projects.\<close>

type_synonym ingest_world = "event list \<times> incident list"

definition example_events :: "(ingest_world, event) db_table" where
  "example_events = list_table fst (\<lambda>xs w. (xs, snd w)) ev_id (\<lambda>r x. ev_id r = ev_id x)"

definition example_incidents :: "(ingest_world, incident) db_table" where
  "example_incidents = list_table snd (\<lambda>xs w. (fst w, xs)) in_id (\<lambda>r x. in_id r = in_id x)"

definition example_ingest :: "ingest_world ingest_service" where
  "example_ingest = IngestEventService (EventRepositoryImpl example_events)
     \<lparr> cs_increment = (\<lambda>_ _. ret ()), cs_get = (\<lambda>_. ret (1, 20000)), cs_acquire = (\<lambda>_ _ _. ret True), cs_release = (\<lambda>_ _. ret ()) \<rparr>
     (IncidentRepositoryImpl example_incidents (ret 0)) 300 None None None None
     (\<lambda>w. (Inr (CHR ''x'' # concat (map in_id (snd w))), w)) (ret 0)"

definition example_event :: event where
  "example_event = \<lparr> ev_id = ''e1'', ev_ts = 0, ev_project_id = ''p'', ev_provider = ''openai'',
     ev_requested_model = Some ''gpt'', ev_resolved_model = None, ev_environment = None, ev_input_tokens = 0,
     ev_output_tokens = 0, ev_total_tokens = 20000, ev_latency_ms = None, ev_status = None, ev_error_type = None,
     ev_error_message = None, ev_http_status = None, ev_created_at = 0, ev_token_explosion_tokens = None,
     ev_request_endpoint = None, ev_request_feature = None, ev_request_fingerprint = None \<rparr>"

interpretation xe: event_db example_events "\<lambda>w. distinct (map ev_id (fst w))" fst
  unfolding event_db_def example_events_def by (rule list_table_contract) simp_all

interpretation xi: incident_db example_incidents "\<lambda>w. distinct (map in_id (snd w))" snd "ret t" for t :: datetime
proof (intro incident_db.intro incident_db_axioms.intro)
  show "db_contract example_incidents (\<lambda>w. distinct (map in_id (snd w))) snd in_id (\<lambda>r x. in_id r = in_id x)"
    unfolding example_incidents_def by (rule list_table_contract) simp_all
qed simp

abbreviation example_ok :: "ingest_world \<Rightarrow> bool" where
  "example_ok w \<equiv> distinct (map in_id (snd w)) \<and> (\<forall>r \<in> set (snd w). row_ok r)"

lemma example_store: "incident_store (IncidentRepositoryImpl example_incidents (ret t)) example_ok snd"
  using xi.store.incident_store_axioms unfolding xi.all_ok_def .

text \<open>The two tables do not touch each other.\<close>

lemma example_table_frames [simp]:
  "frame (event_view ok fst) (db_select example_incidents P)"
  "(\<And>x y z. ok (x, y) = ok (x, z)) \<Longrightarrow> frame (event_view ok fst) (db_save example_incidents rs)"
  "(\<And>x y z. ok (x, y) = ok (x, z)) \<Longrightarrow> frame (event_view ok fst) (db_add example_incidents r)"
  "(\<And>x y z. ok' (x, y) = ok' (z, y)) \<Longrightarrow> frame (store_view ok' snd) (db_add example_events e)"
  by (auto simp: example_incidents_def example_events_def list_table_def frame_def event_view_def store_view_def)

lemma example_manager_frame:
  "manager_frame (event_view (\<lambda>w. distinct (map ev_id (fst w))) fst) (ig_manager example_ingest)"
  by (auto simp: manager_frame_def example_ingest_def IngestEventService_def IncidentRepositoryImpl_def
      get_open_incident_by_fingerprint_def update_open_incident_activity_def create_incident_def Let_def
      intro!: frame_bnd frame_option) (simp_all add: frame_def)

lemma example_ingest_env:
  "ingest_env (\<lambda>w. distinct (map ev_id (fst w))) fst example_ok snd example_ingest"
proof -
  have "manager_env example_ok snd (ig_manager example_ingest)"
    using longer_than_all_map [of in_id] by (auto simp: manager_env_def example_ingest_def IngestEventService_def)
  moreover have "\<forall>e. frame (store_view example_ok snd) (er_add (ig_events example_ingest) e)"
    by (simp add: example_ingest_def IngestEventService_def EventRepositoryImpl_def add_event_def)
  moreover have "inputs_frame v example_ingest" "inputs_answer example_ingest" for v :: "ingest_world \<Rightarrow> 'v"
    by (simp_all add: inputs_frame_def inputs_answer_def example_ingest_def IngestEventService_def)
  moreover have "event_store (ig_events example_ingest) (\<lambda>w. distinct (map ev_id (fst w))) fst"
    using xe.store.event_store_axioms by (simp add: example_ingest_def IngestEventService_def)
  moreover have "incident_store (ig_incidents example_ingest) example_ok snd"
    "im_repository (ig_manager example_ingest) = ig_incidents example_ingest"
    using example_store [of 0] by (simp_all add: example_ingest_def IngestEventService_def)
  ultimately show ?thesis unfolding ingest_env_def using example_manager_frame by blast
qed

lemma example_explosion:
  "''p:openai:gpt:token_explosion'' \<in> sg_fingerprint ` set (registry_detect ingest_detectors
     (detection_context_of example_ingest example_event ''openai'' project now reqs toks recent))"
proof -
  have "strip ''gpt'' = ''gpt''" by code_simp
  then show ?thesis
    by (simp add: registry_detect_def ingest_detectors_def token_explosion_detect_def explosion_tokens_def or_else_def
        detection_context_of_def example_ingest_def IngestEventService_def example_event_def Let_def model_or_na_def
        normalized_model_name_def opt_or_def or_str_def image_Un)
qed

theorem ingest_raises_incidents_witness:
  "\<exists>w'. ingest example_ingest example_event ([], []) = (Inr (), w') \<and> fst w' = [example_event] \<and>
     (\<exists>r \<in> set (snd w'). is_open r \<and> in_fingerprint r = Some ''p:openai:gpt:token_explosion'')"
proof -
  have l: "recent_limit example_ingest = 14"
    by (simp add: recent_limit_def example_ingest_def IngestEventService_def)
  have p: "ingest_provider example_event = ''openai''" "ev_project_id example_event = ''p''"
    by (simp add: example_event_def, code_simp) (simp add: example_event_def)
  have h: "distinct (map ev_id (fst ([], [])))" "example_ok ([], [])" "0 \<le> recent_limit example_ingest"
    "ev_id example_event \<notin> ev_id ` set (fst ([], []))" using l by simp_all
  have q: "\<not> silenced example_ingest example_event project t0 (snd ([], []))" for project t0 by (simp add: silenced_def)
  let ?w = "([], []) :: ingest_world"
  note run = ingest_raises_incidents [where w = ?w and e = example_event, OF example_ingest_env h, unfolded if_not_P [OF q]]
  have x: "\<exists>r \<in> set rs. is_open r \<and> in_fingerprint r = Some ''p:openai:gpt:token_explosion''"
    if "raised (ev_project_id example_event) (ingest_provider example_event) t (sg_fingerprint ` set (registry_detect
          ingest_detectors (detection_context_of example_ingest example_event (ingest_provider example_event) project
            now reqs toks recent))) (snd ?w) rs" for t project now reqs toks recent rs
    using that example_explosion [of project now reqs toks recent] unfolding raised_def p active_match_def by blast
  show ?thesis
    using run by (elim exE conjE) (drule x, auto)
qed

section \<open>Policy gaps\<close>

text \<open>
  A policy gap is announced exactly for a new pair of a project that had others. A pair that is on
  record changes nothing; a new one is recorded with the time of the event, and announced unless it is
  the first of its project. The table of pairs keeps its contract, ids are fresh.
\<close>

theorem policy_gap_iff_new:
  assumes "db_contract (pt_models T) ok models pm_id model_clash" "ok w"
    and "ig_projects S = Some (ProjectRepositoryImpl T)" "ig_now S w = (Inr t, w)"
    and "pt_new_id T w = (Inr i, w1)" "ok w1" "models w1 = models w" "i \<notin> pm_id ` set (models w)"
    and "pv = strip (ev_provider e)" "pv \<noteq> []" "md = strip (opt_or (ev_requested_model e) [])" "md \<noteq> []"
  shows "if \<exists>r \<in> set (models w). pm_project_id r = ev_project_id e \<and> pm_provider r = pv \<and> pm_requested_model r = md
     then detect_policy_gap_if_needed S e w = (Inr (), w1)
     else \<exists>w2. ok w2 \<and> models w2 = models w @ [\<lparr> pm_id = i, pm_project_id = ev_project_id e, pm_provider = pv,
            pm_requested_model = md, pm_first_seen_at = t \<rparr>] \<and>
          detect_policy_gap_if_needed S e w =
            (if \<exists>r \<in> set (models w). pm_project_id r = ev_project_id e
             then announce_policy_gap S (ProjectRepositoryImpl T) e pv md t w2 else (Inr (), w2))"
proof -
  let ?r = "\<lparr> pm_id = i, pm_project_id = ev_project_id e, pm_provider = pv, pm_requested_model = md,
      pm_first_seen_at = t \<rparr>"
  let ?known = "\<exists>r \<in> set (models w). pm_project_id r = ev_project_id e \<and> pm_provider r = pv \<and> pm_requested_model r = md"
  let ?m = "pp_record_model_first_seen (ProjectRepositoryImpl T) (ev_project_id e) pv md t"
  have known: "?known \<longleftrightarrow> (\<exists>x \<in> set (models w1). model_clash ?r x)"
    using assms(7,8) by (force simp: model_clash_def)
  have sel: "db_select (pt_models T) P w = (Inr (filter P (models w)), w)" for P
    using db_contract.select [OF assms(1,2)] .
  have start: "detect_policy_gap_if_needed S e w = bnd (try_except (bnd ?m (\<lambda>x. ret (Some x))) (\<lambda>_. ret None)) (\<lambda>recorded.
      case recorded of None \<Rightarrow> ret () | Some (new, had) \<Rightarrow> if \<not> new then ret () else if \<not> had then ret ()
        else announce_policy_gap S (ProjectRepositoryImpl T) e pv md t) w"
    using assms(3,4,10,12)
    by (simp add: detect_policy_gap_if_needed_def Let_def bnd_Inr [where m = "ig_now S"] flip: assms(9,11))
  show ?thesis
  proof (cases ?known)
    case True
    then have "db_add (pt_models T) ?r w1 = (Inl IntegrityError, w1)"
      using db_contract.add_clash [OF assms(1,6)] known by blast
    then have "?m w = (Inr (False, True), w1)"
      using sel assms(5) by (simp add: ProjectRepositoryImpl_def record_project_model_first_seen_def bnd_def try_except_def)
    then show ?thesis using True start by (simp add: bnd_def try_except_def)
  next
    case False
    then obtain w2 where w2: "db_add (pt_models T) ?r w1 = (Inr (), w2)" "ok w2" "models w2 = models w @ [?r]"
      using db_contract.add_new [OF assms(1,6)] known assms(7) by metis
    let ?had = "\<exists>r \<in> set (models w). pm_project_id r = ev_project_id e"
    have "?m w = (Inr (True, ?had), w2)"
      using sel assms(5) w2(1)
      by (auto simp: ProjectRepositoryImpl_def record_project_model_first_seen_def bnd_def try_except_def filter_empty_conv)
    then show ?thesis using False start w2(2,3) by (auto simp: bnd_def try_except_def)
  qed
qed

definition gap_ingest :: "mem_db ingest_service" where
  "gap_ingest = IngestEventService (EventRepositoryImpl (pt_events mem_tables))
     \<lparr> cs_increment = (\<lambda>_ _. ret ()), cs_get = (\<lambda>_. ret (1, 1)), cs_acquire = (\<lambda>_ _ _. ret True), cs_release = (\<lambda>_ _. ret ()) \<rparr>
     (IncidentRepositoryImpl (pt_incidents mem_tables) (ret 0)) 300 None None (Some (ProjectRepositoryImpl mem_tables))
     None (pt_new_id mem_tables) (ret 0)"

definition gap_world :: mem_db where
  "gap_world = \<lparr> md_projects = [], md_models = [\<lparr> pm_id = ''a'', pm_project_id = ''p'', pm_provider = ''openai'',
     pm_requested_model = ''old'', pm_first_seen_at = 0 \<rparr>], md_keys = [], md_events = [], md_incidents = [] \<rparr>"

theorem policy_gap_iff_new_witness:
  "\<exists>w2. map pm_requested_model (md_models w2) = [''old'', ''gpt''] \<and>
     detect_policy_gap_if_needed gap_ingest example_event gap_world =
       announce_policy_gap gap_ingest (ProjectRepositoryImpl mem_tables) example_event ''openai'' ''gpt'' 0 w2"
proof -
  have s: "strip ''openai'' = ''openai''" "strip ''gpt'' = ''gpt''" by code_simp+
  have "mem_db_ok gap_world" by (simp add: mem_db_ok_def gap_world_def)
  have h: "ig_projects gap_ingest = Some (ProjectRepositoryImpl mem_tables)" "ig_now gap_ingest gap_world = (Inr 0, gap_world)"
    "pt_new_id mem_tables gap_world = (Inr ''xa'', gap_world)" "''xa'' \<notin> pm_id ` set (md_models gap_world)"
    by (simp_all add: gap_ingest_def IngestEventService_def mem_tables_def gap_world_def)
  have e: "''openai'' = strip (ev_provider example_event)" "''gpt'' = strip (opt_or (ev_requested_model example_event) [])"
    "ev_project_id example_event = ''p''"
    by (simp_all add: s example_event_def opt_or_def or_str_def)
  obtain m where m: "md_models gap_world = [m]" "pm_project_id m = ''p''" "pm_requested_model m = ''old''"
    by (simp add: gap_world_def)
  from policy_gap_iff_new [OF md.M.db_contract_axioms \<open>mem_db_ok gap_world\<close> h(1-3) \<open>mem_db_ok gap_world\<close> refl h(4) e(1) _ e(2)]
  obtain w2 where "md_models w2 = md_models gap_world @ [\<lparr> pm_id = ''xa'', pm_project_id = ''p'', pm_provider = ''openai'',
      pm_requested_model = ''gpt'', pm_first_seen_at = 0 \<rparr>]"
    "detect_policy_gap_if_needed gap_ingest example_event gap_world =
       announce_policy_gap gap_ingest (ProjectRepositoryImpl mem_tables) example_event ''openai'' ''gpt'' 0 w2"
    by (auto simp: e(3) m)
  then show ?thesis by (intro exI [of _ w2]) (simp add: m)
qed

section \<open>What detection cannot see\<close>

text \<open>
  The service compares the provider without surrounding blanks with the stored provider as it was sent.
  If every event of a project was stored under a provider that the comparison changes (padded with
  blanks, or empty), retry storms and loops of it are never reported, whatever the events are.
\<close>

theorem padded_provider_unseen:
  assumes "newest n (recent_filter (ev_project_id e) (Some (ingest_provider e))) es recent"
    and "\<forall>x \<in> set es. ev_project_id x = ev_project_id e \<longrightarrow> ev_provider x \<noteq> ingest_provider e"
  shows "retry_storm_detect (detection_context_of S e (ingest_provider e) project now requests tokens recent) = [] \<and>
     loop_suspect_detect (detection_context_of S e (ingest_provider e) project now requests tokens recent) = []"
proof -
  have "recent = []"
    using assms by (auto simp: newest_def recent_filter_def truthy_def filter_empty_conv)
  then show ?thesis by (simp add: retry_storm_detect_def loop_suspect_detect_def detection_context_of_def)
qed

theorem padded_provider_unseen_witness:
  "retry_storm_detect (detection_context_of example_ingest (example_event\<lparr> ev_provider := '' openai'' \<rparr>)
     (ingest_provider (example_event\<lparr> ev_provider := '' openai'' \<rparr>)) None 0 100 100 []) = []"
proof -
  have "ingest_provider (example_event\<lparr> ev_provider := '' openai'' \<rparr>) = ''openai''"
    by (simp add: example_event_def) code_simp
  then show ?thesis
    using padded_provider_unseen [of 14 "example_event\<lparr> ev_provider := '' openai'' \<rparr>"
        "replicate 9 (example_event\<lparr> ev_provider := '' openai'' \<rparr>)" "[]" example_ingest None 0 100 100]
    by (simp add: newest_def recent_filter_def truthy_def)
qed

end
