(* ===== verification/Incident_Service.thy ===== *)
theory Incident_Service
  imports Ingest_Facts Project_Service
begin

text \<open>
  The services and endpoints that close incidents: manual resolution
  (\<open>app/application/services/detect_incidents_service.py\<close>, \<open>app/api/v1/incidents.py\<close>) and the closing
  of stale ones (\<open>auto_close_incidents_service.py\<close>, run by \<open>auto_close_incidents_job.py\<close>), with the
  notifications both send.
\<close>

section \<open>Notifications\<close>

definition is_dimension :: "pydict \<Rightarrow> string \<Rightarrow> string option" where
  "is_dimension evidence k = as_str (dget evidence k)"

text \<open>\<open>_incident_dimensions\<close>: the provider of the record, or the one of the evidence.\<close>

definition incident_dimensions :: "incident \<Rightarrow> string option \<times> string option \<times> string option" where
  "incident_dimensions incident =
     (let evidence = in_evidence incident in
      (if in_provider incident \<noteq> [] then Some (in_provider incident) else is_dimension evidence ''provider'',
       is_dimension evidence ''requested_model'', is_dimension evidence ''environment''))"

definition incident_resolved_model :: "incident \<Rightarrow> string option" where
  "incident_resolved_model incident = is_dimension (in_evidence incident) ''resolved_model''"

text \<open>The collaborators of both services; \<open>in_clock\<close> is \<open>datetime.now(timezone.utc)\<close>.\<close>

record 'w resolved_notifier =
  rn_dispatcher :: "'w transport_service option"
  rn_transport :: "'w transport_service option"
  rn_projects :: "'w project_repo option"
  rn_clock :: "('w, datetime) py"

definition resolved_payload :: "incident \<Rightarrow> string \<Rightarrow> datetime \<Rightarrow> datetime \<Rightarrow> pydict" where
  "resolved_payload incident resolved_by resolved_at sent_at =
     (let (provider, requested_model, environment) = incident_dimensions incident in [
        (''event'', PStr ''incident.resolved''), (''project_id'', PStr (in_project_id incident)),
        (''incident_id'', PStr (in_id incident)), (''incident_type'', PStr (in_type incident)),
        (''resolved_by'', PStr resolved_by), (''resolved_at'', PStr (isoformat resolved_at)),
        (''created_at'', PStr (isoformat (in_created_at incident))),
        (''last_seen_at'', opt_str (map_option isoformat (in_last_seen_at incident))),
        (''provider'', opt_str provider), (''requested_model'', opt_str requested_model),
        (''resolved_model'', opt_str (incident_resolved_model incident)),
        (''environment'', opt_str environment), (''sent_at'', PStr (isoformat sent_at))])"

definition is_protect_mode_enabled :: "'w resolved_notifier \<Rightarrow> string \<Rightarrow> ('w, bool) py" where
  "is_protect_mode_enabled N project_id = (case rn_projects N of
     None \<Rightarrow> ret False
   | Some P \<Rightarrow> bnd (pp_get_project P project_id) (\<lambda>project.
       ret (case project of None \<Rightarrow> False | Some p \<Rightarrow> pr_protect_enabled p)))"

definition enqueue_resolved_email ::
  "'w transport_service \<Rightarrow> incident \<Rightarrow> pydict \<Rightarrow> ('w, unit) py" where
  "enqueue_resolved_email T incident payload =
     (let (provider, _, environment) = incident_dimensions incident;
          dedupe_key = build_transport_dedupe_key (ts_sha256 T) (ts_float_repr T) (in_project_id incident)
            ''email'' ''incident.resolved'' payload None (Some (in_id incident))
      in try_except
           (bnd (transport_enqueue T (in_project_id incident) ''email'' ''incident.resolved'' payload dedupe_key
              (no_opts\<lparr> eo_template := Some ''incident_resolved'', eo_provider := provider,
                 eo_environment := environment \<rparr>)) (\<lambda>_. ret ()))
           (\<lambda>_. ret ()))"

text \<open>The webhook in both modes, the email under protection only.\<close>

definition enqueue_incident_resolved_notifications ::
  "'w resolved_notifier \<Rightarrow> incident \<Rightarrow> string \<Rightarrow> ('w, unit) py" where
  "enqueue_incident_resolved_notifications N incident resolved_by =
     bnd (case in_resolved_at incident of Some t \<Rightarrow> ret t | None \<Rightarrow> rn_clock N) (\<lambda>resolved_at.
     bnd (rn_clock N) (\<lambda>sent_at.
     let payload = resolved_payload incident resolved_by resolved_at sent_at
     in bnd (case rn_dispatcher N of
          None \<Rightarrow> ret ()
        | Some D \<Rightarrow> try_except (dispatcher_enqueue D (in_project_id incident) payload ''incident.resolved'' None False)
            (\<lambda>_. ret ())) (\<lambda>_.
        bnd (is_protect_mode_enabled N (in_project_id incident)) (\<lambda>protect.
        if \<not> protect then ret ()
        else case rn_transport N of
            None \<Rightarrow> ret ()
          | Some T \<Rightarrow> enqueue_resolved_email T incident payload))))"

section \<open>Closing stale incidents\<close>

record 'w auto_close_service =
  ac_repository :: "'w incident_repo"
  ac_cooldown_seconds :: int
  ac_notifier :: "'w resolved_notifier"

definition AutoCloseIncidentsService ::
  "'w incident_repo \<Rightarrow> int \<Rightarrow> 'w resolved_notifier \<Rightarrow> 'w auto_close_service" where
  "AutoCloseIncidentsService I cooldown_seconds N =
     \<lparr> ac_repository = I, ac_cooldown_seconds = max cooldown_seconds 1, ac_notifier = N \<rparr>"

definition auto_close :: "'w auto_close_service \<Rightarrow> datetime option \<Rightarrow> ('w, int) py" where
  "auto_close S now =
     bnd (case now of Some t \<Rightarrow> ret t | None \<Rightarrow> rn_clock (ac_notifier S)) (\<lambda>resolved_at.
     let cutoff = resolved_at - seconds (ac_cooldown_seconds S) in
     bnd (ir_auto_resolve_stale_open_incidents (ac_repository S) cutoff resolved_at) (\<lambda>(resolved_incidents, _).
     bnd (seq_all (map (\<lambda>incident. enqueue_incident_resolved_notifications (ac_notifier S) incident ''auto'')
            resolved_incidents)) (\<lambda>_.
     ret (int (length resolved_incidents)))))"

text \<open>The job: the service with the configured cooldown, run without an explicit time.\<close>

definition auto_close_incidents ::
  "'w incident_repo \<Rightarrow> int \<Rightarrow> 'w resolved_notifier \<Rightarrow> ('w, int) py" where
  "auto_close_incidents I incident_auto_close_seconds N =
     logged (auto_close (AutoCloseIncidentsService I incident_auto_close_seconds N) None)"

section \<open>Manual resolution\<close>

record 'w incidents_service =
  ds_repository :: "'w incident_repo"
  ds_counters :: "'w counter_store"
  ds_notifier :: "'w resolved_notifier"

definition service_list_incidents ::
  "'w incidents_service \<Rightarrow> string \<Rightarrow> string \<Rightarrow> string option \<Rightarrow> ('w, incident list) py" where
  "service_list_incidents S project_id status provider =
     logged (ir_list_by_project (ds_repository S) project_id status provider)"

definition service_get_incident :: "'w incidents_service \<Rightarrow> string \<Rightarrow> ('w, incident option) py" where
  "service_get_incident S incident_id = logged (ir_get_by_id (ds_repository S) incident_id)"

definition service_resolve_incident :: "'w incidents_service \<Rightarrow> string \<Rightarrow> ('w, incident option) py" where
  "service_resolve_incident S incident_id =
     logged (bnd (ir_resolve_incident (ds_repository S) incident_id) (\<lambda>found. case found of
       None \<Rightarrow> ret None
     | Some incident \<Rightarrow>
         bnd (cs_release (ds_counters S)
                (scoped_project_provider_id (in_project_id incident) (Some (in_provider incident))) (in_type incident)) (\<lambda>_.
         bnd (enqueue_incident_resolved_notifications (ds_notifier S) incident ''manual'') (\<lambda>_.
         ret (Some incident)))))"

record incident_out =
  io_id :: string
  io_type :: string
  io_status :: string
  io_created_at :: datetime
  io_resolved_at :: "datetime option"
  io_evidence :: pydict

definition public_incident_evidence :: "pydict \<Rightarrow> pydict" where
  "public_incident_evidence evidence = dpop ''count'' evidence"

definition incident_out_of :: "incident \<Rightarrow> incident_out" where
  "incident_out_of r = \<lparr> io_id = in_id r, io_type = in_type r, io_status = in_status r,
     io_created_at = in_created_at r, io_resolved_at = in_resolved_at r,
     io_evidence = public_incident_evidence (in_evidence r) \<rparr>"

definition list_incidents_endpoint ::
  "'w incidents_service \<Rightarrow> 'w project_service \<Rightarrow> string \<Rightarrow> string \<Rightarrow> string option \<Rightarrow> string \<Rightarrow>
   ('w, incident_out list) py" where
  "list_incidents_endpoint S PS project_id status provider user_id =
     http_guard ''Failed to list incidents''
       (bnd (ensure_project_owned_by_user (pv_repository PS) project_id user_id) (\<lambda>_.
        bnd (service_list_incidents S project_id status provider) (\<lambda>incidents.
        ret (map incident_out_of incidents))))"

definition resolve_incident_endpoint ::
  "'w incidents_service \<Rightarrow> 'w project_service \<Rightarrow> string \<Rightarrow> string \<Rightarrow> ('w, string) py" where
  "resolve_incident_endpoint S PS incident_id user_id =
     http_guard ''Failed to resolve incident''
       (bnd (service_get_incident S incident_id) (\<lambda>found. case found of
          None \<Rightarrow> raise (HTTPException 404 ''Incident not found'')
        | Some incident \<Rightarrow>
            bnd (ensure_project_owned_by_user (pv_repository PS) (in_project_id incident) user_id) (\<lambda>_.
            bnd (service_resolve_incident S incident_id) (\<lambda>resolved. case resolved of
              None \<Rightarrow> raise (HTTPException 404 ''Incident not found'')
            | Some _ \<Rightarrow> ret ''resolved''))))"

end
