(* ===== verification/Protect_Api.thy ===== *)
theory Protect_Api
  imports Protect_Service Incident_Manager Project_Service
begin

text \<open>
  The protect endpoints (\<open>app/api/v1/protect.py\<close>): the preflight decision with its live outcome,
  cooldown, health sample and background work, and the two fallback reports of the SDK, which supersede
  a live outcome of the same request. A background task is returned as data beside the response: the
  framework runs it after the response was sent. \<open>pa_perf_counter\<close>, \<open>pa_clock\<close> and \<open>pa_uuid\<close> are
  \<open>perf_counter()\<close>, \<open>datetime.now(timezone.utc)\<close> and \<open>uuid4().hex[:8]\<close>.
\<close>

record 'w protect_api =
  pa_service :: "'w protect_service"
  pa_redis :: "'w redis_client"
  pa_keys :: "'w ingest_key_service"
  pa_manager :: "'w incident_manager"
  pa_projects :: "'w project_service"
  pa_perf_counter :: "('w, rat) py"
  pa_clock :: "('w, datetime) py"
  pa_uuid :: "('w, string) py"

section \<open>Payloads\<close>

record decision_in =
  di_provider :: string
  di_requested_model :: "string option"
  di_environment :: "string option"
  di_feature :: "string option"
  di_max_output_tokens :: "int option"
  di_input_tokens_estimate :: "int option"

record decision_out =
  do_decision :: string
  do_reason :: string
  do_fail_mode :: string
  do_timeout_ms :: int
  do_retry_after_seconds :: "int option"
  do_blocked_until :: "string option"
  do_snapshot :: snapshot
  do_apply_clamp_enabled :: bool
  do_clamp :: "clamp option"

record fallback_in =
  fi_environment :: string
  fi_provider :: "string option"
  fi_requested_model :: "string option"
  fi_request_id :: "string option"

record project_protect =
  pq_enabled :: bool
  pq_fail_mode :: string
  pq_apply_clamp :: bool
  pq_max_req_per_min :: "int option"
  pq_max_tok_per_min :: "int option"

text \<open>The arguments of \<open>_postprocess_live_preflight_decision\<close>.\<close>

record background_task =
  bt_project_id :: string
  bt_payload :: decision_in
  bt_decision :: protect_decision
  bt_request_id :: "string option"
  bt_latency_ms :: int

section \<open>The decision endpoint\<close>

definition context_of :: "decision_in \<Rightarrow> decision_context" where
  "context_of p = \<lparr> cx_max_output_tokens = di_max_output_tokens p,
     cx_input_tokens_estimate = di_input_tokens_estimate p, cx_environment = di_environment p,
     cx_provider = Some (di_provider p), cx_requested_model = di_requested_model p, cx_feature = di_feature p \<rparr>"

definition decision_response :: "protect_decision \<Rightarrow> decision_out" where
  "decision_response d = \<lparr> do_decision = d_decision d, do_reason = d_reason d, do_fail_mode = d_fail_mode d,
     do_timeout_ms = d_timeout_ms d, do_retry_after_seconds = d_retry_after_seconds d,
     do_blocked_until = d_blocked_until d, do_snapshot = d_snapshot d,
     do_apply_clamp_enabled = d_apply_clamp_enabled d, do_clamp = d_clamp d \<rparr>"

text \<open>The cooldown of a breach: set when this live outcome was recorded.\<close>

definition start_cooldown ::
  "'w redis_client \<Rightarrow> string \<Rightarrow> protect_decision \<Rightarrow> bool \<Rightarrow> string option \<Rightarrow> ('w, unit) py" where
  "start_cooldown R scoped_id decision finalized request_id =
     (if finalized \<and> d_decision decision = ''block'' \<and>
         d_reason decision \<in> {''req_cap_breach'', ''tok_cap_breach''} \<and>
         truthy (d_blocked_until decision) \<and> d_retry_after_seconds decision \<noteq> None
      then (case fromisoformat (the (d_blocked_until decision)) of
          None \<Rightarrow> raise (ValueError ''isoformat'')
        | Some until \<Rightarrow> set_block_cooldown R scoped_id (epoch_ms until)
            (the (d_retry_after_seconds decision)) request_id)
      else ret ())"

text \<open>
  The outcome, cooldown and health of an evaluated decision; the answer is whether the live outcome was
  recorded. An id that is empty leaves \<open>finalized\<close> unbound, which the log line after it raises on.
\<close>

definition record_live_decision ::
  "'w protect_api \<Rightarrow> string \<Rightarrow> string \<Rightarrow> project option \<Rightarrow> protect_decision \<Rightarrow> string option \<Rightarrow> int \<Rightarrow>
   ('w, bool) py" where
  "record_live_decision A project_id provider project decision request_id latency_ms =
     (if project_id = [] then raise (RuntimeError ''UnboundLocalError'')
      else let scoped_id = scoped_project_provider_id project_id (Some provider);
               live = (case project of None \<Rightarrow> False | Some p \<Rightarrow> pr_protect_enabled p)
           in bnd (if live then
                bnd (pa_clock A) (\<lambda>now.
                bnd (finalize_outcome (pa_redis A) now scoped_id (d_decision decision) (d_reason decision)
                  (c_outcome_source_live app_config) request_id None) (\<lambda>(finalized, _).
                bnd (start_cooldown (pa_redis A) scoped_id decision finalized request_id) (\<lambda>_.
                ret finalized)))
              else ret False) (\<lambda>finalized.
              bnd (pa_clock A) (\<lambda>now. bnd (pa_uuid A) (\<lambda>uuid.
              bnd (record_health (pa_redis A) now uuid scoped_id latency_ms None) (\<lambda>_.
              ret finalized)))))"

text \<open>The response, the latency header and the background task.\<close>

definition protect_decision_endpoint ::
  "'w protect_api \<Rightarrow> decision_in \<Rightarrow> string option \<Rightarrow> string option \<Rightarrow>
   ('w, decision_out \<times> string \<times> background_task option) py" where
  "protect_decision_endpoint A payload ingest_key request_id =
     bnd (pa_perf_counter A) (\<lambda>start.
     http_guard ''Failed to evaluate protect decision''
       (if \<not> truthy ingest_key then raise (HTTPException 401 ''missing ingest key'')
        else bnd (evaluate_decision (pa_service A) (the ingest_key) (context_of payload) False) (\<lambda>evaluated.
        case evaluated of
          None \<Rightarrow> raise (HTTPException 401 ''invalid ingest key'')
        | Some (project_id, decision) \<Rightarrow>
            bnd (pa_perf_counter A) (\<lambda>t.
            let latency_ms = py_trunc (py_mul (py_sub t start) 1000)
            in bnd (resolve_project (pa_keys A) (the ingest_key)) (\<lambda>project.
               bnd (record_live_decision A project_id (di_provider payload) project decision request_id latency_ms)
                 (\<lambda>finalized.
               ret (decision_response decision, py_str_int latency_ms,
                 if finalized then Some \<lparr> bt_project_id = project_id, bt_payload = payload,
                   bt_decision = decision, bt_request_id = request_id, bt_latency_ms = latency_ms \<rparr>
                 else None)))))))"

section \<open>The background task\<close>

fun safe_int :: "pyval \<Rightarrow> int option" where
  "safe_int (PBool b) = Some (if b then 1 else 0)"
| "safe_int (PInt i) = Some i"
| "safe_int (PFloat x) = Some (py_trunc x)"
| "safe_int (PStr s) = py_int_str s"
| "safe_int _ = None"

text \<open>\<open>decision.snapshot\<close> as the dictionary it is.\<close>

definition snapshot_dict :: "snapshot \<Rightarrow> pydict" where
  "snapshot_dict s = [(''requests_60s'', PInt (sn_requests_60s s)), (''tokens_60s'', PInt (sn_tokens_60s s)),
     (''threshold_req_60s'', opt_int (sn_threshold_req s)), (''threshold_tok_60s'', opt_int (sn_threshold_tok s)),
     (''decision_timeout_ms'', PInt (sn_decision_timeout_ms s)),
     (''predictive'', PDict [(''enabled'', PBool (pd_enabled (sn_predictive s))),
        (''estimated_next_tokens'', opt_int (pd_estimated_next_tokens (sn_predictive s))),
        (''would_exceed_tokens_cap'', PBool (pd_would_exceed (sn_predictive s)))])]"

definition or_zero :: "int option \<Rightarrow> int" where
  "or_zero x = (case x of None \<Rightarrow> 0 | Some i \<Rightarrow> i)"

definition record_preflight_incident_if_needed :: "'w protect_api \<Rightarrow> background_task \<Rightarrow> ('w, unit) py" where
  "record_preflight_incident_if_needed A b =
     (let d = bt_decision b; sn = snapshot_dict (d_snapshot d) in
      if d_decision d \<noteq> ''block'' \<or>
         d_reason d \<notin> {''req_cap_breach'', ''tok_cap_breach'', ''cooldown_active''} then ret ()
      else bnd (pa_clock A) (\<lambda>now.
        process_protect_block (pa_manager A) (bt_project_id b) (di_provider (bt_payload b))
          \<lparr> br_requested_model = di_requested_model (bt_payload b), br_resolved_model = None,
            br_environment = di_environment (bt_payload b), br_now = now, br_reason = d_reason d,
            br_requests_60s = safe_int (dget sn ''requests_60s''), br_tokens_60s = safe_int (dget sn ''tokens_60s''),
            br_req_cap = safe_int (dget sn ''threshold_req_60s''),
            br_tok_cap = safe_int (dget sn ''threshold_tok_60s''),
            br_blocked_until = d_blocked_until d, br_retry_after_seconds = d_retry_after_seconds d,
            br_request_id = bt_request_id b, br_source = Some (c_outcome_source_live app_config) \<rparr>))"

definition postprocess_live_preflight_decision :: "'w protect_api \<Rightarrow> background_task \<Rightarrow> ('w, unit) py" where
  "postprocess_live_preflight_decision A b =
     (let p = bt_payload b; d = bt_decision b; S = pa_service A;
          should_emit_notifications = bt_latency_ms b \<le> max (d_timeout_ms d) 0;
          sn = snapshot_dict (d_snapshot d);
          requests_60s = or_zero (safe_int (dget sn ''requests_60s''));
          tokens_60s = or_zero (safe_int (dget sn ''tokens_60s''));
          req_cap = safe_int (dget sn ''threshold_req_60s'');
          tok_cap = safe_int (dget sn ''threshold_tok_60s'');
          scoped_id = scoped_project_provider_id (bt_project_id b) (Some (di_provider p))
      in bnd (if \<not> should_emit_notifications then ret ()
         else if d_decision d = ''block'' \<and> d_reason d \<in> {''req_cap_breach'', ''tok_cap_breach''} then
           enqueue_block_notifications S (bt_project_id b) (di_provider p) (di_requested_model p) None
             (di_environment p) (d_reason d) requests_60s tokens_60s req_cap tok_cap (d_blocked_until d)
             (d_retry_after_seconds d) (c_outcome_source_live app_config)
         else if d_decision d = ''block'' \<and> d_reason d = ''cooldown_active'' \<and> truthy (d_blocked_until d) \<and>
             d_retry_after_seconds d \<noteq> None then
           enqueue_cooldown_block_if_needed S (bt_project_id b) scoped_id (di_provider p) (di_requested_model p)
             None (di_environment p) requests_60s tokens_60s req_cap tok_cap (the (d_blocked_until d))
             (the (d_retry_after_seconds d))
         else if d_decision d = ''clamp'' \<and> d_reason d = ''token_clamp'' then
           enqueue_clamp_started_notifications S (bt_project_id b) scoped_id (di_provider p)
             (di_requested_model p) None (di_environment p) requests_60s tokens_60s req_cap tok_cap
             (case as_dict (dget sn ''predictive'') of None \<Rightarrow> None
              | Some predictive \<Rightarrow> safe_int (dget predictive ''estimated_next_tokens'')) (d_clamp d)
         else ret ())
         (\<lambda>_. record_preflight_incident_if_needed A b))"

section \<open>The fallback reports\<close>

definition fallback_decision_of :: "project \<Rightarrow> string" where
  "fallback_decision_of p = (if pr_protect_fail_mode p = ''closed'' then ''block'' else ''allow'')"

text \<open>
  Recording the fallback of a request; an allow that replaces a live block takes back the cooldown of
  that block and the incident it opened.
\<close>

definition finalize_fallback ::
  "'w protect_api \<Rightarrow> project \<Rightarrow> string \<Rightarrow> string \<Rightarrow> string \<Rightarrow> string option \<Rightarrow> ('w, unit) py" where
  "finalize_fallback A project provider reason source request_id =
     (let scoped_id = scoped_project_provider_id (pr_id project) (Some provider) in
      bnd (pa_clock A) (\<lambda>now.
      bnd (finalize_outcome (pa_redis A) now scoped_id (fallback_decision_of project) reason source request_id None)
        (\<lambda>(finalized, replaced).
      if finalized \<and> fallback_decision_of project = ''allow'' \<and>
         (case replaced of None \<Rightarrow> False
          | Some r \<Rightarrow> o_source r = c_outcome_source_live app_config \<and> o_decision r = ''block'')
      then bnd (clear_block_cooldown (pa_redis A) scoped_id request_id) (\<lambda>_.
           reconcile_timeout_superseded_live_block (pa_manager A) (pr_id project) provider request_id)
      else ret ())))"

definition report_fail_closed ::
  "'w protect_api \<Rightarrow> project \<Rightarrow> string \<Rightarrow> fallback_in \<Rightarrow> string \<Rightarrow> string \<Rightarrow> string option \<Rightarrow> ('w, unit) py" where
  "report_fail_closed A project provider payload reason source request_id =
     (if pr_protect_enabled project \<and> pr_protect_fail_mode project = ''closed'' then
        bnd (report_fail_closed_block (pa_service A) (pr_id project) provider (fi_requested_model payload) None
          (Some (fi_environment payload)) reason source request_id) (\<lambda>_.
        bnd (pa_clock A) (\<lambda>now.
        process_protect_block (pa_manager A) (pr_id project) provider
          \<lparr> br_requested_model = fi_requested_model payload, br_resolved_model = None,
            br_environment = Some (fi_environment payload), br_now = now, br_reason = ''fail_closed'',
            br_requests_60s = None, br_tokens_60s = None, br_req_cap = pr_max_req_per_min project,
            br_tok_cap = pr_max_tok_per_min project, br_blocked_until = None, br_retry_after_seconds = None,
            br_request_id = request_id, br_source = Some source \<rparr>))
      else ret ())"

text \<open>\<open>header or payload.request_id\<close>.\<close>

definition resolved_request_id :: "string option \<Rightarrow> fallback_in \<Rightarrow> string option" where
  "resolved_request_id header payload = (if truthy header then header else fi_request_id payload)"

definition protect_decision_timeout ::
  "'w protect_api \<Rightarrow> fallback_in \<Rightarrow> string option \<Rightarrow> string option \<Rightarrow> ('w, unit) py" where
  "protect_decision_timeout A payload ingest_key request_id_header =
     http_guard ''Failed to record decision timeout''
       (if \<not> truthy ingest_key then raise (HTTPException 401 ''missing ingest key'')
        else bnd (resolve_project (pa_keys A) (the ingest_key)) (\<lambda>resolved. case resolved of
          None \<Rightarrow> raise (HTTPException 401 ''invalid ingest key'')
        | Some project \<Rightarrow>
            let provider = opt_or (fi_provider payload) ''unknown'';
                request_id = resolved_request_id request_id_header payload;
                source = c_outcome_source_timeout_fallback app_config
            in bnd (if pr_protect_enabled project
                 then finalize_fallback A project provider ''decision_timeout'' source request_id
                 else bnd (pa_clock A) (\<lambda>now. record_timeout_fallback (pa_redis A) now
                   (scoped_project_provider_id (pr_id project) (Some provider)) request_id None)) (\<lambda>_.
               report_fail_closed A project provider payload ''decision_timeout'' source request_id)))"

definition protect_decision_unavailable ::
  "'w protect_api \<Rightarrow> fallback_in \<Rightarrow> string option \<Rightarrow> string option \<Rightarrow> ('w, unit) py" where
  "protect_decision_unavailable A payload ingest_key request_id_header =
     http_guard ''Failed to record decision unavailable fallback''
       (if \<not> truthy ingest_key then raise (HTTPException 401 ''missing ingest key'')
        else bnd (resolve_project (pa_keys A) (the ingest_key)) (\<lambda>resolved. case resolved of
          None \<Rightarrow> raise (HTTPException 401 ''invalid ingest key'')
        | Some project \<Rightarrow>
            let provider = opt_or (fi_provider payload) ''unknown'';
                request_id = resolved_request_id request_id_header payload;
                source = c_outcome_source_unavailable_fallback app_config
            in bnd (if pr_protect_enabled project
                 then finalize_fallback A project provider ''decision_unavailable'' source request_id
                 else ret ()) (\<lambda>_.
               report_fail_closed A project provider payload ''decision_unavailable'' source request_id)))"

section \<open>Settings endpoints\<close>

text \<open>\<open>timeout_ms\<close> is \<open>Settings().protect_decision_timeout_ms\<close>.\<close>

definition get_protect_runtime_config ::
  "'w protect_api \<Rightarrow> int \<Rightarrow> string option \<Rightarrow> ('w, string \<times> int) py" where
  "get_protect_runtime_config A timeout_ms ingest_key =
     http_guard ''Failed to fetch protect config''
       (if \<not> truthy ingest_key then raise (HTTPException 401 ''missing ingest key'')
        else bnd (resolve_project (pa_keys A) (the ingest_key)) (\<lambda>resolved. case resolved of
          None \<Rightarrow> raise (HTTPException 401 ''invalid ingest key'')
        | Some project \<Rightarrow> ret (pr_protect_fail_mode project, timeout_ms)))"

definition project_protect_out :: "project \<Rightarrow> project_protect" where
  "project_protect_out p = \<lparr> pq_enabled = pr_protect_enabled p, pq_fail_mode = pr_protect_fail_mode p,
     pq_apply_clamp = pr_apply_clamp p, pq_max_req_per_min = pr_max_req_per_min p,
     pq_max_tok_per_min = pr_max_tok_per_min p \<rparr>"

definition get_project_protect :: "'w protect_api \<Rightarrow> string \<Rightarrow> user \<Rightarrow> ('w, project_protect) py" where
  "get_project_protect A project_id current_user =
     http_guard ''Failed to fetch project protect settings''
       (bnd (service_get_settings (pa_projects A) project_id (us_id current_user)) (\<lambda>p. ret (project_protect_out p)))"

text \<open>The body validation of \<open>ProjectProtectIn\<close>; a body that fails it is refused before the endpoint runs.\<close>

definition protect_in_valid :: "project_protect \<Rightarrow> bool" where
  "protect_in_valid q \<longleftrightarrow> pq_fail_mode q \<in> {''open'', ''closed''} \<and>
     (case pq_max_req_per_min q of None \<Rightarrow> True | Some n \<Rightarrow> 1 \<le> n) \<and>
     (case pq_max_tok_per_min q of None \<Rightarrow> True | Some n \<Rightarrow> 1 \<le> n)"

definition update_project_protect ::
  "'w protect_api \<Rightarrow> string \<Rightarrow> project_protect \<Rightarrow> user \<Rightarrow> ('w, project_protect) py" where
  "update_project_protect A project_id q current_user =
     http_guard ''Failed to update project protect settings''
       (bnd (service_update_protect_settings (pa_projects A) project_id (us_id current_user) (pq_enabled q)
          (pq_fail_mode q) (pq_apply_clamp q) (pq_max_req_per_min q) (pq_max_tok_per_min q)) (\<lambda>p.
        ret (project_protect_out p)))"

end
