(* ===== verification/Live_Outcome.thy ===== *)
theory Live_Outcome
  imports Protect_Api Outcome_Ledger Decision_Table
begin

text \<open>
  The life of a request's outcome across the endpoints: a live block of a cap breach starts a cooldown
  that every later decision of the scope obeys, a fallback that allowed the request takes the block and
  its cooldown back, and a live decision that arrives after the fallback leaves no trace.
\<close>

section \<open>Cooldown and health in the ledger\<close>

definition cooldown_of :: "ledger \<Rightarrow> int option" where
  "cooldown_of L = (case l_cooldown L of None \<Rightarrow> None
     | Some s \<Rightarrow> (case py_int_str s of None \<Rightarrow> None | Some n \<Rightarrow> if n > 0 then Some n else None))"

definition owned_by :: "string \<Rightarrow> ledger \<Rightarrow> bool" where
  "owned_by rid L \<longleftrightarrow> (case l_owner L of None \<Rightarrow> rid = [] | Some s \<Rightarrow> s = rid)"

lemma ledger_cooldown_fields [simp]:
  "l_cooldown (snd (ledger_finalize x rid L)) = l_cooldown L"
  "l_owner (snd (ledger_finalize x rid L)) = l_owner L"
  by (auto simp: ledger_finalize_def ledger_record_def ledger_apply_def ledger_remove_def ledger_bump_def Let_def
      split: option.splits)

context redis_zset_contract
begin

lemma get_cooldown_ledger:
  "ok w \<Longrightarrow> ledger_view (sv w) (zv w) p L \<Longrightarrow> get_block_cooldown_until_ms R p w = (Inr (cooldown_of L), w)"
  by (simp add: get_cooldown_text cooldown_of_def ledger_view_def)

lemma set_cooldown_ledger:
  assumes "ok w" "ledger_view (sv w) (zv w) p L" "rid \<noteq> []"
  shows "\<exists>w'. set_block_cooldown R p ms secs (Some rid) w = (Inr (), w') \<and> ok w' \<and>
     ledger_view (sv w') (zv w') p (L\<lparr> l_cooldown := Some (py_str_int ms), l_owner := Some rid \<rparr>)"
proof -
  have "cooldown_strings zv w p" using assms(2) by (simp add: cooldown_strings_def ledger_view_def)
  from set_cooldown_view [OF assms(1) this assms(3)] obtain w' where
    "set_block_cooldown R p ms secs (Some rid) w = (Inr (), w')" "ok w'" "zv w' = zv w"
    "sv w' = (sv w)(cooldown_key p \<mapsto> py_str_int ms, cooldown_owner_key p \<mapsto> rid)" by blast
  moreover from this have "ledger_view (sv w') (zv w') p (L\<lparr> l_cooldown := Some (py_str_int ms), l_owner := Some rid \<rparr>)"
    using assms(2) unfolding ledger_view_def by (auto dest: counter_key_cases)
  ultimately show ?thesis by blast
qed

lemma clear_cooldown_ledger:
  assumes "ok w" "ledger_view (sv w) (zv w) p L"
  shows "\<exists>w'. clear_block_cooldown R p (Some rid) w = (Inr (owned_by rid L), w') \<and> ok w' \<and>
     ledger_view (sv w') (zv w') p (if owned_by rid L then L\<lparr> l_cooldown := None, l_owner := None \<rparr> else L)"
proof -
  have o: "(case sv w (cooldown_owner_key p) of None \<Rightarrow> rid = [] | Some s \<Rightarrow> s = rid) \<longleftrightarrow> owned_by rid L"
    using assms(2) by (simp add: owned_by_def ledger_view_def)
  have "cooldown_strings zv w p" using assms(2) by (simp add: cooldown_strings_def ledger_view_def)
  from clear_cooldown_view [OF assms(1) this, of rid] obtain w' where
    w': "clear_block_cooldown R p (Some rid) w = (Inr (owned_by rid L), w')" "ok w'" "zv w' = zv w"
    "sv w' = (if owned_by rid L then (sv w)(cooldown_key p := None, cooldown_owner_key p := None) else sv w)"
    unfolding o by blast
  have "ledger_view (sv w') (zv w') p (if owned_by rid L then L\<lparr> l_cooldown := None, l_owner := None \<rparr> else L)"
    using assms(2) unfolding w'(3,4) ledger_view_def by (auto dest: counter_key_cases)
  then show ?thesis using w'(1,2) by blast
qed

lemma record_health_ledger:
  assumes "ok w" "ledger_view (sv w) (zv w) p L" "0 \<le> now" "now < 253234080000000000"
  shows "\<exists>w'. record_health R now u p lat None w = (Inr (), w') \<and> ok w' \<and> ledger_view (sv w') (zv w') p L"
proof -
  have k: "sv w (latency_key p) = None" using assms(2) by (simp add: ledger_view_def)
  from zadd [OF assms(1) k epoch_ms_bound [OF assms(3,4)]] obtain r1 w1 where 1:
    "r_zadd R (latency_key p) (py_str_int (epoch_ms now) @ '':'' @ u @ '':'' @ py_str_int (max lat 0)) (epoch_ms now) w
      = (Inr r1, w1)" "ok w1" "sv w1 = sv w"
    "zv w1 = (zv w)(latency_key p := (zv w (latency_key p))(py_str_int (epoch_ms now) @ '':'' @ u @ '':'' @ py_str_int (max lat 0) \<mapsto> epoch_ms now))"
    by blast
  have "sv w1 (latency_key p) = None" using k 1(3) by simp
  from zremrangebyscore [OF 1(2) this, of 0 "epoch_ms now - action_ttl * 1000"] obtain r2 w2 Z where 2:
    "r_zremrangebyscore R (latency_key p) 0 (epoch_ms now - action_ttl * 1000) w1 = (Inr r2, w2)" "ok w2" "sv w2 = sv w1"
    "zv w2 = (zv w1)(latency_key p := Z)" by blast
  from expire [OF 2(2), of action_ttl "latency_key p"] obtain r3 w3 where 3:
    "r_expire R (latency_key p) action_ttl w2 = (Inr r3, w3)" "ok w3" "sv w3 = sv w2" "zv w3 = zv w2" by auto
  have "ledger_view (sv w3) (zv w3) p L"
    using assms(2) unfolding 3(3,4) 2(3,4) 1(3,4) ledger_view_def by (auto dest: counter_key_cases)
  then show ?thesis using 1(1) 2(1) 3(1,2)
    by (intro exI [of _ w3]) (simp add: record_health_def try_except_def bnd_def Let_def)
qed

end

section \<open>The environment\<close>

text \<open>Reading the clock and drawing an id leave Redis as it is; the clock is between 1970 and 9994.\<close>

definition api_env ::
  "'w protect_api \<Rightarrow> 'w redis_client \<Rightarrow> ('w \<Rightarrow> bool) \<Rightarrow> ('w \<Rightarrow> string \<Rightarrow> string option) \<Rightarrow>
   ('w \<Rightarrow> string \<Rightarrow> string \<Rightarrow> int option) \<Rightarrow> bool" where
  "api_env A R ok sv zv \<longleftrightarrow> redis_zset_contract R ok sv zv \<and> pa_redis A = R \<and>
     (\<forall>w. ok w \<longrightarrow>
       (\<exists>now w'. pa_clock A w = (Inr now, w') \<and> 0 \<le> now \<and> now < 253234080000000000 \<and> ok w' \<and>
          sv w' = sv w \<and> zv w' = zv w) \<and>
       (\<exists>u w'. pa_uuid A w = (Inr u, w') \<and> ok w' \<and> sv w' = sv w \<and> zv w' = zv w))"

lemma api_envD:
  assumes "api_env A R ok sv zv"
  shows "redis_zset_contract R ok sv zv" "pa_redis A = R"
    "ok w \<Longrightarrow> \<exists>now w'. pa_clock A w = (Inr now, w') \<and> 0 \<le> now \<and> now < 253234080000000000 \<and> ok w' \<and>
       sv w' = sv w \<and> zv w' = zv w"
    "ok w \<Longrightarrow> \<exists>u w'. pa_uuid A w = (Inr u, w') \<and> ok w' \<and> sv w' = sv w \<and> zv w' = zv w"
  using assms unfolding api_env_def by blast+

text \<open>
  The start of a call of the decision endpoint: the evaluation answers \<open>d\<close> for the project \<open>pid\<close>, the
  key still resolves to \<open>project\<close>, and the world is \<open>w\<close> then.
\<close>

definition evaluated ::
  "'w protect_api \<Rightarrow> string \<Rightarrow> decision_in \<Rightarrow> 'w \<Rightarrow> string \<Rightarrow> protect_decision \<Rightarrow> project \<Rightarrow> int \<Rightarrow> 'w \<Rightarrow> bool" where
  "evaluated A key payload w0 pid d project latency_ms w \<longleftrightarrow>
     key \<noteq> [] \<and> pid \<noteq> [] \<and> (\<exists>start w1 w2 t w3.
       pa_perf_counter A w0 = (Inr start, w1) \<and>
       evaluate_decision (pa_service A) key (context_of payload) False w1 = (Inr (Some (pid, d)), w2) \<and>
       pa_perf_counter A w2 = (Inr t, w3) \<and> latency_ms = py_trunc (py_mul (py_sub t start) 1000) \<and>
       resolve_project (pa_keys A) key w3 = (Inr (Some project), w))"

definition task_of :: "decision_in \<Rightarrow> string \<Rightarrow> protect_decision \<Rightarrow> string option \<Rightarrow> int \<Rightarrow> background_task" where
  "task_of payload pid d rid latency_ms = \<lparr> bt_project_id = pid, bt_payload = payload, bt_decision = d,
     bt_request_id = rid, bt_latency_ms = latency_ms \<rparr>"

lemma protect_decision_run:
  assumes "evaluated A key payload w0 pid d project latency_ms w"
    and "record_live_decision A pid (di_provider payload) (Some project) d rid latency_ms w = (Inr fin, w')"
  shows "protect_decision_endpoint A payload (Some key) rid w0 =
     (Inr (decision_response d, py_str_int latency_ms,
        if fin then Some (task_of payload pid d rid latency_ms) else None), w')"
  using assms unfolding evaluated_def
  by (auto simp: protect_decision_endpoint_def bnd_def http_guard_def try_except_def truthy_def Let_def task_of_def)

section \<open>Recording a live decision\<close>

text \<open>A breach announces the end \<open>u\<close> of its cooldown.\<close>

definition breach :: "protect_decision \<Rightarrow> int \<Rightarrow> int \<Rightarrow> bool" where
  "breach d u secs \<longleftrightarrow> d_decision d = ''block'' \<and> d_reason d \<in> {''req_cap_breach'', ''tok_cap_breach''} \<and>
     d_blocked_until d = Some (iso_of_ms u) \<and> d_retry_after_seconds d = Some secs \<and>
     2 ^ 40 < u \<and> u < 2 ^ 31 * 1000"

definition live_outcome :: "protect_decision \<Rightarrow> datetime \<Rightarrow> outcome" where
  "live_outcome d t = \<lparr> o_decision = d_decision d, o_reason = d_reason d, o_source = ''live'', o_ts = isoformat t \<rparr>"

lemma iso_of_ms_nonempty [simp]: "iso_of_ms ms \<noteq> []"
  by (simp add: iso_of_ms_def)

context redis_zset_contract
begin

lemma record_live_ledger:
  assumes "api_env A R ok sv zv" "ok w" "pid \<noteq> []" "rid \<noteq> []" "pr_protect_enabled project"
    and p: "p = scoped_project_provider_id pid (Some provider)"
    and view: "ledger_view (sv w) (zv w) p L" "ledger_room L" "d_decision d \<noteq> []" "d_reason d \<noteq> []"
    and cool: "\<And>t w1. ledger_view (sv w1) (zv w1) p (snd (ledger_finalize (live_outcome d t) (Some rid) L)) \<Longrightarrow> ok w1 \<Longrightarrow>
      \<exists>w2. start_cooldown R p d (fst (fst (ledger_finalize (live_outcome d t) (Some rid) L))) (Some rid) w1 = (Inr (), w2) \<and>
        ok w2 \<and> ledger_view (sv w2) (zv w2) p (C (snd (ledger_finalize (live_outcome d t) (Some rid) L)))"
  shows "\<exists>t w'. record_live_decision A pid provider (Some project) d (Some rid) lat w =
      (Inr (fst (fst (ledger_finalize (live_outcome d t) (Some rid) L))), w') \<and> ok w' \<and>
      ledger_view (sv w') (zv w') p (C (snd (ledger_finalize (live_outcome d t) (Some rid) L)))"
proof -
  note env = api_envD [OF assms(1)]
  obtain t w1 where 1: "pa_clock A w = (Inr t, w1)" "0 \<le> t" "t < 253234080000000000" "ok w1" "sv w1 = sv w" "zv w1 = zv w"
    using env(3) [OF assms(2)] by blast
  define F where "F = ledger_finalize (live_outcome d t) (Some rid) L"
  have "ledger_view (sv w1) (zv w1) p L" using view(1) 1(5,6) by simp
  from finalize_refines [OF 1(4) this view(2) _ 1(2,3) view(3,4), where ts = None and now = t and source = "''live''" and rid = "Some rid"] obtain w2 where 2:
    "finalize_outcome R t p (d_decision d) (d_reason d) ''live'' (Some rid) None w1 = (Inr (fst F), w2)" "ok w2"
    "ledger_view (sv w2) (zv w2) p (snd F)" unfolding F_def live_outcome_def by auto
  obtain w3 where 3: "start_cooldown R p d (fst (fst F)) (Some rid) w2 = (Inr (), w3)" "ok w3"
    "ledger_view (sv w3) (zv w3) p (C (snd F))" using cool [of w2 t] 2 unfolding F_def by blast
  obtain t' w4 where 4: "pa_clock A w3 = (Inr t', w4)" "0 \<le> t'" "t' < 253234080000000000" "ok w4" "sv w4 = sv w3" "zv w4 = zv w3"
    using env(3) [OF 3(2)] by blast
  obtain u w5 where 5: "pa_uuid A w4 = (Inr u, w5)" "ok w5" "sv w5 = sv w4" "zv w5 = zv w4"
    using env(4) [OF 4(4)] by blast
  have "ledger_view (sv w5) (zv w5) p (C (snd F))" using 3(3) 4(5,6) 5(3,4) by simp
  from record_health_ledger [OF 5(2) this 4(2,3)] obtain w6 where 6:
    "record_health R t' u p lat None w5 = (Inr (), w6)" "ok w6" "ledger_view (sv w6) (zv w6) p (C (snd F))" by blast
  obtain b x where F: "fst F = (b, x)" by (cases "fst F")
  show ?thesis
    using 1(1) 2(1) 3(1) 4(1) 5(1) 6 assms(3,5) F unfolding F_def [symmetric]
    by (intro exI [of _ t] exI [of _ w6])
      (simp add: record_live_decision_def bnd_def env(2) F_def [symmetric] flip: p)
qed

lemma breach_cooldown:
  assumes "ok w" "ledger_view (sv w) (zv w) p L" "breach d u secs" "rid \<noteq> []"
  shows "\<exists>w'. start_cooldown R p d True (Some rid) w = (Inr (), w') \<and> ok w' \<and>
     ledger_view (sv w') (zv w') p (L\<lparr> l_cooldown := Some (py_str_int u), l_owner := Some rid \<rparr>)"
  using set_cooldown_ledger [OF assms(1,2,4), of u secs] assms(3) iso_of_ms_parses [of u]
  by (auto simp: start_cooldown_def breach_def truthy_def)

end

section \<open>The decision endpoint\<close>

lemma fresh_finalized:
  assumes "rid \<noteq> []" "l_outcomes L rid = None"
  shows "fst (fst (ledger_finalize x (Some rid) L)) = True"
    "l_outcomes (snd (ledger_finalize x (Some rid) L)) rid = Some x"
  using assms by (auto simp: ledger_finalize_def truthy_def ledger_record_def ledger_apply_def ledger_bump_def Let_def)

lemma outranked:
  assumes "rid \<noteq> []" "l_outcomes L rid = Some x" "1 < source_rank (o_source x)" "o_source y = ''live''"
  shows "ledger_finalize y (Some rid) L = ((False, Some x), L)"
  using assms by (simp add: ledger_finalize_def truthy_def should_replace_outcome_def source_rank_def)

text \<open>
  A cap breach starts a cooldown. When the decision endpoint answers a breach for a new request, the
  live outcome is recorded, the background work is scheduled, and the cooldown stored for the scope
  ends at exactly the announced millisecond; until then every evaluation of the scope that reads it
  blocks again and announces the same end.
\<close>

theorem breach_starts_cooldown:
  assumes "api_env A R ok sv zv" "evaluated A key payload w0 pid d project lat w" "ok w"
    and p: "p = scoped_project_provider_id pid (Some (di_provider payload))"
    and "ledger_view (sv w) (zv w) p L" "ledger_room L" "rid \<noteq> []" "l_outcomes L rid = None"
    and "pr_protect_enabled project" "breach d u secs"
  shows "\<exists>w' t L'. protect_decision_endpoint A payload (Some key) (Some rid) w0 =
       (Inr (decision_response d, py_str_int lat, Some (task_of payload pid d (Some rid) lat)), w') \<and>
     get_block_cooldown_until_ms R p w' = (Inr (Some u), w') \<and>
     ok w' \<and> ledger_view (sv w') (zv w') p L' \<and> l_outcomes L' rid = Some (live_outcome d t) \<and>
     l_owner L' = Some rid \<and>
     (\<forall>ctx now_ms r n. if now_ms < u
        then d_decision (decide (pa_service A) project ctx now_ms (Some u) r n) = ''block'' \<and>
             d_blocked_until (decide (pa_service A) project ctx now_ms (Some u) r n) = d_blocked_until d
        else True)"
proof -
  have pid: "pid \<noteq> []" using assms(2) by (simp add: evaluated_def)
  note Z = api_envD(1) [OF assms(1)]
  let ?C = "\<lambda>L. L\<lparr> l_cooldown := Some (py_str_int u), l_owner := Some rid \<rparr>"
  have ne: "d_decision d \<noteq> []" "d_reason d \<noteq> []" using assms(10) by (auto simp: breach_def)
  have cool: "\<exists>w2. start_cooldown R p d (fst (fst (ledger_finalize (live_outcome d t) (Some rid) L))) (Some rid) w1 = (Inr (), w2) \<and>
        ok w2 \<and> ledger_view (sv w2) (zv w2) p (?C (snd (ledger_finalize (live_outcome d t) (Some rid) L)))"
    if "ledger_view (sv w1) (zv w1) p (snd (ledger_finalize (live_outcome d t) (Some rid) L))" "ok w1" for t w1
    using redis_zset_contract.breach_cooldown [OF Z that(2,1) assms(10,7)] fresh_finalized(1) [OF assms(7,8)] by simp
  from redis_zset_contract.record_live_ledger [OF Z assms(1,3) pid assms(7,9) p assms(5,6) ne, of ?C lat, OF cool]
  obtain t w' where r: "record_live_decision A pid (di_provider payload) (Some project) d (Some rid) lat w = (Inr True, w')"
    "ok w'" "ledger_view (sv w') (zv w') p (?C (snd (ledger_finalize (live_outcome d t) (Some rid) L)))"
    using fresh_finalized(1) [OF assms(7,8)] by auto
  have "0 < u" using assms(10) by (simp add: breach_def)
  then have "get_block_cooldown_until_ms R p w' = (Inr (Some u), w')"
    using redis_zset_contract.get_cooldown_ledger [OF Z r(2,3)] by (simp add: cooldown_of_def)
  moreover have "\<forall>ctx now_ms q n. if now_ms < u
        then d_decision (decide (pa_service A) project ctx now_ms (Some u) q n) = ''block'' \<and>
             d_blocked_until (decide (pa_service A) project ctx now_ms (Some u) q n) = d_blocked_until d
        else True"
    using assms(9,10) by (simp add: decide_def cooling_def blocked_def decision_of_def breach_def Let_def)
  ultimately show ?thesis
    using protect_decision_run [OF assms(2) r(1)] r(2,3) fresh_finalized(2) [OF assms(7,8)]
    by (intro exI [of _ w'] exI [of _ t] exI [of _ "?C (snd (ledger_finalize (live_outcome d t) (Some rid) L))"]
        conjI) simp_all
qed

text \<open>
  C15: a live decision that arrives after the fallback of its request changes nothing: the caller still
  gets the decision, but no outcome is recorded, no cooldown is started and no notification or incident
  work is scheduled.
\<close>

theorem late_decision_ignored:
  assumes "api_env A R ok sv zv" "evaluated A key payload w0 pid d project lat w" "ok w"
    and p: "p = scoped_project_provider_id pid (Some (di_provider payload))"
    and "ledger_view (sv w) (zv w) p L" "ledger_room L" "rid \<noteq> []" "l_outcomes L rid = Some x"
    and "o_source x \<in> {''timeout_fallback'', ''unavailable_fallback''}"
    and "pr_protect_enabled project" "d_decision d \<noteq> []" "d_reason d \<noteq> []"
  shows "\<exists>w'. protect_decision_endpoint A payload (Some key) (Some rid) w0 =
       (Inr (decision_response d, py_str_int lat, None), w') \<and> ok w' \<and> ledger_view (sv w') (zv w') p L \<and>
     get_block_cooldown_until_ms R p w' = (Inr (cooldown_of L), w')"
proof -
  have pid: "pid \<noteq> []" using assms(2) by (simp add: evaluated_def)
  note Z = api_envD(1) [OF assms(1)]
  have late: "ledger_finalize (live_outcome d t) (Some rid) L = ((False, Some x), L)" for t
    using outranked [OF assms(7,8)] assms(9) by (auto simp: source_rank_def live_outcome_def)
  have cool: "\<exists>w2. start_cooldown R p d (fst (fst (ledger_finalize (live_outcome d t) (Some rid) L))) (Some rid) w1 = (Inr (), w2) \<and>
        ok w2 \<and> ledger_view (sv w2) (zv w2) p (snd (ledger_finalize (live_outcome d t) (Some rid) L))"
    if "ledger_view (sv w1) (zv w1) p (snd (ledger_finalize (live_outcome d t) (Some rid) L))" "ok w1" for t w1
    using that by (simp add: late start_cooldown_def)
  from redis_zset_contract.record_live_ledger [OF Z assms(1,3) pid assms(7,10) p assms(5,6,11,12), of "\<lambda>L. L" lat, OF cool]
  obtain w' where r: "record_live_decision A pid (di_provider payload) (Some project) d (Some rid) lat w = (Inr False, w')"
    "ok w'" "ledger_view (sv w') (zv w') p L" by (auto simp: late)
  then show ?thesis
    using protect_decision_run [OF assms(2) r(1)] redis_zset_contract.get_cooldown_ledger [OF Z r(2,3)] by auto
qed

section \<open>The fallback endpoints\<close>

text \<open>The incident repository works on another database.\<close>

definition separate_repo ::
  "'w incident_repo \<Rightarrow> ('w \<Rightarrow> bool) \<Rightarrow> ('w \<Rightarrow> string \<Rightarrow> string option) \<Rightarrow>
   ('w \<Rightarrow> string \<Rightarrow> string \<Rightarrow> int option) \<Rightarrow> bool" where
  "separate_repo I ok sv zv \<longleftrightarrow>
     (\<forall>p v. frame (\<lambda>w. (ok w, sv w, zv w)) (ir_list_open_by_project_provider I p v)) \<and>
     (\<forall>i. frame (\<lambda>w. (ok w, sv w, zv w)) (ir_resolve_incident I i))"

lemma reconcile_frame:
  "separate_repo (im_repository M) ok sv zv \<Longrightarrow>
     frame (\<lambda>w. (ok w, sv w, zv w)) (reconcile_timeout_superseded_live_block M p v rid)"
  unfolding reconcile_timeout_superseded_live_block_def separate_repo_def
  by (auto intro!: frame_if frame_bnd seq_all_frame)

definition fallback_outcome :: "string \<Rightarrow> string \<Rightarrow> datetime \<Rightarrow> outcome" where
  "fallback_outcome reason source t =
     \<lparr> o_decision = ''allow'', o_reason = reason, o_source = source, o_ts = isoformat t \<rparr>"

lemma live_replaced:
  assumes "rid \<noteq> []" "l_outcomes L rid = Some x" "o_source x = ''live''" "1 < source_rank (o_source y)"
  shows "fst (ledger_finalize y (Some rid) L) = (True, Some x)"
    "l_outcomes (snd (ledger_finalize y (Some rid) L)) rid = Some y"
  using assms by (auto simp: ledger_finalize_def truthy_def should_replace_outcome_def source_rank_def
      ledger_record_def ledger_apply_def ledger_bump_def Let_def)

lemma finalize_fallback_undoes:
  assumes "api_env A R ok sv zv" "separate_repo (im_repository (pa_manager A)) ok sv zv" "ok w"
    and p: "p = scoped_project_provider_id (pr_id project) (Some provider)"
    and "ledger_view (sv w) (zv w) p L" "ledger_room L" "rid \<noteq> []"
    and x: "l_outcomes L rid = Some x" "o_source x = ''live''" "o_decision x = ''block''"
    and "pr_protect_fail_mode project \<noteq> ''closed''" "reason \<noteq> []"
    and source: "source \<in> {''timeout_fallback'', ''unavailable_fallback''}"
  shows "\<exists>r w' t L'. finalize_fallback A project provider reason source (Some rid) w = (r, w') \<and> ok w' \<and>
     ledger_view (sv w') (zv w') p L' \<and> l_outcomes L' rid = Some (fallback_outcome reason source t) \<and>
     cooldown_of L' = (if owned_by rid L then None else cooldown_of L)"
proof -
  note env = api_envD [OF assms(1)] and Z = api_envD(1) [OF assms(1)]
  obtain t w1 where 1: "pa_clock A w = (Inr t, w1)" "0 \<le> t" "t < 253234080000000000" "ok w1" "sv w1 = sv w" "zv w1 = zv w"
    using env(3) [OF assms(3)] by blast
  have allow: "fallback_decision_of project = ''allow''" using assms(11) by (simp add: fallback_decision_of_def)
  define y where "y = fallback_outcome reason source t"
  have rank: "1 < source_rank (o_source y)" "source \<noteq> []"
    using source by (auto simp: y_def fallback_outcome_def source_rank_def)
  note fin = live_replaced [OF assms(7) x(1,2) rank(1)]
  have "ledger_view (sv w1) (zv w1) p L" using assms(5) 1(5,6) by simp
  from redis_zset_contract.finalize_refines [OF Z 1(4) this assms(6) _ 1(2,3) _ assms(12) rank(2),
      where ts = None and now = t and decision = "''allow''" and rid = "Some rid"] obtain w2 where 2:
    "finalize_outcome R t p ''allow'' reason source (Some rid) None w1 = (Inr (True, Some x), w2)" "ok w2"
    "ledger_view (sv w2) (zv w2) p (snd (ledger_finalize y (Some rid) L))"
    using fin(1) unfolding y_def fallback_outcome_def by auto
  define L2 where "L2 = snd (ledger_finalize y (Some rid) L)"
  obtain w3 where 3: "clear_block_cooldown R p (Some rid) w2 = (Inr (owned_by rid L2), w3)" "ok w3"
    "ledger_view (sv w3) (zv w3) p (if owned_by rid L2 then L2\<lparr> l_cooldown := None, l_owner := None \<rparr> else L2)"
    using redis_zset_contract.clear_cooldown_ledger [OF Z 2(2,3)] unfolding L2_def by blast
  have own: "owned_by rid L2 = owned_by rid L" "cooldown_of L2 = cooldown_of L"
    by (simp_all add: L2_def owned_by_def cooldown_of_def)
  obtain r w4 where 4: "reconcile_timeout_superseded_live_block (pa_manager A) (pr_id project) provider (Some rid) w3 = (r, w4)"
    by fastforce
  have same: "ok w4 = ok w3" "sv w4 = sv w3" "zv w4 = zv w3"
    using frameD [OF reconcile_frame [OF assms(2)] 4] by simp_all
  have "finalize_fallback A project provider reason source (Some rid) w = (r, w4)"
    using 1(1) 2(1) 3(1) 4 x(2,3) allow env(2)
    by (simp add: finalize_fallback_def bnd_def flip: p)
  moreover have "l_outcomes (if owned_by rid L then L2\<lparr> l_cooldown := None, l_owner := None \<rparr> else L2) rid = Some y"
    using fin(2) by (simp add: L2_def)
  moreover have "cooldown_of (if owned_by rid L then L2\<lparr> l_cooldown := None, l_owner := None \<rparr> else L2) =
      (if owned_by rid L then None else cooldown_of L)"
    using own(2) by (simp add: cooldown_of_def)
  moreover have "ok w4" "ledger_view (sv w4) (zv w4) p
      (if owned_by rid L then L2\<lparr> l_cooldown := None, l_owner := None \<rparr> else L2)"
    using 3(2,3) same own(1) by simp_all
  ultimately show ?thesis unfolding y_def by blast
qed

text \<open>
  A fallback takes a live block back. When the SDK of an open project reports that it let a request
  run (after a timeout, or because the backend was unavailable) whose live decision was a block, the
  canonical outcome of the request becomes the allow of the fallback, and the cooldown that the block
  had started is gone; a cooldown that another request owns stays. This holds whether or not the
  incident that the block opened can be resolved.
\<close>

theorem fallback_undoes_block:
  assumes "api_env A R ok sv zv" "separate_repo (im_repository (pa_manager A)) ok sv zv" "ok w"
    and "key \<noteq> []" "resolve_project (pa_keys A) key w0 = (Inr (Some project), w)"
    and p: "p = scoped_project_provider_id (pr_id project) (Some (opt_or (fi_provider payload) ''unknown''))"
    and "ledger_view (sv w) (zv w) p L" "ledger_room L" "rid \<noteq> []"
    and x: "l_outcomes L rid = Some x" "o_source x = ''live''" "o_decision x = ''block''"
    and "pr_protect_enabled project" "pr_protect_fail_mode project \<noteq> ''closed''"
  shows "(\<exists>r w1 t1 L1. protect_decision_timeout A payload (Some key) (Some rid) w0 = (r, w1) \<and>
       ok w1 \<and> ledger_view (sv w1) (zv w1) p L1 \<and>
       l_outcomes L1 rid = Some (fallback_outcome ''decision_timeout'' ''timeout_fallback'' t1) \<and>
       get_block_cooldown_until_ms R p w1 = (Inr (if owned_by rid L then None else cooldown_of L), w1)) \<and>
     (\<exists>r w2 t2 L2. protect_decision_unavailable A payload (Some key) (Some rid) w0 = (r, w2) \<and>
       ok w2 \<and> ledger_view (sv w2) (zv w2) p L2 \<and>
       l_outcomes L2 rid = Some (fallback_outcome ''decision_unavailable'' ''unavailable_fallback'' t2) \<and>
       get_block_cooldown_until_ms R p w2 = (Inr (if owned_by rid L then None else cooldown_of L), w2))"
proof
  note Z = api_envD(1) [OF assms(1)]
  note undo = finalize_fallback_undoes [OF assms(1-3) p assms(7-9) x assms(14)]
  have ne: "''decision_timeout'' \<noteq> []" "''decision_unavailable'' \<noteq> []"
    "''timeout_fallback'' \<in> {''timeout_fallback'', ''unavailable_fallback''}"
    "''unavailable_fallback'' \<in> {''timeout_fallback'', ''unavailable_fallback''}" by simp_all
  have tail: "report_fail_closed A project v payload reason src rq = ret ()" for v reason src rq
    using assms(14) by (simp add: report_fail_closed_def)
  have rid: "resolved_request_id (Some rid) payload = Some rid"
    using assms(9) by (simp add: resolved_request_id_def truthy_def)
  have unit: "bnd m ret w = m w" for m :: "('a, unit) py" and w
    by (simp add: bnd_def split: prod.splits sum.splits)
  obtain r w1 t L1 where 1: "finalize_fallback A project (opt_or (fi_provider payload) ''unknown'')
      ''decision_timeout'' ''timeout_fallback'' (Some rid) w = (r, w1)" "ok w1" "ledger_view (sv w1) (zv w1) p L1"
    "l_outcomes L1 rid = Some (fallback_outcome ''decision_timeout'' ''timeout_fallback'' t)"
    "cooldown_of L1 = (if owned_by rid L then None else cooldown_of L)" using undo [OF ne(1,3)] by blast
  have "snd (protect_decision_timeout A payload (Some key) (Some rid) w0) = w1"
    using assms(4,5,13) 1(1) unfolding protect_decision_timeout_def http_guard_snd
    by (simp add: truthy_def bnd_Inr [of "resolve_project (pa_keys A) key"] Let_def rid tail unit)
  then have "protect_decision_timeout A payload (Some key) (Some rid) w0 = (fst (protect_decision_timeout A payload (Some key) (Some rid) w0), w1)" by (simp add: prod_eq_iff)
  then show "\<exists>r w1 t1 L1. protect_decision_timeout A payload (Some key) (Some rid) w0 = (r, w1) \<and>
       ok w1 \<and> ledger_view (sv w1) (zv w1) p L1 \<and>
       l_outcomes L1 rid = Some (fallback_outcome ''decision_timeout'' ''timeout_fallback'' t1) \<and>
       get_block_cooldown_until_ms R p w1 = (Inr (if owned_by rid L then None else cooldown_of L), w1)"
    by (intro exI conjI) (assumption | rule 1(2-4) redis_zset_contract.get_cooldown_ledger [OF Z 1(2,3), unfolded 1(5)])+
  obtain r w2 t L2 where 2: "finalize_fallback A project (opt_or (fi_provider payload) ''unknown'')
      ''decision_unavailable'' ''unavailable_fallback'' (Some rid) w = (r, w2)" "ok w2" "ledger_view (sv w2) (zv w2) p L2"
    "l_outcomes L2 rid = Some (fallback_outcome ''decision_unavailable'' ''unavailable_fallback'' t)"
    "cooldown_of L2 = (if owned_by rid L then None else cooldown_of L)" using undo [OF ne(2,4)] by blast
  have "snd (protect_decision_unavailable A payload (Some key) (Some rid) w0) = w2"
    using assms(4,5,13) 2(1) unfolding protect_decision_unavailable_def http_guard_snd
    by (simp add: truthy_def bnd_Inr [of "resolve_project (pa_keys A) key"] Let_def rid tail unit)
  then have "protect_decision_unavailable A payload (Some key) (Some rid) w0 = (fst (protect_decision_unavailable A payload (Some key) (Some rid) w0), w2)" by (simp add: prod_eq_iff)
  then show "\<exists>r w2 t2 L2. protect_decision_unavailable A payload (Some key) (Some rid) w0 = (r, w2) \<and>
       ok w2 \<and> ledger_view (sv w2) (zv w2) p L2 \<and>
       l_outcomes L2 rid = Some (fallback_outcome ''decision_unavailable'' ''unavailable_fallback'' t2) \<and>
       get_block_cooldown_until_ms R p w2 = (Inr (if owned_by rid L then None else cooldown_of L), w2)"
    by (intro exI conjI) (assumption | rule 2(2-4) redis_zset_contract.get_cooldown_ledger [OF Z 2(2,3), unfolded 2(5)])+
qed

section \<open>A concrete backend\<close>

text \<open>An evaluation without notifications changes the world only through what it reads.\<close>

lemma evaluate_frame:
  assumes "frame v (ps_perf_counter P)" "frame v (ps_now P)" "\<And>k. frame v (ps_resolve_project P k)"
    "\<And>s. frame v (cs_get (ps_counters P) s)" "\<And>s. frame v (get_block_cooldown_until_ms (ps_redis P) s)"
  shows "frame v (evaluate_decision P key ctx False)"
proof -
  have "frame v (cooldown_decision P project pv ctx st r t now u False)"
    "frame v (cap_breach_decision P project pv ctx st reason r t now False)"
    "frame v (clamp_or_allow P project pv ctx st r t False)" for project pv ctx st reason r t now u
    unfolding cooldown_decision_def cap_breach_decision_def build_block_decision_def clamp_or_allow_def Let_def
      if_False ret_bnd when_py_simps
    by (intro frame_ret frame_if)+
  then show ?thesis unfolding evaluate_decision_def Let_def
    by (intro frame_bnd frame_if frame_option frame_prod frame_ret assms)
qed

definition demo_repo :: "'w project_repo" where
  "demo_repo = \<lparr> pp_list_projects = ret [], pp_list_projects_for_user = (\<lambda>_. ret []),
     pp_get_project = (\<lambda>_. ret (Some example_project)), pp_create_project = ret,
     pp_get_project_by_name = (\<lambda>_. ret None), pp_get_project_by_name_for_user = (\<lambda>_ _. ret None),
     pp_update_protect_settings = (\<lambda>_ _ _ _ _ _. ret None), pp_update_webhook_settings = (\<lambda>_ _ _ _. ret None),
     pp_record_model_first_seen = (\<lambda>_ _ _ _. ret (False, True)), pp_count_project_models = (\<lambda>_. ret 0),
     pp_list_project_providers = (\<lambda>_. ret []), pp_delete_project = (\<lambda>_. ret False) \<rparr>"

definition demo_incidents :: "'w incident_repo" where
  "demo_incidents = \<lparr> ir_create_incident = ret, ir_get_open_incident_by_type = (\<lambda>_ _ _. ret None),
     ir_get_open_incident_by_fingerprint = (\<lambda>_ _ _ _. ret None),
     ir_update_open_incident_activity = (\<lambda>_ _ _. ret None), ir_list_by_project = (\<lambda>_ _ _. ret []),
     ir_list_open_by_project_provider = (\<lambda>_ _. ret []), ir_get_by_id = (\<lambda>_. ret None),
     ir_resolve_incident = (\<lambda>_. ret None), ir_resolve_open_incidents_by_type = (\<lambda>_ _ _ _ _. ret []),
     ir_auto_resolve_stale_open_incidents = (\<lambda>_ _. ret ([], {})) \<rparr>"

definition demo_keys :: "'w ingest_key_service" where
  "demo_keys = \<lparr> kv_keys = \<lparr> kr_list_by_project = (\<lambda>_. ret []), kr_get_by_id = (\<lambda>_. ret None),
       kr_get_active_by_hash = (\<lambda>h. ret (Some \<lparr> ik_id = ''k1'', ik_project_id = ''p1'', ik_name = ''prod'',
         ik_key_hash = h, ik_last4 = None, ik_status = ''active'', ik_created_at = 0, ik_revoked_at = None \<rparr>)),
       kr_create_key = ret, kr_revoke_key = (\<lambda>_ _. ret None) \<rparr>,
     kv_projects = demo_repo, kv_hash = (\<lambda>s. s), kv_generate = ret ''key'', kv_new_id = ret ''k2'', kv_clock = ret 0 \<rparr>"

text \<open>The backend of the tests with one key of the example project, on a service and a manager.\<close>

definition demo_backend ::
  "'w protect_service \<Rightarrow> 'w redis_client \<Rightarrow> 'w incident_manager \<Rightarrow> 'w protect_api" where
  "demo_backend S R M = \<lparr> pa_service = S, pa_redis = R, pa_keys = demo_keys, pa_manager = M,
     pa_projects = \<lparr> pv_repository = demo_repo, pv_new_id = ret ''p2'', pv_clock = ret 0 \<rparr>,
     pa_perf_counter = ret 0, pa_clock = ret 1773000000000000, pa_uuid = ret ''u'' \<rparr>"

text \<open>In-memory Redis, when the counters read \<open>r\<close> and \<open>t\<close>.\<close>

definition demo_api :: "int \<Rightarrow> int \<Rightarrow> fake_redis_state protect_api" where
  "demo_api r t = demo_backend (example_service_at r t) mem_redis
     \<lparr> im_repository = demo_incidents, im_dedup_window_seconds = 300, im_dispatcher = None,
       im_transport = None, im_new_id = ret ''i1'', im_clock = ret 0 \<rparr>"

definition demo_payload :: decision_in where
  "demo_payload = \<lparr> di_provider = ''openai'', di_requested_model = None, di_environment = None, di_feature = None,
     di_max_output_tokens = Some 500, di_input_tokens_estimate = Some 300 \<rparr>"

lemma demo_env: "api_env (demo_api r t) mem_redis fake_ok fake_sv fake_zv"
  using mr.redis_zset_contract_axioms by (simp add: api_env_def demo_api_def demo_backend_def)

lemma demo_separate: "separate_repo (im_repository (pa_manager (demo_api r t))) fake_ok fake_sv fake_zv"
  by (simp add: separate_repo_def demo_api_def demo_backend_def demo_incidents_def)

lemma demo_resolves: "resolve_project (pa_keys (demo_api r t)) key w = (Inr (Some example_project), w)"
  by (simp add: resolve_project_def demo_api_def demo_backend_def demo_keys_def demo_repo_def example_project_def)

lemma get_cooldown_frame: "frame (\<lambda>w. w) (get_block_cooldown_until_ms fake_redis p)"
proof -
  have "frame (\<lambda>w. w) (r_get fake_redis k)" for k by (simp add: frame_def fake_redis_def fake_get_def)
  then show ?thesis unfolding get_block_cooldown_until_ms_def
    by (intro frame_try frame_bnd frame_option frame_ret frame_raise)
qed

lemma demo_readings:
  assumes "get_block_cooldown_until_ms fake_redis ''p1:openai'' w = (Inr c, w)"
  shows "readings (example_service_at r t) ''key'' example_context w example_project 1773000000000000 c r t"
  using assms by (simp add: readings_def example_service_at_def example_service_def example_project_def
      example_context_def example_scope)

lemma demo_evaluated:
  assumes "get_block_cooldown_until_ms fake_redis ''p1:openai'' w = (Inr c, w)"
  shows "evaluated (demo_api r t) ''key'' demo_payload w ''p1''
     (decide (example_service_at r t) example_project example_context 1773000000000 c r t) example_project 0 w"
proof -
  have ctx: "context_of demo_payload = example_context"
    by (simp add: context_of_def demo_payload_def example_context_def)
  have "frame (\<lambda>w. w) (evaluate_decision (example_service_at r t) ''key'' example_context False)"
    by (rule evaluate_frame) (auto simp: example_service_at_def example_service_def get_cooldown_frame)
  moreover obtain w' where e: "evaluate_decision (example_service_at r t) ''key'' example_context False w =
     (Inr (Some (''p1'', decide (example_service_at r t) example_project example_context 1773000000000 c r t)), w')"
    using evaluate_decides [OF demo_readings [OF assms], of r t False] unfolding example_now
    by (auto simp: example_project_def)
  ultimately have "w' = w" using frameD by fastforce
  then show ?thesis using e ctx demo_resolves
    by (simp add: evaluated_def demo_api_def demo_backend_def py_mul_def py_sub_def)
qed

lemma demo_no_cooldown:
  "fake_ok w \<Longrightarrow> ledger_view (fake_sv w) (fake_zv w) ''p1:openai'' L \<Longrightarrow>
     get_block_cooldown_until_ms fake_redis ''p1:openai'' w = (Inr (cooldown_of L), w)"
  using fr.get_cooldown_text by (simp add: cooldown_of_def ledger_view_def)

lemma demo_breach:
  "breach (decide (example_service_at 0 1000) example_project example_context 1773000000000 None 0 1000) 1773000060000 60"
proof -
  have "ceil_div_1000 60000 = 60" by code_simp
  then show ?thesis
    by (simp add: breach_def decide_def blocked_def decision_of_def Let_def cooling_def at_cap_def
        example_project_def example_service_at_def example_service_def)
qed

lemma demo_scope: "scoped_project_provider_id ''p1'' (Some ''openai'') = ''p1:openai''"
  by code_simp

lemma room_empty [simp]: "ledger_room empty_ledger"
  by (simp add: ledger_room_def empty_ledger_def)

theorem breach_starts_cooldown_witness:
  "\<exists>out w'. protect_decision_endpoint (demo_api 0 1000) demo_payload (Some ''key'') (Some ''r1'') fake_empty = (Inr out, w') \<and>
     get_block_cooldown_until_ms mem_redis ''p1:openai'' w' = (Inr (Some 1773000060000), w')"
proof -
  have p: "''p1:openai'' = scoped_project_provider_id ''p1'' (Some (di_provider demo_payload))"
    by (simp add: demo_payload_def demo_scope)
  have e: "l_outcomes empty_ledger ''r1'' = None" "pr_protect_enabled example_project"
    by (simp_all add: empty_ledger_def example_project_def)
  show ?thesis
    using breach_starts_cooldown [OF demo_env demo_evaluated fake_empty_views(1) p fake_empty_ledger room_empty _ e demo_breach]
      demo_no_cooldown [OF fake_empty_views(1) fake_empty_ledger] by (auto simp: empty_ledger_def cooldown_of_def)
qed

text \<open>The world after one outcome of the request \<open>r1\<close>.\<close>

lemma demo_finalized:
  assumes "d \<noteq> []" "reason \<noteq> []" "source \<noteq> []"
  defines "x \<equiv> \<lparr> o_decision = d, o_reason = reason, o_source = source, o_ts = isoformat 5 \<rparr>"
  shows "\<exists>w1 L. finalize_outcome mem_redis 5 ''p1:openai'' d reason source (Some ''r1'') None fake_empty =
       (Inr (True, None), w1) \<and> fake_ok w1 \<and> ledger_view (fake_sv w1) (fake_zv w1) ''p1:openai'' L \<and>
     l_outcomes L ''r1'' = Some x \<and> cooldown_of L = None \<and> ledger_room L"
proof -
  let ?F = "ledger_finalize x (Some ''r1'') empty_ledger"
  have F: "fst ?F = (True, None)" "l_outcomes (snd ?F) ''r1'' = Some x" "cooldown_of (snd ?F) = None" "ledger_room (snd ?F)"
    by (auto simp: ledger_finalize_def truthy_def empty_ledger_def ledger_record_def ledger_apply_def ledger_bump_def
        Let_def cooldown_of_def ledger_room_def)
  show ?thesis
    using mr.finalize_refines [OF fake_empty_views(1) fake_empty_ledger room_empty _ _ _ assms(1-3),
        where t = 5 and now = 5 and ts = None and rid = "Some ''r1''"] F unfolding x_def by fastforce
qed

theorem late_decision_ignored_witness:
  "\<exists>w1 w2 d. finalize_outcome mem_redis 5 ''p1:openai'' ''allow'' ''decision_timeout'' ''timeout_fallback''
       (Some ''r1'') None fake_empty = (Inr (True, None), w1) \<and>
     protect_decision_endpoint (demo_api 0 1000) demo_payload (Some ''key'') (Some ''r1'') w1 =
       (Inr (decision_response d, ''0'', None), w2) \<and> d_decision d = ''block'' \<and>
     get_block_cooldown_until_ms mem_redis ''p1:openai'' w2 = (Inr None, w2)"
proof -
  obtain w1 L where w1: "finalize_outcome mem_redis 5 ''p1:openai'' ''allow'' ''decision_timeout'' ''timeout_fallback''
       (Some ''r1'') None fake_empty = (Inr (True, None), w1)" "fake_ok w1"
    "ledger_view (fake_sv w1) (fake_zv w1) ''p1:openai'' L" "cooldown_of L = None" "ledger_room L"
    "l_outcomes L ''r1'' = Some \<lparr> o_decision = ''allow'', o_reason = ''decision_timeout'',
       o_source = ''timeout_fallback'', o_ts = isoformat 5 \<rparr>"
    using demo_finalized [of "''allow''" "''decision_timeout''" "''timeout_fallback''"] by auto
  let ?d = "decide (example_service_at 0 1000) example_project example_context 1773000000000 None 0 1000"
  have ev: "evaluated (demo_api 0 1000) ''key'' demo_payload w1 ''p1'' ?d example_project 0 w1"
    using demo_evaluated demo_no_cooldown [OF w1(2,3)] w1(4) by simp
  have p: "''p1:openai'' = scoped_project_provider_id ''p1'' (Some (di_provider demo_payload))"
    by (simp add: demo_payload_def demo_scope)
  have d: "d_decision ?d = ''block''" "d_reason ?d \<noteq> []" using demo_breach by (auto simp: breach_def)
  have z: "py_str_int 0 = ''0''" by code_simp
  show ?thesis
    using late_decision_ignored [OF demo_env ev w1(2) p w1(3,5) _ w1(6)] d w1(1,4) z
    by (auto simp: example_project_def)
qed

definition demo_fallback :: fallback_in where
  "demo_fallback = \<lparr> fi_environment = ''prod'', fi_provider = Some ''openai'', fi_requested_model = None, fi_request_id = None \<rparr>"

theorem fallback_undoes_block_witness:
  "\<exists>w1 w2 w3 r. finalize_outcome mem_redis 5 ''p1:openai'' ''block'' ''tok_cap_breach'' ''live''
       (Some ''r1'') None fake_empty = (Inr (True, None), w1) \<and>
     set_block_cooldown mem_redis ''p1:openai'' 1773000060000 60 (Some ''r1'') w1 = (Inr (), w2) \<and>
     protect_decision_timeout (demo_api 0 0) demo_fallback (Some ''key'') (Some ''r1'') w2 = (r, w3) \<and>
     get_block_cooldown_until_ms mem_redis ''p1:openai'' w3 = (Inr None, w3)"
proof -
  obtain w1 L where w1: "finalize_outcome mem_redis 5 ''p1:openai'' ''block'' ''tok_cap_breach'' ''live''
       (Some ''r1'') None fake_empty = (Inr (True, None), w1)" "fake_ok w1"
    "ledger_view (fake_sv w1) (fake_zv w1) ''p1:openai'' L" "ledger_room L"
    "l_outcomes L ''r1'' = Some \<lparr> o_decision = ''block'', o_reason = ''tok_cap_breach'',
       o_source = ''live'', o_ts = isoformat 5 \<rparr>"
    using demo_finalized [of "''block''" "''tok_cap_breach''" "''live''"] by auto
  obtain w2 where w2: "set_block_cooldown mem_redis ''p1:openai'' 1773000060000 60 (Some ''r1'') w1 = (Inr (), w2)"
    "fake_ok w2" "ledger_view (fake_sv w2) (fake_zv w2) ''p1:openai''
       (L\<lparr> l_cooldown := Some (py_str_int 1773000060000), l_owner := Some ''r1'' \<rparr>)"
    using mr.set_cooldown_ledger [OF w1(2,3), of "''r1''" 1773000060000 60] by auto
  have p: "''p1:openai'' = scoped_project_provider_id (pr_id example_project) (Some (opt_or (fi_provider demo_fallback) ''unknown''))"
    by (simp add: demo_fallback_def example_project_def demo_scope opt_or_def or_str_def)
  have room: "ledger_room (L\<lparr> l_cooldown := Some (py_str_int 1773000060000), l_owner := Some ''r1'' \<rparr>)"
    using w1(4) by (simp add: ledger_room_def)
  let ?L = "L\<lparr> l_cooldown := Some (py_str_int 1773000060000), l_owner := Some ''r1'' \<rparr>"
  have x: "l_outcomes ?L ''r1'' = Some \<lparr> o_decision = ''block'', o_reason = ''tok_cap_breach'',
       o_source = ''live'', o_ts = isoformat 5 \<rparr>" "pr_protect_enabled example_project"
    "pr_protect_fail_mode example_project \<noteq> ''closed''" "owned_by ''r1'' ?L" "''key'' \<noteq> []" "''r1'' \<noteq> []"
    using w1(5) by (simp_all add: example_project_def owned_by_def)
  have o: "o_source \<lparr> o_decision = ''block'', o_reason = ''tok_cap_breach'', o_source = ''live'', o_ts = isoformat 5 \<rparr> = ''live''"
    "o_decision \<lparr> o_decision = ''block'', o_reason = ''tok_cap_breach'', o_source = ''live'', o_ts = isoformat 5 \<rparr> = ''block''"
    by simp_all
  have "\<exists>r w3. protect_decision_timeout (demo_api 0 0) demo_fallback (Some ''key'') (Some ''r1'') w2 = (r, w3) \<and>
     get_block_cooldown_until_ms mem_redis ''p1:openai'' w3 = (Inr (if owned_by ''r1'' ?L then None else cooldown_of ?L), w3)"
    using fallback_undoes_block [OF demo_env [of 0 0] demo_separate [of 0 0] w2(2) x(5) demo_resolves [of 0 0] p w2(3) room
        x(6,1) o x(2,3)] by blast
  then show ?thesis unfolding if_P [OF x(4)] using w1(1) w2(1) by blast
qed

end
