(* ===== verification/Incident_Reconcile.thy ===== *)
theory Incident_Reconcile
  imports Incident_Episodes Live_Outcome
begin

text \<open>
  Taking back the incident of a superseded live block: \<open>reconcile_timeout_superseded_live_block\<close>
  resolves exactly the open block incidents of the project and provider that the request's live block
  opened; and what happens when the background work of the block comes after it.
\<close>

section \<open>Resolving a list of incidents\<close>

definition resolved_row :: "datetime \<Rightarrow> incident \<Rightarrow> incident" where
  "resolved_row t r = r\<lparr> in_status := ''resolved'', in_resolved_at := Some t \<rparr>"

text \<open>The rows of \<open>rs\<close> that satisfy \<open>P\<close> resolved, each at some time; the others as they are.\<close>

definition resolved_where :: "(incident \<Rightarrow> bool) \<Rightarrow> incident list \<Rightarrow> incident list \<Rightarrow> bool" where
  "resolved_where P rs rs' \<longleftrightarrow>
     list_all2 (\<lambda>r r'. if P r then \<exists>t. r' = resolved_row t r else r' = r) rs rs'"

lemma resolved_row_simps [simp]:
  "in_id (resolved_row t r) = in_id r" "in_status (resolved_row t r) = ''resolved''"
  "resolved_row t (resolved_row s r) = resolved_row t r"
  by (simp_all add: resolved_row_def)

lemma resolved_where_refl: "(\<And>r. r \<in> set rs \<Longrightarrow> \<not> P r) \<Longrightarrow> resolved_where P rs rs"
  unfolding resolved_where_def by (intro list_all2I) (auto simp: zip_same)

lemma resolved_where_ids: "resolved_where P rs rs' \<Longrightarrow> map in_id rs' = map in_id rs"
  unfolding resolved_where_def
  by (induction rs rs' rule: list_all2_induct) (auto split: if_splits)

lemma resolved_where_cong:
  "(\<And>r. r \<in> set rs \<Longrightarrow> P r = Q r) \<Longrightarrow> resolved_where P rs rs' \<Longrightarrow> resolved_where Q rs rs'"
  unfolding resolved_where_def by (erule list_all2_mono [OF list_all2_refl, rotated] list.rel_mono_strong) auto

lemma resolve_one_more:
  assumes "resolved_where (\<lambda>r. in_id r \<in> ids) rs rs'"
  shows "resolved_where (\<lambda>r. in_id r \<in> insert i ids) rs (map_rows (\<lambda>x. in_id x = i) (resolved_row t) rs')"
  using assms unfolding resolved_where_def map_rows_def
  by (induction rs rs' rule: list_all2_induct) (auto split: if_splits)

text \<open>The open incidents a fallback of \<open>rid\<close> takes back.\<close>

definition taken_back :: "string \<Rightarrow> string \<Rightarrow> string \<Rightarrow> incident \<Rightarrow> bool" where
  "taken_back rid p v r \<longleftrightarrow> in_project_id r = p \<and> in_provider r = v \<and> is_open r \<and> superseded rid r"

context incident_store
begin

lemma resolve_list:
  assumes "im_repository M = I" "ok w" "resolved_where (\<lambda>r. in_id r \<in> ids) rs (rows w)"
    and "\<forall>r \<in> set xs. in_id r \<in> in_id ` set rs"
  shows "\<exists>w'. seq_all (map (\<lambda>r. if P r then bnd (ir_resolve_incident (im_repository M) (in_id r)) (\<lambda>_. ret ())
        else ret ()) xs) w = (Inr (), w') \<and> ok w' \<and>
     resolved_where (\<lambda>r. in_id r \<in> ids \<union> in_id ` {r \<in> set xs. P r}) rs (rows w')"
  using assms(2-4)
proof (induction xs arbitrary: w ids)
  case (Cons x xs)
  show ?case
  proof (cases "P x")
    case True
    have "in_id x \<in> set (map in_id (rows w))"
      using Cons.prems(3) resolved_where_ids [OF Cons.prems(2)] by auto
    then obtain y where y: "y \<in> set (rows w)" "in_id y = in_id x" by auto
    from resolve [OF Cons.prems(1) y(1)] obtain z t w1 where w1:
      "ir_resolve_incident I (in_id x) w = (Inr (Some z), w1)" "ok w1"
      "rows w1 = map_rows (\<lambda>r. in_id r = in_id x) (resolved_row t) (rows w)"
      unfolding resolved_row_def y(2) by blast
    have "resolved_where (\<lambda>r. in_id r \<in> insert (in_id x) ids) rs (rows w1)"
      unfolding w1(3) by (rule resolve_one_more [OF Cons.prems(2)])
    from Cons.IH [OF w1(2) this] Cons.prems(3) obtain w2 where w2:
      "seq_all (map (\<lambda>r. if P r then bnd (ir_resolve_incident (im_repository M) (in_id r)) (\<lambda>_. ret ())
        else ret ()) xs) w1 = (Inr (), w2)" "ok w2"
      "resolved_where (\<lambda>r. in_id r \<in> insert (in_id x) ids \<union> in_id ` {r \<in> set xs. P r}) rs (rows w2)" by auto
    have eq: "insert (in_id x) ids \<union> in_id ` {r \<in> set xs. P r} = ids \<union> in_id ` {r \<in> set (x # xs). P r}"
      using True by auto
    show ?thesis using True w1(1) assms(1) w2(1,2) w2(3) [unfolded eq]
      by (intro exI [of _ w2]) (simp add: bnd_def)
  next
    case False
    then have "{r \<in> set (x # xs). P r} = {r \<in> set xs. P r}" by auto
    then show ?thesis using Cons.IH [OF Cons.prems(1,2)] Cons.prems(3) False by simp
  qed
qed auto

lemma reconcile_rows:
  assumes "im_repository M = I" "ok w" "rid \<noteq> []"
  shows "\<exists>w'. reconcile_timeout_superseded_live_block M p v (Some rid) w = (Inr (), w') \<and> ok w' \<and>
     resolved_where (taken_back rid p v) (rows w) (rows w')"
proof -
  obtain xs where xs: "ir_list_open_by_project_provider I p v w = (Inr xs, w)"
    "set xs = {r \<in> set (rows w). in_project_id r = p \<and> in_provider r = v \<and> is_open r}"
    using list_open [OF assms(2)] by blast
  have "resolved_where (\<lambda>r. in_id r \<in> {}) (rows w) (rows w)" by (rule resolved_where_refl) simp
  from resolve_list [OF assms(1,2) this, of xs "superseded rid"] xs(2) obtain w' where w':
    "seq_all (map (\<lambda>r. if superseded rid r then bnd (ir_resolve_incident (im_repository M) (in_id r)) (\<lambda>_. ret ())
        else ret ()) xs) w = (Inr (), w')" "ok w'"
    "resolved_where (\<lambda>r. in_id r \<in> {} \<union> in_id ` {r \<in> set xs. superseded rid r}) (rows w) (rows w')" by auto
  have "distinct (map in_id (rows w))" using rows_ok [OF assms(2)] by blast
  then have inj: "inj_on in_id (set (rows w))" by (simp add: distinct_map)
  have "resolved_where (taken_back rid p v) (rows w) (rows w')"
  proof (rule resolved_where_cong [OF _ w'(3)])
    fix r assume r: "r \<in> set (rows w)"
    have "in_id r \<in> in_id ` {r \<in> set xs. superseded rid r} \<longleftrightarrow> r \<in> {r \<in> set xs. superseded rid r}"
      using inj_on_image_mem_iff [OF inj r, of "{r \<in> set xs. superseded rid r}"] xs(2) by auto
    then show "(in_id r \<in> {} \<union> in_id ` {r \<in> set xs. superseded rid r}) =
        taken_back rid p v r"
      using r xs(2) by (auto simp: taken_back_def)
  qed
  then show ?thesis using xs(1) w'(1,2) assms(1,3)
    by (auto simp: reconcile_timeout_superseded_live_block_def bnd_def truthy_def)
qed

end


text \<open>A block opened by a live decision of \<open>r1\<close>, and one of another request.\<close>

definition demo_incident :: "string \<Rightarrow> string \<Rightarrow> incident" where
  "demo_incident i rid = \<lparr> in_id = i, in_project_id = ''p'', in_provider = ''openai'', in_type = ''block'',
     in_status = ''open'', in_created_at = 0, in_resolved_at = None,
     in_evidence = [(''request_id'', PStr rid), (''source'', PStr ''live'')], in_fingerprint = Some i,
     in_last_seen_at = None \<rparr>"


section \<open>The background work of a block\<close>

text \<open>The incident of a breach, as the background task of its decision opens it.\<close>

definition block_fingerprint :: "background_task \<Rightarrow> string" where
  "block_fingerprint b = bt_project_id b @ '':'' @ di_provider (bt_payload b) @ '':block:'' @ d_reason (bt_decision b)"

context incident_store
begin

lemma background_opens:
  assumes "manager_env ok rows M" "im_repository M = I" "ok w" "pa_manager A = M"
    and clock: "pa_clock A w = (Inr now, w1)" "ok w1" "rows w1 = rows w"
    and b: "d_decision (bt_decision b) = ''block''" "d_reason (bt_decision b) \<in> {''req_cap_breach'', ''tok_cap_breach''}"
      "bt_request_id b = Some rid" "di_provider (bt_payload b) \<noteq> []"
    and none: "\<forall>r \<in> set (rows w). in_fingerprint r \<noteq> Some (block_fingerprint b) \<or> in_status r \<noteq> ''open''"
  shows "\<exists>r w'. record_preflight_incident_if_needed A b w = (Inr (), w') \<and> ok w' \<and> rows w' = rows w @ [r] \<and>
     taken_back rid (bt_project_id b) (di_provider (bt_payload b)) r"
proof -
  define rep where "rep = \<lparr> br_requested_model = di_requested_model (bt_payload b), br_resolved_model = None,
            br_environment = di_environment (bt_payload b), br_now = now, br_reason = d_reason (bt_decision b),
            br_requests_60s = safe_int (dget (snapshot_dict (d_snapshot (bt_decision b))) ''requests_60s''),
            br_tokens_60s = safe_int (dget (snapshot_dict (d_snapshot (bt_decision b))) ''tokens_60s''),
            br_req_cap = safe_int (dget (snapshot_dict (d_snapshot (bt_decision b))) ''threshold_req_60s''),
            br_tok_cap = safe_int (dget (snapshot_dict (d_snapshot (bt_decision b))) ''threshold_tok_60s''),
            br_blocked_until = d_blocked_until (bt_decision b), br_retry_after_seconds = d_retry_after_seconds (bt_decision b),
            br_request_id = bt_request_id b, br_source = Some (c_outcome_source_live app_config) \<rparr>"
  let ?e = "block_evidence (di_provider (bt_payload b)) rep" and ?after = "now - seconds (max (im_dedup_window_seconds M) 1)"
  have "\<forall>r \<in> set (rows w1). \<not> active_match (bt_project_id b) (di_provider (bt_payload b)) (block_fingerprint b) ?after r"
    using none clock(3) by (auto simp: active_match_def is_open_def)
  from upsert_new [OF assms(1,2) clock(2) b(4) this, of "''block''" ?e now "''protect''"] obtain i w2 where u:
    "upsert_episode M (bt_project_id b) (di_provider (bt_payload b)) ''block'' (block_fingerprint b) ?e now ?after ''protect'' w1 = (Inr (), w2)"
    "ok w2" "rows w2 = rows w1 @ [fresh_incident i (bt_project_id b) (di_provider (bt_payload b)) ''block'' (block_fingerprint b) ?e now]"
    by blast
  have "process_protect_block M (bt_project_id b) (di_provider (bt_payload b)) rep =
      upsert_episode M (bt_project_id b) (di_provider (bt_payload b)) ''block'' (block_fingerprint b) ?e now ?after ''protect''"
    using b(2) by (auto simp: process_protect_block_def rep_def block_fingerprint_def Let_def)
  moreover have "record_preflight_incident_if_needed A b w = process_protect_block M (bt_project_id b) (di_provider (bt_payload b)) rep w1"
    using b(1,2) assms(4) clock(1) by (auto simp: record_preflight_incident_if_needed_def bnd_def Let_def rep_def)
  ultimately show ?thesis using u clock(3) b(3)
    by (intro exI [of _ "fresh_incident i (bt_project_id b) (di_provider (bt_payload b)) ''block'' (block_fingerprint b) ?e now"]
        exI [of _ w2])
      (simp add: taken_back_def fresh_incident_def is_open_def superseded_def dget_dset block_evidence_def rep_def opt_str_def)
qed

end

text \<open>No open incident of the block's fingerprint.\<close>

definition no_open_block :: "background_task \<Rightarrow> incident list \<Rightarrow> bool" where
  "no_open_block b rs \<longleftrightarrow> (\<forall>r \<in> set rs. if in_fingerprint r = Some (block_fingerprint b) then in_status r \<noteq> ''open'' else True)"

lemma no_open_block_resolved:
  assumes "resolved_where P rs rs'" "no_open_block b rs"
  shows "no_open_block b rs'"
  using assms unfolding resolved_where_def
  by (induction rs rs' rule: list_all2_induct) (auto simp: no_open_block_def resolved_row_def split: if_splits)

lemma resolved_where_snoc:
  assumes "resolved_where P (rs @ [r]) rs'" "P r"
  shows "\<exists>ys t. rs' = ys @ [resolved_row t r] \<and> resolved_where P rs ys"
proof -
  obtain us t where "rs' = us @ [resolved_row t r]" "resolved_where P rs us"
    using assms unfolding resolved_where_def list_all2_append1 list_all2_Cons1 by auto
  then show ?thesis by blast
qed

text \<open>
  C23: the report of a fallback and the background work of the live block it supersedes do not commute.
  If the background work runs first, the fallback resolves the incident it opened. If the fallback is
  reported first (the decision was already recorded, its response is on the way), there is nothing to
  resolve yet, and the background work then opens an incident that stays open although the request was
  let through.
\<close>

theorem reconcile_order_matters:
  assumes "incident_store I ok rows" "manager_env ok rows (pa_manager A)" "im_repository (pa_manager A) = I" "ok w"
    and clock: "frame (store_view ok rows) (pa_clock A)" "never_raises (pa_clock A)"
    and b: "d_decision (bt_decision b) = ''block''" "d_reason (bt_decision b) \<in> {''req_cap_breach'', ''tok_cap_breach''}"
      "bt_request_id b = Some rid" "rid \<noteq> []" "p = bt_project_id b" "v = di_provider (bt_payload b)" "v \<noteq> []"
    and none: "no_open_block b (rows w)"
  shows "(\<exists>w' ys r. bnd (record_preflight_incident_if_needed A b)
         (\<lambda>_. reconcile_timeout_superseded_live_block (pa_manager A) p v (Some rid)) w = (Inr (), w') \<and>
       rows w' = ys @ [r] \<and> resolved_where (taken_back rid p v) (rows w) ys \<and> in_status r = ''resolved'') \<and>
     (\<exists>w' ys r. bnd (reconcile_timeout_superseded_live_block (pa_manager A) p v (Some rid))
         (\<lambda>_. record_preflight_incident_if_needed A b) w = (Inr (), w') \<and>
       rows w' = ys @ [r] \<and> resolved_where (taken_back rid p v) (rows w) ys \<and> taken_back rid p v r)"
proof
  have opens: "\<exists>r w'. record_preflight_incident_if_needed A b w = (Inr (), w') \<and> ok w' \<and> rows w' = rows w @ [r] \<and>
     taken_back rid p v r" if w: "ok w" "no_open_block b (rows w)" for w
  proof -
    obtain now w1 where c: "pa_clock A w = (Inr now, w1)" using clock(2) by (rule never_raisesE)
    then have "ok w1" "rows w1 = rows w" using frameD [OF clock(1)] w(1) by (auto simp: store_view_def)
    moreover have "\<forall>r \<in> set (rows w). in_fingerprint r \<noteq> Some (block_fingerprint b) \<or> in_status r \<noteq> ''open''"
      using w(2) by (auto simp: no_open_block_def)
    ultimately show ?thesis
      using incident_store.background_opens [OF assms(1-3) w(1) refl c] b by blast
  qed
  note reconcile = incident_store.reconcile_rows [OF assms(1,3) _ b(4), of _ p v]
  from opens [OF assms(4) none] obtain r w1 where 1: "record_preflight_incident_if_needed A b w = (Inr (), w1)" "ok w1"
    "rows w1 = rows w @ [r]" "taken_back rid p v r" by blast
  from reconcile [OF 1(2)] obtain w2 where 2:
    "reconcile_timeout_superseded_live_block (pa_manager A) p v (Some rid) w1 = (Inr (), w2)"
    "resolved_where (taken_back rid p v) (rows w @ [r]) (rows w2)" unfolding 1(3) by blast
  obtain ys t where "rows w2 = ys @ [resolved_row t r]" "resolved_where (taken_back rid p v) (rows w) ys"
    using resolved_where_snoc [OF 2(2) 1(4)] by blast
  then show "\<exists>w' ys r. bnd (record_preflight_incident_if_needed A b)
         (\<lambda>_. reconcile_timeout_superseded_live_block (pa_manager A) p v (Some rid)) w = (Inr (), w') \<and>
       rows w' = ys @ [r] \<and> resolved_where (taken_back rid p v) (rows w) ys \<and> in_status r = ''resolved''"
    using 1(1) 2(1) by (intro exI [of _ w2] exI [of _ ys] exI [of _ "resolved_row t r"]) simp
  from reconcile [OF assms(4)] obtain w3 where 3:
    "reconcile_timeout_superseded_live_block (pa_manager A) p v (Some rid) w = (Inr (), w3)" "ok w3"
    "resolved_where (taken_back rid p v) (rows w) (rows w3)" by blast
  from opens [OF 3(2) no_open_block_resolved [OF 3(3) none]] obtain r' w4 where
    "record_preflight_incident_if_needed A b w3 = (Inr (), w4)" "rows w4 = rows w3 @ [r']" "taken_back rid p v r'" by blast
  then show "\<exists>w' ys r. bnd (reconcile_timeout_superseded_live_block (pa_manager A) p v (Some rid))
         (\<lambda>_. record_preflight_incident_if_needed A b) w = (Inr (), w') \<and>
       rows w' = ys @ [r] \<and> resolved_where (taken_back rid p v) (rows w) ys \<and> taken_back rid p v r"
    using 3(1,3) by (intro exI [of _ w4] exI [of _ "rows w3"] exI [of _ r']) simp
qed

text \<open>A backend whose Redis is down, on the in-memory incidents.\<close>

definition down_redis :: "'w redis_client" where
  "down_redis = (let down = raise (BackendError ''down'') in
     \<lparr> r_get = (\<lambda>_. raise (BackendError ''down'')), r_set = (\<lambda>_ _ _. down), r_set_persistent = (\<lambda>_ _. down),
       r_set_nx_ex = (\<lambda>_ _ _. raise (BackendError ''down'')), r_zadd = (\<lambda>_ _ _. raise (BackendError ''down'')),
       r_zremrangebyscore = (\<lambda>_ _ _. raise (BackendError ''down'')), r_zcard = (\<lambda>_. raise (BackendError ''down'')),
       r_zrangebyscore = (\<lambda>_ _ _. raise (BackendError ''down'')), r_zrem = (\<lambda>_ _. raise (BackendError ''down'')),
       r_incr = (\<lambda>_. raise (BackendError ''down'')), r_incrby = (\<lambda>_ _. raise (BackendError ''down'')),
       r_expire = (\<lambda>_ _. raise (BackendError ''down'')), r_delete = (\<lambda>_. raise (BackendError ''down'')) \<rparr>)"

definition down_service :: "'w protect_service" where
  "down_service = \<lparr> ps_resolve_project = (\<lambda>_. ret (Some example_project)),
     ps_counters = RollingWindow down_redis 0 ''m'', ps_redis = down_redis, ps_cooldown_seconds = 60,
     ps_get_project = None, ps_dedup_window_seconds = 300, ps_dispatcher = None, ps_transport = None,
     ps_now = ret 0, ps_perf_counter = ret 0, ps_timeout_ms = 300, ps_pressure_thresholds = [], ps_output_ratios = [] \<rparr>"

definition demo_task :: background_task where
  "demo_task = \<lparr> bt_project_id = ''p1'', bt_payload = demo_payload,
     bt_decision = decide (example_service_at 0 1000) example_project example_context 1773000000000 None 0 1000,
     bt_request_id = Some ''r1'', bt_latency_ms = 400 \<rparr>"

theorem reconcile_order_matters_witness:
  "\<exists>w1 w2 a b. bnd (record_preflight_incident_if_needed (demo_backend down_service down_redis example_manager) demo_task)
       (\<lambda>_. reconcile_timeout_superseded_live_block example_manager ''p1'' ''openai'' (Some ''r1'')) [] = (Inr (), w1) \<and>
     bnd (reconcile_timeout_superseded_live_block example_manager ''p1'' ''openai'' (Some ''r1''))
       (\<lambda>_. record_preflight_incident_if_needed (demo_backend down_service down_redis example_manager) demo_task) [] = (Inr (), w2) \<and>
     w1 = [a] \<and> in_status a = ''resolved'' \<and> w2 = [b] \<and> in_status b = ''open''"
proof -
  let ?A = "demo_backend down_service down_redis example_manager :: incident list protect_api"
  have m: "manager_env mem_ok (\<lambda>xs. xs) (pa_manager ?A)"
      "im_repository (pa_manager ?A) = IncidentRepositoryImpl mem_incidents (ret 0)"
      "frame (store_view mem_ok (\<lambda>xs. xs)) (pa_clock ?A)" "never_raises (pa_clock ?A)"
    using example_env by (simp_all add: demo_backend_def example_manager_def)
  have d: "d_decision (bt_decision demo_task) = ''block''"
      "d_reason (bt_decision demo_task) \<in> {''req_cap_breach'', ''tok_cap_breach''}"
    using demo_breach by (simp_all add: breach_def demo_task_def)
  have b: "bt_request_id demo_task = Some ''r1''" "''r1'' \<noteq> []" "''p1'' = bt_project_id demo_task"
      "''openai'' = di_provider (bt_payload demo_task)" "''openai'' \<noteq> []" "no_open_block demo_task []"
    by (simp_all add: demo_task_def demo_payload_def no_open_block_def)
  have A: "pa_manager ?A = example_manager" by (simp add: demo_backend_def)
  have nil: "resolved_where P [] ys \<Longrightarrow> ys = []" for P ys by (simp add: resolved_where_def)
  from reconcile_order_matters [OF mem_store_ok m(1,2) _ m(3,4) d b(1-5), of "[]"] b(6)
  show ?thesis unfolding A using nil by (fastforce simp: taken_back_def is_open_def)
qed

end
