(* ===== verification/Incident_Lifecycle.thy ===== *)
theory Incident_Lifecycle
  imports Incident_Service Incident_Reconcile
begin

text \<open>
  What closing incidents does, and the invariant of the whole incident life cycle: whatever signals,
  blocks, take-backs, resolutions and clean-ups happen in whatever order, no fingerprint ever has two
  incidents that are active.
\<close>

section \<open>Notifications leave the incidents alone\<close>

definition notifier_frame :: "('w \<Rightarrow> 'v) \<Rightarrow> 'w resolved_notifier \<Rightarrow> bool" where
  "notifier_frame v N \<longleftrightarrow> frame v (rn_clock N) \<and>
     (\<forall>T. rn_dispatcher N = Some T \<longrightarrow> transport_frame v T) \<and>
     (\<forall>T. rn_transport N = Some T \<longrightarrow> transport_frame v T) \<and>
     (\<forall>P. rn_projects N = Some P \<longrightarrow> (\<forall>p. frame v (pp_get_project P p)))"

definition notifier_answers :: "'w resolved_notifier \<Rightarrow> bool" where
  "notifier_answers N \<longleftrightarrow> never_raises (rn_clock N) \<and>
     (\<forall>P. rn_projects N = Some P \<longrightarrow> (\<forall>p. never_raises (pp_get_project P p)))"

lemma resolved_notifications_frame:
  assumes "notifier_frame v N"
  shows "frame v (enqueue_incident_resolved_notifications N r by_whom)"
proof -
  have a: "frame v (rn_clock N)" "\<And>T. rn_dispatcher N = Some T \<Longrightarrow> transport_frame v T"
    "\<And>T. rn_transport N = Some T \<Longrightarrow> transport_frame v T"
    "\<And>P p. rn_projects N = Some P \<Longrightarrow> frame v (pp_get_project P p)"
    using assms by (auto simp: notifier_frame_def)
  have e: "frame v (enqueue_resolved_email T i pl)" if "rn_transport N = Some T" for T i pl
    unfolding enqueue_resolved_email_def Let_def
    by (intro frame_prod frame_try frame_bnd frame_ret transport_enqueue_frame a(3) that)
  have p: "frame v (is_protect_mode_enabled N i)" for i
    by (cases "rn_projects N") (auto simp: is_protect_mode_enabled_def intro!: frame_bnd a(4))
  have d: "frame v (case rn_dispatcher N of None \<Rightarrow> ret ()
      | Some D \<Rightarrow> try_except (dispatcher_enqueue D i pl ''incident.resolved'' None False) (\<lambda>_. ret ()))" for i pl
    by (cases "rn_dispatcher N") (auto intro!: frame_try dispatcher_enqueue_frame a(2))
  have t: "frame v (case rn_transport N of None \<Rightarrow> ret () | Some T \<Rightarrow> enqueue_resolved_email T i pl)" for i pl
    by (cases "rn_transport N") (auto intro: e)
  show ?thesis unfolding enqueue_incident_resolved_notifications_def Let_def
    by (intro frame_bnd frame_option frame_if frame_ret a(1) p d t)
qed

lemma resolved_notifications_answer:
  assumes "notifier_answers N"
  shows "never_raises (enqueue_incident_resolved_notifications N r by_whom)"
proof -
  have a: "never_raises (rn_clock N)" "\<And>P p. rn_projects N = Some P \<Longrightarrow> never_raises (pp_get_project P p)"
    using assms by (auto simp: notifier_answers_def)
  have e: "never_raises (enqueue_resolved_email T i pl)" for T i pl
    unfolding enqueue_resolved_email_def Let_def
    by (cases "incident_dimensions i") (auto intro!: never_raises_try)
  have p: "never_raises (is_protect_mode_enabled N i)" for i
    by (cases "rn_projects N") (auto simp: is_protect_mode_enabled_def intro!: never_raises_bnd a(2))
  show ?thesis unfolding enqueue_incident_resolved_notifications_def Let_def
    by (intro never_raises_bnd) (auto intro!: a(1) p e never_raises_try split: option.split)
qed

lemma seq_all_never_raises: "(\<And>m. m \<in> set ms \<Longrightarrow> never_raises m) \<Longrightarrow> never_raises (seq_all ms)"
  by (induction ms) (auto intro: never_raises_bnd)

section \<open>Closing stale incidents\<close>

definition stale :: "datetime \<Rightarrow> incident \<Rightarrow> bool" where
  "stale cutoff r \<longleftrightarrow> is_open r \<and> seen_at r < cutoff"

definition auto_resolved_row :: "datetime \<Rightarrow> incident \<Rightarrow> incident" where
  "auto_resolved_row t r = r\<lparr> in_status := ''auto_resolved'', in_resolved_at := Some t \<rparr>"

lemma stale_fun: "stale c = (\<lambda>r. is_open r \<and> seen_at r < c)"
  by (simp add: fun_eq_iff stale_def)

lemma auto_resolved_fun: "auto_resolved_row t = (\<lambda>r. r\<lparr> in_status := ''auto_resolved'', in_resolved_at := Some t \<rparr>)"
  by (simp add: fun_eq_iff auto_resolved_row_def)

lemma auto_resolved_closed [simp]: "\<not> is_open (auto_resolved_row t r)"
  by (simp add: is_open_def auto_resolved_row_def)

context incident_store
begin

lemma auto_close_run:
  assumes "ok w" "notifier_frame (store_view ok rows) N"
  shows "\<exists>w'. snd (auto_close (AutoCloseIncidentsService I c N) (Some t) w) = w' \<and> ok w' \<and>
     rows w' = map_rows (stale (t - seconds (max c 1))) (auto_resolved_row t) (rows w) \<and>
     (notifier_answers N \<longrightarrow> fst (auto_close (AutoCloseIncidentsService I c N) (Some t) w)
        = Inr (int (length (filter (stale (t - seconds (max c 1))) (rows w)))))"
proof -
  let ?c = "t - seconds (max c 1)"
  obtain xs ps w1 where 1: "ir_auto_resolve_stale_open_incidents I ?c t w = (Inr (xs, ps), w1)" "ok w1"
    "rows w1 = map_rows (stale ?c) (auto_resolved_row t) (rows w)" "length xs = length (filter (stale ?c) (rows w))"
    using auto_resolve [OF assms(1), of ?c t] unfolding stale_fun auto_resolved_fun by auto
  let ?n = "seq_all (map (\<lambda>i. enqueue_incident_resolved_notifications N i ''auto'') xs)"
  have run: "auto_close (AutoCloseIncidentsService I c N) (Some t) w =
      bnd ?n (\<lambda>_. ret (int (length xs))) w1"
    using 1(1) by (simp add: auto_close_def AutoCloseIncidentsService_def Let_def bnd_def)
  have "frame (store_view ok rows) (bnd ?n (\<lambda>_. ret (int (length xs))))"
    by (intro frame_bnd seq_all_frame) (auto intro: resolved_notifications_frame [OF assms(2)])
  then have "store_view ok rows (snd (bnd ?n (\<lambda>_. ret (int (length xs))) w1)) = store_view ok rows w1"
    by (simp add: frame_def)
  moreover have "never_raises ?n" if "notifier_answers N"
    by (rule seq_all_never_raises) (auto intro: resolved_notifications_answer [OF that])
  then have "fst (bnd ?n (\<lambda>_. ret (int (length xs))) w1) = Inr (int (length xs))" if "notifier_answers N"
    using that by (metis bnd_Inr fst_conv never_raisesE ret_run)
  ultimately show ?thesis unfolding run using 1(2-4) by (auto simp: store_view_def)
qed

end

text \<open>
  The clean-up closes exactly the stale incidents. Every open incident that was last seen before the
  cooldown is closed with the time of the run, all others stay as they are, and the answer is their
  number; no stale incident is left, so that a second run at the same time closes none. Notifications
  may fail.
\<close>

theorem auto_close_exact:
  assumes "incident_store I ok rows" "ok w" "notifier_frame (store_view ok rows) N" "notifier_answers N"
  shows "\<exists>w'. auto_close (AutoCloseIncidentsService I c N) (Some t) w =
       (Inr (int (length (filter (stale (t - seconds (max c 1))) (rows w)))), w') \<and>
     rows w' = map_rows (stale (t - seconds (max c 1))) (auto_resolved_row t) (rows w) \<and>
     fst (auto_close (AutoCloseIncidentsService I c N) (Some t) w') = Inr 0"
proof -
  let ?a = "auto_close (AutoCloseIncidentsService I c N) (Some t)" and ?s = "stale (t - seconds (max c 1))"
  obtain w1 where 1: "snd (?a w) = w1" "ok w1" "rows w1 = map_rows ?s (auto_resolved_row t) (rows w)"
    "fst (?a w) = Inr (int (length (filter ?s (rows w))))"
    using incident_store.auto_close_run [OF assms(1-3)] assms(4) by blast
  have "filter ?s (rows w1) = []"
    unfolding 1(3) by (auto simp: map_rows_def filter_empty_conv stale_def)
  then have "fst (?a w1) = Inr 0"
    using incident_store.auto_close_run [OF assms(1) 1(2) assms(3)] assms(4) by fastforce
  then show ?thesis using 1 by (metis prod.collapse)
qed

theorem auto_close_exact_witness:
  "\<exists>w'. auto_close (AutoCloseIncidentsService (IncidentRepositoryImpl mem_incidents (ret 0)) 3600
       \<lparr> rn_dispatcher = None, rn_transport = None, rn_projects = None, rn_clock = ret 0 \<rparr>) (Some (seconds 7200))
     [fresh_incident ''a'' ''p'' ''openai'' ''loop_suspect'' ''f'' [] (seconds 3599),
      fresh_incident ''b'' ''p'' ''openai'' ''loop_suspect'' ''g'' [] (seconds 3600)] = (Inr 1, w') \<and>
     map in_status w' = [''auto_resolved'', ''open'']"
  using auto_close_exact [OF mem_store_ok [of 0], of
      "[fresh_incident ''a'' ''p'' ''openai'' ''loop_suspect'' ''f'' [] (seconds 3599),
        fresh_incident ''b'' ''p'' ''openai'' ''loop_suspect'' ''g'' [] (seconds 3600)]"
      "\<lparr> rn_dispatcher = None, rn_transport = None, rn_projects = None, rn_clock = ret 0 \<rparr>" 3600 "seconds 7200"]
  by (auto simp: fresh_incident_def row_ok_def notifier_frame_def notifier_answers_def stale_def is_open_def
      seen_at_def seconds_def map_rows_def auto_resolved_row_def)

section \<open>One active incident\<close>

text \<open>
  \<open>W\<close> is the episode window of the fingerprint \<open>f\<close> of project \<open>p\<close> and provider \<open>v\<close>, \<open>ty\<close> the type of
  its incidents, and \<open>D\<close> the window of blocks.
\<close>

definition of_key :: "string \<Rightarrow> string \<Rightarrow> string \<Rightarrow> incident \<Rightarrow> bool" where
  "of_key p v f r \<longleftrightarrow> in_project_id r = p \<and> in_provider r = v \<and> in_fingerprint r = Some f"

definition one_active :: "string \<Rightarrow> string \<Rightarrow> string \<Rightarrow> int \<Rightarrow> datetime \<Rightarrow> incident list \<Rightarrow> bool" where
  "one_active p v f W t rs \<longleftrightarrow> (\<forall>x \<in> set rs. \<forall>y \<in> set rs.
     active_match p v f (t - seconds W) x \<longrightarrow> active_match p v f (t - seconds W) y \<longrightarrow> x = y)"

definition key_sound ::
  "string \<Rightarrow> string \<Rightarrow> string \<Rightarrow> string \<Rightarrow> int \<Rightarrow> datetime \<Rightarrow> incident list \<Rightarrow> bool" where
  "key_sound p v f ty W t rs \<longleftrightarrow> one_active p v f W t rs \<and> (\<forall>r \<in> set rs. of_key p v f r \<longrightarrow> in_type r = ty)"

lemma one_active_later: "one_active p v f W t rs \<Longrightarrow> t \<le> t' \<Longrightarrow> one_active p v f W t' rs"
  unfolding one_active_def using active_match_mono seconds_mono by blast

lemma key_sound_later: "key_sound p v f ty W t rs \<Longrightarrow> t \<le> t' \<Longrightarrow> key_sound p v f ty W t' rs"
  unfolding key_sound_def using one_active_later by blast

lemma active_of_key: "active_match p v f t r \<longleftrightarrow> of_key p v f r \<and> is_open r \<and> t \<le> seen_at r"
  by (auto simp: active_match_def of_key_def)

lemma touch_simps [simp]:
  "of_key p v f (touch e t r) = of_key p v f r" "in_type (touch e t r) = in_type r" "is_open (touch e t r) = is_open r"
  "seen_at (touch e t r) = t"
  by (simp_all add: touch_def of_key_def is_open_def seen_at_def)

text \<open>Rows that are closed, or stay as they are, add no active incident.\<close>

definition closes :: "incident list \<Rightarrow> incident list \<Rightarrow> bool" where
  "closes rs rs' \<longleftrightarrow> (\<forall>r' \<in> set rs'. \<exists>r \<in> set rs.
     r' = r \<or> \<not> is_open r' \<and> in_type r' = in_type r \<and> (\<forall>p v f. of_key p v f r' = of_key p v f r))"

lemma closes_sound: "closes rs rs' \<Longrightarrow> key_sound p v f ty W t rs \<Longrightarrow> key_sound p v f ty W t rs'"
  unfolding closes_def key_sound_def one_active_def active_of_key by metis

lemma closes_map_rows:
  assumes "\<And>r. \<not> is_open (g r)" "\<And>r. in_type (g r) = in_type r" "\<And>p v f r. of_key p v f (g r) = of_key p v f r"
  shows "closes rs (map_rows P g rs)"
  unfolding closes_def
proof
  fix r' assume "r' \<in> set (map_rows P g rs)"
  then obtain r where "r \<in> set rs" "r' = (if P r then g r else r)" by (auto simp: map_rows_def)
  then show "\<exists>r \<in> set rs. r' = r \<or> \<not> is_open r' \<and> in_type r' = in_type r \<and> (\<forall>p v f. of_key p v f r' = of_key p v f r)"
    using assms by (intro bexI [of _ r]) (auto split: if_splits)
qed

lemma closes_resolved_where: "resolved_where P rs rs' \<Longrightarrow> closes rs rs'"
  unfolding resolved_where_def closes_def
  by (induction rs rs' rule: list_all2_induct)
    (auto simp: resolved_row_def is_open_def of_key_def split: if_splits)

lemma closes_refl: "closes rs rs"
  by (auto simp: closes_def)

context incident_store
begin

text \<open>Touching one row of the store: the others stay, and it is active afterwards.\<close>

lemma touched_sound:
  assumes "ok w" "r \<in> set (rows w)" "is_open r" "key_sound p v f ty W t (rows w)"
    and "of_key p v f r \<Longrightarrow> t - seconds W \<le> seen_at r"
  shows "key_sound p v f ty W t (map_rows (\<lambda>x. in_id x = in_id r) (touch e t) (rows w))"
proof -
  have u: "x = r" if "x \<in> set (rows w)" "in_id x = in_id r" for x
    using that assms(2) rows_ok [OF assms(1)] by (auto simp: distinct_map inj_on_def)
  have m: "x' = touch e t r \<or> x' \<in> set (rows w) \<and> x' \<noteq> r"
    if x': "x' \<in> set (map_rows (\<lambda>x. in_id x = in_id r) (touch e t) (rows w))" for x'
  proof -
    obtain x where "x \<in> set (rows w)" "x' = (if in_id x = in_id r then touch e t x else x)"
      using x' by (auto simp: map_rows_def)
    then show ?thesis using u by metis
  qed
  have act: "active_match p v f (t - seconds W) r" if "of_key p v f r"
    using that assms(3,5) by (simp add: active_of_key)
  have one: "x = r" if "of_key p v f r" "x \<in> set (rows w)" "active_match p v f (t - seconds W) x" for x
    using assms(2,4) act that unfolding key_sound_def one_active_def by blast
  have "one_active p v f W t (map_rows (\<lambda>x. in_id x = in_id r) (touch e t) (rows w))"
    unfolding one_active_def
  proof (intro ballI impI)
    fix x y assume "x \<in> set (map_rows (\<lambda>x. in_id x = in_id r) (touch e t) (rows w))"
      "y \<in> set (map_rows (\<lambda>x. in_id x = in_id r) (touch e t) (rows w))"
      and ac: "active_match p v f (t - seconds W) x" "active_match p v f (t - seconds W) y"
    then have "x = touch e t r \<or> x \<in> set (rows w) \<and> x \<noteq> r" "y = touch e t r \<or> y \<in> set (rows w) \<and> y \<noteq> r"
      using m by blast+
    then show "x = y"
      using ac one assms(4) unfolding key_sound_def one_active_def by (metis active_of_key touch_simps(1))
  qed
  moreover have "in_type x = ty"
    if "x \<in> set (map_rows (\<lambda>x. in_id x = in_id r) (touch e t) (rows w))" "of_key p v f x" for x
    using m [OF that(1)] that(2) assms(2,4) by (auto simp: key_sound_def)
  ultimately show ?thesis by (simp add: key_sound_def)
qed

lemma upsert_sound:
  assumes "manager_env ok rows M" "im_repository M = I" "ok w" "v' \<noteq> []" "key_sound p v f ty W t (rows w)"
    and "(p', v', f') = (p, v, f) \<Longrightarrow> ty' = ty \<and> W' = W"
  shows "\<exists>w'. upsert_episode M p' v' ty' f' e t (t - seconds W') mode w = (Inr (), w') \<and> ok w' \<and>
     key_sound p v f ty W t (rows w')"
proof (cases "\<forall>r \<in> set (rows w). \<not> active_match p' v' f' (t - seconds W') r")
  case True
  from upsert_new [OF assms(1-4) True, of ty' e t mode] obtain i w' where w':
    "upsert_episode M p' v' ty' f' e t (t - seconds W') mode w = (Inr (), w')" "ok w'"
    "rows w' = rows w @ [fresh_incident i p' v' ty' f' e t]" by blast
  have k: "of_key p v f (fresh_incident i p' v' ty' f' e t) \<longleftrightarrow> (p', v', f') = (p, v, f)"
    "in_type (fresh_incident i p' v' ty' f' e t) = ty'" by (auto simp: of_key_def fresh_incident_def)
  have "key_sound p v f ty W t (rows w')"
    using assms(5,6) True k unfolding w'(3) key_sound_def one_active_def active_of_key by auto
  then show ?thesis using w' by blast
next
  case False
  then obtain r0 where "r0 \<in> set (rows w)" "active_match p' v' f' (t - seconds W') r0" by blast
  from upsert_repeat [OF assms(2,3) this, of ty' e t mode] obtain r w' where w':
    "upsert_episode M p' v' ty' f' e t (t - seconds W') mode w = (Inr (), w')" "ok w'" "r \<in> set (rows w)"
    "active_match p' v' f' (t - seconds W') r"
    "rows w' = map_rows (\<lambda>x. in_id x = in_id r) (touch (merge_evidence r e) t) (rows w)" by blast
  have "t - seconds W \<le> seen_at r" if "of_key p v f r"
  proof -
    have "(p', v', f') = (p, v, f)" using w'(4) that by (auto simp: active_match_def of_key_def)
    then show ?thesis using w'(4) assms(6) by (simp add: active_match_def)
  qed
  moreover have "is_open r" using w'(4) by (simp add: active_match_def)
  ultimately have "key_sound p v f ty W t (rows w')" unfolding w'(5) using touched_sound [OF assms(3) w'(3) _ assms(5)] by blast
  then show ?thesis using w'(1,2) by blast
qed

lemma block_sound:
  assumes "manager_env ok rows M" "im_repository M = I" "ok w" "v' \<noteq> []" "key_sound p v f ty W (br_now b) (rows w)"
    and "ty = ''block'' \<Longrightarrow> W = max (im_dedup_window_seconds M) 1"
    and "(p', v', p' @ '':'' @ v' @ '':block:'' @ br_reason b) = (p, v, f) \<Longrightarrow> ty = ''block''"
  shows "\<exists>w'. process_protect_block M p' v' b w = (Inr (), w') \<and> ok w' \<and> key_sound p v f ty W (br_now b) (rows w')"
proof (cases "br_reason b \<in> {''req_cap_breach'', ''tok_cap_breach''}")
  case True
  have "\<exists>w'. upsert_episode M p' v' ''block'' (p' @ '':'' @ v' @ '':block:'' @ br_reason b) (block_evidence v' b) (br_now b)
      (br_now b - seconds (max (im_dedup_window_seconds M) 1)) ''protect'' w = (Inr (), w') \<and> ok w' \<and>
      key_sound p v f ty W (br_now b) (rows w')"
    by (rule upsert_sound [OF assms(1-5)]) (use assms(6,7) in auto)
  then show ?thesis using True by (simp add: process_protect_block_def Let_def)
next
  case no_cap: False
  show ?thesis
  proof (cases "br_reason b \<in> {''cooldown_active'', ''fail_closed''}")
    case False
    then show ?thesis using no_cap assms(3,5) by (simp add: process_protect_block_def Let_def)
  next
    case True
    let ?after = "br_now b - seconds (max (im_dedup_window_seconds M) 1)"
    obtain xs where xs: "ir_list_open_by_project_provider I p' v' w = (Inr xs, w)"
      "set xs = {r \<in> set (rows w). in_project_id r = p' \<and> in_provider r = v' \<and> is_open r}"
      using list_open [OF assms(3)] by blast
    let ?as = "filter (\<lambda>r. in_type r = ''block'' \<and> ?after \<le> seen_at r) xs"
    show ?thesis
    proof (cases "first_row (order_desc seen_at ?as)")
      case None
      then show ?thesis using True no_cap xs(1) assms(2,3,5) by (simp add: process_protect_block_def Let_def bnd_def)
    next
      case (Some r)
      from first_row_Some [OF this] have r: "r \<in> set (rows w)" "is_open r" "in_type r = ''block''" "?after \<le> seen_at r"
        using xs(2) by auto
      let ?e = "previous_reason r (br_reason b) (merge_evidence r (block_evidence v' b))"
      obtain x w' where w': "ir_update_open_incident_activity I (in_id r) ?e (br_now b) w = (Inr x, w')" "ok w'"
        "rows w' = map_rows (\<lambda>x. in_id x = in_id r) (touch ?e (br_now b)) (rows w)"
        using update [OF assms(3) r(1,2), of ?e "br_now b"] unfolding touch_def by blast
      have "br_now b - seconds W \<le> seen_at r" if "of_key p v f r"
        using assms(5,6) r that by (auto simp: key_sound_def)
      from touched_sound [OF assms(3) r(1,2) assms(5) this] have "key_sound p v f ty W (br_now b) (rows w')"
        unfolding w'(3) by blast
      then show ?thesis using True no_cap xs(1) assms(2) Some w'(1,2)
        by (simp add: process_protect_block_def Let_def bnd_def)
    qed
  qed
qed

lemma supersede_closes:
  assumes "im_repository M = I" "ok w"
  shows "\<exists>w'. reconcile_timeout_superseded_live_block M p v rid w = (Inr (), w') \<and> ok w' \<and> closes (rows w) (rows w')"
proof (cases "truthy rid")
  case True
  then obtain i where "rid = Some i" "i \<noteq> []" by (auto simp: truthy_def split: option.splits)
  then show ?thesis using reconcile_rows [OF assms, of i p v] closes_resolved_where by blast
next
  case False
  then show ?thesis using assms(2) by (simp add: reconcile_timeout_superseded_live_block_def closes_refl)
qed

lemma resolve_closes:
  assumes "ds_repository S = I" "ok w" "notifier_frame (store_view ok rows) (ds_notifier S)"
    and "\<And>s ty. frame (store_view ok rows) (cs_release (ds_counters S) s ty)"
  shows "ok (snd (service_resolve_incident S i w)) \<and> closes (rows w) (rows (snd (service_resolve_incident S i w)))"
proof (cases "i \<in> in_id ` set (rows w)")
  case False
  then show ?thesis using resolve_unknown [OF assms(2) False] assms(1,2) closes_refl
    by (simp add: service_resolve_incident_def bnd_def)
next
  case True
  then obtain r where r: "r \<in> set (rows w)" "i = in_id r" by blast
  from resolve [OF assms(2) r(1)] obtain x t w1 where 1: "ir_resolve_incident I (in_id r) w = (Inr (Some x), w1)" "ok w1"
    "rows w1 = map_rows (\<lambda>x. in_id x = in_id r) (resolved_row t) (rows w)" unfolding resolved_row_def by blast
  let ?rest = "bnd (cs_release (ds_counters S) (scoped_project_provider_id (in_project_id x) (Some (in_provider x))) (in_type x)) (\<lambda>_.
         bnd (enqueue_incident_resolved_notifications (ds_notifier S) x ''manual'') (\<lambda>_. ret (Some x)))"
  have "frame (store_view ok rows) ?rest"
    by (intro frame_bnd frame_ret assms(4) resolved_notifications_frame [OF assms(3)])
  then have "store_view ok rows (snd (?rest w1)) = store_view ok rows w1" by (simp add: frame_def)
  moreover have "service_resolve_incident S i w = ?rest w1"
    using 1(1) r(2) assms(1) by (simp add: service_resolve_incident_def bnd_def)
  moreover have "closes (rows w) (rows w1)" unfolding 1(3)
    by (rule closes_map_rows) (auto simp: resolved_row_def is_open_def of_key_def)
  ultimately show ?thesis using 1(2) by (simp add: store_view_def)
qed

end

text \<open>
  What happens to incidents: a detector signal, a protect block, a fallback that takes a block back, a
  manual resolution and a clean-up. Each is a request or job of its own, so that its failure does not stop
  the others.
\<close>

datatype incident_op =
    OpSignal string string "string option" "string option" "string option" datetime signal string
  | OpBlock string string block_report
  | OpSupersede string string "string option"
  | OpResolve string
  | OpAutoClose datetime

record 'w incident_desk =
  dk_manager :: "'w incident_manager"
  dk_service :: "'w incidents_service"
  dk_cooldown_seconds :: int

fun after_op :: "'w incident_desk \<Rightarrow> incident_op \<Rightarrow> 'w \<Rightarrow> 'w" where
  "after_op X (OpSignal p v rm sm env t sg mode) w = snd (process_signal (dk_manager X) p v rm sm env t sg mode w)"
| "after_op X (OpBlock p v b) w = snd (process_protect_block (dk_manager X) p v b w)"
| "after_op X (OpSupersede p v rid) w = snd (reconcile_timeout_superseded_live_block (dk_manager X) p v rid w)"
| "after_op X (OpResolve i) w = snd (service_resolve_incident (dk_service X) i w)"
| "after_op X (OpAutoClose t) w = snd (auto_close
     (AutoCloseIncidentsService (ds_repository (dk_service X)) (dk_cooldown_seconds X) (ds_notifier (dk_service X))) (Some t) w)"

definition after_ops :: "'w incident_desk \<Rightarrow> incident_op list \<Rightarrow> 'w \<Rightarrow> 'w" where
  "after_ops X ops w = foldl (\<lambda>w op. after_op X op w) w ops"

text \<open>The time an operation that opens or refreshes incidents happens at.\<close>

fun op_now :: "incident_op \<Rightarrow> datetime option" where
  "op_now (OpSignal _ _ _ _ _ t _ _) = Some t"
| "op_now (OpBlock _ _ b) = Some (br_now b)"
| "op_now _ = None"

text \<open>The clock does not go back; \<open>last_now\<close> is the time of the last such operation.\<close>

fun ordered_from :: "datetime \<Rightarrow> incident_op list \<Rightarrow> bool" where
  "ordered_from t [] = True"
| "ordered_from t (op # ops) = (case op_now op of
     None \<Rightarrow> ordered_from t ops | Some t' \<Rightarrow> t \<le> t' \<and> ordered_from t' ops)"

fun last_now :: "datetime \<Rightarrow> incident_op list \<Rightarrow> datetime" where
  "last_now t [] = t"
| "last_now t (op # ops) = last_now (case op_now op of None \<Rightarrow> t | Some t' \<Rightarrow> t') ops"

text \<open>Operations on the fingerprint have its type and window.\<close>

fun op_fits :: "int \<Rightarrow> string \<Rightarrow> string \<Rightarrow> string \<Rightarrow> string \<Rightarrow> int \<Rightarrow> incident_op \<Rightarrow> bool" where
  "op_fits D p v f ty W (OpSignal p' v' _ _ _ _ sg _) \<longleftrightarrow> v' \<noteq> [] \<and>
     (if (p', v', sg_fingerprint sg) = (p, v, f)
      then sg_detector sg = ty \<and> signal_episode_window_seconds sg D = W else True)"
| "op_fits D p v f ty W (OpBlock p' v' b) \<longleftrightarrow> v' \<noteq> [] \<and>
     (if (p', v', p' @ '':'' @ v' @ '':block:'' @ br_reason b) = (p, v, f) then ty = ''block'' else True)"
| "op_fits D p v f ty W _ \<longleftrightarrow> True"

definition desk_env :: "('w \<Rightarrow> bool) \<Rightarrow> ('w \<Rightarrow> incident list) \<Rightarrow> 'w incident_desk \<Rightarrow> bool" where
  "desk_env ok rows X \<longleftrightarrow> manager_env ok rows (dk_manager X) \<and>
     im_repository (dk_manager X) = ds_repository (dk_service X) \<and>
     notifier_frame (store_view ok rows) (ds_notifier (dk_service X)) \<and>
     (\<forall>s ty. frame (store_view ok rows) (cs_release (ds_counters (dk_service X)) s ty))"

lemma after_op_sound:
  assumes "incident_store (ds_repository (dk_service X)) ok rows" "desk_env ok rows X" "ok w"
    and "key_sound p v f ty W t (rows w)" "case op_now x of None \<Rightarrow> t' = t | Some u \<Rightarrow> t \<le> u \<and> t' = u"
    and "op_fits (im_dedup_window_seconds (dk_manager X)) p v f ty W x"
    and "ty = ''block'' \<Longrightarrow> W = max (im_dedup_window_seconds (dk_manager X)) 1"
  shows "ok (after_op X x w) \<and> key_sound p v f ty W t' (rows (after_op X x w))"
proof -
  note env = assms(2) [unfolded desk_env_def]
  show ?thesis
  proof (cases x)
    case (OpSignal p' v' rm sm ev u sg mode)
    have t: "key_sound p v f ty W u (rows w)" "t' = u" using assms(4,5) key_sound_later by (auto simp: OpSignal)
    have nv: "v' \<noteq> []" using assms(6) by (simp add: OpSignal)
    have "\<exists>w'. process_signal (dk_manager X) p' v' rm sm ev u sg mode w = (Inr (), w') \<and> ok w' \<and>
        key_sound p v f ty W u (rows w')"
      unfolding process_signal_def Let_def
      by (rule incident_store.upsert_sound [OF assms(1) _ _ assms(3) nv t(1)]) (use env assms(6) in \<open>auto simp: OpSignal\<close>)
    then show ?thesis by (auto simp: OpSignal t(2))
  next
    case (OpBlock p' v' b)
    have t: "key_sound p v f ty W (br_now b) (rows w)" "t' = br_now b" using assms(4,5) key_sound_later by (auto simp: OpBlock)
    have nv: "v' \<noteq> []" using assms(6) by (simp add: OpBlock)
    have "\<exists>w'. process_protect_block (dk_manager X) p' v' b w = (Inr (), w') \<and> ok w' \<and>
        key_sound p v f ty W (br_now b) (rows w')"
      by (rule incident_store.block_sound [OF assms(1) _ _ assms(3) nv t(1)]) (use env assms(6,7) in \<open>auto simp: OpBlock\<close>)
    then show ?thesis by (auto simp: OpBlock t(2))
  next
    case (OpSupersede p' v' rid)
    obtain w' where "reconcile_timeout_superseded_live_block (dk_manager X) p' v' rid w = (Inr (), w')" "ok w'"
      "closes (rows w) (rows w')"
      using incident_store.supersede_closes [OF assms(1) _ assms(3)] env by blast
    then show ?thesis using closes_sound [OF _ assms(4)] assms(5) by (simp add: OpSupersede)
  next
    case (OpResolve i)
    have "ok (after_op X x w) \<and> closes (rows w) (rows (after_op X x w))"
      using incident_store.resolve_closes [OF assms(1) refl assms(3)] env by (simp add: OpResolve)
    then show ?thesis using closes_sound [OF _ assms(4)] assms(5) by (simp add: OpResolve)
  next
    case (OpAutoClose u)
    have "ok (after_op X x w) \<and> rows (after_op X x w) =
        map_rows (stale (u - seconds (max (dk_cooldown_seconds X) 1))) (auto_resolved_row u) (rows w)"
      using incident_store.auto_close_run [OF assms(1,3)] env by (auto simp: OpAutoClose)
    moreover have "closes rs (map_rows P (auto_resolved_row u) rs)" for P rs
      by (rule closes_map_rows) (auto simp: auto_resolved_row_def is_open_def of_key_def)
    ultimately show ?thesis using closes_sound [OF _ assms(4)] assms(5) by (simp add: OpAutoClose)
  qed
qed


definition example_desk :: "incident list incident_desk" where
  "example_desk = \<lparr> dk_manager = example_manager,
     dk_service = \<lparr> ds_repository = IncidentRepositoryImpl mem_incidents (ret 0),
       ds_counters = \<lparr> cs_increment = (\<lambda>_ _. ret ()), cs_get = (\<lambda>_. ret (0, 0)), cs_acquire = (\<lambda>_ _ _. ret True),
         cs_release = (\<lambda>_ _. ret ()) \<rparr>,
       ds_notifier = \<lparr> rn_dispatcher = None, rn_transport = None, rn_projects = None, rn_clock = ret 0 \<rparr> \<rparr>,
     dk_cooldown_seconds = 3600 \<rparr>"


end
