(* ===== verification/Detector_Facts.thy ===== *)
theory Detector_Facts
  imports Detectors "HOL-Library.Sublist" "HOL-Library.Multiset"
begin

text \<open>
  What the detectors promise: their windows, compared on doubles, are exact to the microsecond; a
  suspected loop is witnessed by a run of close, successful, identical requests; token explosions are
  characterised by the request stream; the order in which a repository lists the events is irrelevant.
\<close>

section \<open>Retry storms\<close>

definition storm_window :: "detection_context \<Rightarrow> event list" where
  "storm_window ctx = filter (\<lambda>e. ev_provider e = dc_provider ctx \<and>
     normalized_model_name (ev_requested_model e) = normalized_model_name (dc_requested_model ctx) \<and>
     dc_now ctx - seconds (dc_retry_storm_window_seconds ctx) \<le> ev_created_at e \<and> is_failure e)
     (dc_recent_events ctx)"

text \<open>All instants of a context lie where doubles separate microseconds.\<close>

definition times_exact :: "detection_context \<Rightarrow> int \<Rightarrow> bool" where
  "times_exact ctx W \<longleftrightarrow> 0 \<le> W \<and> exact_from \<le> dc_now ctx - seconds W \<and> dc_now ctx < exact_until \<and>
     (\<forall>e \<in> set (dc_recent_events ctx). 0 < ev_created_at e \<and> ev_created_at e < exact_until)"

lemma within_window:
  assumes "times_exact ctx W" "e \<in> set (dc_recent_events ctx)"
  shows "py_sub (timestamp (dc_now ctx)) (py_float W) \<le> timestamp (ev_created_at e) \<longleftrightarrow>
     dc_now ctx - seconds W \<le> ev_created_at e"
proof -
  have "0 < dc_now ctx - seconds W" "dc_now ctx - seconds W < exact_until"
    using assms(1) by (auto simp: times_exact_def exact_from_def seconds_def)
  then show ?thesis
    using assms timestamp_minus [of "dc_now ctx" W] timestamp_le_iff [of "dc_now ctx - seconds W" "ev_created_at e"]
    by (auto simp: times_exact_def)
qed

lemma storm_failures_exact:
  "times_exact ctx (dc_retry_storm_window_seconds ctx) \<Longrightarrow> storm_failures ctx = storm_window ctx"
  unfolding storm_failures_def storm_window_def Let_def
  by (intro filter_cong refl) (auto simp: within_window)

section \<open>Loops\<close>

definition loop_member :: "detection_context \<Rightarrow> rat \<Rightarrow> event \<Rightarrow> bool" where
  "loop_member ctx cutoff e \<longleftrightarrow> ev_provider e = dc_provider ctx \<and> cutoff \<le> timestamp (ev_created_at e) \<and>
     signature (dc_project_id ctx) e = context_signature ctx \<and> \<not> loop_failure e"

definition close :: "detection_context \<Rightarrow> event \<Rightarrow> event \<Rightarrow> bool" where
  "close ctx a b \<longleftrightarrow> py_sub (timestamp (ev_created_at a)) (timestamp (ev_created_at b)) \<le> dc_loop_max_gap_seconds ctx"

lemma walk_run:
  "\<exists>run. subseq run es \<and> int (length run) = loop_walk ctx cutoff prev n es - n \<and>
     (\<forall>e \<in> set run. loop_member ctx cutoff e) \<and> successively (close ctx) run \<and>
     (\<forall>p r rs. prev = Some p \<longrightarrow> run = r # rs \<longrightarrow> py_sub p (timestamp (ev_created_at r)) \<le> dc_loop_max_gap_seconds ctx)"
proof (induction es arbitrary: prev n)
  case Nil
  show ?case by (intro exI [of _ "[]"]) simp
next
  case (Cons e es)
  let ?ts = "timestamp (ev_created_at e)"
  consider (skip) "loop_walk ctx cutoff prev n (e # es) = loop_walk ctx cutoff prev n es"
    | (stop) "loop_walk ctx cutoff prev n (e # es) = n"
    | (count) "loop_walk ctx cutoff prev n (e # es) = loop_walk ctx cutoff (Some ?ts) (n + 1) es"
        "loop_member ctx cutoff e" "case prev of None \<Rightarrow> True | Some p \<Rightarrow> py_sub p ?ts \<le> dc_loop_max_gap_seconds ctx"
  proof -
    define far where "far \<longleftrightarrow> (case prev of None \<Rightarrow> False | Some p \<Rightarrow> py_sub p ?ts > dc_loop_max_gap_seconds ctx)"
    have "\<not> far \<longleftrightarrow> (case prev of None \<Rightarrow> True | Some p \<Rightarrow> py_sub p ?ts \<le> dc_loop_max_gap_seconds ctx)"
      by (auto simp: far_def split: option.splits)
    moreover have "loop_walk ctx cutoff prev n (e # es) =
       (if ev_provider e \<noteq> dc_provider ctx then loop_walk ctx cutoff prev n es
        else if ?ts < cutoff \<or> signature (dc_project_id ctx) e \<noteq> context_signature ctx \<or> far then n
        else if loop_failure e then loop_walk ctx cutoff prev n es
        else loop_walk ctx cutoff (Some ?ts) (n + 1) es)"
      by (simp add: Let_def far_def)
    ultimately show ?thesis using that by (metis (full_types) loop_member_def not_less)
  qed
  then show ?case
  proof cases
    case skip
    from Cons [of prev n] show ?thesis unfolding skip by (meson list_emb_Cons)
  next
    case stop
    then show ?thesis by (intro exI [of _ "[]"]) simp
  next
    case count
    from Cons [of "Some ?ts" "n + 1"] obtain run where r: "subseq run es"
      "int (length run) = loop_walk ctx cutoff (Some ?ts) (n + 1) es - (n + 1)"
      "\<forall>e \<in> set run. loop_member ctx cutoff e" "successively (close ctx) run"
      "\<forall>r rs. run = r # rs \<longrightarrow> py_sub ?ts (timestamp (ev_created_at r)) \<le> dc_loop_max_gap_seconds ctx"
      by auto
    have "successively (close ctx) (e # run)"
      using r(4,5) by (cases run) (auto simp: close_def)
    then show ?thesis using r count by (intro exI [of _ "e # run"]) (auto split: option.splits)
  qed
qed

section \<open>Order\<close>

lemma sort_key_mset:
  "mset xs = mset ys \<Longrightarrow> inj_on f (set xs) \<Longrightarrow> sort_key f xs = sort_key f ys"
  by (rule sort_key_inj_key_eq) simp_all

lemma filter_length_mset: "mset xs = mset ys \<Longrightarrow> length (filter P xs) = length (filter P ys)"
  by (metis mset_filter size_mset)

lemma explosion_sequence_order:
  assumes "mset es = mset es'" "inj_on (\<lambda>e. timestamp (ev_ts e)) (set es)"
  shows "resolve_recent_token_explosion_sequence es = resolve_recent_token_explosion_sequence es'"
  by (rule ext)+ (simp add: resolve_recent_token_explosion_sequence_def sort_key_mset [OF assms])



section \<open>Token explosions\<close>

definition stream :: "detection_context \<Rightarrow> int list" where
  "stream ctx = map event_tokens (filter (same_stream (dc_provider ctx) (dc_requested_model ctx)
     (dc_request_endpoint ctx) (dc_request_feature ctx) (dc_current_event ctx))
     (sort_key (\<lambda>e. timestamp (ev_ts e)) (dc_recent_events ctx)))"

definition steps_up :: "detection_context \<Rightarrow> int \<Rightarrow> int \<Rightarrow> bool" where
  "steps_up ctx a b \<longleftrightarrow> dc_token_explosion_growth_ratio ctx \<le> py_div (py_float b) (py_float a)"

definition large_points :: "detection_context \<Rightarrow> int \<Rightarrow> int list" where
  "large_points ctx t = filter (\<lambda>v. v \<ge> dc_token_explosion_growth_min_tokens ctx) (stream ctx @ [t])"

definition grows :: "detection_context \<Rightarrow> int \<Rightarrow> bool" where
  "grows ctx t \<longleftrightarrow> (let pts = large_points ctx t; k = nat (dc_token_explosion_growth_count ctx + 1)
     in k \<le> length pts \<and> successively (steps_up ctx) (drop (length pts - k) pts))"

lemma adjacent_growth_length:
  "\<forall>p \<in> set pts. 0 < p \<Longrightarrow> length (adjacent_growth pts) = length pts - 1"
proof -
  assume a: "\<forall>p \<in> set pts. 0 < p"
  have "filter (\<lambda>(p, c). p > 0) (zip pts (tl pts)) = zip pts (tl pts)"
    using a by (intro filter_True) (auto dest: set_zip_leftD)
  then show ?thesis by (simp add: adjacent_growth_def)
qed

lemma adjacent_growth_all:
  "\<forall>p \<in> set pts. 0 < p \<Longrightarrow>
     (\<forall>r \<in> set (adjacent_growth pts). dc_token_explosion_growth_ratio ctx \<le> r) \<longleftrightarrow> successively (steps_up ctx) pts"
proof (induction pts rule: induct_list012)
  case (3 a b pts)
  have "adjacent_growth (a # b # pts) = py_div (py_float b) (py_float a) # adjacent_growth (b # pts)"
    using 3 by (simp add: adjacent_growth_def)
  then show ?case using 3 by (simp add: steps_up_def)
qed (simp_all add: adjacent_growth_def)

lemma growth_of_iff:
  assumes "1 \<le> dc_token_explosion_growth_count ctx" "0 < dc_token_explosion_growth_min_tokens ctx"
    and "dc_token_explosion_growth_min_tokens ctx \<le> t"
  shows "snd (growth_of ctx t) \<longleftrightarrow> grows ctx t"
proof -
  let ?n = "dc_token_explosion_growth_count ctx"
  define k where "k = nat (?n + 1)"
  have k: "int k = ?n + 1" "1 < k" using assms(1) by (simp_all add: k_def)
  have t: "max t 0 = t" using assms by simp
  define sq where "sq = resolve_recent_token_explosion_sequence (dc_recent_events ctx) (dc_provider ctx)
     (dc_requested_model ctx) (dc_request_endpoint ctx) (dc_request_feature ctx) (dc_current_event ctx) t ?n"
  have sq: "sq = (if length (stream ctx @ [t]) < k then [] else stream ctx @ [t])"
    using k assms(1) by (simp add: sq_def resolve_recent_token_explosion_sequence_def Let_def t stream_def)
  have pos: "\<forall>p \<in> set (large_points ctx t). 0 < p" using assms(2) by (auto simp: large_points_def)
  have len: "length (large_points ctx t) \<le> length (stream ctx @ [t])"
    unfolding large_points_def by (rule length_filter_le)
  have g: "snd (growth_of ctx t) \<longleftrightarrow> sq \<noteq> [] \<and> int (length (adjacent_growth (eligible_points ctx sq))) = ?n \<and>
      (\<forall>r \<in> set (adjacent_growth (eligible_points ctx sq)). dc_token_explosion_growth_ratio ctx \<le> r)"
    by (simp add: growth_of_def Let_def sq_def)
  show ?thesis
  proof (cases "k \<le> length (large_points ctx t)")
    case True
    let ?d = "drop (length (large_points ctx t) - k) (large_points ctx t)"
    have s: "sq = stream ctx @ [t]" using True len sq by simp
    have e: "eligible_points ctx sq = ?d"
    proof -
      have sl: "slice_from (- (?n + 1)) xs = drop (length xs - k) xs" for xs :: "int list"
        unfolding k(1) [symmetric] using k(2) by (simp add: slice_from_def nat_minus_as_int)
      have "?n + 1 \<le> int (length (large_points ctx t))" using True k(1) by linarith
      then show ?thesis unfolding s eligible_points_def Let_def large_points_def [symmetric] by (simp only: sl if_True)
    qed
    have d: "\<forall>p \<in> set ?d. 0 < p" using pos by (meson in_set_dropD)
    show ?thesis
      using True k s by (simp add: g e [unfolded s] adjacent_growth_length [OF d] adjacent_growth_all [OF d] grows_def Let_def flip: k_def)
  next
    case False
    have "\<not> snd (growth_of ctx t)"
    proof
      assume a: "snd (growth_of ctx t)"
      then have "sq = stream ctx @ [t]" using g sq by presburger
      then have e: "eligible_points ctx sq = large_points ctx t" "eligible_points ctx (stream ctx @ [t]) = large_points ctx t"
    proof -
        have n: "\<not> ?n + 1 \<le> int (length (large_points ctx t))" using False k(1) by linarith
        have "eligible_points ctx (stream ctx @ [t]) = large_points ctx t"
          unfolding eligible_points_def Let_def large_points_def [symmetric] by (simp only: n if_False)
        then show "eligible_points ctx sq = large_points ctx t" "eligible_points ctx (stream ctx @ [t]) = large_points ctx t"
          using \<open>sq = stream ctx @ [t]\<close> by simp_all
      qed
      have "int (length (large_points ctx t) - 1) = ?n"
        using a unfolding g e by (simp add: adjacent_growth_length [OF pos])
      then show False using False k by linarith
    qed
    then show ?thesis using False by (simp add: grows_def Let_def flip: k_def)
  qed
qed

lemma explosion_iff:
  assumes "1 \<le> dc_token_explosion_growth_count ctx" "0 < dc_token_explosion_growth_min_tokens ctx"
  shows "token_explosion_detect ctx \<noteq> [] \<longleftrightarrow>
     (\<exists>t. explosion_tokens ctx = Some t \<and>
       (dc_token_explosion_abs ctx \<le> t \<or>
        (dc_token_explosion_growth_min_tokens ctx \<le> t \<and> grows ctx t \<and> 0 < dc_current_tokens_60s ctx \<and>
         0 < dc_current_requests_60s ctx \<and>
         dc_current_requests_60s ctx < dc_token_explosion_concurrency_threshold ctx)))"
proof (cases "explosion_tokens ctx")
  case (Some t)
  show ?thesis
  proof (cases "dc_token_explosion_growth_min_tokens ctx \<le> t")
    case True
    then show ?thesis
      using growth_of_iff [OF assms True] by (auto simp: token_explosion_detect_def Some Let_def not_le)
  qed (auto simp: token_explosion_detect_def Some Let_def)
qed (simp add: token_explosion_detect_def)

section \<open>Growth and loops exclude each other\<close>

lemma sort_key_desc:
  "inj_on f (set xs) \<Longrightarrow> sort_key (\<lambda>x. - f x :: rat) xs = rev (sort_key f xs)"
proof (rule sort_key_inj_key_eq)
  show "sorted (map (\<lambda>x. - f x) (rev (sort_key f xs)))"
    using sorted_sort_key [of f xs] by (simp add: sorted_map sorted_wrt_rev)
qed (auto simp: inj_on_def)

lemma find_rev: "find P (rev xs) = (if filter P xs = [] then None else Some (last (filter P xs)))"
  by (induction xs rule: rev_induct) auto

lemma quotient_grows:
  assumes "1 < dc_token_explosion_growth_ratio ctx" "steps_up ctx a b" "0 < a" "0 \<le> b"
  shows "a < b"
proof (rule ccontr)
  assume "\<not> a < b"
  then have le: "py_float b \<le> py_float a" by (intro py_float_mono) simp
  have "py_float b / py_float a \<le> 1"
    using le py_float_nonneg [of a] py_float_nonneg [of b] assms(3,4) by (cases "py_float a = 0") (simp_all add: divide_le_eq)
  then have "py_div (py_float b) (py_float a) \<le> fl 1" unfolding py_div_def by (rule fl_mono)
  then show False using assms(1,2) by (simp add: steps_up_def)
qed

lemma grows_over_last:
  assumes "grows ctx t" "1 < dc_token_explosion_growth_ratio ctx" "1 \<le> dc_token_explosion_growth_count ctx"
    and "0 < dc_token_explosion_growth_min_tokens ctx" "dc_token_explosion_growth_min_tokens ctx \<le> t"
    and "stream ctx \<noteq> []"
  shows "last (stream ctx) < t"
proof (cases "dc_token_explosion_growth_min_tokens ctx \<le> last (stream ctx)")
  case True
  obtain ys p where y: "stream ctx = ys @ [p]" using assms(6) by (metis rev_exhaust)
  let ?f = "filter (\<lambda>v. v \<ge> dc_token_explosion_growth_min_tokens ctx)"
  have pts: "large_points ctx t = ?f ys @ [p, t]" using True assms(5) by (simp add: large_points_def y)
  define k where "k = nat (dc_token_explosion_growth_count ctx + 1)"
  have k: "2 \<le> k" using assms(3) by (simp add: k_def)
  have "successively (steps_up ctx) (drop (length (?f ys) + 2 - k) (?f ys @ [p, t]))"
    using assms(1) by (simp add: grows_def Let_def pts flip: k_def)
  moreover have "drop (length (?f ys) + 2 - k) (?f ys @ [p, t]) = drop (length (?f ys) + 2 - k) (?f ys) @ [p, t]"
    using k by simp
  ultimately have "steps_up ctx p t" by (simp add: successively_append_iff)
  then show ?thesis using quotient_grows [OF assms(2), of p t] True assms(4,5) y by simp
qed (use assms(5) in simp)

lemma previous_is_last:
  assumes "inj_on (\<lambda>e. timestamp (ev_ts e)) (set (dc_recent_events ctx))"
  shows "resolve_previous_estimated_tokens (dc_recent_events ctx) (dc_provider ctx) (dc_requested_model ctx)
     (dc_request_endpoint ctx) (dc_request_feature ctx) (dc_current_event ctx) =
     (if stream ctx = [] then None else Some (last (stream ctx)))"
  by (simp add: resolve_previous_estimated_tokens_def sort_key_desc [OF assms] find_rev stream_def last_map)



section \<open>A concrete context\<close>

definition example_event :: "string \<Rightarrow> int \<Rightarrow> int option \<Rightarrow> event" where
  "example_event i t http = \<lparr> ev_id = i, ev_ts = t * 1000000, ev_project_id = ''p1'', ev_provider = ''openai'',
     ev_requested_model = Some ''gpt'', ev_resolved_model = None, ev_environment = Some ''prod'',
     ev_input_tokens = 10, ev_output_tokens = 10, ev_total_tokens = 20, ev_latency_ms = None,
     ev_status = None, ev_error_type = None, ev_error_message = None, ev_http_status = http,
     ev_created_at = t * 1000000, ev_token_explosion_tokens = Some 2000, ev_request_endpoint = Some ''/chat'',
     ev_request_feature = None, ev_request_fingerprint = None \<rparr>"

definition example_ctx :: "event list \<Rightarrow> int option \<Rightarrow> detection_context" where
  "example_ctx es tokens = \<lparr> dc_project_id = ''p1'', dc_provider = ''openai'', dc_requested_model = Some ''gpt'',
     dc_resolved_model = None, dc_environment = Some ''prod'', dc_now = 1773000010 * 1000000,
     dc_current_requests_60s = 3, dc_current_tokens_60s = 100, dc_req_cap = None, dc_tok_cap = None,
     dc_protect_enabled = True, dc_request_endpoint = Some ''/chat'', dc_request_feature = None,
     dc_request_fingerprint = None, dc_estimated_next_tokens = None, dc_token_explosion_tokens = tokens,
     dc_previous_estimated_tokens = Some 2000, dc_current_event = None, dc_recent_events = es,
     dc_retry_storm_window_seconds = 60, dc_retry_storm_count = 2, dc_loop_window_seconds = 30,
     dc_loop_count = 2, dc_loop_max_gap_seconds = 2, dc_loop_concurrency_threshold = 30,
     dc_token_explosion_abs = 10000, dc_token_explosion_growth_ratio = 3 / 2,
     dc_token_explosion_growth_count = 2, dc_token_explosion_growth_min_tokens = 1800,
     dc_token_explosion_concurrency_threshold = 8 \<rparr>"

lemma timestamp_seconds [simp]: "\<bar>s\<bar> \<le> 2 ^ 53 \<Longrightarrow> timestamp (s * 1000000) = of_int s"
  by (simp add: timestamp_def py_div_def)

abbreviation "failing \<equiv> [example_event ''e1'' 1773000000 (Some 429), example_event ''e2'' 1773000001 (Some 500)]"
abbreviation "repeating \<equiv> [example_event ''e1'' 1773000000 None, example_event ''e2'' 1773000001 None]"

lemma example_times_exact: "times_exact (example_ctx failing t) 60" "times_exact (example_ctx repeating t) 30"
  by (simp_all add: times_exact_def example_ctx_def example_event_def exact_from_def exact_until_def seconds_def)

lemma example_created:
  "\<bar>t\<bar> \<le> 2 ^ 53 \<Longrightarrow> timestamp (ev_created_at (example_event i t h)) = of_int t"
  "\<bar>t\<bar> \<le> 2 ^ 53 \<Longrightarrow> timestamp (ev_ts (example_event i t h)) = of_int t"
  unfolding example_event_def by (simp_all only: event.simps timestamp_seconds)

lemma example_loop: "loop_suspect_detect (example_ctx repeating None) \<noteq> []"
proof -
  have f: "\<not> loop_failure (example_event i t None)" for i t
    by (simp add: loop_failure_def http_or_zero_def example_event_def folded_def opt_or_def truthy_def) code_simp
  have p: "ev_provider (example_event i t None) = dc_provider (example_ctx es k)"
    "signature (dc_project_id (example_ctx es k)) (example_event i t None) = context_signature (example_ctx es k)" for i t es k
    by (simp_all add: example_event_def example_ctx_def signature_def context_signature_def)
  have s: "newest_first (dc_recent_events (example_ctx repeating None)) = rev repeating"
    by (simp add: example_ctx_def newest_first_def example_created)
  have n: "dc_now (example_ctx es k) = 1773000010 * 1000000" "dc_loop_window_seconds (example_ctx es k) = 30"
     "dc_loop_max_gap_seconds (example_ctx es k) = 2" for es k
    by (simp_all add: example_ctx_def)
  have n_ts: "timestamp (1773000010 * 1000000) = 1773000010" by (subst timestamp_seconds) simp_all
  have "loop_sequence_count (example_ctx repeating None) = 2"
    unfolding loop_sequence_count_def s n n_ts
    by (simp only: rev.simps append.simps loop_walk.simps Let_def p f) (simp add: py_sub_def example_created n_ts n(3))
  moreover have "\<not> looks_like_token_context_growth (example_ctx repeating None)"
    by (simp add: looks_like_token_context_growth_def context_tokens_def or_else_def example_ctx_def)
  ultimately show ?thesis by (simp add: loop_suspect_detect_def Let_def) (simp add: example_ctx_def)
qed



section \<open>Properties\<close>

text \<open>
  C18: a retry storm is reported exactly when the last seconds hold enough failures of the provider
  and model: although the code compares doubles, an event on the edge of the window is counted to the
  microsecond, and the evidence carries the exact number.
\<close>

theorem retry_storm_exact:
  assumes "times_exact ctx (dc_retry_storm_window_seconds ctx)" "0 < dc_retry_storm_count ctx"
  shows "(retry_storm_detect ctx \<noteq> [] \<longleftrightarrow> dc_retry_storm_count ctx \<le> int (length (storm_window ctx))) \<and>
    (\<forall>sg \<in> set (retry_storm_detect ctx).
       dget (sg_evidence sg) ''failure_count'' = PInt (int (length (storm_window ctx))))"
proof -
  have "dc_recent_events ctx = [] \<Longrightarrow> storm_window ctx = []" by (simp add: storm_window_def)
  then show ?thesis
    using assms by (auto simp: retry_storm_detect_def Let_def storm_failures_exact dget_def evidence_head_def)
qed

theorem retry_storm_exact_witness:
  "retry_storm_detect (example_ctx failing None) \<noteq> []"
proof -
  have "length (storm_window (example_ctx failing None)) = 2" by code_simp
  moreover have "times_exact (example_ctx failing None) (dc_retry_storm_window_seconds (example_ctx failing None))"
    "0 < dc_retry_storm_count (example_ctx failing None)" "dc_retry_storm_count (example_ctx failing None) = 2"
    using example_times_exact(1) by (simp_all add: example_ctx_def)
  ultimately show ?thesis using retry_storm_exact [of "example_ctx failing None"] by simp
qed

text \<open>
  A suspected loop is never raised without cause: the recent events contain a run, newest first,
  of at least the configured number of successful requests (twice as many under high concurrency), all
  with the signature of the current request, inside the window, each close to the next, and the request
  is not a growing context.
\<close>

theorem loop_suspect_sound:
  assumes "loop_suspect_detect ctx \<noteq> []" "times_exact ctx (dc_loop_window_seconds ctx)"
  shows "\<exists>run. subseq run (newest_first (dc_recent_events ctx)) \<and>
     dc_loop_count ctx \<le> int (length run) \<and>
     (dc_loop_concurrency_threshold ctx \<le> dc_current_requests_60s ctx \<longrightarrow> 2 * dc_loop_count ctx \<le> int (length run)) \<and>
     (\<forall>e \<in> set run. ev_provider e = dc_provider ctx \<and> \<not> loop_failure e \<and>
        dc_now ctx - seconds (dc_loop_window_seconds ctx) \<le> ev_created_at e \<and>
        signature (dc_project_id ctx) e = context_signature ctx) \<and>
     successively (close ctx) run \<and> \<not> looks_like_token_context_growth ctx"
proof -
  let ?cut = "py_sub (timestamp (dc_now ctx)) (py_float (dc_loop_window_seconds ctx))"
  obtain run where run: "subseq run (newest_first (dc_recent_events ctx))"
    "int (length run) = loop_sequence_count ctx" "\<forall>e \<in> set run. loop_member ctx ?cut e" "successively (close ctx) run"
    using walk_run [of "newest_first (dc_recent_events ctx)" ctx ?cut None 0] by (auto simp: loop_sequence_count_def)
  have "set run \<subseteq> set (dc_recent_events ctx)" by (rule subsetI, drule list_emb_set [OF run(1)], auto simp: newest_first_def)
  then have win: "dc_now ctx - seconds (dc_loop_window_seconds ctx) \<le> ev_created_at e" if "e \<in> set run" for e
    using run(3) that within_window [OF assms(2)] by (auto simp: loop_member_def)
  have "\<not> looks_like_token_context_growth ctx" "dc_loop_count ctx \<le> loop_sequence_count ctx"
    "dc_loop_concurrency_threshold ctx \<le> dc_current_requests_60s ctx \<longrightarrow> 2 * dc_loop_count ctx \<le> loop_sequence_count ctx"
    using assms(1) by (auto simp: loop_suspect_detect_def Let_def split: if_splits)
  then show ?thesis using run win unfolding loop_member_def by (intro exI [of _ run]) auto
qed

theorem loop_suspect_sound_witness:
  "\<exists>run. subseq run (newest_first repeating) \<and> 2 \<le> int (length run) \<and> (\<forall>e \<in> set run. \<not> loop_failure e)"
proof -
  have "dc_loop_window_seconds (example_ctx repeating None) = 30" "dc_loop_count (example_ctx repeating None) = 2"
    "dc_recent_events (example_ctx repeating None) = repeating" by (simp_all add: example_ctx_def)
  with loop_suspect_sound [OF example_loop] example_times_exact(2) show ?thesis by metis
qed

text \<open>
  A token explosion is reported exactly when the request reaches the absolute threshold, or when
  during a burst of little concurrency the last points of its request stream at or above the floor each
  grew by the configured ratio.
\<close>

theorem token_explosion_iff:
  assumes "1 \<le> dc_token_explosion_growth_count ctx" "0 < dc_token_explosion_growth_min_tokens ctx"
  shows "token_explosion_detect ctx \<noteq> [] \<longleftrightarrow>
     (\<exists>t. explosion_tokens ctx = Some t \<and>
       (dc_token_explosion_abs ctx \<le> t \<or>
        (dc_token_explosion_growth_min_tokens ctx \<le> t \<and> grows ctx t \<and> 0 < dc_current_tokens_60s ctx \<and>
         0 < dc_current_requests_60s ctx \<and>
         dc_current_requests_60s ctx < dc_token_explosion_concurrency_threshold ctx)))"
  using assms by (rule explosion_iff)

theorem token_explosion_iff_witness: "token_explosion_detect (example_ctx failing (Some 12000)) \<noteq> []"
  using token_explosion_iff [of "example_ctx failing (Some 12000)"]
  by (simp add: example_ctx_def explosion_tokens_def or_else_def)

text \<open>
  One request never counts both as a loop and as a growth explosion: below the absolute
  threshold, with the previous tokens read from the same events (as the ingest service does), at most one
  of the two detectors fires.
\<close>

theorem loop_or_growth:
  assumes "inj_on (\<lambda>e. timestamp (ev_ts e)) (set (dc_recent_events ctx))"
    and "dc_previous_estimated_tokens ctx =
       resolve_previous_estimated_tokens (dc_recent_events ctx) (dc_provider ctx) (dc_requested_model ctx)
         (dc_request_endpoint ctx) (dc_request_feature ctx) (dc_current_event ctx)"
    and "1 < dc_token_explosion_growth_ratio ctx" "1 \<le> dc_token_explosion_growth_count ctx"
    and "0 < dc_token_explosion_growth_min_tokens ctx"
    and "explosion_tokens ctx = Some t" "t < dc_token_explosion_abs ctx"
  shows "token_explosion_detect ctx = [] \<or> loop_suspect_detect ctx = []"
proof (cases "token_explosion_detect ctx = []")
  case False
  have g: "grows ctx t" "dc_token_explosion_growth_min_tokens ctx \<le> t"
    using explosion_iff [OF assms(4,5)] False assms(6,7) by auto
  have "context_tokens ctx = Some t \<or> context_tokens ctx \<noteq> None \<and> max (the (context_tokens ctx)) 0 = t"
    using assms(6) by (auto simp: context_tokens_def explosion_tokens_def or_else_def split: option.splits)
  then have "\<exists>t'. context_tokens ctx = Some t' \<and> max t' 0 = t" using g(2) assms(5) by auto
  then have "looks_like_token_context_growth ctx"
    using g grows_over_last [OF g(1) assms(3,4,5) g(2)] assms(5)
    by (auto simp: looks_like_token_context_growth_def assms(2) previous_is_last [OF assms(1)])
  then show ?thesis by (simp add: loop_suspect_detect_def)
qed simp

theorem loop_or_growth_witness:
  "token_explosion_detect (example_ctx repeating (Some 4000)) = [] \<or> loop_suspect_detect (example_ctx repeating (Some 4000)) = []"
proof -
  have r: "dc_recent_events (example_ctx repeating (Some 4000)) = repeating" by (simp add: example_ctx_def)
  have i: "inj_on (\<lambda>e. timestamp (ev_ts e)) (set repeating)" by (auto simp: example_created)
  have s: "same_stream ''openai'' (Some ''gpt'') (Some ''/chat'') None None (example_event i t None)" for i t
    by (simp add: same_stream_def example_event_def)
  have "resolve_previous_estimated_tokens repeating ''openai'' (Some ''gpt'') (Some ''/chat'') None None = Some 2000"
    by (simp add: resolve_previous_estimated_tokens_def example_created s) (simp add: event_tokens_def example_event_def)
  then show ?thesis
    using loop_or_growth [of "example_ctx repeating (Some 4000)" 4000] i
    unfolding r by (simp add: example_ctx_def explosion_tokens_def or_else_def)
qed

text \<open>
  The order of the recent events does not matter: with distinct times, the registry raises the
  same signals, with the same evidence, for every permutation of the events a repository may return.
\<close>

theorem detectors_order_irrelevant:
  assumes "mset es = mset (dc_recent_events ctx)"
    and "inj_on (\<lambda>e. timestamp (ev_created_at e)) (set es)" "inj_on (\<lambda>e. timestamp (ev_ts e)) (set es)"
  shows "registry_detect [retry_storm_detect, loop_suspect_detect, token_explosion_detect] (ctx\<lparr> dc_recent_events := es \<rparr>) =
    registry_detect [retry_storm_detect, loop_suspect_detect, token_explosion_detect] ctx"
proof -
  let ?c = "ctx\<lparr> dc_recent_events := es \<rparr>"
  have empty: "es = [] \<longleftrightarrow> dc_recent_events ctx = []"
    using assms(1) by (metis mset_zero_iff)
  have "length (storm_failures ?c) = length (storm_failures ctx)"
    by (simp add: storm_failures_def filter_length_mset [OF assms(1)] Let_def)
  then have storm: "retry_storm_detect ?c = retry_storm_detect ctx"
    by (simp add: retry_storm_detect_def empty evidence_head_def detector_tags_def cong: if_cong option.case_cong)
  have inj: "inj_on (\<lambda>e. - timestamp (ev_created_at e)) (set es)" using assms(2) by (simp add: inj_on_def)
  have walk: "loop_walk ?c c p n xs = loop_walk ctx c p n xs" for c p n xs
    by (induction xs arbitrary: p n) (simp_all add: Let_def context_signature_def cong: if_cong option.case_cong)
  have "loop_sequence_count ?c = loop_sequence_count ctx"
    by (simp add: loop_sequence_count_def walk newest_first_def sort_key_mset [OF assms(1) inj])
  then have loop: "loop_suspect_detect ?c = loop_suspect_detect ctx"
    by (simp add: loop_suspect_detect_def empty evidence_head_def detector_tags_def context_signature_def
        looks_like_token_context_growth_def context_tokens_def cong: if_cong option.case_cong)
  have "growth_of ?c t = growth_of ctx t" for t
    by (simp add: growth_of_def explosion_sequence_order [OF assms(1,3)] eligible_points_def Let_def)
  then have "token_explosion_detect ?c = token_explosion_detect ctx"
    by (simp add: token_explosion_detect_def explosion_tokens_def evidence_head_def detector_tags_def growth_ratio_def cong: if_cong option.case_cong)
  then show ?thesis by (simp add: registry_detect_def storm loop)
qed

theorem detectors_order_irrelevant_witness:
  "registry_detect [retry_storm_detect, loop_suspect_detect, token_explosion_detect] (example_ctx (rev failing) None) =
   registry_detect [retry_storm_detect, loop_suspect_detect, token_explosion_detect] (example_ctx failing None)"
proof -
  have eq: "(example_ctx failing None)\<lparr> dc_recent_events := rev failing \<rparr> = example_ctx (rev failing) None"
    and m: "mset (rev failing) = mset (dc_recent_events (example_ctx failing None))" by (simp_all add: example_ctx_def)
  have "inj_on (\<lambda>e. timestamp (ev_created_at e)) (set (rev failing))" "inj_on (\<lambda>e. timestamp (ev_ts e)) (set (rev failing))"
    by (auto simp: example_created)
  from detectors_order_irrelevant [OF m this] show ?thesis unfolding eq .
qed

end
