(* ===== verification/Transport_Effects.thy ===== *)
theory Transport_Effects
  imports Transport_Job
begin

text \<open>
  What a run of the delivery job does to the outbox and the queue, whatever the HTTP client, the mail
  provider and the templates do: the claimed row moves along \<open>outbox_step\<close>, the others keep still, and
  a row that is to be retried has a job for it. The database, the queue and the clock are parameters
  (\<open>delivery_env\<close>).
\<close>

section \<open>The life of a row\<close>

inductive outbox_step :: "transport_outbox \<Rightarrow> transport_outbox \<Rightarrow> bool" where
  claim: "claimable t r \<Longrightarrow> outbox_step r (claimed t r)"
| deliver: "ob_status r = ''sending'' \<Longrightarrow> outbox_step r (delivered t r)"
| retry: "ob_status r = ''sending'' \<Longrightarrow> \<not> is_dead r \<Longrightarrow> outbox_step r (failed t c m (Some nx) False r)"
| give_up: "ob_status r = ''sending'' \<Longrightarrow> is_dead r \<Longrightarrow> outbox_step r (failed t c m None True r)"

inductive_cases outbox_stepE: "outbox_step r s"

definition row_inv :: "transport_outbox \<Rightarrow> bool" where
  "row_inv r \<longleftrightarrow> 0 \<le> ob_attempts r \<and> ob_attempts r \<le> ob_max_attempts r \<and>
     ob_status r \<in> {''pending'', ''sending'', ''failed'', ''delivered'', ''dead''} \<and>
     (ob_status r = ''pending'' \<longrightarrow> ob_attempts r = 0) \<and>
     (ob_status r \<in> {''pending'', ''failed''} \<longrightarrow> ob_attempts r < ob_max_attempts r) \<and>
     (ob_status r = ''sending'' \<longrightarrow> 1 \<le> ob_attempts r)"

lemma row_inv_step: "outbox_step r s \<Longrightarrow> row_inv r \<Longrightarrow> row_inv s"
  by (induction rule: outbox_step.induct)
    (auto simp: row_inv_def claimable_def claimed_def delivered_def failed_def is_dead_def Let_def)

lemma step_same:
  "outbox_step r s \<Longrightarrow> ob_id s = ob_id r \<and> ob_kind s = ob_kind r \<and> ob_max_attempts s = ob_max_attempts r \<and>
     ob_attempts r \<le> ob_attempts s \<and> ob_payload s = ob_payload r"
  by (induction rule: outbox_step.induct) (auto simp: claimed_def delivered_def failed_def)

lemma terminal_step: "outbox_step r s \<Longrightarrow> ob_status r \<notin> {''delivered'', ''dead''}"
  by (induction rule: outbox_step.induct) (auto simp: claimable_def)

section \<open>The world of a worker\<close>

text \<open>A computation that may take time but keeps \<open>ok\<close> and a view \<open>v\<close> of the world.\<close>

definition calm :: "('w \<Rightarrow> bool) \<Rightarrow> ('w \<Rightarrow> 'v) \<Rightarrow> ('w \<Rightarrow> datetime) \<Rightarrow> ('w, 'a) py \<Rightarrow> bool" where
  "calm ok v now m \<longleftrightarrow> (\<forall>w. ok w \<longrightarrow> ok (snd (m w)) \<and> v (snd (m w)) = v w \<and> now w \<le> now (snd (m w)))"

lemma calmD:
  assumes "calm ok v now m" "ok w" "m w = (r, w')"
  shows "ok w'" "v w' = v w" "now w \<le> now w'"
  using assms unfolding calm_def by (metis snd_conv)+

lemma calm_ret [intro, simp]: "calm ok v now (ret a)" "calm ok v now (raise e)" "calm ok v now (py_raise_sum s)"
  "calm ok v now (Pair r)"
  by (simp_all add: calm_def py_raise_sum_def)

lemma calm_bnd: "calm ok v now m \<Longrightarrow> (\<And>a. calm ok v now (f a)) \<Longrightarrow> calm ok v now (bnd m f)"
  unfolding calm_def bnd_def by (auto split: prod.splits sum.splits) (metis order_trans snd_conv)+

lemma calm_if [intro]: "calm ok v now m \<Longrightarrow> calm ok v now n \<Longrightarrow> calm ok v now (if b then m else n)"
  by simp

text \<open>\<open>sched w\<close> are the jobs the queue holds, with the time from which each may run; \<open>now w\<close> is the time.\<close>

locale delivery_env = outbox_db T ok rows new_id
  for T :: "('w, transport_outbox) db_table" and ok rows new_id +
  fixes J :: "'w transport_job" and now :: "'w \<Rightarrow> datetime" and sched :: "'w \<Rightarrow> (datetime \<times> string) list"
  assumes uses: "tj_outbox J = TransportOutboxRepositoryImpl T new_id"
    "ts_create_or_get_deduped (tj_transport J) = create_or_get_deduped T new_id" "ts_now (tj_transport J) = tj_clock J"
    and clock: "tj_clock J w = (Inr (now w), w)"
    and table_calm: "calm (\<lambda>_. True) sched now (db_select T P)" "calm (\<lambda>_. True) sched now (db_save T rs)"
      "calm (\<lambda>_. True) sched now (db_add T r)" "calm (\<lambda>_. True) sched now new_id"
    and outside: "calm ok (\<lambda>w. (rows w, sched w)) now (tj_check_url J u)"
      "calm ok (\<lambda>w. (rows w, sched w)) now (tj_post J u b h)"
      "calm ok (\<lambda>w. (rows w, sched w)) now (tj_resend J e)"
      "calm ok (\<lambda>w. (rows w, sched w)) now (tj_get_project J p)"
      "calm ok (\<lambda>w. (rows w, sched w)) now (tj_get_user J p)"
      "calm ok (\<lambda>w. (rows w, sched w)) now (tj_render J u pl)"
    and enqueue_in: "ok w \<Longrightarrow> \<exists>w'. tj_enqueue_in J d i tr w = (Inr (), w') \<and> ok w' \<and> rows w' = rows w \<and>
        sched w' = sched w @ [(now w + seconds d, i)] \<and> now w \<le> now w'"
    and enqueue_job: "ok w \<Longrightarrow> \<exists>w'. ts_enqueue_job (tj_transport J) i x w = (Inr (), w') \<and> ok w' \<and> rows w' = rows w \<and>
        sched w' = sched w @ [(now w, i)] \<and> now w \<le> now w'"
begin

abbreviation quiet :: "('w, 'a) py \<Rightarrow> bool" where
  "quiet \<equiv> calm ok (\<lambda>w. (rows w, sched w)) now"

lemma quietD:
  assumes "quiet m" "outbox_ok w" "m w = (r, w')"
  shows "outbox_ok w'" "rows w' = rows w" "sched w' = sched w" "now w \<le> now w'"
  using calmD [OF assms(1) _ assms(3)] assms(2) by (auto simp: outbox_ok_def)

lemma quiet_clock [intro, simp]: "quiet (tj_clock J)"
  by (simp add: calm_def clock)

lemma change_first_calm: "calm (\<lambda>_. True) sched now (change_first T P g)"
  unfolding change_first_def by (auto intro!: calm_bnd table_calm split: option.splits)

lemma try_calm: "calm a v n m \<Longrightarrow> (\<And>e. calm a v n (h e)) \<Longrightarrow> calm a v n (try_except m h)"
  unfolding calm_def try_except_def by (auto split: prod.splits sum.splits) (metis order_trans snd_conv)+

lemma create_calm: "calm (\<lambda>_. True) sched now (create_or_get_deduped T new_id n)"
  unfolding create_or_get_deduped_def
  by (auto intro!: try_calm calm_bnd table_calm split: option.splits)

lemma get_row: "outbox_ok w \<Longrightarrow> obr_get_by_id (tj_outbox J) i w = (Inr (row_of i (rows w)), w)"
  by (simp add: uses outbox.get)

lemma quiet_get: "quiet (obr_get_by_id (tj_outbox J) i)"
  by (auto simp: calm_def uses TransportOutboxRepositoryImpl_def get_outbox_by_id_def bnd_def select)

lemma send_quiet: "quiet (bnd (send_email J) (\<lambda>send. bnd (send m) (\<lambda>_. ret x)))"
  by (auto simp: send_email_def Let_def intro!: calm_bnd outside)

lemma destination_quiet: "quiet (resolve_email_destination J o' p)"
  unfolding resolve_email_destination_def Let_def
  by (auto intro!: calm_bnd outside split: option.splits)

lemma deliver_quiet: "quiet (deliver J tr o')"
proof -
  have "quiet (deliver_webhook J tr i)" for i
    unfolding deliver_webhook_def Let_def
    by (auto intro!: calm_bnd outside quiet_get split: option.splits)
  moreover have "quiet (deliver_email J i)" for i
    unfolding deliver_email_def Let_def
    by (auto intro!: calm_bnd outside quiet_get destination_quiet send_quiet split: option.splits)
  ultimately show ?thesis by (simp add: deliver_def)
qed

text \<open>What the store operations do to rows, queue and time.\<close>

lemma change_effect:
  assumes "outbox_ok w" "keeps_keys g"
  shows "\<exists>x w'. change_first T (\<lambda>r. ob_id r = i) g w = (Inr x, w') \<and> outbox_ok w' \<and>
     rows w' = change_id i g (rows w) \<and> sched w' = sched w \<and> now w \<le> now w'"
  using mark_run [OF assms] calmD [OF change_first_calm] by blast

lemma claim_effect:
  assumes "outbox_ok w" "row_of i (rows w) = Some r" "claimable t r"
  shows "\<exists>w'. obr_claim_for_send (tj_outbox J) i t w = (Inr (Some (claimed t r)), w') \<and> outbox_ok w' \<and>
     rows w' = change_id i (claimed t) (rows w) \<and> sched w' = sched w \<and> now w \<le> now w'"
  using outbox.claim [OF assms(1), of i t] assms(2,3)
  by (auto simp: uses TransportOutboxRepositoryImpl_def claim_for_send_def dest: calmD [OF change_first_calm TrueI])

lemma transport_enqueue_effect:
  assumes "outbox_ok w" "strip dk \<noteq> []"
  shows "\<exists>i n w'. transport_enqueue (tj_transport J) p k e pl dk opts w = (Inr i, w') \<and> outbox_ok w' \<and> now w \<le> now w' \<and>
     nb_kind n = k \<and> nb_max_attempts n = max_attempts_of k \<and> nb_now n = now w \<and>
     nb_project_id n = p \<and> nb_dedupe_key n = strip dk \<and>
     (if \<exists>r \<in> set (rows w). deduped n r
      then rows w' = rows w \<and> sched w' = sched w \<and> i \<in> ob_id ` {r \<in> set (rows w). deduped n r}
      else rows w' = rows w @ [new_row n i] \<and> (\<exists>due \<ge> now w. sched w' = sched w @ [(due, i)]))"
proof -
  let ?T = "tj_transport J"
  define n where "n = \<lparr> nb_project_id = p, nb_kind = k, nb_event_type = e,
    nb_destination = eo_destination opts, nb_subject = eo_subject opts, nb_template = eo_template opts,
    nb_payload = normalize_payload (ts_get_trace_id ?T) opts pl, nb_dedupe_key = strip dk,
    nb_max_attempts = max_attempts_of k, nb_now = now w \<rparr>"
  note run = transport_enqueue_def Let_def uses(2,3) bnd_def clock n_def [symmetric] try_except_def
  show ?thesis
  proof (cases "\<exists>r \<in> set (rows w). deduped n r")
    case True
    from outbox.create_old [OF assms(1) this] obtain r w' where r: "create_or_get_deduped T new_id n w = (Inr (r, False), w')"
      "outbox_ok w'" "rows w' = rows w" "r \<in> set (rows w)" "deduped n r"
      by (auto simp: TransportOutboxRepositoryImpl_def)
    have "transport_enqueue ?T p k e pl dk opts w = (Inr (ob_id r), w')" using assms(2) r(1) by (simp add: run)
    moreover have "sched w' = sched w" "now w \<le> now w'" using calmD [OF create_calm _ r(1)] by simp_all
    ultimately show ?thesis using True r(2-5) by (intro exI [of _ "ob_id r"] exI [of _ n]) (auto simp: n_def)
  next
    case False
    then have "\<forall>r \<in> set (rows w). \<not> deduped n r" by blast
    from outbox.create_new [OF assms(1) this] obtain i w1 where c: "create_or_get_deduped T new_id n w = (Inr (new_row n i, True), w1)"
      "outbox_ok w1" "rows w1 = rows w @ [new_row n i]"
      by (auto simp: TransportOutboxRepositoryImpl_def)
    have s: "sched w1 = sched w" "now w \<le> now w1" using calmD [OF create_calm _ c(1)] by simp_all
    have i: "ob_id (new_row n i) = i" by (simp add: new_row_def)
    have ok1: "ok w1" using c(2) by (simp add: outbox_ok_def)
    define x where "x = Some (strip (opt_or (eo_trace_id opts) (opt_or (ts_get_trace_id ?T) (ts_generate_trace_id ?T))),
      strip (opt_or (eo_span_id opts) (ts_generate_span_id ?T)))"
    obtain w2 where w2: "ts_enqueue_job ?T i x w1 = (Inr (), w2)" "ok w2" "rows w2 = rows w1"
        "sched w2 = sched w1 @ [(now w1, i)]" "now w1 \<le> now w2" using enqueue_job [OF ok1] by blast
    have "transport_enqueue ?T p k e pl dk opts w = (Inr i, w2)"
      using assms(2) c(1) w2(1) i by (simp add: run flip: x_def)
    moreover have "outbox_ok w2" using w2 c(2) by (simp add: outbox_ok_def)
    ultimately show ?thesis using False w2 s c(3) by (intro exI [of _ i] exI [of _ n]) (auto simp: n_def)
  qed
qed

text \<open>The failure branch, when the exception has a text.\<close>

lemma failure_email_effect:
  assumes "outbox_ok w" "ob_kind r = ''webhook''"
  shows "\<exists>w' ext jobs. try_except (enqueue_webhook_failure_email J r) (\<lambda>_. ret ()) w = (Inr (), w') \<and> outbox_ok w' \<and>
     rows w' = rows w @ ext \<and> sched w' = sched w @ jobs \<and> now w \<le> now w' \<and>
     (ext = [] \<and> jobs = [] \<or> (\<exists>e due. ext = [e] \<and> jobs = [(due, ob_id e)] \<and> ob_next_attempt_at e \<le> due \<and>
        row_inv e \<and> ob_status e = ''pending'' \<and> ob_kind e = ''email'' \<and> ob_max_attempts e = 1))"
proof -
  have q: "quiet (tj_get_project J p)" for p by (rule outside)
  consider (none) "\<exists>w'. try_except (enqueue_webhook_failure_email J r) (\<lambda>_. ret ()) w = (Inr (), w') \<and>
        outbox_ok w' \<and> rows w' = rows w \<and> sched w' = sched w \<and> now w \<le> now w'"
    | (some) w1 pl dk opts p where "outbox_ok w1" "rows w1 = rows w" "sched w1 = sched w" "now w \<le> now w1"
        "try_except (enqueue_webhook_failure_email J r) (\<lambda>_. ret ()) w =
         try_except (bnd (transport_enqueue (tj_transport J) p ''email'' ''webhook.delivery_failed'' pl dk opts) (\<lambda>_. ret ())) (\<lambda>_. ret ()) w1"
  proof (cases "ob_event_type r = ''webhook.test''")
    case True
    then show ?thesis using that(1) assms(1) by (simp add: enqueue_webhook_failure_email_def try_except_def)
  next
    case False
    obtain x w1 where g: "tj_get_project J (ob_project_id r) w = (x, w1)" by (cases "tj_get_project J (ob_project_id r) w")
    note w1 = quietD [OF q assms(1) g]
    show ?thesis
    proof (cases "\<exists>pr. x = Inr (Some pr) \<and> pr_protect_enabled pr \<and> pr_webhook_enabled pr \<and> pr_email_enabled pr")
      case True
      then obtain pr where pr: "x = Inr (Some pr)" "pr_protect_enabled pr" "pr_webhook_enabled pr" "pr_email_enabled pr" by blast
      show ?thesis
        by (rule that(2) [OF w1]) (use False g pr in \<open>simp add: enqueue_webhook_failure_email_def Let_def try_except_def bnd_def\<close>)
    next
      case n: False
      have "try_except (enqueue_webhook_failure_email J r) (\<lambda>_. ret ()) w = (Inr (), w1)"
        using False g n by (auto simp: enqueue_webhook_failure_email_def try_except_def bnd_def split: option.splits sum.splits)
      then show ?thesis using that(1) w1 by blast
    qed
  qed
  then show ?thesis
  proof cases
    case none
    then show ?thesis by fastforce
  next
    case some
    show ?thesis
    proof (cases "strip dk = []")
      case True
      then show ?thesis using some by (intro exI [of _ w1] exI [of _ "[]"]) (simp add: transport_enqueue_def try_except_def bnd_def)
    next
      case False
      from transport_enqueue_effect [OF some(1) this, of p "''email''" "''webhook.delivery_failed''" pl opts]
      obtain i n w2 where e: "transport_enqueue (tj_transport J) p ''email'' ''webhook.delivery_failed'' pl dk opts w1 = (Inr i, w2)"
        "outbox_ok w2" "now w1 \<le> now w2" "nb_kind n = ''email''" "nb_max_attempts n = max_attempts_of ''email''" "nb_now n = now w1"
        and r: "if \<exists>r \<in> set (rows w1). deduped n r
          then rows w2 = rows w1 \<and> sched w2 = sched w1 \<and> i \<in> ob_id ` {r \<in> set (rows w1). deduped n r}
          else rows w2 = rows w1 @ [new_row n i] \<and> (\<exists>due \<ge> now w1. sched w2 = sched w1 @ [(due, i)])"
        by blast
      have run: "try_except (enqueue_webhook_failure_email J r) (\<lambda>_. ret ()) w = (Inr (), w2)"
        using some(5) e(1) by (simp add: try_except_def bnd_def)
      show ?thesis
      proof (cases "\<exists>r \<in> set (rows w1). deduped n r")
        case True
        then show ?thesis using run e some r by (intro exI [of _ w2] exI [of _ "[]"]) auto
      next
        case new: False
        then obtain due where "now w1 \<le> due" "sched w2 = sched w1 @ [(due, i)]" "rows w2 = rows w1 @ [new_row n i]" using r by auto
        then show ?thesis using run e some
          by (intro exI [of _ w2] exI [of _ "[new_row n i]"] exI [of _ "[(due, i)]"])
            (auto simp: new_row_def row_inv_def max_attempts_of_def)
      qed
    qed
  qed
qed

definition email_job :: "transport_outbox \<Rightarrow> transport_outbox list \<Rightarrow> (datetime \<times> string) list \<Rightarrow> bool" where
  "email_job r ext jobs \<longleftrightarrow> ext = [] \<and> jobs = [] \<or>
     ob_kind r = ''webhook'' \<and> (\<exists>e due. ext = [e] \<and> jobs = [(due, ob_id e)] \<and> ob_next_attempt_at e \<le> due \<and>
        row_inv e \<and> ob_status e = ''pending'' \<and> ob_kind e = ''email'' \<and> ob_max_attempts e = 1)"

lemma mark_effect:
  assumes "outbox_ok w"
  shows "\<exists>x w'. obr_mark_delivered (tj_outbox J) i t w = (Inr x, w') \<and> outbox_ok w' \<and>
     rows w' = change_id i (delivered t) (rows w) \<and> sched w' = sched w \<and> now w \<le> now w'"
    "\<exists>x w'. obr_mark_failed (tj_outbox J) i t c m nx d w = (Inr x, w') \<and> outbox_ok w' \<and>
     rows w' = change_id i (failed t c m nx d) (rows w) \<and> sched w' = sched w \<and> now w \<le> now w'"
  using change_effect [OF assms, of "delivered t"] change_effect [OF assms, of "failed t c m nx d"]
  by (simp_all add: uses TransportOutboxRepositoryImpl_def mark_delivered_def mark_failed_def)

lemma change_twice: "(\<And>r. ob_id (f r) = ob_id r) \<Longrightarrow> change_id i g (change_id i f rs) = change_id i (g \<circ> f) rs"
  by (simp add: change_id_def)

lemma change_id_id [simp]: "change_id i id rs = rs"
  by (induction rs) (simp_all add: change_id_def)

lemma error_details_text: "error_details J e = Inl x \<Longrightarrow> x = IndexError \<and> tj_exn_text J e = []"
  by (auto simp: error_details_def first_line_def Let_def split: exn.splits if_splits)

lemma failed_run:
  assumes "outbox_ok w" "row_of i (rows w) = Some r" "ob_id r = i"
  shows "\<exists>res w' g ext jobs. delivery_failed J tr r e w = (res, w') \<and> outbox_ok w' \<and> now w \<le> now w' \<and>
     rows w' = change_id i g (rows w) @ ext \<and> sched w' = sched w @ jobs \<and>
     ((\<exists>t c m nx due. g = failed t c m (Some nx) False \<and> \<not> is_dead r \<and> ext = [] \<and> jobs = [(due, i)] \<and> nx \<le> due \<and> res = Inr ()) \<or>
      (\<exists>t c m. g = failed t c m None True \<and> is_dead r \<and> email_job r ext jobs \<and> res = Inr ()) \<or>
      (g = id \<and> ext = [] \<and> jobs = [] \<and> res = Inl IndexError \<and> tj_exn_text J e = []))"
proof (cases "error_details J e")
  case (Inl x)
  then have "x = IndexError" "tj_exn_text J e = []" using error_details_text by auto
  then show ?thesis using assms(1) Inl
    by (intro exI [of _ "Inl IndexError"] exI [of _ w] exI [of _ id] exI [of _ "[]"])
      (simp add: delivery_failed_def Let_def bnd_def clock py_raise_sum_def)
next
  case (Inr cm)
  obtain c m where cm: "cm = (c, m)" by (cases cm)
  show ?thesis
  proof (cases "is_dead r")
    case False
    let ?d = "the (retry_delay_seconds (ob_kind r) (max (ob_attempts r) 1))"
    obtain x w1 where w1: "obr_mark_failed (tj_outbox J) i (now w) c m (Some (now w + seconds ?d)) False w = (Inr x, w1)"
      "outbox_ok w1" "rows w1 = change_id i (failed (now w) c m (Some (now w + seconds ?d)) False) (rows w)"
      "sched w1 = sched w" "now w \<le> now w1" using mark_effect(2) [OF assms(1)] by blast
    have "ok w1" using w1(2) by (simp add: outbox_ok_def)
    from enqueue_in [OF this, of ?d i tr] obtain w2 where w2: "tj_enqueue_in J ?d i tr w1 = (Inr (), w2)" "ok w2" "rows w2 = rows w1"
      "sched w2 = sched w1 @ [(now w1 + seconds ?d, i)]" "now w1 \<le> now w2" by blast
    have "delivery_failed J tr r e w = (Inr (), w2)"
      using False Inr cm w1(1) w2(1) assms(3) by (simp add: delivery_failed_def Let_def bnd_def clock py_raise_sum_def)
    moreover have "outbox_ok w2" "now w \<le> now w2" using w1 w2 by (simp_all add: outbox_ok_def)
    moreover have "now w + seconds ?d \<le> now w1 + seconds ?d" using w1(5) by simp
    ultimately show ?thesis using False w1(3,4) w2(3,4)
      by (intro exI [of _ "Inr ()"] exI [of _ w2] exI [of _ "failed (now w) c m (Some (now w + seconds ?d)) False"]
          exI [of _ "[]"] exI [of _ "[(now w1 + seconds ?d, i)]"] conjI disjI1 exI [of _ "now w"] exI [of _ c] exI [of _ m]
          exI [of _ "now w + seconds ?d"] exI [of _ "now w1 + seconds ?d"]) simp_all
  next
    case True
    let ?f = "failed (now w) c m None True"
    obtain x w1 where w1: "obr_mark_failed (tj_outbox J) i (now w) c m None True w = (Inr x, w1)"
      "outbox_ok w1" "rows w1 = change_id i ?f (rows w)"
      "sched w1 = sched w" "now w \<le> now w1" using mark_effect(2) [OF assms(1)] by blast
    have row: "row_of i (rows w1) = Some (?f r)" using w1(3) assms(2) by (simp add: row_of_change)
    have kind: "ob_kind (?f r) = ob_kind r" by (simp add: failed_def)
    show ?thesis
    proof (cases "ob_kind r = ''webhook''")
      case wh: True
      with kind failure_email_effect [OF w1(2), of "?f r"] obtain w2 ext jobs where w2:
        "try_except (enqueue_webhook_failure_email J (?f r)) (\<lambda>_. ret ()) w1 = (Inr (), w2)" "outbox_ok w2"
        "rows w2 = rows w1 @ ext" "sched w2 = sched w1 @ jobs" "now w1 \<le> now w2" "email_job r ext jobs"
        unfolding email_job_def by force
      have "delivery_failed J tr r e w = (Inr (), w2)"
        using True wh Inr cm w1(1) w2(1) row get_row [OF w1(2), of i] assms(3)
        by (simp add: delivery_failed_def Let_def bnd_def clock py_raise_sum_def try_except_def)
      then show ?thesis using True w1 w2
        by (intro exI [of _ "Inr ()"] exI [of _ w2] exI [of _ ?f] exI [of _ ext] exI [of _ jobs]) auto
    next
      case False
      have "delivery_failed J tr r e w = (Inr (), w1)"
        using True False Inr cm w1(1) assms(3) by (simp add: delivery_failed_def Let_def bnd_def clock py_raise_sum_def)
      then show ?thesis using True w1
        by (intro exI [of _ "Inr ()"] exI [of _ w1] exI [of _ ?f] exI [of _ "[]"]) (auto simp: email_job_def)
    qed
  qed
qed

lemma process_skip:
  assumes "outbox_ok w" "row_of i (rows w) = None \<or> (\<exists>r. row_of i (rows w) = Some r \<and> \<not> claimable (now w) r)"
  shows "process_outbox_delivery J i tr w = (Inr (), w)"
proof -
  have "obr_claim_for_send (tj_outbox J) i (now w) w = (Inr None, w)"
    using assms(2) outbox.claim [OF assms(1), of i "now w"] by (auto simp: uses)
  then show ?thesis by (simp add: process_outbox_delivery_def bnd_def get_row [OF assms(1)] clock Let_def)
qed

lemma process_run:
  assumes "outbox_ok w" "row_of i (rows w) = Some r" "claimable (now w) r"
  shows "\<exists>res w' g ext jobs. process_outbox_delivery J i tr w = (res, w') \<and> outbox_ok w' \<and> now w \<le> now w' \<and>
     rows w' = change_id i g (rows w) @ ext \<and> sched w' = sched w @ jobs \<and>
     ((\<exists>t. g = delivered t \<circ> claimed (now w) \<and> ext = [] \<and> jobs = [] \<and> res = Inr ()) \<or>
      (\<exists>t c m nx due. g = failed t c m (Some nx) False \<circ> claimed (now w) \<and> \<not> is_dead (claimed (now w) r) \<and>
         ext = [] \<and> jobs = [(due, i)] \<and> nx \<le> due \<and> res = Inr ()) \<or>
      (\<exists>t c m. g = failed t c m None True \<circ> claimed (now w) \<and> is_dead (claimed (now w) r) \<and>
         email_job r ext jobs \<and> res = Inr ()) \<or>
      (g = claimed (now w) \<and> ext = [] \<and> jobs = [] \<and> res = Inl IndexError \<and> (\<exists>e. tj_exn_text J e = [])))"
proof -
  have i: "ob_id r = i" using row_of_Some [OF assms(2)] by simp
  let ?c = "claimed (now w)"
  let ?tr = "resolve_transport_trace_id J (Some r) tr"
  from claim_effect [OF assms] obtain w1 where w1: "obr_claim_for_send (tj_outbox J) i (now w) w = (Inr (Some (?c r)), w1)"
    "outbox_ok w1" "rows w1 = change_id i ?c (rows w)" "sched w1 = sched w" "now w \<le> now w1" by blast
  obtain x w2 where d: "deliver J ?tr (?c r) w1 = (x, w2)" by (cases "deliver J ?tr (?c r) w1")
  note w2 = quietD [OF deliver_quiet w1(2) d]
  have run: "process_outbox_delivery J i tr w =
     (case x of Inl e \<Rightarrow> delivery_failed J ?tr (?c r) e w2
      | Inr _ \<Rightarrow> try_except (bnd (tj_clock J) (\<lambda>t. bnd (obr_mark_delivered (tj_outbox J) i t) (\<lambda>_. ret ())))
           (delivery_failed J ?tr (?c r)) w2)"
    using d w1(1) i by (cases x) (simp_all add: process_outbox_delivery_def bnd_def try_except_def get_row [OF assms(1)] assms(2) clock Let_def)
  have rows2: "change_id i g (rows w2) = change_id i (g \<circ> ?c) (rows w)" for g
    using w2(2) w1(3) by (simp add: change_twice)
  have row2: "row_of i (rows w2) = Some (?c r)" using w2(2) w1(3) assms(2) by (simp add: row_of_change)
  show ?thesis
  proof (cases x)
    case (Inr v)
    obtain y w3 where w3: "obr_mark_delivered (tj_outbox J) i (now w2) w2 = (Inr y, w3)" "outbox_ok w3"
      "rows w3 = change_id i (delivered (now w2)) (rows w2)" "sched w3 = sched w2" "now w2 \<le> now w3"
      using mark_effect(1) [OF w2(1)] by blast
    have "process_outbox_delivery J i tr w = (Inr (), w3)" using run Inr w3(1) by (simp add: try_except_def bnd_def clock)
    then show ?thesis using w1 w2 w3 rows2
      by (intro exI [of _ "Inr ()"] exI [of _ w3] exI [of _ "delivered (now w2) \<circ> ?c"] exI [of _ "[]"]) auto
  next
    case (Inl e)
    have ic: "ob_id (?c r) = i" using i by simp
    from failed_run [OF w2(1) row2 ic, of ?tr e] obtain res w3 g ext jobs where f:
      "delivery_failed J ?tr (?c r) e w2 = (res, w3)" "outbox_ok w3" "now w2 \<le> now w3"
      "rows w3 = change_id i g (rows w2) @ ext" "sched w3 = sched w2 @ jobs"
      and alt: "(\<exists>t c m nx due. g = failed t c m (Some nx) False \<and> \<not> is_dead (?c r) \<and> ext = [] \<and> jobs = [(due, i)] \<and> nx \<le> due \<and> res = Inr ()) \<or>
      (\<exists>t c m. g = failed t c m None True \<and> is_dead (?c r) \<and> email_job (?c r) ext jobs \<and> res = Inr ()) \<or>
      (g = id \<and> ext = [] \<and> jobs = [] \<and> res = Inl IndexError \<and> tj_exn_text J e = [])" by blast
    have "process_outbox_delivery J i tr w = (res, w3)" using run Inl f(1) by simp
    moreover have "email_job (?c r) ext jobs = email_job r ext jobs" by (simp add: email_job_def claimed_def)
    moreover from alt this have "(\<exists>t c m nx due. g \<circ> ?c = failed t c m (Some nx) False \<circ> ?c \<and> \<not> is_dead (?c r) \<and>
         ext = [] \<and> jobs = [(due, i)] \<and> nx \<le> due \<and> res = Inr ()) \<or>
      (\<exists>t c m. g \<circ> ?c = failed t c m None True \<circ> ?c \<and> is_dead (?c r) \<and> email_job r ext jobs \<and> res = Inr ()) \<or>
      (g \<circ> ?c = ?c \<and> ext = [] \<and> jobs = [] \<and> res = Inl IndexError \<and> (\<exists>e. tj_exn_text J e = []))"
      by (elim disjE) (blast, blast, simp, blast)
    moreover have "rows w3 = change_id i (g \<circ> ?c) (rows w) @ ext" "sched w3 = sched w @ jobs" "now w \<le> now w3"
      using f w1(4,5) w2(3,4) rows2 [of g] by simp_all
    ultimately show ?thesis using f(2)
      by (intro exI [of _ res] exI [of _ w3] exI [of _ "g \<circ> ?c"] exI [of _ ext] exI [of _ jobs]) blast
  qed
qed

end

end
