(* ===== verification/Transport_Liveness.thy ===== *)
theory Transport_Liveness
  imports Transport_Effects
begin

text \<open>
  Notifications come to an end: a worker that keeps taking jobs empties the queue, and every row of the
  outbox is then delivered or dead. The exception is shown too: an error without a text.
\<close>

section \<open>Draining the queue\<close>

text \<open>
  One step of a worker: take the first job of the queue, wait until it may run (\<open>advance\<close>, which the
  queue does), and run it.
\<close>

definition work :: "'w transport_job \<Rightarrow> ('w \<Rightarrow> (datetime \<times> string) list) \<Rightarrow> (datetime \<Rightarrow> 'w \<Rightarrow> 'w) \<Rightarrow> 'w \<Rightarrow> 'w" where
  "work J sched advance w = (case sched w of
     [] \<Rightarrow> w | (t, i) # _ \<Rightarrow> snd (process_outbox_delivery J i None (advance t w)))"

definition waiting :: "transport_outbox \<Rightarrow> bool" where
  "waiting r \<longleftrightarrow> ob_status r \<in> {''pending'', ''failed''}"

definition finished :: "transport_outbox \<Rightarrow> bool" where
  "finished r \<longleftrightarrow> ob_status r \<in> {''delivered'', ''dead''}"

text \<open>Every row that waits has a job that will not come before its time, and nothing is left half sent.\<close>

definition queue_inv :: "transport_outbox list \<Rightarrow> (datetime \<times> string) list \<Rightarrow> bool" where
  "queue_inv rs js \<longleftrightarrow> (\<forall>r \<in> set rs. row_inv r \<and> (waiting r \<or> finished r) \<and>
     (waiting r \<longrightarrow> (\<exists>t. (t, ob_id r) \<in> set js \<and> ob_next_attempt_at r \<le> t)))"

definition effort :: "transport_outbox \<Rightarrow> nat" where
  "effort r = (if waiting r then (if ob_kind r = ''webhook'' then 8 else 2) * nat (ob_max_attempts r - ob_attempts r) else 0)"

definition total_effort :: "transport_outbox list \<Rightarrow> (datetime \<times> string) list \<Rightarrow> nat" where
  "total_effort rs js = length js + sum_list (map effort rs)"

lemma effort_change:
  assumes "distinct (map ob_id rs)" "row_of i rs = Some r"
  shows "sum_list (map effort (change_id i g rs)) + effort r = sum_list (map effort rs) + effort (g r)"
  using assms
proof (induction rs)
  case (Cons x rs)
  show ?case
  proof (cases "ob_id x = i")
    case True
    then have "x = r" "\<forall>y \<in> set rs. ob_id y \<noteq> i" using Cons.prems by (auto simp: row_of_def rev_image_eqI)
    then have "change_id i g rs = rs" unfolding change_id_def by (intro map_idI) auto
    then show ?thesis using True \<open>x = r\<close> by (simp add: change_id_def)
  next
    case False
    then have "row_of i rs = Some r" using Cons.prems by (simp add: row_of_def)
    then show ?thesis using Cons False by (simp add: change_id_def)
  qed
qed (simp add: row_of_def)

lemma change_id_mem: "s \<in> set (change_id i g rs) \<Longrightarrow> (\<exists>r \<in> set rs. ob_id r = i \<and> s = g r) \<or> s \<in> set rs \<and> ob_id s \<noteq> i"
  by (auto simp: change_id_def split: if_splits)

lemma queue_inv_change:
  assumes "queue_inv rs ((t, i) # js)" "row_of i rs = Some r" "distinct (map ob_id rs)" "ob_id (g r) = i"
    and "row_inv (g r)" "finished (g r) \<or> waiting (g r) \<and> (\<exists>t. (t, i) \<in> set js' \<and> ob_next_attempt_at (g r) \<le> t)"
    and "\<forall>e \<in> set ext. row_inv e \<and> waiting e \<and> (\<exists>t. (t, ob_id e) \<in> set js' \<and> ob_next_attempt_at e \<le> t)"
    and "set js \<subseteq> set js'"
  shows "queue_inv (change_id i g rs @ ext) js'"
  unfolding queue_inv_def
proof
  fix s assume "s \<in> set (change_id i g rs @ ext)"
  then consider (new) "s \<in> set ext" | (changed) r' where "r' \<in> set rs" "ob_id r' = i" "s = g r'"
    | (other) "s \<in> set rs" "ob_id s \<noteq> i"
    using change_id_mem [of s i g rs] by auto
  then show "row_inv s \<and> (waiting s \<or> finished s) \<and> (waiting s \<longrightarrow> (\<exists>t. (t, ob_id s) \<in> set js' \<and> ob_next_attempt_at s \<le> t))"
  proof cases
    case new
    then show ?thesis using assms(7) by blast
  next
    case changed
    then have "r' = r" using assms(2,3) row_of_Some [OF assms(2)] by (auto simp: distinct_map inj_on_def)
    moreover have "\<not> (finished s \<and> waiting s)" by (auto simp: finished_def waiting_def)
    ultimately show ?thesis using assms(4-6) changed(3) by auto
  next
    case other
    then show ?thesis using assms(1,8) unfolding queue_inv_def by auto
  qed
qed

locale worker = delivery_env T ok rows new_id J now sched
  for T :: "('w, transport_outbox) db_table" and ok rows new_id J now sched +
  fixes advance :: "datetime \<Rightarrow> 'w \<Rightarrow> 'w"
  assumes advance: "ok w \<Longrightarrow> sched w = (t, i) # js \<Longrightarrow>
    ok (advance t w) \<and> rows (advance t w) = rows w \<and> sched (advance t w) = js \<and> t \<le> now (advance t w)"
begin

lemma work_step:
  assumes "outbox_ok w" "queue_inv (rows w) (sched w)" "sched w = (t, i) # js" "\<forall>e. tj_exn_text J e \<noteq> []"
  shows "outbox_ok (work J sched advance w) \<and>
     queue_inv (rows (work J sched advance w)) (sched (work J sched advance w)) \<and>
     total_effort (rows (work J sched advance w)) (sched (work J sched advance w)) < total_effort (rows w) (sched w) \<and>
     ob_id ` set (rows w) \<subseteq> ob_id ` set (rows (work J sched advance w))"
proof -
  let ?a = "advance t w"
  have a: "outbox_ok ?a" "rows ?a = rows w" "sched ?a = js" "t \<le> now ?a"
    using advance [OF _ assms(3)] assms(1) by (auto simp: outbox_ok_def)
  have w: "work J sched advance w = snd (process_outbox_delivery J i None ?a)" by (simp add: work_def assms(3))
  have dist: "distinct (map ob_id (rows w))" using assms(1) outbox.distinct_ids by blast
  have due: "claimable (now ?a) r" if "row_of i (rows w) = Some r" "waiting r" "(t, i) = (u, ob_id r)" "ob_next_attempt_at r \<le> u" for r u
    using that a(4) by (auto simp: claimable_def waiting_def)
  show ?thesis
  proof (cases "\<exists>r. row_of i (rows w) = Some r \<and> claimable (now ?a) r")
    case False
    then have "process_outbox_delivery J i None ?a = (Inr (), ?a)"
      using process_skip [OF a(1), of i None] by (cases "row_of i (rows w)") (simp_all add: a(2))
    then have wa: "work J sched advance w = ?a" by (simp add: w)
    have "queue_inv (rows w) js"
      unfolding queue_inv_def
    proof
      fix r assume r: "r \<in> set (rows w)"
      have "\<exists>u. (u, ob_id r) \<in> set js \<and> ob_next_attempt_at r \<le> u" if "waiting r"
      proof -
        have "\<exists>u. (u, ob_id r) \<in> set (sched w) \<and> ob_next_attempt_at r \<le> u"
          using bspec [OF assms(2) [unfolded queue_inv_def] r] that by simp
        then obtain u where u: "(u, ob_id r) \<in> set ((t, i) # js)" "ob_next_attempt_at r \<le> u"
          unfolding assms(3) by blast
        have "\<not> (ob_id r = i \<and> ob_next_attempt_at r \<le> t)"
          using False due [of r t] that row_of_mem [OF dist r] by auto
        then show ?thesis using u by auto
      qed
      then show "row_inv r \<and> (waiting r \<or> finished r) \<and> (waiting r \<longrightarrow> (\<exists>u. (u, ob_id r) \<in> set js \<and> ob_next_attempt_at r \<le> u))"
        using assms(2) r unfolding queue_inv_def by blast
    qed
    then show ?thesis using a assms(3) by (simp add: wa total_effort_def)
  next
    case True
    then obtain r where r: "row_of i (rows ?a) = Some r" "row_of i (rows w) = Some r" "claimable (now ?a) r"
      by (auto simp: a(2))
    have rm: "r \<in> set (rows w)" "ob_id r = i" using row_of_Some [OF r(2)] by simp_all
    have ri: "row_inv r" using assms(2) rm unfolding queue_inv_def by blast
    have cl: "ob_attempts r < ob_max_attempts r" "0 \<le> ob_attempts r" "waiting r"
      using ri r(3) by (auto simp: row_inv_def claimable_def waiting_def)
    let ?c = "claimed (now ?a)"
    have ci: "row_inv (?c r)" "ob_status (?c r) = ''sending''" using row_inv_step [OF outbox_step.claim [OF r(3)] ri]
      by (simp_all add: claimed_def)
    from process_run [OF a(1) r(1,3), of None] assms(4) obtain w' g ext jobs where run:
      "process_outbox_delivery J i None ?a = (Inr (), w')" "outbox_ok w'"
      "rows w' = change_id i g (rows w) @ ext" "sched w' = js @ jobs"
      and alt: "(\<exists>u. g = delivered u \<circ> ?c \<and> ext = [] \<and> jobs = []) \<or>
      (\<exists>u c m nx due. g = failed u c m (Some nx) False \<circ> ?c \<and> \<not> is_dead (?c r) \<and>
         ext = [] \<and> jobs = [(due, i)] \<and> nx \<le> due) \<or>
      (\<exists>u c m. g = failed u c m None True \<circ> ?c \<and> is_dead (?c r) \<and> email_job r ext jobs)"
      unfolding a(2,3) by (elim exE conjE) blast
    have ww: "work J sched advance w = w'" by (simp add: w run(1))
    have eff: "sum_list (map effort (rows w')) + effort r = sum_list (map effort (rows w)) + effort (g r) + sum_list (map effort ext)"
      using effort_change [OF dist r(2), of g] by (simp add: run(3))
    have ids: "ob_id ` set (rows w) \<subseteq> ob_id ` set (rows w')" if "\<And>r. ob_id (g r) = ob_id r"
    proof -
      have "ob_id ` set (change_id i g (rows w)) = ob_id ` set (rows w)"
        by (metis change_id_ids list.set_map that)
      then show ?thesis by (auto simp: run(3) image_Un)
    qed
    have er: "effort r = (if ob_kind r = ''webhook'' then 8 else 2) * nat (ob_max_attempts r - ob_attempts r)"
      using cl(3) by (simp add: effort_def)
    from alt show ?thesis
    proof (elim disjE exE conjE)
      fix u assume g: "g = delivered u \<circ> ?c" "ext = []" "jobs = []"
      have s: "row_inv (g r)" using row_inv_step [OF outbox_step.deliver [OF ci(2)] ci(1)] g(1) by simp
      have f: "finished (g r)" "effort (g r) = 0" "ob_id (g r) = i"
        using rm by (simp_all add: g(1) delivered_def claimed_def finished_def effort_def waiting_def)
      have "queue_inv (rows w') (sched w')"
        unfolding run(3,4) using assms(2) f s g by (intro queue_inv_change [OF _ r(2) dist]) (auto simp: assms(3))
      then show ?thesis using run(2) eff f g ids er cl by (simp add: ww total_effort_def assms(3) run(4))
    next
      fix u c m nx due'
      assume g: "g = failed u c m (Some nx) False \<circ> ?c" "\<not> is_dead (?c r)" "ext = []" "jobs = [(due', i)]" "nx \<le> due'"
      have s: "row_inv (g r)" using row_inv_step [OF outbox_step.retry [OF ci(2) g(2)] ci(1)] g(1) by simp
      have f: "waiting (g r)" "ob_id (g r) = i" "ob_next_attempt_at (g r) = nx"
        using rm by (simp_all add: g(1) failed_def claimed_def waiting_def)
      have e: "effort (g r) + 2 \<le> effort r"
        using cl f(1) by (auto simp: effort_def g(1) failed_def claimed_def nat_diff_split)
      have "queue_inv (rows w') (sched w')"
        unfolding run(3,4) using assms(2) f s g by (intro queue_inv_change [OF _ r(2) dist]) (auto simp: assms(3))
      then show ?thesis using run(2) eff e g ids by (simp add: ww total_effort_def assms(3) run(4))
    next
      fix u c m assume g: "g = failed u c m None True \<circ> ?c" "is_dead (?c r)" "email_job r ext jobs"
      have s: "row_inv (g r)" using row_inv_step [OF outbox_step.give_up [OF ci(2) g(2)] ci(1)] g(1) by simp
      have f: "finished (g r)" "effort (g r) = 0" "ob_id (g r) = i"
        using rm by (simp_all add: g(1) failed_def claimed_def finished_def effort_def waiting_def)
      have ext: "\<forall>e \<in> set ext. row_inv e \<and> waiting e \<and> (\<exists>t. (t, ob_id e) \<in> set (js @ jobs) \<and> ob_next_attempt_at e \<le> t)"
        using g(3) by (auto simp: email_job_def waiting_def)
      have e: "sum_list (map effort ext) + length jobs < effort r + 1"
        using g(3) cl er by (auto simp: email_job_def effort_def waiting_def row_inv_def)
      have "queue_inv (rows w') (sched w')"
        unfolding run(3,4) using assms(2) f s ext by (intro queue_inv_change [OF _ r(2) dist]) (auto simp: assms(3))
      then show ?thesis using run(2) eff e f g ids by (simp add: ww total_effort_def assms(3) run(4))
    qed
  qed
qed

lemma drains:
  assumes "outbox_ok w" "queue_inv (rows w) (sched w)" "\<forall>e. tj_exn_text J e \<noteq> []"
  shows "\<exists>n \<le> total_effort (rows w) (sched w). let w' = (work J sched advance ^^ n) w in
     sched w' = [] \<and> (\<forall>r \<in> set (rows w'). finished r \<and> row_inv r) \<and> ob_id ` set (rows w) \<subseteq> ob_id ` set (rows w')"
  using assms(1,2)
proof (induction "total_effort (rows w) (sched w)" arbitrary: w rule: less_induct)
  case less
  show ?case
  proof (cases "sched w")
    case Nil
    then have "\<forall>r \<in> set (rows w). finished r \<and> row_inv r" using less.prems(2) by (auto simp: queue_inv_def)
    then show ?thesis using Nil by (intro exI [of _ 0]) simp
  next
    case (Cons j js)
    obtain t i where j: "j = (t, i)" by (cases j)
    let ?v = "work J sched advance w"
    note st = work_step [OF less.prems, of t i js] Cons j assms(3)
    then have v: "outbox_ok ?v" "queue_inv (rows ?v) (sched ?v)"
      "total_effort (rows ?v) (sched ?v) < total_effort (rows w) (sched w)"
      "ob_id ` set (rows w) \<subseteq> ob_id ` set (rows ?v)" by auto
    from less.hyps [OF v(3,1,2)] obtain n where n: "n \<le> total_effort (rows ?v) (sched ?v)"
      "let w' = (work J sched advance ^^ n) ?v in sched w' = [] \<and> (\<forall>r \<in> set (rows w'). finished r \<and> row_inv r) \<and>
        ob_id ` set (rows ?v) \<subseteq> ob_id ` set (rows w')" by blast
    have eq: "(work J sched advance ^^ Suc n) w = (work J sched advance ^^ n) ?v"
      by (simp only: funpow_Suc_right comp_def)
    show ?thesis
      unfolding Let_def eq using n v(3,4)
      by (intro exI [of _ "Suc n"]) (simp only: eq Let_def, meson Suc_leI le_less_trans order_trans)
  qed
qed

end

section \<open>A concrete worker\<close>

record mail_world =
  mw_rows :: "transport_outbox list"
  mw_sched :: "(datetime \<times> string) list"
  mw_now :: datetime

definition mem_outbox :: "(mail_world, transport_outbox) db_table" where
  "mem_outbox = list_table mw_rows (\<lambda>xs w. w\<lparr> mw_rows := xs \<rparr>) ob_id outbox_clash"

definition mem_new_id :: "(mail_world, string) py" where
  "mem_new_id w = (Inr (CHR ''x'' # concat (map ob_id (mw_rows w))), w)"

definition mem_transport :: "mail_world transport_service" where
  "mem_transport = \<lparr>
     ts_create_or_get_deduped = create_or_get_deduped mem_outbox mem_new_id,
     ts_enqueue_job = (\<lambda>i _ w. (Inr (), w\<lparr> mw_sched := mw_sched w @ [(mw_now w, i)] \<rparr>)),
     ts_now = (\<lambda>w. (Inr (mw_now w), w)), ts_get_trace_id = None, ts_generate_trace_id = ''t'',
     ts_generate_span_id = ''s'', ts_sha256 = (\<lambda>s. s), ts_float_repr = (\<lambda>_. ''0.0'') \<rparr>"

text \<open>The outcomes of posting to a URL, the text of exceptions and the project are free.\<close>

definition mem_job :: "(string \<Rightarrow> exn + int) \<Rightarrow> (exn \<Rightarrow> string) \<Rightarrow> project option \<Rightarrow> settings \<Rightarrow> mail_world transport_job" where
  "mem_job post msg project st = \<lparr>
     tj_outbox = TransportOutboxRepositoryImpl mem_outbox mem_new_id,
     tj_get_project = (\<lambda>_. ret project), tj_get_user = (\<lambda>_. ret None),
     tj_clock = (\<lambda>w. (Inr (mw_now w), w)), tj_settings = st, tj_check_url = (\<lambda>_. ret ()),
     tj_post = (\<lambda>u _ _. py_raise_sum (post u)), tj_render = (\<lambda>t _. raise (ValueError t)),
     tj_resend = (\<lambda>_. ret ()),
     tj_enqueue_in = (\<lambda>d i _ w. (Inr (), w\<lparr> mw_sched := mw_sched w @ [(mw_now w + seconds d, i)] \<rparr>)),
     tj_transport = mem_transport, tj_exn_text = msg, tj_trace_id = ''t'', tj_span_id = ''s'' \<rparr>"

definition mem_advance :: "datetime \<Rightarrow> mail_world \<Rightarrow> mail_world" where
  "mem_advance t w = w\<lparr> mw_sched := tl (mw_sched w), mw_now := max t (mw_now w) \<rparr>"

interpretation mw: worker mem_outbox "\<lambda>w. distinct (map ob_id (mw_rows w))" mw_rows mem_new_id
  "mem_job post msg project st" mw_now mw_sched mem_advance
  for post msg project st
proof -
  have "db_contract mem_outbox (\<lambda>w. distinct (map ob_id (mw_rows w))) mw_rows ob_id outbox_clash"
    unfolding mem_outbox_def
    by unfold_locales (auto simp: list_table_def outbox_clash_def rev_image_eqI distinct_map_filter)
  moreover have "CHR ''x'' # concat (map ob_id (mw_rows w)) \<notin> ob_id ` set (mw_rows w)" for w
    using longer_than_all [of "map ob_id (mw_rows w)"] by simp
  ultimately have db: "outbox_db mem_outbox (\<lambda>w. distinct (map ob_id (mw_rows w))) mw_rows mem_new_id"
    by (intro outbox_db.intro outbox_db_axioms.intro) (auto simp: mem_new_id_def)
  show "worker mem_outbox (\<lambda>w. distinct (map ob_id (mw_rows w))) mw_rows mem_new_id
      (mem_job post msg project st) mw_now mw_sched mem_advance"
    by (intro worker.intro delivery_env.intro db delivery_env_axioms.intro worker_axioms.intro)
      (auto simp: mem_job_def mem_transport_def calm_def mem_outbox_def list_table_def mem_new_id_def
        mem_advance_def py_raise_sum_def)
qed

section \<open>Single runs\<close>

context delivery_env
begin

lemma ok_of: "ok w \<Longrightarrow> unique_rows (rows w) \<Longrightarrow> outbox_ok w"
  by (simp add: outbox_ok_def)

lemma job_outcome:
  assumes "outbox_ok w"
  shows "\<exists>ext. map ob_id (rows (snd (process_outbox_delivery J i tr w))) = map ob_id (rows w) @ map ob_id ext \<and>
     (\<forall>r \<in> set (rows w). \<exists>s \<in> set (rows (snd (process_outbox_delivery J i tr w))).
        outbox_step\<^sup>*\<^sup>* r s \<and> (ob_id r \<noteq> i \<longrightarrow> s = r)) \<and>
     (\<forall>e \<in> set ext. e \<in> set (rows (snd (process_outbox_delivery J i tr w))) \<and> ob_status e = ''pending'' \<and> ob_kind e = ''email'')"
proof (cases "\<exists>r. row_of i (rows w) = Some r \<and> claimable (now w) r")
  case False
  then have "process_outbox_delivery J i tr w = (Inr (), w)"
    using process_skip [OF assms, of i tr] by (cases "row_of i (rows w)") simp_all
  then show ?thesis by (intro exI [of _ "[]"]) auto
next
  case True
  then obtain r where r: "row_of i (rows w) = Some r" "claimable (now w) r" by blast
  have dist: "distinct (map ob_id (rows w))" using outbox.distinct_ids [OF assms] .
  let ?c = "claimed (now w)"
  have sending: "ob_status (?c r) = ''sending''" by (simp add: claimed_def)
  have c: "outbox_step r (?c r)" by (rule outbox_step.claim [OF r(2)])
  from process_run [OF assms r, of tr] obtain res w' g ext jobs where run: "process_outbox_delivery J i tr w = (res, w')"
    "rows w' = change_id i g (rows w) @ ext"
    and alt: "(\<exists>t. g = delivered t \<circ> ?c \<and> ext = [] \<and> jobs = [] \<and> res = Inr ()) \<or>
      (\<exists>t c m nx due. g = failed t c m (Some nx) False \<circ> ?c \<and> \<not> is_dead (?c r) \<and>
         ext = [] \<and> jobs = [(due, i)] \<and> nx \<le> due \<and> res = Inr ()) \<or>
      (\<exists>t c m. g = failed t c m None True \<circ> ?c \<and> is_dead (?c r) \<and> email_job r ext jobs \<and> res = Inr ()) \<or>
      (g = ?c \<and> ext = [] \<and> jobs = [] \<and> res = Inl IndexError \<and> (\<exists>e. tj_exn_text J e = []))" by blast
  have g: "outbox_step\<^sup>*\<^sup>* r (g r) \<and> (\<forall>x. ob_id (g x) = ob_id x)"
    using alt
  proof (elim disjE exE conjE)
    fix t assume "g = delivered t \<circ> ?c"
    then show ?thesis using c outbox_step.deliver [OF sending, of t] by (auto intro: rtranclp.rtrancl_into_rtrancl)
  next
    fix t c' m nx due assume "g = failed t c' m (Some nx) False \<circ> ?c" "\<not> is_dead (?c r)"
    then show ?thesis using c outbox_step.retry [OF sending, of t c' m nx] by (auto intro: rtranclp.rtrancl_into_rtrancl)
  next
    fix t c' m assume "g = failed t c' m None True \<circ> ?c" "is_dead (?c r)"
    then show ?thesis using c outbox_step.give_up [OF sending, of t c' m] by (auto intro: rtranclp.rtrancl_into_rtrancl)
  next
    assume "g = ?c"
    then show ?thesis using c by auto
  qed
  have ext: "\<forall>e \<in> set ext. ob_status e = ''pending'' \<and> ob_kind e = ''email''"
    using alt by (elim disjE exE conjE) (auto simp: email_job_def)
  have "\<exists>s \<in> set (rows w'). outbox_step\<^sup>*\<^sup>* x s \<and> (ob_id x \<noteq> i \<longrightarrow> s = x)" if x: "x \<in> set (rows w)" for x
  proof (cases "ob_id x = i")
    case True
    then have "x = r" using row_of_mem [OF dist x] r(1) by simp
    then show ?thesis using g x True by (intro bexI [of _ "g x"]) (auto simp: run(2) change_id_def)
  next
    case False
    then show ?thesis using x by (intro bexI [of _ x]) (auto simp: run(2) change_id_def image_iff intro!: disjI1 bexI [of _ x])
  qed
  then show ?thesis using ext g by (intro exI [of _ ext]) (auto simp: run)
qed

lemma stuck_forever:
  assumes "outbox_ok w" "process_outbox_delivery J i tr w = (Inl err, w')"
  shows "(\<exists>e. tj_exn_text J e = []) \<and> sched w' = sched w \<and>
     (\<exists>r. row_of i (rows w) = Some r \<and> row_of i (rows w') = Some (claimed (now w) r)) \<and>
     (\<forall>v tr'. outbox_ok v \<longrightarrow> row_of i (rows v) = row_of i (rows w') \<longrightarrow> process_outbox_delivery J i tr' v = (Inr (), v))"
proof (cases "\<exists>r. row_of i (rows w) = Some r \<and> claimable (now w) r")
  case False
  then have "process_outbox_delivery J i tr w = (Inr (), w)"
    using process_skip [OF assms(1), of i tr] by (cases "row_of i (rows w)") simp_all
  then show ?thesis using assms(2) by simp
next
  case True
  then obtain r where r: "row_of i (rows w) = Some r" "claimable (now w) r" by blast
  from process_run [OF assms(1) r, of tr] assms(2) have
    e: "rows w' = change_id i (claimed (now w)) (rows w)" "sched w' = sched w" "\<exists>e. tj_exn_text J e = []"
    by auto
  have row: "row_of i (rows w') = Some (claimed (now w) r)" by (simp add: e(1) row_of_change r(1))
  have "process_outbox_delivery J i tr' v = (Inr (), v)" if "outbox_ok v" "row_of i (rows v) = row_of i (rows w')" for v tr'
    using that row by (intro process_skip) (auto simp: claimable_def claimed_def)
  then show ?thesis using e row r(1) by blast
qed

lemma enqueue_twice:
  assumes "outbox_ok w" "strip key \<noteq> []"
  shows "\<exists>i w1 w2. transport_enqueue (tj_transport J) p kind e pl key opts w = (Inr i, w1) \<and>
     transport_enqueue (tj_transport J) p kind e' pl' key opts' w1 = (Inr i, w2) \<and>
     rows w2 = rows w1 \<and> sched w2 = sched w1 \<and>
     (rows w1 = rows w \<and> sched w1 = sched w \<or>
      (\<exists>r due. rows w1 = rows w @ [r] \<and> ob_id r = i \<and> ob_status r = ''pending'' \<and> sched w1 = sched w @ [(due, i)] \<and>
         ob_next_attempt_at r \<le> due \<and> ob_kind r = kind \<and> ob_max_attempts r = max_attempts_of kind))"
proof -
  let ?T = "tj_transport J"
  from transport_enqueue_effect [OF assms, of p kind e pl opts] obtain i n w1 where
    r1: "transport_enqueue ?T p kind e pl key opts w = (Inr i, w1)" "outbox_ok w1"
      "nb_kind n = kind" "nb_max_attempts n = max_attempts_of kind" "nb_now n = now w"
      "nb_project_id n = p" "nb_dedupe_key n = strip key"
    and s1: "if \<exists>r \<in> set (rows w). deduped n r
      then rows w1 = rows w \<and> sched w1 = sched w \<and> i \<in> ob_id ` {r \<in> set (rows w). deduped n r}
      else rows w1 = rows w @ [new_row n i] \<and> (\<exists>due \<ge> now w. sched w1 = sched w @ [(due, i)])" by blast
  from transport_enqueue_effect [OF r1(2) assms(2), of p kind e' pl' opts'] obtain j m w2 where
    r2: "transport_enqueue ?T p kind e' pl' key opts' w1 = (Inr j, w2)"
      "nb_kind m = kind" "nb_project_id m = p" "nb_dedupe_key m = strip key"
    and s2: "if \<exists>r \<in> set (rows w1). deduped m r
      then rows w2 = rows w1 \<and> sched w2 = sched w1 \<and> j \<in> ob_id ` {r \<in> set (rows w1). deduped m r}
      else rows w2 = rows w1 @ [new_row m j] \<and> (\<exists>due \<ge> now w1. sched w2 = sched w1 @ [(due, j)])" by blast
  have same: "deduped m = deduped n" using r1(3,6,7) r2(2-4) by (intro ext) (simp add: deduped_def)
  have new: "deduped n (new_row n i)" "ob_id (new_row n i) = i" "ob_status (new_row n i) = ''pending''"
    "ob_next_attempt_at (new_row n i) = now w" "ob_kind (new_row n i) = kind"
    "ob_max_attempts (new_row n i) = max_attempts_of kind"
    by (simp_all add: deduped_def new_row_def r1)
  obtain x where x: "x \<in> set (rows w1)" "deduped n x" "ob_id x = i"
  proof (cases "\<exists>r \<in> set (rows w). deduped n r")
    case True
    then show ?thesis using s1 that by auto
  next
    case False
    then show ?thesis using s1 that [of "new_row n i"] new by auto
  qed
  have "\<exists>r \<in> set (rows w1). deduped n r" using x(1,2) by blast
  with s2 have "rows w2 = rows w1" "sched w2 = sched w1" "j \<in> ob_id ` {r \<in> set (rows w1). deduped n r}"
    unfolding same by simp_all
  moreover have "y = x" if "y \<in> set (rows w1)" "deduped n y" for y
    using outbox.unique_keys [OF r1(2) that(1) x(1)] that(2) x(2) by (simp add: deduped_def)
  ultimately have w2: "rows w2 = rows w1" "sched w2 = sched w1" "j = i" using x(3) by auto
  have "rows w1 = rows w \<and> sched w1 = sched w \<or>
      (\<exists>r due. rows w1 = rows w @ [r] \<and> ob_id r = i \<and> ob_status r = ''pending'' \<and> sched w1 = sched w @ [(due, i)] \<and>
         ob_next_attempt_at r \<le> due \<and> ob_kind r = kind \<and> ob_max_attempts r = max_attempts_of kind)"
    using s1 new by (cases "\<exists>r \<in> set (rows w). deduped n r") (simp, metis)
  then show ?thesis using r1(1) r2(1) w2 by blast
qed

end

section \<open>Properties\<close>

text \<open>
  C19: whatever the network, the mail provider, the templates and the URL guard do, a run of the
  delivery job moves the row it was given along the life cycle of a row and leaves every other row as it
  is; the only rows it adds are pending alert emails.
\<close>

theorem job_refines_row_life:
  assumes "delivery_env T ok rows new_id J now sched" "ok w" "unique_rows (rows w)"
  shows "\<exists>ext. map ob_id (rows (snd (process_outbox_delivery J i tr w))) = map ob_id (rows w) @ map ob_id ext \<and>
     (\<forall>r \<in> set (rows w). \<exists>s \<in> set (rows (snd (process_outbox_delivery J i tr w))).
        outbox_step\<^sup>*\<^sup>* r s \<and> (ob_id r \<noteq> i \<longrightarrow> s = r)) \<and>
     (\<forall>e \<in> set ext. e \<in> set (rows (snd (process_outbox_delivery J i tr w))) \<and> ob_status e = ''pending'' \<and> ob_kind e = ''email'')"
  using delivery_env.job_outcome [OF assms(1) delivery_env.ok_of [OF assms]] .

definition example_outbox :: transport_outbox where
  "example_outbox = \<lparr> ob_id = ''o1'', ob_project_id = ''p1'', ob_kind = ''webhook'', ob_event_type = ''incident.warn'',
     ob_destination = Some ''https://example.com/h'', ob_subject = None, ob_template = None,
     ob_payload = [(''__transport_meta'', PDict [(''force_send'', PBool True)])], ob_dedupe_key = ''k'',
     ob_status = ''pending'', ob_attempts = 0, ob_max_attempts = 3, ob_next_attempt_at = 0, ob_last_error_code = None,
     ob_last_error_message = None, ob_created_at = 0, ob_updated_at = 0, ob_sent_at = None, ob_delivered_at = None \<rparr>"

definition example_world :: mail_world where
  "example_world = \<lparr> mw_rows = [example_outbox], mw_sched = [(0, ''o1'')], mw_now = 0 \<rparr>"

definition example_settings :: settings where
  "example_settings = \<lparr> st_email_provider_enabled = False, st_email_provider = [], st_resend_api_key = [],
     st_email_from_alerts = [], st_email_from_system = [], st_email_reply_to = [], st_feedback_report_email = [] \<rparr>"

definition hook_project :: project where
  "hook_project = \<lparr> pr_id = ''p1'', pr_name = ''demo'', pr_user_id = Some ''u1'', pr_created_at = 0,
     pr_protect_enabled = True, pr_protect_fail_mode = ''open'', pr_apply_clamp = False,
     pr_max_req_per_min = None, pr_max_tok_per_min = None, pr_webhook_enabled = True,
     pr_email_enabled = True, pr_webhook_url = None \<rparr>"

text \<open>A server that always times out, with or without a text in the exception.\<close>

definition timing_out :: "string \<Rightarrow> mail_world transport_job" where
  "timing_out message = mem_job (\<lambda>_. Inl (HttpxTimeout message)) (\<lambda>_. message) (Some hook_project) example_settings"

lemma example_world_ok: "distinct (map ob_id (mw_rows example_world))" "unique_rows (mw_rows example_world)"
  by (simp_all add: example_world_def unique_rows_def)

lemma timing_out_worker:
  "worker mem_outbox (\<lambda>w. distinct (map ob_id (mw_rows w))) mw_rows mem_new_id (timing_out message)
     mw_now mw_sched mem_advance"
  unfolding timing_out_def by (rule mw.worker_axioms)

lemmas timing_out_env = timing_out_worker [THEN worker.axioms(1)]

theorem job_refines_row_life_witness:
  "\<exists>s \<in> set (mw_rows (snd (process_outbox_delivery (timing_out ''timed out'') ''o1'' None example_world))).
     outbox_step\<^sup>*\<^sup>* example_outbox s"
proof -
  have "example_outbox \<in> set (mw_rows example_world)" by (simp add: example_world_def)
  then show ?thesis
    using job_refines_row_life [OF timing_out_env example_world_ok, of "''timed out''" "''o1''" None] by blast
qed



text \<open>
  C8: notifications come to an end. When every waiting row has a job that will not run before the
  row's next attempt, a worker that keeps taking jobs empties the queue in a number of steps known in
  advance, and then every row, the alerts about failed webhooks included, is delivered or dead. It is
  assumed that the database and the queue work and that exceptions have a text.
\<close>

theorem queue_drains:
  assumes "worker T ok rows new_id J now sched advance" "ok w" "unique_rows (rows w)"
    and "queue_inv (rows w) (sched w)" "\<forall>e. tj_exn_text J e \<noteq> []"
  shows "\<exists>n \<le> total_effort (rows w) (sched w). let w' = (work J sched advance ^^ n) w in
     sched w' = [] \<and> (\<forall>r \<in> set (rows w'). ob_status r \<in> {''delivered'', ''dead''} \<and> ob_attempts r \<le> ob_max_attempts r) \<and>
     ob_id ` set (rows w) \<subseteq> ob_id ` set (rows w')"
proof -
  have "delivery_env T ok rows new_id J now sched" using assms(1) by (rule worker.axioms(1))
  note ok = delivery_env.ok_of [OF this assms(2,3)]
  from worker.drains [OF assms(1) ok assms(4,5)] show ?thesis
    by (auto simp: Let_def finished_def row_inv_def)
qed

lemma example_queue: "queue_inv (mw_rows example_world) (mw_sched example_world)"
  "total_effort (mw_rows example_world) (mw_sched example_world) = 25"
  by (simp_all add: queue_inv_def example_world_def example_outbox_def row_inv_def waiting_def finished_def
      total_effort_def effort_def)

theorem queue_drains_witness:
  "\<exists>n \<le> 25. mw_sched ((work (timing_out ''timed out'') mw_sched mem_advance ^^ n) example_world) = []"
proof -
  have "\<forall>e. tj_exn_text (timing_out ''timed out'') e \<noteq> []" by (simp add: timing_out_def mem_job_def)
  from queue_drains [OF timing_out_worker example_world_ok example_queue(1) this]
  show ?thesis unfolding example_queue(2) by (auto simp: Let_def)
qed


lemma example_strands:
  "process_outbox_delivery (timing_out []) ''o1'' None example_world =
     (Inl IndexError, example_world\<lparr> mw_rows := [claimed 0 example_outbox] \<rparr>)"
  by code_simp


text \<open>
  Notifications with the same project, kind and dedupe key are sent once. The first enqueue adds one
  pending row and one job for it, or finds the row of an earlier one; repeating it returns the same row and
  changes neither the outbox nor the queue.
\<close>

theorem enqueue_dedupes:
  assumes "delivery_env T ok rows new_id J now sched" "ok w" "unique_rows (rows w)" "strip key \<noteq> []"
  shows "\<exists>i w1 w2. transport_enqueue (tj_transport J) p kind e pl key opts w = (Inr i, w1) \<and>
     transport_enqueue (tj_transport J) p kind e' pl' key opts' w1 = (Inr i, w2) \<and>
     rows w2 = rows w1 \<and> sched w2 = sched w1 \<and>
     (rows w1 = rows w \<and> sched w1 = sched w \<or>
      (\<exists>r due. rows w1 = rows w @ [r] \<and> ob_id r = i \<and> ob_status r = ''pending'' \<and> sched w1 = sched w @ [(due, i)] \<and>
         ob_next_attempt_at r \<le> due \<and> ob_kind r = kind \<and> ob_max_attempts r = max_attempts_of kind))"
  using delivery_env.enqueue_twice [OF assms(1) delivery_env.ok_of [OF assms(1-3)] assms(4)] .

theorem enqueue_dedupes_witness:
  "\<exists>i w1 w2. transport_enqueue mem_transport ''p1'' ''email'' ''incident.warn'' [] ''k1'' no_opts example_world = (Inr i, w1) \<and>
     transport_enqueue mem_transport ''p1'' ''email'' ''incident.warn'' [] ''k1'' no_opts w1 = (Inr i, w2) \<and>
     mw_rows w2 = mw_rows w1 \<and> mw_sched w2 = mw_sched w1"
proof -
  have "strip ''k1'' \<noteq> []" by code_simp
  from enqueue_dedupes [OF mw.delivery_env_axioms [of "\<lambda>_. Inr 200" "\<lambda>_. []" None example_settings]
      example_world_ok this, of "''p1''" "''email''" "''incident.warn''" "[]" no_opts "''incident.warn''" "[]" no_opts]
  show ?thesis by (auto simp: mem_job_def)
qed

end
