(* ===== verification/Auth_Service.thy ===== *)
theory Auth_Service
  imports Domain Db_Table Input_Validation
begin

text \<open>
  Accounts and browser sessions (\<open>app/application/services/auth_service.py\<close>, the repositories of users and
  refresh sessions, and the token helpers of \<open>app/security/jwt_tokens.py\<close>). A refresh token names a stored
  session; refreshing revokes it and stores its replacement in one transaction. The JWT library, bcrypt,
  \<open>uuid4\<close> and the clock are parameters.
\<close>

section \<open>Repositories\<close>

record refresh_session =
  rs_jti :: string
  rs_user_id :: string
  rs_created_at :: datetime
  rs_expires_at :: datetime
  rs_revoked_at :: "datetime option"
  rs_replaced_by_jti :: "string option"

record 'w user_repo =
  ur_get_by_id :: "string \<Rightarrow> ('w, user option) py"
  ur_get_by_email :: "string \<Rightarrow> ('w, user option) py"
  ur_create_user :: "user \<Rightarrow> ('w, user) py"

record 'w session_repo =
  sr_create_session :: "refresh_session \<Rightarrow> ('w, refresh_session) py"
  sr_get_by_jti :: "string \<Rightarrow> ('w, refresh_session option) py"
  sr_rotate_session :: "string \<Rightarrow> refresh_session \<Rightarrow> datetime \<Rightarrow> ('w, bool) py"
  sr_revoke_session :: "string \<Rightarrow> datetime \<Rightarrow> ('w, bool) py"

definition get_user_by_id :: "('w, user) db_table \<Rightarrow> string \<Rightarrow> ('w, user option) py" where
  "get_user_by_id T user_id = logged (bnd (db_select T (\<lambda>r. us_id r = user_id)) (\<lambda>records. ret (first_row records)))"

definition get_user_by_email :: "('w, user) db_table \<Rightarrow> string \<Rightarrow> ('w, user option) py" where
  "get_user_by_email T email = logged (bnd (db_select T (\<lambda>r. us_email r = email)) (\<lambda>records. ret (first_row records)))"

definition create_user :: "('w, user) db_table \<Rightarrow> user \<Rightarrow> ('w, user) py" where
  "create_user T u = logged (bnd (db_add T u) (\<lambda>_. ret u))"

definition UserRepositoryImpl :: "('w, user) db_table \<Rightarrow> 'w user_repo" where
  "UserRepositoryImpl T = \<lparr> ur_get_by_id = get_user_by_id T, ur_get_by_email = get_user_by_email T,
     ur_create_user = create_user T \<rparr>"

definition user_clash :: "user \<Rightarrow> user \<Rightarrow> bool" where
  "user_clash r x \<longleftrightarrow> us_id r = us_id x \<or> us_email r = us_email x"

definition create_session :: "('w, refresh_session) db_table \<Rightarrow> refresh_session \<Rightarrow> ('w, refresh_session) py" where
  "create_session T s = logged (bnd (db_add T s) (\<lambda>_. ret s))"

definition get_by_jti :: "('w, refresh_session) db_table \<Rightarrow> string \<Rightarrow> ('w, refresh_session option) py" where
  "get_by_jti T jti = logged (bnd (db_select T (\<lambda>r. rs_jti r = jti)) (\<lambda>records. ret (first_row records)))"

text \<open>\<open>clock\<close> is \<open>datetime.now(timezone.utc)\<close>; the update and the insertion are one transaction.\<close>

definition live_session :: "string \<Rightarrow> datetime \<Rightarrow> refresh_session \<Rightarrow> bool" where
  "live_session jti now s \<longleftrightarrow> rs_jti s = jti \<and> rs_revoked_at s = None \<and> rs_expires_at s > now"

definition rotate_session ::
  "('w, refresh_session) db_table \<Rightarrow> ('w, datetime) py \<Rightarrow> string \<Rightarrow> refresh_session \<Rightarrow> datetime \<Rightarrow> ('w, bool) py" where
  "rotate_session T clock current_jti replacement revoked_at =
     logged (transaction (bnd clock (\<lambda>now.
       bnd (db_select T (live_session current_jti now)) (\<lambda>records.
       if length records \<noteq> 1 then ret False
       else bnd (db_save T (map (\<lambda>r. r\<lparr> rs_revoked_at := Some revoked_at, rs_replaced_by_jti := Some (rs_jti replacement) \<rparr>) records)) (\<lambda>_.
            bnd (db_add T replacement) (\<lambda>_. ret True))))))"

definition revoke_session :: "('w, refresh_session) db_table \<Rightarrow> string \<Rightarrow> datetime \<Rightarrow> ('w, bool) py" where
  "revoke_session T jti revoked_at =
     logged (bnd (db_select T (\<lambda>r. rs_jti r = jti \<and> rs_revoked_at r = None)) (\<lambda>records.
       bnd (db_save T (map (\<lambda>r. r\<lparr> rs_revoked_at := Some revoked_at \<rparr>) records)) (\<lambda>_. ret (length records = 1))))"

definition RefreshSessionRepositoryImpl ::
  "('w, refresh_session) db_table \<Rightarrow> ('w, datetime) py \<Rightarrow> 'w session_repo" where
  "RefreshSessionRepositoryImpl T clock = \<lparr> sr_create_session = create_session T, sr_get_by_jti = get_by_jti T,
     sr_rotate_session = rotate_session T clock, sr_revoke_session = revoke_session T \<rparr>"

section \<open>Tokens\<close>

record auth_settings =
  as_jwt_secret :: string
  as_jwt_alg :: string
  as_jwt_expires_min :: int
  as_jwt_refresh_expires_min :: int

text \<open>\<open>au_jwt_decode\<close> answers \<open>None\<close> for a \<open>JWTError\<close>: a bad signature, an expired token, no token at all.\<close>

record 'w auth_service =
  au_users :: "'w user_repo"
  au_sessions :: "'w session_repo"
  au_settings :: auth_settings
  au_jwt_encode :: "pydict \<Rightarrow> string \<Rightarrow> string \<Rightarrow> ('w, string) py"
  au_jwt_decode :: "string \<Rightarrow> string \<Rightarrow> string \<Rightarrow> ('w, pydict option) py"
  au_hash_password :: "string \<Rightarrow> ('w, string) py"
  au_verify_password :: "string \<Rightarrow> string \<Rightarrow> ('w, bool) py"
  au_new_id :: "('w, string) py"
  au_clock :: "('w, datetime) py"

definition epoch_seconds :: "datetime \<Rightarrow> int" where
  "epoch_seconds t = py_trunc (timestamp t)"

definition minutes :: "int \<Rightarrow> int" where
  "minutes n = seconds (60 * n)"

definition create_access_token :: "'w auth_service \<Rightarrow> string \<Rightarrow> string \<Rightarrow> ('w, string) py" where
  "create_access_token A user_id email =
     bnd (au_clock A) (\<lambda>now.
     au_jwt_encode A [(''sub'', PStr user_id), (''email'', PStr email), (''typ'', PStr ''access''),
         (''iat'', PInt (epoch_seconds now)),
         (''exp'', PInt (epoch_seconds (now + minutes (as_jwt_expires_min (au_settings A)))))]
       (as_jwt_secret (au_settings A)) (as_jwt_alg (au_settings A)))"

definition create_refresh_token :: "'w auth_service \<Rightarrow> string \<Rightarrow> string \<Rightarrow> string \<Rightarrow> ('w, string) py" where
  "create_refresh_token A user_id email jti =
     bnd (au_clock A) (\<lambda>now.
     au_jwt_encode A [(''sub'', PStr user_id), (''email'', PStr email), (''typ'', PStr ''refresh''), (''jti'', PStr jti),
         (''iat'', PInt (epoch_seconds now)),
         (''exp'', PInt (epoch_seconds (now + minutes (as_jwt_refresh_expires_min (au_settings A)))))]
       (as_jwt_secret (au_settings A)) (as_jwt_alg (au_settings A)))"

definition normalized_token :: "string \<Rightarrow> string" where
  "normalized_token token = strip_char (CHR 39) (strip_char (CHR 34) (strip token))"

definition decode_access_token :: "'w auth_service \<Rightarrow> string \<Rightarrow> ('w, pydict option) py" where
  "decode_access_token A token =
     au_jwt_decode A (normalized_token token) (as_jwt_secret (au_settings A)) (as_jwt_alg (au_settings A))"

text \<open>\<open>str(payload.get(k) or default)\<close>.\<close>

definition claim_text :: "pydict \<Rightarrow> string \<Rightarrow> string \<Rightarrow> string" where
  "claim_text payload k default_text = (if truth (dget payload k) then py_str (dget payload k) else default_text)"

section \<open>The service\<close>

text \<open>\<open>str.isupper\<close> and \<open>str.isdigit\<close> of a code point below 256; the superscripts count as digits.\<close>

definition is_upper :: "char \<Rightarrow> bool" where
  "is_upper c \<longleftrightarrow> (let n = of_char c :: int in 65 \<le> n \<and> n \<le> 90 \<or> 192 \<le> n \<and> n \<le> 222 \<and> n \<noteq> 215)"

definition is_digit_text :: "char \<Rightarrow> bool" where
  "is_digit_text c \<longleftrightarrow> is_digit c \<or> (of_char c :: int) \<in> {178, 179, 185}"

definition validate_password :: "string \<Rightarrow> exn + unit" where
  "validate_password password =
     (if length password < 8 then Inl (HTTPException 400 ''password must be at least 8 characters'')
      else if \<not> list_ex is_upper password then Inl (HTTPException 400 ''password must include an uppercase letter'')
      else if \<not> list_ex is_digit_text password then Inl (HTTPException 400 ''password must include a number'')
      else Inr ())"

definition register_user :: "'w auth_service \<Rightarrow> string \<Rightarrow> string \<Rightarrow> ('w, user) py" where
  "register_user A email password =
     bnd (py_raise_sum (sanitize_email email)) (\<lambda>normalized_email.
     bnd (py_raise_sum (validate_password password)) (\<lambda>_.
     bnd (ur_get_by_email (au_users A) normalized_email) (\<lambda>existing.
     if existing \<noteq> None then raise (HTTPException 409 ''email already exists'')
     else bnd (au_new_id A) (\<lambda>i. bnd (au_hash_password A password) (\<lambda>h. bnd (au_clock A) (\<lambda>now.
       ur_create_user (au_users A) \<lparr> us_id = i, us_email = normalized_email, us_password_hash = h,
         us_created_at = now \<rparr>))))))"

definition build_refresh_session :: "'w auth_service \<Rightarrow> string \<Rightarrow> ('w, refresh_session) py" where
  "build_refresh_session A user_id =
     bnd (au_clock A) (\<lambda>issued_at.
     let expires_at = issued_at + minutes (as_jwt_refresh_expires_min (au_settings A)) in
     bnd (au_new_id A) (\<lambda>jti.
     ret \<lparr> rs_jti = jti, rs_user_id = user_id, rs_created_at = issued_at, rs_expires_at = expires_at,
           rs_revoked_at = None, rs_replaced_by_jti = None \<rparr>))"

definition login_user :: "'w auth_service \<Rightarrow> string \<Rightarrow> string \<Rightarrow> ('w, string \<times> string \<times> user) py" where
  "login_user A email password =
     bnd (py_raise_sum (sanitize_email email)) (\<lambda>normalized_email.
     bnd (ur_get_by_email (au_users A) normalized_email) (\<lambda>found. case found of
       None \<Rightarrow> raise (HTTPException 401 ''invalid credentials'')
     | Some u \<Rightarrow> bnd (au_verify_password A password (us_password_hash u)) (\<lambda>good.
         if \<not> good then raise (HTTPException 401 ''invalid credentials'')
         else bnd (create_access_token A (us_id u) (us_email u)) (\<lambda>access_token.
              bnd (build_refresh_session A (us_id u)) (\<lambda>session.
              bnd (create_refresh_token A (us_id u) (us_email u) (rs_jti session)) (\<lambda>refresh_token.
              bnd (sr_create_session (au_sessions A) session) (\<lambda>_.
              ret (access_token, refresh_token, u))))))))"

abbreviation bad_refresh :: exn where
  "bad_refresh \<equiv> HTTPException 401 ''invalid refresh token''"

text \<open>The user and the session id a valid refresh token stands for.\<close>

definition check_refresh_token :: "'w auth_service \<Rightarrow> string \<Rightarrow> ('w, user \<times> string) py" where
  "check_refresh_token A refresh_token =
     bnd (decode_access_token A refresh_token) (\<lambda>decoded. case decoded of
       None \<Rightarrow> raise bad_refresh
     | Some payload \<Rightarrow>
         if claim_text payload ''typ'' [] \<noteq> ''refresh'' then raise bad_refresh
         else let user_id = claim_text payload ''sub'' []; current_jti = claim_text payload ''jti'' [] in
           if user_id = [] then raise bad_refresh
           else if current_jti = [] then raise bad_refresh
           else bnd (ur_get_by_id (au_users A) user_id) (\<lambda>found. case found of
             None \<Rightarrow> raise bad_refresh
           | Some u \<Rightarrow> bnd (sr_get_by_jti (au_sessions A) current_jti) (\<lambda>current. case current of
               None \<Rightarrow> raise bad_refresh
             | Some s \<Rightarrow> if rs_user_id s \<noteq> us_id u \<or> rs_revoked_at s \<noteq> None then raise bad_refresh
                         else ret (u, current_jti))))"

text \<open>What remains after the check: new tokens, and the session replaced.\<close>

definition rotate_tokens :: "'w auth_service \<Rightarrow> user \<Rightarrow> string \<Rightarrow> ('w, string \<times> string \<times> user) py" where
  "rotate_tokens A u current_jti =
     bnd (create_access_token A (us_id u) (us_email u)) (\<lambda>access_token.
     bnd (build_refresh_session A (us_id u)) (\<lambda>next_session.
     bnd (create_refresh_token A (us_id u) (us_email u) (rs_jti next_session)) (\<lambda>next_refresh_token.
     bnd (au_clock A) (\<lambda>now.
     bnd (sr_rotate_session (au_sessions A) current_jti next_session now) (\<lambda>rotated.
     if \<not> rotated then raise bad_refresh else ret (access_token, next_refresh_token, u))))))"

definition refresh_tokens :: "'w auth_service \<Rightarrow> string \<Rightarrow> ('w, string \<times> string \<times> user) py" where
  "refresh_tokens A refresh_token =
     bnd (check_refresh_token A refresh_token) (\<lambda>(u, current_jti). rotate_tokens A u current_jti)"

definition logout_user :: "'w auth_service \<Rightarrow> string option \<Rightarrow> ('w, unit) py" where
  "logout_user A refresh_token =
     (if \<not> truthy refresh_token then ret ()
      else bnd (decode_access_token A (the refresh_token)) (\<lambda>decoded. case decoded of
        None \<Rightarrow> ret ()
      | Some payload \<Rightarrow>
          if claim_text payload ''typ'' [] \<noteq> ''refresh'' then ret ()
          else let current_jti = claim_text payload ''jti'' [] in
            if current_jti = [] then ret ()
            else bnd (au_clock A) (\<lambda>now.
                 bnd (sr_revoke_session (au_sessions A) current_jti now) (\<lambda>_. ret ()))))"

text \<open>\<open>get_current_user\<close> of \<open>app/dependencies.py\<close>: the user of an access token; a token without a type counts.\<close>

definition current_user :: "'w auth_service \<Rightarrow> string option \<Rightarrow> ('w, user) py" where
  "current_user A access_token =
     (if \<not> truthy access_token then raise (HTTPException 401 ''not authenticated'')
      else bnd (decode_access_token A (the access_token)) (\<lambda>decoded. case decoded of
        None \<Rightarrow> raise (HTTPException 401 ''invalid token'')
      | Some payload \<Rightarrow>
          if claim_text payload ''typ'' ''access'' \<noteq> ''access'' then raise (HTTPException 401 ''invalid token'')
          else let user_id = claim_text payload ''sub'' [] in
            if user_id = [] then raise (HTTPException 401 ''invalid token'')
            else bnd (ur_get_by_id (au_users A) user_id) (\<lambda>found. case found of
              None \<Rightarrow> raise (HTTPException 401 ''invalid token'') | Some u \<Rightarrow> ret u)))"

end
