(* ===== verification/Auth_Facts.thy ===== *)
theory Auth_Facts
  imports Auth_Service
begin

text \<open>
  What accounts and sessions promise: a refresh token is good for one refresh, by replay and by race, a
  logout ends its session, and who registered can log in with the password and nothing else. The contract
  of the session repository is \<open>session_store\<close>, kept by the implementation on any table.
\<close>

section \<open>The contract of the session repository\<close>

definition replaced :: "string \<Rightarrow> datetime \<Rightarrow> string \<Rightarrow> refresh_session \<Rightarrow> refresh_session" where
  "replaced j t n s = (if rs_jti s = j then s\<lparr> rs_revoked_at := Some t, rs_replaced_by_jti := Some n \<rparr> else s)"

definition ended :: "string \<Rightarrow> datetime \<Rightarrow> refresh_session \<Rightarrow> refresh_session" where
  "ended j t s = (if rs_jti s = j \<and> rs_revoked_at s = None then s\<lparr> rs_revoked_at := Some t \<rparr> else s)"

text \<open>\<open>now w\<close> is the time the server reads in world \<open>w\<close>.\<close>

locale session_store =
  fixes R :: "'w session_repo" and ok :: "'w \<Rightarrow> bool" and sess :: "'w \<Rightarrow> refresh_session list" and now :: "'w \<Rightarrow> datetime"
  assumes create: "ok w \<Longrightarrow> rs_jti s \<notin> rs_jti ` set (sess w) \<Longrightarrow>
      \<exists>w'. sr_create_session R s w = (Inr s, w') \<and> ok w' \<and> sess w' = sess w @ [s]"
    and by_jti: "ok w \<Longrightarrow> sr_get_by_jti R j w = (Inr (find (\<lambda>s. rs_jti s = j) (sess w)), w)"
    and rotate_live: "ok w \<Longrightarrow> \<exists>s \<in> set (sess w). live_session j (now w) s \<Longrightarrow> rs_jti n \<notin> rs_jti ` set (sess w) \<Longrightarrow>
      \<exists>w'. sr_rotate_session R j n t w = (Inr True, w') \<and> ok w' \<and>
        sess w' = map (replaced j t (rs_jti n)) (sess w) @ [n]"
    and rotate_dead: "ok w \<Longrightarrow> \<forall>s \<in> set (sess w). \<not> live_session j (now w) s \<Longrightarrow>
      sr_rotate_session R j n t w = (Inr False, w)"
    and revoke: "ok w \<Longrightarrow>
      \<exists>b w'. sr_revoke_session R j t w = (Inr b, w') \<and> ok w' \<and> sess w' = map (ended j t) (sess w)"
    and jtis: "ok w \<Longrightarrow> distinct (map rs_jti (sess w))"

lemma first_row_filter: "first_row (filter P xs) = find P xs"
  by (induction xs) (simp_all add: first_row_def)

locale session_db = db_contract T ok sess rs_jti "\<lambda>r x. rs_jti r = rs_jti x"
  for T :: "('w, refresh_session) db_table" and ok sess +
  fixes clock :: "('w, datetime) py" and now :: "'w \<Rightarrow> datetime"
  assumes clock: "clock w = (Inr (now w), w)"
begin

lemma live_rows:
  assumes "ok w" "s \<in> set (sess w)" "live_session j t s"
  shows "filter (live_session j t) (sess w) = [s]"
proof -
  have "filter (live_session j t) (sess w) =
      filter (\<lambda>x. rs_jti x = rs_jti s \<and> (rs_revoked_at x = None \<and> t < rs_expires_at x)) (sess w)"
    using assms(3) by (intro filter_cong) (auto simp: live_session_def)
  then show ?thesis
    using filter_key [OF distinct_keys [OF assms(1)] assms(2)] assms(3) by (simp add: live_session_def)
qed

lemma rotate_run:
  assumes "ok w" "s \<in> set (sess w)" "live_session j (now w) s" "rs_jti n \<notin> rs_jti ` set (sess w)"
  shows "\<exists>w'. rotate_session T clock j n t w = (Inr True, w') \<and> ok w' \<and>
    sess w' = map (replaced j t (rs_jti n)) (sess w) @ [n]"
proof -
  let ?s = "s\<lparr> rs_revoked_at := Some t, rs_replaced_by_jti := Some (rs_jti n) \<rparr>"
  have j: "rs_jti s = j" using assms(3) by (simp add: live_session_def)
  from save [OF assms(1), of "[?s]"] obtain w1 where 1: "db_save T [?s] w = (Inr (), w1)" "ok w1"
    "sess w1 = map (\<lambda>x. if rs_jti x = j then ?s else x) (sess w)" by (auto simp: replace_one j)
  have "x = s" if "x \<in> set (sess w)" "rs_jti x = j" for x
    using that assms(2) distinct_keys [OF assms(1)] j by (auto simp: distinct_map inj_on_def)
  then have eq: "sess w1 = map (replaced j t (rs_jti n)) (sess w)" by (auto simp: 1(3) replaced_def)
  have "rs_jti x \<in> rs_jti ` set (sess w)" if "x \<in> set (sess w1)" for x
    using that by (auto simp: eq replaced_def)
  then have "\<forall>x \<in> set (sess w1). rs_jti n \<noteq> rs_jti x" using assms(4) by metis
  from add_new [OF 1(2) this] obtain w2 where 2: "db_add T n w1 = (Inr (), w2)" "ok w2" "sess w2 = sess w1 @ [n]" by blast
  show ?thesis
    using 1(1) 2 live_rows [OF assms(1-3)] clock [of w] eq
    by (intro exI [of _ w2]) (simp add: rotate_session_def transaction_def bnd_def select [OF assms(1)])
qed

lemma revoke_run:
  assumes "ok w"
  shows "\<exists>b w'. revoke_session T j t w = (Inr b, w') \<and> ok w' \<and> sess w' = map (ended j t) (sess w)"
proof -
  let ?P = "\<lambda>r. rs_jti r = j \<and> rs_revoked_at r = None" and ?g = "\<lambda>r. r\<lparr> rs_revoked_at := Some t \<rparr>"
  from save [OF assms, of "map ?g (filter ?P (sess w))"] obtain w1 where
    "db_save T (map ?g (filter ?P (sess w))) w = (Inr (), w1)" "ok w1"
    "sess w1 = map (\<lambda>x. if ?P x then ?g x else x) (sess w)"
    using replace_selected [of rs_jti ?g "sess w" ?P, OF _ distinct_keys [OF assms]] by auto
  then show ?thesis
    by (intro exI [of _ "length (filter ?P (sess w)) = 1"] exI [of _ w1])
      (simp add: revoke_session_def bnd_def select [OF assms] ended_def)
qed

lemma by_jti_run: "ok w \<Longrightarrow> get_by_jti T j w = (Inr (find (\<lambda>s. rs_jti s = j) (sess w)), w)"
  by (simp add: get_by_jti_def bnd_def select first_row_filter)

end

sublocale session_db \<subseteq> store: session_store "RefreshSessionRepositoryImpl T clock" ok sess now
proof (unfold_locales, unfold RefreshSessionRepositoryImpl_def session_repo.simps, goal_cases)
  case (1 w s)
  then show ?case using add_new [of w s] by (force simp: create_session_def)
next
  case 2
  then show ?case by (rule by_jti_run)
next
  case 3
  then show ?case using rotate_run by blast
next
  case (4 w j n t)
  then have "filter (live_session j (now w)) (sess w) = []" by (simp add: filter_empty_conv)
  then show ?case using 4(1) clock [of w] by (simp add: rotate_session_def transaction_def bnd_def select)
next
  case 5
  then show ?case by (rule revoke_run)
next
  case 6
  then show ?case by (rule distinct_keys)
qed

section \<open>The contract of the user repository\<close>

locale user_store =
  fixes R :: "'w user_repo" and ok :: "'w \<Rightarrow> bool" and users :: "'w \<Rightarrow> user list"
  assumes create: "ok w \<Longrightarrow> \<forall>x \<in> set (users w). \<not> user_clash u x \<Longrightarrow>
      \<exists>w'. ur_create_user R u w = (Inr u, w') \<and> ok w' \<and> users w' = users w @ [u]"
    and by_email: "ok w \<Longrightarrow> ur_get_by_email R e w = (Inr (find (\<lambda>u. us_email u = e) (users w)), w)"
    and by_id: "ok w \<Longrightarrow> ur_get_by_id R i w = (Inr (find (\<lambda>u. us_id u = i) (users w)), w)"

locale user_db = db_contract T ok users us_id user_clash for T :: "('w, user) db_table" and ok users

sublocale user_db \<subseteq> accounts: user_store "UserRepositoryImpl T" ok users
proof (unfold_locales, unfold UserRepositoryImpl_def user_repo.simps, goal_cases)
  case (1 w u)
  then show ?case using add_new [of w u] by (force simp: create_user_def)
next
  case (2 w e)
  then show ?case by (simp add: get_user_by_email_def bnd_def select first_row_filter)
next
  case (3 w i)
  then show ?case by (simp add: get_user_by_id_def bnd_def select first_row_filter)
qed

section \<open>Refreshing\<close>

definition auth_view :: "('w \<Rightarrow> bool) \<Rightarrow> ('w \<Rightarrow> user list) \<Rightarrow> ('w \<Rightarrow> refresh_session list) \<Rightarrow> 'w \<Rightarrow> bool \<times> user list \<times> refresh_session list" where
  "auth_view ok users sess w = (ok w, users w, sess w)"

text \<open>Signing, the clock and fresh ids answer and leave the accounts and the sessions alone.\<close>

definition auth_env :: "('w \<Rightarrow> bool) \<Rightarrow> ('w \<Rightarrow> user list) \<Rightarrow> ('w \<Rightarrow> refresh_session list) \<Rightarrow> 'w auth_service \<Rightarrow> bool" where
  "auth_env ok users sess A \<longleftrightarrow>
     (\<forall>p k a. never_raises (au_jwt_encode A p k a) \<and> frame (auth_view ok users sess) (au_jwt_encode A p k a)) \<and>
     never_raises (au_clock A) \<and> frame (auth_view ok users sess) (au_clock A) \<and>
     (\<forall>w. ok w \<longrightarrow> (\<exists>i w'. au_new_id A w = (Inr i, w') \<and> auth_view ok users sess w' = auth_view ok users sess w \<and>
        i \<notin> rs_jti ` set (sess w) \<and> i \<notin> us_id ` set (users w)))"

lemma view_run:
  assumes "never_raises m" "frame v m"
  obtains a w' where "m w = (Inr a, w')" "v w' = v w"
  using assms by (metis frameD never_raisesE)

lemma access_token_run:
  assumes "auth_env ok users sess A"
  obtains a w' where "create_access_token A i e w = (Inr a, w')" "auth_view ok users sess w' = auth_view ok users sess w"
proof -
  have "never_raises (create_access_token A i e)" "frame (auth_view ok users sess) (create_access_token A i e)"
    using assms by (auto simp: create_access_token_def auth_env_def intro!: never_raises_bnd frame_bnd)
  from view_run [OF this, of w] that show thesis .
qed

lemma refresh_token_run:
  assumes "auth_env ok users sess A"
  obtains a w' where "create_refresh_token A i e j w = (Inr a, w')" "auth_view ok users sess w' = auth_view ok users sess w"
proof -
  have "never_raises (create_refresh_token A i e j)" "frame (auth_view ok users sess) (create_refresh_token A i e j)"
    using assms by (auto simp: create_refresh_token_def auth_env_def intro!: never_raises_bnd frame_bnd)
  from view_run [OF this, of w] that show thesis .
qed

lemma clock_run:
  assumes "auth_env ok users sess A"
  obtains t w' where "au_clock A w = (Inr t, w')" "auth_view ok users sess w' = auth_view ok users sess w"
proof -
  have "never_raises (au_clock A)" "frame (auth_view ok users sess) (au_clock A)"
    using assms by (simp_all add: auth_env_def)
  from view_run [OF this, of w] that show thesis .
qed

lemma fresh_id:
  assumes "auth_env ok users sess A" "ok w"
  obtains i w' where "au_new_id A w = (Inr i, w')" "auth_view ok users sess w' = auth_view ok users sess w"
    "i \<notin> rs_jti ` set (sess w)" "i \<notin> us_id ` set (users w)"
proof -
  have "\<forall>w. ok w \<longrightarrow> (\<exists>i w'. au_new_id A w = (Inr i, w') \<and> auth_view ok users sess w' = auth_view ok users sess w \<and>
      i \<notin> rs_jti ` set (sess w) \<and> i \<notin> us_id ` set (users w))" using assms(1) by (simp add: auth_env_def)
  then show thesis using that assms(2) by blast
qed

lemma build_session_run:
  assumes "auth_env ok users sess A" "ok w"
  obtains n w' where "build_refresh_session A u w = (Inr n, w')" "auth_view ok users sess w' = auth_view ok users sess w"
    "rs_jti n \<notin> rs_jti ` set (sess w)" "rs_user_id n = u" "rs_revoked_at n = None"
proof -
  obtain t w1 where 1: "au_clock A w = (Inr t, w1)" "auth_view ok users sess w1 = auth_view ok users sess w"
    using clock_run [OF assms(1)] .
  then have ok1: "ok w1" "sess w1 = sess w" using assms(2) by (simp_all add: auth_view_def)
  obtain i w2 where 2: "au_new_id A w1 = (Inr i, w2)" "auth_view ok users sess w2 = auth_view ok users sess w1"
    "i \<notin> rs_jti ` set (sess w1)" "i \<notin> us_id ` set (users w1)" using fresh_id [OF assms(1) ok1(1)] .
  show thesis
    by (rule that [of "\<lparr> rs_jti = i, rs_user_id = u, rs_created_at = t,
        rs_expires_at = t + minutes (as_jwt_refresh_expires_min (au_settings A)), rs_revoked_at = None,
        rs_replaced_by_jti = None \<rparr>" w2])
      (use 1 2 ok1(2) in \<open>simp_all add: build_refresh_session_def bnd_def Let_def\<close>)
qed

lemma rotate_tokens_run:
  assumes "auth_env ok users sess A" "ok w"
  obtains a r n t w' where
    "rotate_tokens A u j w = bnd (sr_rotate_session (au_sessions A) j n t)
       (\<lambda>rotated. if \<not> rotated then raise bad_refresh else ret (a, r, u)) w'"
    "ok w'" "sess w' = sess w" "rs_jti n \<notin> rs_jti ` set (sess w)" "rs_user_id n = us_id u" "rs_revoked_at n = None"
proof -
  obtain a w1 where 1: "create_access_token A (us_id u) (us_email u) w = (Inr a, w1)"
    "auth_view ok users sess w1 = auth_view ok users sess w" using access_token_run [OF assms(1)] .
  then have ok1: "ok w1" "sess w1 = sess w" using assms(2) by (simp_all add: auth_view_def)
  obtain n w2 where 2: "build_refresh_session A (us_id u) w1 = (Inr n, w2)"
    "auth_view ok users sess w2 = auth_view ok users sess w1" "rs_jti n \<notin> rs_jti ` set (sess w1)" "rs_user_id n = us_id u"
    "rs_revoked_at n = None" using build_session_run [OF assms(1) ok1(1)] .
  obtain r w3 where 3: "create_refresh_token A (us_id u) (us_email u) (rs_jti n) w2 = (Inr r, w3)"
    "auth_view ok users sess w3 = auth_view ok users sess w2" using refresh_token_run [OF assms(1)] .
  obtain t w4 where 4: "au_clock A w3 = (Inr t, w4)" "auth_view ok users sess w4 = auth_view ok users sess w3"
    using clock_run [OF assms(1)] .
  have "ok w4" "sess w4 = sess w" using 1(2) 2(2) 3(2) 4(2) assms(2) by (simp_all add: auth_view_def)
  then show thesis
    using that [of n t a r w4] 1(1) 2 3(1) 4(1) ok1(2) by (simp add: rotate_tokens_def bnd_def)
qed

text \<open>A token that decodes to the claims of a refresh token of user \<open>u\<close> and session \<open>j\<close>.\<close>

definition token_of :: "'w auth_service \<Rightarrow> ('w \<Rightarrow> bool) \<Rightarrow> string \<Rightarrow> user \<Rightarrow> string \<Rightarrow> bool" where
  "token_of A ok tok u j \<longleftrightarrow> us_id u \<noteq> [] \<and> j \<noteq> [] \<and>
     (\<forall>w. ok w \<longrightarrow> ur_get_by_id (au_users A) (us_id u) w = (Inr (Some u), w) \<and>
       (\<exists>payload. decode_access_token A tok w = (Inr (Some payload), w) \<and> dget payload ''typ'' = PStr ''refresh'' \<and>
         dget payload ''sub'' = PStr (us_id u) \<and> dget payload ''jti'' = PStr j))"

lemma check_run:
  assumes "session_store (au_sessions A) ok sess now" "token_of A ok tok u j" "ok w" "s \<in> set (sess w)" "rs_jti s = j"
  shows "check_refresh_token A tok w =
     (if rs_user_id s \<noteq> us_id u \<or> rs_revoked_at s \<noteq> None then Inl bad_refresh else Inr (u, j), w)"
proof -
  obtain payload where p: "decode_access_token A tok w = (Inr (Some payload), w)" "dget payload ''typ'' = PStr ''refresh''"
    "dget payload ''sub'' = PStr (us_id u)" "dget payload ''jti'' = PStr j" "us_id u \<noteq> []" "j \<noteq> []"
    "ur_get_by_id (au_users A) (us_id u) w = (Inr (Some u), w)"
    using assms(2,3) unfolding token_of_def by blast
  have "find (\<lambda>s. rs_jti s = j) (sess w) = Some s"
  proof (cases "find (\<lambda>s. rs_jti s = j) (sess w)")
    case None
    then show ?thesis using assms(4,5) by (auto simp: find_None_iff)
  next
    case (Some x)
    then have "x \<in> set (sess w)" "rs_jti x = rs_jti s" using assms(5) by (auto simp: find_Some_iff)
    then show ?thesis using Some assms(4) session_store.jtis [OF assms(1,3)] by (auto simp: distinct_map inj_on_def)
  qed
  then show ?thesis
    using p session_store.by_jti [OF assms(1,3), of j]
    by (simp add: check_refresh_token_def bnd_def claim_text_def Let_def)
qed

text \<open>
  C33: a refresh token is good for one refresh. The refresh revokes its session in favour of a fresh one of
  the same user, in one step; afterwards the token is refused and changes nothing, and of two requests
  that both found the session intact the second is refused when it comes to the exchange, so that one
  session never has two successors. The token is taken to be valid and its session not to expire meanwhile.
\<close>

theorem refresh_single_use:
  assumes "session_store (au_sessions A) ok sess now" "auth_env ok users sess A" "token_of A ok tok u j" "ok w"
    and "s \<in> set (sess w)" "rs_jti s = j" "rs_user_id s = us_id u" "rs_revoked_at s = None"
    and "\<forall>x. ok x \<longrightarrow> now x < rs_expires_at s"
  shows "\<exists>a r n t w'. refresh_tokens A tok w = (Inr (a, r, u), w') \<and> ok w' \<and>
     sess w' = map (replaced j t (rs_jti n)) (sess w) @ [n] \<and> rs_jti n \<notin> rs_jti ` set (sess w) \<and>
     rs_user_id n = us_id u \<and> rs_revoked_at n = None \<and>
     refresh_tokens A tok w' = (Inl bad_refresh, w') \<and>
     (\<exists>w''. rotate_tokens A u j w' = (Inl bad_refresh, w'') \<and> sess w'' = sess w')"
proof -
  note store = assms(1)
  have check: "check_refresh_token A tok w = (Inr (u, j), w)"
    using check_run [OF store assms(3-6)] assms(7,8) by simp
  obtain a r n t w1 where 1: "rotate_tokens A u j w = bnd (sr_rotate_session (au_sessions A) j n t)
       (\<lambda>rotated. if \<not> rotated then raise bad_refresh else ret (a, r, u)) w1"
    "ok w1" "sess w1 = sess w" "rs_jti n \<notin> rs_jti ` set (sess w)" "rs_user_id n = us_id u" "rs_revoked_at n = None"
    using rotate_tokens_run [OF assms(2,4)] .
  have live: "\<exists>s \<in> set (sess w1). live_session j (now w1) s"
    using assms(5,6,8,9) 1(2,3) by (auto simp: live_session_def)
  have "rs_jti n \<notin> rs_jti ` set (sess w1)" using 1(3,4) by simp
  from session_store.rotate_live [OF store 1(2) live this, of t, unfolded 1(3)] obtain w2 where
    2: "sr_rotate_session (au_sessions A) j n t w1 = (Inr True, w2)" "ok w2"
      "sess w2 = map (replaced j t (rs_jti n)) (sess w) @ [n]" by blast
  have known: "j \<in> rs_jti ` set (sess w)" using assms(5,6) by blast
  have dead: "rs_revoked_at x \<noteq> None" if x: "x \<in> set (sess w2)" "rs_jti x = j" for x
  proof -
    consider y where "x = replaced j t (rs_jti n) y" | "x = n" using x(1) unfolding 2(3) by auto
    then show ?thesis
    proof cases
      case 1
      then show ?thesis using x(2) by (simp add: replaced_def split: if_splits)
    next
      case 2
      then show ?thesis using x(2) known 1(4) by simp
    qed
  qed
  have s2: "replaced j t (rs_jti n) s \<in> set (sess w2)" "rs_jti (replaced j t (rs_jti n) s) = j"
    using assms(5,6) by (auto simp: 2(3) replaced_def)
  have replay: "refresh_tokens A tok w2 = (Inl bad_refresh, w2)"
    using check_run [OF store assms(3) 2(2) s2] dead [OF s2] s2(2) by (simp add: refresh_tokens_def bnd_def)
  obtain a' r' n' t' w3 where 3: "rotate_tokens A u j w2 = bnd (sr_rotate_session (au_sessions A) j n' t')
       (\<lambda>rotated. if \<not> rotated then raise bad_refresh else ret (a', r', u)) w3" "ok w3" "sess w3 = sess w2"
      "rs_jti n' \<notin> rs_jti ` set (sess w2)" "rs_user_id n' = us_id u" "rs_revoked_at n' = None"
    using rotate_tokens_run [OF assms(2) 2(2)] .
  have "\<forall>x \<in> set (sess w3). \<not> live_session j (now w3) x" using dead 3(3) by (auto simp: live_session_def)
  then have lost: "rotate_tokens A u j w2 = (Inl bad_refresh, w3)"
    using 3(1) session_store.rotate_dead [OF store 3(2)] by (simp add: bnd_def)
  have "refresh_tokens A tok w = (Inr (a, r, u), w2)"
    using check 1(1) 2(1) by (simp add: refresh_tokens_def bnd_def)
  then show ?thesis using 1(4-6) 2(2,3) 3(3) replay lost by blast
qed

text \<open>
  C34: a logout ends its session. After it, the refresh token of the session is refused, and no other
  session is touched; logging out a second time changes nothing.
\<close>

theorem logout_ends_session:
  assumes "session_store (au_sessions A) ok sess now" "auth_env ok users sess A" "token_of A ok tok u j" "ok w" "tok \<noteq> []"
    and "s \<in> set (sess w)" "rs_jti s = j"
  shows "\<exists>t w'. logout_user A (Some tok) w = (Inr (), w') \<and> ok w' \<and> sess w' = map (ended j t) (sess w) \<and>
     refresh_tokens A tok w' = (Inl bad_refresh, w') \<and>
     (\<exists>w''. logout_user A (Some tok) w' = (Inr (), w'') \<and> sess w'' = sess w')"
proof -
  note store = assms(1)
  have run: "\<exists>t w'. logout_user A (Some tok) x = (Inr (), w') \<and> ok w' \<and> sess w' = map (ended j t) (sess x)" if x: "ok x" for x
  proof -
    obtain payload where p: "decode_access_token A tok x = (Inr (Some payload), x)" "dget payload ''typ'' = PStr ''refresh''"
      "dget payload ''jti'' = PStr j" "j \<noteq> []" using assms(3) x unfolding token_of_def by blast
    obtain t w1 where 1: "au_clock A x = (Inr t, w1)" "auth_view ok users sess w1 = auth_view ok users sess x"
      using clock_run [OF assms(2)] .
    then have "ok w1" "sess w1 = sess x" using x by (simp_all add: auth_view_def)
    with session_store.revoke [OF store this(1), of j t] obtain b w2 where
      "sr_revoke_session (au_sessions A) j t w1 = (Inr b, w2)" "ok w2" "sess w2 = map (ended j t) (sess x)" by auto
    then show ?thesis using p 1(1) assms(5)
      by (intro exI [of _ t] exI [of _ w2]) (simp add: logout_user_def truthy_def bnd_def claim_text_def Let_def)
  qed
  obtain t w' where 1: "logout_user A (Some tok) w = (Inr (), w')" "ok w'" "sess w' = map (ended j t) (sess w)"
    using run [OF assms(4)] by blast
  obtain t' w'' where 2: "logout_user A (Some tok) w' = (Inr (), w'')" "sess w'' = map (ended j t') (sess w')"
    using run [OF 1(2)] by blast
  have "ended j t' (ended j t x) = ended j t x" for x by (simp add: ended_def)
  then have "sess w'' = sess w'" by (simp add: 2(2) 1(3))
  moreover have "ended j t s \<in> set (sess w')" "rs_jti (ended j t s) = j" "rs_revoked_at (ended j t s) \<noteq> None"
    using assms(6,7) by (auto simp: 1(3) ended_def)
  then have "refresh_tokens A tok w' = (Inl bad_refresh, w')"
    using check_run [OF store assms(3) 1(2)] by (simp add: refresh_tokens_def bnd_def)
  ultimately show ?thesis using 1 2(1) by blast
qed

section \<open>Accounts\<close>

lemma find_new: "\<forall>x \<in> set xs. \<not> P x \<Longrightarrow> P u \<Longrightarrow> find P (xs @ [u]) = Some u"
  by (induction xs) simp_all

text \<open>Hashing answers with a hash the password matches; checking a password is the test \<open>matches\<close>.\<close>

definition password_env ::
  "('w \<Rightarrow> bool) \<Rightarrow> ('w \<Rightarrow> user list) \<Rightarrow> ('w \<Rightarrow> refresh_session list) \<Rightarrow> (string \<Rightarrow> string \<Rightarrow> bool) \<Rightarrow> 'w auth_service \<Rightarrow> bool" where
  "password_env ok users sess matches A \<longleftrightarrow>
     (\<forall>p w. \<exists>h w'. au_hash_password A p w = (Inr h, w') \<and> auth_view ok users sess w' = auth_view ok users sess w \<and> matches p h) \<and>
     (\<forall>p h w. au_verify_password A p h w = (Inr (matches p h), w))"

lemma hash_run:
  assumes "password_env ok users sess matches A"
  obtains h w' where "au_hash_password A p w = (Inr h, w')" "auth_view ok users sess w' = auth_view ok users sess w" "matches p h"
  using assms unfolding password_env_def by blast

lemma verify_run: "password_env ok users sess matches A \<Longrightarrow> au_verify_password A p h w = (Inr (matches p h), w)"
  by (simp add: password_env_def)

lemma login_run:
  assumes "session_store (au_sessions A) ok sess now" "auth_env ok users sess A" "ok w"
    and "sanitize_email email = Inr e" "ur_get_by_email (au_users A) e w = (Inr (Some u), w)"
    and "au_verify_password A p (us_password_hash u) w = (Inr True, w)"
  obtains a r n w' where "login_user A email p w = (Inr (a, r, u), w')" "ok w'" "sess w' = sess w @ [n]"
    "rs_user_id n = us_id u" "rs_revoked_at n = None" "rs_jti n \<notin> rs_jti ` set (sess w)"
proof -
  obtain a w1 where 1: "create_access_token A (us_id u) (us_email u) w = (Inr a, w1)"
    "auth_view ok users sess w1 = auth_view ok users sess w" using access_token_run [OF assms(2)] .
  then have ok1: "ok w1" "sess w1 = sess w" using assms(3) by (simp_all add: auth_view_def)
  obtain n w2 where 2: "build_refresh_session A (us_id u) w1 = (Inr n, w2)"
    "auth_view ok users sess w2 = auth_view ok users sess w1" "rs_jti n \<notin> rs_jti ` set (sess w1)" "rs_user_id n = us_id u"
    "rs_revoked_at n = None" using build_session_run [OF assms(2) ok1(1)] .
  obtain r w3 where 3: "create_refresh_token A (us_id u) (us_email u) (rs_jti n) w2 = (Inr r, w3)"
    "auth_view ok users sess w3 = auth_view ok users sess w2" using refresh_token_run [OF assms(2)] .
  have ok3: "ok w3" "sess w3 = sess w" using 1(2) 2(2) 3(2) assms(3) by (simp_all add: auth_view_def)
  then have "rs_jti n \<notin> rs_jti ` set (sess w3)" using 2(3) ok1(2) by simp
  from session_store.create [OF assms(1) ok3(1) this] obtain w4 where
    4: "sr_create_session (au_sessions A) n w3 = (Inr n, w4)" "ok w4" "sess w4 = sess w @ [n]" unfolding ok3(2) by blast
  show thesis
    by (rule that [of a r w4 n])
      (use assms(4-6) 1(1) 2 3(1) 4 ok1(2) in \<open>simp_all add: login_user_def py_raise_sum_def bnd_def\<close>)
qed

text \<open>
  Whoever registers can log in, and nobody takes the address a second time. A registration with an
  acceptable address that nobody has, and an acceptable password, stores one account under the normalised
  address. Afterwards any spelling of the address that normalises to it is refused with 409 by a further
  registration; a login under it with a password matching the stored hash, the registered one among them,
  opens one fresh session of the account; with any other password it is refused with 401 and changes nothing.
\<close>

theorem login_after_register:
  assumes "user_store (au_users A) ok users" "session_store (au_sessions A) ok sess now" "auth_env ok users sess A"
    and "password_env ok users sess matches A" "ok w" "sanitize_email email = Inr e" "validate_password p = Inr ()"
    and "e \<notin> us_email ` set (users w)" "sanitize_email other = Inr e"
  shows "\<exists>u w1. register_user A email p w = (Inr u, w1) \<and> ok w1 \<and> users w1 = users w @ [u] \<and> us_email u = e \<and>
     us_id u \<notin> us_id ` set (users w) \<and> matches p (us_password_hash u) \<and>
     (\<forall>q. validate_password q = Inr () \<longrightarrow> register_user A other q w1 = (Inl (HTTPException 409 ''email already exists''), w1)) \<and>
     (\<forall>q. matches q (us_password_hash u) \<longrightarrow> (\<exists>a r n w2. login_user A other q w1 = (Inr (a, r, u), w2) \<and>
        sess w2 = sess w1 @ [n] \<and> rs_user_id n = us_id u \<and> rs_revoked_at n = None)) \<and>
     (\<forall>q. \<not> matches q (us_password_hash u) \<longrightarrow> login_user A other q w1 = (Inl (HTTPException 401 ''invalid credentials''), w1))"
proof -
  have free: "\<forall>x \<in> set (users w). us_email x \<noteq> e" using assms(8) by auto
  then have none: "ur_get_by_email (au_users A) e w = (Inr None, w)"
    using user_store.by_email [OF assms(1,5)] by (simp add: find_None_iff)
  obtain i w1 where 1: "au_new_id A w = (Inr i, w1)" "auth_view ok users sess w1 = auth_view ok users sess w"
    "i \<notin> rs_jti ` set (sess w)" "i \<notin> us_id ` set (users w)" using fresh_id [OF assms(3,5)] .
  obtain h w2 where 2: "au_hash_password A p w1 = (Inr h, w2)" "auth_view ok users sess w2 = auth_view ok users sess w1"
    "matches p h" using hash_run [OF assms(4)] .
  obtain t w3 where 3: "au_clock A w2 = (Inr t, w3)" "auth_view ok users sess w3 = auth_view ok users sess w2"
    using clock_run [OF assms(3)] .
  let ?u = "\<lparr> us_id = i, us_email = e, us_password_hash = h, us_created_at = t \<rparr>"
  have ok3: "ok w3" "users w3 = users w" using 1(2) 2(2) 3(2) assms(5) by (simp_all add: auth_view_def)
  have "\<forall>x \<in> set (users w3). \<not> user_clash ?u x" using free 1(4) ok3(2) by (auto simp: user_clash_def)
  from user_store.create [OF assms(1) ok3(1) this] obtain w4 where
    4: "ur_create_user (au_users A) ?u w3 = (Inr ?u, w4)" "ok w4" "users w4 = users w @ [?u]" unfolding ok3(2) by blast
  have reg: "register_user A email p w = (Inr ?u, w4)"
    using assms(6,7) none 1(1) 2(1) 3(1) 4(1) by (simp add: register_user_def py_raise_sum_def bnd_def)
  have found: "ur_get_by_email (au_users A) e w4 = (Inr (Some ?u), w4)"
    using user_store.by_email [OF assms(1) 4(2), of e] find_new [of "users w" "\<lambda>u. us_email u = e" ?u] free 4(3) by simp
  have again: "register_user A other q w4 = (Inl (HTTPException 409 ''email already exists''), w4)"
    if "validate_password q = Inr ()" for q
    using that assms(9) found by (simp add: register_user_def py_raise_sum_def bnd_def)
  have wrong: "login_user A other q w4 = (Inl (HTTPException 401 ''invalid credentials''), w4)" if "\<not> matches q h" for q
    using that assms(9) found verify_run [OF assms(4), of q h w4] by (simp add: login_user_def py_raise_sum_def bnd_def)
  have right: "\<exists>a r n w2. login_user A other q w4 = (Inr (a, r, ?u), w2) \<and> sess w2 = sess w4 @ [n] \<and> rs_user_id n = us_id ?u \<and>
      rs_revoked_at n = None" if q: "matches q h" for q
  proof -
    have "au_verify_password A q (us_password_hash ?u) w4 = (Inr True, w4)" using q verify_run [OF assms(4), of q h w4] by simp
    from login_run [OF assms(2,3) 4(2) assms(9) found this] obtain a r n w2 where
      L: "login_user A other q w4 = (Inr (a, r, ?u), w2)" "ok w2" "sess w2 = sess w4 @ [n]" "rs_user_id n = us_id ?u" "rs_revoked_at n = None"
        "rs_jti n \<notin> rs_jti ` set (sess w4)" .
    show ?thesis
      by (rule exI [of _ a], rule exI [of _ r], rule exI [of _ n], rule exI [of _ w2]) (intro conjI L)
  qed
  show ?thesis
    by (intro exI [of _ ?u] exI [of _ w4] conjI allI impI) (use reg 4(2,3) 1(4) 2(3) again wrong right in simp_all)
qed

section \<open>An example\<close>

text \<open>Both tables in memory, a clock that stands still, and ids longer than every id in use.\<close>

type_synonym auth_world = "user list \<times> refresh_session list"

definition example_users :: "(auth_world, user) db_table" where
  "example_users = list_table fst (\<lambda>xs w. (xs, snd w)) us_id user_clash"

definition example_sessions :: "(auth_world, refresh_session) db_table" where
  "example_sessions = list_table snd (\<lambda>xs w. (fst w, xs)) rs_jti (\<lambda>r x. rs_jti r = rs_jti x)"

definition example_auth_ok :: "auth_world \<Rightarrow> bool" where
  "example_auth_ok w \<longleftrightarrow> distinct (map us_id (fst w)) \<and> distinct (map rs_jti (snd w))"

definition unused_id :: "auth_world \<Rightarrow> string" where
  "unused_id w = replicate (Suc (sum_list (map length (map us_id (fst w) @ map rs_jti (snd w))))) (CHR ''i'')"

definition example_claims :: "string \<Rightarrow> pydict option" where
  "example_claims tok =
     (if tok = ''R'' then Some [(''sub'', PStr ''u1''), (''typ'', PStr ''refresh''), (''jti'', PStr ''j1'')] else None)"

definition example_auth :: "auth_world auth_service" where
  "example_auth = \<lparr> au_users = UserRepositoryImpl example_users,
     au_sessions = RefreshSessionRepositoryImpl example_sessions (ret 0),
     au_settings = \<lparr> as_jwt_secret = ''secret'', as_jwt_alg = ''HS256'', as_jwt_expires_min = 15,
       as_jwt_refresh_expires_min = 10080 \<rparr>,
     au_jwt_encode = (\<lambda>_ _ _. ret ''token''), au_jwt_decode = (\<lambda>tok _ _. ret (example_claims tok)),
     au_hash_password = (\<lambda>p. ret (CHR ''#'' # p)), au_verify_password = (\<lambda>p h. ret (h = CHR ''#'' # p)),
     au_new_id = (\<lambda>w. (Inr (unused_id w), w)), au_clock = ret 0 \<rparr>"

definition example_account :: user where
  "example_account = \<lparr> us_id = ''u1'', us_email = ''ann@example.org'', us_password_hash = ''#Password1'', us_created_at = 0 \<rparr>"

definition example_session :: refresh_session where
  "example_session = \<lparr> rs_jti = ''j1'', rs_user_id = ''u1'', rs_created_at = 0, rs_expires_at = 5, rs_revoked_at = None,
     rs_replaced_by_jti = None \<rparr>"

interpretation xu: user_db example_users example_auth_ok fst
  by unfold_locales (auto simp: example_users_def list_table_def example_auth_ok_def user_clash_def distinct_map_filter)

interpretation xs: session_db example_sessions example_auth_ok snd "ret 0" "\<lambda>_. 0"
  by unfold_locales (auto simp: example_sessions_def list_table_def example_auth_ok_def distinct_map_filter)

lemma unused_id_fresh: "unused_id w \<notin> rs_jti ` set (snd w)" "unused_id w \<notin> us_id ` set (fst w)"
proof -
  have longer: "length (unused_id w) > length i" if "i \<in> set (map us_id (fst w) @ map rs_jti (snd w))" for i
    using member_le_sum_list [of "length i" "map length (map us_id (fst w) @ map rs_jti (snd w))"] that
    by (simp add: unused_id_def image_iff) force
  show "unused_id w \<notin> rs_jti ` set (snd w)"
  proof
    assume "unused_id w \<in> rs_jti ` set (snd w)"
    then show False using longer [of "unused_id w"] by simp
  qed
  show "unused_id w \<notin> us_id ` set (fst w)"
  proof
    assume "unused_id w \<in> us_id ` set (fst w)"
    then show False using longer [of "unused_id w"] by simp
  qed
qed

lemma example_auth_env: "auth_env example_auth_ok fst snd example_auth"
  using unused_id_fresh by (auto simp: auth_env_def example_auth_def auth_view_def)

lemma example_stores:
  "user_store (au_users example_auth) example_auth_ok fst"
  "session_store (au_sessions example_auth) example_auth_ok snd (\<lambda>_. 0)"
  using xu.accounts.user_store_axioms xs.store.session_store_axioms by (simp_all add: example_auth_def)

text \<open>The same with the accounts fixed.\<close>

definition account_ok :: "auth_world \<Rightarrow> bool" where
  "account_ok w \<longleftrightarrow> example_auth_ok w \<and> fst w = [example_account]"

interpretation xa: session_db example_sessions account_ok snd "ret 0" "\<lambda>_. 0"
  by unfold_locales
    (auto simp: example_sessions_def list_table_def account_ok_def example_auth_ok_def distinct_map_filter)

lemma account_env:
  "auth_env account_ok fst snd example_auth" "session_store (au_sessions example_auth) account_ok snd (\<lambda>_. 0)"
proof -
  show "auth_env account_ok fst snd example_auth"
    using unused_id_fresh by (auto simp: auth_env_def example_auth_def auth_view_def)
  show "session_store (au_sessions example_auth) account_ok snd (\<lambda>_. 0)"
    using xa.store.session_store_axioms by (simp add: example_auth_def)
qed

lemma example_token: "token_of example_auth account_ok ''R'' example_account ''j1''"
proof -
  have "normalized_token ''R'' = ''R''" by code_simp
  then show ?thesis
    by (simp add: token_of_def example_account_def account_ok_def example_auth_def decode_access_token_def example_claims_def
        UserRepositoryImpl_def get_user_by_id_def example_users_def list_table_def first_row_def bnd_def)
qed

abbreviation signed_in :: auth_world where
  "signed_in \<equiv> ([example_account], [example_session])"

lemma signed_in_ok: "account_ok signed_in"
  by (simp add: account_ok_def example_auth_ok_def)

theorem refresh_single_use_witness:
  "\<exists>a r n t w'. refresh_tokens example_auth ''R'' signed_in = (Inr (a, r, example_account), w') \<and>
      snd w' = map (replaced ''j1'' t (rs_jti n)) [example_session] @ [n] \<and> rs_user_id n = ''u1'' \<and>
      refresh_tokens example_auth ''R'' w' = (Inl bad_refresh, w')"
  using refresh_single_use [OF account_env(2,1) example_token signed_in_ok, of example_session]
  by (simp add: example_session_def example_account_def) blast

theorem logout_ends_session_witness:
  "\<exists>t w'. logout_user example_auth (Some ''R'') signed_in = (Inr (), w') \<and> snd w' = [ended ''j1'' t example_session] \<and>
     refresh_tokens example_auth ''R'' w' = (Inl bad_refresh, w')"
  using logout_ends_session [OF account_env(2,1) example_token signed_in_ok, of example_session]
  by (simp add: example_session_def) blast

theorem login_after_register_witness:
  "\<exists>u w1. register_user example_auth ''B@c.de '' ''Password1'' ([], []) = (Inr u, w1) \<and>
     us_email u = ''b@c.de'' \<and>
     register_user example_auth ''B@c.de '' ''Other2024'' w1 = (Inl (HTTPException 409 ''email already exists''), w1)"
proof -
  have "sanitize_email ''B@c.de '' = Inr ''b@c.de''"
    "validate_password ''Password1'' = Inr ()" and other: "validate_password ''Other2024'' = Inr ()"
    by (code_simp, simp_all add: validate_password_def is_upper_def is_digit_text_def is_digit_def)
  moreover have "password_env example_auth_ok fst snd (\<lambda>p h. h = CHR ''#'' # p) example_auth"
    by (simp add: password_env_def example_auth_def auth_view_def)
  moreover have "example_auth_ok ([], [])" by (simp add: example_auth_ok_def)
  ultimately have "\<exists>u w1. register_user example_auth ''B@c.de '' ''Password1'' ([], []) = (Inr u, w1) \<and> example_auth_ok w1 \<and>
     fst w1 = fst ([], []) @ [u] \<and> us_email u = ''b@c.de'' \<and>
     us_id u \<notin> us_id ` set (fst ([] :: user list, [] :: refresh_session list)) \<and> us_password_hash u = CHR ''#'' # ''Password1'' \<and>
     (\<forall>q. validate_password q = Inr () \<longrightarrow>
        register_user example_auth ''B@c.de '' q w1 = (Inl (HTTPException 409 ''email already exists''), w1))"
    using login_after_register [OF example_stores example_auth_env, of "\<lambda>p h. h = CHR ''#'' # p" "([], [])" "''B@c.de ''"
        "''b@c.de''" "''Password1''" "''B@c.de ''"] by simp blast
  then show ?thesis using other by (elim exE conjE) auto
qed

end
