(* ===== verification/Auth_Api.thy ===== *)
theory Auth_Api
  imports Auth_Service Project_Service Redis
begin

text \<open>
  The authentication endpoints (\<open>app/api/v1/auth.py\<close>): each but the logout has a budget of requests per
  window and client, kept in Redis and failing open; the tokens travel in two cookies. A response is the
  body and the list of cookie operations on it; an exception drops the response. \<open>aa_time\<close> is
  \<open>time.time()\<close> and \<open>aa_sha256\<close> the hexadecimal SHA-256 digest.
\<close>

section \<open>Requests and responses\<close>

record auth_request =
  ar_forwarded_for :: "string option"
  ar_client_host :: "string option"
  ar_cookies :: "string \<rightharpoonup> string"

record user_out =
  uo_id :: string
  uo_email :: string
  uo_created_at :: datetime

definition user_out_of :: "user \<Rightarrow> user_out" where
  "user_out_of u = \<lparr> uo_id = us_id u, uo_email = us_email u, uo_created_at = us_created_at u \<rparr>"

datatype cookie_op =
    SetCookie (ck_key: string) (ck_value: string) (ck_secure: bool) (ck_samesite: string) (ck_max_age: int) (ck_path: string)
  | DeleteCookie (ck_key: string) (ck_secure: bool) (ck_samesite: string) (ck_path: string) (ck_domain: "string option")

record cookie_settings =
  co_access_cookie_name :: string
  co_refresh_cookie_name :: string
  co_cookie_secure :: bool
  co_cookie_samesite :: string
  co_cookie_domain :: "string option"
  co_api_prefix :: string

record 'w auth_api =
  aa_service :: "'w auth_service"
  aa_redis :: "'w redis_client"
  aa_cookies :: cookie_settings
  aa_trust_proxy_headers :: bool
  aa_window_seconds :: int
  aa_register_limit :: int
  aa_login_limit :: int
  aa_refresh_limit :: int
  aa_time :: "('w, rat) py"
  aa_sha256 :: "string \<Rightarrow> string"

section \<open>The budget of a client\<close>

definition client_ip :: "bool \<Rightarrow> auth_request \<Rightarrow> string" where
  "client_ip trust_proxy_headers request =
     (let forwarded_for = strip (opt_or (ar_forwarded_for request) []);
          host = or_str (opt_or (ar_client_host request) []) ''unknown''
      in if trust_proxy_headers \<and> forwarded_for \<noteq> [] then strip (takeWhile (\<lambda>c. c \<noteq> CHR '','') forwarded_for)
         else host)"

definition hash_rate_limit_fragment :: "'w auth_api \<Rightarrow> string \<Rightarrow> string" where
  "hash_rate_limit_fragment A v = take 16 (aa_sha256 A v)"

definition auth_rate_limit_key :: "'w auth_api \<Rightarrow> string \<Rightarrow> string \<Rightarrow> int \<Rightarrow> string" where
  "auth_rate_limit_key A scope discriminator window_epoch =
     ''auth_rl:'' @ scope @ '':'' @ hash_rate_limit_fragment A discriminator @ '':'' @ py_str_int window_epoch"

definition auth_discriminator :: "'w auth_api \<Rightarrow> auth_request \<Rightarrow> string \<Rightarrow> string option \<Rightarrow> string" where
  "auth_discriminator A request scope email =
     scope @ ''|'' @ client_ip (aa_trust_proxy_headers A) request @ (if truthy email then ''|'' @ lower (strip (the email)) else [])"

definition enforce_auth_rate_limit ::
  "'w auth_api \<Rightarrow> auth_request \<Rightarrow> string \<Rightarrow> int \<Rightarrow> string option \<Rightarrow> ('w, unit) py" where
  "enforce_auth_rate_limit A request scope limit email =
     (let window_seconds = max (aa_window_seconds A) 1 in
      bnd (aa_time A) (\<lambda>now.
      let window_epoch = py_trunc now div window_seconds;
          key = auth_rate_limit_key A scope (auth_discriminator A request scope email) window_epoch
      in try_except
           (bnd (r_incr (aa_redis A) key) (\<lambda>counter.
            bnd (when_py (counter = 1) (bnd (r_expire (aa_redis A) key window_seconds) (\<lambda>_. ret ()))) (\<lambda>_.
            if counter > limit then raise (HTTPException 429 ''rate limit exceeded'') else ret ())))
           (\<lambda>e. case e of HTTPException _ _ \<Rightarrow> raise e | _ \<Rightarrow> ret ())))"

section \<open>Cookies\<close>

definition cookie_samesite :: "string \<Rightarrow> string" where
  "cookie_samesite v =
     (let normalized = lower v in if normalized \<in> {''lax'', ''strict'', ''none''} then normalized else ''lax'')"

definition refresh_path :: "cookie_settings \<Rightarrow> string" where
  "refresh_path C = co_api_prefix C @ ''/v1/auth''"

definition set_auth_cookies :: "'w auth_api \<Rightarrow> string \<Rightarrow> string \<Rightarrow> cookie_op list" where
  "set_auth_cookies A access_token refresh_token =
     (let C = aa_cookies A; S = au_settings (aa_service A); same_site = cookie_samesite (co_cookie_samesite C) in
      [SetCookie (co_access_cookie_name C) access_token (co_cookie_secure C) same_site (max (as_jwt_expires_min S) 1 * 60) ''/'',
       SetCookie (co_refresh_cookie_name C) refresh_token (co_cookie_secure C) same_site
         (max (as_jwt_refresh_expires_min S) 1 * 60) (refresh_path C)])"

text \<open>The two candidates are a set in the code; the order in which they are cleared makes no difference.\<close>

definition legacy_cookie_domains :: "cookie_settings \<Rightarrow> string list" where
  "legacy_cookie_domains C =
     (let configured = strip (opt_or (co_cookie_domain C) []) in
      if configured = [] then []
      else let normalized = dropWhile (\<lambda>c. c = CHR ''.'') configured in
           filter (\<lambda>d. d \<noteq> []) [normalized, CHR ''.'' # normalized])"

definition clear_auth_cookies :: "'w auth_api \<Rightarrow> cookie_op list" where
  "clear_auth_cookies A =
     (let C = aa_cookies A; same_site = cookie_samesite (co_cookie_samesite C);
          delete = (\<lambda>domain.
            [DeleteCookie (co_access_cookie_name C) (co_cookie_secure C) same_site ''/'' domain,
             DeleteCookie (co_refresh_cookie_name C) (co_cookie_secure C) same_site (refresh_path C) domain])
      in delete None @ concat (map (\<lambda>d. delete (Some d)) (legacy_cookie_domains C)))"

section \<open>The endpoints\<close>

definition register_endpoint :: "'w auth_api \<Rightarrow> auth_request \<Rightarrow> string \<Rightarrow> string \<Rightarrow> ('w, user_out) py" where
  "register_endpoint A request email password =
     http_guard ''Register failed''
       (bnd (enforce_auth_rate_limit A request ''register'' (aa_register_limit A) None) (\<lambda>_.
        bnd (register_user (aa_service A) email password) (\<lambda>u. ret (user_out_of u))))"

definition login_endpoint ::
  "'w auth_api \<Rightarrow> auth_request \<Rightarrow> string \<Rightarrow> string \<Rightarrow> ('w, user_out \<times> cookie_op list) py" where
  "login_endpoint A request email password =
     http_guard ''Login failed''
       (bnd (enforce_auth_rate_limit A request ''login'' (aa_login_limit A) (Some email)) (\<lambda>_.
        bnd (login_user (aa_service A) email password) (\<lambda>(access_token, refresh_token, u).
        ret (user_out_of u, clear_auth_cookies A @ set_auth_cookies A access_token refresh_token))))"

definition refresh_endpoint :: "'w auth_api \<Rightarrow> auth_request \<Rightarrow> ('w, user_out \<times> cookie_op list) py" where
  "refresh_endpoint A request =
     http_guard ''Refresh failed''
       (bnd (enforce_auth_rate_limit A request ''refresh'' (aa_refresh_limit A) None) (\<lambda>_.
        let refresh_token = ar_cookies request (co_refresh_cookie_name (aa_cookies A)) in
        if \<not> truthy refresh_token then raise (HTTPException 401 ''invalid refresh token'')
        else bnd (refresh_tokens (aa_service A) (the refresh_token)) (\<lambda>(access_token, next_refresh_token, u).
             ret (user_out_of u, clear_auth_cookies A @ set_auth_cookies A access_token next_refresh_token))))"

definition logout_endpoint :: "'w auth_api \<Rightarrow> auth_request \<Rightarrow> ('w, string \<times> cookie_op list) py" where
  "logout_endpoint A request =
     try_except
       (bnd (logout_user (aa_service A) (ar_cookies request (co_refresh_cookie_name (aa_cookies A)))) (\<lambda>_.
        ret (''ok'', clear_auth_cookies A)))
       (\<lambda>_. raise (HTTPException 500 ''Logout failed''))"

definition me_endpoint :: "'w auth_api \<Rightarrow> auth_request \<Rightarrow> ('w, user_out) py" where
  "me_endpoint A request =
     bnd (current_user (aa_service A) (ar_cookies request (co_access_cookie_name (aa_cookies A)))) (\<lambda>u. ret (user_out_of u))"

section \<open>What the browser holds\<close>

text \<open>A browser files cookies under name, domain and path.\<close>

type_synonym cookie_jar = "string \<times> string option \<times> string \<Rightarrow> string option"

fun cookie_id :: "cookie_op \<Rightarrow> string \<times> string option \<times> string" where
  "cookie_id (SetCookie k _ _ _ _ p) = (k, None, p)"
| "cookie_id (DeleteCookie k _ _ p d) = (k, d, p)"

fun cookie_content :: "cookie_op \<Rightarrow> string option" where
  "cookie_content (SetCookie _ v _ _ age _) = (if 0 < age then Some v else None)"
| "cookie_content (DeleteCookie _ _ _ _ _) = None"

definition browser :: "cookie_op list \<Rightarrow> cookie_jar \<Rightarrow> cookie_jar" where
  "browser ops jar = fold (\<lambda>c j. j(cookie_id c := cookie_content c)) ops jar"

text \<open>The jar holds this pair of tokens, and nothing under the legacy domains.\<close>

definition jar_holds :: "cookie_settings \<Rightarrow> (string \<times> string) option \<Rightarrow> cookie_jar \<Rightarrow> bool" where
  "jar_holds C tokens jar \<longleftrightarrow>
     jar (co_access_cookie_name C, None, ''/'') = map_option fst tokens \<and>
     jar (co_refresh_cookie_name C, None, refresh_path C) = map_option snd tokens \<and>
     (\<forall>d \<in> set (legacy_cookie_domains C).
        jar (co_access_cookie_name C, Some d, ''/'') = None \<and> jar (co_refresh_cookie_name C, Some d, refresh_path C) = None)"

lemma browser_append: "browser (xs @ ys) jar = browser ys (browser xs jar)"
  by (simp add: browser_def)

lemma browser_deletes:
  "\<forall>c \<in> set ops. cookie_content c = None \<Longrightarrow> browser ops jar k = (if k \<in> cookie_id ` set ops then None else jar k)"
  by (induction ops arbitrary: jar) (auto simp: browser_def)

lemma refresh_path_deeper [simp]: "refresh_path C \<noteq> ''/''" "''/'' \<noteq> refresh_path C"
proof -
  have "length (refresh_path C) \<noteq> length ''/''" by (simp add: refresh_path_def)
  then show "refresh_path C \<noteq> ''/''" "''/'' \<noteq> refresh_path C" by metis+
qed

lemma cleared: "jar_holds (aa_cookies A) None (browser (clear_auth_cookies A) jar)"
proof -
  let ?C = "aa_cookies A" and ?ops = "clear_auth_cookies A"
  have content: "\<forall>c \<in> set ?ops. cookie_content c = None" by (auto simp: clear_auth_cookies_def Let_def)
  have "cookie_id ` set ?ops = (\<Union>d \<in> insert None (Some ` set (legacy_cookie_domains ?C)).
      {(co_access_cookie_name ?C, d, ''/''), (co_refresh_cookie_name ?C, d, refresh_path ?C)})"
    by (simp add: clear_auth_cookies_def Let_def image_Un image_UN)
  then show ?thesis unfolding jar_holds_def browser_deletes [OF content] by simp
qed

lemma filled: "jar_holds (aa_cookies A) (Some (a, r)) (browser (clear_auth_cookies A @ set_auth_cookies A a r) jar)"
  using cleared [of A jar] by (simp add: browser_append jar_holds_def) (simp add: set_auth_cookies_def browser_def Let_def)

lemma http_guard_answer: "http_guard d m w = (Inr x, w') \<longleftrightarrow> m w = (Inr x, w')"
  by (auto simp: http_guard_def try_except_def split: prod.splits sum.splits exn.splits)

text \<open>A request that does not fail: its steps, one after the other.\<close>

lemma login_cookies:
  assumes "login_endpoint A request email password w = (Inr (out, ops), w')"
  obtains u a r w1 where "out = user_out_of u" "login_user (aa_service A) email password w1 = (Inr (a, r, u), w')"
    "ops = clear_auth_cookies A @ set_auth_cookies A a r"
  using assms unfolding login_endpoint_def http_guard_answer by (auto elim!: bnd_InrE)

lemma refresh_cookies:
  assumes "refresh_endpoint A request w = (Inr (out, ops), w')"
  obtains u a r tok w1 where "out = user_out_of u" "ar_cookies request (co_refresh_cookie_name (aa_cookies A)) = Some tok"
    "refresh_tokens (aa_service A) tok w1 = (Inr (a, r, u), w')" "ops = clear_auth_cookies A @ set_auth_cookies A a r"
  using assms unfolding refresh_endpoint_def http_guard_answer
  by (auto elim!: bnd_InrE simp: Let_def truthy_def split: if_splits option.splits)

lemma logout_cookies:
  assumes "logout_endpoint A request w = (Inr (out, ops), w')"
  shows "out = ''ok'' \<and> ops = clear_auth_cookies A"
  using assms by (auto simp: logout_endpoint_def try_except_def bnd_def split: prod.splits sum.splits)

lemma logout_fails: "logout_endpoint A request w = (Inl e, w') \<Longrightarrow> e = HTTPException 500 ''Logout failed''"
  by (auto simp: logout_endpoint_def try_except_def bnd_def split: prod.splits sum.splits)


end
