(* ===== verification/Events_Api.thy ===== *)
theory Events_Api
  imports Ingest_Service Project_Service
begin

text \<open>
  The ingest endpoint (\<open>app/api/v1/events.py\<close>): the ingest key is resolved, repetitions are recognised by
  their idempotency key, each ingest key has a budget of requests per window, and the event is built and
  handed to the ingest service. Both Redis checks fail open. \<open>ea_time\<close> is \<open>time.time()\<close>, \<open>ea_clock\<close> is
  \<open>datetime.now(timezone.utc)\<close> and \<open>ea_new_id\<close> is \<open>str(uuid4())\<close>; SHA-256 is the hash of the key service.
\<close>

section \<open>Payloads\<close>

record event_request_in =
  er_input_tokens :: "int option"
  er_input_tokens_estimate :: "int option"
  er_token_explosion_tokens :: "int option"
  er_max_output_tokens :: "int option"
  er_endpoint :: "string option"
  er_feature :: "string option"
  er_request_fingerprint :: "string option"
  er_protect_decision :: "string option"
  er_protect_reason :: "string option"

record event_response_in =
  es_output_tokens :: "int option"
  es_total_tokens :: "int option"
  es_latency_ms :: "int option"
  es_http_status :: "int option"
  es_error_type :: "string option"
  es_error_message :: "string option"

record event_in =
  ei_ts :: datetime
  ei_provider :: string
  ei_requested_model :: "string option"
  ei_resolved_model :: "string option"
  ei_environment :: "string option"
  ei_status :: "string option"
  ei_request :: "event_request_in option"
  ei_response :: "event_response_in option"

text \<open>\<open>x or 0\<close> for an optional integer.\<close>

definition int_or_zero :: "int option \<Rightarrow> int" where
  "int_or_zero x = (case x of None \<Rightarrow> 0 | Some i \<Rightarrow> i)"

definition resolve_tokens :: "event_in \<Rightarrow> int \<times> int \<times> int" where
  "resolve_tokens payload =
     (let request = ei_request payload; response = ei_response payload;
          input_tokens = int_or_zero (Option.bind request er_input_tokens);
          output_tokens = int_or_zero (Option.bind response es_output_tokens)
      in case Option.bind response es_total_tokens of
           Some total_tokens \<Rightarrow> (input_tokens, output_tokens, total_tokens)
         | None \<Rightarrow>
             if request \<noteq> None \<and> response \<noteq> None
             then (input_tokens, output_tokens,
                   int_or_zero (Option.bind request er_input_tokens) + int_or_zero (Option.bind response es_output_tokens))
             else (input_tokens, output_tokens, 0))"

text \<open>\<open>x if x else None\<close>.\<close>

definition or_none :: "string option \<Rightarrow> string option" where
  "or_none x = (if truthy x then x else None)"

definition event_of_payload :: "string \<Rightarrow> string \<Rightarrow> datetime \<Rightarrow> event_in \<Rightarrow> event" where
  "event_of_payload event_id project_id created_at payload =
     (let (input_tokens, output_tokens, total_tokens) = resolve_tokens payload;
          request = ei_request payload; response = ei_response payload
      in \<lparr> ev_id = event_id, ev_ts = ei_ts payload, ev_project_id = project_id, ev_provider = ei_provider payload,
           ev_requested_model = ei_requested_model payload, ev_resolved_model = ei_resolved_model payload,
           ev_environment = ei_environment payload, ev_input_tokens = input_tokens, ev_output_tokens = output_tokens,
           ev_total_tokens = total_tokens, ev_latency_ms = Option.bind response es_latency_ms,
           ev_status = ei_status payload, ev_error_type = or_none (Option.bind response es_error_type),
           ev_error_message = or_none (Option.bind response es_error_message),
           ev_http_status = Option.bind response es_http_status, ev_created_at = created_at,
           ev_token_explosion_tokens = Option.bind request er_token_explosion_tokens,
           ev_request_endpoint = Option.bind request er_endpoint, ev_request_feature = Option.bind request er_feature,
           ev_request_fingerprint = Option.bind request er_request_fingerprint \<rparr>)"

section \<open>The endpoint\<close>

record 'w events_api =
  ea_service :: "'w ingest_service"
  ea_keys :: "'w ingest_key_service"
  ea_redis :: "'w redis_client"
  ea_idempotency_ttl_seconds :: int
  ea_rate_limit_window_seconds :: int
  ea_ingest_rate_limit_per_minute :: int
  ea_time :: "('w, rat) py"
  ea_clock :: "('w, datetime) py"
  ea_new_id :: "('w, string) py"

definition idempotency_key_for :: "'w events_api \<Rightarrow> string \<Rightarrow> string \<Rightarrow> string" where
  "idempotency_key_for A project_id idempotency_key = ''idem:'' @ project_id @ '':'' @ kv_hash (ea_keys A) idempotency_key"

definition rate_limit_key :: "'w events_api \<Rightarrow> string \<Rightarrow> int \<Rightarrow> string" where
  "rate_limit_key A ingest_key window_epoch_minute =
     ''rl:'' @ kv_hash (ea_keys A) ingest_key @ '':'' @ py_str_int window_epoch_minute"

text \<open>Whether the request repeats one that was seen; Redis failures answer no.\<close>

definition is_duplicate :: "'w events_api \<Rightarrow> string \<Rightarrow> string option \<Rightarrow> ('w, bool) py" where
  "is_duplicate A project_id idempotency_key =
     (if \<not> truthy idempotency_key then ret False
      else try_except
        (bnd (r_set_nx_ex (ea_redis A) (idempotency_key_for A project_id (the idempotency_key)) ''1''
           (ea_idempotency_ttl_seconds A)) (\<lambda>accepted. ret (\<not> accepted)))
        (\<lambda>_. ret False))"

definition enforce_rate_limit :: "'w events_api \<Rightarrow> string \<Rightarrow> ('w, unit) py" where
  "enforce_rate_limit A ingest_key =
     try_except
       (let rate_limit_window_seconds = max (ea_rate_limit_window_seconds A) 1 in
        bnd (ea_time A) (\<lambda>now.
        let window_epoch_minute = py_trunc now div rate_limit_window_seconds;
            key = rate_limit_key A ingest_key window_epoch_minute
        in bnd (r_incr (ea_redis A) key) (\<lambda>rate_limit_counter.
           bnd (when_py (rate_limit_counter = 1)
                 (bnd (r_expire (ea_redis A) key rate_limit_window_seconds) (\<lambda>_. ret ()))) (\<lambda>_.
           if rate_limit_counter > ea_ingest_rate_limit_per_minute A
           then raise (HTTPException 429 ''rate limit exceeded'') else ret ()))))
       (\<lambda>e. case e of HTTPException _ _ \<Rightarrow> raise e | _ \<Rightarrow> ret ())"

text \<open>Building the event and ingesting it.\<close>

definition ingest_payload :: "'w events_api \<Rightarrow> string \<Rightarrow> event_in \<Rightarrow> ('w, string) py" where
  "ingest_payload A project_id payload =
     bnd (ea_new_id A) (\<lambda>i.
     bnd (ea_clock A) (\<lambda>created_at.
     bnd (ingest (ea_service A) (event_of_payload i project_id created_at payload)) (\<lambda>_.
     ret ''accepted'')))"

definition ingest_event ::
  "'w events_api \<Rightarrow> event_in \<Rightarrow> string option \<Rightarrow> string option \<Rightarrow> ('w, string) py" where
  "ingest_event A payload ingest_key idempotency_key =
     http_guard ''Failed to ingest event''
       (let normalized_ingest_key = normalize_ingest_key (opt_or ingest_key []) in
        if normalized_ingest_key = [] then raise (HTTPException 401 ''missing ingest key'')
        else bnd (resolve_project_id (ea_keys A) normalized_ingest_key) (\<lambda>resolved. case resolved of
          None \<Rightarrow> raise (HTTPException 401 ''invalid ingest key'')
        | Some project_id \<Rightarrow>
            bnd (is_duplicate A project_id idempotency_key) (\<lambda>duplicate.
            if duplicate then ret ''accepted''
            else bnd (enforce_rate_limit A normalized_ingest_key) (\<lambda>_.
                 ingest_payload A project_id payload))))"

section \<open>Keys\<close>

text \<open>The idempotency and rate limit keys are in different name spaces.\<close>

lemma idem_rate_neq [simp]:
  "idempotency_key_for A p k \<noteq> rate_limit_key A i n" "rate_limit_key A i n \<noteq> idempotency_key_for A p k"
  by (simp_all add: idempotency_key_for_def rate_limit_key_def)

section \<open>The rate limit\<close>

text \<open>The requests of an ingest key in window \<open>m\<close> are counted to \<open>n\<close>; the clock reads a time of window \<open>m\<close>.\<close>

definition counted_to ::
  "'w events_api \<Rightarrow> ('w \<Rightarrow> string \<Rightarrow> string option) \<Rightarrow> ('w \<Rightarrow> string \<Rightarrow> string \<Rightarrow> int option) \<Rightarrow> 'w \<Rightarrow>
   string \<Rightarrow> int \<Rightarrow> int \<Rightarrow> bool" where
  "counted_to A sv zv w key m n \<longleftrightarrow> zv w (rate_limit_key A key m) = Map.empty \<and>
     counter_text (sv w (rate_limit_key A key m)) = py_str_int n"

definition clock_in_window :: "'w events_api \<Rightarrow> int \<Rightarrow> bool" where
  "clock_in_window A m \<longleftrightarrow>
     (\<forall>w. \<exists>t. ea_time A w = (Inr t, w) \<and> py_trunc t div max (ea_rate_limit_window_seconds A) 1 = m)"

lemma rate_limit_step:
  assumes "redis_contract (ea_redis A) ok sv zv" "ok w" "counted_to A sv zv w key m n" "clock_in_window A m"
    and "0 \<le> n" "n + 1 < 2 ^ 63"
  shows "\<exists>w'. enforce_rate_limit A key w =
       (if n + 1 \<le> ea_ingest_rate_limit_per_minute A then Inr ()
        else Inl (HTTPException 429 ''rate limit exceeded''), w') \<and>
     ok w' \<and> zv w' = zv w \<and> sv w' = (sv w)(rate_limit_key A key m \<mapsto> py_str_int (n + 1))"
proof -
  let ?k = "rate_limit_key A key m"
  have z: "zv w ?k = Map.empty" "counter_text (sv w ?k) = py_str_int n" using assms(3) by (simp_all add: counted_to_def)
  obtain t where t: "ea_time A w = (Inr t, w)" "py_trunc t div max (ea_rate_limit_window_seconds A) 1 = m"
    using assms(4) unfolding clock_in_window_def by blast
  obtain w1 where 1: "r_incrby (ea_redis A) ?k 1 w = (Inr (n + 1), w1)" "ok w1" "zv w1 = zv w"
    "sv w1 = (sv w)(?k \<mapsto> py_str_int (n + 1))"
    using redis_contract.incrby [OF assms(1,2) z, of 1] assms(5,6) by auto
  then have i: "r_incr (ea_redis A) ?k w = (Inr (n + 1), w1)" by (simp add: redis_contract.incr [OF assms(1)])
  have pos: "0 < max (ea_rate_limit_window_seconds A) 1" by simp
  obtain r w2 where 2: "r_expire (ea_redis A) ?k (max (ea_rate_limit_window_seconds A) 1) w1 = (Inr r, w2)" "ok w2"
    "sv w2 = sv w1" "zv w2 = zv w1"
    using redis_contract.expire [OF assms(1) 1(2) pos] by blast
  show ?thesis
  proof (cases "n = 0")
    case True
    then show ?thesis using t i 1(3,4) 2
      by (intro exI [of _ w2]) (simp add: enforce_rate_limit_def Let_def bnd_def try_except_def)
  next
    case False
    then show ?thesis using t i 1(2-4)
      by (intro exI [of _ w1]) (simp add: enforce_rate_limit_def Let_def bnd_def try_except_def)
  qed
qed

text \<open>The checks of \<open>n\<close> requests, one after the other.\<close>

fun rate_results :: "'w events_api \<Rightarrow> string \<Rightarrow> nat \<Rightarrow> 'w \<Rightarrow> bool list" where
  "rate_results A key 0 w = []"
| "rate_results A key (Suc n) w =
     (case enforce_rate_limit A key w of (r, w') \<Rightarrow> (r = Inr ()) # rate_results A key n w')"

lemma rate_results_counted:
  assumes "redis_contract (ea_redis A) ok sv zv" "clock_in_window A m"
  shows "ok w \<Longrightarrow> counted_to A sv zv w key m (int c) \<Longrightarrow> int (c + n) < 2 ^ 63 \<Longrightarrow>
     rate_results A key n w = map (\<lambda>i. int i \<le> ea_ingest_rate_limit_per_minute A) [Suc c ..< Suc (c + n)]"
proof (induction n arbitrary: w c)
  case (Suc n)
  obtain w' where w': "enforce_rate_limit A key w =
       (if int c + 1 \<le> ea_ingest_rate_limit_per_minute A then Inr ()
        else Inl (HTTPException 429 ''rate limit exceeded''), w')"
    "ok w'" "zv w' = zv w" "sv w' = (sv w)(rate_limit_key A key m \<mapsto> py_str_int (int c + 1))"
    using rate_limit_step [OF assms(1) Suc.prems(1,2) assms(2)] Suc.prems(3) by auto
  have "counted_to A sv zv w' key m (int (Suc c))"
    using w'(3,4) Suc.prems(2) by (simp add: counted_to_def counter_text_def add.commute)
  from Suc.IH [OF w'(2) this] Suc.prems(3)
  have "rate_results A key n w' = map (\<lambda>i. int i \<le> ea_ingest_rate_limit_per_minute A) [Suc (Suc c) ..< Suc (Suc c + n)]"
    by simp
  then show ?case using w'(1) by (simp add: upt_rec add.commute del: upt_Suc)
qed simp

text \<open>
  C30: an ingest key gets exactly its budget. Of any number of requests whose times fall into one window,
  the first \<open>ingest_rate_limit_per_minute\<close> pass the check and all later ones are refused with 429, for a
  Redis server that answers and a counter that has not started.
\<close>

theorem rate_limit_window:
  assumes "redis_contract (ea_redis A) ok sv zv" "ok w" "clock_in_window A m"
    and "zv w (rate_limit_key A key m) = Map.empty" "sv w (rate_limit_key A key m) = None" "int n < 2 ^ 63"
  shows "rate_results A key n w = replicate (min n (nat (ea_ingest_rate_limit_per_minute A))) True @
     replicate (n - nat (ea_ingest_rate_limit_per_minute A)) False"
proof -
  let ?l = "nat (ea_ingest_rate_limit_per_minute A)"
  have "py_str_int 0 = ''0''" by code_simp
  then have "counted_to A sv zv w key m (int 0)" using assms(4,5) by (simp add: counted_to_def counter_text_def)
  from rate_results_counted [OF assms(1,3,2) this, of n] assms(6)
  have "rate_results A key n w = map (\<lambda>i. int i \<le> ea_ingest_rate_limit_per_minute A) [1 ..< Suc n]" by simp
  also have "\<dots> = map (\<lambda>i. i < ?l) [0 ..< n]"
    by (simp add: map_Suc_upt [symmetric] comp_def del: upt_Suc) auto
  also have "\<dots> = replicate (min n ?l) True @ replicate (n - ?l) False"
    by (rule nth_equalityI) (auto simp: nth_append)
  finally show ?thesis .
qed

section \<open>Idempotency keys\<close>

lemma duplicate_answer:
  assumes "redis_contract (ea_redis A) ok sv zv" "ok w" "ik \<noteq> []" "0 < ea_idempotency_ttl_seconds A"
    and "zv w (idempotency_key_for A p ik) = Map.empty"
  shows "\<exists>w'. is_duplicate A p (Some ik) w = (Inr (sv w (idempotency_key_for A p ik) \<noteq> None), w') \<and> ok w' \<and>
     zv w' = zv w \<and> sv w' (idempotency_key_for A p ik) \<noteq> None \<and>
     (\<forall>k. k \<noteq> idempotency_key_for A p ik \<longrightarrow> sv w' k = sv w k)"
  using redis_contract.set_nx_ex [OF assms(1,2,5,4), of "''1''"] assms(3)
  by (auto simp: is_duplicate_def truthy_def bnd_def try_except_def split: if_splits)

text \<open>An ingest key that resolves to a project, in every state of a healthy backend.\<close>

definition key_resolves :: "'w events_api \<Rightarrow> ('w \<Rightarrow> bool) \<Rightarrow> string \<Rightarrow> string \<Rightarrow> bool" where
  "key_resolves A ok hdr p \<longleftrightarrow> normalize_ingest_key hdr \<noteq> [] \<and>
     (\<forall>w. ok w \<longrightarrow> resolve_project_id (ea_keys A) (normalize_ingest_key hdr) w = (Inr (Some p), w))"

lemma endpoint_resolved:
  assumes "key_resolves A ok hdr p" "ok w"
  shows "ingest_event A payload (Some hdr) ik w = http_guard ''Failed to ingest event''
     (bnd (is_duplicate A p ik) (\<lambda>duplicate. if duplicate then ret ''accepted''
        else bnd (enforce_rate_limit A (normalize_ingest_key hdr)) (\<lambda>_. ingest_payload A p payload))) w"
proof -
  have "opt_or (Some hdr) [] = hdr" by (simp add: opt_or_def or_str_def)
  moreover have "resolve_project_id (ea_keys A) (normalize_ingest_key hdr) w = (Inr (Some p), w)" "normalize_ingest_key hdr \<noteq> []"
    using assms by (simp_all add: key_resolves_def)
  ultimately show ?thesis by (simp add: ingest_event_def http_guard_def try_except_def bnd_def Let_def)
qed

lemma duplicate_run:
  assumes "redis_contract (ea_redis A) ok sv zv" "ok w" "key_resolves A ok hdr p" "ik \<noteq> []"
    and "0 < ea_idempotency_ttl_seconds A" "zv w (idempotency_key_for A p ik) = Map.empty"
    and "sv w (idempotency_key_for A p ik) \<noteq> None" "\<And>k x t. frame v (r_set_nx_ex (ea_redis A) k x t)"
  shows "\<exists>w'. ingest_event A payload (Some hdr) (Some ik) w = (Inr ''accepted'', w') \<and> ok w' \<and> v w' = v w"
proof -
  obtain w' where w': "is_duplicate A p (Some ik) w = (Inr True, w')" "ok w'"
    using duplicate_answer [OF assms(1,2,4-6)] assms(7) by auto
  have "frame v (is_duplicate A p (Some ik))"
    unfolding is_duplicate_def by (intro frame_if frame_try frame_bnd frame_ret assms(8))
  from frameD [OF this w'(1)] w' show ?thesis
    by (intro exI [of _ w']) (simp add: endpoint_resolved [OF assms(3,2)] http_guard_def try_except_def bnd_def)
qed

text \<open>
  C31: the idempotency key of a request is taken before the request is counted against the budget. A
  request that is refused with 429 therefore uses up its key: when the client repeats it, at any later
  time while the key lives, the answer is that it was accepted, and no event is stored; whatever the
  Redis commands do not touch, the events among it, is as it was.
\<close>

theorem rate_limited_retry_lost:
  assumes "redis_contract (ea_redis A) ok sv zv" "ok w" "key_resolves A ok hdr p" "ik \<noteq> []"
    and "0 < ea_idempotency_ttl_seconds A" "zv w (idempotency_key_for A p ik) = Map.empty"
    and "sv w (idempotency_key_for A p ik) = None"
    and "counted_to A sv zv w (normalize_ingest_key hdr) m n" "clock_in_window A m"
    and "0 \<le> n" "ea_ingest_rate_limit_per_minute A \<le> n" "n + 1 < 2 ^ 63"
    and "\<And>k x t. frame v (r_set_nx_ex (ea_redis A) k x t)" "\<And>k. frame v (r_incr (ea_redis A) k)"
    and "\<And>k t. frame v (r_expire (ea_redis A) k t)"
  shows "\<exists>w1 w2. ingest_event A payload (Some hdr) (Some ik) w = (Inl (HTTPException 429 ''rate limit exceeded''), w1) \<and>
     ingest_event A payload (Some hdr) (Some ik) w1 = (Inr ''accepted'', w2) \<and> v w2 = v w"
proof -
  let ?key = "normalize_ingest_key hdr"
  obtain wa where a: "is_duplicate A p (Some ik) w = (Inr False, wa)" "ok wa" "zv wa = zv w"
    "sv wa (idempotency_key_for A p ik) \<noteq> None" "\<forall>k. k \<noteq> idempotency_key_for A p ik \<longrightarrow> sv wa k = sv w k"
    using duplicate_answer [OF assms(1,2,4-6)] assms(7) by auto
  have "counted_to A sv zv wa ?key m n" using assms(8) a(3,5) by (simp add: counted_to_def)
  from rate_limit_step [OF assms(1) a(2) this assms(9,10,12)] assms(11) obtain w1 where
    1: "enforce_rate_limit A ?key wa = (Inl (HTTPException 429 ''rate limit exceeded''), w1)" "ok w1" "zv w1 = zv w"
      "sv w1 (idempotency_key_for A p ik) \<noteq> None" using a(3,4) by auto
  have t: "frame v (ea_time A)"
    using assms(9) unfolding clock_in_window_def frame_def by (metis snd_conv)
  have h: "frame v (case e of HTTPException _ _ \<Rightarrow> raise e | _ \<Rightarrow> ret ())" for e by (cases e) simp_all
  have fd: "frame v (is_duplicate A p (Some ik))"
    unfolding is_duplicate_def by (intro frame_if frame_try frame_bnd frame_ret assms(13))
  have fr: "frame v (enforce_rate_limit A ?key)"
    unfolding enforce_rate_limit_def Let_def
    by (intro frame_if frame_try frame_bnd frame_when frame_ret frame_raise assms(14,15) t h)
  have v1: "v w1 = v w" using frameD [OF fd a(1)] frameD [OF fr 1(1)] by simp
  have "ingest_event A payload (Some hdr) (Some ik) w = (Inl (HTTPException 429 ''rate limit exceeded''), w1)"
    using a(1) 1(1) by (simp add: endpoint_resolved [OF assms(3,2)] http_guard_def try_except_def bnd_def)
  moreover obtain w2 where "ingest_event A payload (Some hdr) (Some ik) w1 = (Inr ''accepted'', w2)" "v w2 = v w1"
    using duplicate_run [OF assms(1) 1(2) assms(3-5) _ 1(4) assms(13)] assms(6) 1(3) by metis
  ultimately show ?thesis using v1 by metis
qed

section \<open>Redis failures\<close>

text \<open>
  Ingestion fails open. When every Redis command raises, a request with a valid key is neither
  recognised as a repetition nor refused: its event is built and ingested.
\<close>

theorem redis_down_fails_open:
  assumes "key_resolves A ok hdr p" "ok w" "\<exists>t. ea_time A w = (Inr t, w)"
    and "\<And>k x t. r_set_nx_ex (ea_redis A) k x t w = (Inl (BackendError reason), w)"
    and "\<And>k. r_incr (ea_redis A) k w = (Inl (BackendError cause), w)"
  shows "ingest_event A payload (Some hdr) ik w = http_guard ''Failed to ingest event'' (ingest_payload A p payload) w"
proof -
  have "is_duplicate A p ik w = (Inr False, w)" using assms(4) by (simp add: is_duplicate_def bnd_def try_except_def)
  moreover have "enforce_rate_limit A (normalize_ingest_key hdr) w = (Inr (), w)"
    using assms(3,5) by (auto simp: enforce_rate_limit_def bnd_def try_except_def Let_def)
  ultimately show ?thesis by (simp add: endpoint_resolved [OF assms(1,2)] http_guard_def try_except_def bnd_def)
qed

section \<open>An endpoint on the in-memory Redis client\<close>

definition fixed_table :: "'r list \<Rightarrow> ('w, 'r) db_table" where
  "fixed_table xs = list_table (\<lambda>_. xs) (\<lambda>_ w. w) (\<lambda>_. []) (\<lambda>_ _. False)"

definition demo_project :: project where
  "demo_project = \<lparr> pr_id = ''p1'', pr_name = ''n'', pr_user_id = Some ''u'', pr_created_at = 0,
     pr_protect_enabled = False, pr_protect_fail_mode = ''open'', pr_apply_clamp = False, pr_max_req_per_min = None,
     pr_max_tok_per_min = None, pr_webhook_enabled = False, pr_email_enabled = False, pr_webhook_url = None \<rparr>"

definition demo_ingest_key :: ingest_key where
  "demo_ingest_key = \<lparr> ik_id = ''i'', ik_project_id = ''p1'', ik_name = ''k'', ik_key_hash = ''secret'', ik_last4 = None,
     ik_status = ''active'', ik_created_at = 0, ik_revoked_at = None \<rparr>"

definition demo_projects :: "fake_redis_state project_repo" where
  "demo_projects = ProjectRepositoryImpl \<lparr> pt_projects = fixed_table [demo_project], pt_models = fixed_table [],
     pt_keys = fixed_table [demo_ingest_key], pt_events = fixed_table [], pt_incidents = fixed_table [], pt_new_id = ret ''m'' \<rparr>"

definition demo_events_api :: "fake_redis_state events_api" where
  "demo_events_api = \<lparr>
     ea_service = IngestEventService (EventRepositoryImpl (fixed_table [])) (RollingWindow fake_redis 0 ''m'')
       (IncidentRepositoryImpl (fixed_table []) (ret 0)) 300 None None (Some demo_projects) None (ret ''x'') (ret 0),
     ea_keys = \<lparr> kv_keys = IngestKeyRepositoryImpl (fixed_table [demo_ingest_key]), kv_projects = demo_projects,
       kv_hash = (\<lambda>s. s), kv_generate = ret ''k'', kv_new_id = ret ''i'', kv_clock = ret 0 \<rparr>,
     ea_redis = fake_redis, ea_idempotency_ttl_seconds = 120, ea_rate_limit_window_seconds = 60,
     ea_ingest_rate_limit_per_minute = 2, ea_time = ret 100, ea_clock = ret 0, ea_new_id = ret ''e'' \<rparr>"

definition demo_payload :: event_in where
  "demo_payload = \<lparr> ei_ts = 0, ei_provider = ''openai'', ei_requested_model = None, ei_resolved_model = None,
     ei_environment = None, ei_status = None, ei_request = None, ei_response = None \<rparr>"

lemma demo_key_normal: "normalize_ingest_key ''secret'' = ''secret''"
  by code_simp

lemma demo_key_resolves: "key_resolves demo_events_api ok ''secret'' ''p1''"
  by (simp add: key_resolves_def demo_key_normal demo_events_api_def resolve_project_id_def resolve_project_def
      IngestKeyRepositoryImpl_def get_active_by_hash_def demo_projects_def ProjectRepositoryImpl_def get_project_def
      fixed_table_def list_table_def bnd_def first_row_def demo_ingest_key_def demo_project_def project_to_domain_def)

lemma demo_clock: "clock_in_window demo_events_api 1"
proof -
  have "py_trunc 100 = 100" by code_simp
  then show ?thesis by (simp add: clock_in_window_def demo_events_api_def)
qed

lemma demo_redis: "redis_contract (ea_redis demo_events_api) fake_ok fake_sv fake_zv"
  using fr.redis_contract_axioms by (simp add: demo_events_api_def)

theorem rate_limit_window_witness:
  "rate_results demo_events_api ''secret'' 3 fake_empty = [True, True, False]"
  using rate_limit_window [OF demo_redis fake_empty_views(1) demo_clock, of "''secret''" 3]
  by (simp add: demo_events_api_def fake_sv_def fake_zv_def fake_empty_def numeral_eq_Suc)

text \<open>A world in which the window's budget is used up.\<close>

definition spent :: fake_redis_state where
  "spent = fake_empty\<lparr> fvalues := (\<lambda>k. if k = rate_limit_key demo_events_api ''secret'' 1 then Some (RStr ''2'') else None) \<rparr>"

theorem rate_limited_retry_lost_witness:
  "\<exists>w1 w2. ingest_event demo_events_api demo_payload (Some ''secret'') (Some ''id-1'') spent =
       (Inl (HTTPException 429 ''rate limit exceeded''), w1) \<and>
     ingest_event demo_events_api demo_payload (Some ''secret'') (Some ''id-1'') w1 = (Inr ''accepted'', w2) \<and>
     fzsets w2 = fzsets spent"
proof -
  have f: "frame fzsets (r_set_nx_ex (ea_redis demo_events_api) k x t)" "frame fzsets (r_incr (ea_redis demo_events_api) k)"
    "frame fzsets (r_expire (ea_redis demo_events_api) k t)" for k x t
    by (simp_all add: demo_events_api_def fake_defs frame_def split: sum.split)
  have "fake_ok spent" "fake_zv spent k = Map.empty" for k
    by (simp_all add: spent_def fake_ok_def fake_zv_def fake_empty_def)
  moreover have "py_str_int 2 = ''2''" by code_simp
  then have "counted_to demo_events_api fake_sv fake_zv spent ''secret'' 1 2"
    by (simp add: counted_to_def spent_def fake_sv_def fake_zv_def fake_empty_def counter_text_def)
  moreover have "fake_sv spent (idempotency_key_for demo_events_api ''p1'' ''id-1'') = None"
    by (simp add: spent_def fake_sv_def)
  moreover have "0 < ea_idempotency_ttl_seconds demo_events_api" "ea_ingest_rate_limit_per_minute demo_events_api \<le> 2"
    by (simp_all add: demo_events_api_def)
  ultimately show ?thesis
    using rate_limited_retry_lost [OF demo_redis _ demo_key_resolves _ _ _ _ _ demo_clock, where w = spent and ik = "''id-1''"
        and n = 2 and v = fzsets and payload = demo_payload, OF _ _ _ _ _ _ _ _ _ f] by (simp add: demo_key_normal)
qed

text \<open>The client of a Redis server that is down.\<close>

definition down_redis :: "'w redis_client" where
  "down_redis = RedisClient \<lparr> raw_get = (\<lambda>_. raise (BackendError ''down'')),
     raw_set = (\<lambda>_ _ _ _. raise (BackendError ''down'')), raw_zadd = (\<lambda>_ _ _. raise (BackendError ''down'')),
     raw_zremrangebyscore = (\<lambda>_ _ _. raise (BackendError ''down'')), raw_zcard = (\<lambda>_. raise (BackendError ''down'')),
     raw_zrangebyscore = (\<lambda>_ _ _. raise (BackendError ''down'')), raw_zrem = (\<lambda>_ _. raise (BackendError ''down'')),
     raw_incr = (\<lambda>_. raise (BackendError ''down'')), raw_incrby = (\<lambda>_ _. raise (BackendError ''down'')),
     raw_expire = (\<lambda>_ _. raise (BackendError ''down'')), raw_delete = (\<lambda>_. raise (BackendError ''down'')) \<rparr>"

theorem redis_down_fails_open_witness:
  "ingest_event (demo_events_api\<lparr> ea_redis := down_redis \<rparr>) demo_payload (Some ''secret'') (Some ''id-1'') fake_empty =
   http_guard ''Failed to ingest event'' (ingest_payload (demo_events_api\<lparr> ea_redis := down_redis \<rparr>) ''p1'' demo_payload) fake_empty"
proof (rule redis_down_fails_open [where ok = "\<lambda>_. True" and reason = "''down''" and cause = "''down''"])
  show "key_resolves (demo_events_api\<lparr> ea_redis := down_redis \<rparr>) (\<lambda>_. True) ''secret'' ''p1''"
    using demo_key_resolves [of "\<lambda>_. True"] by (simp add: key_resolves_def)
qed (simp_all add: demo_events_api_def down_redis_def RedisClient_def bnd_def)

end
