(* ===== verification/Metrics_Service.thy ===== *)
theory Metrics_Service
  imports Rolling_Window Protect_Service Outbox_Repository Project_Service
begin

text \<open>
  The dashboard's metrics (\<open>app/application/services/metrics_service.py\<close>, \<open>app/api/v1/metrics.py\<close>): the
  counters of a project are kept per provider and added up over the providers the project is known to
  use. \<open>mt_clock\<close> is \<open>datetime.now(timezone.utc)\<close>, which the action store and the service read.
\<close>

section \<open>The service\<close>

record 'w metrics_service =
  mt_counters :: "'w counter_store"
  mt_actions :: "'w redis_client"
  mt_projects :: "'w project_repo"
  mt_outbox :: "'w outbox_repo option"
  mt_clock :: "('w, datetime) py"

definition project_providers_for_aggregation ::
  "'w metrics_service \<Rightarrow> string \<Rightarrow> string option \<Rightarrow> ('w, string list) py" where
  "project_providers_for_aggregation M project_id provider =
     (if truthy provider then ret [the provider]
      else bnd (pp_list_project_providers (mt_projects M) project_id) (\<lambda>providers.
           ret (if providers \<noteq> [] then providers else [''openai'', ''anthropic'', ''google'', ''unknown''])))"

definition get_realtime :: "'w metrics_service \<Rightarrow> string \<Rightarrow> string option \<Rightarrow> ('w, int \<times> int) py" where
  "get_realtime M project_id provider =
     logged (bnd (project_providers_for_aggregation M project_id provider) (\<lambda>providers.
       bnd (map_py (\<lambda>p. cs_get (mt_counters M) (scoped_project_provider_id project_id (Some p))) providers) (\<lambda>counts.
       ret (sum_list (map fst counts), sum_list (map snd counts)))))"

text \<open>\<open>round\<close> of a float: to the nearest integer, halves to the even one.\<close>

definition py_round :: "rat \<Rightarrow> int" where
  "py_round x = (let d = x - of_int \<lfloor>x\<rfloor> in
     if d < 1 / 2 \<or> d = 1 / 2 \<and> even \<lfloor>x\<rfloor> then \<lfloor>x\<rfloor> else \<lfloor>x\<rfloor> + 1)"

definition mean_of :: "int list \<Rightarrow> int option" where
  "mean_of xs = (if xs = [] then None
     else Some (py_round (py_div (of_int (sum_list xs)) (of_int (int (length xs))))))"

text \<open>The newest outcome so far, updated by that of one more provider.\<close>

definition later_last :: "outcome option \<Rightarrow> outcome option \<Rightarrow> outcome option" where
  "later_last latest raw_last = (case raw_last of
     None \<Rightarrow> latest
   | Some r \<Rightarrow> if o_ts r \<noteq> [] \<and> \<not> str_lt (o_ts r) (case latest of None \<Rightarrow> [] | Some l \<Rightarrow> o_ts l) then Some r else latest)"

definition provider_metrics :: "'w metrics_service \<Rightarrow> string \<Rightarrow> string \<Rightarrow> ('w, protect_metrics) py" where
  "provider_metrics M project_id p =
     bnd (mt_clock M) (\<lambda>now. bnd (mt_clock M) (\<lambda>now'.
     get_metrics (mt_actions M) now now' (scoped_project_provider_id project_id (Some p))))"

definition get_protect_metrics :: "'w metrics_service \<Rightarrow> string \<Rightarrow> string option \<Rightarrow> ('w, protect_metrics) py" where
  "get_protect_metrics M project_id provider =
     logged (bnd (project_providers_for_aggregation M project_id provider) (\<lambda>providers.
       bnd (map_py (provider_metrics M project_id) providers) (\<lambda>raws.
       ret \<lparr> m_allowed_60m = sum_list (map m_allowed_60m raws), m_clamped_60m = sum_list (map m_clamped_60m raws),
             m_blocked_60m = sum_list (map m_blocked_60m raws),
             m_decision_timeouts_60m = sum_list (map m_decision_timeouts_60m raws),
             m_last = fold (\<lambda>r latest. later_last latest (m_last r)) raws None,
             m_latency_p50 = mean_of (List.map_filter m_latency_p50 raws),
             m_latency_p95 = mean_of (List.map_filter m_latency_p95 raws) \<rparr>)))"

definition get_protect_health :: "'w metrics_service \<Rightarrow> string \<Rightarrow> string option \<Rightarrow> ('w, health) py" where
  "get_protect_health M project_id provider =
     logged (bnd (project_providers_for_aggregation M project_id provider) (\<lambda>providers.
       bnd (map_py (\<lambda>p. bnd (mt_clock M) (\<lambda>now. bnd (mt_clock M) (\<lambda>now'.
          get_health (mt_actions M) now now' (scoped_project_provider_id project_id (Some p))))) providers) (\<lambda>raws.
       ret \<lparr> h_p50_ms = mean_of (List.map_filter h_p50_ms raws), h_p95_ms = mean_of (List.map_filter h_p95_ms raws),
             h_timeouts_60m = sum_list (map h_timeouts_60m raws), h_timeouts_30m = sum_list (map h_timeouts_30m raws) \<rparr>)))"

text \<open>The alerts that could not be delivered in the last day, and when that was last tried.\<close>

definition get_delivery_failures :: "'w metrics_service \<Rightarrow> string \<Rightarrow> string \<Rightarrow> ('w, int \<times> string option) py" where
  "get_delivery_failures M project_id kind = (case mt_outbox M of
     None \<Rightarrow> ret (0, None)
   | Some R \<Rightarrow>
       bnd (mt_clock M) (\<lambda>now.
       let cutoff = now - seconds (24 * 3600);
           exclude_event_types = (if kind = ''webhook'' then [''webhook.test''] else [])
       in bnd (obr_count_failed_or_dead R project_id kind exclude_event_types (Some cutoff)) (\<lambda>count.
          bnd (obr_get_latest_terminal R project_id kind exclude_event_types (Some cutoff)) (\<lambda>latest.
          case latest of
            None \<Rightarrow> ret (0, None)
          | Some r \<Rightarrow>
              if ob_status r = ''delivered'' then ret (0, None)
              else ret (count, if ob_status r \<in> {''failed'', ''dead''}
                 then Some (isoformat (case ob_delivered_at r of None \<Rightarrow> ob_updated_at r | Some t \<Rightarrow> t)) else None)))))"

section \<open>The endpoints\<close>

text \<open>Each first checks that the project belongs to the user.\<close>

definition owned_metrics ::
  "'w project_repo \<Rightarrow> string \<Rightarrow> string \<Rightarrow> string \<Rightarrow> ('w, 'a) py \<Rightarrow> ('w, 'a) py" where
  "owned_metrics P detail project_id user_id m =
     http_guard detail (bnd (ensure_project_owned_by_user P project_id user_id) (\<lambda>_. m))"

definition realtime_endpoint ::
  "'w project_repo \<Rightarrow> 'w metrics_service \<Rightarrow> string \<Rightarrow> string option \<Rightarrow> string \<Rightarrow> ('w, int \<times> int) py" where
  "realtime_endpoint P M project_id provider user_id =
     owned_metrics P ''Failed to fetch realtime metrics'' project_id user_id (get_realtime M project_id provider)"

definition protect_metrics_endpoint ::
  "'w project_repo \<Rightarrow> 'w metrics_service \<Rightarrow> string \<Rightarrow> string option \<Rightarrow> string \<Rightarrow> ('w, protect_metrics) py" where
  "protect_metrics_endpoint P M project_id provider user_id =
     owned_metrics P ''Failed to fetch protect metrics'' project_id user_id (get_protect_metrics M project_id provider)"

definition protect_health_endpoint ::
  "'w project_repo \<Rightarrow> 'w metrics_service \<Rightarrow> string \<Rightarrow> string option \<Rightarrow> string \<Rightarrow> ('w, health) py" where
  "protect_health_endpoint P M project_id provider user_id =
     owned_metrics P ''Failed to fetch protect health'' project_id user_id (get_protect_health M project_id provider)"

definition delivery_failures_endpoint ::
  "'w project_repo \<Rightarrow> 'w metrics_service \<Rightarrow> string \<Rightarrow> string \<Rightarrow> string \<Rightarrow> ('w, int \<times> string option) py" where
  "delivery_failures_endpoint P M project_id kind user_id =
     owned_metrics P ''Failed to fetch delivery failures'' project_id user_id
       (get_delivery_failures M project_id (if kind = ''email'' then ''email'' else ''webhook''))"

section \<open>Totals\<close>

definition recent_requests :: "int \<Rightarrow> entry list \<Rightarrow> int" where
  "recent_requests now es = fst (win_totals (win_recent now es))"

definition recent_tokens :: "int \<Rightarrow> entry list \<Rightarrow> int" where
  "recent_tokens now es = snd (win_totals (win_recent now es))"

context redis_contract
begin

lemma windows_read:
  assumes "ok w" "\<forall>q \<in> set qs. win_rep sv zv w (f q) (es q)" "distinct (map f qs)"
  shows "\<exists>w'. map_py (\<lambda>q. get_project_60s R now (f q)) qs w = (Inr (map (\<lambda>q. win_totals (win_recent now (es q))) qs), w') \<and> ok w'"
  using assms
proof (induction qs arbitrary: w)
  case (Cons q qs)
  from get_refines [OF Cons.prems(1), of "f q" "es q" now] Cons.prems(2) obtain w1 where
    1: "get_project_60s R now (f q) w = (Inr (win_totals (win_recent now (es q))), w1)" "ok w1" "sv w1 = sv w"
      "\<forall>k. k \<noteq> requests_60s_key (f q) \<and> k \<noteq> tokens_60s_key (f q) \<longrightarrow> zv w1 k = zv w k" by auto
  have "win_rep sv zv w1 (f x) (es x)" if x: "x \<in> set qs" for x
  proof -
    have "f q \<notin> f ` set qs" using Cons.prems(3) by simp
    then have "f x \<noteq> f q" using x by (metis imageI)
    moreover have "win_rep sv zv w (f x) (es x)" using Cons.prems(2) x by simp
    ultimately show ?thesis using 1(3,4) by (simp add: win_rep_def)
  qed
  then have "\<forall>x \<in> set qs. win_rep sv zv w1 (f x) (es x)" by blast
  from Cons.IH [OF 1(2) this] Cons.prems(3) obtain w2 where
    "map_py (\<lambda>q. get_project_60s R now (f q)) qs w1 = (Inr (map (\<lambda>q. win_totals (win_recent now (es q))) qs), w2)" "ok w2" by auto
  then show ?case using 1(1) by (simp add: bnd_def)
qed simp

end

text \<open>
  The realtime figures of a project are the sums over its providers. With the provider windows holding
  the entries \<open>es q\<close>, the answer is the number of requests, and of their tokens, less than 60 seconds old,
  added up over the providers the project has used (each counted once), or over the four standard ones when
  it has used none yet; and with a provider selected, those of that provider.
\<close>

theorem realtime_totals:
  assumes "redis_contract R ok sv zv" "ok w" "mt_counters M = RollingWindow R now member_id"
    and "pp_list_project_providers (mt_projects M) p w = (Inr ps, w)"
    and "qs = (if truthy provider then [the provider]
               else if ps \<noteq> [] then ps else [''openai'', ''anthropic'', ''google'', ''unknown''])"
    and "distinct (map (\<lambda>q. normalized_provider (Some q)) qs)"
    and "\<forall>q \<in> set qs. win_rep sv zv w (scoped_project_provider_id p (Some q)) (es q)"
  shows "\<exists>w'. get_realtime M p provider w = (Inr ((\<Sum>q \<leftarrow> qs. recent_requests now (es q)), (\<Sum>q \<leftarrow> qs. recent_tokens now (es q))), w')"
proof -
  have providers: "project_providers_for_aggregation M p provider w = (Inr qs, w)"
    using assms(4,5) by (simp add: project_providers_for_aggregation_def bnd_def)
  have "distinct (map (\<lambda>q. scoped_project_provider_id p (Some q)) qs)"
    using assms(6) by (simp add: scoped_project_provider_id_def distinct_map inj_on_def)
  from redis_contract.windows_read [OF assms(1,2,7) this, of now] obtain w' where
    "map_py (\<lambda>q. get_project_60s R now (scoped_project_provider_id p (Some q))) qs w =
       (Inr (map (\<lambda>q. win_totals (win_recent now (es q))) qs), w')" by blast
  then show ?thesis
    using providers assms(3)
    by (intro exI [of _ w'])
      (simp add: get_realtime_def bnd_def RollingWindow_def recent_requests_def recent_tokens_def comp_def)
qed

text \<open>A project repository that knows two providers and nothing else.\<close>

definition providers_only :: "string list \<Rightarrow> 'w project_repo" where
  "providers_only ps = \<lparr> pp_list_projects = ret [], pp_list_projects_for_user = (\<lambda>_. ret []), pp_get_project = (\<lambda>_. ret None),
     pp_create_project = ret, pp_get_project_by_name = (\<lambda>_. ret None), pp_get_project_by_name_for_user = (\<lambda>_ _. ret None),
     pp_update_protect_settings = (\<lambda>_ _ _ _ _ _. ret None), pp_update_webhook_settings = (\<lambda>_ _ _ _. ret None),
     pp_record_model_first_seen = (\<lambda>_ _ _ _. ret (False, True)), pp_count_project_models = (\<lambda>_. ret 2),
     pp_list_project_providers = (\<lambda>_. ret ps), pp_delete_project = (\<lambda>_. ret False) \<rparr>"

definition example_metrics :: "fake_redis_state metrics_service" where
  "example_metrics = \<lparr> mt_counters = RollingWindow fake_redis 61000 ''m'', mt_actions = fake_redis,
     mt_projects = providers_only [''anthropic'', ''openai''],
     mt_outbox = None, mt_clock = ret 61000000 \<rparr>"

theorem realtime_totals_witness:
  "\<exists>w'. get_realtime example_metrics ''p'' None fake_empty = (Inr (0, 0), w')"
proof -
  have "strip ''openai'' = ''openai''" "strip ''anthropic'' = ''anthropic''" by code_simp+
  then have "distinct (map (\<lambda>q. normalized_provider (Some q)) [''anthropic'', ''openai''])"
    by (simp add: normalized_provider_def opt_or_def or_str_def)
  then show ?thesis
    using realtime_totals [OF fr.redis_contract_axioms fake_empty_views(1), of example_metrics 61000 "''m''" "''p''"
        "[''anthropic'', ''openai'']" "[''anthropic'', ''openai'']" None "\<lambda>_. []"]
      win_rep_empty [of _ 0]
    by (simp add: example_metrics_def providers_only_def truthy_def win_recent_def recent_requests_def recent_tokens_def win_totals_def)
qed

end
