(* ===== verification/Webhook_Api.thy ===== *)
theory Webhook_Api
  imports Auth_Api Transport_Job Project_Service
begin

text \<open>
  Webhook targets and their settings (\<open>app/security/webhook_urls.py\<close>, \<open>app/api/v1/webhook.py\<close>): a target is
  accepted when its URL is an HTTP one without credentials and neither its name nor any of its addresses
  is a local or private one. \<open>urlparse\<close>, the address classes of the module \<open>ipaddress\<close> and the resolver
  are parameters, like the HTTP client.
\<close>

section \<open>The check of a target\<close>

record url_parts =
  up_scheme :: string
  up_hostname :: "string option"
  up_username :: "string option"
  up_password :: "string option"
  up_port :: "exn + int option"

text \<open>
  \<open>nt_disallowed\<close> is \<open>None\<close> for a text that is no address, and else tells whether the address is private,
  loopback, link-local, multicast, reserved or unspecified; \<open>nt_resolve\<close> answers \<open>None\<close> for a name it cannot
  resolve.
\<close>

record 'w net =
  nt_urlparse :: "string \<Rightarrow> exn + url_parts"
  nt_disallowed :: "string \<Rightarrow> bool option"
  nt_resolve :: "string \<Rightarrow> int \<Rightarrow> ('w, string list option) py"

definition normalize_webhook_url :: "string option \<Rightarrow> string option" where
  "normalize_webhook_url v = (case v of None \<Rightarrow> None | Some s \<Rightarrow> (if strip s = [] then None else Some (strip s)))"

abbreviation url_refused :: "string \<Rightarrow> exn" where
  "url_refused why \<equiv> HTTPException 422 (''Webhook URL '' @ why)"

definition raise_if_disallowed_ip :: "'w net \<Rightarrow> string \<Rightarrow> ('w, unit) py" where
  "raise_if_disallowed_ip N address = (case nt_disallowed N address of
     None \<Rightarrow> raise (ValueError ''not an address'')
   | Some bad \<Rightarrow> if bad then raise (url_refused ''host is not allowed'') else ret ())"

definition ensure_webhook_url_is_safe :: "'w net \<Rightarrow> bool \<Rightarrow> string \<Rightarrow> ('w, unit) py" where
  "ensure_webhook_url_is_safe N allow_private_hosts url =
     bnd (py_raise_sum (nt_urlparse N url)) (\<lambda>parsed.
     if up_scheme parsed \<notin> {''http'', ''https''} then raise (url_refused ''must use http or https'')
     else if \<not> truthy (up_hostname parsed) then raise (url_refused ''must include a hostname'')
     else if truthy (up_username parsed) \<or> truthy (up_password parsed)
       then raise (url_refused ''must not include credentials'')
     else if allow_private_hosts then ret ()
     else let host = the (up_hostname parsed); lowered_host = lower host in
       if lowered_host \<in> {''localhost'', ''ip6-localhost''} \<or> endswith lowered_host ''.local''
         then raise (url_refused ''host is not allowed'')
       else if nt_disallowed N lowered_host \<noteq> None then raise_if_disallowed_ip N lowered_host
       else bnd (py_raise_sum (up_port parsed)) (\<lambda>port.
            bnd (nt_resolve N host (case port of None \<Rightarrow> 443 | Some p \<Rightarrow> if p = 0 then 443 else p)) (\<lambda>resolved.
            case resolved of None \<Rightarrow> ret () | Some addresses \<Rightarrow> seq_all (map (raise_if_disallowed_ip N) addresses))))"

section \<open>The settings\<close>

record project_webhook_out =
  wo_enabled :: bool
  wo_email_enabled :: bool
  wo_url :: "string option"
  wo_last_status :: "string option"
  wo_last_at :: "datetime option"
  wo_last_error :: "string option"

text \<open>\<open>wh_post\<close> answers the status of the response, or the text of a network error that is no timeout.\<close>

record 'w webhook_api =
  wh_projects :: "'w project_service"
  wh_outbox :: "'w outbox_repo"
  wh_redis :: "'w redis_client"
  wh_net :: "'w net"
  wh_post :: "string \<Rightarrow> pydict \<Rightarrow> ('w, int + string) py"
  wh_allow_private_hosts :: bool
  wh_trust_proxy_headers :: bool
  wh_test_window_seconds :: int
  wh_test_limit :: int
  wh_time :: "('w, rat) py"
  wh_clock :: "('w, datetime) py"

definition latest_terminal :: "'w webhook_api \<Rightarrow> string \<Rightarrow> ('w, transport_outbox option) py" where
  "latest_terminal A project_id = obr_get_latest_terminal (wh_outbox A) project_id ''webhook'' [''webhook.test''] None"

definition last_status_from_outbox :: "'w webhook_api \<Rightarrow> string \<Rightarrow> ('w, string option) py" where
  "last_status_from_outbox A project_id = bnd (latest_terminal A project_id) (\<lambda>latest. ret (case latest of
     None \<Rightarrow> None
   | Some r \<Rightarrow> if ob_status r = ''delivered'' then Some ''success''
               else if ob_status r \<in> {''failed'', ''dead''} then Some ''failed'' else None))"

definition last_at_from_outbox :: "'w webhook_api \<Rightarrow> string \<Rightarrow> ('w, datetime option) py" where
  "last_at_from_outbox A project_id = bnd (latest_terminal A project_id) (\<lambda>latest. ret (case latest of
     None \<Rightarrow> None
   | Some r \<Rightarrow> Some (case ob_delivered_at r of None \<Rightarrow> ob_updated_at r | Some t \<Rightarrow> t)))"

definition last_error_from_outbox :: "'w webhook_api \<Rightarrow> string \<Rightarrow> ('w, string option) py" where
  "last_error_from_outbox A project_id =
     bnd (latest_terminal A project_id) (\<lambda>latest. ret (Option.bind latest ob_last_error_message))"

definition project_webhook_out_of :: "'w webhook_api \<Rightarrow> string \<Rightarrow> project \<Rightarrow> ('w, project_webhook_out) py" where
  "project_webhook_out_of A project_id p =
     bnd (last_status_from_outbox A project_id) (\<lambda>last_status.
     bnd (last_at_from_outbox A project_id) (\<lambda>last_at.
     bnd (last_error_from_outbox A project_id) (\<lambda>last_error.
     ret \<lparr> wo_enabled = pr_webhook_enabled p, wo_email_enabled = pr_email_enabled p, wo_url = pr_webhook_url p,
           wo_last_status = last_status, wo_last_at = last_at, wo_last_error = last_error \<rparr>)))"

definition get_project_webhook :: "'w webhook_api \<Rightarrow> string \<Rightarrow> string \<Rightarrow> ('w, project_webhook_out) py" where
  "get_project_webhook A project_id user_id =
     http_guard ''Failed to fetch project webhook settings''
       (bnd (service_get_settings (wh_projects A) project_id user_id) (project_webhook_out_of A project_id))"

definition check_target :: "'w webhook_api \<Rightarrow> string \<Rightarrow> ('w, unit) py" where
  "check_target A url = ensure_webhook_url_is_safe (wh_net A) (wh_allow_private_hosts A) url"

definition update_project_webhook ::
  "'w webhook_api \<Rightarrow> string \<Rightarrow> bool \<Rightarrow> bool \<Rightarrow> string option \<Rightarrow> string \<Rightarrow> ('w, project_webhook_out) py" where
  "update_project_webhook A project_id enabled email_enabled url user_id =
     http_guard ''Failed to update project webhook settings''
       (bnd (service_get_settings (wh_projects A) project_id user_id) (\<lambda>_.
        let normalized_url = normalize_webhook_url url in
        bnd (case normalized_url of None \<Rightarrow> ret () | Some u \<Rightarrow> check_target A u) (\<lambda>_.
        if enabled \<and> \<not> truthy normalized_url
          then raise (HTTPException 422 ''url is required when webhook is enabled'')
        else bnd (service_update_webhook_settings (wh_projects A) project_id user_id enabled email_enabled normalized_url)
               (project_webhook_out_of A project_id))))"

section \<open>Trying a webhook\<close>

definition webhook_test_rate_limit_key :: "string \<Rightarrow> string \<Rightarrow> string \<Rightarrow> int \<Rightarrow> string" where
  "webhook_test_rate_limit_key project_id user_id client window_epoch =
     ''webhook_test_rl:'' @ project_id @ '':'' @ user_id @ '':'' @ client @ '':'' @ py_str_int window_epoch"

definition enforce_webhook_test_rate_limit :: "'w webhook_api \<Rightarrow> auth_request \<Rightarrow> string \<Rightarrow> string \<Rightarrow> ('w, unit) py" where
  "enforce_webhook_test_rate_limit A request project_id user_id =
     (let window_seconds = max (wh_test_window_seconds A) 1 in
      bnd (wh_time A) (\<lambda>now.
      let key = webhook_test_rate_limit_key project_id user_id (client_ip (wh_trust_proxy_headers A) request)
                  (py_trunc now div window_seconds)
      in try_except
           (bnd (r_incr (wh_redis A) key) (\<lambda>counter.
            bnd (when_py (counter = 1) (bnd (r_expire (wh_redis A) key window_seconds) (\<lambda>_. ret ()))) (\<lambda>_.
            if counter > wh_test_limit A then raise (HTTPException 429 ''rate limit exceeded'') else ret ())))
           (\<lambda>e. case e of HTTPException _ _ \<Rightarrow> raise e | _ \<Rightarrow> ret ())))"

record webhook_test_out =
  wt_status :: string
  wt_status_code :: "int option"
  wt_error :: "string option"

definition test_failed :: "int option \<Rightarrow> string \<Rightarrow> webhook_test_out" where
  "test_failed code error = \<lparr> wt_status = ''failed'', wt_status_code = code, wt_error = Some error \<rparr>"

definition send_webhook_test_request :: "'w webhook_api \<Rightarrow> string \<Rightarrow> string \<Rightarrow> ('w, int + string) py" where
  "send_webhook_test_request A project_id target_url =
     bnd (wh_clock A) (\<lambda>now.
     wh_post A target_url [(''event'', PStr ''webhook.test''), (''project_id'', PStr project_id),
       (''sent_at'', PStr (isoformat now))])"

definition test_project_webhook ::
  "'w webhook_api \<Rightarrow> auth_request \<Rightarrow> string \<Rightarrow> string option \<Rightarrow> string \<Rightarrow> ('w, webhook_test_out) py" where
  "test_project_webhook A request project_id url user_id =
     try_except
       (bnd (enforce_webhook_test_rate_limit A request project_id user_id) (\<lambda>_.
        bnd (service_get_settings (wh_projects A) project_id user_id) (\<lambda>project.
        let override_url = normalize_webhook_url url;
            target_url = (if truthy override_url then override_url else pr_webhook_url project)
        in if \<not> truthy target_url then raise (HTTPException 422 ''url is required for webhook test'')
           else bnd (check_target A (the target_url)) (\<lambda>_.
                bnd (send_webhook_test_request A project_id (the target_url)) (\<lambda>answer. ret (case answer of
                  Inl code \<Rightarrow> \<lparr> wt_status = ''success'', wt_status_code = Some code, wt_error = None \<rparr>
                | Inr text \<Rightarrow> test_failed None (or_str text ''Network error'')))))))
       (\<lambda>e. case e of
          HTTPStatusError code \<Rightarrow> ret (test_failed (Some code) (''HTTP '' @ py_str_int code))
        | HttpxTimeout _ \<Rightarrow> ret (test_failed None ''Timed out'')
        | HTTPException _ _ \<Rightarrow> raise e
        | _ \<Rightarrow> raise (HTTPException 500 ''Failed to send webhook test''))"

section \<open>Which targets are called\<close>

text \<open>The rules, for a URL with the given parts whose name resolves to \<open>addresses\<close>.\<close>

definition local_name :: "string \<Rightarrow> bool" where
  "local_name host \<longleftrightarrow> host \<in> {''localhost'', ''ip6-localhost''} \<or> endswith host ''.local''"

definition public_address :: "'w net \<Rightarrow> string \<Rightarrow> bool" where
  "public_address N a \<longleftrightarrow> nt_disallowed N a = Some False"

definition acceptable_target :: "'w net \<Rightarrow> bool \<Rightarrow> url_parts \<Rightarrow> string list option \<Rightarrow> bool" where
  "acceptable_target N allow_private parts addresses \<longleftrightarrow>
     up_scheme parts \<in> {''http'', ''https''} \<and> truthy (up_hostname parts) \<and>
     \<not> truthy (up_username parts) \<and> \<not> truthy (up_password parts) \<and>
     (allow_private \<or>
      (let host = lower (the (up_hostname parts)) in
         \<not> local_name host \<and>
         (if nt_disallowed N host = None then list_all (public_address N) (case addresses of None \<Rightarrow> [] | Some l \<Rightarrow> l) else public_address N host)))"

lemma addresses_checked:
  "seq_all (map (raise_if_disallowed_ip N) as) w = (Inr (), w) \<longleftrightarrow> list_all (public_address N) as"
  by (induction as)
    (auto simp: raise_if_disallowed_ip_def public_address_def bnd_def split: option.splits)

lemma address_checked: "raise_if_disallowed_ip N a w = (Inr (), w) \<longleftrightarrow> public_address N a"
  by (auto simp: raise_if_disallowed_ip_def public_address_def split: option.splits)


text \<open>A network with one public name, one private address and one name that leads to it.\<close>

definition example_net :: "unit net" where
  "example_net = \<lparr> nt_urlparse = (\<lambda>u. Inr \<lparr> up_scheme = ''https'', up_hostname = Some u, up_username = None,
       up_password = None, up_port = Inr None \<rparr>),
     nt_disallowed = (\<lambda>a. if a = ''10.0.0.7'' then Some True else if a = ''8.8.8.8'' then Some False else None),
     nt_resolve = (\<lambda>h _. ret (if h = ''a.io'' then Some [''8.8.8.8''] else if h = ''b.io'' then Some [''8.8.8.8'', ''10.0.0.7'']
       else None)) \<rparr>"


text \<open>A target that is refused is neither called by a test nor stored by an update.\<close>

theorem refused_target_unused:
  assumes "normalize_webhook_url url = Some t" "\<And>x. \<exists>e x'. check_target A t x = (Inl e, x')"
  shows "test_project_webhook (A\<lparr> wh_post := post \<rparr>) request p url u w = test_project_webhook A request p url u w"
    and "\<exists>e. fst (update_project_webhook A p enabled email url u w) = Inl e"
proof -
  have t: "truthy (Some t)"
    using assms(1) by (auto simp: normalize_webhook_url_def truthy_def split: option.splits if_splits)
  have same: "check_target (A\<lparr> wh_post := post \<rparr>) = check_target A"
    "enforce_webhook_test_rate_limit (A\<lparr> wh_post := post \<rparr>) = enforce_webhook_test_rate_limit A"
    by (simp_all add: fun_eq_iff check_target_def enforce_webhook_test_rate_limit_def)
  have stop: "bnd (check_target A t) f = bnd (check_target A t) g" for f g :: "unit \<Rightarrow> ('a, 'b) py"
  proof (rule ext)
    fix x show "bnd (check_target A t) f x = bnd (check_target A t) g x" using assms(2) [of x] by (auto simp: bnd_def)
  qed
  show "test_project_webhook (A\<lparr> wh_post := post \<rparr>) request p url u w = test_project_webhook A request p url u w"
    unfolding test_project_webhook_def same assms(1) using t
    by (simp add: Let_def) (subst stop [of _ "\<lambda>_. ret (test_failed None [])"], subst (2) stop [of _ "\<lambda>_. ret (test_failed None [])"], simp)
  show "\<exists>e. fst (update_project_webhook A p enabled email url u w) = Inl e"
    using assms(2) [of "snd (service_get_settings (wh_projects A) p u w)"]
    by (cases "service_get_settings (wh_projects A) p u w"; cases "fst (service_get_settings (wh_projects A) p u w)")
      (auto simp: update_project_webhook_def http_guard_def try_except_def bnd_def Let_def assms(1) split: exn.splits)
qed

end
