(* ===== verification/Project_Api.thy ===== *)
theory Project_Api
  imports Project_Service
begin

text \<open>
  The endpoints of projects and ingest keys (\<open>app/api/v1/projects.py\<close>, \<open>app/api/v1/keys.py\<close>). \<open>user_id\<close> is
  the id of the authenticated user. A key's text leaves the backend once, in the answer that creates it.
\<close>

section \<open>Projects\<close>

record project_out =
  po_id :: string
  po_name :: string
  po_created_at :: datetime

definition project_out_of :: "project \<Rightarrow> project_out" where
  "project_out_of p = \<lparr> po_id = pr_id p, po_name = pr_name p, po_created_at = pr_created_at p \<rparr>"

definition list_projects_endpoint :: "'w project_service \<Rightarrow> string \<Rightarrow> ('w, project_out list) py" where
  "list_projects_endpoint S user_id =
     http_guard ''Failed to list projects''
       (bnd (service_list_projects S user_id) (\<lambda>projects. ret (map project_out_of projects)))"

definition create_project_endpoint :: "'w project_service \<Rightarrow> string \<Rightarrow> string \<Rightarrow> ('w, project_out) py" where
  "create_project_endpoint S name user_id =
     http_guard ''Failed to create project''
       (bnd (service_create_project S name user_id) (\<lambda>p. ret (project_out_of p)))"

definition list_project_providers_endpoint :: "'w project_service \<Rightarrow> string \<Rightarrow> string \<Rightarrow> ('w, string list) py" where
  "list_project_providers_endpoint S project_id user_id =
     http_guard ''Failed to list project providers'' (service_list_providers S project_id user_id)"

definition delete_project_endpoint :: "'w project_service \<Rightarrow> string \<Rightarrow> string \<Rightarrow> ('w, string) py" where
  "delete_project_endpoint S project_id user_id =
     http_guard ''Failed to delete project''
       (bnd (service_delete_project S project_id user_id) (\<lambda>_. ret ''deleted''))"

section \<open>Keys\<close>

record key_summary_out =
  ko_id :: string
  ko_name :: string
  ko_last4 :: "string option"
  ko_status :: string
  ko_created_at :: datetime
  ko_revoked_at :: "datetime option"

definition key_summary :: "ingest_key \<Rightarrow> key_summary_out" where
  "key_summary k = \<lparr> ko_id = ik_id k, ko_name = ik_name k, ko_last4 = ik_last4 k, ko_status = ik_status k,
     ko_created_at = ik_created_at k, ko_revoked_at = ik_revoked_at k \<rparr>"

record create_key_out =
  kc_key :: string
  kc_key_id :: string
  kc_name :: string
  kc_last4 :: "string option"
  kc_created_at :: datetime

definition create_key_out_of :: "ingest_key \<times> string \<Rightarrow> create_key_out" where
  "create_key_out_of created = (case created of (k, plaintext) \<Rightarrow>
     \<lparr> kc_key = plaintext, kc_key_id = ik_id k, kc_name = ik_name k, kc_last4 = ik_last4 k,
       kc_created_at = ik_created_at k \<rparr>)"

definition list_keys_endpoint :: "'w ingest_key_service \<Rightarrow> string \<Rightarrow> string \<Rightarrow> ('w, key_summary_out list) py" where
  "list_keys_endpoint K project_id user_id =
     http_guard ''Failed to list keys'' (bnd (service_list_keys K project_id user_id) (\<lambda>ks. ret (map key_summary ks)))"

definition create_key_endpoint ::
  "'w ingest_key_service \<Rightarrow> string \<Rightarrow> string \<Rightarrow> string \<Rightarrow> ('w, create_key_out) py" where
  "create_key_endpoint K project_id name user_id =
     http_guard ''Failed to create key''
       (bnd (service_create_key K project_id name user_id) (\<lambda>created. ret (create_key_out_of created)))"

definition revoke_key_endpoint :: "'w ingest_key_service \<Rightarrow> string \<Rightarrow> string \<Rightarrow> ('w, key_summary_out) py" where
  "revoke_key_endpoint K key_id user_id =
     http_guard ''Failed to revoke key'' (bnd (service_revoke_key K key_id user_id) (\<lambda>k. ret (key_summary k)))"

definition rotate_key_endpoint :: "'w ingest_key_service \<Rightarrow> string \<Rightarrow> string \<Rightarrow> ('w, create_key_out) py" where
  "rotate_key_endpoint K key_id user_id =
     http_guard ''Failed to rotate key''
       (bnd (service_rotate_key K key_id user_id) (\<lambda>created. ret (create_key_out_of created)))"

end
