(* ===== verification/Feedback_Api.thy ===== *)
theory Feedback_Api
  imports Transport_Service
begin

text \<open>
  Feedback of the dashboard's users (\<open>app/api/v1/feedback.py\<close>): the payload is validated, a screenshot is
  accepted complete or not at all, and an email is queued. \<open>fb_decoded_length\<close> is the length of a base64
  text's content, \<open>None\<close> when the text is not valid base64.
\<close>

section \<open>Validation\<close>

definition max_screenshot_bytes :: int where
  "max_screenshot_bytes = 5 * 1024 * 1024"

text \<open>The characters \<open>_SAFE_FILENAME_CHARS\<close> keeps; runs of others become one dash.\<close>

definition safe_filename_char :: "char \<Rightarrow> bool" where
  "safe_filename_char c \<longleftrightarrow>
     (let n = of_char c :: int in 65 \<le> n \<and> n \<le> 90 \<or> 97 \<le> n \<and> n \<le> 122 \<or> 48 \<le> n \<and> n \<le> 57) \<or>
     c \<in> {CHR ''.'', CHR ''_'', CHR ''-''}"

definition strip_chars :: "char set \<Rightarrow> string \<Rightarrow> string" where
  "strip_chars cs s = rev (dropWhile (\<lambda>c. c \<in> cs) (rev (dropWhile (\<lambda>c. c \<in> cs) s)))"

definition normalize_filename :: "string \<Rightarrow> string" where
  "normalize_filename v =
     (let forward = map (\<lambda>c. if c = CHR 92 then CHR ''/'' else c) (strip v);
          raw = rev (takeWhile (\<lambda>c. c \<noteq> CHR ''/'') (rev forward));
          cleaned = strip_chars {CHR ''.'', CHR ''-'', CHR '' ''} (sub_runs safe_filename_char (CHR ''-'') False raw)
      in take 120 cleaned)"

record feedback_in =
  fi_report_type :: "string option"
  fi_message :: string
  fi_email :: "string option"
  fi_screenshot_name :: "string option"
  fi_screenshot_content_type :: "string option"
  fi_screenshot_base64 :: "string option"
  fi_project_id :: "string option"
  fi_page :: "string option"
  fi_mode :: "string option"
  fi_timestamp :: "string option"
  fi_app_version :: "string option"

definition validate_page :: "string option \<Rightarrow> exn + string option" where
  "validate_page v = (case v of None \<Rightarrow> Inr None
     | Some s \<Rightarrow> if length (strip s) > 200 then Inl (ValueError ''page is too long'') else Inr (Some (strip s)))"

definition validate_screenshot_content_type :: "string option \<Rightarrow> exn + string option" where
  "validate_screenshot_content_type v = (case v of None \<Rightarrow> Inr None
     | Some s \<Rightarrow> let normalized = lower (strip s) in
         if normalized \<notin> {''image/png'', ''image/jpeg'', ''image/webp''}
         then Inl (ValueError ''unsupported screenshot content type'') else Inr (Some normalized))"

definition validate_screenshot_name :: "string option \<Rightarrow> exn + string option" where
  "validate_screenshot_name v = (case v of None \<Rightarrow> Inr None
     | Some s \<Rightarrow> let normalized = normalize_filename s in
         if normalized = [] then Inl (ValueError ''invalid screenshot filename'') else Inr (Some normalized))"

definition validate_screenshot_base64 :: "(string \<Rightarrow> int option) \<Rightarrow> string option \<Rightarrow> exn + string option" where
  "validate_screenshot_base64 decoded_length v = (case v of None \<Rightarrow> Inr None
     | Some s \<Rightarrow> let normalized = strip s in
         if normalized = [] then Inr None
         else if int (length normalized) > ((max_screenshot_bytes + 2) div 3) * 4 + 8
           then Inl (ValueError ''screenshot is too large'')
         else (case decoded_length normalized of
             None \<Rightarrow> Inl (ValueError ''invalid screenshot payload'')
           | Some n \<Rightarrow> if n > max_screenshot_bytes then Inl (ValueError ''screenshot is too large'')
                       else Inr (Some normalized)))"

text \<open>\<open>FeedbackIn\<close>: the field validators, then the whole; \<open>None\<close> is the answer 422.\<close>

definition validate_feedback :: "(string \<Rightarrow> int option) \<Rightarrow> feedback_in \<Rightarrow> feedback_in option" where
  "validate_feedback decoded_length f =
     (case (validate_page (fi_page f), validate_screenshot_content_type (fi_screenshot_content_type f),
            validate_screenshot_name (fi_screenshot_name f), validate_screenshot_base64 decoded_length (fi_screenshot_base64 f)) of
        (Inr page, Inr content_type, Inr name, Inr base64) \<Rightarrow>
          if (fi_report_type f = None \<or> fi_report_type f = Some ''feedback'' \<or> fi_report_type f = Some ''bug'') \<and>
             (truthy name \<or> truthy content_type \<or> truthy base64 \<longrightarrow> truthy name \<and> truthy content_type \<and> truthy base64)
          then Some (f\<lparr> fi_page := page, fi_screenshot_content_type := content_type, fi_screenshot_name := name,
                     fi_screenshot_base64 := base64 \<rparr>)
          else None
      | _ \<Rightarrow> None)"

section \<open>The endpoint\<close>

text \<open>\<open>(x or "").strip()\<close>, and \<open>... or d\<close>.\<close>

definition stripped :: "string option \<Rightarrow> string" where
  "stripped x = strip (opt_or x [])"

definition feedback_payload :: "feedback_in \<Rightarrow> user \<Rightarrow> string \<Rightarrow> pydict" where
  "feedback_payload f u event_time =
     [(''report_type'', PStr (or_str (stripped (fi_report_type f)) ''feedback'')),
      (''message'', PStr (strip (fi_message f))),
      (''email'', PStr (or_str (stripped (fi_email f)) (us_email u))),
      (''user_id'', PStr (us_id u)), (''user_email'', PStr (us_email u)),
      (''project_id'', PStr (or_str (stripped (fi_project_id f)) ''-'')),
      (''page'', PStr (or_str (stripped (fi_page f)) ''-'')),
      (''mode'', PStr (or_str (stripped (fi_mode f)) ''-'')),
      (''timestamp'', PStr event_time),
      (''app_version'', PStr (or_str (stripped (fi_app_version f)) ''-''))] @
     (if stripped (fi_screenshot_name f) \<noteq> [] \<and> stripped (fi_screenshot_content_type f) \<noteq> [] \<and>
         stripped (fi_screenshot_base64 f) \<noteq> []
      then [(''screenshot_name'', PStr (stripped (fi_screenshot_name f))),
            (''screenshot_content_type'', PStr (stripped (fi_screenshot_content_type f))),
            (''screenshot_base64'', PStr (stripped (fi_screenshot_base64 f)))]
      else [])"

text \<open>The endpoint on a validated payload; \<open>clock\<close> is \<open>datetime.now(timezone.utc)\<close>, \<open>exn_text\<close> is \<open>str(exc)\<close>.\<close>

definition send_feedback ::
  "'w transport_service \<Rightarrow> ('w, datetime) py \<Rightarrow> (exn \<Rightarrow> string) \<Rightarrow> feedback_in \<Rightarrow> user \<Rightarrow> ('w, string) py" where
  "send_feedback T clock exn_text f u =
     (if strip (fi_message f) = [] then raise (HTTPException 400 ''message is required'')
      else bnd (if truthy (fi_timestamp f) then ret (the (fi_timestamp f)) else bnd clock (\<lambda>now. ret (isoformat now))) (\<lambda>event_time.
        let payload_body = feedback_payload f u event_time;
            project = or_str (stripped (fi_project_id f)) ''global''
        in try_except
             (let dedupe_key = build_transport_dedupe_key (ts_sha256 T) (ts_float_repr T) project ''email''
                    ''feedback.submitted'' payload_body None (Some (us_id u))
              in bnd (transport_enqueue T project ''email'' ''feedback.submitted'' payload_body dedupe_key
                       (no_opts\<lparr> eo_template := Some ''feedback_submitted'' \<rparr>)) (\<lambda>_. ret ''queued''))
             (\<lambda>e. case e of
                ValueError _ \<Rightarrow> raise (HTTPException 500 (exn_text e))
              | HTTPException _ _ \<Rightarrow> raise e
              | _ \<Rightarrow> raise (HTTPException 500 ''failed to send feedback''))))"

section \<open>What a screenshot can be\<close>

lemma safe_runs: "c \<in> set (sub_runs safe_filename_char (CHR ''-'') b s) \<Longrightarrow> safe_filename_char c"
  by (auto dest!: set_sub_runs simp: safe_filename_char_def)

lemma set_strip_chars: "set (strip_chars cs s) \<subseteq> set s"
  unfolding strip_chars_def by (metis set_dropWhileD set_rev subsetI)

text \<open>
  The attachment of an accepted payload: a name of 1 to 120 safe characters that names no directory, one
  of three content types, and at most five megabytes; or no attachment at all.
\<close>

theorem attachment_safe:
  assumes "validate_feedback decoded_length f = Some g"
  shows "fi_screenshot_base64 g = None \<and> \<not> truthy (fi_screenshot_name g) \<and> \<not> truthy (fi_screenshot_content_type g) \<or>
     (\<exists>n t b len. fi_screenshot_name g = Some n \<and> fi_screenshot_content_type g = Some t \<and> fi_screenshot_base64 g = Some b \<and>
        n \<noteq> [] \<and> length n \<le> 120 \<and> list_all safe_filename_char n \<and>
        t \<in> {''image/png'', ''image/jpeg'', ''image/webp''} \<and> decoded_length b = Some len \<and> len \<le> max_screenshot_bytes)"
proof -
  have name: "length n \<le> 120 \<and> list_all safe_filename_char n" if "n = normalize_filename s" for n s
    using that set_strip_chars safe_runs
    by (auto simp: normalize_filename_def Let_def list_all_iff dest!: in_set_takeD) blast
  obtain page where v: "validate_page (fi_page f) = Inr page"
    "validate_screenshot_content_type (fi_screenshot_content_type f) = Inr (fi_screenshot_content_type g)"
    "validate_screenshot_name (fi_screenshot_name f) = Inr (fi_screenshot_name g)"
    "validate_screenshot_base64 decoded_length (fi_screenshot_base64 f) = Inr (fi_screenshot_base64 g)"
    "truthy (fi_screenshot_name g) \<or> truthy (fi_screenshot_content_type g) \<or> truthy (fi_screenshot_base64 g) \<longrightarrow>
       truthy (fi_screenshot_name g) \<and> truthy (fi_screenshot_content_type g) \<and> truthy (fi_screenshot_base64 g)"
    using assms by (auto simp: validate_feedback_def split: sum.splits if_splits)
  show ?thesis
  proof (cases "truthy (fi_screenshot_name g) \<or> truthy (fi_screenshot_content_type g) \<or> truthy (fi_screenshot_base64 g)")
    case True
    then obtain n t b where all: "fi_screenshot_name g = Some n" "fi_screenshot_content_type g = Some t"
      "fi_screenshot_base64 g = Some b" "n \<noteq> []" using v(5) by (auto simp: truthy_def split: option.splits)
    have n: "length n \<le> 120 \<and> list_all safe_filename_char n"
      using v(3) all(1) name by (auto simp: validate_screenshot_name_def Let_def split: option.splits if_splits)
    have t: "t \<in> {''image/png'', ''image/jpeg'', ''image/webp''}"
      using v(2) all(2) by (auto simp: validate_screenshot_content_type_def Let_def split: option.splits if_splits)
    obtain len where "decoded_length b = Some len" "len \<le> max_screenshot_bytes"
      using v(4) all(3) by (auto simp: validate_screenshot_base64_def Let_def split: option.splits if_splits)
    then show ?thesis using all n t by blast
  next
    case False
    moreover have "fi_screenshot_base64 g \<noteq> Some []"
      using v(4) by (auto simp: validate_screenshot_base64_def Let_def split: option.splits if_splits)
    ultimately show ?thesis by (auto simp: truthy_def split: option.splits)
  qed
qed

end
