(* ===== verification/Sdk_Adapter.thy ===== *)
theory Sdk_Adapter
  imports Sdk_Client
begin

text \<open>
  What the three provider adapters (\<open>sdk-python/src/rheonic/providers/\<close>) have in common: the wrapper
  around a provider's call, the usage events, and the clamp. An \<open>adapter\<close> holds what differs. A
  provider's client, its responses and its exceptions are parameters: a call is a function of its
  positional and keyword arguments and the outside world. A token count given as a Python boolean is
  read as 0 or 1.
\<close>

section \<open>Decisions\<close>

definition blocked_error_from_decision :: "pydict \<Rightarrow> exn" where
  "blocked_error_from_decision protect_decision = RHEONICBlockedError
     (str_or (dget protect_decision ''reason'') ''blocked'')
     (str_or (dget protect_decision ''trace_id'') [])
     (str_or (dget protect_decision ''request_id'') [])
     (as_str (dget protect_decision ''blocked_until''))
     (as_int (dget protect_decision ''retry_after_seconds''))
     (as_dict (dget protect_decision ''snapshot''))"

text \<open>The guards at the head of the clamp functions: the limit to apply, if one is to be applied.\<close>

definition clamp_limit :: "pydict \<Rightarrow> int option" where
  "clamp_limit protect_decision =
     (if str_or (dget protect_decision ''decision'') [] \<noteq> ''clamp'' then None
      else if dget protect_decision ''apply_clamp_enabled'' \<noteq> PBool True then None
      else case as_dict (dget protect_decision ''clamp'') of
          None \<Rightarrow> None
        | Some clamp \<Rightarrow>
            (case as_int (dget clamp ''recommended_max_output_tokens'') of
               None \<Rightarrow> None
             | Some recommended \<Rightarrow> if recommended < 1 then None else Some recommended))"

definition mark_clamp_applied_if_changed :: "pydict \<Rightarrow> int option \<Rightarrow> int option \<Rightarrow> pydict" where
  "mark_clamp_applied_if_changed protect_decision original_max_tokens applied_max_tokens =
     (case (as_dict (dget protect_decision ''clamp''), applied_max_tokens) of
        (Some clamp, Some applied) \<Rightarrow>
          if (case original_max_tokens of None \<Rightarrow> True | Some original \<Rightarrow> applied < original)
          then dset ''clamp'' (PDict (dset ''applied'' (PBool True) clamp)) protect_decision
          else protect_decision
      | _ \<Rightarrow> protect_decision)"

text \<open>\<open>min(int(v), recommended)\<close> for an integer \<open>v\<close>.\<close>

definition lower_to :: "int \<Rightarrow> pyval \<Rightarrow> pyval" where
  "lower_to recommended v = (case as_int v of Some i \<Rightarrow> PInt (min i recommended) | None \<Rightarrow> v)"

section \<open>Attributes of foreign objects\<close>

text \<open>\<open>getattr(v, k, None)\<close>.\<close>

definition getattr :: "pyval \<Rightarrow> string \<Rightarrow> pyval" where
  "getattr v k = (case v of PObj d \<Rightarrow> dget d k | _ \<Rightarrow> PNone)"

definition extract_http_status :: "'x services \<Rightarrow> exn \<Rightarrow> int option" where
  "extract_http_status S exc =
     (case as_int (sv_exc_attr S exc ''status_code'') of
        Some i \<Rightarrow> Some i
      | None \<Rightarrow> (case as_int (sv_exc_attr S exc ''status'') of
            Some i \<Rightarrow> Some i
          | None \<Rightarrow> as_int (getattr (sv_exc_attr S exc ''response'') ''status_code'')))"

section \<open>Usage events\<close>

record call_info =
  ci_requested_model :: "string option"
  ci_estimated_input_tokens :: "int option"
  ci_environment :: "string option"
  ci_endpoint :: "string option"
  ci_feature :: "string option"
  ci_protect_decision :: string
  ci_protect_reason :: string

definition usage_request :: "call_info \<Rightarrow> pydict" where
  "usage_request i =
     [(''endpoint'', opt_str (ci_endpoint i)), (''feature'', opt_str (ci_feature i))]
     @ (case ci_estimated_input_tokens i of None \<Rightarrow> [] | Some n \<Rightarrow> [(''token_explosion_tokens'', PInt n)])
     @ [(''input_tokens_estimate'', opt_int (ci_estimated_input_tokens i)),
        (''protect_decision'', if ci_protect_decision i = ''clamp'' then PStr ''clamp'' else PNone),
        (''protect_reason'', if ci_protect_decision i \<noteq> ''allow'' then PStr (ci_protect_reason i) else PNone)]"

text \<open>
  \<open>_capture_success\<close> and \<open>_capture_failure\<close> build an event, queue it and flush the queue; whatever
  fails on the way is logged.
\<close>

definition capture_usage ::
  "string \<Rightarrow> 'x services \<Rightarrow> call_info \<Rightarrow> pyval \<Rightarrow> pydict \<Rightarrow> ('x sdk, unit) py" where
  "capture_usage provider S i resolved_model response =
     try_except
       (bnd (client cn_environment) (\<lambda>client_environment.
        bnd (build_internal_event S (PStr provider) (opt_str (ci_requested_model i)) resolved_model
               (PStr (opt_or (ci_environment i) client_environment)) PNone
               (PDict (usage_request i)) (PDict response) PNone) (\<lambda>event.
        capture_event_and_flush S event None)))
       (\<lambda>_. ret ())"

definition capture_success_event ::
  "string \<Rightarrow> 'x services \<Rightarrow> call_info \<Rightarrow> pyval \<Rightarrow> pyval \<Rightarrow> int \<Rightarrow> ('x sdk, unit) py" where
  "capture_success_event provider S i resolved_model total_tokens latency_ms =
     capture_usage provider S i (if_str resolved_model)
       [(''latency_ms'', PInt latency_ms), (''total_tokens'', opt_int (as_int total_tokens)),
        (''http_status'', PInt 200)]"

definition capture_failure_event ::
  "string \<Rightarrow> 'x services \<Rightarrow> call_info \<Rightarrow> exn \<Rightarrow> int \<Rightarrow> ('x sdk, unit) py" where
  "capture_failure_event provider S i exc latency_ms =
     capture_usage provider S i PNone
       [(''latency_ms'', PInt latency_ms), (''error_type'', PStr (or_str (sv_exc_class S exc) ''unknown'')),
        (''error_message'', if sv_exc_str S exc = [] then PNone else PStr (sv_exc_str S exc)),
        (''http_status'', opt_int (extract_http_status S exc))]"

section \<open>The wrapper\<close>

type_synonym arguments = "pyval list \<times> pydict"

record 'x adapter =
  ad_provider :: string
  ad_requested_model :: "arguments \<Rightarrow> string option"
  ad_request_payload :: "string option \<Rightarrow> arguments \<Rightarrow> pydict"
  ad_max_output_tokens :: "arguments \<Rightarrow> int option"
  ad_apply_clamp :: "arguments \<Rightarrow> pydict \<Rightarrow> arguments \<times> pydict"
  ad_capture_success :: "call_info \<Rightarrow> pyval \<Rightarrow> int \<Rightarrow> ('x sdk, unit) py"
  ad_capture_failure :: "call_info \<Rightarrow> exn \<Rightarrow> int \<Rightarrow> ('x sdk, unit) py"

definition estimate_tokens_of :: "'x services \<Rightarrow> pydict \<Rightarrow> ('x sdk, int option) py" where
  "estimate_tokens_of S payload =
     try_except
       (case as_int (dget payload ''input_tokens'') of
          Some explicit \<Rightarrow> ret (Some explicit)
        | None \<Rightarrow> estimate_input_tokens S payload)
       (\<lambda>_. ret None)"

definition preflight_context ::
  "string \<Rightarrow> string option \<Rightarrow> string \<Rightarrow> string option \<Rightarrow> int option \<Rightarrow> int option \<Rightarrow> pydict" where
  "preflight_context provider requested_model environment feature estimated_input_tokens max_output_tokens =
     [(''provider'', PStr provider), (''requested_model'', opt_str requested_model),
      (''environment'', PStr environment), (''feature'', opt_str feature)]
     @ (case estimated_input_tokens of None \<Rightarrow> [] | Some n \<Rightarrow> [(''input_tokens_estimate'', PInt n)])
     @ [(''max_output_tokens'', opt_int max_output_tokens)]"

text \<open>Everything up to the provider's call: the decision, unless the call is invalid or blocked.\<close>

definition guarded ::
  "'x services \<Rightarrow> 'x adapter \<Rightarrow> string option \<Rightarrow> string option \<Rightarrow> arguments \<Rightarrow>
   ('x sdk, string option \<times> int option \<times> pydict) py" where
  "guarded S A environment feature call_arguments =
     (let requested_model = ad_requested_model A call_arguments
      in bnd (validate_provider_model (ad_provider A) requested_model) (\<lambda>_.
         bnd (ext (sv_perf_counter S)) (\<lambda>_.
         bnd (estimate_tokens_of S (ad_request_payload A requested_model call_arguments)) (\<lambda>estimated.
         bnd (ext (sv_perf_counter S)) (\<lambda>_.
         bnd (client cn_environment) (\<lambda>client_environment.
         bnd (preflight_protect_decision S
                (preflight_context (ad_provider A) requested_model (opt_or environment client_environment)
                   feature estimated (ad_max_output_tokens A call_arguments))) (\<lambda>protect_decision.
         if dget protect_decision ''decision'' = PStr ''block''
         then raise (blocked_error_from_decision protect_decision)
         else ret (requested_model, estimated, protect_decision))))))))"

definition elapsed_ms :: "'x services \<Rightarrow> rat \<Rightarrow> ('x sdk, int) py" where
  "elapsed_ms S started_at =
     bnd (ext (sv_perf_counter S)) (\<lambda>t. ret (py_trunc (py_mul (py_sub t started_at) 1000)))"

definition wrapped_call ::
  "'x services \<Rightarrow> 'x adapter \<Rightarrow> string option \<Rightarrow> string option \<Rightarrow> string option \<Rightarrow>
   (arguments \<Rightarrow> ('x, pyval) py) \<Rightarrow> arguments \<Rightarrow> ('x sdk, pyval) py" where
  "wrapped_call S A environment endpoint feature original call_arguments =
     bnd (bind_current_context S) (\<lambda>context_tokens.
     finally_py
       (bnd (ext (sv_perf_counter S)) (\<lambda>started_at.
        bnd (guarded S A environment feature call_arguments) (\<lambda>(requested_model, estimated, protect_decision).
        let info = \<lparr> ci_requested_model = requested_model, ci_estimated_input_tokens = estimated,
              ci_environment = environment, ci_endpoint = endpoint, ci_feature = feature,
              ci_protect_decision = str_or (dget (snd (ad_apply_clamp A call_arguments protect_decision)) ''decision'') ''allow'',
              ci_protect_reason = str_or (dget (snd (ad_apply_clamp A call_arguments protect_decision)) ''reason'') ''ok'' \<rparr>
        in try_except
             (bnd (call (original (fst (ad_apply_clamp A call_arguments protect_decision)))) (\<lambda>response.
              bnd (elapsed_ms S started_at) (\<lambda>latency_ms.
              bnd (ad_capture_success A info response latency_ms) (\<lambda>_. ret response))))
             (\<lambda>exc. bnd (elapsed_ms S started_at) (\<lambda>latency_ms.
              bnd (ad_capture_failure A info exc latency_ms) (\<lambda>_. raise exc))))))
       (reset_trace_context context_tokens))"

end
