(* ===== verification/Provider_Adapters.thy ===== *)
theory Provider_Adapters
  imports Sdk_Adapter
begin

text \<open>
  The OpenAI, Anthropic and Google adapters (\<open>openai_adapter.py\<close>, \<open>anthropic_adapter.py\<close>,
  \<open>google_adapter.py\<close> under \<open>sdk-python/src/rheonic/providers/\<close>): how each reads the model, the
  payload and the output limit from the arguments of a call, how it lowers the limit, and what it
  reads from a response. The asynchronous wrappers are the same code around an \<open>await\<close>.
\<close>

section \<open>Arguments\<close>

text \<open>\<open>args[0]\<close> if it is a \<open>dict\<close>.\<close>

definition first_dict :: "arguments \<Rightarrow> pydict option" where
  "first_dict a = (case fst a of [] \<Rightarrow> None | v # _ \<Rightarrow> as_dict v)"

definition set_first :: "pyval \<Rightarrow> pyval list \<Rightarrow> pyval list" where
  "set_first v args = (case args of [] \<Rightarrow> [] | _ # rest \<Rightarrow> v # rest)"

text \<open>The first of two readings that is there.\<close>

definition first_of :: "'a option \<Rightarrow> 'a option \<Rightarrow> 'a option" where
  "first_of a b = (case a of Some x \<Rightarrow> Some x | None \<Rightarrow> b)"

definition int_at :: "pydict option \<Rightarrow> string \<Rightarrow> int option" where
  "int_at d k = (case d of None \<Rightarrow> None | Some d \<Rightarrow> as_int (dget d k))"

definition str_at :: "pydict option \<Rightarrow> string \<Rightarrow> string option" where
  "str_at d k = (case d of None \<Rightarrow> None | Some d \<Rightarrow> as_str (dget d k))"

section \<open>OpenAI\<close>

definition openai_requested_model :: "arguments \<Rightarrow> string option" where
  "openai_requested_model a = first_of (str_at (Some (snd a)) ''model'') (str_at (first_dict a) ''model'')"

definition openai_request_payload :: "arguments \<Rightarrow> pydict" where
  "openai_request_payload a = (case first_dict a of Some d \<Rightarrow> d | None \<Rightarrow> snd a)"

definition openai_max_output_tokens :: "arguments \<Rightarrow> int option" where
  "openai_max_output_tokens a =
     first_of (int_at (Some (snd a)) ''max_tokens'')
      (first_of (int_at (Some (snd a)) ''max_output_tokens'')
       (first_of (int_at (first_dict a) ''max_tokens'') (int_at (first_dict a) ''max_output_tokens'')))"

text \<open>The branches of \<open>_apply_openai_clamp\<close>.\<close>

definition openai_lowered :: "int \<Rightarrow> arguments \<Rightarrow> arguments" where
  "openai_lowered recommended a =
     (let args = fst a; kwargs = snd a in
      if has_key kwargs ''max_tokens'' \<and> as_int (dget kwargs ''max_tokens'') \<noteq> None
      then (args, dset ''max_tokens'' (lower_to recommended (dget kwargs ''max_tokens'')) kwargs)
      else if has_key kwargs ''max_output_tokens'' \<and> as_int (dget kwargs ''max_output_tokens'') \<noteq> None
      then (args, dset ''max_output_tokens'' (lower_to recommended (dget kwargs ''max_output_tokens'')) kwargs)
      else case first_dict a of
          Some payload \<Rightarrow>
            (set_first (PDict
               (if as_int (dget payload ''max_tokens'') \<noteq> None
                then dset ''max_tokens'' (lower_to recommended (dget payload ''max_tokens'')) payload
                else if as_int (dget payload ''max_output_tokens'') \<noteq> None
                then dset ''max_output_tokens'' (lower_to recommended (dget payload ''max_output_tokens'')) payload
                else dset ''max_tokens'' (PInt recommended) payload)) args, kwargs)
        | None \<Rightarrow> (args, dset ''max_tokens'' (PInt recommended) kwargs))"

definition apply_openai_clamp :: "arguments \<Rightarrow> pydict \<Rightarrow> arguments \<times> pydict" where
  "apply_openai_clamp a protect_decision =
     (case clamp_limit protect_decision of
        None \<Rightarrow> (a, protect_decision)
      | Some recommended \<Rightarrow>
          (let b = openai_lowered recommended a
           in (b, mark_clamp_applied_if_changed protect_decision (openai_max_output_tokens a)
                    (openai_max_output_tokens b))))"

definition openai_capture_success :: "'x services \<Rightarrow> call_info \<Rightarrow> pyval \<Rightarrow> int \<Rightarrow> ('x sdk, unit) py" where
  "openai_capture_success S i response latency_ms =
     capture_success_event ''openai'' S i (getattr response ''model'')
       (getattr (getattr response ''usage'') ''total_tokens'') latency_ms"

definition openai_capture_failure :: "'x services \<Rightarrow> call_info \<Rightarrow> exn \<Rightarrow> int \<Rightarrow> ('x sdk, unit) py" where
  "openai_capture_failure = capture_failure_event ''openai''"

definition openai_adapter :: "'x services \<Rightarrow> 'x adapter" where
  "openai_adapter S = \<lparr> ad_provider = ''openai'', ad_requested_model = openai_requested_model,
     ad_request_payload = (\<lambda>_. openai_request_payload), ad_max_output_tokens = openai_max_output_tokens,
     ad_apply_clamp = apply_openai_clamp, ad_capture_success = openai_capture_success S,
     ad_capture_failure = openai_capture_failure S \<rparr>"

definition openai_wrapped_create ::
  "'x services \<Rightarrow> string option \<Rightarrow> string option \<Rightarrow> string option \<Rightarrow> (arguments \<Rightarrow> ('x, pyval) py) \<Rightarrow>
   arguments \<Rightarrow> ('x sdk, pyval) py" where
  "openai_wrapped_create S = wrapped_call S (openai_adapter S)"

section \<open>Anthropic\<close>

definition anthropic_requested_model :: "arguments \<Rightarrow> string option" where
  "anthropic_requested_model a = first_of (str_at (Some (snd a)) ''model'') (str_at (first_dict a) ''model'')"

definition anthropic_request_payload :: "arguments \<Rightarrow> pydict" where
  "anthropic_request_payload a = (case first_dict a of Some d \<Rightarrow> d | None \<Rightarrow> snd a)"

definition anthropic_max_output_tokens :: "arguments \<Rightarrow> int option" where
  "anthropic_max_output_tokens a =
     first_of (int_at (Some (snd a)) ''max_tokens'') (int_at (first_dict a) ''max_tokens'')"

definition anthropic_lowered :: "int \<Rightarrow> arguments \<Rightarrow> arguments" where
  "anthropic_lowered recommended a =
     (let args = fst a; kwargs = snd a in
      if has_key kwargs ''max_tokens'' \<and> as_int (dget kwargs ''max_tokens'') \<noteq> None
      then (args, dset ''max_tokens'' (lower_to recommended (dget kwargs ''max_tokens'')) kwargs)
      else case first_dict a of
          Some payload \<Rightarrow>
            (set_first (PDict
               (if as_int (dget payload ''max_tokens'') \<noteq> None
                then dset ''max_tokens'' (lower_to recommended (dget payload ''max_tokens'')) payload
                else dset ''max_tokens'' (PInt recommended) payload)) args, kwargs)
        | None \<Rightarrow> (args, dset ''max_tokens'' (PInt recommended) kwargs))"

definition apply_anthropic_clamp :: "arguments \<Rightarrow> pydict \<Rightarrow> arguments \<times> pydict" where
  "apply_anthropic_clamp a protect_decision =
     (case clamp_limit protect_decision of
        None \<Rightarrow> (a, protect_decision)
      | Some recommended \<Rightarrow>
          (let b = anthropic_lowered recommended a
           in (b, mark_clamp_applied_if_changed protect_decision (anthropic_max_output_tokens a)
                    (anthropic_max_output_tokens b))))"

text \<open>Anthropic reports input and output tokens; their sum stands in for a missing total.\<close>

definition anthropic_total_tokens :: "pyval \<Rightarrow> pyval" where
  "anthropic_total_tokens response =
     (let usage = getattr response ''usage''; total_tokens = getattr usage ''total_tokens'' in
      if as_int total_tokens \<noteq> None then total_tokens
      else case (as_int (getattr usage ''input_tokens''), as_int (getattr usage ''output_tokens'')) of
          (Some i, Some out) \<Rightarrow> PInt (i + out)
        | _ \<Rightarrow> total_tokens)"

definition anthropic_capture_success :: "'x services \<Rightarrow> call_info \<Rightarrow> pyval \<Rightarrow> int \<Rightarrow> ('x sdk, unit) py" where
  "anthropic_capture_success S i response latency_ms =
     capture_success_event ''anthropic'' S i (getattr response ''model'')
       (anthropic_total_tokens response) latency_ms"

definition anthropic_capture_failure :: "'x services \<Rightarrow> call_info \<Rightarrow> exn \<Rightarrow> int \<Rightarrow> ('x sdk, unit) py" where
  "anthropic_capture_failure = capture_failure_event ''anthropic''"

definition anthropic_adapter :: "'x services \<Rightarrow> 'x adapter" where
  "anthropic_adapter S = \<lparr> ad_provider = ''anthropic'', ad_requested_model = anthropic_requested_model,
     ad_request_payload = (\<lambda>_. anthropic_request_payload), ad_max_output_tokens = anthropic_max_output_tokens,
     ad_apply_clamp = apply_anthropic_clamp, ad_capture_success = anthropic_capture_success S,
     ad_capture_failure = anthropic_capture_failure S \<rparr>"

definition anthropic_wrapped_create ::
  "'x services \<Rightarrow> string option \<Rightarrow> string option \<Rightarrow> string option \<Rightarrow> (arguments \<Rightarrow> ('x, pyval) py) \<Rightarrow>
   arguments \<Rightarrow> ('x sdk, pyval) py" where
  "anthropic_wrapped_create S = wrapped_call S (anthropic_adapter S)"

section \<open>Google\<close>

definition google_requested_model :: "pyval \<Rightarrow> arguments \<Rightarrow> string option" where
  "google_requested_model google_model a =
     first_of (as_str (getattr google_model ''model''))
      (first_of (as_str (getattr google_model ''model_name''))
       (first_of (str_at (Some (snd a)) ''model'') (str_at (first_dict a) ''model'')))"

definition with_model :: "string option \<Rightarrow> pydict \<Rightarrow> pydict" where
  "with_model model payload =
     (if truthy model \<and> \<not> has_key payload ''model'' then dset ''model'' (opt_str model) payload else payload)"

definition google_request_payload :: "string option \<Rightarrow> arguments \<Rightarrow> pydict" where
  "google_request_payload model a =
     (case fst a of
        PStr prompt # _ \<Rightarrow> [(''model'', opt_str model), (''prompt'', PStr prompt)]
      | PDict first # _ \<Rightarrow> with_model model first
      | _ \<Rightarrow> with_model model (snd a))"

definition config_max_output_tokens :: "pyval \<Rightarrow> int option" where
  "config_max_output_tokens config =
     first_of (int_at (as_dict config) ''max_output_tokens'') (as_int (getattr config ''max_output_tokens''))"

definition configs_max_output_tokens :: "pydict \<Rightarrow> int option" where
  "configs_max_output_tokens d =
     first_of (config_max_output_tokens (dget d ''generation_config''))
       (config_max_output_tokens (dget d ''config''))"

definition google_max_output_tokens :: "arguments \<Rightarrow> int option" where
  "google_max_output_tokens a =
     first_of (configs_max_output_tokens (snd a))
       (case first_dict a of None \<Rightarrow> None | Some d \<Rightarrow> configs_max_output_tokens d)"

definition apply_recommended_max_output_tokens :: "'x services \<Rightarrow> pyval \<Rightarrow> int \<Rightarrow> pyval" where
  "apply_recommended_max_output_tokens S config recommended =
     (let lowered = (\<lambda>existing. if as_int existing \<noteq> None then lower_to recommended existing
                                 else PInt recommended)
      in case config of
          PDict d \<Rightarrow> PDict (dset ''max_output_tokens'' (lowered (dget d ''max_output_tokens'')) d)
        | PObj d \<Rightarrow>
            if has_key d ''max_output_tokens''
            then (case sv_setattr S config ''max_output_tokens'' (lowered (dget d ''max_output_tokens'')) of
                    Inr next_config \<Rightarrow> next_config
                  | Inl _ \<Rightarrow> config)
            else PDict [(''max_output_tokens'', PInt recommended)]
        | _ \<Rightarrow> PDict [(''max_output_tokens'', PInt recommended)])"

definition google_lowered :: "'x services \<Rightarrow> int \<Rightarrow> arguments \<Rightarrow> arguments" where
  "google_lowered S recommended a =
     (let args = fst a; kwargs = snd a;
          apply = (\<lambda>k d. dset k (apply_recommended_max_output_tokens S (dget d k) recommended) d)
      in if has_key kwargs ''generation_config'' then (args, apply ''generation_config'' kwargs)
         else if has_key kwargs ''config'' then (args, apply ''config'' kwargs)
         else case first_dict a of
             Some payload \<Rightarrow>
               (let config_key = (if has_key payload ''config'' \<or> has_key payload ''model''
                                     \<or> has_key payload ''contents'' then ''config'' else ''generation_config'')
                in (set_first (PDict (apply config_key payload)) args, kwargs))
           | None \<Rightarrow> (args, dset ''config'' (PDict [(''max_output_tokens'', PInt recommended)]) kwargs))"

definition apply_google_clamp :: "'x services \<Rightarrow> arguments \<Rightarrow> pydict \<Rightarrow> arguments \<times> pydict" where
  "apply_google_clamp S a protect_decision =
     (case clamp_limit protect_decision of
        None \<Rightarrow> (a, protect_decision)
      | Some recommended \<Rightarrow>
          (let b = google_lowered S recommended a
           in (b, mark_clamp_applied_if_changed protect_decision (google_max_output_tokens a)
                    (google_max_output_tokens b))))"

definition google_total_tokens :: "pyval \<Rightarrow> pyval" where
  "google_total_tokens response =
     (let direct = getattr response ''usage_metadata'';
          usage = (if direct \<noteq> PNone then direct else getattr (getattr response ''response'') ''usage_metadata'')
      in case as_int (getattr usage ''total_token_count'') of
           Some n \<Rightarrow> PInt n
         | None \<Rightarrow>
             (case (as_int (getattr usage ''prompt_token_count''), as_int (getattr usage ''candidates_token_count'')) of
                (Some prompt, Some candidates) \<Rightarrow> PInt (prompt + candidates)
              | _ \<Rightarrow> PNone))"

definition google_resolved_model :: "pyval \<Rightarrow> pyval" where
  "google_resolved_model response =
     (let direct_model = getattr response ''model''; nested_response = getattr response ''response''
      in if \<not> blank direct_model then direct_model
         else if \<not> blank (getattr nested_response ''model_version'') then getattr nested_response ''model_version''
         else if \<not> blank (getattr nested_response ''model'') then getattr nested_response ''model''
         else PNone)"

definition google_capture_success :: "'x services \<Rightarrow> call_info \<Rightarrow> pyval \<Rightarrow> int \<Rightarrow> ('x sdk, unit) py" where
  "google_capture_success S i response latency_ms =
     capture_success_event ''google'' S i (google_resolved_model response)
       (google_total_tokens response) latency_ms"

definition google_capture_failure :: "'x services \<Rightarrow> call_info \<Rightarrow> exn \<Rightarrow> int \<Rightarrow> ('x sdk, unit) py" where
  "google_capture_failure = capture_failure_event ''google''"

definition google_adapter :: "'x services \<Rightarrow> pyval \<Rightarrow> 'x adapter" where
  "google_adapter S google_model = \<lparr> ad_provider = ''google'',
     ad_requested_model = google_requested_model google_model,
     ad_request_payload = google_request_payload, ad_max_output_tokens = google_max_output_tokens,
     ad_apply_clamp = apply_google_clamp S, ad_capture_success = google_capture_success S,
     ad_capture_failure = google_capture_failure S \<rparr>"

definition google_wrapped_generate ::
  "'x services \<Rightarrow> pyval \<Rightarrow> string option \<Rightarrow> string option \<Rightarrow> string option \<Rightarrow> (arguments \<Rightarrow> ('x, pyval) py) \<Rightarrow>
   arguments \<Rightarrow> ('x sdk, pyval) py" where
  "google_wrapped_generate S google_model = wrapped_call S (google_adapter S google_model)"

section \<open>Instrumenting a client\<close>

text \<open>
  \<open>instrument_*\<close> replaces a method of a provider's client. \<open>original\<close> is the method, when the client has
  one that can be called, and the answer is the method the client has afterwards. When the method is a
  coroutine function the replacement is one too, with the same statements and the provider's call awaited:
  \<open>original\<close> then stands for the awaited call.
\<close>

definition instrumented ::
  "bool \<Rightarrow> string \<Rightarrow> ((arguments \<Rightarrow> ('x, pyval) py) \<Rightarrow> arguments \<Rightarrow> ('x sdk, pyval) py) \<Rightarrow>
   (arguments \<Rightarrow> ('x, pyval) py) option \<Rightarrow> exn + (arguments \<Rightarrow> ('x sdk, pyval) py) option" where
  "instrumented has_client requirement wrap original =
     (if \<not> has_client then Inr (map_option (\<lambda>m a. call (m a)) original)
      else (case original of
          None \<Rightarrow> Inl (RHEONICValidationError (''RHEONIC: '' @ requirement))
        | Some m \<Rightarrow> Inr (Some (wrap m))))"

definition instrument_openai ::
  "'x services \<Rightarrow> bool \<Rightarrow> string option \<Rightarrow> string option \<Rightarrow> string option \<Rightarrow> (arguments \<Rightarrow> ('x, pyval) py) option \<Rightarrow>
   exn + (arguments \<Rightarrow> ('x sdk, pyval) py) option" where
  "instrument_openai S has_client environment endpoint feature original_create =
     instrumented has_client ''instrument_openai requires a client exposing chat.completions.create.''
       (openai_wrapped_create S environment endpoint feature) original_create"

definition instrument_anthropic ::
  "'x services \<Rightarrow> bool \<Rightarrow> string option \<Rightarrow> string option \<Rightarrow> string option \<Rightarrow> (arguments \<Rightarrow> ('x, pyval) py) option \<Rightarrow>
   exn + (arguments \<Rightarrow> ('x sdk, pyval) py) option" where
  "instrument_anthropic S has_client environment endpoint feature original_create =
     instrumented has_client ''instrument_anthropic requires a client exposing messages.create.''
       (anthropic_wrapped_create S environment endpoint feature) original_create"

text \<open>A Google client has the method itself or in its \<open>models\<close>.\<close>

definition resolve_generate_target :: "'m option \<Rightarrow> 'm option \<Rightarrow> 'm option" where
  "resolve_generate_target direct_generate nested_generate =
     (case direct_generate of Some m \<Rightarrow> Some m | None \<Rightarrow> nested_generate)"

definition instrument_google ::
  "'x services \<Rightarrow> pyval \<Rightarrow> bool \<Rightarrow> string option \<Rightarrow> string option \<Rightarrow> string option \<Rightarrow>
   (arguments \<Rightarrow> ('x, pyval) py) option \<Rightarrow> (arguments \<Rightarrow> ('x, pyval) py) option \<Rightarrow>
   exn + (arguments \<Rightarrow> ('x sdk, pyval) py) option" where
  "instrument_google S google_model has_client environment endpoint feature direct_generate nested_generate =
     instrumented has_client
       ''instrument_google requires a client exposing generate_content or models.generate_content.''
       (google_wrapped_generate S google_model environment endpoint feature)
       (resolve_generate_target direct_generate nested_generate)"

end
