(* ===== verification/Adapter_Facts.thy ===== *)
theory Adapter_Facts
  imports Provider_Adapters Sdk_Preflight
begin

text \<open>
  What the adapters guarantee: a call that is blocked never reaches the provider, telemetry never
  changes what the caller sees, and a clamp lowers the output limit the provider gets. The clamp's
  laws are locales, instantiated on the three adapters; Google's adapter satisfies them on calls that
  do not spread the limit over two configurations.
\<close>

section \<open>The clamp\<close>

locale output_clamp =
  fixes limit_of :: "arguments \<Rightarrow> int option"
    and apply_clamp :: "arguments \<Rightarrow> pydict \<Rightarrow> arguments \<times> pydict"
    and clampable :: "arguments \<Rightarrow> bool"
  assumes unclamped: "clamp_limit d = None \<Longrightarrow> apply_clamp a d = (a, d)"
    and capped: "clamp_limit d = Some r \<Longrightarrow> clampable a \<Longrightarrow>
      \<exists>m. limit_of (fst (apply_clamp a d)) = Some m \<and> m \<le> r"
begin

lemma limited_or_same:
  "clampable a \<Longrightarrow> fst (apply_clamp a d) = a \<or> (\<exists>m r. limit_of (fst (apply_clamp a d)) = Some m \<and>
     clamp_limit d = Some r \<and> m \<le> r)"
  using unclamped [of d a] capped [of d _ a] by (cases "clamp_limit d") auto

end

locale exact_clamp = output_clamp +
  assumes exact: "clamp_limit d = Some r \<Longrightarrow>
      limit_of (fst (apply_clamp a d)) = Some (case limit_of a of None \<Rightarrow> r | Some n \<Rightarrow> min n r)"
begin

lemma never_raises_limit:
  "limit_of a = Some n \<Longrightarrow> \<exists>m. limit_of (fst (apply_clamp a d)) = Some m \<and> m \<le> n"
  using exact [of d _ a] unclamped [of d a] by (cases "clamp_limit d") auto

lemma clamp_twice:
  "clamp_limit d = Some r \<Longrightarrow> clamp_limit d' = Some r \<Longrightarrow>
     limit_of (fst (apply_clamp (fst (apply_clamp a d)) d')) = limit_of (fst (apply_clamp a d))"
  by (simp add: exact split: option.split)

end

lemma int_at_dset [simp]: "int_at (Some (dset k v d)) k' = (if k' = k then as_int v else int_at (Some d) k')"
  by (simp add: int_at_def dget_dset)

lemma int_at_None [simp]: "int_at None k = None"
  by (simp add: int_at_def)

lemma first_of_simps [simp]: "first_of None b = b" "first_of (Some x) b = Some x" "first_of a None = a"
  by (simp_all add: first_of_def split: option.split)

lemma as_int_lower_to [simp]: "as_int v = Some i \<Longrightarrow> as_int (lower_to r v) = Some (min i r)"
  by (simp add: lower_to_def)

lemma as_int_has_key: "as_int (dget d k) = Some i \<Longrightarrow> has_key d k"
  by (auto simp: dget_def has_key_def split: option.splits)

lemma first_dict_set_first: "first_dict a = Some p \<Longrightarrow> first_dict (set_first (PDict q) (fst a), k) = Some q"
  by (auto simp: first_dict_def set_first_def split: list.splits)

lemma first_dict_pair [simp]: "first_dict (fst a, k) = first_dict a"
  by (simp add: first_dict_def)

lemma openai_lowered_limit:
  "openai_max_output_tokens (openai_lowered r a)
     = Some (case openai_max_output_tokens a of None \<Rightarrow> r | Some n \<Rightarrow> min n r)"
proof (cases "as_int (dget (snd a) ''max_tokens'')")
  case (Some i)
  then show ?thesis
    by (simp add: openai_lowered_def Let_def as_int_has_key openai_max_output_tokens_def)
      (simp add: int_at_def)
next
  case mt: None
  show ?thesis
  proof (cases "as_int (dget (snd a) ''max_output_tokens'')")
    case (Some i)
    then show ?thesis using mt
      by (simp add: openai_lowered_def Let_def as_int_has_key openai_max_output_tokens_def)
        (simp add: int_at_def)
  next
    case None
    show ?thesis
    proof (cases "first_dict a")
      case none: None
      show ?thesis using mt None none
        by (simp add: openai_lowered_def Let_def openai_max_output_tokens_def int_at_def dget_dset)
    next
      case (Some p)
      then show ?thesis using mt None first_dict_set_first [OF Some]
        by (auto simp: openai_lowered_def Let_def openai_max_output_tokens_def int_at_def dget_dset
            split: option.split)
    qed
  qed
qed

lemma anthropic_lowered_limit:
  "anthropic_max_output_tokens (anthropic_lowered r a)
     = Some (case anthropic_max_output_tokens a of None \<Rightarrow> r | Some n \<Rightarrow> min n r)"
proof (cases "as_int (dget (snd a) ''max_tokens'')")
  case (Some i)
  then show ?thesis
    by (simp add: anthropic_lowered_def Let_def as_int_has_key anthropic_max_output_tokens_def)
      (simp add: int_at_def)
next
  case mt: None
  show ?thesis
  proof (cases "first_dict a")
    case none: None
    show ?thesis using mt none
      by (simp add: anthropic_lowered_def Let_def anthropic_max_output_tokens_def int_at_def dget_dset)
  next
    case (Some p)
    then show ?thesis using mt first_dict_set_first [OF Some]
      by (auto simp: anthropic_lowered_def Let_def anthropic_max_output_tokens_def int_at_def dget_dset
          split: option.split)
  qed
qed

interpretation openai: exact_clamp openai_max_output_tokens apply_openai_clamp "\<lambda>_. True"
  by unfold_locales
    (auto simp: apply_openai_clamp_def Let_def openai_lowered_limit split: option.split)

interpretation anthropic: exact_clamp anthropic_max_output_tokens apply_anthropic_clamp "\<lambda>_. True"
  by unfold_locales
    (auto simp: apply_anthropic_clamp_def Let_def anthropic_lowered_limit split: option.split)

text \<open>An object that accepts the new limit, and a call whose limit is in one configuration.\<close>

definition settable :: "'x services \<Rightarrow> pyval \<Rightarrow> bool" where
  "settable S v \<longleftrightarrow> (case v of PObj d \<Rightarrow> has_key d ''max_output_tokens'' \<longrightarrow>
       (\<forall>x. \<exists>d'. sv_setattr S v ''max_output_tokens'' x = Inr (PObj d') \<and> dget d' ''max_output_tokens'' = x)
     | _ \<Rightarrow> True)"

definition google_clampable :: "'x services \<Rightarrow> arguments \<Rightarrow> bool" where
  "google_clampable S a \<longleftrightarrow>
     settable S (dget (snd a) ''generation_config'') \<and> settable S (dget (snd a) ''config'') \<and>
     (case first_dict a of None \<Rightarrow> True | Some p \<Rightarrow>
        settable S (dget p ''generation_config'') \<and> settable S (dget p ''config'') \<and>
        config_max_output_tokens (dget p ''generation_config'') = None)"

lemma recommended_limit:
  assumes "settable S v"
  shows "\<exists>m. config_max_output_tokens (apply_recommended_max_output_tokens S v r) = Some m \<and> m \<le> r"
proof -
  have c: "config_max_output_tokens (PDict d) = as_int (dget d ''max_output_tokens'')" for d
    by (simp add: config_max_output_tokens_def int_at_def getattr_def)
  have o: "config_max_output_tokens (PObj d) = as_int (dget d ''max_output_tokens'')" for d
    by (simp add: config_max_output_tokens_def getattr_def)
  let ?low = "\<lambda>e. if as_int e \<noteq> None then lower_to r e else PInt r"
  have l: "\<exists>m. as_int (?low e) = Some m \<and> m \<le> r" for e
    by (cases "as_int e") (simp_all add: lower_to_def)
  show ?thesis
  proof (cases v)
    case (PDict d)
    then show ?thesis using l [of "dget d ''max_output_tokens''"]
      by (simp add: apply_recommended_max_output_tokens_def Let_def c dget_dset)
  next
    case (PObj d)
    show ?thesis
    proof (cases "has_key d ''max_output_tokens''")
      case True
      then have "\<forall>x. \<exists>d'. sv_setattr S v ''max_output_tokens'' x = Inr (PObj d') \<and> dget d' ''max_output_tokens'' = x"
        using assms PObj by (simp add: settable_def)
      then obtain d' where "sv_setattr S v ''max_output_tokens'' (?low (dget d ''max_output_tokens'')) = Inr (PObj d')"
        "dget d' ''max_output_tokens'' = ?low (dget d ''max_output_tokens'')"
        by blast
      then show ?thesis using True PObj l [of "dget d ''max_output_tokens''"]
        by (simp add: apply_recommended_max_output_tokens_def Let_def o)
    next
      case False
      then show ?thesis using PObj by (simp add: apply_recommended_max_output_tokens_def c)
    qed
  qed (simp_all add: apply_recommended_max_output_tokens_def c)
qed

lemma google_lowered_limit:
  assumes "google_clampable S a"
  shows "\<exists>m. google_max_output_tokens (google_lowered S r a) = Some m \<and> m \<le> r"
proof -
  have none: "\<not> has_key d k \<Longrightarrow> config_max_output_tokens (dget d k) = None" for d k
    by (simp add: has_key_def dget_def config_max_output_tokens_def int_at_def getattr_def split: option.splits)
  have ok: "settable S (dget (snd a) ''generation_config'')" "settable S (dget (snd a) ''config'')"
    using assms by (simp_all add: google_clampable_def)
  show ?thesis
  proof (cases "has_key (snd a) ''generation_config''")
    case True
    then show ?thesis using recommended_limit [OF ok(1), of r]
      by (auto simp: google_lowered_def Let_def google_max_output_tokens_def configs_max_output_tokens_def dget_dset)
  next
    case gc: False
    show ?thesis
    proof (cases "has_key (snd a) ''config''")
      case True
      then show ?thesis using gc none [OF gc] recommended_limit [OF ok(2), of r]
        by (auto simp: google_lowered_def Let_def google_max_output_tokens_def configs_max_output_tokens_def dget_dset)
    next
      case c: False
      show ?thesis
      proof (cases "first_dict a")
        case None
        then show ?thesis using gc c none [OF gc]
          by (simp add: google_lowered_def Let_def google_max_output_tokens_def configs_max_output_tokens_def
              dget_dset config_max_output_tokens_def int_at_def getattr_def)
      next
        case (Some p)
        then have p: "settable S (dget p ''generation_config'')" "settable S (dget p ''config'')"
          "config_max_output_tokens (dget p ''generation_config'') = None"
          using assms by (simp_all add: google_clampable_def)
        show ?thesis using gc c none [OF gc] none [OF c] Some first_dict_set_first [OF Some] p(3)
            recommended_limit [OF p(1), of r] recommended_limit [OF p(2), of r]
          by (auto simp: google_lowered_def Let_def google_max_output_tokens_def configs_max_output_tokens_def
              dget_dset)
      qed
    qed
  qed
qed

interpretation google: output_clamp google_max_output_tokens "apply_google_clamp S" "google_clampable S" for S
  by unfold_locales (auto simp: apply_google_clamp_def Let_def google_lowered_limit)

text \<open>
  C14: a clamp reaches the provider exactly: where a decision asks for a limit, the limit that an OpenAI
  or Anthropic call carries becomes the smaller of its own and the recommended one, or the
  recommended one if it had none.
\<close>

theorem clamp_lowers_limit:
  assumes "clamp_limit d = Some r"
  shows "openai_max_output_tokens (fst (apply_openai_clamp a d))
       = Some (case openai_max_output_tokens a of None \<Rightarrow> r | Some n \<Rightarrow> min n r) \<and>
     anthropic_max_output_tokens (fst (apply_anthropic_clamp a d))
       = Some (case anthropic_max_output_tokens a of None \<Rightarrow> r | Some n \<Rightarrow> min n r)"
  using openai.exact [OF assms, of a] anthropic.exact [OF assms, of a] by simp

definition demo_clamp :: "int \<Rightarrow> pydict" where
  "demo_clamp r = [(''decision'', PStr ''clamp''), (''apply_clamp_enabled'', PBool True),
     (''clamp'', PDict [(''recommended_max_output_tokens'', PInt r), (''applied'', PBool False)])]"

theorem clamp_lowers_limit_witness:
  "openai_max_output_tokens (fst (apply_openai_clamp ([PDict [(''max_tokens'', PInt 500)]], []) (demo_clamp 100)))
     = Some 100"
proof -
  have "clamp_limit (demo_clamp 100) = Some 100"
    by (simp add: clamp_limit_def demo_clamp_def str_or_def)
  moreover have "openai_max_output_tokens ([PDict [(''max_tokens'', PInt 500)]], []) = Some 500"
    by (simp add: openai_max_output_tokens_def first_dict_def int_at_def)
  ultimately show ?thesis
    using clamp_lowers_limit [of "demo_clamp 100" 100 "([PDict [(''max_tokens'', PInt 500)]], [])"] by simp
qed

text \<open>
  Google's clamp can miss. A positional request with its limit under \<open>generation_config\<close> beside its
  \<open>contents\<close> gets the recommended limit under \<open>config\<close> instead: the limit that the adapter itself reads
  from the call stays as it was, and the decision is not marked as applied.
\<close>

theorem google_clamp_gap:
  "let a = ([PDict [(''contents'', PStr ''hi''),
                    (''generation_config'', PDict [(''max_output_tokens'', PInt n)])]], []);
       b = apply_google_clamp S a (demo_clamp r)
   in google_max_output_tokens a = Some n \<and> google_max_output_tokens (fst b) = Some n \<and>
      (if r \<ge> 1 then fst (fst b) \<noteq> fst a else fst b = a) \<and>
      dget (snd b) ''clamp'' = dget (demo_clamp r) ''clamp''"
proof -
  have v: "google_max_output_tokens ([PDict p], []) = configs_max_output_tokens p" for p
    by (simp add: google_max_output_tokens_def configs_max_output_tokens_def first_dict_def
        config_max_output_tokens_def int_at_def getattr_def)
  have c: "configs_max_output_tokens p = Some n"
    if "dget p ''generation_config'' = PDict [(''max_output_tokens'', PInt n)]" for p
    using that by (simp add: configs_max_output_tokens_def config_max_output_tokens_def int_at_def)
  have k: "clamp_limit (demo_clamp r) = (if r \<ge> 1 then Some r else None)"
    by (simp add: clamp_limit_def demo_clamp_def str_or_def)
  show ?thesis
    by (auto simp: Let_def v c apply_google_clamp_def k google_lowered_def has_key_def first_dict_def set_first_def
        dset_def apply_recommended_max_output_tokens_def mark_clamp_applied_if_changed_def dget_dset
        split: option.splits)
qed

section \<open>Telemetry is transparent\<close>

definition silent_telemetry :: "'x adapter \<Rightarrow> bool" where
  "silent_telemetry A \<longleftrightarrow> (\<forall>i v t. never_raises (ad_capture_success A i v t)) \<and>
     (\<forall>i e t. never_raises (ad_capture_failure A i e t))"

lemma never_raises_capture_usage: "never_raises (capture_usage p S i m d)"
  unfolding capture_usage_def by (intro never_raises_try never_raises_ret)

lemma adapters_silent:
  "silent_telemetry (openai_adapter S)" "silent_telemetry (anthropic_adapter S)"
  "silent_telemetry (google_adapter S m)"
  by (simp_all add: silent_telemetry_def openai_adapter_def anthropic_adapter_def google_adapter_def
      openai_capture_success_def openai_capture_failure_def anthropic_capture_success_def
      anthropic_capture_failure_def google_capture_success_def google_capture_failure_def
      capture_success_event_def capture_failure_event_def never_raises_capture_usage)

text \<open>The state in which the guards run: the trace context is bound and the clock was read.\<close>

definition call_start :: "'x services \<Rightarrow> 'x sdk \<Rightarrow> 'x sdk" where
  "call_start S w = snd (bnd (bind_current_context S) (\<lambda>_. ext (sv_perf_counter S)) w)"

lemma elapsed_run: "\<exists>n w'. elapsed_ms S t w = (Inr n, w')"
  by (simp add: elapsed_ms_def bnd_def ext_run)

lemma provider_phase:
  assumes s: "\<And>v l. never_raises (s v l)" and f: "\<And>e l. never_raises (f e l)"
  shows "fst (try_except
       (bnd (call m) (\<lambda>v. bnd (elapsed_ms S t) (\<lambda>l. bnd (s v l) (\<lambda>_. ret v))))
       (\<lambda>e. bnd (elapsed_ms S t) (\<lambda>l. bnd (f e l) (\<lambda>_. raise e))) w) = fst (m (sdk_x w))"
proof -
  obtain q x where m: "m (sdk_x w) = (q, x)" by force
  obtain n w1 where e: "elapsed_ms S t (w\<lparr>sdk_x := x\<rparr>) = (Inr n, w1)" using elapsed_run by blast
  show ?thesis
  proof (cases q)
    case (Inl ex)
    obtain u w2 where "f ex n w1 = (Inr u, w2)" by (rule never_raisesE [OF f])
    then show ?thesis using m e Inl by (simp add: try_except_def bnd_def call_run)
  next
    case (Inr v)
    obtain u w2 where "s v n w1 = (Inr u, w2)" by (rule never_raisesE [OF s])
    then show ?thesis using m e Inr by (simp add: try_except_def bnd_def call_run)
  qed
qed

lemma wrapped_call_result:
  assumes "silent_telemetry A" "guarded S A environment feature a (call_start S w) = (g, w1)"
  shows "fst (wrapped_call S A environment endpoint feature original a w) =
     (case g of Inl e \<Rightarrow> Inl e
      | Inr (m, est, d) \<Rightarrow> fst (original (fst (ad_apply_clamp A a d)) (sdk_x w1)))"
proof -
  obtain c w0 where b: "bind_current_context S w = (Inr c, w0)"
    by (rule never_raisesE [OF never_raises_context(2)])
  then have st: "call_start S w = w0\<lparr>sdk_x := snd (sv_perf_counter S (sdk_x w0))\<rparr>"
    by (simp add: call_start_def bnd_def ext_run)
  have fin: "fst (finally_py m (reset_trace_context c) w') = fst (m w')" for m :: "('a sdk, pyval) py" and w'
    by (cases "m w'") (simp add: finally_py_def reset_trace_context_def)
  let ?t = "fst (sv_perf_counter S (sdk_x w0))"
  show ?thesis
  proof (cases g)
    case (Inl e)
    then show ?thesis using assms(2) unfolding wrapped_call_def st
      by (simp add: bnd_Inr [of "bind_current_context S", OF b] fin) (simp add: bnd_def ext_run)
  next
    case (Inr r)
    obtain m est d where r: "r = (m, est, d)" by (cases r)
    have s: "never_raises (ad_capture_success A i v l)" "never_raises (ad_capture_failure A i e l)" for i v l e
      using assms(1) by (simp_all add: silent_telemetry_def)
    have g: "guarded S A environment feature a (w0\<lparr>sdk_x := snd (sv_perf_counter S (sdk_x w0))\<rparr>) = (Inr (m, est, d), w1)"
      using assms(2) Inr r st by simp
    show ?thesis unfolding wrapped_call_def
      by (simp only: bnd_Inr [of "bind_current_context S", OF b] fin)
        (simp only: bnd_Inr [of "ext (sv_perf_counter S)", OF ext_run] bnd_Inr [of "guarded S A environment feature a", OF g]
          prod.case Let_def provider_phase [of "ad_capture_success A _" "ad_capture_failure A _", OF s(1) s(2)]
          Inr r sum.case)
  qed
qed

text \<open>
  C4: instrumenting a client does not change what its caller sees: an admitted call returns or raises
  exactly what the provider does on the (possibly clamped) arguments, whatever happens to the usage
  event, and a refused call raises the refusal.
\<close>

theorem telemetry_transparent:
  assumes "A \<in> {openai_adapter S, anthropic_adapter S, google_adapter S google_model}"
    and "guarded S A environment feature a (call_start S w) = (g, w1)"
  shows "fst (wrapped_call S A environment endpoint feature original a w) =
     (case g of Inl e \<Rightarrow> Inl e
      | Inr (m, est, d) \<Rightarrow> fst (original (fst (ad_apply_clamp A a d)) (sdk_x w1)))"
  by (rule wrapped_call_result [OF _ assms(2)]) (use assms(1) adapters_silent in auto)

theorem telemetry_transparent_witness:
  "fst (wrapped_call (demo_services 0 None) (openai_adapter (demo_services 0 None)) None None None
       (\<lambda>_. ret (PStr ''answer'')) ([], []) (demo_sdk ''open'')) =
     Inl (RHEONICValidationError ''RHEONIC: model must be explicitly provided for provider openai.'')"
proof -
  let ?S = "demo_services 0 None"
  have m: "openai_requested_model ([], []) = None"
    by (simp add: openai_requested_model_def str_at_def first_dict_def)
  have l: "lower (strip ''openai'') = ''openai''"
    by (simp add: strip_def is_space_def lower_def lower_char_def)
  have g: "guarded ?S (openai_adapter ?S) None None ([], []) w =
      (Inl (RHEONICValidationError ''RHEONIC: model must be explicitly provided for provider openai.''), w)" for w
    using m l by (simp add: guarded_def openai_adapter_def Let_def validate_provider_model_def opt_or_def strip_def)
  show ?thesis
    by (subst telemetry_transparent [where google_model = PNone, OF _ g]) simp_all
qed

section \<open>A cooldown stops the calls\<close>

lemma frame_guard_steps:
  assumes "\<And>w x. v (w\<lparr>sdk_x := x\<rparr>) = v w" "\<And>w c. v (w\<lparr>sdk_encoder_cache := c\<rparr>) = v w"
  shows "frame v (estimate_tokens_of S p)" "frame v (validate_provider_model q m)"
proof -
  have "frame v (estimate_input_tokens S p)"
    unfolding estimate_input_tokens_def get_encoder_def Let_def py_raise_sum_def
    by (intro frame_option frame_ret frame_bnd frame_try frame_gets frame_modify assms)
      (simp_all add: frame_def)
  then show "frame v (estimate_tokens_of S p)"
    unfolding estimate_tokens_of_def by (intro frame_try frame_option frame_ret)
  show "frame v (validate_provider_model q m)"
    unfolding validate_provider_model_def Let_def by (intro frame_if frame_raise frame_ret)
qed

text \<open>The clock reads an instant before \<open>u\<close> milliseconds for as long as the call lasts.\<close>

definition clock_before :: "'x services \<Rightarrow> int \<Rightarrow> bool" where
  "clock_before S u \<longleftrightarrow> (\<forall>x. py_trunc (py_mul (fst (sv_time S x)) 1000) < u)"

lemma preflight_start_before:
  assumes "clock_before S u"
  obtains r t s now w' where "preflight_start S c w = (Inr (r, t, s, now), w')" "now < u"
proof -
  obtain q w' where q: "preflight_start S c w = (Inr q, w')"
    by (rule never_raisesE [OF never_raises_preflight_start])
  obtain r t s now where p: "q = (r, t, s, now)" by (cases q)
  have "now < u"
    using q assms unfolding p preflight_start_def now_ms_def clock_before_def
    by (auto simp: bnd_Inr_iff ext_run)
  then show thesis using that q p by blast
qed

lemma guarded_cooldown:
  assumes "pe_cooldown_until_ms (sdk_engine w) = Some u" "clock_before S u"
  shows "\<exists>e w'. guarded S A environment feature a w = (Inl e, w') \<and> sdk_client w' = sdk_client w \<and>
     (case e of RHEONICValidationError _ \<Rightarrow> True
      | RHEONICBlockedError reason _ _ _ _ _ \<Rightarrow>
          reason = opt_or (pe_cooldown_reason (sdk_engine w)) ''cooldown_active''
      | _ \<Rightarrow> False)"
proof (cases "validate_provider_model (ad_provider A) (ad_requested_model A a) w")
  case (Pair v w1)
  have fv: "frame (sdk_client :: 'a sdk \<Rightarrow> Client) (validate_provider_model (ad_provider A) (ad_requested_model A a))"
    by (rule frame_guard_steps(2)) simp_all
  show ?thesis
  proof (cases v)
    case (Inl e)
    have "\<exists>m. e = RHEONICValidationError m"
      using Pair Inl by (auto simp: validate_provider_model_def Let_def split: if_splits)
    then show ?thesis using Pair Inl frameD [OF fv Pair] by (auto simp: guarded_def Let_def bnd_def)
  next
    case (Inr x)
    have w1: "w1 = w" using Pair Inr by (auto simp: validate_provider_model_def Let_def split: if_splits)
    let ?p = "ad_request_payload A (ad_requested_model A a) a"
    let ?w1 = "w\<lparr>sdk_x := snd (sv_perf_counter S (sdk_x w))\<rparr>"
    have nr: "never_raises (estimate_tokens_of S ?p)"
      unfolding estimate_tokens_of_def by (intro never_raises_try never_raises_ret)
    obtain est w2 where e2: "estimate_tokens_of S ?p ?w1 = (Inr est, w2)" by (rule never_raisesE [OF nr])
    have fe: "frame sdk_engine (estimate_tokens_of S ?p)" and fc: "frame sdk_client (estimate_tokens_of S ?p)"
      by (rule frame_guard_steps(1), simp_all)+
    let ?w3 = "w2\<lparr>sdk_x := snd (sv_perf_counter S (sdk_x w2))\<rparr>"
    have w3: "sdk_engine ?w3 = sdk_engine w" "sdk_client ?w3 = sdk_client w"
      using frameD [OF fe e2] frameD [OF fc e2] by simp_all
    let ?ctx = "preflight_context (ad_provider A) (ad_requested_model A a)
      (opt_or environment (cn_environment (sdk_client ?w3))) feature est (ad_max_output_tokens A a)"
    let ?or = "\<lambda>v c. if truth v then v else if c \<noteq> [] then PStr c else PNone"
    let ?c = "dmerge ?ctx [(''trace_id'', ?or (dget ?ctx ''trace_id'') (strip (sdk_trace_id ?w3))),
       (''span_id'', ?or (dget ?ctx ''span_id'') (strip (sdk_span_id ?w3)))]"
    obtain r t s now w4 where ps: "preflight_start S ?c ?w3 = (Inr (r, t, s, now), w4)" "now < u"
      by (rule preflight_start_before [OF assms(2)])
    have cd: "pe_cooldown_until_ms (sdk_engine ?w3) = Some u" using assms(1) w3(1) by simp
    obtain w5 where ev: "evaluate S ?c ?w3 =
        (Inr (local_block u (pe_cooldown_reason (sdk_engine ?w3)) now t r), w5)"
      using evaluate_cached(1) [OF cd ps] by blast
    have pf: "preflight_protect_decision S ?ctx ?w3 =
        (Inr (local_block u (pe_cooldown_reason (sdk_engine ?w3)) now t r), w5)"
      unfolding preflight_protect_decision_def Let_def get_trace_id_def get_span_id_def
      by (rule try_Inr) (simp only: gets_bnd ev)
    have c5: "sdk_client w5 = sdk_client w" 
      using frameD [where v = sdk_client and m = "evaluate S ?c", OF frame_evaluate_client ev] w3(2) by simp
    have "guarded S A environment feature a w =
        (Inl (blocked_error_from_decision (local_block u (pe_cooldown_reason (sdk_engine ?w3)) now t r)), w5)"
      using Pair Inr w1 e2 pf
      by (simp add: guarded_def Let_def bnd_def ext_run client_def local_block_fields(1))
    then show ?thesis using c5 w3(1)
      by (auto simp: blocked_error_from_decision_def local_block_fields str_or_def opt_or_def or_str_def
          split: option.splits)
  qed
qed

text \<open>
  C5: while a cooldown is cached and the clock has not reached its end, no adapter calls the provider:
  the call raises (the blocked error with the cooldown's reason, or the validation error of a call
  without a model), the outcome does not depend on the provider, and no usage event is captured.
\<close>

theorem cooldown_stops_calls:
  assumes "pe_cooldown_until_ms (sdk_engine w) = Some u" "clock_before S u"
  shows "\<exists>e w'. (\<forall>original. wrapped_call S A environment endpoint feature original a w = (Inl e, w')) \<and>
     sdk_client w' = sdk_client w \<and>
     (case e of RHEONICValidationError _ \<Rightarrow> True
      | RHEONICBlockedError reason _ _ _ _ _ \<Rightarrow>
          reason = opt_or (pe_cooldown_reason (sdk_engine w)) ''cooldown_active''
      | _ \<Rightarrow> False)"
proof -
  obtain c w0 where b: "bind_current_context S w = (Inr c, w0)"
    by (rule never_raisesE [OF never_raises_context(2)])
  have fe: "frame sdk_engine (bind_current_context S)" and fc: "frame sdk_client (bind_current_context S)"
    by (rule frame_bind_trace_context(2), simp_all)+
  let ?w0 = "w0\<lparr>sdk_x := snd (sv_perf_counter S (sdk_x w0))\<rparr>"
  have w0: "sdk_engine ?w0 = sdk_engine w" "sdk_client ?w0 = sdk_client w"
    using frameD [OF fe b] frameD [OF fc b] by simp_all
  then have cd: "pe_cooldown_until_ms (sdk_engine ?w0) = Some u" using assms(1) by simp
  obtain e w1 where g: "guarded S A environment feature a ?w0 = (Inl e, w1)" "sdk_client w1 = sdk_client ?w0"
    and k: "case e of RHEONICValidationError _ \<Rightarrow> True
      | RHEONICBlockedError reason _ _ _ _ _ \<Rightarrow>
          reason = opt_or (pe_cooldown_reason (sdk_engine ?w0)) ''cooldown_active''
      | _ \<Rightarrow> False"
    using guarded_cooldown [OF cd assms(2), of A environment feature a] by blast
  have "wrapped_call S A environment endpoint feature original a w =
      (Inl e, w1\<lparr>sdk_trace_id := fst c, sdk_span_id := snd c\<rparr>)" for original
    unfolding wrapped_call_def
    by (simp only: bnd_Inr [of "bind_current_context S", OF b])
      (simp add: finally_py_def bnd_Inr [of "ext (sv_perf_counter S)", OF ext_run]
        bnd_Inl [of "guarded S A environment feature a", OF g(1)] reset_trace_context_def)
  then show ?thesis using g(2) w0(2) k [unfolded w0(1)]
    by (intro exI [of _ e] exI [of _ "w1\<lparr>sdk_trace_id := fst c, sdk_span_id := snd c\<rparr>"]) simp
qed

theorem cooldown_stops_calls_witness:
  "\<exists>e w'. (\<forall>original. openai_wrapped_create (demo_services 1773000000 None) None None None original
       ([], [(''model'', PStr ''gpt-4o'')])
       (demo_sdk ''open'' \<lparr>sdk_engine := (sdk_engine (demo_sdk ''open''))
          \<lparr>pe_cooldown_until_ms := Some 1773000060000\<rparr>\<rparr>) = (Inl e, w')) \<and> sdk_client w' = demo_client"
proof -
  let ?S = "demo_services 1773000000 None"
  let ?w = "demo_sdk ''open'' \<lparr>sdk_engine := (sdk_engine (demo_sdk ''open''))
          \<lparr>pe_cooldown_until_ms := Some 1773000060000\<rparr>\<rparr>"
  have "clock_before ?S 1773000060000" by (simp add: clock_before_def demo_services_def py_mul_def)
  moreover have "pe_cooldown_until_ms (sdk_engine ?w) = Some 1773000060000" by simp
  moreover have "sdk_client ?w = demo_client" by (simp add: demo_sdk_def)
  ultimately show ?thesis
    using cooldown_stops_calls [where w = ?w and u = 1773000060000 and S = ?S and A = "openai_adapter ?S" and
        environment = None and endpoint = None and feature = None and a = "([], [(''model'', PStr ''gpt-4o'')])"]
    unfolding openai_wrapped_create_def by metis
qed

end
