(* ===== verification/End_To_End.thy ===== *)
theory End_To_End
  imports Live_Outcome Sdk_Preflight
begin

text \<open>
  The SDK against the backend: the HTTP client of the SDK's services is the decision endpoint of the
  backend, and both share one world. What a cap breach of the backend means for the program that calls the
  provider follows from the two sides.
\<close>

section \<open>The wire\<close>

text \<open>\<open>ProtectDecisionOut\<close> as JSON; \<open>snapshot_dict\<close> and the clamp are dictionaries already.\<close>

definition clamp_json :: "clamp option \<Rightarrow> pyval" where
  "clamp_json c = (case c of None \<Rightarrow> PNone
     | Some k \<Rightarrow> PDict [(''recommended_max_output_tokens'', PInt (cl_recommended k)), (''applied'', PBool (cl_applied k))])"

definition decision_json :: "decision_out \<Rightarrow> pydict" where
  "decision_json out = [
     (''decision'', PStr (do_decision out)), (''reason'', PStr (do_reason out)), (''fail_mode'', PStr (do_fail_mode out)),
     (''protect_decision_timeout_ms'', PInt (do_timeout_ms out)),
     (''retry_after_seconds'', opt_int (do_retry_after_seconds out)), (''blocked_until'', opt_str (do_blocked_until out)),
     (''snapshot'', PDict (snapshot_dict (do_snapshot out))),
     (''apply_clamp_enabled'', PBool (do_apply_clamp_enabled out)), (''clamp'', clamp_json (do_clamp out))]"

text \<open>The backend's world, and the background tasks the framework has yet to run.\<close>

record 'w deployment =
  dm_backend :: 'w
  dm_tasks :: "background_task list"

definition json_response :: "int \<Rightarrow> pydict \<Rightarrow> response" where
  "json_response status d = \<lparr> rs_status_code = Some (PInt status), rs_json = Some (Inr (PDict d)) \<rparr>"

text \<open>
  A request to the decision endpoint: \<open>parse_in\<close> is FastAPI's reading of the body (\<open>None\<close>: refused). The
  task of a response is handed to the framework.
\<close>

definition serve_decision ::
  "(pydict \<Rightarrow> decision_in option) \<Rightarrow> 'w protect_api \<Rightarrow> pydict \<Rightarrow> headers \<Rightarrow> ('w deployment, response) py" where
  "serve_decision parse_in A body hs = (\<lambda>x.
     case parse_in body of
       None \<Rightarrow> (Inr (json_response 400 []), x)
     | Some payload \<Rightarrow>
         (case protect_decision_endpoint A payload (map_of hs ''X-Project-Ingest-Key'')
              (map_of hs ''X-Rheonic-Protect-Request-Id'') (dm_backend x) of
            (Inr (out, _, task), w) \<Rightarrow>
              (Inr (json_response 200 (decision_json out)),
               x\<lparr> dm_backend := w, dm_tasks := dm_tasks x @ (case task of None \<Rightarrow> [] | Some b \<Rightarrow> [b]) \<rparr>)
          | (Inl (HTTPException code _), w) \<Rightarrow> (Inr (json_response code []), x\<lparr> dm_backend := w \<rparr>)
          | (Inl _, w) \<Rightarrow> (Inr (json_response 500 []), x\<lparr> dm_backend := w \<rparr>)))"

text \<open>An HTTP client whose requests arrive; other endpoints are \<open>rest\<close>.\<close>

definition backend_client ::
  "(pydict \<Rightarrow> decision_in option) \<Rightarrow> 'w protect_api \<Rightarrow> 'w deployment http_client \<Rightarrow> 'w deployment http_client" where
  "backend_client parse_in A rest = rest\<lparr>
     hc_post := \<lambda>url body hs kw. if endswith url ''/api/v1/protect/decision'' then serve_decision parse_in A body hs
       else hc_post rest url body hs kw \<rparr>"

section \<open>One preflight\<close>

lemma strip_nonempty:
  assumes "c \<in> set s" "\<not> is_space c"
  shows "strip s \<noteq> []"
proof
  assume "strip s = []"
  then have all: "\<forall>x \<in> set (dropWhile is_space s). is_space x"
    by (simp add: strip_def dropWhile_eq_Nil_conv)
  have "dropWhile is_space s \<noteq> []" using assms by (auto simp: dropWhile_eq_Nil_conv)
  then show False using all hd_dropWhile [of is_space s] hd_in_set by blast
qed

lemma strip_iso: "strip (iso_of_ms u) \<noteq> []"
proof (rule strip_nonempty)
  show "CHR ''T'' \<in> set (iso_of_ms u)"
    by (simp add: iso_of_ms_def isoformat_def Let_def case_prod_beta)
  show "\<not> is_space (CHR ''T'')" by code_simp
qed

lemma decision_json_fields:
  "dget (decision_json out) ''decision'' = PStr (do_decision out)"
  "dget (decision_json out) ''reason'' = PStr (do_reason out)"
  "dget (decision_json out) ''blocked_until'' = opt_str (do_blocked_until out)"
  by (simp_all add: decision_json_def)

text \<open>What a payload that blocks and announces an end becomes.\<close>

lemma handle_block:
  assumes "dget payload ''decision'' = PStr ''block''" "dget payload ''reason'' = PStr reason" "reason \<noteq> []"
    and "dget payload ''blocked_until'' = PStr (iso_of_ms u)"
  shows "returns (\<lambda>d. dget d ''decision'' = PStr ''block'' \<and> dget d ''reason'' = PStr reason \<and>
     dget d ''blocked_until'' = PStr (iso_of_ms u)) (handle_payload S payload t r)"
  unfolding handle_payload_def Let_def decision_result_def
  by (intro returns_bnd)
    (simp add: assms str_or_def dget_result_clamp dget_dset_if strip_iso; simp add: dset_if_def dget_dset)

section \<open>A breach stops the program\<close>

text \<open>Services whose clock and ids leave the backend alone: during the call it is \<open>tm\<close> and the ids are \<open>uid\<close>.\<close>

definition steady :: "'x services \<Rightarrow> rat \<Rightarrow> string \<Rightarrow> bool" where
  "steady S tm uid \<longleftrightarrow> (\<forall>x. sv_time S x = (tm, x)) \<and> (\<forall>x. sv_uuid4_hex S x = (uid, x))"

lemma steady_gen:
  assumes "steady S tm uid"
  obtains t where "or_gen s (generate_trace_id S) w = (Inr t, w)"
  using assms by (cases "s = []") (auto simp: steady_def or_gen_def generate_trace_id_def uuid4_hex_def bnd_def ext_run)

lemma steady_gen_span:
  assumes "steady S tm uid"
  obtains t where "or_gen s (generate_span_id S) w = (Inr t, w)"
  using assms by (cases "s = []") (auto simp: steady_def or_gen_def generate_span_id_def uuid4_hex_def bnd_def ext_run)

lemma steady_start:
  assumes "steady S tm uid"
  obtains t s where "preflight_start S context w = (Inr (uid, t, s, py_trunc (py_mul tm 1000)), w)"
proof -
  obtain t where 1: "or_gen (str_of (dget context ''trace_id'')) (generate_trace_id S) w = (Inr t, w)"
    by (rule steady_gen [OF assms])
  obtain s where 2: "or_gen (str_of (dget context ''span_id'')) (generate_span_id S) w = (Inr s, w)"
    by (rule steady_gen_span [OF assms])
  have "preflight_start S context w = (Inr (uid, t, s, py_trunc (py_mul tm 1000)), w)"
    using assms 1 2 by (simp add: preflight_start_def uuid4_hex_def now_ms_def bnd_def ext_run steady_def)
  then show ?thesis by (rule that)
qed

lemma steady_bind:
  assumes "steady S tm uid"
  obtains t' s' where "bind_trace_context S t s w = (Inr (sdk_trace_id w, sdk_span_id w), w\<lparr>sdk_trace_id := t', sdk_span_id := s'\<rparr>)"
proof -
  obtain t' where 1: "or_gen (strip t) (generate_trace_id S) w = (Inr t', w)" by (rule steady_gen [OF assms])
  obtain s' where 2: "or_gen (strip s) (generate_span_id S) w = (Inr s', w)" by (rule steady_gen_span [OF assms])
  show ?thesis using 1 2 by (intro that) (simp add: bind_trace_context_def bnd_def)
qed

lemma handle_payload_world:
  assumes "steady S tm uid" "handle_payload S payload t r w = (Inr d, w')"
  shows "sdk_x w' = sdk_x w"
proof -
  have n: "frame sdk_x (now_ms S)" using assms(1) by (simp add: frame_def now_ms_run steady_def)
  have e: "frame sdk_x (engine f)" "frame sdk_x (set_engine g)" for f :: "ProtectEngine \<Rightarrow> 'e" and g
    by (simp_all add: engine_def set_engine_def frame_def)
  have a: "frame sdk_x (adopt_fail_mode f)" "frame sdk_x (adopt_decision_timeout x)" for f x
    unfolding adopt_fail_mode_def adopt_decision_timeout_def
    by (intro frame_when frame_option frame_ret e)+
  have u: "frame sdk_x (update_cooldown S b)" for b
    unfolding update_cooldown_def
    by (intro frame_bnd frame_option frame_if frame_ret frame_when n e)
  have "frame sdk_x (handle_payload S payload t r)"
    unfolding handle_payload_def Let_def by (intro frame_bnd frame_ret e a u)
  then show ?thesis using assms(2) frameD by fastforce
qed

text \<open>The request to the decision endpoint, when the backend answers \<open>out\<close>.\<close>

lemma ask_served:
  assumes "sv_http S = Some (backend_client parse_in A rest)" "parse_in (sanitize_protect_context context) = Some payload"
    and "protect_decision_endpoint A payload (Some (pe_ingest_key (sdk_engine w))) (Some r) (dm_backend (sdk_x w)) =
      (Inr (out, lat, task), b)"
  shows "ask_backend S context t r secs w =
     handle_payload S (decision_json out) t r (w\<lparr>sdk_x := (sdk_x w)\<lparr> dm_backend := b,
        dm_tasks := dm_tasks (sdk_x w) @ (case task of None \<Rightarrow> [] | Some k \<Rightarrow> [k]) \<rparr>\<rparr>)"
proof -
  have e: "endswith (pe_base_url (sdk_engine w) @ ''/api/v1/protect/decision'') ''/api/v1/protect/decision''"
    by (simp add: endswith_def)
  show ?thesis
    unfolding ask_backend_def
    by (simp add: engine_def get_trace_id_def get_span_id_def bnd_def post_with_timeout_def except_type_error_def
        try_except_def call_run assms backend_client_def e serve_decision_def json_response_def status_code_of_def
        parse_json_payload_def)
qed

text \<open>
  C3: the two programs together. When the backend finds a cap reached by a new request of the SDK, that
  preflight is blocked with the backend's reason and end of the cooldown; the backend has stored the
  cooldown to the same millisecond and handed over its background work once; and until that millisecond every
  preflight of the same engine is blocked with the same end, whatever its services do.
\<close>

theorem breach_stops_sdk:
  assumes "sv_http S = Some (backend_client parse_in A rest)" "steady S tm uid" "uid \<noteq> []"
    and "parse_in (sanitize_protect_context context) = Some payload"
    and "api_env A R ok sv zv"
    and "evaluated A (pe_ingest_key (sdk_engine w)) payload (dm_backend (sdk_x w)) pid d project lat b" "ok b"
    and p: "p = scoped_project_provider_id pid (Some (di_provider payload))"
    and "ledger_view (sv b) (zv b) p L" "ledger_room L" "l_outcomes L uid = None"
    and "pr_protect_enabled project" "breach d u secs"
    and "pe_cooldown_until_ms (sdk_engine w) = None" "py_trunc (py_mul tm 1000) < u"
  shows "\<exists>ans w'. evaluate S context w = (Inr ans, w') \<and> dget ans ''decision'' = PStr ''block'' \<and>
     dget ans ''reason'' = PStr (d_reason d) \<and> dget ans ''blocked_until'' = PStr (iso_of_ms u) \<and>
     dm_tasks (sdk_x w') = dm_tasks (sdk_x w) @ [task_of payload pid d (Some uid) lat] \<and>
     get_block_cooldown_until_ms R p (dm_backend (sdk_x w')) = (Inr (Some u), dm_backend (sdk_x w')) \<and>
     (\<forall>T ctx w2 r t s now w3. sdk_engine w2 = sdk_engine w' \<and>
        preflight_start T ctx w2 = (Inr (r, t, s, now), w3) \<and> now < u \<longrightarrow>
        (\<exists>ans2 w4. evaluate T ctx w2 = (Inr ans2, w4) \<and> dget ans2 ''decision'' = PStr ''block'' \<and>
           dget ans2 ''blocked_until'' = PStr (iso_of_ms u)))"
proof -
  have u: "2 ^ 40 < u" "u < 2 ^ 31 * 1000" using assms(13) by (simp_all add: breach_def)
  obtain t s where start: "preflight_start S context w = (Inr (uid, t, s, py_trunc (py_mul tm 1000)), w)"
    by (rule steady_start [OF assms(2)])
  obtain t' s' where bind: "bind_trace_context S t s w = (Inr (sdk_trace_id w, sdk_span_id w),
      w\<lparr>sdk_trace_id := t', sdk_span_id := s'\<rparr>)" by (rule steady_bind [OF assms(2)])
  let ?w1 = "w\<lparr>sdk_trace_id := t', sdk_span_id := s'\<rparr>"
  obtain b' where b': "protect_decision_endpoint A payload (Some (pe_ingest_key (sdk_engine w))) (Some uid) (dm_backend (sdk_x w)) =
       (Inr (decision_response d, py_str_int lat, Some (task_of payload pid d (Some uid) lat)), b')"
     "get_block_cooldown_until_ms R p b' = (Inr (Some u), b')"
    using breach_starts_cooldown [OF assms(5,6,7) p assms(9,10,3,11,12,13)] by blast
  let ?x = "(sdk_x w)\<lparr> dm_backend := b', dm_tasks := dm_tasks (sdk_x w) @ [task_of payload pid d (Some uid) lat] \<rparr>"
  let ?w2 = "?w1\<lparr>sdk_x := ?x\<rparr>" and ?P = "decision_json (decision_response d)"
  let ?secs = "py_div (of_int (max (pe_decision_timeout_ms (sdk_engine w)) 1)) 1000"
  have ask: "ask_backend S context t uid ?secs ?w1 = handle_payload S ?P t uid ?w2"
    using ask_served [OF assms(1,4), of ?w1 uid "decision_response d" "py_str_int lat" "Some (task_of payload pid d (Some uid) lat)" b' t ?secs]
      b'(1) by simp
  obtain ans w3 where h: "handle_payload S ?P t uid ?w2 = (Inr ans, w3)"
    by (rule never_raisesE [OF never_raises_handle])
  have pay: "dget ?P ''decision'' = PStr ''block''" "dget ?P ''reason'' = PStr (d_reason d)" "d_reason d \<noteq> []"
    "dget ?P ''blocked_until'' = PStr (iso_of_ms u)"
    using assms(13) by (auto simp: decision_json_fields decision_response_def breach_def opt_str_def)
  have ans: "dget ans ''decision'' = PStr ''block''" "dget ans ''reason'' = PStr (d_reason d)"
    "dget ans ''blocked_until'' = PStr (iso_of_ms u)"
    using returnsD [OF handle_block [OF pay] h] by simp_all
  have x: "sdk_x w3 = ?x"
    using handle_payload_world [OF assms(2) h] by simp
  have c: "pe_cooldown_until_ms (sdk_engine w3) = Some u" 
    using handle_payload_caches [OF h pay(4) u] assms(2,15) by (simp add: clock_ms_def steady_def)
  let ?last = "w3\<lparr>sdk_trace_id := sdk_trace_id w, sdk_span_id := sdk_span_id w\<rparr>"
  have run: "evaluate S context w = (Inr ans, ?last)"
    using start bind ask h assms(14)
    by (simp add: evaluate_def evaluate_remote_def bnd_def engine_def try_except_def finally_py_def reset_trace_context_def)
  have later: "\<exists>ans2 w4. evaluate T ctx w2 = (Inr ans2, w4) \<and> dget ans2 ''decision'' = PStr ''block'' \<and>
           dget ans2 ''blocked_until'' = PStr (iso_of_ms u)"
    if "sdk_engine w2 = sdk_engine ?last" "preflight_start T ctx w2 = (Inr (r, t, s, now), w4)" "now < u" for T ctx w2 r t s now w4
  proof -
    have "pe_cooldown_until_ms (sdk_engine w2) = Some u" using c that(1) by simp
    from evaluate_cached(1) [OF this that(2,3)] obtain w5 where
      "evaluate T ctx w2 = (Inr (local_block u (pe_cooldown_reason (sdk_engine w2)) now t r), w5)" ..
    moreover have "0 < u" using u(1) by (rule less_trans [rotated]) simp
    ultimately show ?thesis using local_block_fields(1,3) format_iso_of_ms by (auto simp: opt_str_def)
  qed
  have tasks: "dm_tasks (sdk_x ?last) = dm_tasks (sdk_x w) @ [task_of payload pid d (Some uid) lat]" using x by simp
  have cool: "get_block_cooldown_until_ms R p (dm_backend (sdk_x ?last)) = (Inr (Some u), dm_backend (sdk_x ?last))"
    using x b'(2) by simp
  show ?thesis
    by (rule exI [of _ ans], rule exI [of _ ?last]) (intro conjI run ans tasks cool allI impI later; elim conjE; assumption)
qed

section \<open>An instance\<close>

text \<open>A body whose fields have their types and that has no others.\<close>

definition opt_field :: "(pyval \<Rightarrow> 'a option) \<Rightarrow> pydict \<Rightarrow> string \<Rightarrow> 'a option option" where
  "opt_field f d k = (if dget d k = PNone then Some None else map_option Some (f (dget d k)))"

definition read_decision_in :: "pydict \<Rightarrow> decision_in option" where
  "read_decision_in d =
     (case (as_str (dget d ''provider''), opt_field as_str d ''requested_model'', opt_field as_str d ''environment'',
            opt_field as_str d ''feature'', opt_field as_int d ''max_output_tokens'', opt_field as_int d ''input_tokens_estimate'') of
        (Some p, Some m, Some env, Some f, Some out, Some inp) \<Rightarrow>
          if list_all (\<lambda>(k, _). k = ''provider'' \<or> k \<in> set context_keys) d
          then Some \<lparr> di_provider = p, di_requested_model = m, di_environment = env, di_feature = f,
                      di_max_output_tokens = out, di_input_tokens_estimate = inp \<rparr>
          else None
      | _ \<Rightarrow> None)"

definition joint_world :: "fake_redis_state deployment sdk" where
  "joint_world = \<lparr> sdk_trace_id = [], sdk_span_id = [], sdk_engine = protect_engine_init ''u'' ''key'' ''dev'' 1 ''open'' 300,
     sdk_client = demo_client, sdk_encoder_cache = [],
     sdk_x = \<lparr> dm_backend = fake_empty, dm_tasks = [] \<rparr> \<rparr>"

definition joint_services :: "fake_redis_state deployment services" where
  "joint_services = \<lparr>
     sv_time = \<lambda>x. (1773000000, x), sv_monotonic = \<lambda>x. (0, x), sv_perf_counter = \<lambda>x. (0, x), sv_now = \<lambda>x. (0, x),
     sv_uuid4_hex = \<lambda>x. (''r1'', x), sv_uniform = \<lambda>a b x. (a, x), sv_sleep = \<lambda>_ x. ((), x),
     sv_http = Some (backend_client read_decision_in (demo_api 0 1000)
       \<lparr> hc_post = \<lambda>_ _ _ _. raise TimeoutError, hc_get = \<lambda>_ _ _. raise TimeoutError, hc_close = ret () \<rparr>),
     sv_tiktoken = None, sv_float_repr = \<lambda>_. ''0.0'', sv_exc_class = \<lambda>_. ''Error'', sv_exc_str = \<lambda>_. [],
     sv_exc_attr = \<lambda>_ _. PNone, sv_environ = \<lambda>_. None, sv_setattr = \<lambda>_ _ _. Inl TypeError \<rparr>"

theorem breach_stops_sdk_witness:
  "\<exists>ans w'. evaluate joint_services [(''provider'', PStr ''openai''), (''max_output_tokens'', PInt 500),
       (''input_tokens_estimate'', PInt 300)] joint_world = (Inr ans, w') \<and>
     dget ans ''decision'' = PStr ''block'' \<and> dget ans ''blocked_until'' = PStr (iso_of_ms 1773000060000) \<and>
     get_block_cooldown_until_ms mem_redis ''p1:openai'' (dm_backend (sdk_x w')) =
       (Inr (Some 1773000060000), dm_backend (sdk_x w'))"
proof -
  let ?ctx = "[(''provider'', PStr ''openai''), (''max_output_tokens'', PInt 500), (''input_tokens_estimate'', PInt 300)]"
  have parsed: "read_decision_in (sanitize_protect_context ?ctx) = Some demo_payload"
    by (simp add: read_decision_in_def sanitize_protect_context_def context_keys_def opt_field_def dset_def demo_payload_def)
  have key: "pe_ingest_key (sdk_engine joint_world) = ''key''" "dm_backend (sdk_x joint_world) = fake_empty"
    "pe_cooldown_until_ms (sdk_engine joint_world) = None"
    by (simp_all add: joint_world_def protect_engine_init_def)
  have p: "''p1:openai'' = scoped_project_provider_id ''p1'' (Some (di_provider demo_payload))"
    by (simp add: demo_payload_def demo_scope)
  have e: "l_outcomes empty_ledger ''r1'' = None" "pr_protect_enabled example_project"
    by (simp_all add: empty_ledger_def example_project_def)
  have none: "get_block_cooldown_until_ms fake_redis ''p1:openai'' fake_empty = (Inr None, fake_empty)"
    using demo_no_cooldown [OF fake_empty_views(1) fake_empty_ledger] by (simp add: empty_ledger_def cooldown_of_def)
  have http: "sv_http joint_services = Some (backend_client read_decision_in (demo_api 0 1000)
       \<lparr> hc_post = \<lambda>_ _ _ _. raise TimeoutError, hc_get = \<lambda>_ _ _. raise TimeoutError, hc_close = ret () \<rparr>)"
    by (simp add: joint_services_def)
  have ev: "evaluated (demo_api 0 1000) (pe_ingest_key (sdk_engine joint_world)) demo_payload (dm_backend (sdk_x joint_world)) ''p1''
     (decide (example_service_at 0 1000) example_project example_context 1773000000000 None 0 1000) example_project 0 fake_empty"
    using demo_evaluated [OF none, of 0 1000] by (simp add: key)
  have steady: "steady joint_services 1773000000 ''r1''" by (simp add: steady_def joint_services_def)
  have tm: "py_trunc (py_mul 1773000000 1000) < 1773000060000" by (simp add: py_mul_def)
  show ?thesis
    using breach_stops_sdk [OF http steady _ parsed demo_env ev
        fake_empty_views(1) p fake_empty_ledger room_empty e demo_breach key(3) tm] key(2) by auto
qed

end
