(* ===== verification/Spec2Isabelle.thy ===== *)
theory Spec2Isabelle
  imports Log_Format Email_Templates Recurring_Jobs Deploy_Settings Http_Layer Mail_Transport Db_Session Db_Schema Sdk_Module
    Rolling_Window Outcome_Ledger Action_Store_Facts Decision_Table Incident_Lifecycle Detector_Facts
    Transport_Liveness Live_Outcome Key_Lifecycle Auth_Facts Auth_Api Events_Api Metrics_Service Webhook_Api Project_Api Feedback_Api Ingest_Facts Sdk_Queue Adapter_Facts End_To_End
begin

text \<open>
  Rheonic: verification development.

  Rheonic watches and limits the calls a program makes to providers of language models. Its parts, under
  \<open>src/\<close>, are the Python backend (\<open>backend/app\<close>, a FastAPI application over PostgreSQL, Redis and a job
  queue) and the Python SDK (\<open>sdk-python/src/rheonic\<close>) that wraps the clients of OpenAI, Anthropic and Google.
  Before a call the SDK asks the backend for a decision: allow, clamp or block. The backend decides from the
  project's settings, the requests and tokens of the last 60 seconds and a cooldown. After the call the SDK
  queues a usage event, which the backend stores, counts and searches for anomalies. Blocks and anomalies are
  incidents; incidents and decisions are announced by webhook and email through an outbox.

  \<^bold>\<open>How the model reads.\<close> A Python computation is a function of type \<open>('w, 'a) py\<close> from a world \<open>'w\<close> to an
  exception or a value and the world after it; \<open>bnd\<close>, \<open>try_except\<close> and \<open>finally_py\<close> are Python's sequencing and
  handlers, and every raise, early return and handler of the code is a branch. A class with collaborators is a
  record of its attributes and of the operations it calls; a \<open>dict\<close> of unknown content is an association list
  of \<open>pyval\<close>. Python's integers are \<open>int\<close>; its floats are the rationals they denote, rounded by \<open>fl\<close> after
  every operation; an aware \<open>datetime\<close> is its number of microseconds. Log output is left out of the handlers and
  modelled in \<open>Log_Format\<close>.

  \<^bold>\<open>Foundations.\<close>
  \<^item> \<open>Prelude\<close>: the monad with its rules (\<open>py_run\<close>), the frame and never-raises calculi, strings and numbers.
  \<^item> \<open>Float64\<close>, \<open>Py_Time\<close>, \<open>Py_Value\<close>: doubles, instants with \<open>isoformat\<close> and \<open>fromisoformat\<close>, values with JSON.
  \<^item> \<open>Config\<close>, \<open>Settings\<close>, \<open>Deploy_Settings\<close> (\<open>app/config.py\<close>): constants, derived settings, start-up checks.
  \<^item> \<open>Domain\<close>, \<open>Input_Validation\<close>: \<open>app/domain/models\<close>, \<open>app/application/input_validation.py\<close>.
  \<^item> \<open>Redis\<close>: the client wrapper, and the contracts \<open>redis_contract\<close> and \<open>redis_zset_contract\<close>, interpreted on
    the in-memory client of the repository's tests and on one that keeps integer members.
  \<^item> \<open>Db_Table\<close>: a table as the repositories use it, with the contract \<open>db_contract\<close>, interpreted on a list.
  \<^item> \<open>Db_Session\<close>, \<open>Db_Schema\<close>: \<open>app/infrastructure/db/base.py\<close>; the tables of \<open>models.py\<close> against the migration.

  \<^bold>\<open>Decisions of the backend.\<close>
  \<^item> \<open>Rolling_Window\<close> (\<open>rolling_window.py\<close>): reads refine a history of requests.
  \<^item> \<open>Protect_Action_Store\<close>, \<open>Action_Store_Facts\<close>, \<open>Outcome_Ledger\<close> (\<open>protect_action_store.py\<close>): one canonical
    outcome for each request, the counters as an abstraction of it, cooldowns and health.
  \<^item> \<open>Protect_Service\<close>, \<open>Decision_Table\<close> (\<open>protect_service.py\<close>): the decision refines a table over settings,
    counters, cooldown and clock.
  \<^item> \<open>Protect_Api\<close>, \<open>Live_Outcome\<close> (\<open>api/v1/protect.py\<close>): the endpoints, the background task as returned data,
    and the life of an outcome across decision, fallback and report.

  \<^bold>\<open>Events and incidents.\<close>
  \<^item> \<open>Detectors\<close>, \<open>Detector_Facts\<close> (\<open>app/domain/detectors\<close>): retry storms, loops, token explosions.
  \<^item> \<open>Event_Repository\<close>, \<open>Ingest_Service\<close>, \<open>Ingest_Facts\<close>, \<open>Events_Api\<close>: storing, counting and detecting, over
    the contracts \<open>event_store\<close> and \<open>incident_store\<close>; idempotency keys and the rate limit of the endpoint.
  \<^item> \<open>Incident_Repository\<close>, \<open>Incident_Manager\<close>, \<open>Incident_Service\<close>: opening, refreshing and closing incidents;
    \<open>Incident_Episodes\<close>, \<open>Incident_Reconcile\<close>, \<open>Incident_Lifecycle\<close>: what they promise, the last as an invariant of
    a step relation over all operations.

  \<^bold>\<open>Notifications.\<close>
  \<^item> \<open>Transport_Service\<close>, \<open>Outbox_Repository\<close>, \<open>Transport_Job\<close>: deduplicated rows of the outbox and their delivery;
    \<open>Transport_Effects\<close>, \<open>Transport_Liveness\<close>: the job refines the life cycle of a row, and a worker empties the queue.
  \<^item> \<open>Webhook_Api\<close>: which targets are accepted. \<open>Email_Templates\<close>, \<open>Mail_Transport\<close>: the emails and their transport.

  \<^bold>\<open>Users, projects and the rest of the backend.\<close>
  \<^item> \<open>Project_Repository\<close>, \<open>Project_Service\<close>, \<open>Project_Api\<close>, \<open>Key_Lifecycle\<close>: projects and ingest keys, over the
    contract \<open>project_db\<close> of the five tables.
  \<^item> \<open>Auth_Service\<close>, \<open>Auth_Facts\<close>, \<open>Auth_Api\<close>: accounts, sessions and cookies, over \<open>user_store\<close> and \<open>session_store\<close>.
  \<^item> \<open>Metrics_Service\<close>, \<open>Feedback_Api\<close>, \<open>Recurring_Jobs\<close>: the dashboard, feedback, the scheduler's jobs.
  \<^item> \<open>Http_Layer\<close> (\<open>main.py\<close>): middleware, error responses, health. \<open>Log_Format\<close>: the log lines of both programs.

  \<^bold>\<open>The SDK.\<close>
  \<^item> \<open>Sdk_World\<close>, \<open>Sdk_Events\<close>, \<open>Token_Estimator\<close>: its state and services, events, the local token estimate.
  \<^item> \<open>Sdk_Engine\<close>, \<open>Sdk_Preflight\<close> (\<open>protect_engine.py\<close>): the preflight, its cooldown cache and fail modes.
  \<^item> \<open>Sdk_Client\<close>, \<open>Sdk_Queue\<close>, \<open>Sdk_Module\<close> (\<open>client.py\<close>): construction, the bounded queue under any interleaving of
    threads, flushing, the HTTP transports and the default client.
  \<^item> \<open>Sdk_Adapter\<close>, \<open>Provider_Adapters\<close>, \<open>Adapter_Facts\<close> (\<open>providers/\<close>): the wrappers, with the clamp as the locales
    \<open>output_clamp\<close> and \<open>exact_clamp\<close>.
  \<^item> \<open>End_To_End\<close>: the SDK's preflight against the backend's decision endpoint, over one world.

  \<^bold>\<open>Interfaces.\<close> What a component needs of another is a locale: the contracts of Redis, tables, stores and the
  scheduler, the delivery environment (\<open>delivery_env\<close>, \<open>worker\<close>) and the clamp. Clients prove their lemmas once inside; the
  implementations enter by \<open>sublocale\<close> (events, incidents, accounts, sessions and the outbox
  on any table that keeps \<open>db_contract\<close>) and by
  \<open>interpretation\<close>, on which the properties and their examples rest.

  \<^bold>\<open>Parameters.\<close> Code outside \<open>src/\<close> is an argument of the definitions: Redis and the database by their contracts,
  the job queue, HTTP clients, DNS and address classes, URL parsing, bcrypt, JWT, SHA-256, key and uuid generators,
  clocks, \<open>tiktoken\<close>, base64 and \<open>float.__repr__\<close>. A clock or an id is a value where the code reads it once, and a
  computation where the order of reads matters. The contracts state documented behaviour: a unique constraint
  raises and leaves the table as it was, a command on a sorted set answers by score. FastAPI's validation and
  the order of its middleware are as documented.

  \<^bold>\<open>Bounds.\<close> Doubles are exact on integers up to \<open>2 ^ 53\<close>, which bounds the millisecond scores of the windows;
  counters stay below \<open>2 ^ 62\<close>, where Redis does not overflow; instants lie between 1970 and 9994, where doubles
  separate microseconds. Recursion is structural or has a measure (the flush loop: the length of the queue). The
  one fuel is that of the JSON reader, the length of its text, and every member uses at least one character. A worker empties
  the queue within a number of steps computed from the attempts that are left.

  \<^bold>\<open>Not modelled.\<close> Text is one byte to a character: letters beyond Latin-1 do not occur, and case follows ASCII.
  Two requests interleave in the model where the code shares state without a transaction (outbox, refresh
  sessions, SDK queue, incident operations); elsewhere an operation runs alone. The asynchronous wrappers of
  the adapters have the statements of the synchronous ones. Left out are start-up and wiring (\<open>dependencies.py\<close>
  but for the current user, routers, lifespan, logging set-up, Alembic's driver, RQ workers), the CORS
  middleware, \<open>atexit\<close>, debug output and the slow-query log: they call frameworks and compute nothing. The
  Node SDK and the dashboard are written in TypeScript.
\<close>

end
